(* ===== verification/Prelude.thy ===== *)
theory Prelude
  imports Main "HOL-Library.Word" "HOL-Library.Char_ord" "HOL-Library.List_Lexorder"
begin

text \<open>
  What every component of the development shares: the types that stand for Python's
  values, the parts of Python's string library the sources use, the exceptions of the
  application layer, and generic facts on lists.

  \<^item> A UUID is a 128-bit value (\<open>uuid\<close>); \<open>uuid_str\<close> is \<open>str(uuid)\<close>.
  \<^item> An aware datetime is its instant, in microseconds (\<open>instant\<close>); a timedelta is a
    difference of instants.
  \<^item> A Python string is a list of code points. It is modelled as a HOL \<open>string\<close>, whose
    characters are the code points U+0000 to U+00FF; on those, \<open>strip\<close>, \<open>split\<close>,
    \<open>upper\<close>, \<open>lower\<close> and \<open>casefold\<close> below compute what Python computes, except
    that the three characters whose case mapping leaves the range (micro sign, sharp s in
    \<open>upper\<close> aside, and y with diaeresis in \<open>upper\<close>) are left as they are.
\<close>

section \<open>Collections and rule sets\<close>

named_theorems strip_simps \<open>normalisation of stripped strings\<close>

section \<open>Identifiers and time\<close>

type_synonym uuid = "128 word"

type_synonym instant = int

definition seconds :: "int \<Rightarrow> int" where
  "seconds n = n * 1000000"

definition minutes :: "int \<Rightarrow> int" where
  "minutes n = seconds (60 * n)"

section \<open>Strings\<close>

definition code :: "char \<Rightarrow> nat" where
  "code c = of_char c"

text \<open>\<open>str.isspace\<close> of one character, the set \<open>strip\<close> and \<open>split\<close> use.\<close>

definition py_space :: "char \<Rightarrow> bool" where
  "py_space c =
     (let n = code c in (9 \<le> n \<and> n \<le> 13) \<or> (28 \<le> n \<and> n \<le> 32) \<or> n = 133 \<or> n = 160)"

definition lstrip :: "string \<Rightarrow> string" where
  "lstrip s = dropWhile py_space s"

definition strip :: "string \<Rightarrow> string" where
  "strip s = rev (lstrip (rev (lstrip s)))"

text \<open>\<open>str.strip\<close> of an optional value that is guarded by its truthiness, as in
  \<open>x.strip() if x else None\<close>: both \<open>None\<close> and the empty string give \<open>None\<close>.\<close>

definition strip_or_None :: "string option \<Rightarrow> string option" where
  "strip_or_None v = (case v of None \<Rightarrow> None | Some s \<Rightarrow> if s = [] then None else Some (strip s))"

text \<open>\<open>x.strip() if x else ""\<close> and \<open>(x or "").strip()\<close>.\<close>

definition strip_or_empty :: "string option \<Rightarrow> string" where
  "strip_or_empty v = (case v of None \<Rightarrow> [] | Some s \<Rightarrow> strip s)"

text \<open>The truth value of an optional string: \<open>None\<close> and the empty string are false.\<close>

definition truthy :: "string option \<Rightarrow> bool" where
  "truthy v = (case v of None \<Rightarrow> False | Some s \<Rightarrow> s \<noteq> [])"

definition or_empty :: "string option \<Rightarrow> string" where
  "or_empty v = (case v of None \<Rightarrow> [] | Some s \<Rightarrow> s)"

definition ascii_upper_range :: "nat \<Rightarrow> bool" where
  "ascii_upper_range n = (65 \<le> n \<and> n \<le> 90)"

definition upper_char :: "char \<Rightarrow> string" where
  "upper_char c =
     (let n = code c in
      if (97 \<le> n \<and> n \<le> 122) \<or> (224 \<le> n \<and> n \<le> 254 \<and> n \<noteq> 247) then [char_of (n - 32)]
      else if n = 223 then ''SS'' else [c])"

definition lower_char :: "char \<Rightarrow> string" where
  "lower_char c =
     (let n = code c in
      if ascii_upper_range n \<or> (192 \<le> n \<and> n \<le> 222 \<and> n \<noteq> 215) then [char_of (n + 32)] else [c])"

definition casefold_char :: "char \<Rightarrow> string" where
  "casefold_char c = (if code c = 223 then ''ss'' else lower_char c)"

definition upper :: "string \<Rightarrow> string" where
  "upper s = concat (map upper_char s)"

definition lower :: "string \<Rightarrow> string" where
  "lower s = concat (map lower_char s)"

definition casefold :: "string \<Rightarrow> string" where
  "casefold s = concat (map casefold_char s)"

text \<open>\<open>str.split()\<close>: the maximal runs of non-space characters.\<close>

function split_ws :: "string \<Rightarrow> string list" where
  "split_ws s =
     (case dropWhile py_space s of
        [] \<Rightarrow> []
      | c # cs \<Rightarrow> (c # takeWhile (\<lambda>x. \<not> py_space x) cs)
                   # split_ws (dropWhile (\<lambda>x. \<not> py_space x) cs))"
  by pat_completeness auto
termination
proof (relation "measure length", simp)
  fix s c cs
  assume "dropWhile py_space s = c # cs"
  then have "length (c # cs) \<le> length s" by (metis length_dropWhile_le)
  moreover have "length (dropWhile (\<lambda>x. \<not> py_space x) cs) \<le> length cs"
    by (rule length_dropWhile_le)
  ultimately show "(dropWhile (\<lambda>x. \<not> py_space x) cs, s) \<in> measure length" by simp
qed

declare split_ws.simps [simp del]

text \<open>\<open>sep.join(xs)\<close>.\<close>

fun join :: "string \<Rightarrow> string list \<Rightarrow> string" where
  "join sep [] = []"
| "join sep [x] = x"
| "join sep (x # y # ys) = x @ sep @ join sep (y # ys)"

section \<open>Numerals and identifiers as text\<close>

definition dec_digit :: "nat \<Rightarrow> char" where
  "dec_digit d = char_of (48 + d)"

fun nat_str :: "nat \<Rightarrow> string" where
  "nat_str n = (if n < 10 then [dec_digit n] else nat_str (n div 10) @ [dec_digit (n mod 10)])"

declare nat_str.simps [simp del]

definition int_str :: "int \<Rightarrow> string" where
  "int_str i = (if i < 0 then ''-'' @ nat_str (nat (- i)) else nat_str (nat i))"

definition hex_digit :: "nat \<Rightarrow> char" where
  "hex_digit d = (if d < 10 then char_of (48 + d) else char_of (87 + d))"

text \<open>The last \<open>k\<close> hexadecimal digits of \<open>n\<close>, lower case, most significant first.\<close>

fun hex_fixed :: "nat \<Rightarrow> nat \<Rightarrow> string" where
  "hex_fixed 0 n = []"
| "hex_fixed (Suc k) n = hex_fixed k (n div 16) @ [hex_digit (n mod 16)]"

definition uuid_str :: "uuid \<Rightarrow> string" where
  "uuid_str u =
     (let h = hex_fixed 32 (unat u) in
      take 8 h @ ''-'' @ take 4 (drop 8 h) @ ''-'' @ take 4 (drop 12 h) @ ''-''
      @ take 4 (drop 16 h) @ ''-'' @ drop 20 h)"

section \<open>Facts on stripped strings\<close>

lemma lstrip_Nil [simp]: "lstrip [] = []"
  by (simp add: lstrip_def)

lemma strip_Nil [simp]: "strip [] = []"
  by (simp add: strip_def)

lemma lstrip_eq_Nil: "lstrip s = [] \<longleftrightarrow> (\<forall>c \<in> set s. py_space c)"
  by (simp add: lstrip_def dropWhile_eq_Nil_conv)

lemma strip_eq_Nil: "strip s = [] \<longleftrightarrow> (\<forall>c \<in> set s. py_space c)"
proof
  assume "strip s = []"
  then have "lstrip (rev (lstrip s)) = []" by (simp add: strip_def)
  then have all: "\<forall>c \<in> set (lstrip s). py_space c" by (simp add: lstrip_eq_Nil)
  show "\<forall>c \<in> set s. py_space c"
  proof (rule ccontr)
    assume "\<not> (\<forall>c \<in> set s. py_space c)"
    then have "lstrip s \<noteq> []" by (simp add: lstrip_eq_Nil)
    then have "\<not> py_space (hd (lstrip s))" unfolding lstrip_def by (rule hd_dropWhile)
    with all \<open>lstrip s \<noteq> []\<close> show False by (meson hd_in_set)
  qed
next
  assume "\<forall>c \<in> set s. py_space c"
  then have "lstrip s = []" by (simp add: lstrip_eq_Nil)
  then show "strip s = []" by (simp add: strip_def)
qed

lemma dropWhile_id: "xs = [] \<or> \<not> P (hd xs) \<Longrightarrow> dropWhile P xs = xs"
  by (cases xs) auto

lemma lstrip_lstrip [simp]: "lstrip (lstrip s) = lstrip s"
  unfolding lstrip_def by (rule dropWhile_id) (use hd_dropWhile in blast)

lemma lstrip_strip [simp]: "lstrip (strip s) = strip s"
proof (cases "strip s = []")
  case True
  then show ?thesis by simp
next
  case False
  obtain p where p: "rev (lstrip s) = p @ lstrip (rev (lstrip s))"
    unfolding lstrip_def by (metis takeWhile_dropWhile_id)
  then have "lstrip s = strip s @ rev p"
    unfolding strip_def by (metis rev_append rev_rev_ident)
  moreover have "lstrip s \<noteq> []" using False by (auto simp: strip_def)
  ultimately have hd_eq: "hd (strip s) = hd (lstrip s)" using False by (metis hd_append2)
  have "\<not> py_space (hd (lstrip s))"
    using \<open>lstrip s \<noteq> []\<close> unfolding lstrip_def by (rule hd_dropWhile)
  then show ?thesis
    unfolding lstrip_def [of "strip s"] by (intro dropWhile_id) (simp add: hd_eq)
qed

lemma strip_strip [simp, strip_simps]: "strip (strip s) = strip s"
proof -
  have "strip (strip s) = rev (lstrip (rev (strip s)))"
    by (simp add: strip_def [of "strip s"])
  also have "rev (strip s) = lstrip (rev (lstrip s))" by (simp add: strip_def)
  finally show ?thesis by (simp add: strip_def)
qed

lemma set_strip: "set (strip s) \<subseteq> set s"
  unfolding strip_def lstrip_def by (auto dest!: set_dropWhileD)

section \<open>Facts on text encodings\<close>

lemma code_char_of: "n < 256 \<Longrightarrow> code (char_of n) = n"
  by (simp add: code_def)

lemma code_less: "code c < 256"
  by (simp add: code_def)

lemma length_hex_fixed [simp]: "length (hex_fixed k n) = k"
  by (induction k arbitrary: n) auto

lemma hex_digit_inj: "a < 16 \<Longrightarrow> b < 16 \<Longrightarrow> hex_digit a = hex_digit b \<Longrightarrow> a = b"
proof -
  have c: "d < 16 \<Longrightarrow> code (hex_digit d) = (if d < 10 then 48 + d else 87 + d)" for d
    by (simp add: hex_digit_def code_char_of)
  assume a: "a < 16" and b: "b < 16" and eq: "hex_digit a = hex_digit b"
  have "(if a < 10 then 48 + a else 87 + a) = (if b < 10 then 48 + b else 87 + b)"
    using c [OF a] c [OF b] eq by metis
  then show "a = b" using a b by (simp split: if_splits)
qed

lemma hex_fixed_inj:
  "m < 16 ^ k \<Longrightarrow> n < 16 ^ k \<Longrightarrow> hex_fixed k m = hex_fixed k n \<Longrightarrow> m = n"
proof (induction k arbitrary: m n)
  case 0
  then show ?case by simp
next
  case (Suc k)
  from Suc.prems have "hex_fixed k (m div 16) = hex_fixed k (n div 16)"
    and d: "hex_digit (m mod 16) = hex_digit (n mod 16)" by auto
  moreover from Suc.prems have "m div 16 < 16 ^ k" "n div 16 < 16 ^ k"
    by (auto simp: less_mult_imp_div_less mult.commute)
  ultimately have "m div 16 = n div 16" using Suc.IH by blast
  moreover from d have "m mod 16 = n mod 16" by (intro hex_digit_inj) auto
  ultimately show ?case by (metis div_mod_decomp)
qed

definition hex_chars :: string where
  "hex_chars = ''0123456789abcdef''"

lemma hex_chars_map: "hex_chars = map hex_digit [0..<16]"
  by code_simp

lemma hex_digit_in: "d < 16 \<Longrightarrow> hex_digit d \<in> set hex_chars"
  by (simp add: hex_chars_map del: upt_conv_Cons upt_rec_numeral)

lemma set_hex_fixed: "set (hex_fixed k n) \<subseteq> set hex_chars"
  by (induction k arbitrary: n) (auto simp: hex_digit_in)

lemma dash_not_hex: "CHR ''-'' \<notin> set hex_chars"
  by (simp add: hex_chars_def)

lemma filter_dash_hex: "set h \<subseteq> set hex_chars \<Longrightarrow> filter (\<lambda>c. c \<noteq> CHR ''-'') h = h"
  using dash_not_hex by (auto simp: filter_id_conv)

lemma regroup:
  "take 8 h @ take 4 (drop 8 h) @ take 4 (drop 12 h) @ take 4 (drop 16 h) @ drop 20 h = h"
proof -
  have step: "take 4 (drop n h) @ drop (n + 4) h = drop n h" for n
    using append_take_drop_id [of 4 "drop n h"] by (simp add: drop_drop add.commute)
  have "take 4 (drop 16 h) @ drop 20 h = drop 16 h" using step [of 16] by simp
  moreover have "take 4 (drop 12 h) @ drop 16 h = drop 12 h" using step [of 12] by simp
  moreover have "take 4 (drop 8 h) @ drop 12 h = drop 8 h" using step [of 8] by simp
  ultimately show ?thesis by simp
qed

lemma uuid_str_undash: "filter (\<lambda>c. c \<noteq> CHR ''-'') (uuid_str u) = hex_fixed 32 (unat u)"
proof -
  let ?h = "hex_fixed 32 (unat u)"
  have sub: "set ?h \<subseteq> set hex_chars" by (rule set_hex_fixed)
  have f: "filter (\<lambda>c. c \<noteq> CHR ''-'') (take m (drop n ?h)) = take m (drop n ?h)" for m n
    by (rule filter_dash_hex) (meson sub set_take_subset set_drop_subset subset_trans)
  have t: "filter (\<lambda>c. c \<noteq> CHR ''-'') (take m ?h) = take m ?h" for m
    by (rule filter_dash_hex) (meson sub set_take_subset subset_trans)
  have d: "filter (\<lambda>c. c \<noteq> CHR ''-'') (drop m ?h) = drop m ?h" for m
    by (rule filter_dash_hex) (meson sub set_drop_subset subset_trans)
  have "filter (\<lambda>c. c \<noteq> CHR ''-'') (uuid_str u)
      = take 8 ?h @ take 4 (drop 8 ?h) @ take 4 (drop 12 ?h) @ take 4 (drop 16 ?h) @ drop 20 ?h"
    by (simp only: uuid_str_def Let_def filter_append f t d) simp
  also have "\<dots> = ?h"
    by (rule regroup)
  finally show ?thesis .
qed

lemma uuid_str_inj: "uuid_str u = uuid_str v \<Longrightarrow> u = v"
proof -
  assume "uuid_str u = uuid_str v"
  then have "hex_fixed 32 (unat u) = hex_fixed 32 (unat v)" by (metis uuid_str_undash)
  moreover have "unat u < 16 ^ 32" "unat v < 16 ^ 32"
    using unsigned_less [of u] unsigned_less [of v] by simp_all
  ultimately have "unat u = unat v" using hex_fixed_inj by blast
  then show "u = v" by (rule word_unat_eq_iff [THEN iffD2])
qed

lemma uuid_str_eq_iff [simp]: "uuid_str u = uuid_str v \<longleftrightarrow> u = v"
  using uuid_str_inj by blast

section \<open>Exceptions of the application layer\<close>

text \<open>
  The exceptions the dispatcher and the handlers raise, with the code string the source
  passes. \<open>IdempotencyKeyReused\<close> and \<open>CommandInProgress\<close> are subclasses of
  \<open>CommandExecutionError\<close> in \<open>dispatcher.py\<close>.
\<close>

datatype exn =
    CommandExecutionError string
  | IdempotencyKeyReused
  | CommandInProgress
  | PermissionError string
  | ValueError string
  | RuntimeError string
  | IntegrityError
  | DatabaseError
  | KeyError
  | AttributeError

section \<open>Rows of a table\<close>

text \<open>
  A table is the list of its rows in insertion order. \<open>session.scalar(select(T).where(P))\<close>
  is \<open>find P\<close>; a row is updated in place by \<open>update_where\<close>; \<open>add_row\<close> is
  \<open>session.add\<close> followed by the flush, which fails when a UNIQUE or PRIMARY KEY constraint
  of the table does (\<open>clash\<close> says when two rows violate one).
\<close>

definition update_where :: "('r \<Rightarrow> bool) \<Rightarrow> ('r \<Rightarrow> 'r) \<Rightarrow> 'r list \<Rightarrow> 'r list" where
  "update_where P f rows = map (\<lambda>r. if P r then f r else r) rows"

definition add_row :: "('r \<Rightarrow> 'r \<Rightarrow> bool) \<Rightarrow> 'r \<Rightarrow> 'r list \<Rightarrow> exn + 'r list" where
  "add_row clash r rows =
     (if list_ex (clash r) rows then Inl IntegrityError else Inr (rows @ [r]))"

text \<open>An insertion: the CHECK constraints, then the UNIQUE ones.\<close>

definition insert_row :: "('r \<Rightarrow> bool) \<Rightarrow> ('r \<Rightarrow> 'r \<Rightarrow> bool) \<Rightarrow> 'r \<Rightarrow> 'r list \<Rightarrow> exn + 'r list" where
  "insert_row chk clash r rows = (if \<not> chk r then Inl IntegrityError else add_row clash r rows)"

text \<open>Several insertions of one flush, in the order the rows were added to the session.\<close>

fun insert_rows :: "('r \<Rightarrow> bool) \<Rightarrow> ('r \<Rightarrow> 'r \<Rightarrow> bool) \<Rightarrow> 'r list \<Rightarrow> 'r list \<Rightarrow> exn + 'r list" where
  "insert_rows chk clash [] rows = Inr rows"
| "insert_rows chk clash (r # rs) rows =
     (case insert_row chk clash r rows of Inl e \<Rightarrow> Inl e | Inr rows' \<Rightarrow> insert_rows chk clash rs rows')"

lemma list_ex_image: "list_ex (\<lambda>x. f x = y) xs \<longleftrightarrow> y \<in> f ` set xs"
  by (auto simp: list_ex_iff)

lemma find_Some_in: "find P xs = Some x \<Longrightarrow> x \<in> set xs \<and> P x"
  by (auto simp: find_Some_iff)

lemma find_append: "find P (xs @ ys) = (case find P xs of None \<Rightarrow> find P ys | Some x \<Rightarrow> Some x)"
  by (induction xs) auto

lemma add_row_Inr: "add_row clash r rows = Inr rows' \<longleftrightarrow> rows' = rows @ [r] \<and> (\<forall>x \<in> set rows. \<not> clash r x)"
  by (auto simp: add_row_def list_ex_iff)

lemma insert_row_Inr:
  "insert_row chk clash r rows = Inr rows' \<longleftrightarrow> chk r \<and> rows' = rows @ [r] \<and> (\<forall>x \<in> set rows. \<not> clash r x)"
  by (simp add: insert_row_def add_row_Inr)

lemma insert_rows_Inr:
  "insert_rows chk clash rs rows = Inr rows' \<Longrightarrow>
     rows' = rows @ rs \<and> (\<forall>r \<in> set rs. chk r \<and> (\<forall>x \<in> set rows. \<not> clash r x)) \<and> sorted_wrt (\<lambda>x y. \<not> clash y x) rs"
proof (induction rs arbitrary: rows)
  case Nil
  then show ?case by simp
next
  case (Cons r rs)
  from Cons.prems obtain rows1 where ins: "insert_row chk clash r rows = Inr rows1" "insert_rows chk clash rs rows1 = Inr rows'"
    by (cases "insert_row chk clash r rows") simp_all
  from ins(1) have r: "chk r" "rows1 = rows @ [r]" "\<forall>x \<in> set rows. \<not> clash r x" by (simp_all add: insert_row_Inr)
  note IH = Cons.IH [OF ins(2), unfolded r(2)]
  have "\<forall>x \<in> set rs. chk x \<and> (\<forall>y \<in> set rows. \<not> clash x y)" using IH by simp
  moreover have "\<forall>x \<in> set rs. \<not> clash x r" using IH by simp
  ultimately show ?case using IH r by simp
qed

lemma set_update_where: "set (update_where P f rows) = (\<lambda>r. if P r then f r else r) ` set rows"
  by (simp add: update_where_def)

lemma length_update_where [simp]: "length (update_where P f rows) = length rows"
  by (simp add: update_where_def)

text \<open>\<open>ORDER BY key DESC LIMIT 1\<close>: the first row with the greatest key.\<close>

fun first_max :: "('r \<Rightarrow> 'k::linorder) \<Rightarrow> 'r list \<Rightarrow> 'r option" where
  "first_max key [] = None"
| "first_max key (r # rs) =
     (case first_max key rs of None \<Rightarrow> Some r | Some m \<Rightarrow> if key r < key m then Some m else Some r)"

lemma first_max_None [simp]: "first_max key rs = None \<longleftrightarrow> rs = []"
  by (cases rs) (auto split: option.splits)

lemma first_max_Some: "first_max key rs = Some m \<Longrightarrow> m \<in> set rs \<and> (\<forall>r \<in> set rs. key r \<le> key m)"
proof (induction rs arbitrary: m)
  case Nil
  then show ?case by simp
next
  case (Cons r rs)
  show ?case
  proof (cases "first_max key rs")
    case None
    then show ?thesis using Cons.prems by simp
  next
    case (Some n)
    from Cons.IH [OF Some] have n: "n \<in> set rs" "\<forall>r \<in> set rs. key r \<le> key n" by simp_all
    show ?thesis
    proof (cases "key r < key n")
      case True
      then have "m = n" using Cons.prems Some by simp
      then show ?thesis using n True by auto
    next
      case False
      then have "m = r" using Cons.prems Some by simp
      then show ?thesis using n(2) False by (auto intro: order_trans)
    qed
  qed
qed

text \<open>On rows in ascending order of their keys it is the last one.\<close>

lemma first_max_sorted:
  "sorted_wrt (\<lambda>a b. key a < key b) rs \<Longrightarrow> rs \<noteq> [] \<Longrightarrow> first_max key rs = Some (last rs)"
proof (induction rs)
  case Nil
  then show ?case by simp
next
  case (Cons r rs)
  show ?case
  proof (cases "rs = []")
    case True
    then show ?thesis by simp
  next
    case False
    with Cons have "first_max key rs = Some (last rs)" by simp
    moreover have "key r < key (last rs)" using Cons.prems(1) False by simp
    ultimately show ?thesis using False by simp
  qed
qed

lemma filter_update_where:
  "(\<And>r. P r \<Longrightarrow> Q (f r) = Q r) \<Longrightarrow> filter Q (update_where P f rs) = update_where P f (filter Q rs)"
  by (induction rs) (auto simp: update_where_def)

lemma update_where_other: "(\<And>r. r \<in> set rs \<Longrightarrow> \<not> P r) \<Longrightarrow> update_where P f rs = rs"
  by (induction rs) (auto simp: update_where_def)

lemma map_update_where: "(\<And>r. P r \<Longrightarrow> g (f r) = g r) \<Longrightarrow> map g (update_where P f rs) = map g rs"
  by (induction rs) (auto simp: update_where_def)

end
