(* ===== verification/Aggregates.thy ===== *)
theory Aggregates
  imports Prelude
begin

text \<open>
  The contract the four aggregate roots of the program share (\<open>Case\<close>, \<open>Consultation\<close>,
  \<open>DceVersion\<close>, \<open>Decision\<close>): an operation either raises and leaves revision and pending
  events alone, or increments \<open>aggregate_revision\<close> by one and appends one domain event;
  neither ever changes the aggregate's identity. The contract is the locale
  \<open>revisioned_aggregate\<close>; each aggregate interprets it on its own operations. Its
  consequences for whole sequences of operations are proved once, here.
\<close>

section \<open>Sequences of operations\<close>

text \<open>
  An operation takes the aggregate to a possible exception and the aggregate after it. A
  caller that catches exceptions goes on with the aggregate as the raising method left it.
\<close>

fun run_ops :: "('op \<Rightarrow> 's \<Rightarrow> 'e option \<times> 's) \<Rightarrow> 'op list \<Rightarrow> 's \<Rightarrow> 'e option list \<times> 's" where
  "run_ops exec [] s = ([], s)"
| "run_ops exec (x # xs) s =
     (let (r, s1) = exec x s; (rs, s2) = run_ops exec xs s1 in (r # rs, s2))"

text \<open>A method that assigns nothing before it raises.\<close>

definition or_unchanged :: "('s \<Rightarrow> 'e + 's) \<Rightarrow> 's \<Rightarrow> 'e option \<times> 's" where
  "or_unchanged f s = (case f s of Inl e \<Rightarrow> (Some e, s) | Inr t \<Rightarrow> (None, t))"

lemma or_unchanged_cases:
  assumes "or_unchanged f s = (r, t)"
  obtains (raised) e where "f s = Inl e" "r = Some e" "t = s"
  | (returned) "f s = Inr t" "r = None"
  using assms by (auto simp: or_unchanged_def split: sum.splits)

definition successes :: "'e option list \<Rightarrow> int" where
  "successes rs = int (length (filter (\<lambda>r. r = None) rs))"

lemma successes_simps [simp]:
  "successes [] = 0"
  "successes (None # rs) = 1 + successes rs"
  "successes (Some e # rs) = successes rs"
  by (simp_all add: successes_def)

lemma run_ops_length: "run_ops exec xs s = (rs, t) \<Longrightarrow> length rs = length xs"
  by (induction xs arbitrary: s rs) (auto split: prod.splits)

lemma run_ops_Cons:
  assumes "run_ops exec (x # xs) s = (rs, t)"
  obtains r s1 rs1 where "exec x s = (r, s1)" "run_ops exec xs s1 = (rs1, t)" "rs = r # rs1"
  using assms by (auto split: prod.splits)

text \<open>A property every operation keeps holds after a run.\<close>

lemma run_ops_invariant:
  assumes step: "\<And>x s r t. P s \<Longrightarrow> exec x s = (r, t) \<Longrightarrow> P t"
    and "P s" "run_ops exec xs s = (rs, t)"
  shows "P t"
  using assms(2,3)
proof (induction xs arbitrary: s rs)
  case Nil
  then show ?case by simp
next
  case (Cons x xs)
  then show ?case by (metis run_ops_Cons step)
qed

section \<open>The contract\<close>

locale revisioned_aggregate =
  fixes exec :: "'op \<Rightarrow> 's \<Rightarrow> 'e option \<times> 's"
    and revision :: "'s \<Rightarrow> int"
    and events :: "'s \<Rightarrow> 'ev list"
    and ident :: "'s \<Rightarrow> 'k"
  assumes success: "exec x s = (None, t) \<Longrightarrow> revision t = revision s + 1 \<and> (\<exists>e. events t = events s @ [e])"
    and failure: "exec x s = (Some err, t) \<Longrightarrow> revision t = revision s \<and> events t = events s"
    and identity: "exec x s = (r, t) \<Longrightarrow> ident t = ident s"
begin

lemma run_identity: "run_ops exec xs s = (rs, t) \<Longrightarrow> ident t = ident s"
proof (induction xs arbitrary: s rs)
  case Nil
  then show ?case by simp
next
  case (Cons x xs)
  then show ?case by (metis run_ops_Cons identity)
qed

lemma run_revision: "run_ops exec xs s = (rs, t) \<Longrightarrow> revision t = revision s + successes rs"
proof (induction xs arbitrary: s rs)
  case Nil
  then show ?case by auto
next
  case (Cons x xs)
  then obtain r s1 rs1 where st: "exec x s = (r, s1)" "run_ops exec xs s1 = (rs1, t)" "rs = r # rs1"
    by (meson run_ops_Cons)
  then have "revision t = revision s1 + successes rs1" using Cons.IH by blast
  with st show ?case by (cases r) (auto dest: success failure)
qed

lemma run_events: "run_ops exec xs s = (rs, t) \<Longrightarrow>
  \<exists>es. events t = events s @ es \<and> int (length es) = successes rs"
proof (induction xs arbitrary: s rs)
  case Nil
  then show ?case by auto
next
  case (Cons x xs)
  then obtain r s1 rs1 where st: "exec x s = (r, s1)" "run_ops exec xs s1 = (rs1, t)" "rs = r # rs1"
    by (meson run_ops_Cons)
  then obtain es where es: "events t = events s1 @ es" "int (length es) = successes rs1"
    using Cons.IH by blast
  show ?case
  proof (cases r)
    case None
    then obtain e where "events s1 = events s @ [e]" using st success by blast
    then have "events t = events s @ e # es" using es by simp
    then show ?thesis using es None st by (intro exI [of _ "e # es"]) simp
  next
    case (Some err)
    then show ?thesis using st es by (intro exI [of _ es]) (auto dest: failure)
  qed
qed

text \<open>The pending events are the log of the revisions: one for each increment.\<close>

lemma run_log:
  assumes "run_ops exec xs s = (rs, t)"
  shows "\<exists>es. events t = events s @ es \<and> revision t - revision s = int (length es)
    \<and> int (length es) = successes rs"
  using run_events [OF assms] run_revision [OF assms] by auto

end

end
