(* ===== verification/CaseAggregate.thy ===== *)
theory CaseAggregate
  imports Aggregates
begin

text \<open>
  \<open>backend/app/modules/case/domain/case.py\<close> and its \<open>errors.py\<close>: the Case aggregate, its
  scope and origin value objects, its two mutating operations, and the invariant every Case
  the module can build keeps.
\<close>

section \<open>Enumerations\<close>

datatype case_lifecycle = Case_ACTIVE | Case_STOPPED | Case_ARCHIVED

datatype case_stage =
    INTAKE | ANALYSIS | AWAITING_DECISION | OFFER_PREPARATION | READY_FOR_PRICING | PRICING
  | READY_FOR_FINAL_CONTROL | READY_FOR_SUBMISSION | SUBMITTED | OUTCOME_KNOWN | AWARDED | EXECUTION

datatype decision_readiness = NOT_ASSESSED | NOT_READY | READY_WITH_UNKNOWNS | READY

datatype dce_freshness = NO_DCE | Dce_CURRENT | Dce_REVIEW_REQUIRED

datatype responsibility_status = UNASSIGNED | ASSIGNED | ASSIGNMENT_REVIEW_REQUIRED

datatype case_scope_kind = SINGLE_LOT | MULTI_LOT | TRANCHE | VARIANT | CUSTOM_SOURCED_SCOPE

datatype case_origin_kind = OPPORTUNITY | MANUAL | IMPORT | CUSTOMER_REQUEST

section \<open>Errors\<close>

text \<open>The exception classes of \<open>errors.py\<close>, and the plain \<open>ValueError\<close> of the constructors.\<close>

datatype case_error =
    CaseScopeAmbiguousError
  | CrossTenantReferenceError
  | CaseLifecycleForbidsActionError
  | CaseValueError

fun case_error_code :: "case_error \<Rightarrow> string option" where
  "case_error_code CaseScopeAmbiguousError = Some ''CASE_SCOPE_AMBIGUOUS''"
| "case_error_code CrossTenantReferenceError = Some ''NOT_FOUND_OR_FORBIDDEN''"
| "case_error_code CaseLifecycleForbidsActionError = Some ''CASE_LIFECYCLE_FORBIDS_ACTION''"
| "case_error_code CaseValueError = None"

section \<open>Value objects\<close>

record aggregate_reference =
  ref_aggregate_id :: uuid
  ref_aggregate_type :: string
  ref_tenant_id :: uuid
  ref_aggregate_revision :: int

definition AggregateReference_new ::
  "uuid \<Rightarrow> string \<Rightarrow> uuid \<Rightarrow> int \<Rightarrow> case_error + aggregate_reference" where
  "AggregateReference_new aid atype tid rev_no =
     (if strip atype = [] then Inl CaseValueError
      else if rev_no < 0 then Inl CaseValueError
      else Inr \<lparr>ref_aggregate_id = aid, ref_aggregate_type = atype, ref_tenant_id = tid,
                ref_aggregate_revision = rev_no\<rparr>)"

record case_scope =
  scope_kind :: case_scope_kind
  lot_numbers :: "string list"
  tranche_reference :: "string option"
  variant_reference :: "string option"
  source_justification :: "string option"

definition CaseScope_single_lot :: "string \<Rightarrow> case_scope" where
  "CaseScope_single_lot lot = \<lparr>scope_kind = SINGLE_LOT, lot_numbers = [lot],
     tranche_reference = None, variant_reference = None, source_justification = None\<rparr>"

definition CaseScope_multi_lot :: "string list \<Rightarrow> string \<Rightarrow> case_scope" where
  "CaseScope_multi_lot lots just = \<lparr>scope_kind = MULTI_LOT, lot_numbers = lots,
     tranche_reference = None, variant_reference = None, source_justification = Some just\<rparr>"

definition CaseScope_tranche :: "string \<Rightarrow> case_scope" where
  "CaseScope_tranche t = \<lparr>scope_kind = TRANCHE, lot_numbers = [],
     tranche_reference = Some t, variant_reference = None, source_justification = None\<rparr>"

definition CaseScope_variant :: "string \<Rightarrow> case_scope" where
  "CaseScope_variant v = \<lparr>scope_kind = VARIANT, lot_numbers = [],
     tranche_reference = None, variant_reference = Some v, source_justification = None\<rparr>"

definition CaseScope_custom_sourced :: "string \<Rightarrow> case_scope" where
  "CaseScope_custom_sourced just = \<lparr>scope_kind = CUSTOM_SOURCED_SCOPE, lot_numbers = [],
     tranche_reference = None, variant_reference = None, source_justification = Some just\<rparr>"

text \<open>\<open>validate\<close> returns the exception it raises, \<open>None\<close> when it returns.\<close>

definition CaseScope_validate :: "case_scope \<Rightarrow> case_error option" where
  "CaseScope_validate sc =
     (let lots = map strip (filter (\<lambda>lot. strip lot \<noteq> []) (lot_numbers sc));
          tranche = strip_or_empty (tranche_reference sc);
          variant = strip_or_empty (variant_reference sc);
          justification = strip_or_empty (source_justification sc)
      in case scope_kind sc of
           SINGLE_LOT \<Rightarrow>
             if length lots \<noteq> 1 \<or> tranche \<noteq> [] \<or> variant \<noteq> [] \<or> justification \<noteq> []
             then Some CaseScopeAmbiguousError else None
         | MULTI_LOT \<Rightarrow>
             if length lots < 2 then Some CaseScopeAmbiguousError
             else if justification = [] then Some CaseScopeAmbiguousError
             else if tranche \<noteq> [] \<or> variant \<noteq> [] then Some CaseScopeAmbiguousError else None
         | TRANCHE \<Rightarrow>
             if tranche = [] then Some CaseScopeAmbiguousError
             else if lots \<noteq> [] \<or> variant \<noteq> [] \<or> justification \<noteq> []
             then Some CaseScopeAmbiguousError else None
         | VARIANT \<Rightarrow>
             if variant = [] then Some CaseScopeAmbiguousError
             else if lots \<noteq> [] \<or> tranche \<noteq> [] \<or> justification \<noteq> []
             then Some CaseScopeAmbiguousError else None
         | CUSTOM_SOURCED_SCOPE \<Rightarrow>
             if justification = [] then Some CaseScopeAmbiguousError
             else if lots \<noteq> [] \<or> tranche \<noteq> [] \<or> variant \<noteq> []
             then Some CaseScopeAmbiguousError else None)"

record case_origin =
  origin_kind :: case_origin_kind
  origin_rationale :: "string option"
  origin_reference_id :: "uuid option"

definition CaseOrigin_manual :: "string \<Rightarrow> case_origin" where
  "CaseOrigin_manual r = \<lparr>origin_kind = MANUAL, origin_rationale = Some r, origin_reference_id = None\<rparr>"

definition CaseOrigin_validate :: "case_origin \<Rightarrow> case_error option" where
  "CaseOrigin_validate og =
     (if origin_kind og = MANUAL \<and> strip_or_empty (origin_rationale og) = []
      then Some CaseScopeAmbiguousError else None)"

section \<open>The aggregate\<close>

datatype case_event =
    CaseCreated uuid uuid
  | CaseConsultationLinked uuid uuid uuid

record case_root =
  c_id :: uuid
  c_tenant_id :: uuid
  c_title :: string
  c_object_description :: string
  c_scope :: case_scope
  c_origin :: case_origin
  c_consultation_reference :: "aggregate_reference option"
  c_applicable_dce_version_reference :: "aggregate_reference option"
  c_lifecycle :: case_lifecycle
  c_commercial_stage :: case_stage
  c_decision_readiness :: decision_readiness
  c_dce_freshness :: dce_freshness
  c_responsibility_status :: responsibility_status
  c_aggregate_revision :: int
  c_pending_events :: "case_event list"

definition validate_optional_reference_tenant ::
  "uuid \<Rightarrow> aggregate_reference option \<Rightarrow> case_error option" where
  "validate_optional_reference_tenant tid rf =
     (case rf of None \<Rightarrow> None
      | Some r \<Rightarrow> if ref_tenant_id r \<noteq> tid then Some CrossTenantReferenceError else None)"

definition Case_ensure_active :: "case_root \<Rightarrow> case_error option" where
  "Case_ensure_active c =
     (if c_lifecycle c \<noteq> Case_ACTIVE then Some CaseLifecycleForbidsActionError else None)"

definition Case_increment_revision :: "case_root \<Rightarrow> case_root" where
  "Case_increment_revision c = c\<lparr>c_aggregate_revision := c_aggregate_revision c + 1\<rparr>"

definition Case_record :: "case_event \<Rightarrow> case_root \<Rightarrow> case_root" where
  "Case_record e c = c\<lparr>c_pending_events := c_pending_events c @ [e]\<rparr>"

definition Case_create ::
  "uuid \<Rightarrow> uuid \<Rightarrow> string \<Rightarrow> string \<Rightarrow> case_scope \<Rightarrow> case_origin \<Rightarrow> aggregate_reference option
   \<Rightarrow> case_error + case_root" where
  "Case_create cid tid ttl descr sc og cref =
     (if strip ttl = [] then Inl CaseValueError
      else if strip descr = [] then Inl CaseValueError
      else case CaseScope_validate sc of Some e \<Rightarrow> Inl e
      | None \<Rightarrow> case CaseOrigin_validate og of Some e \<Rightarrow> Inl e
      | None \<Rightarrow> case validate_optional_reference_tenant tid cref of Some e \<Rightarrow> Inl e
      | None \<Rightarrow>
        if (case cref of None \<Rightarrow> False | Some r \<Rightarrow> ref_aggregate_type r \<noteq> ''CONSULTATION'')
        then Inl CaseValueError
        else if origin_kind og \<notin> {MANUAL, OPPORTUNITY} \<and> cref = None
        then Inl CaseScopeAmbiguousError
        else
          (let c = \<lparr>c_id = cid, c_tenant_id = tid, c_title = strip ttl,
                    c_object_description = strip descr, c_scope = sc, c_origin = og,
                    c_consultation_reference = cref,
                    c_applicable_dce_version_reference = None,
                    c_lifecycle = Case_ACTIVE, c_commercial_stage = INTAKE,
                    c_decision_readiness = NOT_ASSESSED, c_dce_freshness = NO_DCE,
                    c_responsibility_status = UNASSIGNED, c_aggregate_revision = 0,
                    c_pending_events = []\<rparr>
           in Inr (Case_record (CaseCreated (c_id c) (c_tenant_id c)) c)))"

definition Case_clear_pending_events :: "case_root \<Rightarrow> case_event list \<times> case_root" where
  "Case_clear_pending_events c = (c_pending_events c, c\<lparr>c_pending_events := []\<rparr>)"

definition Case_register_consultation_link ::
  "aggregate_reference \<Rightarrow> case_root \<Rightarrow> case_error + case_root" where
  "Case_register_consultation_link consultation c =
     (case Case_ensure_active c of Some e \<Rightarrow> Inl e
      | None \<Rightarrow>
        if ref_aggregate_type consultation \<noteq> ''CONSULTATION'' then Inl CaseValueError
        else case validate_optional_reference_tenant (c_tenant_id c) (Some consultation) of
          Some e \<Rightarrow> Inl e
        | None \<Rightarrow>
          (let c1 = Case_increment_revision (c\<lparr>c_consultation_reference := Some consultation\<rparr>)
           in Inr (Case_record
                (CaseConsultationLinked (c_id c1) (c_tenant_id c1) (ref_aggregate_id consultation)) c1)))"

section \<open>The contract of the aggregate\<close>

definition case_exec :: "aggregate_reference \<Rightarrow> case_root \<Rightarrow> case_error option \<times> case_root" where
  "case_exec r = or_unchanged (Case_register_consultation_link r)"

lemmas case_op_defs = case_exec_def or_unchanged_def Case_register_consultation_link_def
  Case_record_def Case_increment_revision_def Case_ensure_active_def
  validate_optional_reference_tenant_def Let_def

interpretation case_agg: revisioned_aggregate
  case_exec c_aggregate_revision c_pending_events "\<lambda>c. (c_id c, c_tenant_id c, c_scope c, c_origin c)"
  by unfold_locales (auto simp: case_op_defs split: option.splits if_splits sum.splits)

section \<open>The perimeter a scope designates\<close>

text \<open>
  The specification of \<open>CaseScope.validate\<close>: the kind is determined by which of the four
  parts are filled in, so a scope that validates is a perimeter of exactly one kind.
\<close>

definition inferred_kind :: "case_scope \<Rightarrow> case_scope_kind option" where
  "inferred_kind sc =
     (let n = length (filter (\<lambda>lot. strip lot \<noteq> []) (lot_numbers sc));
          t = (strip_or_empty (tranche_reference sc) \<noteq> []);
          v = (strip_or_empty (variant_reference sc) \<noteq> []);
          j = (strip_or_empty (source_justification sc) \<noteq> [])
      in if n = 1 \<and> \<not> t \<and> \<not> v \<and> \<not> j then Some SINGLE_LOT
         else if 2 \<le> n \<and> \<not> t \<and> \<not> v \<and> j then Some MULTI_LOT
         else if n = 0 \<and> t \<and> \<not> v \<and> \<not> j then Some TRANCHE
         else if n = 0 \<and> \<not> t \<and> v \<and> \<not> j then Some VARIANT
         else if n = 0 \<and> \<not> t \<and> \<not> v \<and> j then Some CUSTOM_SOURCED_SCOPE
         else None)"

lemma validate_iff_inferred: "CaseScope_validate sc = None \<longleftrightarrow> inferred_kind sc = Some (scope_kind sc)"
  by (cases "scope_kind sc") (auto simp: CaseScope_validate_def inferred_kind_def Let_def filter_empty_conv)

section \<open>The invariant\<close>

definition case_reference_ok :: "uuid \<Rightarrow> aggregate_reference option \<Rightarrow> bool" where
  "case_reference_ok tid rf =
     (case rf of None \<Rightarrow> True
      | Some r \<Rightarrow> ref_tenant_id r = tid \<and> ref_aggregate_type r = ''CONSULTATION'')"

definition case_inv :: "case_root \<Rightarrow> bool" where
  "case_inv c \<longleftrightarrow>
     c_title c \<noteq> [] \<and> strip (c_title c) = c_title c \<and>
     c_object_description c \<noteq> [] \<and> strip (c_object_description c) = c_object_description c \<and>
     inferred_kind (c_scope c) = Some (scope_kind (c_scope c)) \<and>
     (origin_kind (c_origin c) = MANUAL \<longrightarrow> strip_or_empty (origin_rationale (c_origin c)) \<noteq> []) \<and>
     case_reference_ok (c_tenant_id c) (c_consultation_reference c) \<and>
     (origin_kind (c_origin c) \<in> {IMPORT, CUSTOMER_REQUEST} \<longrightarrow> c_consultation_reference c \<noteq> None)"

lemma origin_kind_other: "k \<notin> {MANUAL, OPPORTUNITY} \<longleftrightarrow> k \<in> {IMPORT, CUSTOMER_REQUEST}"
  by (cases k) auto

lemma case_create_inv: "Case_create cid tid ttl descr sc og cref = Inr c \<Longrightarrow> case_inv c"
  unfolding Case_create_def case_inv_def validate_iff_inferred [symmetric]
    origin_kind_other [symmetric]
  by (auto simp: CaseOrigin_validate_def validate_optional_reference_tenant_def
      case_reference_ok_def Case_record_def Let_def split: if_splits option.splits)

lemma case_exec_inv: "case_inv c \<Longrightarrow> case_exec r c = (res, c') \<Longrightarrow> case_inv c'"
  by (auto simp: case_op_defs case_inv_def case_reference_ok_def split: option.splits if_splits)

inductive case_reachable :: "case_root \<Rightarrow> bool" where
  created: "Case_create cid tid ttl descr sc og cref = Inr c \<Longrightarrow> case_reachable c"
| linked: "case_reachable c \<Longrightarrow> case_exec r c = (res, c') \<Longrightarrow> case_reachable c'"
| cleared: "case_reachable c \<Longrightarrow> case_reachable (snd (Case_clear_pending_events c))"

lemma case_clear_inv: "case_inv c \<Longrightarrow> case_inv (snd (Case_clear_pending_events c))"
  by (simp add: case_inv_def Case_clear_pending_events_def)

section \<open>Properties\<close>

text \<open>
  A case scope validates exactly when its kind is the one its filled-in parts designate
  (\<open>inferred_kind\<close>): one lot and nothing else, two or more lots with a justification, a
  tranche alone, a variant alone, or a justification alone. No mixed scope passes and the
  kind is never a free choice.
\<close>

theorem case_scope_kind_determined:
  "CaseScope_validate sc = (if inferred_kind sc = Some (scope_kind sc) then None
                            else Some CaseScopeAmbiguousError)"
proof (cases "CaseScope_validate sc")
  case None
  then show ?thesis by (simp add: validate_iff_inferred [symmetric])
next
  case (Some e)
  then have "e = CaseScopeAmbiguousError"
    by (auto simp: CaseScope_validate_def Let_def split: case_scope_kind.splits if_splits)
  with Some show ?thesis by (simp add: validate_iff_inferred [symmetric])
qed

text \<open>
  C39. Every Case the module can produce keeps its invariant: title and description are
  non-blank and stripped, the scope designates one perimeter, a manual origin has a
  rationale, the consultation reference (if any) belongs to the Case's own tenant and is a
  CONSULTATION, an import or customer request has one, and the lifecycle is still ACTIVE.
\<close>

theorem case_reachable_invariant:
  assumes "case_reachable c"
  shows "case_inv c \<and> c_lifecycle c = Case_ACTIVE \<and> 0 \<le> c_aggregate_revision c"
  using assms
proof (induction rule: case_reachable.induct)
  case (created cid tid ttl descr sc og cref c)
  then show ?case
    using case_create_inv [OF created]
    by (auto simp: Case_create_def Case_record_def Let_def split: if_splits option.splits)
next
  case (linked c r res c')
  then show ?case
    using case_exec_inv [of c r res c']
    by (auto simp: case_op_defs split: option.splits if_splits)
next
  case (cleared c)
  then show ?case by (auto simp: case_clear_inv) (simp_all add: Case_clear_pending_events_def)
qed

definition ex_case :: case_root where
  "ex_case = \<lparr>c_id = 1, c_tenant_id = 7, c_title = ''Gymnase'', c_object_description = ''Lot 2'',
     c_scope = CaseScope_single_lot ''02'', c_origin = CaseOrigin_manual ''appel'',
     c_consultation_reference = None, c_applicable_dce_version_reference = None,
     c_lifecycle = Case_ACTIVE, c_commercial_stage = INTAKE, c_decision_readiness = NOT_ASSESSED,
     c_dce_freshness = NO_DCE, c_responsibility_status = UNASSIGNED, c_aggregate_revision = 0,
     c_pending_events = [CaseCreated 1 7]\<rparr>"

lemma ex_case_created:
  "Case_create 1 7 '' Gymnase'' ''Lot 2 '' (CaseScope_single_lot ''02'') (CaseOrigin_manual ''appel'') None
   = Inr ex_case"
  by code_simp

theorem case_reachable_invariant_witness:
  "case_reachable ex_case \<and> case_inv ex_case \<and> c_lifecycle ex_case = Case_ACTIVE"
proof -
  have "case_reachable ex_case" by (rule case_reachable.created [OF ex_case_created])
  then show ?thesis using case_reachable_invariant by blast
qed

text \<open>
  Revisions are the log of the aggregate: after any sequence of link requests, refused
  ones included, the revision has grown by the number of accepted requests, exactly that
  many events were appended after the events already pending, and identity, tenant, scope
  and origin are untouched.
\<close>

theorem case_run_log:
  assumes "run_ops case_exec refs c = (rs, c')"
  shows "(\<exists>es. c_pending_events c' = c_pending_events c @ es \<and>
           c_aggregate_revision c' - c_aggregate_revision c = int (length es) \<and>
           int (length es) = successes rs) \<and>
         (c_id c', c_tenant_id c', c_scope c', c_origin c') =
         (c_id c, c_tenant_id c, c_scope c, c_origin c)"
  using case_agg.run_log [OF assms] case_agg.run_identity [OF assms] by (rule conjI)

theorem case_run_log_witness:
  "\<exists>es. c_pending_events (snd (run_ops case_exec
       [\<lparr>ref_aggregate_id = 5, ref_aggregate_type = ''CONSULTATION'', ref_tenant_id = 7, ref_aggregate_revision = 0\<rparr>,
        \<lparr>ref_aggregate_id = 6, ref_aggregate_type = ''CONSULTATION'', ref_tenant_id = 8, ref_aggregate_revision = 0\<rparr>]
       ex_case)) = [CaseCreated 1 7] @ es \<and> length es = 1"
proof -
  let ?refs = "[\<lparr>ref_aggregate_id = 5, ref_aggregate_type = ''CONSULTATION'', ref_tenant_id = 7, ref_aggregate_revision = 0\<rparr>,
        \<lparr>ref_aggregate_id = 6, ref_aggregate_type = ''CONSULTATION'', ref_tenant_id = 8, ref_aggregate_revision = 0\<rparr>]"
  have rs: "fst (run_ops case_exec ?refs ex_case) = [None, Some CrossTenantReferenceError]"
    by (simp add: case_op_defs ex_case_def)
  have run: "run_ops case_exec ?refs ex_case
      = ([None, Some CrossTenantReferenceError], snd (run_ops case_exec ?refs ex_case))"
    using rs by (metis prod.collapse)
  have "c_pending_events ex_case = [CaseCreated 1 7]" by (simp add: ex_case_def)
  then show ?thesis using case_run_log [OF run] by auto
qed

end
