(* ===== verification/ConsultationAggregate.thy ===== *)
theory ConsultationAggregate
  imports Aggregates
begin

text \<open>
  \<open>backend/app/modules/dce/domain/consultation.py\<close>: the Consultation aggregate, its buyer,
  lots and tranches, its functional identity and its three mutating operations.
\<close>

section \<open>Value objects\<close>

datatype consultation_lifecycle = Consultation_OPEN | Consultation_CLOSED | Consultation_ARCHIVED

datatype consultation_freshness = Fresh_UNKNOWN | Fresh_CURRENT | Fresh_REVIEW_REQUIRED

datatype consultation_error = ConsultationIdentityError | ConsultationLifecycleError

fun consultation_error_code :: "consultation_error \<Rightarrow> string" where
  "consultation_error_code ConsultationIdentityError = ''CONSULTATION_IDENTITY_INVALID''"
| "consultation_error_code ConsultationLifecycleError = ''CONSULTATION_LIFECYCLE_FORBIDS_ACTION''"

record buyer_identity =
  legal_name :: string
  normalized_identifier :: "string option"

definition normalized_key :: "buyer_identity \<Rightarrow> string option" where
  "normalized_key b =
     (let identifier = (case normalized_identifier b of None \<Rightarrow> []
                        | Some s \<Rightarrow> if s = [] then [] else upper (strip s))
      in if identifier = [] then None else Some identifier)"

record consultation_lot =
  lot_number :: string
  lot_label :: string
  lot_source_reference :: "string option"

definition ConsultationLot_new ::
  "string \<Rightarrow> string \<Rightarrow> string option \<Rightarrow> consultation_error + consultation_lot" where
  "ConsultationLot_new num lbl src =
     (if strip num = [] \<or> strip lbl = [] then Inl ConsultationIdentityError
      else Inr \<lparr>lot_number = num, lot_label = lbl, lot_source_reference = src\<rparr>)"

record consultation_tranche =
  tranche_ref :: string
  tranche_kind :: string
  tranche_source_reference :: "string option"

definition ConsultationTranche_new ::
  "string \<Rightarrow> string \<Rightarrow> string option \<Rightarrow> consultation_error + consultation_tranche" where
  "ConsultationTranche_new rf kd src =
     (if strip rf = [] \<or> strip kd = [] then Inl ConsultationIdentityError
      else Inr \<lparr>tranche_ref = rf, tranche_kind = kd, tranche_source_reference = src\<rparr>)"

section \<open>The aggregate\<close>

datatype consultation_event =
    ConsultationCreated uuid uuid
  | ConsultationLotRegistered uuid string
  | ConsultationTrancheRegistered uuid string
  | ConsultationClosed uuid

record consultation =
  k_id :: uuid
  k_tenant_id :: uuid
  k_buyer :: buyer_identity
  k_external_reference :: "string option"
  k_subject :: string
  k_initial_source :: string
  k_lifecycle :: consultation_lifecycle
  k_freshness :: consultation_freshness
  k_lots :: "consultation_lot list"
  k_tranches :: "consultation_tranche list"
  k_aggregate_revision :: int
  k_pending_events :: "consultation_event list"

definition Consultation_ensure_open :: "consultation \<Rightarrow> consultation_error option" where
  "Consultation_ensure_open k =
     (if k_lifecycle k \<noteq> Consultation_OPEN then Some ConsultationLifecycleError else None)"

definition Consultation_validate_identity ::
  "buyer_identity \<Rightarrow> string option \<Rightarrow> string \<Rightarrow> string \<Rightarrow> consultation_error option" where
  "Consultation_validate_identity buyer ext subj src =
     (if strip (legal_name buyer) = [] then Some ConsultationIdentityError
      else if strip subj = [] then Some ConsultationIdentityError
      else
        (let has_buyer_reference = (normalized_key buyer \<noteq> None \<and> strip (or_empty ext) \<noteq> []);
             has_source_fallback = (strip src \<noteq> [] \<and> strip subj \<noteq> [])
         in if \<not> has_buyer_reference \<and> \<not> has_source_fallback
            then Some ConsultationIdentityError else None))"

definition normalize_reference :: "string option \<Rightarrow> string" where
  "normalize_reference v = join '' '' (split_ws (upper (strip (or_empty v))))"

definition Consultation_increment_revision :: "consultation \<Rightarrow> consultation" where
  "Consultation_increment_revision k = k\<lparr>k_aggregate_revision := k_aggregate_revision k + 1\<rparr>"

definition Consultation_record :: "consultation_event \<Rightarrow> consultation \<Rightarrow> consultation" where
  "Consultation_record e k = k\<lparr>k_pending_events := k_pending_events k @ [e]\<rparr>"

definition Consultation_create ::
  "uuid \<Rightarrow> uuid \<Rightarrow> buyer_identity \<Rightarrow> string option \<Rightarrow> string \<Rightarrow> string
   \<Rightarrow> consultation_error + consultation" where
  "Consultation_create kid tid buyer ext subj src =
     (case Consultation_validate_identity buyer ext subj src of Some e \<Rightarrow> Inl e
      | None \<Rightarrow>
        (let k = \<lparr>k_id = kid, k_tenant_id = tid, k_buyer = buyer,
                  k_external_reference = strip_or_None ext, k_subject = strip subj,
                  k_initial_source = strip src, k_lifecycle = Consultation_OPEN,
                  k_freshness = Fresh_UNKNOWN, k_lots = [], k_tranches = [],
                  k_aggregate_revision = 0, k_pending_events = []\<rparr>
         in Inr (Consultation_record (ConsultationCreated (k_id k) (k_tenant_id k)) k)))"

definition functional_identity :: "consultation \<Rightarrow> string list" where
  "functional_identity k =
     (let buyer_key = normalized_key (k_buyer k);
          external_reference = normalize_reference (k_external_reference k)
      in case buyer_key of
           Some key \<Rightarrow>
             if external_reference \<noteq> []
             then [''BUYER_REFERENCE'', uuid_str (k_tenant_id k), key, external_reference]
             else [''SOURCE_FALLBACK'', uuid_str (k_tenant_id k),
                   normalize_reference (Some (k_initial_source k)),
                   normalize_reference (Some (k_subject k))]
         | None \<Rightarrow>
             [''SOURCE_FALLBACK'', uuid_str (k_tenant_id k),
              normalize_reference (Some (k_initial_source k)),
              normalize_reference (Some (k_subject k))])"

definition Consultation_register_lot ::
  "string \<Rightarrow> string \<Rightarrow> string option \<Rightarrow> consultation \<Rightarrow> consultation_error + consultation" where
  "Consultation_register_lot num lbl src k =
     (case Consultation_ensure_open k of Some e \<Rightarrow> Inl e
      | None \<Rightarrow> case ConsultationLot_new (strip num) (strip lbl) (strip_or_None src) of
          Inl e \<Rightarrow> Inl e
        | Inr lot \<Rightarrow>
          if list_ex (\<lambda>ex. casefold (lot_number ex) = casefold (lot_number lot)) (k_lots k)
          then Inl ConsultationIdentityError
          else (let k1 = Consultation_increment_revision (k\<lparr>k_lots := k_lots k @ [lot]\<rparr>)
                in Inr (Consultation_record (ConsultationLotRegistered (k_id k1) (lot_number lot)) k1)))"

definition Consultation_register_tranche ::
  "string \<Rightarrow> string \<Rightarrow> string option \<Rightarrow> consultation \<Rightarrow> consultation_error + consultation" where
  "Consultation_register_tranche rf kd src k =
     (case Consultation_ensure_open k of Some e \<Rightarrow> Inl e
      | None \<Rightarrow> case ConsultationTranche_new (strip rf) (strip kd) (strip_or_None src) of
          Inl e \<Rightarrow> Inl e
        | Inr tr \<Rightarrow>
          if list_ex (\<lambda>ex. casefold (tranche_ref ex) = casefold (tranche_ref tr)) (k_tranches k)
          then Inl ConsultationIdentityError
          else (let k1 = Consultation_increment_revision (k\<lparr>k_tranches := k_tranches k @ [tr]\<rparr>)
                in Inr (Consultation_record
                     (ConsultationTrancheRegistered (k_id k1) (tranche_ref tr)) k1)))"

definition Consultation_close ::
  "string \<Rightarrow> string \<Rightarrow> consultation \<Rightarrow> consultation_error + consultation" where
  "Consultation_close reason src k =
     (case Consultation_ensure_open k of Some e \<Rightarrow> Inl e
      | None \<Rightarrow>
        if strip reason = [] \<or> strip src = [] then Inl ConsultationLifecycleError
        else (let k1 = Consultation_increment_revision (k\<lparr>k_lifecycle := Consultation_CLOSED\<rparr>)
              in Inr (Consultation_record (ConsultationClosed (k_id k1)) k1)))"

section \<open>The contract of the aggregate\<close>

datatype consultation_op =
    RegisterLot string string "string option"
  | RegisterTranche string string "string option"
  | CloseConsultation string string

fun consultation_apply :: "consultation_op \<Rightarrow> consultation \<Rightarrow> consultation_error + consultation" where
  "consultation_apply (RegisterLot n l s) k = Consultation_register_lot n l s k"
| "consultation_apply (RegisterTranche r kd s) k = Consultation_register_tranche r kd s k"
| "consultation_apply (CloseConsultation r s) k = Consultation_close r s k"

definition consultation_exec ::
  "consultation_op \<Rightarrow> consultation \<Rightarrow> consultation_error option \<times> consultation" where
  "consultation_exec x = or_unchanged (consultation_apply x)"

lemmas consultation_op_defs = consultation_exec_def or_unchanged_def
  Consultation_register_lot_def Consultation_register_tranche_def Consultation_close_def
  ConsultationLot_new_def ConsultationTranche_new_def Consultation_ensure_open_def
  Consultation_record_def Consultation_increment_revision_def Let_def

interpretation consultation_agg: revisioned_aggregate
  consultation_exec k_aggregate_revision k_pending_events
  "\<lambda>k. (k_id k, k_tenant_id k, k_buyer k, k_external_reference k, k_subject k, k_initial_source k)"
proof unfold_locales
  fix x s t
  show "consultation_exec x s = (None, t) \<Longrightarrow>
    k_aggregate_revision t = k_aggregate_revision s + 1 \<and> (\<exists>e. k_pending_events t = k_pending_events s @ [e])"
    by (cases x) (auto simp: consultation_op_defs split: option.splits if_splits sum.splits)
next
  fix x s err t
  show "consultation_exec x s = (Some err, t) \<Longrightarrow>
    k_aggregate_revision t = k_aggregate_revision s \<and> k_pending_events t = k_pending_events s"
    by (cases x) (auto simp: consultation_op_defs split: option.splits if_splits sum.splits)
next
  fix x s r t
  show "consultation_exec x s = (r, t) \<Longrightarrow>
    (k_id t, k_tenant_id t, k_buyer t, k_external_reference t, k_subject t, k_initial_source t) =
    (k_id s, k_tenant_id s, k_buyer s, k_external_reference s, k_subject s, k_initial_source s)"
    by (cases x) (auto simp: consultation_op_defs split: option.splits if_splits sum.splits)
qed

section \<open>Normalised references\<close>

lemma upper_char_space: "py_space c \<Longrightarrow> upper_char c = [c]"
  by (auto simp: py_space_def upper_char_def Let_def)

lemma upper_char_nonspace: "\<not> py_space c \<Longrightarrow> upper_char c \<noteq> [] \<and> (\<forall>d \<in> set (upper_char c). \<not> py_space d)"
proof -
  assume ns: "\<not> py_space c"
  let ?n = "code c"
  consider "(97 \<le> ?n \<and> ?n \<le> 122) \<or> (224 \<le> ?n \<and> ?n \<le> 254 \<and> ?n \<noteq> 247)" | "?n = 223"
    | "\<not> ((97 \<le> ?n \<and> ?n \<le> 122) \<or> (224 \<le> ?n \<and> ?n \<le> 254 \<and> ?n \<noteq> 247))" "?n \<noteq> 223" by blast
  then show ?thesis
  proof cases
    case 1
    then have "upper_char c = [char_of (?n - 32)]" by (simp add: upper_char_def Let_def)
    moreover from 1 have "\<not> py_space (char_of (?n - 32))"
      using code_less [of c] by (auto simp: py_space_def code_char_of Let_def)
    ultimately show ?thesis by simp
  next
    case 2
    then have "upper_char c = ''SS''" by (simp add: upper_char_def Let_def)
    then show ?thesis by (simp add: py_space_def code_def Let_def)
  next
    case 3
    then have "upper_char c = [c]" unfolding upper_char_def Let_def by (simp only: if_False)
    then show ?thesis using ns by simp
  qed
qed

lemma upper_all_space: "(\<forall>c \<in> set (upper s). py_space c) \<longleftrightarrow> (\<forall>c \<in> set s. py_space c)"
proof (induction s)
  case Nil
  then show ?case by (simp add: upper_def)
next
  case (Cons c s)
  show ?case
  proof (cases "py_space c")
    case True
    then show ?thesis using Cons by (simp add: upper_def upper_char_space)
  next
    case False
    then obtain d where "d \<in> set (upper_char c)" "\<not> py_space d"
      using upper_char_nonspace [OF False] by (metis list.set_intros(1) neq_Nil_conv)
    then show ?thesis using False by (auto simp: upper_def)
  qed
qed

lemma split_ws_Nil: "split_ws s = [] \<longleftrightarrow> (\<forall>c \<in> set s. py_space c)"
proof (cases "dropWhile py_space s")
  case Nil
  have "split_ws s = []" by (subst split_ws.simps) (simp only: Nil list.case)
  with Nil show ?thesis by (simp add: dropWhile_eq_Nil_conv)
next
  case (Cons c cs)
  have "split_ws s \<noteq> []" by (subst split_ws.simps) (simp add: Cons)
  moreover have "dropWhile py_space s \<noteq> []" using Cons by simp
  ultimately show ?thesis by (simp add: dropWhile_eq_Nil_conv)
qed

lemma split_ws_words: "\<forall>w \<in> set (split_ws s). w \<noteq> []"
proof (induction s rule: split_ws.induct)
  case (1 s)
  show ?case
  proof (cases "dropWhile py_space s")
    case Nil
    have "split_ws s = []" by (subst split_ws.simps) (simp only: Nil list.case)
    then show ?thesis by simp
  next
    case (Cons c cs)
    then show ?thesis using "1.IH" [OF Cons] by (subst split_ws.simps) simp
  qed
qed

lemma join_Nil: "(\<forall>w \<in> set ws. w \<noteq> []) \<Longrightarrow> join sep ws = [] \<longleftrightarrow> ws = []"
  by (induction sep ws rule: join.induct) auto

lemma normalize_reference_Nil: "normalize_reference v = [] \<longleftrightarrow> strip (or_empty v) = []"
proof -
  have "normalize_reference v = [] \<longleftrightarrow> (\<forall>c \<in> set (strip (or_empty v)). py_space c)"
    unfolding normalize_reference_def
    by (simp add: join_Nil split_ws_words split_ws_Nil upper_all_space)
  then show ?thesis by (metis strip_eq_Nil strip_strip)
qed

lemma normalize_reference_strip [strip_simps]:
  "normalize_reference (strip_or_None v) = normalize_reference v"
  "normalize_reference (Some (strip s)) = normalize_reference (Some s)"
  by (simp_all add: normalize_reference_def strip_or_None_def or_empty_def split: option.splits)

section \<open>The invariant\<close>

definition consultation_inv :: "consultation \<Rightarrow> bool" where
  "consultation_inv k \<longleftrightarrow>
     Consultation_validate_identity (k_buyer k) (k_external_reference k) (k_subject k)
       (k_initial_source k) = None \<and>
     distinct (map (\<lambda>l. casefold (lot_number l)) (k_lots k)) \<and>
     (\<forall>l \<in> set (k_lots k). lot_number l \<noteq> [] \<and> strip (lot_number l) = lot_number l
        \<and> lot_label l \<noteq> [] \<and> strip (lot_label l) = lot_label l) \<and>
     distinct (map (\<lambda>t. casefold (tranche_ref t)) (k_tranches k)) \<and>
     (\<forall>t \<in> set (k_tranches k). tranche_ref t \<noteq> [] \<and> strip (tranche_ref t) = tranche_ref t
        \<and> tranche_kind t \<noteq> [] \<and> strip (tranche_kind t) = tranche_kind t)"

lemma or_empty_strip: "strip (or_empty (strip_or_None v)) = strip (or_empty v)"
  by (simp add: or_empty_def strip_or_None_def split: option.splits)

lemma validate_identity_strip:
  "Consultation_validate_identity b (strip_or_None e) (strip su) (strip so)
   = Consultation_validate_identity b e su so"
  by (simp add: Consultation_validate_identity_def or_empty_strip)

lemma consultation_create_inv:
  "Consultation_create kid tid b e su so = Inr k \<Longrightarrow> consultation_inv k"
  by (auto simp: Consultation_create_def consultation_inv_def Consultation_record_def
      validate_identity_strip Let_def split: option.splits)

lemma consultation_exec_inv:
  "consultation_inv k \<Longrightarrow> consultation_exec x k = (r, k') \<Longrightarrow> consultation_inv k'"
  by (cases x)
    (auto simp: consultation_inv_def consultation_op_defs list_ex_image
      split: option.splits if_splits sum.splits)

inductive consultation_reachable :: "consultation \<Rightarrow> bool" where
  created: "Consultation_create kid tid b e su so = Inr k \<Longrightarrow> consultation_reachable k"
| stepped: "consultation_reachable k \<Longrightarrow> consultation_exec x k = (r, k') \<Longrightarrow> consultation_reachable k'"

lemma consultation_closed_frozen:
  "k_lifecycle k \<noteq> Consultation_OPEN \<Longrightarrow>
   consultation_exec x k = (Some ConsultationLifecycleError, k)"
  by (cases x) (simp_all add: consultation_op_defs)

section \<open>Properties\<close>

text \<open>
  Every reachable Consultation keeps its identity requirements (a legal name, a subject,
  and either a buyer key with an external reference or a source), registers no two lots
  whose numbers are equal up to case, no two such tranches, and stores numbers, labels,
  references and kinds stripped and non-blank.
\<close>

theorem consultation_reachable_invariant:
  assumes "consultation_reachable k"
  shows "consultation_inv k"
  using assms
  by (induction rule: consultation_reachable.induct)
    (auto intro: consultation_create_inv consultation_exec_inv)

definition ex_buyer :: buyer_identity where
  "ex_buyer = \<lparr>legal_name = ''Ville'', normalized_identifier = Some '' siret9 ''\<rparr>"

definition ex_consultation :: consultation where
  "ex_consultation = \<lparr>k_id = 2, k_tenant_id = 7, k_buyer = ex_buyer,
     k_external_reference = Some ''ao 24'', k_subject = ''Gymnase'', k_initial_source = [],
     k_lifecycle = Consultation_OPEN, k_freshness = Fresh_UNKNOWN, k_lots = [], k_tranches = [],
     k_aggregate_revision = 0, k_pending_events = [ConsultationCreated 2 7]\<rparr>"

lemma ex_consultation_created:
  "Consultation_create 2 7 ex_buyer (Some '' ao 24'') ''Gymnase '' [] = Inr ex_consultation"
  by code_simp

theorem consultation_reachable_invariant_witness: "consultation_inv ex_consultation"
  by (rule consultation_reachable_invariant)
    (rule consultation_reachable.created [OF ex_consultation_created])

text \<open>
  The functional identity is decided at creation and never moves: after any run of
  operations it is computed from the raw creation arguments alone, it does not depend on
  surrounding white space, and it never has an empty component.
\<close>

theorem consultation_identity_fixed:
  assumes "Consultation_create kid tid b e su so = Inr k"
    and "run_ops consultation_exec xs k = (rs, k')"
  shows "functional_identity k' =
      (if normalized_key b \<noteq> None \<and> strip (or_empty e) \<noteq> []
       then [''BUYER_REFERENCE'', uuid_str tid, the (normalized_key b), normalize_reference e]
       else [''SOURCE_FALLBACK'', uuid_str tid, normalize_reference (Some so), normalize_reference (Some su)])
    \<and> [] \<notin> set (functional_identity k')"
proof -
  from assms(1) have v: "Consultation_validate_identity b e su so = None"
    and k: "k_tenant_id k = tid" "k_buyer k = b" "k_external_reference k = strip_or_None e"
      "k_subject k = strip su" "k_initial_source k = strip so"
    by (auto simp: Consultation_create_def Consultation_record_def Let_def split: option.splits)
  have same: "functional_identity k' = functional_identity k"
    using consultation_agg.run_identity [OF assms(2)]
    by (simp add: functional_identity_def Let_def split: option.split)
  have nonempty: "normalized_key b \<noteq> Some []" by (auto simp: normalized_key_def Let_def)
  have us: "uuid_str tid \<noteq> []" by (simp add: uuid_str_def Let_def)
  have eq: "functional_identity k =
      (if normalized_key b \<noteq> None \<and> strip (or_empty e) \<noteq> []
       then [''BUYER_REFERENCE'', uuid_str tid, the (normalized_key b), normalize_reference e]
       else [''SOURCE_FALLBACK'', uuid_str tid, normalize_reference (Some so), normalize_reference (Some su)])"
    by (auto simp: functional_identity_def k strip_simps normalize_reference_Nil Let_def split: option.splits)
  have "[] \<notin> set (functional_identity k)"
    using v nonempty us unfolding eq Consultation_validate_identity_def
    by (auto simp: normalize_reference_Nil [THEN iffD1] Let_def or_empty_def split: if_splits
        dest!: normalize_reference_Nil [THEN iffD1, OF sym])
  then show ?thesis using same eq by metis
qed

theorem consultation_identity_fixed_witness:
  "functional_identity (snd (run_ops consultation_exec
      [RegisterLot '' 1'' ''Gros oeuvre'' None, RegisterLot ''1 '' ''bis'' None,
       CloseConsultation ''fin'' ''boamp''] ex_consultation))
   = [''BUYER_REFERENCE'', uuid_str 7, ''SIRET9'', ''AO 24'']"
proof -
  let ?run = "run_ops consultation_exec
      [RegisterLot '' 1'' ''Gros oeuvre'' None, RegisterLot ''1 '' ''bis'' None,
       CloseConsultation ''fin'' ''boamp''] ex_consultation"
  have "normalized_key ex_buyer = Some ''SIRET9''" "strip (or_empty (Some '' ao 24'')) \<noteq> []"
    "normalize_reference (Some '' ao 24'') = ''AO 24''" by code_simp+
  then show ?thesis
    using consultation_identity_fixed [OF ex_consultation_created surjective_pairing [of ?run]]
    by (simp only: if_True option.sel option.distinct simp_thms)
qed

text \<open>
  Closing is final: once a Consultation is not OPEN, every later operation is refused
  with the lifecycle error and nothing of it changes any more.
\<close>

theorem consultation_closed_is_final:
  assumes "k_lifecycle k \<noteq> Consultation_OPEN"
    and "run_ops consultation_exec xs k = (rs, k')"
  shows "k' = k \<and> rs = replicate (length xs) (Some ConsultationLifecycleError)"
  using assms(2)
proof (induction xs arbitrary: rs)
  case Nil
  then show ?case by simp
next
  case (Cons x xs)
  then show ?case using consultation_closed_frozen [OF assms(1)] by (auto split: prod.splits)
qed

theorem consultation_closed_is_final_witness:
  "k_lifecycle (ex_consultation\<lparr>k_lifecycle := Consultation_CLOSED\<rparr>) \<noteq> Consultation_OPEN \<and>
   snd (run_ops consultation_exec [RegisterLot ''1'' ''a'' None]
     (ex_consultation\<lparr>k_lifecycle := Consultation_CLOSED\<rparr>))
   = ex_consultation\<lparr>k_lifecycle := Consultation_CLOSED\<rparr>"
proof -
  let ?k = "ex_consultation\<lparr>k_lifecycle := Consultation_CLOSED\<rparr>"
  have h: "k_lifecycle ?k \<noteq> Consultation_OPEN" by simp
  show ?thesis
    by (rule conjI [OF h consultation_closed_is_final [OF h surjective_pairing, THEN conjunct1]])
qed

end
