(* ===== verification/DceVersionAggregate.thy ===== *)
theory DceVersionAggregate
  imports Aggregates
begin

text \<open>
  \<open>backend/app/modules/dce/domain/dce_version.py\<close>: the DceVersion aggregate, the admitted
  originals it owns, the declarations and source statements added to it, its supersession
  and its withdrawal.
\<close>

section \<open>Enumerations, errors and value objects\<close>

datatype dce_lifecycle = ADMITTED | Dce_SUPERSEDED | WITHDRAWN

datatype dce_integrity = VERIFIED | PARTIAL | UNUSABLE

datatype classification_readiness = UNCLASSIFIED | PARTIALLY_CLASSIFIED | CLASSIFIED

datatype analysis_readiness =
  Analysis_NOT_READY | READY_FOR_ANALYSIS | Analysis_REVIEW_REQUIRED

datatype dce_error =
  DceVersionUnusableError | DocumentOriginalImmutableError | SourceLocationRequiredError

fun dce_error_code :: "dce_error \<Rightarrow> string" where
  "dce_error_code DceVersionUnusableError = ''DCE_VERSION_UNUSABLE''"
| "dce_error_code DocumentOriginalImmutableError = ''DOCUMENT_ORIGINAL_IMMUTABLE''"
| "dce_error_code SourceLocationRequiredError = ''SOURCE_LOCATION_REQUIRED''"

definition is_sha256 :: "string \<Rightarrow> bool" where
  "is_sha256 v = (length v = 64 \<and> list_all (\<lambda>c. c \<in> set ''0123456789abcdef'') (lower v))"

record dce_document =
  document_id :: uuid
  original_filename :: string
  doc_sha256 :: string
  media_type :: string
  size_bytes :: int

definition DceDocument_new ::
  "uuid \<Rightarrow> string \<Rightarrow> string \<Rightarrow> string \<Rightarrow> int \<Rightarrow> dce_error + dce_document" where
  "DceDocument_new did fname sha mt sz =
     (if strip fname = [] \<or> strip mt = [] \<or> sz \<le> 0 then Inl DocumentOriginalImmutableError
      else if \<not> is_sha256 sha then Inl DocumentOriginalImmutableError
      else Inr \<lparr>document_id = did, original_filename = fname, doc_sha256 = sha, media_type = mt,
                size_bytes = sz\<rparr>)"

record missing_document =
  expected_family :: string
  missing_reason :: string
  missing_source_reference :: string

record source_statement =
  source_statement_id :: uuid
  statement_document_id :: uuid
  locator :: string
  excerpt :: string
  statement_provenance :: string

datatype dce_event =
    DceVersionRegistered uuid uuid uuid string
  | DceDocumentMissingDeclared uuid string
  | DceVersionSuperseded uuid uuid
  | DceVersionWithdrawn uuid
  | DceSourceStatementRegistered uuid uuid

section \<open>The aggregate\<close>

record dce_version =
  v_id :: uuid
  v_tenant_id :: uuid
  v_consultation_id :: uuid
  v_corpus_hash :: string
  v_documents :: "dce_document list"
  v_provenance :: string
  v_received_at :: instant
  v_supersedes_version_id :: "uuid option"
  v_supersession_source :: "string option"
  v_lifecycle :: dce_lifecycle
  v_integrity :: dce_integrity
  v_classification_readiness :: classification_readiness
  v_analysis_readiness :: analysis_readiness
  v_missing_documents :: "missing_document list"
  v_source_statements :: "source_statement list"
  v_aggregate_revision :: int
  v_pending_events :: "dce_event list"

definition Dce_increment_revision :: "dce_version \<Rightarrow> dce_version" where
  "Dce_increment_revision v = v\<lparr>v_aggregate_revision := v_aggregate_revision v + 1\<rparr>"

definition Dce_record :: "dce_event \<Rightarrow> dce_version \<Rightarrow> dce_version" where
  "Dce_record e v = v\<lparr>v_pending_events := v_pending_events v @ [e]\<rparr>"

definition Dce_ensure_admitted_and_usable :: "dce_version \<Rightarrow> dce_error option" where
  "Dce_ensure_admitted_and_usable v =
     (if v_lifecycle v = WITHDRAWN \<or> v_integrity v = UNUSABLE then Some DceVersionUnusableError
      else if v_lifecycle v \<noteq> ADMITTED then Some DceVersionUnusableError
      else None)"

definition DceVersion_register ::
  "uuid \<Rightarrow> uuid \<Rightarrow> uuid \<Rightarrow> string \<Rightarrow> dce_document list \<Rightarrow> string \<Rightarrow> instant \<Rightarrow> uuid option
   \<Rightarrow> string option \<Rightarrow> dce_error + dce_version" where
  "DceVersion_register vid tid kid corpus docs prov recv spv src =
     (let normalized_corpus_hash = lower corpus in
      if \<not> is_sha256 normalized_corpus_hash then Inl DocumentOriginalImmutableError
      else if docs = [] then Inl DocumentOriginalImmutableError
      else if strip prov = [] then Inl SourceLocationRequiredError
      else if spv \<noteq> None \<and> strip (or_empty src) = [] then Inl SourceLocationRequiredError
      else if \<not> distinct (map document_id docs) then Inl DocumentOriginalImmutableError
      else
        (let v = \<lparr>v_id = vid, v_tenant_id = tid, v_consultation_id = kid,
                  v_corpus_hash = normalized_corpus_hash, v_documents = docs,
                  v_provenance = strip prov, v_received_at = recv,
                  v_supersedes_version_id = spv, v_supersession_source = strip_or_None src,
                  v_lifecycle = ADMITTED, v_integrity = VERIFIED,
                  v_classification_readiness = UNCLASSIFIED,
                  v_analysis_readiness = Analysis_NOT_READY,
                  v_missing_documents = [], v_source_statements = [],
                  v_aggregate_revision = 0, v_pending_events = []\<rparr>
         in Inr (Dce_record (DceVersionRegistered (v_id v) (v_tenant_id v) (v_consultation_id v)
                               (v_corpus_hash v)) v)))"

definition Dce_replace_admitted_corpus ::
  "string \<Rightarrow> dce_document list \<Rightarrow> dce_version \<Rightarrow> dce_error + dce_version" where
  "Dce_replace_admitted_corpus corpus docs v = Inl DocumentOriginalImmutableError"

definition Dce_declare_missing_document ::
  "string \<Rightarrow> string \<Rightarrow> string \<Rightarrow> dce_version \<Rightarrow> dce_error + dce_version" where
  "Dce_declare_missing_document family reason src v =
     (case Dce_ensure_admitted_and_usable v of Some e \<Rightarrow> Inl e
      | None \<Rightarrow>
        if strip family = [] \<or> strip reason = [] \<or> strip src = [] then Inl SourceLocationRequiredError
        else
          (let m = \<lparr>expected_family = strip family, missing_reason = strip reason,
                    missing_source_reference = strip src\<rparr>;
               v1 = Dce_increment_revision
                     (v\<lparr>v_missing_documents := v_missing_documents v @ [m], v_integrity := PARTIAL\<rparr>)
           in Inr (Dce_record (DceDocumentMissingDeclared (v_id v1) (expected_family m)) v1)))"

definition Dce_register_source_statement ::
  "uuid \<Rightarrow> uuid \<Rightarrow> string \<Rightarrow> string \<Rightarrow> string \<Rightarrow> dce_version \<Rightarrow> dce_error + dce_version" where
  "Dce_register_source_statement sid did loc exc prov v =
     (case Dce_ensure_admitted_and_usable v of Some e \<Rightarrow> Inl e
      | None \<Rightarrow>
        if did \<notin> set (map document_id (v_documents v)) then Inl SourceLocationRequiredError
        else if strip loc = [] \<or> strip exc = [] \<or> strip prov = [] then Inl SourceLocationRequiredError
        else if list_ex (\<lambda>s. source_statement_id s = sid) (v_source_statements v)
        then Inl SourceLocationRequiredError
        else
          (let s = \<lparr>source_statement_id = sid, statement_document_id = did, locator = strip loc,
                    excerpt = strip exc, statement_provenance = strip prov\<rparr>;
               v1 = Dce_increment_revision
                     (v\<lparr>v_source_statements := v_source_statements v @ [s]\<rparr>)
           in Inr (Dce_record (DceSourceStatementRegistered (v_id v1) (source_statement_id s)) v1)))"

definition Dce_mark_superseded_by :: "uuid \<Rightarrow> dce_version \<Rightarrow> dce_error + dce_version" where
  "Dce_mark_superseded_by successor v =
     (if v_lifecycle v = WITHDRAWN then Inl DceVersionUnusableError
      else if successor = v_id v then Inl DocumentOriginalImmutableError
      else
        (let v1 = Dce_increment_revision
                    (v\<lparr>v_lifecycle := Dce_SUPERSEDED, v_analysis_readiness := Analysis_REVIEW_REQUIRED\<rparr>)
         in Inr (Dce_record (DceVersionSuperseded (v_id v1) successor) v1)))"

definition Dce_withdraw :: "string \<Rightarrow> string \<Rightarrow> dce_version \<Rightarrow> dce_error + dce_version" where
  "Dce_withdraw reason src v =
     (if v_lifecycle v \<noteq> ADMITTED then Inl DceVersionUnusableError
      else if strip reason = [] \<or> strip src = [] then Inl SourceLocationRequiredError
      else
        (let v1 = Dce_increment_revision
                    (v\<lparr>v_lifecycle := WITHDRAWN, v_analysis_readiness := Analysis_REVIEW_REQUIRED\<rparr>)
         in Inr (Dce_record (DceVersionWithdrawn (v_id v1)) v1)))"

section \<open>The contract of the aggregate\<close>

datatype dce_op =
    ReplaceCorpus string "dce_document list"
  | DeclareMissing string string string
  | RegisterStatement uuid uuid string string string
  | MarkSuperseded uuid
  | Withdraw string string

fun dce_apply :: "dce_op \<Rightarrow> dce_version \<Rightarrow> dce_error + dce_version" where
  "dce_apply (ReplaceCorpus c ds) v = Dce_replace_admitted_corpus c ds v"
| "dce_apply (DeclareMissing f r s) v = Dce_declare_missing_document f r s v"
| "dce_apply (RegisterStatement i d l e p) v = Dce_register_source_statement i d l e p v"
| "dce_apply (MarkSuperseded u) v = Dce_mark_superseded_by u v"
| "dce_apply (Withdraw r s) v = Dce_withdraw r s v"

definition dce_exec :: "dce_op \<Rightarrow> dce_version \<Rightarrow> dce_error option \<times> dce_version" where
  "dce_exec x = or_unchanged (dce_apply x)"

lemmas dce_op_defs = dce_exec_def or_unchanged_def Dce_replace_admitted_corpus_def
  Dce_declare_missing_document_def Dce_register_source_statement_def Dce_mark_superseded_by_def
  Dce_withdraw_def Dce_ensure_admitted_and_usable_def Dce_record_def Dce_increment_revision_def Let_def

text \<open>What no operation may touch: the admitted corpus and the originals, and where they come from.\<close>

definition corpus :: "dce_version \<Rightarrow> _" where
  "corpus v = (v_id v, v_tenant_id v, v_consultation_id v, v_corpus_hash v, v_documents v,
     v_provenance v, v_received_at v, v_supersedes_version_id v, v_supersession_source v)"

interpretation dce_agg: revisioned_aggregate
  dce_exec v_aggregate_revision v_pending_events corpus
proof unfold_locales
  fix x s t
  show "dce_exec x s = (None, t) \<Longrightarrow>
    v_aggregate_revision t = v_aggregate_revision s + 1 \<and> (\<exists>e. v_pending_events t = v_pending_events s @ [e])"
    by (cases x) (auto simp: dce_op_defs split: if_splits)
next
  fix x s err t
  show "dce_exec x s = (Some err, t) \<Longrightarrow>
    v_aggregate_revision t = v_aggregate_revision s \<and> v_pending_events t = v_pending_events s"
    by (cases x) (auto simp: dce_op_defs split: if_splits)
next
  fix x s r t
  show "dce_exec x s = (r, t) \<Longrightarrow> corpus t = corpus s"
    by (cases x) (auto simp: dce_op_defs corpus_def split: if_splits)
qed

section \<open>The invariant\<close>

definition statement_ok :: "dce_version \<Rightarrow> source_statement \<Rightarrow> bool" where
  "statement_ok v s \<longleftrightarrow>
     statement_document_id s \<in> set (map document_id (v_documents v)) \<and>
     locator s \<noteq> [] \<and> excerpt s \<noteq> [] \<and> statement_provenance s \<noteq> []"

definition dce_inv :: "dce_version \<Rightarrow> bool" where
  "dce_inv v \<longleftrightarrow>
     is_sha256 (v_corpus_hash v) \<and> v_documents v \<noteq> [] \<and> distinct (map document_id (v_documents v)) \<and>
     v_provenance v \<noteq> [] \<and>
     (v_supersedes_version_id v \<noteq> None \<longrightarrow> truthy (v_supersession_source v)) \<and>
     distinct (map source_statement_id (v_source_statements v)) \<and>
     (\<forall>s \<in> set (v_source_statements v). statement_ok v s) \<and>
     v_integrity v = (if v_missing_documents v = [] then VERIFIED else PARTIAL) \<and>
     v_analysis_readiness v =
       (if v_lifecycle v = ADMITTED then Analysis_NOT_READY else Analysis_REVIEW_REQUIRED)"

lemma dce_register_inv:
  "DceVersion_register vid tid kid c ds p t spv src = Inr v \<Longrightarrow> dce_inv v"
  by (auto simp: DceVersion_register_def dce_inv_def Dce_record_def Let_def truthy_def
      strip_or_None_def or_empty_def split: if_splits option.splits)

lemma declare_missing_inv:
  "dce_inv v \<Longrightarrow> Dce_declare_missing_document f r s v = Inr v' \<Longrightarrow> dce_inv v'"
  unfolding dce_op_defs
  by (clarsimp simp: dce_inv_def statement_ok_def split: if_splits)

lemma register_statement_inv:
  "dce_inv v \<Longrightarrow> Dce_register_source_statement i d l e p v = Inr v' \<Longrightarrow> dce_inv v'"
  unfolding dce_op_defs
  by (clarsimp simp: dce_inv_def statement_ok_def list_ex_image split: if_splits)

lemma mark_superseded_inv: "dce_inv v \<Longrightarrow> Dce_mark_superseded_by u v = Inr v' \<Longrightarrow> dce_inv v'"
  unfolding dce_op_defs
  by (clarsimp simp: dce_inv_def statement_ok_def split: if_splits)

lemma withdraw_inv: "dce_inv v \<Longrightarrow> Dce_withdraw r s v = Inr v' \<Longrightarrow> dce_inv v'"
  unfolding dce_op_defs
  by (clarsimp simp: dce_inv_def statement_ok_def split: if_splits)

lemma dce_exec_inv:
  assumes "dce_inv v" "dce_exec x v = (r, v')"
  shows "dce_inv v'"
  using assms(2) unfolding dce_exec_def
proof (cases rule: or_unchanged_cases)
  case (raised e)
  with assms(1) show ?thesis by simp
next
  case returned
  with assms(1) show ?thesis
    by (cases x) (auto simp: Dce_replace_admitted_corpus_def intro: declare_missing_inv
        register_statement_inv mark_superseded_inv withdraw_inv)
qed

inductive dce_reachable :: "dce_version \<Rightarrow> bool" where
  registered: "DceVersion_register vid tid kid c ds p t spv src = Inr v \<Longrightarrow> dce_reachable v"
| stepped: "dce_reachable v \<Longrightarrow> dce_exec x v = (r, v') \<Longrightarrow> dce_reachable v'"

section \<open>Properties\<close>

text \<open>
  C38. Every reachable DceVersion holds a valid SHA-256 corpus hash and at least one original,
  no two with the same identifier; a rectificatif names its supersession source; every
  source statement points to a document of the corpus, with locator, excerpt and provenance,
  under its own identifier; integrity is PARTIAL exactly when a document was declared
  missing; and the analysis is put under review exactly when the version left ADMITTED.
\<close>

theorem dce_reachable_invariant:
  assumes "dce_reachable v"
  shows "dce_inv v"
  using assms
  by (induction rule: dce_reachable.induct) (auto intro: dce_register_inv dce_exec_inv)

definition ex_sha :: string where
  "ex_sha = replicate 64 CHR ''A''"

definition ex_doc :: dce_document where
  "ex_doc = \<lparr>document_id = 11, original_filename = ''rc.pdf'', doc_sha256 = ex_sha,
     media_type = ''application/pdf'', size_bytes = 10\<rparr>"

definition ex_dce :: dce_version where
  "ex_dce = \<lparr>v_id = 3, v_tenant_id = 7, v_consultation_id = 2, v_corpus_hash = lower ex_sha,
     v_documents = [ex_doc], v_provenance = ''boamp'', v_received_at = 0,
     v_supersedes_version_id = None, v_supersession_source = None, v_lifecycle = ADMITTED,
     v_integrity = VERIFIED, v_classification_readiness = UNCLASSIFIED,
     v_analysis_readiness = Analysis_NOT_READY, v_missing_documents = [], v_source_statements = [],
     v_aggregate_revision = 0, v_pending_events = [DceVersionRegistered 3 7 2 (lower ex_sha)]\<rparr>"

lemma ex_dce_registered:
  "DceVersion_register 3 7 2 ex_sha [ex_doc] ''boamp '' 0 None None = Inr ex_dce"
  by code_simp

lemma ex_dce_reachable: "dce_reachable ex_dce"
  by (rule dce_reachable.registered [OF ex_dce_registered])

theorem dce_reachable_invariant_witness: "dce_inv ex_dce"
  by (rule dce_reachable_invariant [OF ex_dce_reachable])

text \<open>
  The admitted corpus is immutable: after any sequence of operations, refused or not,
  the corpus hash, the originals, the provenance, the reception date and the supersession
  data are those of the registration, while the revision still counts the accepted
  operations one by one.
\<close>

theorem dce_corpus_immutable:
  assumes "run_ops dce_exec xs v = (rs, v')"
  shows "corpus v' = corpus v \<and> v_aggregate_revision v' = v_aggregate_revision v + successes rs"
  using dce_agg.run_identity [OF assms] dce_agg.run_revision [OF assms] by (rule conjI)

theorem dce_corpus_immutable_witness:
  "corpus (snd (run_ops dce_exec [DeclareMissing ''CCTP'' ''absent'' ''rc'', ReplaceCorpus [] [],
      RegisterStatement 1 11 ''p.2'' ''delai'' ''rc'', MarkSuperseded 4] ex_dce)) = corpus ex_dce"
  by (rule dce_corpus_immutable [OF surjective_pairing, THEN conjunct1])

lemma dce_withdrawn_frozen:
  "v_lifecycle v = WITHDRAWN \<Longrightarrow> \<exists>e. dce_exec x v = (Some e, v)"
  by (cases x) (simp_all add: dce_op_defs)

lemma dce_superseded_step:
  "v_lifecycle v = Dce_SUPERSEDED \<Longrightarrow> dce_exec x v = (r, v') \<Longrightarrow>
   v_lifecycle v' = Dce_SUPERSEDED \<and> (r = None \<longrightarrow> (\<exists>u. x = MarkSuperseded u \<and> u \<noteq> v_id v))"
  by (cases x) (auto simp: dce_op_defs split: if_splits)

text \<open>
  The lifecycle only moves forward: a WITHDRAWN version refuses every later operation
  and never changes again; a SUPERSEDED version refuses everything but a further
  supersession, and stays SUPERSEDED whatever is asked of it.
\<close>

theorem dce_lifecycle_forward:
  assumes "run_ops dce_exec xs v = (rs, v')"
  shows "(v_lifecycle v = WITHDRAWN \<longrightarrow> v' = v \<and> successes rs = 0) \<and>
         (v_lifecycle v = Dce_SUPERSEDED \<longrightarrow> v_lifecycle v' = Dce_SUPERSEDED \<and>
            v_source_statements v' = v_source_statements v \<and>
            v_missing_documents v' = v_missing_documents v)"
  using assms
proof (induction xs arbitrary: v rs)
  case Nil
  then show ?case by auto
next
  case (Cons x xs)
  then obtain r s1 rs1 where st: "dce_exec x v = (r, s1)" "run_ops dce_exec xs s1 = (rs1, v')"
    "rs = r # rs1" by (meson run_ops_Cons)
  note IH = Cons.IH [OF st(2)]
  have w: "v_lifecycle v = WITHDRAWN \<longrightarrow> s1 = v \<and> r \<noteq> None"
    using dce_withdrawn_frozen [of v x] st(1) by auto
  have s: "v_lifecycle v = Dce_SUPERSEDED \<longrightarrow> v_lifecycle s1 = Dce_SUPERSEDED \<and>
      v_source_statements s1 = v_source_statements v \<and> v_missing_documents s1 = v_missing_documents v"
    using st(1) by (cases x) (auto simp: dce_op_defs split: if_splits)
  show ?case using IH w s st(3) by (cases r) auto
qed

theorem dce_lifecycle_forward_witness:
  "v_lifecycle (ex_dce\<lparr>v_lifecycle := WITHDRAWN\<rparr>) = WITHDRAWN \<and>
   snd (run_ops dce_exec [MarkSuperseded 4, DeclareMissing ''a'' ''b'' ''c'']
     (ex_dce\<lparr>v_lifecycle := WITHDRAWN\<rparr>)) = ex_dce\<lparr>v_lifecycle := WITHDRAWN\<rparr>"
proof -
  let ?v = "ex_dce\<lparr>v_lifecycle := WITHDRAWN\<rparr>"
  have w: "v_lifecycle ?v = WITHDRAWN" by simp
  show ?thesis
    using dce_lifecycle_forward [OF surjective_pairing, THEN conjunct1, THEN mp, OF w] w by (meson conjI)
qed

end
