(* ===== verification/Encoding.thy ===== *)
theory Encoding
  imports Prelude
begin

unbundle bit_operations_syntax

text \<open>
  The two standard-library encodings the program builds its fingerprints from:
  \<open>json.dumps(value, sort_keys=True, separators=(",", ":"), ensure_ascii=True)\<close> on the values
  the sources pass to it, and \<open>hashlib.sha256(text.encode("utf-8")).hexdigest()\<close> (FIPS 180-4),
  both executable. Main facts: the JSON text determines the value (\<open>json_text_inj\<close>), and a
  digest is 64 lower-case hexadecimal characters.
\<close>

section \<open>JSON values\<close>

datatype json =
    JNull
  | JBool bool
  | JInt int
  | JStr string
  | JList "json list"
  | JObj "(string \<times> json) list"

definition json_opt :: "('a \<Rightarrow> json) \<Rightarrow> 'a option \<Rightarrow> json" where
  "json_opt f v = (case v of None \<Rightarrow> JNull | Some x \<Rightarrow> f x)"

definition hex4 :: "nat \<Rightarrow> string" where
  "hex4 n = hex_fixed 4 n"

text \<open>\<open>ensure_ascii\<close>: everything outside \<open>' '..'~'\<close> is escaped, and so are quote and backslash.\<close>

definition json_char :: "char \<Rightarrow> string" where
  "json_char c =
     (let n = code c; bs = char_of (92::nat) in
      if n = 34 then [bs, CHR 0x22]
      else if n = 92 then [bs, bs]
      else if n = 10 then [bs, CHR ''n'']
      else if n = 13 then [bs, CHR ''r'']
      else if n = 9 then [bs, CHR ''t'']
      else if n = 12 then [bs, CHR ''f'']
      else if n = 8 then [bs, CHR ''b'']
      else if 32 \<le> n \<and> n \<le> 126 then [c]
      else bs # CHR ''u'' # hex4 n)"

definition json_string :: "string \<Rightarrow> string" where
  "json_string s = CHR 0x22 # concat (map json_char s) @ [CHR 0x22]"

text \<open>The text of a value whose keys are already in order.\<close>

fun json_text :: "json \<Rightarrow> string" and
    json_items :: "json list \<Rightarrow> string" and
    json_members :: "(string \<times> json) list \<Rightarrow> string" where
  "json_text JNull = ''null''"
| "json_text (JBool b) = (if b then ''true'' else ''false'')"
| "json_text (JInt i) = int_str i"
| "json_text (JStr s) = json_string s"
| "json_text (JList xs) = ''['' @ json_items xs @ '']''"
| "json_text (JObj kvs) = ''{'' @ json_members kvs @ ''}''"
| "json_items [] = []"
| "json_items [x] = json_text x"
| "json_items (x # y # ys) = json_text x @ '','' @ json_items (y # ys)"
| "json_members [] = []"
| "json_members [(k, v)] = json_string k @ '':'' @ json_text v"
| "json_members ((k, v) # m # ms) = json_string k @ '':'' @ json_text v @ '','' @ json_members (m # ms)"

text \<open>\<open>sort_keys=True\<close> sorts the members of every object by key.\<close>

fun canon :: "json \<Rightarrow> json" and
    canon_items :: "json list \<Rightarrow> json list" and
    canon_members :: "(string \<times> json) list \<Rightarrow> (string \<times> json) list" where
  "canon (JList xs) = JList (canon_items xs)"
| "canon (JObj kvs) = JObj (sort_key fst (canon_members kvs))"
| "canon JNull = JNull"
| "canon (JBool b) = JBool b"
| "canon (JInt i) = JInt i"
| "canon (JStr s) = JStr s"
| "canon_items [] = []"
| "canon_items (x # xs) = canon x # canon_items xs"
| "canon_members [] = []"
| "canon_members ((k, v) # ms) = (k, canon v) # canon_members ms"

definition json_dumps :: "json \<Rightarrow> string" where
  "json_dumps j = json_text (canon j)"

section \<open>UTF-8\<close>

definition utf8_char :: "char \<Rightarrow> nat list" where
  "utf8_char c =
     (let n = code c in if n < 128 then [n] else [192 + n div 64, 128 + n mod 64])"

definition utf8 :: "string \<Rightarrow> nat list" where
  "utf8 s = concat (map utf8_char s)"


section \<open>SHA-256\<close>

type_synonym w32 = "32 word"

text \<open>
  The constants are the first 32 bits of the fractional parts of roots of the first primes:
  cube roots of the first 64 for the rounds, square roots of the first 8 for the initial
  state. \<open>root_floor\<close> builds the integer root bit by bit, \<open>frac_root\<close> keeps the fraction.
\<close>

fun root_floor :: "nat \<Rightarrow> nat \<Rightarrow> nat \<Rightarrow> nat \<Rightarrow> nat" where
  "root_floor k 0 acc n = acc"
| "root_floor k (Suc b) acc n =
     root_floor k b (if (acc + 2 ^ b) ^ k \<le> n then acc + 2 ^ b else acc) n"

definition frac_root :: "nat \<Rightarrow> nat \<Rightarrow> w32" where
  "frac_root k p = of_nat (root_floor k 40 0 (p * 2 ^ (32 * k)))"

definition first_primes :: "nat list" where
  "first_primes = filter (\<lambda>n. \<forall>d \<in> set [2..<n]. n mod d \<noteq> 0) [2..<312]"

definition sha_k :: "w32 list" where
  "sha_k = map (frac_root 3) first_primes"

type_synonym sha_state = "w32 \<times> w32 \<times> w32 \<times> w32 \<times> w32 \<times> w32 \<times> w32 \<times> w32"

definition sha_init :: sha_state where
  "sha_init =
     (frac_root 2 2, frac_root 2 3, frac_root 2 5, frac_root 2 7,
      frac_root 2 11, frac_root 2 13, frac_root 2 17, frac_root 2 19)"

definition rotr :: "nat \<Rightarrow> w32 \<Rightarrow> w32" where
  "rotr n x = drop_bit n x OR push_bit (32 - n) x"

definition big_sigma0 :: "w32 \<Rightarrow> w32" where
  "big_sigma0 x = (rotr 2 x XOR rotr 13 x) XOR rotr 22 x"

definition big_sigma1 :: "w32 \<Rightarrow> w32" where
  "big_sigma1 x = (rotr 6 x XOR rotr 11 x) XOR rotr 25 x"

definition small_sigma0 :: "w32 \<Rightarrow> w32" where
  "small_sigma0 x = (rotr 7 x XOR rotr 18 x) XOR drop_bit 3 x"

definition small_sigma1 :: "w32 \<Rightarrow> w32" where
  "small_sigma1 x = (rotr 17 x XOR rotr 19 x) XOR drop_bit 10 x"

definition ch :: "w32 \<Rightarrow> w32 \<Rightarrow> w32 \<Rightarrow> w32" where
  "ch x y z = (x AND y) XOR (NOT x AND z)"

definition maj :: "w32 \<Rightarrow> w32 \<Rightarrow> w32 \<Rightarrow> w32" where
  "maj x y z = ((x AND y) XOR (x AND z)) XOR (y AND z)"

text \<open>The message schedule, built backwards: the newest word is the head.\<close>

fun sha_schedule :: "nat \<Rightarrow> w32 list \<Rightarrow> w32 list" where
  "sha_schedule 0 ws = rev ws"
| "sha_schedule (Suc n) ws =
     sha_schedule n ((small_sigma1 (ws ! 1) + ws ! 6 + small_sigma0 (ws ! 14) + ws ! 15) # ws)"

fun sha_round :: "w32 \<times> w32 \<Rightarrow> sha_state \<Rightarrow> sha_state" where
  "sha_round (k, w) (a, b, c, d, e, f, g, h) =
     (let t1 = h + big_sigma1 e + ch e f g + k + w;
          t2 = big_sigma0 a + maj a b c
      in (t1 + t2, a, b, c, d + t1, e, f, g))"

fun sha_add :: "sha_state \<Rightarrow> sha_state \<Rightarrow> sha_state" where
  "sha_add (a, b, c, d, e, f, g, h) (a', b', c', d', e', f', g', h') =
     (a + a', b + b', c + c', d + d', e + e', f + f', g + g', h + h')"

definition sha_compress :: "w32 list \<Rightarrow> sha_state \<Rightarrow> sha_state" where
  "sha_compress block st = sha_add st (fold sha_round (zip sha_k (sha_schedule 48 (rev block))) st)"

fun sha_blocks :: "w32 list \<Rightarrow> sha_state \<Rightarrow> sha_state" where
  "sha_blocks ws st =
     (if length ws < 16 then st else sha_blocks (drop 16 ws) (sha_compress (take 16 ws) st))"

declare sha_blocks.simps [simp del]

fun be_words :: "nat list \<Rightarrow> w32 list" where
  "be_words (a # b # c # d # bs) =
     of_nat (((a * 256 + b) * 256 + c) * 256 + d) # be_words bs"
| "be_words _ = []"

fun be_bytes :: "nat \<Rightarrow> nat \<Rightarrow> nat list" where
  "be_bytes 0 n = []"
| "be_bytes (Suc k) n = be_bytes k (n div 256) @ [n mod 256]"

definition sha_pad :: "nat list \<Rightarrow> nat list" where
  "sha_pad bs =
     bs @ [128] @ replicate ((119 - length bs mod 64) mod 64) 0 @ be_bytes 8 (8 * length bs)"

fun sha_hex :: "sha_state \<Rightarrow> string" where
  "sha_hex (a, b, c, d, e, f, g, h) =
     concat (map (\<lambda>w. hex_fixed 8 (unat w)) [a, b, c, d, e, f, g, h])"

definition sha256_bytes :: "nat list \<Rightarrow> string" where
  "sha256_bytes bs = sha_hex (sha_blocks (be_words (sha_pad bs)) sha_init)"

definition sha256_hex :: "string \<Rightarrow> string" where
  "sha256_hex s = sha_hex (sha_blocks (be_words (sha_pad (utf8 s))) sha_init)"

lemma length_sha_hex: "length (sha_hex st) = 64"
  by (cases st rule: sha_hex.cases) simp

lemma set_sha_hex: "set (sha_hex st) \<subseteq> set hex_chars"
  by (cases st rule: sha_hex.cases) (auto dest: subsetD [OF set_hex_fixed])

lemma length_sha256_hex [simp]: "length (sha256_hex s) = 64"
  by (simp add: sha256_hex_def length_sha_hex)

lemma set_sha256_hex: "set (sha256_hex s) \<subseteq> set hex_chars"
  by (simp add: sha256_hex_def set_sha_hex)

section \<open>The JSON text determines the value\<close>

text \<open>
  Every production below is self-delimiting: where a text is followed by nothing or by one
  of \<open>,\<close>, \<open>]\<close>, \<open>}\<close>, both the value and the rest can be read off.
\<close>

lemma char_code_eq: "c = d \<longleftrightarrow> code c = code d"
  by (simp add: code_def)

definition backslash :: char where
  "backslash = char_of (92::nat)"

definition json_plain :: "char \<Rightarrow> bool" where
  "json_plain c = (let n = code c in 32 \<le> n \<and> n \<le> 126 \<and> n \<noteq> 34 \<and> n \<noteq> 92)"

definition json_escape :: "char \<Rightarrow> string" where
  "json_escape c =
     (let n = code c in
      if n = 34 then [CHR 0x22] else if n = 92 then [backslash]
      else if n = 10 then ''n'' else if n = 13 then ''r'' else if n = 9 then ''t''
      else if n = 12 then ''f'' else if n = 8 then ''b'' else CHR ''u'' # hex4 n)"

lemma json_char_cases: "json_char c = (if json_plain c then [c] else backslash # json_escape c)"
  by (auto simp: json_char_def json_plain_def json_escape_def backslash_def Let_def)

lemma hex4_code_inj: "hex4 (code c) = hex4 (code d) \<Longrightarrow> c = d"
proof -
  assume eq: "hex4 (code c) = hex4 (code d)"
  have small: "code e < 16 ^ 4" for e using code_less [of e] by simp
  have "code c = code d"
    by (rule hex_fixed_inj [OF small small]) (rule eq [unfolded hex4_def])
  then show "c = d" by (rule char_code_eq [THEN iffD2])
qed

lemma json_escape_prefix: "json_escape c @ x = json_escape d @ y \<Longrightarrow> c = d \<and> x = y"
proof -
  assume eq: "json_escape c @ x = json_escape d @ y"
  have ne: "json_escape e \<noteq> []" for e by (simp add: json_escape_def Let_def)
  have h: "hd (json_escape c) = hd (json_escape d)"
    using arg_cong [OF eq, of hd] by (simp add: ne)
  have special: "hd (json_escape e) = (let n = code e in if n = 34 then CHR 0x22 else if n = 92 then backslash
      else if n = 10 then CHR ''n'' else if n = 13 then CHR ''r'' else if n = 9 then CHR ''t''
      else if n = 12 then CHR ''f'' else if n = 8 then CHR ''b'' else CHR ''u'')" for e
    by (simp add: json_escape_def Let_def)
  have bs: "code backslash = 92" by (simp add: backslash_def code_char_of)
  have tags: "distinct (map code [CHR 0x22, CHR ''n'', CHR ''r'', CHR ''t'', CHR ''f'', CHR ''b'', CHR ''u''])"
    "92 \<notin> set (map code [CHR 0x22, CHR ''n'', CHR ''r'', CHR ''t'', CHR ''f'', CHR ''b'', CHR ''u''])"
    by (simp_all add: code_def)
  show ?thesis
  proof (cases "hd (json_escape c) = CHR ''u''")
    case True
    then have u: "json_escape c = CHR ''u'' # hex4 (code c)" "json_escape d = CHR ''u'' # hex4 (code d)"
      using special [of c] special [of d] h bs tags
      by (auto simp: json_escape_def Let_def split: if_splits)
    with eq have "hex4 (code c) = hex4 (code d) \<and> x = y"
      by (simp add: append_eq_append_conv hex4_def)
    then show ?thesis using hex4_code_inj by blast
  next
    case False
    then have "code c = code d"
      using special [of c] special [of d] h bs tags by (auto simp: Let_def split: if_splits)
    then have "c = d" by (simp add: char_code_eq)
    with eq show ?thesis by simp
  qed
qed

lemma json_plain_special: "\<not> json_plain backslash" "\<not> json_plain CHR 0x22" "backslash \<noteq> CHR 0x22"
proof -
  have c: "code backslash = 92" "code CHR 0x22 = 34"
    by (simp_all add: backslash_def code_char_of) (simp add: code_def)
  then show "\<not> json_plain backslash" "\<not> json_plain CHR 0x22" by (simp_all add: json_plain_def)
  from c show "backslash \<noteq> CHR 0x22" by auto
qed

lemma json_char_prefix:
  assumes eq: "json_char c @ x = json_char d @ y"
  shows "c = d \<and> x = y"
proof (cases "json_plain c")
  case c: True
  show ?thesis
  proof (cases "json_plain d")
    case True
    then show ?thesis using eq c by (simp add: json_char_cases)
  next
    case False
    then show ?thesis using eq c json_plain_special(1) by (auto simp: json_char_cases)
  qed
next
  case c: False
  show ?thesis
  proof (cases "json_plain d")
    case True
    then show ?thesis using eq c json_plain_special(1) by (auto simp: json_char_cases)
  next
    case False
    then have "json_escape c @ x = json_escape d @ y" using eq c by (simp add: json_char_cases)
    then show ?thesis by (rule json_escape_prefix)
  qed
qed

lemma json_char_quote: "json_char c @ x \<noteq> CHR 0x22 # y"
proof (cases "json_plain c")
  case True
  then have "c \<noteq> CHR 0x22" using json_plain_special(2) by metis
  with True show ?thesis by (simp add: json_char_cases)
next
  case False
  then show ?thesis using json_plain_special(3) by (simp add: json_char_cases)
qed

lemma json_chars_prefix:
  "concat (map json_char s) @ CHR 0x22 # x = concat (map json_char t) @ CHR 0x22 # y \<Longrightarrow> s = t \<and> x = y"
proof (induction s arbitrary: t)
  case Nil
  show ?case
  proof (cases t)
    case Nil
    then show ?thesis using Nil.prems by simp
  next
    case (Cons d u)
    then show ?thesis using Nil.prems json_char_quote [of d "concat (map json_char u) @ CHR 0x22 # y" x] by simp
  qed
next
  case (Cons c s)
  show ?case
  proof (cases t)
    case Nil
    then show ?thesis using Cons.prems json_char_quote by simp
  next
    case (Cons d u)
    with Cons.prems have "c = d" "concat (map json_char s) @ CHR 0x22 # x = concat (map json_char u) @ CHR 0x22 # y"
      by (auto dest: json_char_prefix)
    with Cons.IH [of u] \<open>t = d # u\<close> show ?thesis by simp
  qed
qed

lemma json_string_prefix: "json_string s @ x = json_string t @ y \<Longrightarrow> s = t \<and> x = y"
  using json_chars_prefix [of s x t y] by (simp add: json_string_def)


section \<open>Decimal numerals end where a delimiter begins\<close>

definition is_digit :: "char \<Rightarrow> bool" where
  "is_digit c = (48 \<le> code c \<and> code c \<le> 57)"

definition delimited :: "string \<Rightarrow> bool" where
  "delimited r = (r = [] \<or> hd r \<in> {CHR '','', CHR '']'', CHR ''}''})"

lemma delimited_simps [simp]:
  "delimited []" "delimited (CHR '','' # r)" "delimited (CHR '']'' # r)" "delimited (CHR ''}'' # r)"
  by (simp_all add: delimited_def)

lemma code_dec_digit: "d < 10 \<Longrightarrow> code (dec_digit d) = 48 + d"
  by (simp add: dec_digit_def code_char_of)

lemma nat_str_digits: "\<forall>c \<in> set (nat_str n). is_digit c"
proof (induction n rule: nat_str.induct)
  case (1 n)
  then show ?case
    by (subst nat_str.simps) (auto simp: is_digit_def code_dec_digit)
qed

lemma nat_str_ne [simp]: "nat_str n \<noteq> []"
  by (subst nat_str.simps) simp

definition digits_value :: "string \<Rightarrow> nat" where
  "digits_value s = foldl (\<lambda>a c. 10 * a + (code c - 48)) 0 s"

lemma digits_value_nat_str: "digits_value (nat_str n) = n"
proof (induction n rule: nat_str.induct)
  case (1 n)
  show ?case
  proof (cases "n < 10")
    case True
    then show ?thesis by (subst nat_str.simps) (simp add: digits_value_def code_dec_digit)
  next
    case False
    with 1 have "digits_value (nat_str (n div 10)) = n div 10" by blast
    then show ?thesis
      using False by (subst nat_str.simps) (simp add: digits_value_def code_dec_digit)
  qed
qed

lemma nat_str_inj: "nat_str m = nat_str n \<Longrightarrow> m = n"
  by (metis digits_value_nat_str)

lemma delimited_not_digit: "delimited r \<Longrightarrow> r = [] \<or> \<not> is_digit (hd r)"
  by (auto simp: delimited_def is_digit_def code_def)

lemma takeWhile_digits:
  assumes "\<forall>c \<in> set s. is_digit c" "delimited r"
  shows "takeWhile is_digit (s @ r) = s"
proof -
  have "takeWhile is_digit r = []" using delimited_not_digit [OF assms(2)] by (cases r) auto
  with assms(1) show ?thesis by (simp add: takeWhile_append)
qed

lemma nat_str_prefix:
  assumes "nat_str m @ x = nat_str n @ y" "delimited x" "delimited y"
  shows "m = n \<and> x = y"
proof -
  have "nat_str m = nat_str n"
    using takeWhile_digits [OF nat_str_digits assms(2), of m]
      takeWhile_digits [OF nat_str_digits assms(3), of n] assms(1) by simp
  with assms(1) show ?thesis by (auto dest: nat_str_inj)
qed

lemma nat_str_no_minus: "nat_str n @ x \<noteq> CHR ''-'' # y"
proof
  assume "nat_str n @ x = CHR ''-'' # y"
  then have "CHR ''-'' \<in> set (nat_str n)" by (cases "nat_str n") auto
  then have "is_digit CHR ''-''" using nat_str_digits by blast
  then show False by (simp add: is_digit_def code_def)
qed

lemma int_str_prefix:
  assumes "int_str i @ x = int_str j @ y" "delimited x" "delimited y"
  shows "i = j \<and> x = y"
proof (cases "i < 0")
  case True
  then show ?thesis
    using assms nat_str_prefix [of "nat (- i)" x "nat (- j)" y] nat_str_no_minus [of "nat j" y "nat_str (nat (- i)) @ x"]
    by (auto simp: int_str_def split: if_splits)
next
  case False
  then show ?thesis
    using assms nat_str_prefix [of "nat i" x "nat j" y] nat_str_no_minus [of "nat i" x "nat_str (nat (- j)) @ y"]
    by (auto simp: int_str_def split: if_splits)
qed

section \<open>The JSON text determines the value\<close>

text \<open>The first character of a JSON text tells the constructor of the value.\<close>

definition json_tag :: "char \<Rightarrow> nat" where
  "json_tag c =
     (if c = CHR ''n'' then 0 else if c = CHR ''t'' \<or> c = CHR ''f'' then 1
      else if is_digit c \<or> c = CHR ''-'' then 2 else if c = CHR 0x22 then 3
      else if c = CHR ''['' then 4 else if c = CHR ''{'' then 5 else 6)"

fun json_con :: "json \<Rightarrow> nat" where
  "json_con JNull = 0"
| "json_con (JBool b) = 1"
| "json_con (JInt i) = 2"
| "json_con (JStr s) = 3"
| "json_con (JList xs) = 4"
| "json_con (JObj kvs) = 5"

lemma json_tag_values [simp]:
  "json_tag CHR ''n'' = 0" "json_tag CHR ''t'' = 1" "json_tag CHR ''f'' = 1"
  "json_tag CHR ''-'' = 2" "json_tag CHR 0x22 = 3" "json_tag CHR ''['' = 4" "json_tag CHR ''{'' = 5"
  "json_tag CHR '','' = 6" "json_tag CHR '']'' = 6" "json_tag CHR ''}'' = 6"
  by (simp_all add: json_tag_def is_digit_def code_def)

lemma json_tag_digit: "is_digit c \<Longrightarrow> json_tag c = 2"
  by (auto simp: json_tag_def is_digit_def code_def)

lemma int_str_ne [simp]: "int_str i \<noteq> []"
  by (simp add: int_str_def)

lemma json_text_ne [simp]: "json_text j \<noteq> []"
  by (cases j) (simp_all add: json_string_def)

lemma json_text_tag: "json_tag (hd (json_text j)) = json_con j"
proof (cases j)
  case (JInt i)
  have "is_digit (hd (nat_str n))" for n
    using nat_str_digits by (meson hd_in_set nat_str_ne)
  with JInt show ?thesis by (simp add: int_str_def json_tag_digit)
qed (simp_all add: json_string_def)

lemma json_con_le: "json_con j < 6"
  by (cases j) simp_all

lemma json_text_same_con: "json_text a @ x = json_text b @ y \<Longrightarrow> json_con a = json_con b"
  by (metis hd_append2 json_text_ne json_text_tag)

lemma json_text_no_close: "json_tag c = 6 \<Longrightarrow> json_text a @ x \<noteq> c # y"
  by (metis hd_append2 json_con_le json_text_ne json_text_tag less_irrefl list.sel(1))

lemma json_items_Cons: "json_items (a # as) = json_text a @ (if as = [] then [] else CHR '','' # json_items as)"
  by (cases as) simp_all

lemma json_members_Cons:
  "json_members ((k, a) # as) =
     json_string k @ CHR '':'' # json_text a @ (if as = [] then [] else CHR '','' # json_members as)"
  by (cases as) simp_all

lemma json_items_split:
  assumes one: "\<And>b x y. json_text a @ x = json_text b @ y \<Longrightarrow> delimited x \<Longrightarrow> delimited y \<Longrightarrow> a = b \<and> x = y"
    and rest: "\<And>bs x y. as \<noteq> [] \<Longrightarrow> json_items as @ CHR '']'' # x = json_items bs @ CHR '']'' # y \<Longrightarrow> as = bs \<and> x = y"
    and eq: "json_items (a # as) @ CHR '']'' # x = json_items bs @ CHR '']'' # y"
  shows "a # as = bs \<and> x = y"
proof (cases bs)
  case Nil
  then show ?thesis using eq json_text_no_close [of "CHR '']''" a] by (simp add: json_items_Cons)
next
  case (Cons b cs)
  let ?x = "(if as = [] then [] else CHR '','' # json_items as) @ CHR '']'' # x"
  let ?y = "(if cs = [] then [] else CHR '','' # json_items cs) @ CHR '']'' # y"
  have "json_text a @ ?x = json_text b @ ?y" using eq Cons by (simp add: json_items_Cons)
  then have ab: "a = b" and xy: "?x = ?y" using one [of ?x b ?y] by simp_all
  then show ?thesis using Cons rest by (auto split: if_splits)
qed

lemma json_members_split:
  assumes one: "\<And>b x y. json_text a @ x = json_text b @ y \<Longrightarrow> delimited x \<Longrightarrow> delimited y \<Longrightarrow> a = b \<and> x = y"
    and rest: "\<And>bs x y. as \<noteq> [] \<Longrightarrow> json_members as @ CHR ''}'' # x = json_members bs @ CHR ''}'' # y \<Longrightarrow> as = bs \<and> x = y"
    and eq: "json_members ((k, a) # as) @ CHR ''}'' # x = json_members bs @ CHR ''}'' # y"
  shows "(k, a) # as = bs \<and> x = y"
proof (cases bs)
  case Nil
  then show ?thesis using eq by (simp add: json_members_Cons json_string_def)
next
  case (Cons m cs)
  obtain l b where m: "m = (l, b)" by (cases m)
  let ?x = "(if as = [] then [] else CHR '','' # json_members as) @ CHR ''}'' # x"
  let ?y = "(if cs = [] then [] else CHR '','' # json_members cs) @ CHR ''}'' # y"
  have "json_string k @ CHR '':'' # json_text a @ ?x = json_string l @ CHR '':'' # json_text b @ ?y"
    using eq Cons m by (simp add: json_members_Cons)
  then have kl: "k = l" and "json_text a @ ?x = json_text b @ ?y" by (auto dest: json_string_prefix)
  then have ab: "a = b" and xy: "?x = ?y" using one [of ?x b ?y] by simp_all
  then show ?thesis using Cons m kl rest by (auto split: if_splits)
qed

lemma json_text_prefix:
  "json_text a @ x = json_text b @ y \<Longrightarrow> delimited x \<Longrightarrow> delimited y \<Longrightarrow> a = b \<and> x = y"
  "json_items as @ CHR '']'' # x = json_items bs @ CHR '']'' # y \<Longrightarrow> as = bs \<and> x = y"
  "json_members ms @ CHR ''}'' # x = json_members ns @ CHR ''}'' # y \<Longrightarrow> ms = ns \<and> x = y"
proof (induction a and as and ms arbitrary: b x y and bs x y and ns x y
    rule: json_text_json_items_json_members.induct)
  case 1
  from json_text_same_con [OF 1(1)] have "b = JNull" by (cases b) simp_all
  with 1 show ?case by simp
next
  case (2 v)
  from json_text_same_con [OF 2(1)] obtain w where "b = JBool w" by (cases b) simp_all
  with 2 show ?case by (simp split: if_splits)
next
  case (3 i)
  from json_text_same_con [OF 3(1)] obtain j where "b = JInt j" by (cases b) simp_all
  with 3 show ?case using int_str_prefix [of i x j y] by simp
next
  case (4 s)
  from json_text_same_con [OF 4(1)] obtain t where "b = JStr t" by (cases b) simp_all
  with 4 show ?case using json_string_prefix [of s x t y] by simp
next
  case (5 xs)
  from json_text_same_con [OF 5(2)] obtain ys where "b = JList ys" by (cases b) simp_all
  with 5 show ?case by simp
next
  case (6 kvs)
  from json_text_same_con [OF 6(2)] obtain ns where "b = JObj ns" by (cases b) simp_all
  with 6 show ?case by simp
next
  case 7
  show ?case
  proof (cases bs)
    case (Cons b cs)
    have "json_text b @ z \<noteq> CHR '']'' # x" for z by (rule json_text_no_close) simp
    with 7 Cons show ?thesis by (metis append_Nil append_assoc json_items.simps(1) json_items_Cons)
  qed (use 7 in simp)
next
  case (8 a)
  show ?case by (rule json_items_split [OF 8(1) _ 8(2)]) simp_all
next
  case (9 a c cs)
  show ?case by (rule json_items_split [OF 9(1) 9(2) 9(3)])
next
  case 10
  then show ?case
  proof (cases ns)
    case (Cons m cs)
    then show ?thesis using 10 by (cases m) (simp add: json_members_Cons json_string_def)
  qed (use 10 in simp)
next
  case (11 k v)
  show ?case by (rule json_members_split [OF 11(1) _ 11(2)]) simp_all
next
  case (12 k v m ms)
  show ?case by (rule json_members_split [OF 12(1) 12(2) 12(3)])
qed

theorem json_text_inj: "json_text a = json_text b \<longleftrightarrow> a = b"
  using json_text_prefix(1) [of a "[]" b "[]"] by auto

text \<open>
  Two canonical texts are equal only if the values are, up to the order of object members; and
  two equal digests come from equal values or exhibit a collision of SHA-256.
\<close>

corollary json_dumps_eq: "json_dumps a = json_dumps b \<longleftrightarrow> canon a = canon b"
  by (simp add: json_dumps_def json_text_inj)

definition sha256_collision :: "string \<Rightarrow> string \<Rightarrow> bool" where
  "sha256_collision s t = (s \<noteq> t \<and> sha256_hex s = sha256_hex t)"

lemma digest_eq:
  "sha256_hex (json_dumps a) = sha256_hex (json_dumps b) \<longleftrightarrow>
   canon a = canon b \<or> sha256_collision (json_dumps a) (json_dumps b)"
  by (metis json_dumps_eq sha256_collision_def)

end
