(* ===== verification/DecisionAggregate.thy ===== *)
theory DecisionAggregate
  imports Aggregates Encoding
begin

text \<open>
  The Decision aggregate of \<open>backend/app/modules/decision/domain/decision.py\<close>: a human
  arbitration against a frozen, fingerprinted context. A datetime is kept by its fields
  (\<open>py_datetime\<close>) because the context fingerprint is computed on its \<open>isoformat()\<close>.

  One method assigns before it can raise: \<open>approve_conditional_go\<close> replaces the conditions
  before \<open>_finalize\<close> checks the justification. The operations are therefore modelled as
  functions to an optional error and the resulting decision, and the frame property says
  exactly which refused calls leave a trace.
\<close>

section \<open>Enumerations and errors\<close>

datatype decision_type =
  GO_NO_GO | RISK_ACCEPTANCE | PARTNER_SELECTION | PRICING_APPROVAL | SUBMISSION_AUTHORIZATION

datatype decision_lifecycle =
  Decision_DRAFT | PENDING_PATRON | FINALIZED | Decision_SUPERSEDED | CANCELLED

datatype decision_outcome =
  UNDECIDED | GO | CONDITIONAL_GO | NO_GO | ACCEPTED | REJECTED | AUTHORIZED | NOT_AUTHORIZED

datatype decision_validity =
  Validity_CURRENT | Validity_REVIEW_REQUIRED | Validity_SUPERSEDED | INVALIDATED

datatype context_status = INCOMPLETE | FROZEN | STALE

datatype condition_status =
  NOT_APPLICABLE | Condition_OPEN | Condition_SATISFIED | Condition_FAILED | Condition_WAIVED

datatype decision_error =
    DecisionContextIncompleteError
  | StaleDecisionContextError
  | DecisionAlreadyFinalizedError
  | DecisionLifecycleError
  | ConditionOwnerRequiredError
  | ConditionConsequenceRequiredError

fun decision_error_code :: "decision_error \<Rightarrow> string" where
  "decision_error_code DecisionContextIncompleteError = ''DECISION_CONTEXT_INCOMPLETE''"
| "decision_error_code StaleDecisionContextError = ''STALE_CONTEXT''"
| "decision_error_code DecisionAlreadyFinalizedError = ''DECISION_ALREADY_FINALIZED''"
| "decision_error_code DecisionLifecycleError = ''DECISION_LIFECYCLE_FORBIDS_ACTION''"
| "decision_error_code ConditionOwnerRequiredError = ''CONDITION_OWNER_REQUIRED''"
| "decision_error_code ConditionConsequenceRequiredError = ''CONDITION_CONSEQUENCE_REQUIRED''"

section \<open>Datetimes as text\<close>

text \<open>\<open>t_utcoffset\<close> is \<open>None\<close> for a naive datetime, otherwise the offset in microseconds.\<close>

record py_datetime =
  t_year :: nat
  t_month :: nat
  t_day :: nat
  t_hour :: nat
  t_minute :: nat
  t_second :: nat
  t_microsecond :: nat
  t_utcoffset :: "int option"

definition zero_fill :: "nat \<Rightarrow> nat \<Rightarrow> string" where
  "zero_fill k n = (let s = nat_str n in replicate (k - length s) CHR ''0'' @ s)"

definition format_offset :: "int \<Rightarrow> string" where
  "format_offset off =
     (let a = nat \<bar>off\<bar>; us = a mod 1000000; s = a div 1000000 in
      (if off < 0 then ''-'' else ''+'')
      @ zero_fill 2 (s div 3600) @ '':'' @ zero_fill 2 (s div 60 mod 60)
      @ (if s mod 60 = 0 \<and> us = 0 then []
         else '':'' @ zero_fill 2 (s mod 60) @ (if us = 0 then [] else ''.'' @ zero_fill 6 us)))"

definition isoformat :: "py_datetime \<Rightarrow> string" where
  "isoformat t =
     zero_fill 4 (t_year t) @ ''-'' @ zero_fill 2 (t_month t) @ ''-'' @ zero_fill 2 (t_day t) @ ''T''
     @ zero_fill 2 (t_hour t) @ '':'' @ zero_fill 2 (t_minute t) @ '':'' @ zero_fill 2 (t_second t)
     @ (if t_microsecond t = 0 then [] else ''.'' @ zero_fill 6 (t_microsecond t))
     @ (case t_utcoffset t of None \<Rightarrow> [] | Some off \<Rightarrow> format_offset off)"

section \<open>The decision context\<close>

record decision_context =
  x_context_id :: uuid
  x_tenant_id :: uuid
  x_references :: "string list"
  x_unknowns :: "string list"
  x_risks :: "string list"
  x_prepared_at :: py_datetime
  x_fingerprint :: string

text \<open>The payload dict of \<open>_context_fingerprint\<close>, members in source order.\<close>

definition context_payload ::
  "uuid \<Rightarrow> string list \<Rightarrow> string list \<Rightarrow> string list \<Rightarrow> py_datetime \<Rightarrow> json" where
  "context_payload tid refs unks rsks prep = JObj
     [(''tenant_id'', JStr (uuid_str tid)),
      (''references'', JList (map JStr refs)),
      (''unknowns'', JList (map JStr unks)),
      (''risks'', JList (map JStr rsks)),
      (''prepared_at'', JStr (isoformat prep))]"

definition context_fingerprint ::
  "uuid \<Rightarrow> string list \<Rightarrow> string list \<Rightarrow> string list \<Rightarrow> py_datetime \<Rightarrow> string" where
  "context_fingerprint tid refs unks rsks prep =
     sha256_hex (json_dumps (context_payload tid refs unks rsks prep))"

definition stripped_non_blank :: "string list \<Rightarrow> string list" where
  "stripped_non_blank xs = map strip (filter (\<lambda>s. strip s \<noteq> []) xs)"

definition DecisionContext_build ::
  "uuid \<Rightarrow> uuid \<Rightarrow> string list \<Rightarrow> string list \<Rightarrow> string list \<Rightarrow> py_datetime \<Rightarrow> decision_context" where
  "DecisionContext_build cid tid refs unks rsks prep =
     (let r = stripped_non_blank refs; u = stripped_non_blank unks; k = stripped_non_blank rsks in
      \<lparr> x_context_id = cid, x_tenant_id = tid, x_references = r, x_unknowns = u, x_risks = k,
        x_prepared_at = prep, x_fingerprint = context_fingerprint tid r u k prep \<rparr>)"

section \<open>Conditions\<close>

record decision_condition =
  n_id :: uuid
  n_label :: string
  n_owner :: "string option"
  n_due_at :: "py_datetime option"
  n_due_date_absence_reason :: "string option"
  n_failure_consequence :: "string option"
  n_status :: condition_status
  n_evidence_reference :: "string option"
  n_observed_at :: "py_datetime option"

definition DecisionCondition_proposed ::
  "uuid \<Rightarrow> string \<Rightarrow> string option \<Rightarrow> py_datetime option \<Rightarrow> string option \<Rightarrow> string option
   \<Rightarrow> decision_condition" where
  "DecisionCondition_proposed cid lbl own due absence conseq =
     \<lparr> n_id = cid, n_label = strip lbl, n_owner = strip_or_None own, n_due_at = due,
       n_due_date_absence_reason = strip_or_None absence,
       n_failure_consequence = strip_or_None conseq,
       n_status = Condition_OPEN, n_evidence_reference = None, n_observed_at = None \<rparr>"

definition validate_for_approval :: "decision_condition \<Rightarrow> decision_error option" where
  "validate_for_approval n =
     (if n_label n = [] then Some DecisionContextIncompleteError
      else if \<not> truthy (n_owner n) then Some ConditionOwnerRequiredError
      else if n_due_at n = None \<and> \<not> truthy (n_due_date_absence_reason n)
        then Some ConditionConsequenceRequiredError
      else if \<not> truthy (n_failure_consequence n) then Some ConditionConsequenceRequiredError
      else None)"

definition mark_satisfied ::
  "string \<Rightarrow> py_datetime \<Rightarrow> decision_condition \<Rightarrow> decision_error + decision_condition" where
  "mark_satisfied ev obs n =
     (if n_status n \<noteq> Condition_OPEN then Inl DecisionLifecycleError
      else if strip ev = [] then Inl DecisionContextIncompleteError
      else Inr (n\<lparr> n_status := Condition_SATISFIED, n_evidence_reference := Some (strip ev),
                  n_observed_at := Some obs \<rparr>))"

section \<open>The aggregate\<close>

datatype decision_event =
    DecisionDraftCreated uuid uuid
  | DecisionContextPrepared uuid uuid string
  | GoDecisionApproved uuid
  | ConditionalGoDecisionApproved uuid
  | NoGoDecisionApproved uuid
  | DecisionConditionSatisfied uuid uuid
  | DecisionMarkedReviewRequired uuid
  | DecisionSuperseded uuid uuid

record decision =
  d_id :: uuid
  d_tenant_id :: uuid
  d_decision_type :: decision_type
  d_subject_reference :: string
  d_scope_fingerprint :: string
  d_created_by :: string
  d_lifecycle :: decision_lifecycle
  d_outcome :: decision_outcome
  d_validity :: decision_validity
  d_context_status :: context_status
  d_condition_status :: condition_status
  d_context_history :: "decision_context list"
  d_conditions :: "decision_condition list"
  d_successor_decision_id :: "uuid option"
  d_final_justification :: "string option"
  d_final_approved_by :: "string option"
  d_final_approved_at :: "py_datetime option"
  d_aggregate_revision :: int
  d_pending_events :: "decision_event list"

definition Decision_record :: "decision_event \<Rightarrow> decision \<Rightarrow> decision" where
  "Decision_record e d = d\<lparr> d_pending_events := d_pending_events d @ [e] \<rparr>"

definition Decision_increment_revision :: "decision \<Rightarrow> decision" where
  "Decision_increment_revision d = d\<lparr> d_aggregate_revision := d_aggregate_revision d + 1 \<rparr>"

definition Decision_create_draft ::
  "uuid \<Rightarrow> uuid \<Rightarrow> decision_type \<Rightarrow> string \<Rightarrow> string \<Rightarrow> string \<Rightarrow> decision_error + decision" where
  "Decision_create_draft did tid ty subj scope creator =
     (if strip subj = [] \<or> strip scope = [] \<or> strip creator = [] then Inl DecisionContextIncompleteError
      else Inr (Decision_record (DecisionDraftCreated did tid)
        \<lparr> d_id = did, d_tenant_id = tid, d_decision_type = ty, d_subject_reference = strip subj,
          d_scope_fingerprint = strip scope, d_created_by = strip creator,
          d_lifecycle = Decision_DRAFT, d_outcome = UNDECIDED, d_validity = Validity_CURRENT,
          d_context_status = INCOMPLETE, d_condition_status = NOT_APPLICABLE,
          d_context_history = [], d_conditions = [], d_successor_decision_id = None,
          d_final_justification = None, d_final_approved_by = None, d_final_approved_at = None,
          d_aggregate_revision = 0, d_pending_events = [] \<rparr>))"

definition current_context :: "decision \<Rightarrow> decision_error + decision_context" where
  "current_context d =
     (if d_context_history d = [] then Inl DecisionContextIncompleteError
      else Inr (last (d_context_history d)))"

definition Decision_ensure_not_finalized :: "decision \<Rightarrow> decision_error option" where
  "Decision_ensure_not_finalized d =
     (if d_lifecycle d = FINALIZED then Some DecisionAlreadyFinalizedError
      else if d_lifecycle d \<in> {Decision_SUPERSEDED, CANCELLED} then Some DecisionLifecycleError
      else None)"

definition Decision_ensure_pending_current_context :: "string \<Rightarrow> decision \<Rightarrow> decision_error option" where
  "Decision_ensure_pending_current_context displayed d =
     (if d_lifecycle d = FINALIZED then Some DecisionAlreadyFinalizedError
      else if d_lifecycle d \<noteq> PENDING_PATRON then Some DecisionLifecycleError
      else (case current_context d of
              Inl e \<Rightarrow> Some e
            | Inr c \<Rightarrow> if displayed \<noteq> x_fingerprint c then Some StaleDecisionContextError else None))"

definition Decision_finalize ::
  "decision_outcome \<Rightarrow> string \<Rightarrow> string \<Rightarrow> py_datetime \<Rightarrow> decision \<Rightarrow> decision_error + decision" where
  "Decision_finalize oc just by_whom at_time d =
     (if strip just = [] \<or> strip by_whom = [] then Inl DecisionContextIncompleteError
      else Inr (Decision_increment_revision
        (d\<lparr> d_lifecycle := FINALIZED, d_outcome := oc, d_validity := Validity_CURRENT,
            d_final_justification := Some (strip just),
            d_final_approved_by := Some (strip by_whom), d_final_approved_at := Some at_time \<rparr>)))"

text \<open>The first condition with the identifier; it must be open.\<close>

definition find_open_condition :: "uuid \<Rightarrow> decision \<Rightarrow> decision_error + decision_condition" where
  "find_open_condition cid d =
     (case List.find (\<lambda>n. n_id n = cid) (d_conditions d) of
        None \<Rightarrow> Inl DecisionLifecycleError
      | Some n \<Rightarrow> if n_status n \<noteq> Condition_OPEN then Inl DecisionLifecycleError else Inr n)"

definition derive_condition_status :: "decision_condition list \<Rightarrow> condition_status" where
  "derive_condition_status ns =
     (if list_ex (\<lambda>n. n_status n = Condition_FAILED) ns then Condition_FAILED
      else if list_all (\<lambda>n. n_status n = Condition_SATISFIED \<or> n_status n = Condition_WAIVED) ns
        then Condition_SATISFIED
      else Condition_OPEN)"

text \<open>The object found is mutated in the list that holds it: the first with the identifier.\<close>

fun update_first :: "('a \<Rightarrow> bool) \<Rightarrow> 'a \<Rightarrow> 'a list \<Rightarrow> 'a list" where
  "update_first P y [] = []"
| "update_first P y (x # xs) = (if P x then y # xs else x # update_first P y xs)"

section \<open>Operations\<close>

definition Decision_prepare_context :: "decision_context \<Rightarrow> decision \<Rightarrow> decision_error + decision" where
  "Decision_prepare_context c d =
     (case Decision_ensure_not_finalized d of Some e \<Rightarrow> Inl e | None \<Rightarrow>
      if x_tenant_id c \<noteq> d_tenant_id d then Inl DecisionContextIncompleteError
      else if x_references c = [] then Inl DecisionContextIncompleteError
      else Inr (Decision_record (DecisionContextPrepared (d_id d) (x_context_id c) (x_fingerprint c))
        (Decision_increment_revision
          (d\<lparr> d_context_history := d_context_history d @ [c], d_lifecycle := PENDING_PATRON,
              d_context_status := FROZEN \<rparr>))))"

definition Decision_approve_go ::
  "string \<Rightarrow> string \<Rightarrow> string \<Rightarrow> py_datetime \<Rightarrow> decision \<Rightarrow> decision_error + decision" where
  "Decision_approve_go displayed just by_whom at_time d =
     (case Decision_ensure_pending_current_context displayed d of Some e \<Rightarrow> Inl e | None \<Rightarrow>
      (case Decision_finalize GO just by_whom at_time d of Inl e \<Rightarrow> Inl e | Inr d1 \<Rightarrow>
       Inr (Decision_record (GoDecisionApproved (d_id d)) (d1\<lparr> d_condition_status := NOT_APPLICABLE \<rparr>))))"

definition Decision_approve_no_go ::
  "string \<Rightarrow> string \<Rightarrow> string \<Rightarrow> py_datetime \<Rightarrow> decision \<Rightarrow> decision_error + decision" where
  "Decision_approve_no_go displayed just by_whom at_time d =
     (case Decision_ensure_pending_current_context displayed d of Some e \<Rightarrow> Inl e | None \<Rightarrow>
      (case Decision_finalize NO_GO just by_whom at_time d of Inl e \<Rightarrow> Inl e | Inr d1 \<Rightarrow>
       Inr (Decision_record (NoGoDecisionApproved (d_id d)) (d1\<lparr> d_condition_status := NOT_APPLICABLE \<rparr>))))"

fun first_invalid :: "decision_condition list \<Rightarrow> decision_error option" where
  "first_invalid [] = None"
| "first_invalid (n # ns) =
     (case validate_for_approval n of Some e \<Rightarrow> Some e | None \<Rightarrow> first_invalid ns)"

text \<open>The assignment to \<open>self.conditions\<close> comes before \<open>_finalize\<close>, and stays when it raises.\<close>

definition Decision_approve_conditional_go ::
  "string \<Rightarrow> string \<Rightarrow> decision_condition list \<Rightarrow> string \<Rightarrow> py_datetime \<Rightarrow> decision
   \<Rightarrow> decision_error option \<times> decision" where
  "Decision_approve_conditional_go displayed just ns by_whom at_time d =
     (case Decision_ensure_pending_current_context displayed d of Some e \<Rightarrow> (Some e, d) | None \<Rightarrow>
      if ns = [] then (Some DecisionContextIncompleteError, d)
      else if \<not> distinct (map n_id ns) then (Some DecisionContextIncompleteError, d)
      else (case first_invalid ns of Some e \<Rightarrow> (Some e, d) | None \<Rightarrow>
        (let d0 = d\<lparr> d_conditions := ns \<rparr> in
         case Decision_finalize CONDITIONAL_GO just by_whom at_time d0 of Inl e \<Rightarrow> (Some e, d0) | Inr d1 \<Rightarrow>
         (None, Decision_record (ConditionalGoDecisionApproved (d_id d))
                  (d1\<lparr> d_condition_status := Condition_OPEN \<rparr>)))))"

definition Decision_record_condition_satisfied ::
  "uuid \<Rightarrow> string \<Rightarrow> py_datetime \<Rightarrow> decision \<Rightarrow> decision_error + decision" where
  "Decision_record_condition_satisfied cid ev obs d =
     (if d_lifecycle d \<noteq> FINALIZED then Inl DecisionLifecycleError
      else if d_outcome d \<noteq> CONDITIONAL_GO then Inl DecisionLifecycleError
      else (case find_open_condition cid d of Inl e \<Rightarrow> Inl e | Inr n \<Rightarrow>
       (case mark_satisfied ev obs n of Inl e \<Rightarrow> Inl e | Inr m \<Rightarrow>
        (let ns = update_first (\<lambda>x. n_id x = cid) m (d_conditions d) in
         Inr (Decision_record (DecisionConditionSatisfied (d_id d) (n_id m))
           (Decision_increment_revision
             (d\<lparr> d_conditions := ns, d_condition_status := derive_condition_status ns \<rparr>)))))))"

definition Decision_mark_review_required :: "string \<Rightarrow> decision \<Rightarrow> decision_error + decision" where
  "Decision_mark_review_required reason d =
     (if d_lifecycle d \<noteq> FINALIZED then Inl DecisionLifecycleError
      else if strip reason = [] then Inl DecisionContextIncompleteError
      else Inr (Decision_record (DecisionMarkedReviewRequired (d_id d))
        (Decision_increment_revision
          (d\<lparr> d_validity := Validity_REVIEW_REQUIRED, d_context_status := STALE \<rparr>))))"

definition Decision_supersede :: "uuid \<Rightarrow> string \<Rightarrow> decision \<Rightarrow> decision_error + decision" where
  "Decision_supersede succ_id rationale d =
     (if d_lifecycle d \<noteq> FINALIZED then Inl DecisionLifecycleError
      else if succ_id = d_id d \<or> strip rationale = [] then Inl DecisionContextIncompleteError
      else Inr (Decision_record (DecisionSuperseded (d_id d) succ_id)
        (Decision_increment_revision
          (d\<lparr> d_lifecycle := Decision_SUPERSEDED, d_validity := Validity_SUPERSEDED,
              d_successor_decision_id := Some succ_id \<rparr>))))"

section \<open>Runs\<close>

datatype decision_op =
    PrepareContext decision_context
  | ApproveGo string string string py_datetime
  | ApproveConditionalGo string string "decision_condition list" string py_datetime
  | ApproveNoGo string string string py_datetime
  | RecordConditionSatisfied uuid string py_datetime
  | MarkReviewRequired string
  | Supersede uuid string

fun decision_exec :: "decision_op \<Rightarrow> decision \<Rightarrow> decision_error option \<times> decision" where
  "decision_exec (PrepareContext c) d = or_unchanged (Decision_prepare_context c) d"
| "decision_exec (ApproveGo fp j b a) d = or_unchanged (Decision_approve_go fp j b a) d"
| "decision_exec (ApproveConditionalGo fp j ns b a) d = Decision_approve_conditional_go fp j ns b a d"
| "decision_exec (ApproveNoGo fp j b a) d = or_unchanged (Decision_approve_no_go fp j b a) d"
| "decision_exec (RecordConditionSatisfied cid ev obs) d =
     or_unchanged (Decision_record_condition_satisfied cid ev obs) d"
| "decision_exec (MarkReviewRequired reason) d = or_unchanged (Decision_mark_review_required reason) d"
| "decision_exec (Supersede succ_id why) d = or_unchanged (Decision_supersede succ_id why) d"

lemmas decision_helper_defs =
  Decision_record_def Decision_increment_revision_def Decision_finalize_def
  Decision_ensure_not_finalized_def Decision_ensure_pending_current_context_def current_context_def

lemmas decision_op_defs =
  Decision_prepare_context_def Decision_approve_go_def Decision_approve_no_go_def
  Decision_approve_conditional_go_def Decision_record_condition_satisfied_def
  Decision_mark_review_required_def Decision_supersede_def decision_helper_defs

section \<open>What each accepted operation does\<close>

lemma prepare_context_accepted:
  assumes "Decision_prepare_context c d = Inr d'"
  shows "d_lifecycle d \<in> {Decision_DRAFT, PENDING_PATRON}" "x_tenant_id c = d_tenant_id d"
    "x_references c \<noteq> []"
    "d' = d\<lparr> d_context_history := d_context_history d @ [c], d_lifecycle := PENDING_PATRON,
             d_context_status := FROZEN, d_aggregate_revision := d_aggregate_revision d + 1,
             d_pending_events := d_pending_events d
               @ [DecisionContextPrepared (d_id d) (x_context_id c) (x_fingerprint c)] \<rparr>"
  using assms
  by (cases "d_lifecycle d"; simp add: Decision_prepare_context_def decision_helper_defs split: if_splits)+

text \<open>The state a final approval leaves, for the three outcomes.\<close>

definition approved ::
  "decision_outcome \<Rightarrow> condition_status \<Rightarrow> decision_event \<Rightarrow> string \<Rightarrow> string \<Rightarrow> py_datetime
   \<Rightarrow> decision \<Rightarrow> decision" where
  "approved oc cs e just by_whom at_time d =
     d\<lparr> d_lifecycle := FINALIZED, d_outcome := oc, d_validity := Validity_CURRENT,
        d_final_justification := Some (strip just), d_final_approved_by := Some (strip by_whom),
        d_final_approved_at := Some at_time, d_condition_status := cs,
        d_aggregate_revision := d_aggregate_revision d + 1,
        d_pending_events := d_pending_events d @ [e] \<rparr>"

definition may_approve :: "string \<Rightarrow> string \<Rightarrow> string \<Rightarrow> decision \<Rightarrow> bool" where
  "may_approve displayed just by_whom d =
     (d_lifecycle d = PENDING_PATRON \<and> d_context_history d \<noteq> []
      \<and> displayed = x_fingerprint (last (d_context_history d))
      \<and> strip just \<noteq> [] \<and> strip by_whom \<noteq> [])"

lemma ensure_pending_None:
  "Decision_ensure_pending_current_context displayed d = None \<longleftrightarrow>
     d_lifecycle d = PENDING_PATRON \<and> d_context_history d \<noteq> []
      \<and> displayed = x_fingerprint (last (d_context_history d))"
  by (auto simp: decision_helper_defs)

lemma approve_go_accepted:
  "Decision_approve_go displayed just by_whom at_time d = Inr d' \<longleftrightarrow>
     may_approve displayed just by_whom d
     \<and> d' = approved GO NOT_APPLICABLE (GoDecisionApproved (d_id d)) just by_whom at_time d"
  using ensure_pending_None [of displayed d]
  by (cases "Decision_ensure_pending_current_context displayed d")
    (auto simp: Decision_approve_go_def may_approve_def approved_def
      Decision_finalize_def Decision_record_def Decision_increment_revision_def)

lemma approve_no_go_accepted:
  "Decision_approve_no_go displayed just by_whom at_time d = Inr d' \<longleftrightarrow>
     may_approve displayed just by_whom d
     \<and> d' = approved NO_GO NOT_APPLICABLE (NoGoDecisionApproved (d_id d)) just by_whom at_time d"
  using ensure_pending_None [of displayed d]
  by (cases "Decision_ensure_pending_current_context displayed d")
    (auto simp: Decision_approve_no_go_def may_approve_def approved_def
      Decision_finalize_def Decision_record_def Decision_increment_revision_def)

lemma first_invalid_None: "first_invalid ns = None \<longleftrightarrow> (\<forall>n \<in> set ns. validate_for_approval n = None)"
  by (induction ns) (auto split: option.splits)

lemma approve_conditional_go_cases:
  assumes "Decision_approve_conditional_go displayed just ns by_whom at_time d = (r, d')"
  obtains (refused) e where "r = Some e" "d' = d"
  | (blank) "r = Some DecisionContextIncompleteError" "d' = d\<lparr> d_conditions := ns \<rparr>"
      "d_lifecycle d = PENDING_PATRON" "ns \<noteq> []" "distinct (map n_id ns)"
      "\<forall>n \<in> set ns. validate_for_approval n = None" "strip just = [] \<or> strip by_whom = []"
  | (accepted) "r = None" "may_approve displayed just by_whom d" "ns \<noteq> []" "distinct (map n_id ns)"
      "\<forall>n \<in> set ns. validate_for_approval n = None"
      "d' = approved CONDITIONAL_GO Condition_OPEN (ConditionalGoDecisionApproved (d_id d)) just by_whom at_time
              (d\<lparr> d_conditions := ns \<rparr>)"
proof (cases "Decision_ensure_pending_current_context displayed d")
  case (Some e)
  then have "(Some e, d) = (r, d')" using assms by (simp add: Decision_approve_conditional_go_def)
  then show ?thesis using refused [of e] by simp
next
  case pending: None
  show ?thesis
  proof (cases "ns \<noteq> [] \<and> distinct (map n_id ns) \<and> first_invalid ns = None")
    case False
    then have "r \<noteq> None \<and> d' = d" using assms pending
      by (cases "first_invalid ns")
        (simp_all add: Decision_approve_conditional_go_def split: if_splits, (metis option.distinct(1))+)
    then show ?thesis using refused by blast
  next
    case True
    show ?thesis
    proof (cases "strip just = [] \<or> strip by_whom = []")
      case blank_text: True
      then have "r = Some DecisionContextIncompleteError \<and> d' = d\<lparr> d_conditions := ns \<rparr>"
        using assms pending True
        by (auto simp: Decision_approve_conditional_go_def Decision_finalize_def Let_def)
      then show ?thesis
        using blank pending True blank_text by (simp add: ensure_pending_None first_invalid_None)
    next
      case False
      then have "r = None \<and> d' = approved CONDITIONAL_GO Condition_OPEN
          (ConditionalGoDecisionApproved (d_id d)) just by_whom at_time (d\<lparr> d_conditions := ns \<rparr>)"
        using assms pending True
        by (auto simp: Decision_approve_conditional_go_def Decision_finalize_def Let_def approved_def
            Decision_record_def Decision_increment_revision_def)
      then show ?thesis
        using accepted pending True False
        by (simp add: ensure_pending_None first_invalid_None may_approve_def)
    qed
  qed
qed

lemma record_condition_satisfied_accepted:
  assumes "Decision_record_condition_satisfied cid ev obs d = Inr d'"
  obtains n where "d_lifecycle d = FINALIZED" "d_outcome d = CONDITIONAL_GO"
    "List.find (\<lambda>n. n_id n = cid) (d_conditions d) = Some n" "n_id n = cid" "n_status n = Condition_OPEN"
    "strip ev \<noteq> []"
    "d' = (let ns = update_first (\<lambda>x. n_id x = cid)
              (n\<lparr> n_status := Condition_SATISFIED, n_evidence_reference := Some (strip ev),
                  n_observed_at := Some obs \<rparr>) (d_conditions d) in
           d\<lparr> d_conditions := ns, d_condition_status := derive_condition_status ns,
              d_aggregate_revision := d_aggregate_revision d + 1,
              d_pending_events := d_pending_events d @ [DecisionConditionSatisfied (d_id d) cid] \<rparr>)"
proof -
  obtain n m where nm: "d_lifecycle d = FINALIZED" "d_outcome d = CONDITIONAL_GO"
    "find_open_condition cid d = Inr n" "mark_satisfied ev obs n = Inr m"
    "d' = (let ns = update_first (\<lambda>x. n_id x = cid) m (d_conditions d) in
         Decision_record (DecisionConditionSatisfied (d_id d) (n_id m))
           (Decision_increment_revision
             (d\<lparr> d_conditions := ns, d_condition_status := derive_condition_status ns \<rparr>)))"
    using assms by (auto simp: Decision_record_condition_satisfied_def Let_def split: if_splits sum.splits)
  then have f: "List.find (\<lambda>n. n_id n = cid) (d_conditions d) = Some n" "n_status n = Condition_OPEN"
    by (auto simp: find_open_condition_def split: option.splits if_splits)
  then have i: "n_id n = cid" by (auto simp: find_Some_iff)
  from nm(4) have m: "strip ev \<noteq> []"
    "m = n\<lparr> n_status := Condition_SATISFIED, n_evidence_reference := Some (strip ev), n_observed_at := Some obs \<rparr>"
    by (auto simp: mark_satisfied_def split: if_splits)
  show thesis
    by (rule that [OF nm(1,2) f(1) i f(2) m(1)])
      (simp add: nm(5) m(2) i Let_def Decision_record_def Decision_increment_revision_def)
qed

lemma mark_review_required_accepted:
  "Decision_mark_review_required reason d = Inr d' \<longleftrightarrow>
     d_lifecycle d = FINALIZED \<and> strip reason \<noteq> []
     \<and> d' = d\<lparr> d_validity := Validity_REVIEW_REQUIRED, d_context_status := STALE,
               d_aggregate_revision := d_aggregate_revision d + 1,
               d_pending_events := d_pending_events d @ [DecisionMarkedReviewRequired (d_id d)] \<rparr>"
  by (auto simp: Decision_mark_review_required_def Decision_record_def Decision_increment_revision_def)

lemma supersede_accepted:
  "Decision_supersede succ_id why d = Inr d' \<longleftrightarrow>
     d_lifecycle d = FINALIZED \<and> succ_id \<noteq> d_id d \<and> strip why \<noteq> []
     \<and> d' = d\<lparr> d_lifecycle := Decision_SUPERSEDED, d_validity := Validity_SUPERSEDED,
               d_successor_decision_id := Some succ_id,
               d_aggregate_revision := d_aggregate_revision d + 1,
               d_pending_events := d_pending_events d @ [DecisionSuperseded (d_id d) succ_id] \<rparr>"
  by (auto simp: Decision_supersede_def Decision_record_def Decision_increment_revision_def)

lemmas decision_accepted =
  approve_go_accepted approve_no_go_accepted mark_review_required_accepted supersede_accepted

text \<open>A step of the aggregate is one of these nine.\<close>

lemma decision_exec_cases:
  assumes "decision_exec x d = (r, d')"
  obtains (refused) e where "r = Some e" "d' = d"
  | (leftover) displayed just ns by_whom at_time where
      "x = ApproveConditionalGo displayed just ns by_whom at_time"
      "r = Some DecisionContextIncompleteError" "d' = d\<lparr> d_conditions := ns \<rparr>"
      "d_lifecycle d = PENDING_PATRON" "ns \<noteq> []" "distinct (map n_id ns)"
      "\<forall>n \<in> set ns. validate_for_approval n = None" "strip just = [] \<or> strip by_whom = []"
  | (prepared) c where "r = None" "x = PrepareContext c" "Decision_prepare_context c d = Inr d'"
  | (go) displayed just by_whom at_time where "r = None" "x = ApproveGo displayed just by_whom at_time"
      "may_approve displayed just by_whom d"
      "d' = approved GO NOT_APPLICABLE (GoDecisionApproved (d_id d)) just by_whom at_time d"
  | (no_go) displayed just by_whom at_time where "r = None" "x = ApproveNoGo displayed just by_whom at_time"
      "may_approve displayed just by_whom d"
      "d' = approved NO_GO NOT_APPLICABLE (NoGoDecisionApproved (d_id d)) just by_whom at_time d"
  | (conditional) displayed just ns by_whom at_time where "r = None"
      "x = ApproveConditionalGo displayed just ns by_whom at_time"
      "may_approve displayed just by_whom d" "ns \<noteq> []" "distinct (map n_id ns)"
      "\<forall>n \<in> set ns. validate_for_approval n = None"
      "d' = approved CONDITIONAL_GO Condition_OPEN (ConditionalGoDecisionApproved (d_id d)) just by_whom at_time
              (d\<lparr> d_conditions := ns \<rparr>)"
  | (satisfied) cid ev obs where "r = None" "x = RecordConditionSatisfied cid ev obs"
      "Decision_record_condition_satisfied cid ev obs d = Inr d'"
  | (review) reason where "r = None" "x = MarkReviewRequired reason" "Decision_mark_review_required reason d = Inr d'"
  | (superseded) succ_id why where "r = None" "x = Supersede succ_id why" "Decision_supersede succ_id why d = Inr d'"
proof (cases x)
  case (PrepareContext c)
  then show ?thesis using assms prepared refused by (auto elim!: or_unchanged_cases)
next
  case (ApproveGo fp j b a)
  then show ?thesis using assms go refused by (auto elim!: or_unchanged_cases simp: approve_go_accepted)
next
  case (ApproveConditionalGo fp j ns b a)
  then have "Decision_approve_conditional_go fp j ns b a d = (r, d')" using assms by simp
  then show ?thesis
  proof (cases rule: approve_conditional_go_cases)
    case (refused e)
    then show ?thesis by (rule that(1))
  next
    case blank
    show ?thesis by (rule that(2) [OF ApproveConditionalGo blank])
  next
    case accepted
    show ?thesis by (rule that(6) [OF accepted(1) ApproveConditionalGo accepted(2-6)])
  qed
next
  case (ApproveNoGo fp j b a)
  then show ?thesis using assms no_go refused by (auto elim!: or_unchanged_cases simp: approve_no_go_accepted)
next
  case (RecordConditionSatisfied cid ev obs)
  then show ?thesis using assms satisfied refused by (auto elim!: or_unchanged_cases)
next
  case (MarkReviewRequired reason)
  then show ?thesis using assms review refused by (auto elim!: or_unchanged_cases)
next
  case (Supersede s w)
  then show ?thesis using assms superseded refused by (auto elim!: or_unchanged_cases)
qed

section \<open>The revision log\<close>

definition decision_identity :: "decision \<Rightarrow> uuid \<times> uuid \<times> decision_type \<times> string \<times> string \<times> string" where
  "decision_identity d = (d_id d, d_tenant_id d, d_decision_type d, d_subject_reference d,
     d_scope_fingerprint d, d_created_by d)"

interpretation decision_agg: revisioned_aggregate
  decision_exec d_aggregate_revision d_pending_events decision_identity
proof
  fix x s t
  assume "decision_exec x s = (None, t)"
  then show "d_aggregate_revision t = d_aggregate_revision s + 1
      \<and> (\<exists>e. d_pending_events t = d_pending_events s @ [e])"
  proof (cases rule: decision_exec_cases)
    case (prepared c)
    from prepare_context_accepted(4) [OF prepared(3)] show ?thesis by simp
  next
    case (satisfied cid ev obs)
    from satisfied(3) show ?thesis
      by (rule record_condition_satisfied_accepted) (simp add: Let_def)
  qed (simp_all add: approved_def decision_accepted)
next
  fix x s err t
  assume "decision_exec x s = (Some err, t)"
  then show "d_aggregate_revision t = d_aggregate_revision s \<and> d_pending_events t = d_pending_events s"
    by (cases rule: decision_exec_cases) simp_all
next
  fix x s r t
  assume "decision_exec x s = (r, t)"
  then show "decision_identity t = decision_identity s"
  proof (cases rule: decision_exec_cases)
    case (prepared c)
    from prepare_context_accepted(4) [OF prepared(3)] show ?thesis by (simp add: decision_identity_def)
  next
    case (satisfied cid ev obs)
    from satisfied(3) show ?thesis
      by (rule record_condition_satisfied_accepted) (simp add: Let_def decision_identity_def)
  qed (simp_all add: approved_def decision_accepted decision_identity_def)
qed

section \<open>The invariant\<close>

text \<open>Where each lifecycle may stand with its outcome, its contexts and its validity.\<close>

definition lifecycle_inv :: "decision \<Rightarrow> bool" where
  "lifecycle_inv d =
     (d_lifecycle d \<noteq> CANCELLED
      \<and> (d_lifecycle d = Decision_DRAFT \<longleftrightarrow> d_context_history d = [])
      \<and> (d_context_status d = INCOMPLETE \<longleftrightarrow> d_context_history d = [])
      \<and> (d_outcome d = UNDECIDED \<longleftrightarrow> d_lifecycle d \<in> {Decision_DRAFT, PENDING_PATRON})
      \<and> d_outcome d \<in> {UNDECIDED, GO, CONDITIONAL_GO, NO_GO}
      \<and> (d_validity d = Validity_SUPERSEDED \<longleftrightarrow> d_lifecycle d = Decision_SUPERSEDED)
      \<and> (d_successor_decision_id d = None \<longleftrightarrow> d_lifecycle d \<noteq> Decision_SUPERSEDED)
      \<and> d_successor_decision_id d \<noteq> Some (d_id d))"

definition approval_inv :: "decision \<Rightarrow> bool" where
  "approval_inv d =
     ((d_outcome d \<noteq> UNDECIDED \<longrightarrow>
        (\<exists>j b a. d_final_justification d = Some j \<and> j \<noteq> [] \<and> strip j = j
               \<and> d_final_approved_by d = Some b \<and> b \<noteq> [] \<and> strip b = b
               \<and> d_final_approved_at d = Some a))
      \<and> (d_outcome d = UNDECIDED \<longrightarrow> d_final_justification d = None \<and> d_final_approved_by d = None))"

definition contexts_inv :: "decision \<Rightarrow> bool" where
  "contexts_inv d =
     (\<forall>c \<in> set (d_context_history d). x_tenant_id c = d_tenant_id d \<and> x_references c \<noteq> [])"

definition conditions_inv :: "decision \<Rightarrow> bool" where
  "conditions_inv d =
     (distinct (map n_id (d_conditions d))
      \<and> (\<forall>n \<in> set (d_conditions d). validate_for_approval n = None)
      \<and> (d_outcome d = CONDITIONAL_GO \<longrightarrow> d_conditions d \<noteq> [])
      \<and> (d_outcome d \<noteq> CONDITIONAL_GO \<longrightarrow> d_condition_status d = NOT_APPLICABLE))"

definition decision_inv :: "decision \<Rightarrow> bool" where
  "decision_inv d = (lifecycle_inv d \<and> approval_inv d \<and> contexts_inv d \<and> conditions_inv d)"

lemmas decision_inv_defs =
  decision_inv_def lifecycle_inv_def approval_inv_def contexts_inv_def conditions_inv_def

lemma validate_for_approval_update [simp]:
  "validate_for_approval (n\<lparr> n_status := s, n_evidence_reference := e, n_observed_at := t \<rparr>)
     = validate_for_approval n"
  by (simp add: validate_for_approval_def)

lemma map_update_first:
  "List.find P xs = Some x \<Longrightarrow> f y = f x \<Longrightarrow> map f (update_first P y xs) = map f xs"
  by (induction xs) (auto split: if_splits)

lemma set_update_first: "set (update_first P y xs) \<subseteq> insert y (set xs)"
  by (induction xs) auto

lemma update_first_Nil [simp]: "update_first P y xs = [] \<longleftrightarrow> xs = []"
  by (cases xs) auto

lemma decision_create_inv:
  "Decision_create_draft did tid ty subj scope creator = Inr d \<Longrightarrow> decision_inv d"
  by (auto simp: Decision_create_draft_def Decision_record_def decision_inv_defs split: if_splits)

lemma prepare_context_inv:
  "decision_inv d \<Longrightarrow> Decision_prepare_context c d = Inr d' \<Longrightarrow> decision_inv d'"
  by (frule prepare_context_accepted(1), frule prepare_context_accepted(2), frule prepare_context_accepted(3),
      drule prepare_context_accepted(4))
    (auto simp: decision_inv_defs)

lemma approved_inv:
  assumes "decision_inv d" "may_approve displayed just by_whom d"
    and "oc \<in> {GO, NO_GO} \<and> cs = NOT_APPLICABLE \<or> oc = CONDITIONAL_GO \<and> d_conditions d \<noteq> []"
  shows "decision_inv (approved oc cs e just by_whom at_time d)"
  using assms by (auto simp: decision_inv_defs may_approve_def approved_def)

lemma leftover_inv:
  assumes "decision_inv d" "d_lifecycle d = PENDING_PATRON" "distinct (map n_id ns)"
    "\<forall>n \<in> set ns. validate_for_approval n = None"
  shows "decision_inv (d\<lparr> d_conditions := ns \<rparr>)"
  using assms by (auto simp: decision_inv_defs)

lemma satisfied_inv:
  assumes inv: "decision_inv d" and acc: "Decision_record_condition_satisfied cid ev obs d = Inr d'"
  shows "decision_inv d'"
  using acc
proof (rule record_condition_satisfied_accepted)
  fix n :: decision_condition
  let ?m = "n\<lparr> n_status := Condition_SATISFIED, n_evidence_reference := Some (strip ev), n_observed_at := Some obs \<rparr>"
  let ?ns = "update_first (\<lambda>x. n_id x = cid) ?m (d_conditions d)"
  assume life: "d_lifecycle d = FINALIZED" "d_outcome d = CONDITIONAL_GO"
    and f: "List.find (\<lambda>n. n_id n = cid) (d_conditions d) = Some n"
    and d': "d' = (let ns = ?ns in
           d\<lparr> d_conditions := ns, d_condition_status := derive_condition_status ns,
              d_aggregate_revision := d_aggregate_revision d + 1,
              d_pending_events := d_pending_events d @ [DecisionConditionSatisfied (d_id d) cid] \<rparr>)"
  have mem: "n \<in> set (d_conditions d)" using f by (auto simp: find_Some_iff)
  have ids: "map n_id ?ns = map n_id (d_conditions d)" by (rule map_update_first [OF f]) simp
  have valid: "\<forall>n \<in> set ?ns. validate_for_approval n = None"
    using set_update_first [of _ ?m] mem inv by (fastforce simp: decision_inv_def conditions_inv_def)
  have "conditions_inv d'"
    using inv life ids valid by (simp add: d' Let_def decision_inv_def conditions_inv_def)
  moreover have "lifecycle_inv d' \<and> approval_inv d' \<and> contexts_inv d'"
    using inv by (auto simp: d' Let_def decision_inv_def lifecycle_inv_def approval_inv_def contexts_inv_def)
  ultimately show ?thesis by (simp add: decision_inv_def)
qed

lemma decision_exec_inv:
  assumes inv: "decision_inv d" and step: "decision_exec x d = (r, d')"
  shows "decision_inv d'"
  using step
proof (cases rule: decision_exec_cases)
  case (leftover displayed just ns by_whom at_time)
  then show ?thesis using leftover_inv [OF inv] by simp
next
  case (prepared c)
  then show ?thesis using prepare_context_inv [OF inv] by simp
next
  case (conditional displayed just ns by_whom at_time)
  then have "decision_inv (d\<lparr> d_conditions := ns \<rparr>)"
    using leftover_inv [OF inv] by (simp add: may_approve_def)
  then show ?thesis
    using conditional approved_inv [of "d\<lparr> d_conditions := ns \<rparr>" displayed just by_whom CONDITIONAL_GO]
    by (simp add: may_approve_def)
next
  case (satisfied cid ev obs)
  then show ?thesis using satisfied_inv [OF inv] by simp
next
  case (review reason)
  then show ?thesis using inv by (auto simp: decision_accepted decision_inv_defs)
next
  case (superseded succ_id why)
  then show ?thesis using inv by (auto simp: decision_accepted decision_inv_defs)
qed (use inv in \<open>auto intro: approved_inv\<close>)

inductive decision_reachable :: "decision \<Rightarrow> bool" where
  drafted: "Decision_create_draft did tid ty subj scope creator = Inr d \<Longrightarrow> decision_reachable d"
| stepped: "decision_reachable d \<Longrightarrow> decision_exec x d = (r, d') \<Longrightarrow> decision_reachable d'"

section \<open>Properties\<close>

definition ex_time :: py_datetime where
  "ex_time = \<lparr> t_year = 2026, t_month = 3, t_day = 1, t_hour = 9, t_minute = 30, t_second = 0,
     t_microsecond = 0, t_utcoffset = Some 0 \<rparr>"

definition ex_context :: decision_context where
  "ex_context = \<lparr> x_context_id = 7, x_tenant_id = 1, x_references = [''CCTP 4.2''], x_unknowns = [],
     x_risks = [], x_prepared_at = ex_time, x_fingerprint = ''f0'' \<rparr>"

definition ex_condition :: decision_condition where
  "ex_condition = DecisionCondition_proposed 5 '' bank guarantee '' (Some ''CFO'') (Some ex_time) None (Some ''no bid'')"

definition ex_draft :: decision where
  "ex_draft = (case Decision_create_draft 2 1 GO_NO_GO ''case 9'' ''scope'' ''ana'' of Inr d \<Rightarrow> d)"

definition ex_pending :: decision where
  "ex_pending = snd (decision_exec (PrepareContext ex_context) ex_draft)"

definition ex_conditional :: decision where
  "ex_conditional = snd (decision_exec (ApproveConditionalGo ''f0'' ''go'' [ex_condition] ''patron'' ex_time) ex_pending)"

lemma ex_draft_created: "Decision_create_draft 2 1 GO_NO_GO ''case 9'' ''scope'' ''ana'' = Inr ex_draft"
  by code_simp

lemma ex_conditional_state:
  "d_lifecycle ex_conditional = FINALIZED" "d_outcome ex_conditional = CONDITIONAL_GO"
  "d_condition_status ex_conditional = Condition_OPEN" "d_conditions ex_conditional = [ex_condition]"
  "n_status ex_condition = Condition_OPEN"
  by code_simp+

lemma ex_conditional_reachable: "decision_reachable ex_conditional"
proof -
  have "decision_reachable ex_draft" by (rule drafted [OF ex_draft_created])
  then have "decision_reachable ex_pending"
    unfolding ex_pending_def by (rule stepped [OF _ surjective_pairing])
  then show ?thesis
    unfolding ex_conditional_def by (rule stepped [OF _ surjective_pairing])
qed

text \<open>
  C37. Every reachable Decision keeps its invariant. A draft has no context and a decision with
  a context is pending or decided; the outcome is UNDECIDED exactly before finalisation and is
  GO, CONDITIONAL_GO or NO_GO after it; a decided Decision names a justification and a patron;
  it is SUPERSEDED exactly when it names a successor, never itself; every context shown was of
  its own tenant with references; a conditional GO has conditions, each owned, dated (or with a
  stated reason) and with a failure consequence, under distinct identifiers.
\<close>

theorem decision_reachable_invariant:
  assumes "decision_reachable d"
  shows "decision_inv d"
  using assms
  by (induction rule: decision_reachable.induct) (auto intro: decision_create_inv decision_exec_inv)

theorem decision_reachable_invariant_witness:
  "decision_inv ex_conditional \<and> d_outcome ex_conditional = CONDITIONAL_GO"
  using decision_reachable_invariant [OF ex_conditional_reachable] ex_conditional_state by simp

text \<open>What a decided Decision is bound to: the human outcome and what it was taken on.\<close>

definition verdict ::
  "decision \<Rightarrow> decision_outcome \<times> string option \<times> string option \<times> py_datetime option
   \<times> decision_context list \<times> uuid list" where
  "verdict d = (d_outcome d, d_final_justification d, d_final_approved_by d, d_final_approved_at d,
     d_context_history d, map n_id (d_conditions d))"

definition decided :: "decision \<Rightarrow> bool" where
  "decided d = (d_lifecycle d \<in> {FINALIZED, Decision_SUPERSEDED})"

lemma decided_step:
  assumes "decided d" "decision_exec x d = (r, d')"
  shows "decided d' \<and> verdict d' = verdict d"
  using assms(2)
proof (cases rule: decision_exec_cases)
  case (prepared c)
  then show ?thesis using assms(1) by (auto dest: prepare_context_accepted(1) simp: decided_def)
next
  case (satisfied cid ev obs)
  from satisfied(3) show ?thesis
    by (rule record_condition_satisfied_accepted)
      (use assms(1) in \<open>auto simp: Let_def decided_def verdict_def intro: map_update_first\<close>)
qed (use assms(1) in \<open>auto simp: decided_def may_approve_def decision_accepted verdict_def\<close>)

text \<open>
  C11. A human decision is final: once a Decision is finalised, no sequence of operations, in
  any order and whatever is refused, changes its outcome, justification, patron, approval
  date, context history or the identity of its conditions, nor takes it back to an undecided
  lifecycle.
\<close>

theorem decision_verdict_final:
  assumes "decided d" "run_ops decision_exec xs d = (rs, d')"
  shows "verdict d' = verdict d \<and> decided d'"
proof -
  have "decided d' \<and> verdict d' = verdict d"
    by (rule run_ops_invariant [where P = "\<lambda>s. decided s \<and> verdict s = verdict d", OF _ _ assms(2)])
      (use decided_step assms(1) in \<open>auto\<close>)
  then show ?thesis by blast
qed

theorem decision_verdict_final_witness:
  "verdict (snd (run_ops decision_exec [PrepareContext ex_context, Supersede 3 ''new lot'',
     ApproveGo ''f0'' ''late'' ''patron'' ex_time] ex_conditional)) = verdict ex_conditional"
  by (rule decision_verdict_final [OF _ surjective_pairing, THEN conjunct1])
    (simp add: decided_def ex_conditional_state)

text \<open>The context fingerprint the approver saw, for the operations that decide.\<close>

fun displayed_fingerprint :: "decision_op \<Rightarrow> string option" where
  "displayed_fingerprint (ApproveGo fp j b a) = Some fp"
| "displayed_fingerprint (ApproveConditionalGo fp j ns b a) = Some fp"
| "displayed_fingerprint (ApproveNoGo fp j b a) = Some fp"
| "displayed_fingerprint _ = None"

lemma approval_displayed:
  assumes "decision_exec x d = (None, d')" "displayed_fingerprint x = Some fp"
  shows "d_lifecycle d = PENDING_PATRON \<and> d_lifecycle d' = FINALIZED
    \<and> fp = x_fingerprint (last (d_context_history d)) \<and> d_context_history d' = d_context_history d"
  using assms(1)
  by (cases rule: decision_exec_cases) (use assms(2) in \<open>auto simp: may_approve_def approved_def\<close>)

lemma JStr_map_inj: "map JStr xs = map JStr ys \<longleftrightarrow> xs = ys"
  by (auto simp: inj_map_eq_map inj_def)

lemma canon_items_strs: "canon_items (map JStr xs) = map JStr xs"
  by (induction xs) simp_all

lemma canon_context_payload:
  "canon (context_payload tid refs unks rsks prep) = JObj
     [(''prepared_at'', JStr (isoformat prep)),
      (''references'', JList (map JStr refs)),
      (''risks'', JList (map JStr rsks)),
      (''tenant_id'', JStr (uuid_str tid)),
      (''unknowns'', JList (map JStr unks))]"
  by (simp add: context_payload_def canon_items_strs sort_key_def)

lemma context_fingerprint_eq:
  "context_fingerprint t r u k p = context_fingerprint t' r' u' k' p' \<longleftrightarrow>
     (t, r, u, k, isoformat p) = (t', r', u', k', isoformat p')
     \<or> sha256_collision (json_dumps (context_payload t r u k p)) (json_dumps (context_payload t' r' u' k' p'))"
  unfolding context_fingerprint_def digest_eq canon_context_payload by (auto simp: JStr_map_inj)

text \<open>
  An approval binds what was displayed. A GO, conditional GO or NO_GO that presents the
  fingerprint of a built context is accepted only if the last context prepared has the same
  tenant, references, unknowns, risks and preparation time (after the normalisation of
  \<open>build\<close>), unless the two canonical payloads exhibit a SHA-256 collision; and it does not
  change that context.
\<close>

theorem decision_approval_binds_context:
  assumes "d_context_history d = hist @ [DecisionContext_build cid tid refs unks rsks prep]"
    and "displayed_fingerprint x = Some (x_fingerprint (DecisionContext_build cid' tid' refs' unks' rsks' prep'))"
    and "decision_exec x d = (None, d')"
  shows "d_context_history d' = d_context_history d \<and>
    ((tid', stripped_non_blank refs', stripped_non_blank unks', stripped_non_blank rsks', isoformat prep') =
     (tid, stripped_non_blank refs, stripped_non_blank unks, stripped_non_blank rsks, isoformat prep)
    \<or> sha256_collision
        (json_dumps (context_payload tid' (stripped_non_blank refs') (stripped_non_blank unks')
          (stripped_non_blank rsks') prep'))
        (json_dumps (context_payload tid (stripped_non_blank refs) (stripped_non_blank unks)
          (stripped_non_blank rsks) prep)))"
proof -
  note disp = approval_displayed [OF assms(3,2)]
  then have "context_fingerprint tid' (stripped_non_blank refs') (stripped_non_blank unks')
      (stripped_non_blank rsks') prep' = context_fingerprint tid (stripped_non_blank refs)
      (stripped_non_blank unks) (stripped_non_blank rsks) prep"
    using assms(1) by (simp add: DecisionContext_build_def Let_def)
  with disp show ?thesis by (simp add: context_fingerprint_eq)
qed

definition ex_built :: decision_context where
  "ex_built = DecisionContext_build 7 1 ['' CCTP 4.2 ''] [] [''penalties''] ex_time"

definition ex_built_pending :: decision where
  "ex_built_pending = ex_draft\<lparr> d_lifecycle := PENDING_PATRON, d_context_history := [ex_built] \<rparr>"

theorem decision_approval_binds_context_witness:
  "d_context_history (snd (decision_exec (ApproveGo (x_fingerprint ex_built) ''ok'' ''patron'' ex_time)
      ex_built_pending)) = [ex_built]"
proof -
  let ?x = "ApproveGo (x_fingerprint ex_built) ''ok'' ''patron'' ex_time"
  have "strip ''ok'' \<noteq> []" "strip ''patron'' \<noteq> []" by code_simp+
  then have "Decision_approve_go (x_fingerprint ex_built) ''ok'' ''patron'' ex_time ex_built_pending
      = Inr (approved GO NOT_APPLICABLE
      (GoDecisionApproved (d_id ex_built_pending)) ''ok'' ''patron'' ex_time ex_built_pending)"
    by (simp add: approve_go_accepted may_approve_def ex_built_pending_def)
  then have acc: "decision_exec ?x ex_built_pending = (None, approved GO NOT_APPLICABLE
      (GoDecisionApproved (d_id ex_built_pending)) ''ok'' ''patron'' ex_time ex_built_pending)"
    by (simp add: or_unchanged_def)
  have "d_context_history (approved GO NOT_APPLICABLE
      (GoDecisionApproved (d_id ex_built_pending)) ''ok'' ''patron'' ex_time ex_built_pending)
      = d_context_history ex_built_pending"
    by (rule decision_approval_binds_context [where hist = "[]", OF _ _ acc, THEN conjunct1])
      (simp add: ex_built_pending_def ex_built_def, simp add: ex_built_def)
  then show ?thesis by (simp only: acc snd_conv) (simp add: ex_built_pending_def)
qed

text \<open>
  What a refused call leaves behind: the decision itself, with one exception. A
  conditional approval whose context and conditions are all in order and whose justification
  or patron is blank is refused with DECISION_CONTEXT_INCOMPLETE after the proposed conditions
  were stored; only the conditions differ, and only while the Decision is pending.
\<close>

theorem decision_refusal_frame:
  assumes "decision_exec x d = (Some e, d')"
  shows "d' = d \<or>
    (\<exists>fp just ns by_whom at_time. x = ApproveConditionalGo fp just ns by_whom at_time
       \<and> d' = d\<lparr> d_conditions := ns \<rparr> \<and> d_lifecycle d = PENDING_PATRON
       \<and> (strip just = [] \<or> strip by_whom = []) \<and> e = DecisionContextIncompleteError)"
  using assms by (cases rule: decision_exec_cases) auto

theorem decision_refusal_frame_witness:
  "snd (decision_exec (ApproveGo ''f1'' ''go'' ''patron'' ex_time) ex_pending) = ex_pending"
proof -
  have "fst (decision_exec (ApproveGo ''f1'' ''go'' ''patron'' ex_time) ex_pending)
      = Some StaleDecisionContextError" by code_simp
  then have "decision_exec (ApproveGo ''f1'' ''go'' ''patron'' ex_time) ex_pending = (Some StaleDecisionContextError,
      snd (decision_exec (ApproveGo ''f1'' ''go'' ''patron'' ex_time) ex_pending))" by (metis prod.collapse)
  from decision_refusal_frame [OF this] show ?thesis by blast
qed

text \<open>The trace matters: a GO approved after such a refusal carries the conditions of the refusal.\<close>

lemma decision_go_with_leftover_conditions:
  "let (rs, d) = run_ops decision_exec
         [ApproveConditionalGo ''f0'' '' '' [ex_condition] ''patron'' ex_time,
          ApproveGo ''f0'' ''go'' ''patron'' ex_time] ex_pending
   in rs = [Some DecisionContextIncompleteError, None] \<and> d_outcome d = GO
      \<and> d_condition_status d = NOT_APPLICABLE \<and> d_conditions d = [ex_condition]"
  by code_simp

text \<open>The conditions of a conditional GO whose conditions were approved open.\<close>

definition tracking :: "decision \<Rightarrow> bool" where
  "tracking d =
     (decided d \<and> d_outcome d = CONDITIONAL_GO \<and> d_conditions d \<noteq> []
      \<and> (\<forall>n \<in> set (d_conditions d). n_status n = Condition_OPEN
           \<or> n_status n = Condition_SATISFIED \<and> truthy (n_evidence_reference n) \<and> n_observed_at n \<noteq> None)
      \<and> d_condition_status d = derive_condition_status (d_conditions d))"

lemma tracking_satisfied:
  assumes tr: "tracking d" and acc: "Decision_record_condition_satisfied cid ev obs d = Inr d'"
  shows "tracking d'"
  using acc
proof (rule record_condition_satisfied_accepted)
  fix n :: decision_condition
  let ?m = "n\<lparr> n_status := Condition_SATISFIED, n_evidence_reference := Some (strip ev), n_observed_at := Some obs \<rparr>"
  let ?ns = "update_first (\<lambda>x. n_id x = cid) ?m (d_conditions d)"
  assume ev: "strip ev \<noteq> []"
    and d': "d' = (let ns = ?ns in
           d\<lparr> d_conditions := ns, d_condition_status := derive_condition_status ns,
              d_aggregate_revision := d_aggregate_revision d + 1,
              d_pending_events := d_pending_events d @ [DecisionConditionSatisfied (d_id d) cid] \<rparr>)"
  have "\<forall>m \<in> set ?ns. m = ?m \<or> m \<in> set (d_conditions d)"
    using set_update_first [of _ ?m] by fastforce
  moreover have "truthy (n_evidence_reference ?m)" using ev by (simp add: truthy_def)
  ultimately have "\<forall>m \<in> set ?ns. n_status m = Condition_OPEN
      \<or> n_status m = Condition_SATISFIED \<and> truthy (n_evidence_reference m) \<and> n_observed_at m \<noteq> None"
    using tr by (auto simp: tracking_def)
  then show ?thesis using tr by (simp add: d' Let_def tracking_def decided_def)
qed

lemma tracking_step:
  assumes "tracking d" "decision_exec x d = (r, d')"
  shows "tracking d'"
  using assms(2)
proof (cases rule: decision_exec_cases)
  case (prepared c)
  then show ?thesis using assms(1) by (auto dest: prepare_context_accepted(1) simp: tracking_def decided_def)
next
  case (satisfied cid ev obs)
  then show ?thesis using tracking_satisfied assms(1) by blast
qed (use assms(1) in \<open>auto simp: tracking_def decided_def may_approve_def decision_accepted\<close>)

text \<open>
  The conditions of a conditional GO are tracked to the end: from the approval of open
  conditions on, whatever operations follow, the condition status is SATISFIED exactly when
  every condition has been satisfied, each with an evidence reference and an observation date,
  and OPEN as long as one is still open.
\<close>

theorem decision_conditions_tracked:
  assumes "d_lifecycle d = FINALIZED" "d_outcome d = CONDITIONAL_GO" "d_conditions d \<noteq> []"
    and "\<forall>n \<in> set (d_conditions d). n_status n = Condition_OPEN" "d_condition_status d = Condition_OPEN"
    and "run_ops decision_exec xs d = (rs, d')"
  shows "(d_condition_status d' = Condition_SATISFIED \<longleftrightarrow>
      (\<forall>n \<in> set (d_conditions d'). n_status n = Condition_SATISFIED
         \<and> truthy (n_evidence_reference n) \<and> n_observed_at n \<noteq> None))
    \<and> (d_condition_status d' = Condition_OPEN \<longleftrightarrow> (\<exists>n \<in> set (d_conditions d'). n_status n = Condition_OPEN))"
proof -
  have "derive_condition_status (d_conditions d) = Condition_OPEN"
    using assms(3,4) by (cases "d_conditions d") (auto simp: derive_condition_status_def list_ex_iff)
  then have "tracking d" using assms(1-5) by (simp add: tracking_def decided_def)
  then have "tracking d'"
    using run_ops_invariant [where P = tracking, OF _ _ assms(6)] tracking_step by metis
  then have all: "\<forall>n \<in> set (d_conditions d'). n_status n = Condition_OPEN
      \<or> n_status n = Condition_SATISFIED \<and> truthy (n_evidence_reference n) \<and> n_observed_at n \<noteq> None"
    and st: "d_condition_status d' = derive_condition_status (d_conditions d')"
    by (simp_all add: tracking_def)
  have der: "derive_condition_status (d_conditions d') =
      (if \<exists>n \<in> set (d_conditions d'). n_status n = Condition_OPEN then Condition_OPEN else Condition_SATISFIED)"
    using all unfolding derive_condition_status_def list_ex_iff list_all_iff
    by (smt (verit) condition_status.distinct)
  show ?thesis
  proof (cases "\<exists>n \<in> set (d_conditions d'). n_status n = Condition_OPEN")
    case True
    then have "\<not> (\<forall>n \<in> set (d_conditions d'). n_status n = Condition_SATISFIED)" by force
    with True show ?thesis by (simp add: st der) blast
  next
    case False
    with all have "\<forall>n \<in> set (d_conditions d'). n_status n = Condition_SATISFIED
      \<and> truthy (n_evidence_reference n) \<and> n_observed_at n \<noteq> None" by blast
    with False show ?thesis by (simp add: st der)
  qed
qed

definition ex_satisfied_run :: "decision_error option list \<times> decision" where
  "ex_satisfied_run = run_ops decision_exec
     [RecordConditionSatisfied 5 ''bank letter'' ex_time, RecordConditionSatisfied 5 ''again'' ex_time] ex_conditional"

theorem decision_conditions_tracked_witness:
  "d_condition_status (snd ex_satisfied_run) = Condition_SATISFIED \<longleftrightarrow>
      (\<forall>n \<in> set (d_conditions (snd ex_satisfied_run)). n_status n = Condition_SATISFIED
         \<and> truthy (n_evidence_reference n) \<and> n_observed_at n \<noteq> None)"
  unfolding ex_satisfied_run_def
  by (rule decision_conditions_tracked [OF _ _ _ _ _ surjective_pairing, THEN conjunct1])
    (simp_all add: ex_conditional_state)

end
