(* ===== verification/DecisionRules.thy ===== *)
theory DecisionRules
  imports Encoding
begin

text \<open>
  The pure rules of \<open>backend/app/modules/decision/domain\<close>: structured risks and their
  treatment (\<open>risk.py\<close>), risk-requirement links (\<open>risk_requirement.py\<close>), the gate that a
  Decision must pass before a submission (\<open>submission_gate.py\<close>) and the lexical crossing of
  CCTP text with pricing rows (\<open>pricing_crossing.py\<close>).
\<close>

section \<open>Structured risks\<close>

datatype risk_category = CCAP | CCTP

datatype risk_severity = Severity_LOW | Severity_MEDIUM | Severity_HIGH | Severity_CRITICAL

datatype risk_likelihood = RARE | POSSIBLE | LIKELY | ALMOST_CERTAIN

datatype risk_treatment = Treatment_OPEN | Treatment_ACCEPTED | Treatment_MITIGATED

fun allowed_treatments :: "risk_treatment \<Rightarrow> risk_treatment list" where
  "allowed_treatments Treatment_OPEN = [Treatment_ACCEPTED, Treatment_MITIGATED]"
| "allowed_treatments Treatment_ACCEPTED = [Treatment_MITIGATED]"
| "allowed_treatments Treatment_MITIGATED = []"

text \<open>\<open>True\<close> when the call returns, \<open>False\<close> when it raises \<open>RiskTreatmentTransitionError\<close>.\<close>

definition validate_risk_treatment_transition :: "risk_treatment \<Rightarrow> risk_treatment \<Rightarrow> bool" where
  "validate_risk_treatment_transition from_treatment to_treatment =
     (to_treatment \<in> set (allowed_treatments from_treatment))"

record structured_risk =
  sr_category :: risk_category
  sr_risk_code :: string
  sr_title :: string
  sr_statement :: string
  sr_severity :: risk_severity
  sr_likelihood :: risk_likelihood
  sr_treatment :: risk_treatment
  sr_source_excerpt :: string
  sr_start_byte_offset :: int
  sr_end_byte_offset :: int
  sr_source_locator :: "(string \<times> json) list"

text \<open>The message of the \<open>RiskValidationError\<close>, or \<open>None\<close>.\<close>

definition StructuredRisk_validate :: "structured_risk \<Rightarrow> string option" where
  "StructuredRisk_validate r =
     (if strip (sr_risk_code r) = [] \<or> length (strip (sr_risk_code r)) > 100
        then Some ''risk_code must be between 1 and 100 characters''
      else if strip (sr_title r) = [] \<or> length (strip (sr_title r)) > 240
        then Some ''title must be between 1 and 240 characters''
      else if strip (sr_statement r) = [] then Some ''statement must not be empty''
      else if strip (sr_source_excerpt r) = [] \<or> length (sr_source_excerpt r) > 2000
        then Some ''source_excerpt must be between 1 and 2000 characters''
      else if sr_start_byte_offset r < 0 \<or> sr_end_byte_offset r \<le> sr_start_byte_offset r
        then Some ''source offsets must be ordered and non-negative''
      else if sr_source_locator r = [] then Some ''source_locator must not be empty''
      else None)"

datatype risk_requirement_relation = IMPACTS | MITIGATES | CONSTRAINS

record risk_requirement_link =
  rl_risk_id :: uuid
  rl_requirement_id :: uuid
  rl_relationship :: risk_requirement_relation
  rl_rationale :: string

definition RiskRequirementLink_validate :: "risk_requirement_link \<Rightarrow> string option" where
  "RiskRequirementLink_validate l =
     (if strip (rl_rationale l) = [] then Some ''rationale must be non-empty''
      else if length (rl_rationale l) > 4000 then Some ''rationale is too long''
      else None)"

section \<open>The submission gate\<close>

datatype gate_status = Gate_READY | Gate_BLOCKED

record gate_snapshot =
  g_lifecycle :: string
  g_outcome :: string
  g_context_status :: string
  g_condition_status :: string
  g_open_condition_count :: int
  g_unresolved_risk_action_count :: int
  g_all_dce_requirements_confirmed :: bool

definition gate_reasons :: "gate_snapshot \<Rightarrow> string list" where
  "gate_reasons g =
     (if g_open_condition_count g < 0 \<or> g_unresolved_risk_action_count g < 0
         \<or> \<not> g_all_dce_requirements_confirmed g then [''INVALID_DECISION_SNAPSHOT''] else [])
     @ (if g_lifecycle g \<noteq> ''FINALIZED'' then [''DECISION_NOT_FINALIZED''] else [])
     @ (if g_outcome g = ''NO_GO'' then [''NO_GO_DECISION'']
        else if g_outcome g \<notin> {''GO'', ''CONDITIONAL_GO''} then [''DECISION_OUTCOME_NOT_SUBMITTABLE'']
        else [])
     @ (if g_context_status g \<noteq> ''FROZEN'' then [''DECISION_CONTEXT_NOT_FROZEN''] else [])
     @ (if \<not> g_all_dce_requirements_confirmed g then [''DCE_REQUIREMENTS_NOT_CONFIRMED''] else [])
     @ (if g_outcome g = ''CONDITIONAL_GO'' then
          (if g_condition_status g \<noteq> ''SATISFIED'' \<or> g_open_condition_count g \<noteq> 0
           then [''CONDITIONAL_GO_OPEN_CONDITIONS''] else [])
        else if g_condition_status g \<noteq> ''NOT_APPLICABLE'' \<or> g_open_condition_count g \<noteq> 0
          then [''UNEXPECTED_OPEN_CONDITIONS''] else [])
     @ (if g_unresolved_risk_action_count g \<noteq> 0 then [''UNRESOLVED_RISK_ACTIONS''] else [])"

definition evaluate_submission_gate :: "gate_snapshot \<Rightarrow> gate_status \<times> string list" where
  "evaluate_submission_gate g =
     (let rs = gate_reasons g in (if rs \<noteq> [] then Gate_BLOCKED else Gate_READY, rs))"

definition can_submit :: "gate_status \<times> string list \<Rightarrow> bool" where
  "can_submit r = (fst r = Gate_READY)"

section \<open>Lexical crossing\<close>

definition is_token_char :: "char \<Rightarrow> bool" where
  "is_token_char c = (let n = code c in (97 \<le> n \<and> n \<le> 122) \<or> (48 \<le> n \<and> n \<le> 57))"

text \<open>
  \<open>unicodedata.normalize("NFKD", c)\<close> without its combining characters, for the code points up
  to U+00FF. The fraction slash of the vulgar fractions is written as a slash: like it, a
  slash is outside \<open>[a-z0-9]\<close>.
\<close>

definition nfkd_base :: "char \<Rightarrow> string" where
  "nfkd_base c =
     (let n = code c in
      if 192 \<le> n \<and> n \<le> 197 then ''A'' else if n = 199 then ''C''
      else if 200 \<le> n \<and> n \<le> 203 then ''E'' else if 204 \<le> n \<and> n \<le> 207 then ''I''
      else if n = 209 then ''N'' else if 210 \<le> n \<and> n \<le> 214 then ''O''
      else if 217 \<le> n \<and> n \<le> 220 then ''U'' else if n = 221 then ''Y''
      else if 224 \<le> n \<and> n \<le> 229 then ''a'' else if n = 231 then ''c''
      else if 232 \<le> n \<and> n \<le> 235 then ''e'' else if 236 \<le> n \<and> n \<le> 239 then ''i''
      else if n = 241 then ''n'' else if 242 \<le> n \<and> n \<le> 246 then ''o''
      else if 249 \<le> n \<and> n \<le> 252 then ''u'' else if n = 253 \<or> n = 255 then ''y''
      else if n = 170 then ''a'' else if n = 186 then ''o''
      else if n = 178 then ''2'' else if n = 179 then ''3'' else if n = 185 then ''1''
      else if n = 188 then ''1/4'' else if n = 189 then ''1/2'' else if n = 190 then ''3/4''
      else if n = 160 \<or> n = 168 \<or> n = 175 \<or> n = 180 \<or> n = 184 then '' '' else [c])"

text \<open>\<open>re.sub(r"[^a-z0-9]+", " ", s)\<close>: a run of other characters becomes one space.\<close>

fun collapse :: "bool \<Rightarrow> string \<Rightarrow> string" where
  "collapse in_run [] = []"
| "collapse in_run (c # cs) =
     (if is_token_char c then c # collapse False cs
      else if in_run then collapse True cs else CHR '' '' # collapse True cs)"

definition normalize_crossing_text :: "string \<Rightarrow> string" where
  "normalize_crossing_text s = collapse False (concat (map nfkd_base (casefold s)))"

text \<open>The maximal runs of \<open>[a-z0-9]\<close>; \<open>findall(r"[a-z0-9]{2,}")\<close> keeps those of length two or more.\<close>

fun token_runs :: "string \<Rightarrow> string \<Rightarrow> string list" where
  "token_runs acc [] = [rev acc]"
| "token_runs acc (c # cs) =
     (if is_token_char c then token_runs (c # acc) cs else rev acc # token_runs [] cs)"

definition find_tokens :: "string \<Rightarrow> string list" where
  "find_tokens s = filter (\<lambda>t. 2 \<le> length t) (token_runs [] s)"

definition stopwords :: "string list" where
  "stopwords = [''avec'', ''dans'', ''des'', ''du'', ''les'', ''pour'', ''sur'', ''une'', ''aux'', ''par'',
     ''et'', ''de'', ''la'', ''le'', ''un'']"

text \<open>A Python set of strings is kept as the list of its elements, without duplicates.\<close>

definition crossing_tokens :: "string \<Rightarrow> string list" where
  "crossing_tokens s =
     remdups (filter (\<lambda>t. t \<notin> set stopwords) (find_tokens (normalize_crossing_text s)))"

definition contains_code :: "string \<Rightarrow> string \<Rightarrow> bool" where
  "contains_code txt_value normalized_code =
     (find_tokens normalized_code \<noteq> []
      \<and> list_all (\<lambda>t. t \<in> set (crossing_tokens txt_value)) (find_tokens normalized_code))"

definition is_eligible :: "string list \<Rightarrow> string list \<Rightarrow> bool" where
  "is_eligible shared designation_tokens =
     (shared \<noteq> [] \<and>
      (2 \<le> length shared \<or> (length designation_tokens = 1 \<and> 6 \<le> length (hd shared))))"

text \<open>
  \<open>round(p / q)\<close> for non-negative integers: to the nearest integer, ties to even. The float
  quotient of the source is exact enough for this to be its value while \<open>q < 2 ^ 38\<close>.
\<close>

definition round_div :: "nat \<Rightarrow> nat \<Rightarrow> nat" where
  "round_div p q =
     (let d = p div q; r = 2 * (p mod q) in
      if r < q then d else if q < r then d + 1 else if even d then d else d + 1)"

record crossing_match =
  m_score_bps :: nat
  m_match_basis :: string

definition match_cctp_to_pricing_row ::
  "string \<Rightarrow> string option \<Rightarrow> string option \<Rightarrow> string option \<Rightarrow> crossing_match option" where
  "match_cctp_to_pricing_row cctp_text row_code designation unit_text =
     (let cctp_tokens = crossing_tokens cctp_text in
      if cctp_tokens = [] then None
      else let normalized_code = normalize_crossing_text (or_empty row_code) in
      if normalized_code \<noteq> [] \<and> contains_code cctp_text normalized_code
        then Some \<lparr> m_score_bps = 10000, m_match_basis = ''CODE_EXACT'' \<rparr>
      else let designation_tokens = crossing_tokens (or_empty designation) in
      if designation_tokens = [] then None
      else let shared = filter (\<lambda>t. t \<in> set designation_tokens) cctp_tokens in
      if \<not> is_eligible shared designation_tokens then None
      else let score = min 10000 (round_div (10000 * length shared) (length designation_tokens)) in
      if truthy unit_text \<and> list_ex (\<lambda>t. t \<in> set cctp_tokens) (crossing_tokens (or_empty unit_text))
        then Some \<lparr> m_score_bps = min 10000 (score + 500), m_match_basis = ''NORMALIZED_TOKEN_OVERLAP_AND_UNIT'' \<rparr>
      else Some \<lparr> m_score_bps = score, m_match_basis = ''NORMALIZED_TOKEN_OVERLAP'' \<rparr>)"

section \<open>Facts on the gate and on treatments\<close>

lemma gate_ready_iff:
  "can_submit (evaluate_submission_gate g) \<longleftrightarrow>
     g_lifecycle g = ''FINALIZED'' \<and> g_context_status g = ''FROZEN''
     \<and> g_all_dce_requirements_confirmed g
     \<and> g_open_condition_count g = 0 \<and> g_unresolved_risk_action_count g = 0
     \<and> (g_outcome g = ''GO'' \<and> g_condition_status g = ''NOT_APPLICABLE''
        \<or> g_outcome g = ''CONDITIONAL_GO'' \<and> g_condition_status g = ''SATISFIED'')"
  by (simp add: can_submit_def evaluate_submission_gate_def Let_def gate_reasons_def) auto

text \<open>
  The submission gate is READY exactly when the Decision is FINALIZED on a FROZEN context
  with an outcome of GO without conditions or CONDITIONAL_GO with all conditions SATISFIED, no
  condition is open, every DCE requirement is confirmed and no risk action is unresolved; and
  it is BLOCKED exactly when it names a reason.
\<close>

theorem submission_gate_spec:
  "(can_submit (evaluate_submission_gate g) \<longleftrightarrow>
     g_lifecycle g = ''FINALIZED'' \<and> g_context_status g = ''FROZEN''
     \<and> g_all_dce_requirements_confirmed g
     \<and> g_open_condition_count g = 0 \<and> g_unresolved_risk_action_count g = 0
     \<and> (g_outcome g = ''GO'' \<and> g_condition_status g = ''NOT_APPLICABLE''
        \<or> g_outcome g = ''CONDITIONAL_GO'' \<and> g_condition_status g = ''SATISFIED''))
   \<and> (can_submit (evaluate_submission_gate g) \<longleftrightarrow> snd (evaluate_submission_gate g) = [])"
  by (rule conjI [OF gate_ready_iff]) (simp add: can_submit_def evaluate_submission_gate_def Let_def)

text \<open>Accepted treatment changes in sequence.\<close>

fun treatment_chain :: "risk_treatment list \<Rightarrow> bool" where
  "treatment_chain (a # b # ts) = (validate_risk_treatment_transition a b \<and> treatment_chain (b # ts))"
| "treatment_chain _ = True"

fun treatment_rank :: "risk_treatment \<Rightarrow> nat" where
  "treatment_rank Treatment_OPEN = 0"
| "treatment_rank Treatment_ACCEPTED = 1"
| "treatment_rank Treatment_MITIGATED = 2"

lemma treatment_rank_less:
  "validate_risk_treatment_transition a b \<longleftrightarrow> treatment_rank a < treatment_rank b"
  by (cases a; cases b) (simp_all add: validate_risk_treatment_transition_def)

lemma treatment_chain_sorted:
  "treatment_chain ts \<longleftrightarrow> sorted_wrt (\<lambda>a b. treatment_rank a < treatment_rank b) ts"
proof (induction ts rule: treatment_chain.induct)
  case (1 a b ts)
  then show ?case by (fastforce simp: treatment_rank_less)
qed simp_all

text \<open>
  Risk treatment only progresses: in any sequence of accepted changes no treatment
  recurs and each is strictly later in the order OPEN, ACCEPTED, MITIGATED; conversely every
  strictly progressing sequence is accepted.
\<close>

theorem risk_treatment_progresses:
  "treatment_chain ts \<longleftrightarrow> sorted_wrt (\<lambda>a b. treatment_rank a < treatment_rank b) ts \<and> distinct ts"
proof -
  have "distinct ts" if "sorted_wrt (\<lambda>a b. treatment_rank a < treatment_rank b) ts"
    using that by (induction ts) auto
  then show ?thesis using treatment_chain_sorted by blast
qed

section \<open>Facts on normalisation\<close>

lemma nfkd_low: "code c < 160 \<Longrightarrow> nfkd_base c = [c]"
  by (simp add: nfkd_base_def Let_def)

lemma casefold_low: "code c < 65 \<or> 90 < code c \<and> code c < 192 \<Longrightarrow> casefold_char c = [c]"
  by (auto simp: casefold_char_def lower_char_def ascii_upper_range_def Let_def)

lemma token_char_range: "is_token_char c \<Longrightarrow> code c < 65 \<or> 90 < code c \<and> code c < 160"
  by (auto simp: is_token_char_def Let_def)

text \<open>A text that normalisation leaves alone: token characters and single spaces.\<close>

definition plain_char :: "char \<Rightarrow> bool" where
  "plain_char c = (is_token_char c \<or> c = CHR '' '')"

lemma plain_char_fold: "plain_char c \<Longrightarrow> casefold_char c = [c] \<and> nfkd_base c = [c]"
proof -
  assume "plain_char c"
  then have "code c < 65 \<or> 90 < code c \<and> code c < 160"
    using token_char_range by (auto simp: plain_char_def code_def)
  then show ?thesis using nfkd_low casefold_low by auto
qed

lemma plain_map: "\<forall>c \<in> set s. plain_char c \<Longrightarrow> concat (map nfkd_base (casefold s)) = s"
  by (induction s) (auto simp: casefold_def plain_char_fold)

lemma set_collapse: "\<forall>c \<in> set (collapse b s). plain_char c"
  by (induction b s rule: collapse.induct) (auto simp: plain_char_def)

lemma space_not_token [simp]: "\<not> is_token_char CHR '' ''"
  by (simp add: is_token_char_def code_def)

lemma collapse_collapse: "collapse b (collapse b s) = collapse b s"
  by (induction b s rule: collapse.induct) auto

lemma normalize_idem [simp]: "normalize_crossing_text (normalize_crossing_text s) = normalize_crossing_text s"
  unfolding normalize_crossing_text_def using set_collapse by (simp add: plain_map collapse_collapse)

lemma crossing_tokens_normalize [simp]: "crossing_tokens (normalize_crossing_text s) = crossing_tokens s"
  by (simp add: crossing_tokens_def)

lemma contains_code_normalize [simp]: "contains_code (normalize_crossing_text s) k = contains_code s k"
  by (simp add: contains_code_def)

lemma normalize_Nil [simp]: "normalize_crossing_text [] = []"
  by (simp add: normalize_crossing_text_def casefold_def)

definition norm_opt :: "string option \<Rightarrow> string option" where
  "norm_opt v = map_option normalize_crossing_text v"

lemma or_empty_norm [simp]: "or_empty (norm_opt v) = normalize_crossing_text (or_empty v)"
  by (cases v) (simp_all add: norm_opt_def or_empty_def)

lemma crossing_tokens_Nil [simp]: "crossing_tokens [] = []"
  by (simp add: crossing_tokens_def find_tokens_def)

text \<open>A unit that is falsy has no token, so the truthiness test adds nothing to the token test.\<close>

lemma unit_tokens: "truthy v \<and> list_ex P (crossing_tokens (or_empty v)) \<longleftrightarrow> list_ex P (crossing_tokens (or_empty v))"
  by (cases v) (auto simp: truthy_def or_empty_def)

lemma round_div_le: "p \<le> k * q \<Longrightarrow> 0 < q \<Longrightarrow> round_div p q \<le> k"
proof -
  assume p: "p \<le> k * q" and q: "0 < q"
  have d: "p div q \<le> k" using p q by (metis div_le_mono nonzero_mult_div_cancel_right not_gr_zero)
  show ?thesis
  proof (cases "p div q = k")
    case True
    then have "p mod q = 0" using p by (metis add_le_same_cancel1 div_mult_mod_eq le_zero_eq)
    with True q show ?thesis by (simp add: round_div_def)
  next
    case False
    with d show ?thesis by (simp add: round_div_def Let_def)
  qed
qed

lemma round_div_pos: "q \<le> p \<Longrightarrow> 0 < q \<Longrightarrow> 0 < round_div p q"
proof -
  assume "q \<le> p" "0 < q"
  then have "0 < p div q" by (simp add: div_greater_zero_iff)
  then show ?thesis by (simp add: round_div_def Let_def)
qed

lemma round_div_full: "0 < q \<Longrightarrow> round_div (k * q) q = k"
  by (simp add: round_div_def)

lemma match_cases:
  assumes "match_cctp_to_pricing_row t c d u = Some m"
  obtains (code_exact) "m = \<lparr> m_score_bps = 10000, m_match_basis = ''CODE_EXACT'' \<rparr>"
      "contains_code t (normalize_crossing_text (or_empty c))"
  | (overlap) shared score bonus where
      "shared = filter (\<lambda>x. x \<in> set (crossing_tokens (or_empty d))) (crossing_tokens t)"
      "is_eligible shared (crossing_tokens (or_empty d))" "crossing_tokens (or_empty d) \<noteq> []"
      "score = min 10000 (round_div (10000 * length shared) (length (crossing_tokens (or_empty d))))"
      "bonus = list_ex (\<lambda>x. x \<in> set (crossing_tokens t)) (crossing_tokens (or_empty u))"
      "m = (if bonus then \<lparr> m_score_bps = min 10000 (score + 500), m_match_basis = ''NORMALIZED_TOKEN_OVERLAP_AND_UNIT'' \<rparr>
            else \<lparr> m_score_bps = score, m_match_basis = ''NORMALIZED_TOKEN_OVERLAP'' \<rparr>)"
  using assms unfolding match_cctp_to_pricing_row_def Let_def unit_tokens
  by (simp split: if_splits)

lemma shared_length:
  "length (filter (\<lambda>x. x \<in> set (crossing_tokens d)) (crossing_tokens t)) \<le> length (crossing_tokens d)"
proof -
  have "distinct (crossing_tokens s)" for s by (simp add: crossing_tokens_def)
  then have dt: "distinct (filter (\<lambda>x. x \<in> set (crossing_tokens d)) (crossing_tokens t))"
    and dd: "distinct (crossing_tokens d)" by simp_all
  have "card (set (filter (\<lambda>x. x \<in> set (crossing_tokens d)) (crossing_tokens t)))
      \<le> card (set (crossing_tokens d))" by (rule card_mono) auto
  then show ?thesis using distinct_card [OF dt] distinct_card [OF dd] by simp
qed

text \<open>
  A crossing is lexical evidence only: case, accents and punctuation of any of the four
  texts never change the result. A score lies between 0 and 10000 basis points; below
  CODE_EXACT it is the share of the designation's tokens found in the CCTP text, plus at most
  500 when the unit occurs too, and it requires two shared tokens, or a one-token designation
  of at least six characters.
\<close>

theorem pricing_crossing_lexical:
  "match_cctp_to_pricing_row (normalize_crossing_text t) (norm_opt c) (norm_opt d) (norm_opt u)
     = match_cctp_to_pricing_row t c d u
   \<and> (\<forall>m. match_cctp_to_pricing_row t c d u = Some m \<longrightarrow> m_match_basis m \<noteq> ''CODE_EXACT'' \<longrightarrow>
       (let ds = crossing_tokens (or_empty d);
          k = length (filter (\<lambda>x. x \<in> set ds) (crossing_tokens t));
          share = round_div (10000 * k) (length ds) in
      0 < k \<and> k \<le> length ds \<and> share \<le> 10000 \<and> share \<le> m_score_bps m
      \<and> m_score_bps m \<le> share + 500 \<and> m_score_bps m \<le> 10000
      \<and> (2 \<le> k \<or> length ds = 1 \<and> 6 \<le> length (hd ds))))"
proof (intro conjI allI impI)
  show "match_cctp_to_pricing_row (normalize_crossing_text t) (norm_opt c) (norm_opt d) (norm_opt u)
     = match_cctp_to_pricing_row t c d u"
    unfolding match_cctp_to_pricing_row_def Let_def unit_tokens by simp
next
  fix m
  assume "match_cctp_to_pricing_row t c d u = Some m" "m_match_basis m \<noteq> ''CODE_EXACT''"
  then show "let ds = crossing_tokens (or_empty d);
          k = length (filter (\<lambda>x. x \<in> set ds) (crossing_tokens t));
          share = round_div (10000 * k) (length ds) in
      0 < k \<and> k \<le> length ds \<and> share \<le> 10000 \<and> share \<le> m_score_bps m
      \<and> m_score_bps m \<le> share + 500 \<and> m_score_bps m \<le> 10000
      \<and> (2 \<le> k \<or> length ds = 1 \<and> 6 \<le> length (hd ds))"
  proof (cases rule: match_cases)
    case (overlap shared score bonus)
    let ?ds = "crossing_tokens (or_empty d)"
    have le: "length shared \<le> length ?ds" using overlap(1) shared_length by simp
    have share: "round_div (10000 * length shared) (length ?ds) \<le> 10000"
      using le overlap(3) by (intro round_div_le) simp_all
    have pos: "shared \<noteq> []" using overlap(2) by (simp add: is_eligible_def)
    have one: "2 \<le> length shared \<or> length ?ds = 1 \<and> 6 \<le> length (hd ?ds)"
    proof (cases "2 \<le> length shared")
      case False
      with overlap(2) have l: "length ?ds = 1" "6 \<le> length (hd shared)" by (simp_all add: is_eligible_def)
      then obtain x where x: "?ds = [x]" by (cases ?ds) auto
      have "hd shared \<in> set shared" using pos by simp
      then have "hd shared = x" using overlap(1) x by auto
      with l x show ?thesis by simp
    qed simp
    show ?thesis
      using overlap le share pos one by (auto simp: Let_def)
  qed simp
qed

lemma ex_tokens:
  "crossing_tokens ''pose de carrelage gres cerame'' = [''pose'', ''carrelage'', ''gres'', ''cerame'']"
  "crossing_tokens ''Carrelage Gres 60x60'' = [''carrelage'', ''gres'', ''60x60'']"
  "crossing_tokens ''M2'' = [''m2'']"
  by code_simp+

definition ex_match :: crossing_match where
  "ex_match = \<lparr> m_score_bps = 6667, m_match_basis = ''NORMALIZED_TOKEN_OVERLAP'' \<rparr>"

lemma ex_match_found:
  "match_cctp_to_pricing_row ''pose de carrelage gres cerame'' None (Some ''Carrelage Gres 60x60'') (Some ''M2'')
     = Some ex_match"
  by (simp add: match_cctp_to_pricing_row_def Let_def or_empty_def ex_tokens is_eligible_def round_div_def
      ex_match_def)

theorem pricing_crossing_lexical_witness:
  "m_score_bps ex_match \<le> 10000"
proof -
  have "m_match_basis ex_match \<noteq> ''CODE_EXACT''" by (simp add: ex_match_def)
  from pricing_crossing_lexical [THEN conjunct2, rule_format, OF ex_match_found this]
  show ?thesis unfolding Let_def by blast
qed

end
