(* ===== verification/Dispatcher.thy ===== *)
theory Dispatcher
  imports Encoding
begin

text \<open>
  Command dispatch of \<open>backend/app/platform/events/dispatcher.py\<close> over the tables of
  \<open>backend/app/platform/persistence/models.py\<close>: durable idempotence by command receipts, one
  transaction per command, and a transactional outbox.

  The tables the dispatcher owns are lists of rows; the tables of the handlers are the type
  variable \<open>'b\<close>. A transaction is a function from the committed database to a result and the
  committed database: an exception rolls back, so it returns the database it was given.
  Concurrency is where the source handles it, between the first receipt lookup and the
  insertion: \<open>seen\<close> is what the lookup saw, the database argument is what was committed when
  the receipt is inserted. \<open>uuid4()\<close> is an explicit supply of identifiers.
  \<open>command.model_dump(mode="json")\<close> belongs to Pydantic and is the parameter \<open>dump\<close>.
\<close>

section \<open>Commands, events and results\<close>

record 'c app_command =
  em_command_type :: string
  em_command_id :: uuid
  em_idempotency_key :: uuid
  em_correlation_id :: "uuid option"
  em_body :: 'c

record command_context =
  cc_tenant_id :: uuid
  cc_actor_id :: uuid
  cc_actor_kind :: string
  cc_received_at :: instant
  cc_identity_id :: "uuid option"
  cc_membership_id :: "uuid option"
  cc_session_id :: "uuid option"
  cc_case_id :: "uuid option"
  cc_correlation_id :: "uuid option"

record pending_event =
  pe_aggregate_type :: string
  pe_aggregate_id :: uuid
  pe_aggregate_revision :: int
  pe_event_type :: string
  pe_payload :: "(string \<times> json) list"
  pe_topic :: string
  pe_payload_version :: int

record handler_outcome =
  ho_result_code :: string
  ho_aggregate_refs :: "json list"
  ho_events :: "pending_event list"

record receipt_body =
  rb_status :: string
  rb_command_id :: string
  rb_idempotency_key :: string
  rb_result_code :: string
  rb_aggregate_refs :: "json list"
  rb_event_ids :: "string list"

record dispatch_result =
  dr_status :: string
  dr_command_id :: string
  dr_idempotency_key :: string
  dr_result_code :: string
  dr_aggregate_refs :: "json list"
  dr_event_ids :: "string list"
  dr_replayed :: bool

section \<open>Tables\<close>

record receipt_row =
  rc_id :: uuid
  rc_tenant_id :: uuid
  rc_actor_id :: uuid
  rc_command_id :: uuid
  rc_command_type :: string
  rc_idempotency_key :: uuid
  rc_request_hash :: string
  rc_correlation_id :: "uuid option"
  rc_status :: string
  rc_lease_expires_at :: "instant option"
  rc_aggregate_refs :: "json list option"
  rc_http_status :: "int option"
  rc_result_code :: "string option"
  rc_response_body :: "receipt_body option"
  rc_event_ids :: "string list"
  rc_completed_at :: "instant option"

record event_row =
  ev_id :: uuid
  ev_tenant_id :: uuid
  ev_aggregate_type :: string
  ev_aggregate_id :: uuid
  ev_aggregate_revision :: int
  ev_event_type :: string
  ev_payload_version :: int
  ev_payload :: json
  ev_actor_id :: "uuid option"
  ev_command_id :: "uuid option"
  ev_correlation_id :: "uuid option"
  ev_causation_id :: "uuid option"

record outbox_row =
  ob_id :: uuid
  ob_tenant_id :: uuid
  ob_event_id :: uuid
  ob_topic :: string
  ob_payload_version :: int
  ob_payload :: json
  ob_status :: string
  ob_attempt_count :: int
  ob_next_attempt_at :: "instant option"
  ob_published_at :: "instant option"
  ob_last_error_code :: "string option"
  ob_dedupe_key :: string

record 'b platform_db =
  db_receipts :: "receipt_row list"
  db_events :: "event_row list"
  db_outbox :: "outbox_row list"
  db_business :: 'b

text \<open>The UNIQUE and PRIMARY KEY constraints of the three tables.\<close>

definition receipt_clash :: "receipt_row \<Rightarrow> receipt_row \<Rightarrow> bool" where
  "receipt_clash r r' =
     (rc_id r = rc_id r'
      \<or> (rc_tenant_id r, rc_actor_id r, rc_command_type r, rc_idempotency_key r)
        = (rc_tenant_id r', rc_actor_id r', rc_command_type r', rc_idempotency_key r')
      \<or> (rc_tenant_id r, rc_command_id r) = (rc_tenant_id r', rc_command_id r'))"

definition event_clash :: "event_row \<Rightarrow> event_row \<Rightarrow> bool" where
  "event_clash r r' = (ev_id r = ev_id r')"

definition outbox_clash :: "outbox_row \<Rightarrow> outbox_row \<Rightarrow> bool" where
  "outbox_clash r r' =
     (ob_id r = ob_id r' \<or> (ob_event_id r, ob_topic r) = (ob_event_id r', ob_topic r'))"

section \<open>The request hash\<close>

definition canonical_request ::
  "('c app_command \<Rightarrow> (string \<times> json) list) \<Rightarrow> 'c app_command \<Rightarrow> json" where
  "canonical_request dump c = JObj
     [(''command_type'', JStr (em_command_type c)),
      (''payload'', JObj (filter
         (\<lambda>(f, v). f \<notin> {''command_id'', ''idempotency_key'', ''correlation_id''}) (dump c)))]"

definition canonical_request_hash ::
  "('c app_command \<Rightarrow> (string \<times> json) list) \<Rightarrow> 'c app_command \<Rightarrow> string" where
  "canonical_request_hash dump c = sha256_hex (json_dumps (canonical_request dump c))"

section \<open>Receipts\<close>

definition find_receipt ::
  "uuid \<Rightarrow> uuid \<Rightarrow> string \<Rightarrow> uuid \<Rightarrow> receipt_row list \<Rightarrow> receipt_row option" where
  "find_receipt tid aid ctype ikey rows =
     List.find (\<lambda>r. rc_tenant_id r = tid \<and> rc_actor_id r = aid \<and> rc_command_type r = ctype
       \<and> rc_idempotency_key r = ikey) rows"

definition as_receipt_body :: "dispatch_result \<Rightarrow> receipt_body" where
  "as_receipt_body d = \<lparr> rb_status = dr_status d, rb_command_id = dr_command_id d,
     rb_idempotency_key = dr_idempotency_key d, rb_result_code = dr_result_code d,
     rb_aggregate_refs = dr_aggregate_refs d, rb_event_ids = dr_event_ids d \<rparr>"

text \<open>A receipt without a response body has no \<open>"status"\<close> key: \<open>KeyError\<close>.\<close>

definition result_from_receipt :: "receipt_row \<Rightarrow> bool \<Rightarrow> exn + dispatch_result" where
  "result_from_receipt r replayed =
     (case rc_response_body r of
        None \<Rightarrow> Inl KeyError
      | Some b \<Rightarrow> Inr \<lparr> dr_status = rb_status b, dr_command_id = rb_command_id b,
          dr_idempotency_key = rb_idempotency_key b, dr_result_code = rb_result_code b,
          dr_aggregate_refs = rb_aggregate_refs b, dr_event_ids = rb_event_ids b, dr_replayed = replayed \<rparr>)"

definition resolve_existing_receipt :: "receipt_row \<Rightarrow> string \<Rightarrow> exn + dispatch_result" where
  "resolve_existing_receipt r request_hash =
     (if rc_request_hash r \<noteq> request_hash then Inl IdempotencyKeyReused
      else if rc_status r = ''SUCCEEDED'' then result_from_receipt r True
      else Inl CommandInProgress)"

section \<open>Events and outbox\<close>

definition event_payload :: "uuid \<Rightarrow> pending_event \<Rightarrow> json" where
  "event_payload eid p = JObj
     [(''event_id'', JStr (uuid_str eid)), (''event_type'', JStr (pe_event_type p)),
      (''aggregate_type'', JStr (pe_aggregate_type p)), (''aggregate_id'', JStr (uuid_str (pe_aggregate_id p))),
      (''aggregate_revision'', JInt (pe_aggregate_revision p)), (''data'', JObj (pe_payload p))]"

definition new_event_row ::
  "command_context \<Rightarrow> 'c app_command \<Rightarrow> uuid \<Rightarrow> pending_event \<Rightarrow> event_row" where
  "new_event_row ctx c eid p = \<lparr> ev_id = eid, ev_tenant_id = cc_tenant_id ctx,
     ev_aggregate_type = pe_aggregate_type p, ev_aggregate_id = pe_aggregate_id p,
     ev_aggregate_revision = pe_aggregate_revision p, ev_event_type = pe_event_type p,
     ev_payload_version = pe_payload_version p, ev_payload = event_payload eid p,
     ev_actor_id = Some (cc_actor_id ctx), ev_command_id = Some (em_command_id c),
     ev_correlation_id = em_correlation_id c, ev_causation_id = Some (em_command_id c) \<rparr>"

definition new_outbox_row :: "command_context \<Rightarrow> uuid \<Rightarrow> uuid \<Rightarrow> pending_event \<Rightarrow> outbox_row" where
  "new_outbox_row ctx oid eid p = \<lparr> ob_id = oid, ob_tenant_id = cc_tenant_id ctx, ob_event_id = eid,
     ob_topic = pe_topic p, ob_payload_version = pe_payload_version p, ob_payload = event_payload eid p,
     ob_status = ''PENDING'', ob_attempt_count = 0, ob_next_attempt_at = None, ob_published_at = None,
     ob_last_error_code = None, ob_dedupe_key = pe_topic p @ '':'' @ uuid_str eid \<rparr>"

text \<open>The loop over the events: two fresh identifiers, an event row and an outbox row each.\<close>

fun persist_events_and_outbox ::
  "command_context \<Rightarrow> 'c app_command \<Rightarrow> (nat \<Rightarrow> uuid) \<Rightarrow> nat \<Rightarrow> pending_event list
   \<Rightarrow> event_row list \<Rightarrow> outbox_row list \<Rightarrow> exn + (string list \<times> event_row list \<times> outbox_row list)" where
  "persist_events_and_outbox ctx c fresh k [] evs obs = Inr ([], evs, obs)"
| "persist_events_and_outbox ctx c fresh k (p # ps) evs obs =
     (let eid = fresh k; oid = fresh (Suc k) in
      case add_row event_clash (new_event_row ctx c eid p) evs of Inl e \<Rightarrow> Inl e | Inr evs1 \<Rightarrow>
      (case add_row outbox_clash (new_outbox_row ctx oid eid p) obs of Inl e \<Rightarrow> Inl e | Inr obs1 \<Rightarrow>
       (case persist_events_and_outbox ctx c fresh (Suc (Suc k)) ps evs1 obs1 of Inl e \<Rightarrow> Inl e
        | Inr (ids, evs2, obs2) \<Rightarrow> Inr (uuid_str eid # ids, evs2, obs2))))"

section \<open>Dispatch\<close>

type_synonym ('c, 'b) handler =
  "'c app_command \<Rightarrow> command_context \<Rightarrow> (nat \<Rightarrow> uuid) \<Rightarrow> 'b \<Rightarrow> exn + (handler_outcome \<times> 'b)"

record 'c dispatch_request =
  rq_command :: "'c app_command"
  rq_context :: command_context
  rq_fresh :: "nat \<Rightarrow> uuid"
  rq_handler_fresh :: "nat \<Rightarrow> uuid"
  rq_now :: instant

definition new_receipt :: "'c app_command \<Rightarrow> command_context \<Rightarrow> uuid \<Rightarrow> string \<Rightarrow> receipt_row" where
  "new_receipt c ctx rid request_hash = \<lparr> rc_id = rid, rc_tenant_id = cc_tenant_id ctx,
     rc_actor_id = cc_actor_id ctx, rc_command_id = em_command_id c, rc_command_type = em_command_type c,
     rc_idempotency_key = em_idempotency_key c, rc_request_hash = request_hash,
     rc_correlation_id = em_correlation_id c, rc_status = ''PROCESSING'', rc_lease_expires_at = None,
     rc_aggregate_refs = None, rc_http_status = None, rc_result_code = None, rc_response_body = None,
     rc_event_ids = [], rc_completed_at = None \<rparr>"

definition success_result :: "'c app_command \<Rightarrow> handler_outcome \<Rightarrow> string list \<Rightarrow> dispatch_result" where
  "success_result c ho ids = \<lparr> dr_status = ''SUCCEEDED'', dr_command_id = uuid_str (em_command_id c),
     dr_idempotency_key = uuid_str (em_idempotency_key c), dr_result_code = ho_result_code ho,
     dr_aggregate_refs = ho_aggregate_refs ho, dr_event_ids = ids, dr_replayed = False \<rparr>"

definition complete_receipt :: "handler_outcome \<Rightarrow> dispatch_result \<Rightarrow> instant \<Rightarrow> receipt_row \<Rightarrow> receipt_row" where
  "complete_receipt ho res now r = r\<lparr> rc_status := ''SUCCEEDED'',
     rc_aggregate_refs := Some (ho_aggregate_refs ho), rc_http_status := Some 201,
     rc_result_code := Some (ho_result_code ho), rc_response_body := Some (as_receipt_body res),
     rc_event_ids := dr_event_ids res, rc_completed_at := Some now \<rparr>"

text \<open>The \<open>except\<close> clauses around the transaction.\<close>

fun translate_exn :: "exn \<Rightarrow> exn" where
  "translate_exn IdempotencyKeyReused = IdempotencyKeyReused"
| "translate_exn CommandInProgress = CommandInProgress"
| "translate_exn IntegrityError = CommandExecutionError ''command persistence failed before commit''"
| "translate_exn (CommandExecutionError m) = CommandExecutionError m"
| "translate_exn _ = CommandExecutionError ''command failed before commit''"

text \<open>The body of the transaction: an exception, or the result with the database to commit.\<close>

definition transaction ::
  "('c app_command \<Rightarrow> (string \<times> json) list) \<Rightarrow> ('c, 'b) handler \<Rightarrow> receipt_row list
   \<Rightarrow> 'c dispatch_request \<Rightarrow> 'b platform_db \<Rightarrow> exn + (dispatch_result \<times> 'b platform_db)" where
  "transaction dump handler seen rq db =
     (let c = rq_command rq; ctx = rq_context rq; request_hash = canonical_request_hash dump c;
          look = find_receipt (cc_tenant_id ctx) (cc_actor_id ctx) (em_command_type c) (em_idempotency_key c);
          found = (\<lambda>r. case resolve_existing_receipt r request_hash of Inl e \<Rightarrow> Inl e | Inr d \<Rightarrow> Inr (d, db)) in
      case look seen of Some r \<Rightarrow> found r | None \<Rightarrow>
      (case add_row receipt_clash (new_receipt c ctx (rq_fresh rq 0) request_hash) (db_receipts db) of
         Inl _ \<Rightarrow>
           (case look (db_receipts db) of
              None \<Rightarrow> Inl (CommandExecutionError ''command receipt collision could not be resolved'')
            | Some r \<Rightarrow> found r)
       | Inr _ \<Rightarrow>
           (case handler c ctx (rq_handler_fresh rq) (db_business db) of Inl e \<Rightarrow> Inl e | Inr (ho, b) \<Rightarrow>
            (case persist_events_and_outbox ctx c (rq_fresh rq) 1 (ho_events ho) (db_events db) (db_outbox db) of
               Inl e \<Rightarrow> Inl e
             | Inr (ids, evs, obs) \<Rightarrow>
                (let res = success_result c ho ids in
                 Inr (res, db\<lparr> db_receipts := db_receipts db
                                 @ [complete_receipt ho res (rq_now rq) (new_receipt c ctx (rq_fresh rq 0) request_hash)],
                              db_events := evs, db_outbox := obs, db_business := b \<rparr>))))))"

definition dispatch ::
  "('c app_command \<Rightarrow> (string \<times> json) list) \<Rightarrow> (string \<Rightarrow> ('c, 'b) handler option) \<Rightarrow> receipt_row list
   \<Rightarrow> 'c dispatch_request \<Rightarrow> 'b platform_db \<Rightarrow> (exn + dispatch_result) \<times> 'b platform_db" where
  "dispatch dump handlers seen rq db =
     (case handlers (em_command_type (rq_command rq)) of
        None \<Rightarrow> (Inl (CommandExecutionError (''unsupported command type: '' @ em_command_type (rq_command rq))), db)
      | Some handler \<Rightarrow>
         (case transaction dump handler seen rq db of
            Inl e \<Rightarrow> (Inl (translate_exn e), db)
          | Inr (d, db') \<Rightarrow> (Inr d, db')))"

section \<open>What a persisted batch looks like\<close>

definition new_rows ::
  "command_context \<Rightarrow> 'c app_command \<Rightarrow> uuid list \<Rightarrow> uuid list \<Rightarrow> pending_event list
   \<Rightarrow> event_row list \<times> outbox_row list" where
  "new_rows ctx c eids oids ps =
     (map (\<lambda>(e, p). new_event_row ctx c e p) (zip eids ps),
      map (\<lambda>(oid, e, p). new_outbox_row ctx oid e p) (zip oids (zip eids ps)))"

lemma persist_rows:
  assumes "persist_events_and_outbox ctx c fresh k ps evs obs = Inr (ids, evs', obs')"
  obtains eids oids where "length eids = length ps" "length oids = length ps" "ids = map uuid_str eids"
    "evs' = evs @ fst (new_rows ctx c eids oids ps)" "obs' = obs @ snd (new_rows ctx c eids oids ps)"
    "distinct eids" "set eids \<inter> ev_id ` set evs = {}"
proof -
  have "\<exists>eids oids. length eids = length ps \<and> length oids = length ps \<and> ids = map uuid_str eids
    \<and> evs' = evs @ fst (new_rows ctx c eids oids ps) \<and> obs' = obs @ snd (new_rows ctx c eids oids ps)
    \<and> distinct eids \<and> set eids \<inter> ev_id ` set evs = {}"
    using assms
  proof (induction ps arbitrary: k ids evs obs)
    case Nil
    then show ?case by (simp add: new_rows_def)
  next
    case (Cons p ps)
    let ?e = "new_event_row ctx c (fresh k) p" and ?o = "new_outbox_row ctx (fresh (Suc k)) (fresh k) p"
    from Cons.prems obtain ids1 where
      e: "add_row event_clash ?e evs = Inr (evs @ [?e])" and
      o: "add_row outbox_clash ?o obs = Inr (obs @ [?o])" and
      r: "persist_events_and_outbox ctx c fresh (Suc (Suc k)) ps (evs @ [?e]) (obs @ [?o]) = Inr (ids1, evs', obs')"
      and ids: "ids = uuid_str (fresh k) # ids1"
      by (auto simp: Let_def add_row_Inr split: sum.splits)
    from Cons.IH [OF r] obtain eids oids where
      l: "length eids = length ps" "length oids = length ps" and i: "ids1 = map uuid_str eids" and
      ev: "evs' = (evs @ [?e]) @ fst (new_rows ctx c eids oids ps)" and
      ob: "obs' = (obs @ [?o]) @ snd (new_rows ctx c eids oids ps)" and
      d: "distinct eids" "set eids \<inter> ev_id ` set (evs @ [?e]) = {}" by blast
    from e have n: "fresh k \<notin> ev_id ` set evs"
      by (auto simp: add_row_Inr event_clash_def new_event_row_def)
    show ?case
      by (intro exI [of _ "fresh k # eids"] exI [of _ "fresh (Suc k) # oids"])
        (use l i ids ev ob d n in \<open>auto simp: new_rows_def new_event_row_def\<close>)
  qed
  then show thesis using that by blast
qed

section \<open>The cases of a dispatch\<close>

abbreviation rq_key :: "'c dispatch_request \<Rightarrow> receipt_row list \<Rightarrow> receipt_row option" where
  "rq_key rq \<equiv> find_receipt (cc_tenant_id (rq_context rq)) (cc_actor_id (rq_context rq))
     (em_command_type (rq_command rq)) (em_idempotency_key (rq_command rq))"

abbreviation rq_hash :: "('c app_command \<Rightarrow> (string \<times> json) list) \<Rightarrow> 'c dispatch_request \<Rightarrow> string" where
  "rq_hash dump rq \<equiv> canonical_request_hash dump (rq_command rq)"

text \<open>A transaction that returns either replays a receipt or runs the handler once.\<close>

lemma transaction_Inr:
  assumes "transaction dump handler seen rq db = Inr (d, db')"
  obtains (replay) r where "rq_key rq seen = Some r \<or> rq_key rq seen = None \<and> rq_key rq (db_receipts db) = Some r"
      "resolve_existing_receipt r (rq_hash dump rq) = Inr d" "db' = db"
  | (executed) ho b ids evs obs where
      "rq_key rq seen = None"
      "\<forall>x \<in> set (db_receipts db). \<not> receipt_clash (new_receipt (rq_command rq) (rq_context rq) (rq_fresh rq 0) (rq_hash dump rq)) x"
      "handler (rq_command rq) (rq_context rq) (rq_handler_fresh rq) (db_business db) = Inr (ho, b)"
      "persist_events_and_outbox (rq_context rq) (rq_command rq) (rq_fresh rq) 1 (ho_events ho) (db_events db) (db_outbox db)
         = Inr (ids, evs, obs)"
      "d = success_result (rq_command rq) ho ids"
      "db' = db\<lparr> db_receipts := db_receipts db @ [complete_receipt ho d (rq_now rq)
              (new_receipt (rq_command rq) (rq_context rq) (rq_fresh rq 0) (rq_hash dump rq))],
                db_events := evs, db_outbox := obs, db_business := b \<rparr>"
proof (cases "rq_key rq seen")
  case (Some r)
  then show ?thesis
    using assms replay by (auto simp: transaction_def Let_def split: sum.splits)
next
  case none: None
  let ?new = "new_receipt (rq_command rq) (rq_context rq) (rq_fresh rq 0) (rq_hash dump rq)"
  show ?thesis
  proof (cases "add_row receipt_clash ?new (db_receipts db)")
    case (Inl e)
    then show ?thesis
      using assms none replay by (auto simp: transaction_def Let_def split: sum.splits option.splits)
  next
    case (Inr rows)
    then have nc: "\<forall>x \<in> set (db_receipts db). \<not> receipt_clash ?new x" by (auto simp: add_row_Inr)
    from assms none Inr obtain ho b ids evs obs where
      h: "handler (rq_command rq) (rq_context rq) (rq_handler_fresh rq) (db_business db) = Inr (ho, b)" and
      p: "persist_events_and_outbox (rq_context rq) (rq_command rq) (rq_fresh rq) 1 (ho_events ho) (db_events db) (db_outbox db)
         = Inr (ids, evs, obs)" and
      d: "d = success_result (rq_command rq) ho ids"
      "db' = db\<lparr> db_receipts := db_receipts db @ [complete_receipt ho (success_result (rq_command rq) ho ids) (rq_now rq) ?new],
                db_events := evs, db_outbox := obs, db_business := b \<rparr>"
      by (auto simp: transaction_def Let_def split: sum.splits)
    show ?thesis by (rule executed [OF none nc h p d(1)]) (simp add: d)
  qed
qed

lemma dispatch_Inr:
  assumes "dispatch dump handlers seen rq db = (Inr d, db')"
  obtains h where "handlers (em_command_type (rq_command rq)) = Some h"
    "transaction dump h seen rq db = Inr (d, db')"
  using assms by (auto simp: dispatch_def split: option.splits sum.splits)

lemma dispatch_Inl: "dispatch dump handlers seen rq db = (Inl e, db') \<Longrightarrow> db' = db"
  by (auto simp: dispatch_def split: option.splits sum.splits)

text \<open>The receipts are append-only.\<close>

lemma dispatch_receipts_append:
  assumes "dispatch dump handlers seen rq db = (r, db')"
  shows "\<exists>rows. db_receipts db' = db_receipts db @ rows"
proof (cases r)
  case (Inl e)
  then show ?thesis using dispatch_Inl assms by blast
next
  case (Inr d)
  with assms obtain h where "transaction dump h seen rq db = Inr (d, db')" by (auto elim: dispatch_Inr)
  then show ?thesis by (cases rule: transaction_Inr) auto
qed

lemma find_receipt_append:
  "find_receipt t a c i rows = Some r \<Longrightarrow> find_receipt t a c i (rows @ rows2) = Some r"
  by (simp add: find_receipt_def find_append)

lemma find_receipt_take:
  "find_receipt t a c i (take k rows) = Some r \<Longrightarrow> find_receipt t a c i rows = Some r"
  by (metis append_take_drop_id find_receipt_append)

lemma resolve_completed:
  "resolve_existing_receipt (complete_receipt ho (success_result c ho ids) now (new_receipt c ctx rid hash)) hash
     = Inr ((success_result c ho ids)\<lparr> dr_replayed := True \<rparr>)"
  by (simp add: resolve_existing_receipt_def complete_receipt_def result_from_receipt_def new_receipt_def
      as_receipt_body_def success_result_def)

text \<open>After a dispatch that returned, its key has a receipt that replays the result.\<close>

lemma dispatch_leaves_receipt:
  assumes "dispatch dump handlers (take k (db_receipts db)) rq db = (Inr d, db')"
  obtains r where "rq_key rq (db_receipts db') = Some r"
    "resolve_existing_receipt r (rq_hash dump rq) = Inr (d\<lparr> dr_replayed := True \<rparr>)"
proof -
  from assms obtain h where "transaction dump h (take k (db_receipts db)) rq db = Inr (d, db')"
    by (rule dispatch_Inr)
  then show thesis
  proof (cases rule: transaction_Inr)
    case (replay r)
    then have key: "rq_key rq (db_receipts db') = Some r" by (auto dest: find_receipt_take)
    from replay(2) have "d\<lparr> dr_replayed := True \<rparr> = d"
      by (auto simp: resolve_existing_receipt_def result_from_receipt_def split: if_splits option.splits)
    with key replay(2) show thesis by (intro that) simp_all
  next
    case (executed ho b ids evs obs)
    let ?new = "new_receipt (rq_command rq) (rq_context rq) (rq_fresh rq 0) (rq_hash dump rq)"
    let ?row = "complete_receipt ho d (rq_now rq) ?new"
    have "rq_key rq (db_receipts db) = None"
      using executed(2) by (auto simp: find_receipt_def find_None_iff receipt_clash_def new_receipt_def)
    then have "rq_key rq (db_receipts db') = Some ?row"
      using executed(6) by (simp add: find_receipt_def find_append complete_receipt_def new_receipt_def)
    moreover have "resolve_existing_receipt ?row (rq_hash dump rq) = Inr (d\<lparr> dr_replayed := True \<rparr>)"
      unfolding executed(5) by (rule resolve_completed)
    ultimately show thesis by (rule that)
  qed
qed

text \<open>A request whose key has a committed receipt is answered from it, whatever its lookup saw.\<close>

lemma dispatch_existing:
  assumes "rq_key rq (db_receipts db) = Some r"
    and "handlers (em_command_type (rq_command rq)) = Some h"
  shows "dispatch dump handlers (take k (db_receipts db)) rq db =
     (case resolve_existing_receipt r (rq_hash dump rq) of Inl e \<Rightarrow> (Inl (translate_exn e), db) | Inr d \<Rightarrow> (Inr d, db))"
proof (cases "rq_key rq (take k (db_receipts db))")
  case (Some r')
  then have "rq_key rq (db_receipts db) = Some r'" by (rule find_receipt_take)
  with assms(1) Some have "rq_key rq (take k (db_receipts db)) = Some r" by simp
  then show ?thesis
    by (cases "resolve_existing_receipt r (rq_hash dump rq)")
      (simp_all add: dispatch_def transaction_def Let_def assms(2))
next
  case None
  from assms(1) have mem: "r \<in> set (db_receipts db)"
    "rc_tenant_id r = cc_tenant_id (rq_context rq)" "rc_actor_id r = cc_actor_id (rq_context rq)"
    "rc_command_type r = em_command_type (rq_command rq)" "rc_idempotency_key r = em_idempotency_key (rq_command rq)"
    unfolding find_receipt_def by (auto dest!: find_Some_in)
  then have "receipt_clash (new_receipt (rq_command rq) (rq_context rq) (rq_fresh rq 0) (rq_hash dump rq)) r"
    by (simp add: receipt_clash_def new_receipt_def)
  with mem have "list_ex (receipt_clash (new_receipt (rq_command rq) (rq_context rq) (rq_fresh rq 0) (rq_hash dump rq)))
      (db_receipts db)" by (auto simp: list_ex_iff)
  with None assms show ?thesis
    by (cases "resolve_existing_receipt r (rq_hash dump rq)")
      (simp_all add: dispatch_def transaction_def add_row_def Let_def)
qed

section \<open>Runs\<close>

text \<open>
  A history of dispatches. The number beside a request says how many of the receipts committed
  by then its first lookup saw.
\<close>

fun dispatch_run ::
  "('c app_command \<Rightarrow> (string \<times> json) list) \<Rightarrow> (string \<Rightarrow> ('c, 'b) handler option)
   \<Rightarrow> (nat \<times> 'c dispatch_request) list \<Rightarrow> 'b platform_db \<Rightarrow> (exn + dispatch_result) list \<times> 'b platform_db" where
  "dispatch_run dump handlers [] db = ([], db)"
| "dispatch_run dump handlers ((k, rq) # steps) db =
     (let (r, db1) = dispatch dump handlers (take k (db_receipts db)) rq db;
          (rs, db2) = dispatch_run dump handlers steps db1 in (r # rs, db2))"

lemma dispatch_run_Cons:
  assumes "dispatch_run dump handlers ((k, rq) # steps) db = (rs, db2)"
  obtains r db1 rs1 where "dispatch dump handlers (take k (db_receipts db)) rq db = (r, db1)"
    "dispatch_run dump handlers steps db1 = (rs1, db2)" "rs = r # rs1"
  using assms by (auto split: prod.splits)

lemma dispatch_run_receipts:
  "dispatch_run dump handlers steps db = (rs, db') \<Longrightarrow> \<exists>rows. db_receipts db' = db_receipts db @ rows"
proof (induction steps arbitrary: db rs)
  case Nil
  then show ?case by simp
next
  case (Cons st steps)
  obtain k rq where st: "st = (k, rq)" by (cases st)
  from Cons.prems obtain r db1 rs1 where
    d: "dispatch dump handlers (take k (db_receipts db)) rq db = (r, db1)"
      "dispatch_run dump handlers steps db1 = (rs1, db')"
    unfolding st by (rule dispatch_run_Cons)
  obtain rows1 where "db_receipts db1 = db_receipts db @ rows1" using dispatch_receipts_append [OF d(1)] by blast
  moreover obtain rows2 where "db_receipts db' = db_receipts db1 @ rows2" using Cons.IH [OF d(2)] by blast
  ultimately show ?case by simp
qed

text \<open>A property of the database that every dispatch keeps.\<close>

lemma dispatch_run_invariant:
  assumes step: "\<And>k rq db r db'. P db \<Longrightarrow> dispatch dump handlers (take k (db_receipts db)) rq db = (r, db') \<Longrightarrow> P db'"
    and "P db" "dispatch_run dump handlers steps db = (rs, db')"
  shows "P db'"
  using assms(2,3)
proof (induction steps arbitrary: db rs)
  case Nil
  then show ?case by simp
next
  case (Cons st steps)
  obtain k rq where st: "st = (k, rq)" by (cases st)
  from Cons.prems(2) show ?case
    unfolding st by (rule dispatch_run_Cons) (use Cons.IH step Cons.prems(1) in blast)
qed

text \<open>A dispatch leaves the business tables alone or makes them what the handler made of them.\<close>

lemma dispatch_business:
  assumes "dispatch dump handlers seen rq db = (r, db')"
  obtains (same) "db_business db' = db_business db"
  | (handled) h ho where "handlers (em_command_type (rq_command rq)) = Some h"
      "h (rq_command rq) (rq_context rq) (rq_handler_fresh rq) (db_business db) = Inr (ho, db_business db')"
proof (cases r)
  case (Inl e)
  then show ?thesis using assms dispatch_Inl same by metis
next
  case (Inr d)
  with assms obtain h where h: "handlers (em_command_type (rq_command rq)) = Some h"
    "transaction dump h seen rq db = Inr (d, db')" by (auto elim: dispatch_Inr)
  from h(2) show ?thesis
  proof (cases rule: transaction_Inr)
    case (replay r)
    then show ?thesis using same by simp
  next
    case (executed ho b ids evs obs)
    then show ?thesis using handled [OF h(1), of ho] by simp
  qed
qed

section \<open>Handlers and the business tables\<close>

text \<open>
  What the platform expects of the registered handlers with respect to an invariant of the
  business tables: a handler that returns keeps it.
\<close>

locale command_handlers =
  fixes handlers :: "string \<Rightarrow> ('c, 'b) handler option"
    and business_inv :: "'b \<Rightarrow> bool"
  assumes handler_preserves: "handlers ctype = Some h \<Longrightarrow> business_inv b \<Longrightarrow>
      h c ctx fresh b = Inr (ho, b') \<Longrightarrow> business_inv b'"
begin

lemma dispatch_preserves:
  assumes "business_inv (db_business db)" "dispatch dump handlers seen rq db = (r, db')"
  shows "business_inv (db_business db')"
proof (cases r)
  case (Inl e)
  then show ?thesis using assms dispatch_Inl by metis
next
  case (Inr d)
  with assms(2) obtain h where h: "handlers (em_command_type (rq_command rq)) = Some h"
    "transaction dump h seen rq db = Inr (d, db')" by (auto elim: dispatch_Inr)
  from h(2) show ?thesis
  proof (cases rule: transaction_Inr)
    case (replay r)
    then show ?thesis using assms(1) by simp
  next
    case (executed ho b ids evs obs)
    then show ?thesis using handler_preserves [OF h(1) assms(1) executed(3)] by simp
  qed
qed

lemma run_preserves:
  "business_inv (db_business db) \<Longrightarrow> dispatch_run dump handlers steps db = (rs, db') \<Longrightarrow> business_inv (db_business db')"
  by (rule dispatch_run_invariant [where P = "\<lambda>s. business_inv (db_business s)"]) (auto intro: dispatch_preserves)

end

section \<open>Properties\<close>

text \<open>A small instance: a handler that counts and announces each count.\<close>

definition ex_handler :: "(int, int) handler" where
  "ex_handler c ctx fresh n =
     (if em_body c < 0 then Inl (CommandExecutionError ''NEGATIVE'')
      else Inr (\<lparr> ho_result_code = ''COUNTED'', ho_aggregate_refs = [],
        ho_events = [\<lparr> pe_aggregate_type = ''Counter'', pe_aggregate_id = fresh 0, pe_aggregate_revision = n,
          pe_event_type = ''Counted'', pe_payload = [], pe_topic = ''cockpit_projection'', pe_payload_version = 1 \<rparr>] \<rparr>,
        n + em_body c))"

definition ex_handlers :: "string \<Rightarrow> (int, int) handler option" where
  "ex_handlers = [''Count'' \<mapsto> ex_handler]"

definition ex_dump :: "int app_command \<Rightarrow> (string \<times> json) list" where
  "ex_dump c = [(''command_id'', JStr (uuid_str (em_command_id c))), (''amount'', JInt (em_body c))]"

definition ex_request :: "uuid \<Rightarrow> int \<Rightarrow> int dispatch_request" where
  "ex_request cid n = \<lparr> rq_command = \<lparr> em_command_type = ''Count'', em_command_id = cid, em_idempotency_key = 8,
       em_correlation_id = None, em_body = n \<rparr>,
     rq_context = \<lparr> cc_tenant_id = 1, cc_actor_id = 2, cc_actor_kind = ''PATRON_ADMIN'', cc_received_at = 0,
       cc_identity_id = None, cc_membership_id = None, cc_session_id = None, cc_case_id = None,
       cc_correlation_id = None \<rparr>,
     rq_fresh = of_nat, rq_handler_fresh = of_nat, rq_now = 0 \<rparr>"

definition ex_db :: "int platform_db" where
  "ex_db = \<lparr> db_receipts = [], db_events = [], db_outbox = [], db_business = 0 \<rparr>"

lemma ex_dispatched: "\<exists>d db'. dispatch ex_dump ex_handlers [] (ex_request 5 3) ex_db = (Inr d, db')"
  by (simp add: dispatch_def transaction_def ex_handlers_def ex_request_def ex_db_def ex_handler_def
      find_receipt_def add_row_def Let_def)

text \<open>
  C1. A command takes effect exactly once. Once a dispatch returned a result, after any history
  of other dispatches and whatever the lookup of the retry saw, a request of the same tenant,
  actor, command type and idempotency key never runs its handler again and never changes the
  database: it replays the stored result verbatim when it is the same request up to transport
  identifiers, and otherwise is refused as a reused key, unless the two canonical requests
  exhibit a SHA-256 collision.
\<close>

theorem dispatch_exactly_once:
  assumes "dispatch dump handlers (take k (db_receipts db)) rq db = (Inr d, db1)"
    and "dispatch_run dump handlers steps db1 = (rs, db2)"
    and "cc_tenant_id (rq_context rq') = cc_tenant_id (rq_context rq)"
      "cc_actor_id (rq_context rq') = cc_actor_id (rq_context rq)"
      "em_command_type (rq_command rq') = em_command_type (rq_command rq)"
      "em_idempotency_key (rq_command rq') = em_idempotency_key (rq_command rq)"
  shows "dispatch dump handlers (take k' (db_receipts db2)) rq' db2 =
     (if canon (canonical_request dump (rq_command rq')) = canon (canonical_request dump (rq_command rq))
         \<or> sha256_collision (json_dumps (canonical_request dump (rq_command rq')))
                            (json_dumps (canonical_request dump (rq_command rq)))
      then Inr (d\<lparr> dr_replayed := True \<rparr>) else Inl IdempotencyKeyReused, db2)"
proof -
  from assms(1) obtain r where
    r: "rq_key rq (db_receipts db1) = Some r" "resolve_existing_receipt r (rq_hash dump rq) = Inr (d\<lparr> dr_replayed := True \<rparr>)"
    by (rule dispatch_leaves_receipt)
  obtain rows where "db_receipts db2 = db_receipts db1 @ rows" using dispatch_run_receipts [OF assms(2)] by blast
  then have key: "rq_key rq' (db_receipts db2) = Some r" using r(1) assms(3-6) find_receipt_append by simp
  from assms(1) obtain h where "handlers (em_command_type (rq_command rq)) = Some h" by (rule dispatch_Inr)
  then have h: "handlers (em_command_type (rq_command rq')) = Some h" using assms(5) by simp
  note ex = dispatch_existing [where rq = rq' and db = db2 and r = r and h = h and k = k' and dump = dump and handlers = handlers, OF key h]
  have hash: "rq_hash dump rq' = rq_hash dump rq \<longleftrightarrow>
      canon (canonical_request dump (rq_command rq')) = canon (canonical_request dump (rq_command rq))
      \<or> sha256_collision (json_dumps (canonical_request dump (rq_command rq')))
                         (json_dumps (canonical_request dump (rq_command rq)))"
    unfolding canonical_request_hash_def by (rule digest_eq)
  have own: "rc_request_hash r = rq_hash dump rq"
    using r(2) by (auto simp: resolve_existing_receipt_def split: if_splits)
  show ?thesis
  proof (cases "rq_hash dump rq' = rq_hash dump rq")
    case True
    have "dispatch dump handlers (take k' (db_receipts db2)) rq' db2 = (Inr (d\<lparr> dr_replayed := True \<rparr>), db2)"
      unfolding ex True r(2) by simp
    with True hash show ?thesis by simp
  next
    case False
    then have "resolve_existing_receipt r (rq_hash dump rq') = Inl IdempotencyKeyReused"
      using own by (simp add: resolve_existing_receipt_def)
    then have "dispatch dump handlers (take k' (db_receipts db2)) rq' db2 = (Inl IdempotencyKeyReused, db2)"
      unfolding ex by simp
    with False hash show ?thesis by simp
  qed
qed

theorem dispatch_exactly_once_witness:
  "\<exists>d db1. dispatch ex_dump ex_handlers [] (ex_request 5 3) ex_db = (Inr d, db1)
     \<and> dispatch ex_dump ex_handlers [] (ex_request 6 3) db1 = (Inr (d\<lparr> dr_replayed := True \<rparr>), db1)"
proof -
  obtain d db1 where d: "dispatch ex_dump ex_handlers [] (ex_request 5 3) ex_db = (Inr d, db1)"
    using ex_dispatched by blast
  then have d0: "dispatch ex_dump ex_handlers (take 0 (db_receipts ex_db)) (ex_request 5 3) ex_db = (Inr d, db1)" by simp
  have same: "canonical_request ex_dump (rq_command (ex_request 6 3)) = canonical_request ex_dump (rq_command (ex_request 5 3))"
    by (simp add: canonical_request_def ex_request_def ex_dump_def)
  have "dispatch ex_dump ex_handlers (take 0 (db_receipts db1)) (ex_request 6 3) db1 = (Inr (d\<lparr> dr_replayed := True \<rparr>), db1)"
    unfolding dispatch_exactly_once [OF d0 dispatch_run.simps(1), where rq' = "ex_request 6 3", simplified ex_request_def, simplified,
        folded ex_request_def]
    using same by (simp add: ex_request_def)
  then show ?thesis using d by auto
qed

text \<open>
  C32. A command commits all of its effects or none. A dispatch that raises leaves every table
  as it was. A dispatch that returns either replays, and leaves every table as it was, or ran
  the handler once on the committed business tables: those become the handler's, one SUCCEEDED
  receipt with the result is appended, and for each event of the handler, in order, one event
  row and one PENDING outbox row with the same payload, whose identifiers are the ones returned.
\<close>

theorem dispatch_commits_atomically:
  assumes "dispatch dump handlers seen rq db = (r, db')"
  shows "(case r of Inl e \<Rightarrow> db' = db | Inr d \<Rightarrow>
     db' = db \<and> (\<exists>row \<in> set seen \<union> set (db_receipts db). rc_status row = ''SUCCEEDED''
        \<and> rc_request_hash row = canonical_request_hash dump (rq_command rq)
        \<and> rc_response_body row = Some (as_receipt_body d))
     \<or> (\<exists>h ho b eids oids row. handlers (em_command_type (rq_command rq)) = Some h
         \<and> h (rq_command rq) (rq_context rq) (rq_handler_fresh rq) (db_business db) = Inr (ho, b)
         \<and> db_business db' = b \<and> db_receipts db' = db_receipts db @ [row]
         \<and> rc_status row = ''SUCCEEDED'' \<and> rc_response_body row = Some (as_receipt_body d)
         \<and> length eids = length (ho_events ho) \<and> length oids = length (ho_events ho) \<and> distinct eids
         \<and> db_events db' = db_events db @ fst (new_rows (rq_context rq) (rq_command rq) eids oids (ho_events ho))
         \<and> db_outbox db' = db_outbox db @ snd (new_rows (rq_context rq) (rq_command rq) eids oids (ho_events ho))
         \<and> dr_event_ids d = map uuid_str eids \<and> \<not> dr_replayed d))"
proof (cases r)
  case (Inl e)
  then show ?thesis using assms dispatch_Inl by auto
next
  case (Inr d)
  with assms obtain h where h: "handlers (em_command_type (rq_command rq)) = Some h"
    "transaction dump h seen rq db = Inr (d, db')" by (auto elim: dispatch_Inr)
  from h(2) show ?thesis
  proof (cases rule: transaction_Inr)
    case (replay row)
    then have "rc_status row = ''SUCCEEDED'' \<and> rc_request_hash row = rq_hash dump rq
        \<and> rc_response_body row = Some (as_receipt_body d)"
      by (auto simp: resolve_existing_receipt_def result_from_receipt_def as_receipt_body_def
          split: if_splits option.splits)
    moreover have "row \<in> set seen \<union> set (db_receipts db)"
      using replay(1) unfolding find_receipt_def by (auto dest!: find_Some_in)
    ultimately show ?thesis using replay(3) Inr by auto
  next
    case (executed ho b ids evs obs)
    from executed(4) obtain eids oids where
      "length eids = length (ho_events ho)" "length oids = length (ho_events ho)" "ids = map uuid_str eids"
      "evs = db_events db @ fst (new_rows (rq_context rq) (rq_command rq) eids oids (ho_events ho))"
      "obs = db_outbox db @ snd (new_rows (rq_context rq) (rq_command rq) eids oids (ho_events ho))"
      "distinct eids" by (rule persist_rows)
    then have "db_business db' = b \<and> db_receipts db' = db_receipts db @ [complete_receipt ho d (rq_now rq)
            (new_receipt (rq_command rq) (rq_context rq) (rq_fresh rq 0) (rq_hash dump rq))]
         \<and> db_events db' = db_events db @ fst (new_rows (rq_context rq) (rq_command rq) eids oids (ho_events ho))
         \<and> db_outbox db' = db_outbox db @ snd (new_rows (rq_context rq) (rq_command rq) eids oids (ho_events ho))
         \<and> dr_event_ids d = map uuid_str eids \<and> \<not> dr_replayed d
         \<and> length eids = length (ho_events ho) \<and> length oids = length (ho_events ho) \<and> distinct eids"
      using executed(5,6) by (simp add: success_result_def)
    moreover have "rc_status (complete_receipt ho d (rq_now rq) rr) = ''SUCCEEDED''
        \<and> rc_response_body (complete_receipt ho d (rq_now rq) rr) = Some (as_receipt_body d)" for rr
      by (simp add: complete_receipt_def)
    ultimately show ?thesis using h(1) executed(3) Inr by fastforce
  qed
qed

theorem dispatch_commits_atomically_witness:
  "\<exists>e. dispatch ex_dump ex_handlers [] (ex_request 5 (- 1)) ex_db = (Inl e, ex_db)"
proof -
  obtain e db' where d: "dispatch ex_dump ex_handlers [] (ex_request 5 (- 1)) ex_db = (Inl e, db')"
    by (simp add: dispatch_def transaction_def ex_handlers_def ex_request_def ex_db_def ex_handler_def
        find_receipt_def add_row_def Let_def)
  with dispatch_commits_atomically [OF d] show ?thesis by auto
qed

text \<open>What holds of the platform tables at all times.\<close>

definition platform_inv :: "'b platform_db \<Rightarrow> bool" where
  "platform_inv db =
     (distinct (map ev_id (db_events db))
      \<and> (\<forall>o1 \<in> set (db_outbox db). \<exists>e1 \<in> set (db_events db). ev_id e1 = ob_event_id o1
           \<and> ev_tenant_id e1 = ob_tenant_id o1 \<and> ev_payload e1 = ob_payload o1
           \<and> ob_dedupe_key o1 = ob_topic o1 @ '':'' @ uuid_str (ev_id e1) \<and> ob_status o1 = ''PENDING'')
      \<and> map ob_event_id (db_outbox db) = map ev_id (db_events db)
      \<and> (\<forall>r \<in> set (db_receipts db). rc_status r = ''SUCCEEDED'' \<and> rc_response_body r \<noteq> None
           \<and> (\<forall>i \<in> set (rc_event_ids r). \<exists>e1 \<in> set (db_events db). uuid_str (ev_id e1) = i
                \<and> ev_tenant_id e1 = rc_tenant_id r \<and> ev_command_id e1 = Some (rc_command_id r)))
      \<and> distinct (map (\<lambda>r. (rc_tenant_id r, rc_actor_id r, rc_command_type r, rc_idempotency_key r)) (db_receipts db))
      \<and> distinct (map (\<lambda>r. (rc_tenant_id r, rc_command_id r)) (db_receipts db)))"

lemma new_rows_ids:
  assumes "length eids = length ps" "length oids = length ps"
  shows "map ev_id (fst (new_rows ctx c eids oids ps)) = eids"
    "map ob_event_id (snd (new_rows ctx c eids oids ps)) = eids"
  using assms
  by (auto simp: new_rows_def new_event_row_def new_outbox_row_def list_eq_iff_nth_eq)

lemma new_outbox_has_event:
  assumes "length oids = length ps" "length eids = length ps" "o1 \<in> set (snd (new_rows ctx c eids oids ps))"
  shows "\<exists>e1 \<in> set (fst (new_rows ctx c eids oids ps)). ev_id e1 = ob_event_id o1
           \<and> ev_tenant_id e1 = ob_tenant_id o1 \<and> ev_payload e1 = ob_payload o1
           \<and> ob_dedupe_key o1 = ob_topic o1 @ '':'' @ uuid_str (ev_id e1) \<and> ob_status o1 = ''PENDING''"
proof -
  from assms(3) obtain oid e p where "(oid, e, p) \<in> set (zip oids (zip eids ps))" "o1 = new_outbox_row ctx oid e p"
    by (auto simp: new_rows_def)
  then have "(e, p) \<in> set (zip eids ps)" by (auto dest: set_zip_rightD)
  then have "new_event_row ctx c e p \<in> set (fst (new_rows ctx c eids oids ps))" by (force simp: new_rows_def)
  then show ?thesis
    by (rule rev_bexI) (simp add: \<open>o1 = _\<close> new_event_row_def new_outbox_row_def)
qed

lemma new_event_fields:
  "e1 \<in> set (fst (new_rows ctx c eids oids ps)) \<Longrightarrow>
     ev_tenant_id e1 = cc_tenant_id ctx \<and> ev_command_id e1 = Some (em_command_id c)"
  by (auto simp: new_rows_def new_event_row_def)

lemma dispatch_platform_inv:
  assumes inv: "platform_inv db" and "dispatch dump handlers seen rq db = (r, db')"
  shows "platform_inv db'"
proof (cases r)
  case (Inl e)
  then show ?thesis using assms dispatch_Inl by metis
next
  case (Inr d)
  with assms(2) obtain h where "transaction dump h seen rq db = Inr (d, db')" by (auto elim: dispatch_Inr)
  then show ?thesis
  proof (cases rule: transaction_Inr)
    case (replay r)
    then show ?thesis using inv by simp
  next
    case (executed ho b ids evs obs)
    let ?ctx = "rq_context rq" and ?c = "rq_command rq"
    let ?new = "new_receipt ?c ?ctx (rq_fresh rq 0) (rq_hash dump rq)"
    let ?row = "complete_receipt ho d (rq_now rq) ?new"
    from executed(4) obtain eids oids where
      l: "length eids = length (ho_events ho)" "length oids = length (ho_events ho)" and i: "ids = map uuid_str eids" and
      ev: "evs = db_events db @ fst (new_rows ?ctx ?c eids oids (ho_events ho))" and
      ob: "obs = db_outbox db @ snd (new_rows ?ctx ?c eids oids (ho_events ho))" and
      dis: "distinct eids" "set eids \<inter> ev_id ` set (db_events db) = {}" by (rule persist_rows)
    note ids = new_rows_ids [OF l, of ?ctx ?c]
    have e1: "distinct (map ev_id evs)" using inv ids dis by (auto simp: ev platform_inv_def)
    have o1: "\<forall>o1 \<in> set obs. \<exists>e1 \<in> set evs. ev_id e1 = ob_event_id o1
           \<and> ev_tenant_id e1 = ob_tenant_id o1 \<and> ev_payload e1 = ob_payload o1
           \<and> ob_dedupe_key o1 = ob_topic o1 @ '':'' @ uuid_str (ev_id e1) \<and> ob_status o1 = ''PENDING''"
      using inv new_outbox_has_event [OF l(2,1)] unfolding ev ob platform_inv_def by (fastforce simp: Un_iff)
    have m1: "map ob_event_id obs = map ev_id evs" using inv ids by (simp add: ev ob platform_inv_def)
    have row: "rc_status ?row = ''SUCCEEDED'' \<and> rc_response_body ?row \<noteq> None \<and> rc_event_ids ?row = map uuid_str eids
        \<and> rc_tenant_id ?row = cc_tenant_id ?ctx \<and> rc_command_id ?row = em_command_id ?c"
      using i executed(5) by (simp add: complete_receipt_def new_receipt_def success_result_def)
    have "\<exists>e1 \<in> set evs. uuid_str (ev_id e1) = uuid_str u \<and> ev_tenant_id e1 = cc_tenant_id ?ctx
        \<and> ev_command_id e1 = Some (em_command_id ?c)" if "u \<in> set eids" for u
    proof -
      from that ids(1) have "u \<in> ev_id ` set (fst (new_rows ?ctx ?c eids oids (ho_events ho)))" by (metis set_map)
      then show ?thesis using new_event_fields by (fastforce simp: ev)
    qed
    then have r1: "\<forall>i \<in> set (rc_event_ids ?row). \<exists>e1 \<in> set evs. uuid_str (ev_id e1) = i
        \<and> ev_tenant_id e1 = rc_tenant_id ?row \<and> ev_command_id e1 = Some (rc_command_id ?row)"
      using row by auto
    have r2: "\<forall>r \<in> set (db_receipts db). rc_status r = ''SUCCEEDED'' \<and> rc_response_body r \<noteq> None
           \<and> (\<forall>i \<in> set (rc_event_ids r). \<exists>e1 \<in> set evs. uuid_str (ev_id e1) = i
                \<and> ev_tenant_id e1 = rc_tenant_id r \<and> ev_command_id e1 = Some (rc_command_id r))"
      using inv unfolding ev platform_inv_def by (fastforce simp: Un_iff)
    have k: "(rc_tenant_id ?row, rc_actor_id ?row, rc_command_type ?row, rc_idempotency_key ?row) \<notin>
        set (map (\<lambda>r. (rc_tenant_id r, rc_actor_id r, rc_command_type r, rc_idempotency_key r)) (db_receipts db))"
      "(rc_tenant_id ?row, rc_command_id ?row) \<notin> set (map (\<lambda>r. (rc_tenant_id r, rc_command_id r)) (db_receipts db))"
      using executed(2) by (auto simp: receipt_clash_def complete_receipt_def)
    show ?thesis
      unfolding executed(6) platform_inv_def
      using e1 o1 m1 row r1 r2 k inv by (simp add: platform_inv_def)
  qed
qed

text \<open>
  C33. The platform tables stay consistent through any history of dispatches: event identifiers
  are distinct; the outbox holds exactly one message per event, in order, of the event's tenant
  and payload, under the dedupe key topic:event; every committed receipt is SUCCEEDED with its
  response and names events of its own tenant and command; and no two receipts share an
  idempotency key or a command identifier of a tenant.
\<close>

theorem platform_tables_consistent:
  assumes "platform_inv db" "dispatch_run dump handlers steps db = (rs, db')"
  shows "platform_inv db'"
  using dispatch_run_invariant [where P = platform_inv, OF _ assms] dispatch_platform_inv by metis

theorem platform_tables_consistent_witness:
  "platform_inv (snd (dispatch_run ex_dump ex_handlers [(0, ex_request 5 3), (0, ex_request 6 3)] ex_db))"
  by (rule platform_tables_consistent [OF _ surjective_pairing]) (simp add: platform_inv_def ex_db_def)

end
