(* ===== verification/Security.thy ===== *)
theory Security
  imports Prelude
begin

text \<open>
  Authorization of \<open>backend/app/platform/security\<close>: the actor facts (\<open>context.py\<close>), the closed
  capability catalog (\<open>capabilities.py\<close>) and the deny-by-default policy
  (\<open>authorization.py\<close>). An action is a string, as in the source; a \<open>frozenset\<close> is a set.
  The locale \<open>authorization_policy\<close> states what the application services rely on when they
  hold an \<open>AuthorizationPolicyPort\<close>; it is interpreted on the policy the program ships.
\<close>

section \<open>Actor facts\<close>

datatype actor_kind =
  PATRON_ADMIN | PATRON_DELEGATE | COLLABORATEUR | PARTENAIRE_EXTERNAL | SUPPORT_BREAK_GLASS | SYSTEM

datatype membership_state =
  Member_INVITED | Member_ACTIVE | Member_SUSPENDED | Member_REVOKED | Member_EXPIRED

datatype data_classification =
    PUBLIC_TENDER | INTERNAL_OPERATIONAL | PERSONAL_OR_ADMINISTRATIVE
  | FINANCIAL_PRIVATE | SECURITY_RESTRICTED | SUPPORT_RESTRICTED

record assignment_scope =
  scope_case_id :: uuid
  scope_allowed_actions :: "string set"
  scope_allowed_classifications :: "data_classification set"

record actor_context =
  a_actor_id :: uuid
  a_identity_id :: uuid
  a_tenant_id :: uuid
  a_membership_id :: uuid
  a_actor_kind :: actor_kind
  a_membership_state :: membership_state
  a_capabilities :: "string set"
  a_assigned_case_ids :: "uuid set"
  a_session_id :: "uuid option"
  a_authenticated_at :: instant
  a_mfa_verified_at :: "instant option"
  a_correlation_id :: uuid
  a_assignment_scopes :: "assignment_scope list"

definition membership_is_active :: "actor_context \<Rightarrow> bool" where
  "membership_is_active c = (a_membership_state c = Member_ACTIVE)"

definition assignment_scope_for :: "uuid \<Rightarrow> actor_context \<Rightarrow> assignment_scope option" where
  "assignment_scope_for cid c = List.find (\<lambda>s. scope_case_id s = cid) (a_assignment_scopes c)"

definition has_recent_mfa :: "instant \<Rightarrow> int \<Rightarrow> actor_context \<Rightarrow> bool" where
  "has_recent_mfa evaluated_at maximum_age c =
     (case a_mfa_verified_at c of
        None \<Rightarrow> False
      | Some t \<Rightarrow> if t > evaluated_at then False else evaluated_at - t \<le> maximum_age)"

section \<open>The capability catalog\<close>

definition capability_values :: "string list" where
  "capability_values =
     [''consultation.create'', ''case.create'', ''consultation.read'', ''dce.prepare'', ''case.dce.read'',
      ''market.watch.read'', ''opportunity.profile.read'', ''opportunity.profile.write'',
      ''opportunity.observation.read'', ''opportunity.observation.qualify'', ''dce.requirement.confirm'',
      ''assignment.acknowledge'', ''assignment.clarify'', ''assignment.history.read'',
      ''assignment.unavailability'', ''work.task.read'', ''work.task.write'', ''assignment.manage'',
      ''document.administrative.read'', ''preparation.transmit'', ''preparation.readiness.write'',
      ''preparation.document.write'', ''preparation.capability.propose'',
      ''preparation.capability.gap.report'', ''preparation.review.request'', ''preparation.review.decide'',
      ''membership.manage'', ''tenant.manage'', ''decision.manage'', ''decision.finalize'',
      ''decision.risk.write'', ''decision.risk.link.write'', ''decision.risk.read'', ''pricing.read'',
      ''pricing.write'', ''submission.authorize'', ''submission.signature.read'',
      ''submission.signature.write'', ''patron.action.read'', ''patron.action.write'', ''export.sensitive'',
      ''audit.read'', ''financial.report.read'', ''financial.report.create'', ''financial.report.publish'',
      ''financial.report.line.write'', ''enterprise.library.read'', ''enterprise.registry.read'',
      ''enterprise.library.write'', ''enterprise.capability.read'', ''enterprise.capability.write'',
      ''system.job.execute'']"

definition patron_admin_capabilities :: "string list" where
  "patron_admin_capabilities =
     [''consultation.create'', ''case.create'', ''consultation.read'', ''dce.prepare'', ''case.dce.read'',
      ''market.watch.read'', ''opportunity.profile.read'', ''opportunity.profile.write'',
      ''opportunity.observation.read'', ''opportunity.observation.qualify'', ''dce.requirement.confirm'',
      ''assignment.manage'', ''document.administrative.read'', ''preparation.transmit'',
      ''preparation.readiness.write'', ''preparation.document.write'', ''membership.manage'',
      ''tenant.manage'', ''decision.manage'', ''decision.finalize'', ''decision.risk.write'',
      ''decision.risk.link.write'', ''decision.risk.read'', ''pricing.read'', ''pricing.write'',
      ''submission.authorize'', ''submission.signature.read'', ''submission.signature.write'',
      ''patron.action.read'', ''patron.action.write'', ''export.sensitive'', ''audit.read'',
      ''financial.report.read'', ''financial.report.create'', ''financial.report.publish'',
      ''financial.report.line.write'', ''enterprise.library.read'', ''enterprise.registry.read'',
      ''enterprise.library.write'', ''enterprise.capability.read'', ''enterprise.capability.write'',
      ''preparation.review.decide'']"

definition collaborator_capabilities :: "string list" where
  "collaborator_capabilities =
     [''consultation.read'', ''dce.prepare'', ''case.dce.read'', ''market.watch.read'',
      ''dce.requirement.confirm'', ''assignment.acknowledge'', ''assignment.clarify'',
      ''assignment.unavailability'', ''assignment.history.read'', ''work.task.read'', ''work.task.write'',
      ''document.administrative.read'', ''preparation.transmit'', ''preparation.readiness.write'',
      ''preparation.document.write'', ''preparation.capability.propose'',
      ''preparation.capability.gap.report'', ''preparation.review.request'']"

definition delegable_capabilities :: "string list" where
  "delegable_capabilities =
     [''consultation.read'', ''dce.prepare'', ''case.dce.read'', ''market.watch.read'',
      ''dce.requirement.confirm'', ''document.administrative.read'', ''work.task.read'',
      ''work.task.write'', ''preparation.transmit'', ''preparation.readiness.write'',
      ''preparation.document.write'', ''decision.finalize'', ''submission.authorize'', ''export.sensitive'']"

fun capabilities_for :: "actor_kind \<Rightarrow> string list \<Rightarrow> string set" where
  "capabilities_for PATRON_ADMIN delegated = set patron_admin_capabilities"
| "capabilities_for COLLABORATEUR delegated = set collaborator_capabilities"
| "capabilities_for PATRON_DELEGATE delegated = set delegated \<inter> set delegable_capabilities"
| "capabilities_for SYSTEM delegated = {''system.job.execute''}"
| "capabilities_for PARTENAIRE_EXTERNAL delegated = {}"
| "capabilities_for SUPPORT_BREAK_GLASS delegated = {}"

section \<open>The policy\<close>

record authorization_resource =
  z_resource_type :: string
  z_resource_id :: uuid
  z_tenant_id :: uuid
  z_classification :: data_classification
  z_case_id :: "uuid option"

record authorization_request =
  q_action :: string
  q_resource :: authorization_resource
  q_mfa_required :: bool
  q_evaluated_at :: "instant option"

record authorization_decision =
  z_allowed :: bool
  z_code :: string
  z_http_status_code :: int
  z_reason :: "string option"

definition decision_allow :: authorization_decision where
  "decision_allow = \<lparr> z_allowed = True, z_code = ''ALLOWED'', z_http_status_code = 200, z_reason = None \<rparr>"

definition decision_not_found_or_forbidden :: authorization_decision where
  "decision_not_found_or_forbidden =
     \<lparr> z_allowed = False, z_code = ''NOT_FOUND_OR_FORBIDDEN'', z_http_status_code = 404, z_reason = None \<rparr>"

definition decision_denied :: "string \<Rightarrow> authorization_decision" where
  "decision_denied why =
     \<lparr> z_allowed = False, z_code = ''AUTHORIZATION_DENIED'', z_http_status_code = 403, z_reason = Some why \<rparr>"

definition decision_step_up_required :: authorization_decision where
  "decision_step_up_required =
     \<lparr> z_allowed = False, z_code = ''STEP_UP_REQUIRED'', z_http_status_code = 403, z_reason = None \<rparr>"

text \<open>The nested checks for a collaborator: the reason of the refusal, or \<open>None\<close>.\<close>

definition collaborator_refusal :: "actor_context \<Rightarrow> authorization_request \<Rightarrow> string option" where
  "collaborator_refusal c q =
     (case z_case_id (q_resource q) of
        None \<Rightarrow> Some ''collaborator resource has no case scope''
      | Some cid \<Rightarrow>
         (case assignment_scope_for cid c of
            None \<Rightarrow> Some ''case assignment is missing''
          | Some s \<Rightarrow>
             if q_action q \<notin> scope_allowed_actions s then Some ''assignment action is missing''
             else if z_classification (q_resource q) \<notin> scope_allowed_classifications s
               then Some ''assignment classification is missing''
             else None))"

definition authorize :: "actor_context \<Rightarrow> authorization_request \<Rightarrow> authorization_decision" where
  "authorize c q =
     (let z = q_resource q in
      if a_tenant_id c \<noteq> z_tenant_id z then decision_not_found_or_forbidden
      else if \<not> membership_is_active c then decision_denied ''membership is not active''
      else if q_action q \<notin> a_capabilities c then decision_denied ''capability is missing''
      else if z_classification z \<in> {SECURITY_RESTRICTED, SUPPORT_RESTRICTED}
        then decision_denied ''restricted classification requires a dedicated flow''
      else if z_classification z = FINANCIAL_PRIVATE \<and> a_actor_kind c \<noteq> PATRON_ADMIN
        then decision_denied ''financial data requires patron access''
      else (case (if a_actor_kind c = COLLABORATEUR then collaborator_refusal c q else None) of
              Some why \<Rightarrow> decision_denied why
            | None \<Rightarrow>
               if q_mfa_required q \<and>
                  (case q_evaluated_at q of None \<Rightarrow> True
                   | Some t \<Rightarrow> \<not> has_recent_mfa t (minutes 15) c)
               then decision_step_up_required
               else decision_allow))"

section \<open>What a service relies on\<close>

locale authorization_policy =
  fixes policy :: "actor_context \<Rightarrow> authorization_request \<Rightarrow> authorization_decision"
  assumes tenant_isolated: "z_allowed (policy c q) \<Longrightarrow> a_tenant_id c = z_tenant_id (q_resource q)"
    and active_member: "z_allowed (policy c q) \<Longrightarrow> a_membership_state c = Member_ACTIVE"
    and capability_held: "z_allowed (policy c q) \<Longrightarrow> q_action q \<in> a_capabilities c"
    and financial_patron: "z_allowed (policy c q) \<Longrightarrow>
      z_classification (q_resource q) = FINANCIAL_PRIVATE \<Longrightarrow> a_actor_kind c = PATRON_ADMIN"
    and refusal_code: "z_allowed (policy c q) \<longleftrightarrow> z_code (policy c q) = ''ALLOWED''"
begin

text \<open>Nobody but the patron, and nobody of another tenant, is let through to financial data.\<close>

lemma financial_guard:
  assumes "z_allowed (policy c q)" "z_classification (q_resource q) = FINANCIAL_PRIVATE"
  shows "a_actor_kind c = PATRON_ADMIN \<and> a_tenant_id c = z_tenant_id (q_resource q)
    \<and> a_membership_state c = Member_ACTIVE \<and> q_action q \<in> a_capabilities c"
  using assms tenant_isolated active_member capability_held financial_patron by blast

lemma foreign_tenant_refused:
  "a_tenant_id c \<noteq> z_tenant_id (q_resource q) \<Longrightarrow> z_code (policy c q) \<noteq> ''ALLOWED''"
  using tenant_isolated refusal_code by blast

end

lemmas decision_defs =
  decision_allow_def decision_not_found_or_forbidden_def decision_denied_def decision_step_up_required_def

lemma collaborator_refusal_None:
  "collaborator_refusal c q = None \<longleftrightarrow>
     (\<exists>cid s. z_case_id (q_resource q) = Some cid \<and> assignment_scope_for cid c = Some s
        \<and> q_action q \<in> scope_allowed_actions s
        \<and> z_classification (q_resource q) \<in> scope_allowed_classifications s)"
  by (auto simp: collaborator_refusal_def split: option.splits)

text \<open>The decision as one condition.\<close>

definition allowed_by_rules :: "actor_context \<Rightarrow> authorization_request \<Rightarrow> bool" where
  "allowed_by_rules c q =
     (let z = q_resource q in
      a_tenant_id c = z_tenant_id z \<and> a_membership_state c = Member_ACTIVE
      \<and> q_action q \<in> a_capabilities c
      \<and> z_classification z \<notin> {SECURITY_RESTRICTED, SUPPORT_RESTRICTED}
      \<and> (z_classification z = FINANCIAL_PRIVATE \<longrightarrow> a_actor_kind c = PATRON_ADMIN)
      \<and> (a_actor_kind c = COLLABORATEUR \<longrightarrow>
          (\<exists>cid s. z_case_id z = Some cid \<and> assignment_scope_for cid c = Some s
             \<and> q_action q \<in> scope_allowed_actions s \<and> z_classification z \<in> scope_allowed_classifications s))
      \<and> (q_mfa_required q \<longrightarrow>
          (\<exists>t m. q_evaluated_at q = Some t \<and> a_mfa_verified_at c = Some m \<and> m \<le> t \<and> t - m \<le> minutes 15)))"

text \<open>
  The rules in their order: what must hold, and the code and the reason of a request that it is the first to fail.
\<close>

definition policy_rules :: "actor_context \<Rightarrow> authorization_request \<Rightarrow> (bool \<times> string \<times> string option) list" where
  "policy_rules c q =
     (let z = q_resource q; collaborator = (a_actor_kind c = COLLABORATEUR);
          assigned = (\<lambda>P. \<exists>cid s. z_case_id z = Some cid \<and> assignment_scope_for cid c = Some s \<and> P s) in
      [(a_tenant_id c = z_tenant_id z, ''NOT_FOUND_OR_FORBIDDEN'', None),
       (a_membership_state c = Member_ACTIVE, ''AUTHORIZATION_DENIED'', Some ''membership is not active''),
       (q_action q \<in> a_capabilities c, ''AUTHORIZATION_DENIED'', Some ''capability is missing''),
       (z_classification z \<notin> {SECURITY_RESTRICTED, SUPPORT_RESTRICTED}, ''AUTHORIZATION_DENIED'',
          Some ''restricted classification requires a dedicated flow''),
       (z_classification z = FINANCIAL_PRIVATE \<longrightarrow> a_actor_kind c = PATRON_ADMIN, ''AUTHORIZATION_DENIED'',
          Some ''financial data requires patron access''),
       (collaborator \<longrightarrow> z_case_id z \<noteq> None, ''AUTHORIZATION_DENIED'', Some ''collaborator resource has no case scope''),
       (collaborator \<longrightarrow> assigned (\<lambda>s. True), ''AUTHORIZATION_DENIED'', Some ''case assignment is missing''),
       (collaborator \<longrightarrow> assigned (\<lambda>s. q_action q \<in> scope_allowed_actions s), ''AUTHORIZATION_DENIED'',
          Some ''assignment action is missing''),
       (collaborator \<longrightarrow> assigned (\<lambda>s. z_classification z \<in> scope_allowed_classifications s), ''AUTHORIZATION_DENIED'',
          Some ''assignment classification is missing''),
       (q_mfa_required q \<longrightarrow>
          (\<exists>t m. q_evaluated_at q = Some t \<and> a_mfa_verified_at c = Some m \<and> m \<le> t \<and> t - m \<le> minutes 15),
          ''STEP_UP_REQUIRED'', None)])"

lemma mfa_clause:
  "(case q_evaluated_at q of None \<Rightarrow> True | Some t \<Rightarrow> \<not> has_recent_mfa t age c) \<longleftrightarrow>
     \<not> (\<exists>t m. q_evaluated_at q = Some t \<and> a_mfa_verified_at c = Some m \<and> m \<le> t \<and> t - m \<le> age)"
  by (auto simp: has_recent_mfa_def split: option.splits)

lemma first_failing_step: "List.find (\<lambda>r. \<not> fst r) ((b, d) # rs) = (if b then List.find (\<lambda>r. \<not> fst r) rs else Some (b, d))"
  by simp

lemma authorize_first_failing:
  "(z_code (authorize c q), z_reason (authorize c q)) =
     (case List.find (\<lambda>r. \<not> fst r) (policy_rules c q) of None \<Rightarrow> (''ALLOWED'', None) | Some r \<Rightarrow> snd r)"
proof -
  have kind: "z_classification (q_resource q) = FINANCIAL_PRIVATE \<and> a_actor_kind c \<noteq> PATRON_ADMIN \<longleftrightarrow>
      \<not> (z_classification (q_resource q) = FINANCIAL_PRIVATE \<longrightarrow> a_actor_kind c = PATRON_ADMIN)" by blast
  have refusal: "collaborator_refusal c q =
      (if z_case_id (q_resource q) = None then Some ''collaborator resource has no case scope''
       else if \<not> (\<exists>cid s. z_case_id (q_resource q) = Some cid \<and> assignment_scope_for cid c = Some s) then Some ''case assignment is missing''
       else if \<not> (\<exists>cid s. z_case_id (q_resource q) = Some cid \<and> assignment_scope_for cid c = Some s \<and> q_action q \<in> scope_allowed_actions s)
         then Some ''assignment action is missing''
       else if \<not> (\<exists>cid s. z_case_id (q_resource q) = Some cid \<and> assignment_scope_for cid c = Some s
           \<and> z_classification (q_resource q) \<in> scope_allowed_classifications s) then Some ''assignment classification is missing''
       else None)" by (simp add: collaborator_refusal_def split: option.splits)
  show ?thesis
    unfolding authorize_def policy_rules_def Let_def first_failing_step kind refusal mfa_clause membership_is_active_def
    by (cases "a_actor_kind c = COLLABORATEUR") (simp_all add: decision_defs, blast+)
qed

lemma authorize_allowed: "z_allowed (authorize c q) \<longleftrightarrow> allowed_by_rules c q"
proof (cases "a_actor_kind c = COLLABORATEUR")
  case True
  show ?thesis
  proof (cases "collaborator_refusal c q")
    case None
    then have "\<exists>cid s. z_case_id (q_resource q) = Some cid \<and> assignment_scope_for cid c = Some s
        \<and> q_action q \<in> scope_allowed_actions s
        \<and> z_classification (q_resource q) \<in> scope_allowed_classifications s"
      by (simp only: collaborator_refusal_None)
    with True None show ?thesis
      unfolding authorize_def allowed_by_rules_def Let_def mfa_clause
      by (simp add: decision_defs membership_is_active_def) blast
  next
    case (Some why)
    then have "\<not> (\<exists>cid s. z_case_id (q_resource q) = Some cid \<and> assignment_scope_for cid c = Some s
        \<and> q_action q \<in> scope_allowed_actions s
        \<and> z_classification (q_resource q) \<in> scope_allowed_classifications s)"
      using collaborator_refusal_None [of c q] by simp
    with True Some show ?thesis
      unfolding authorize_def allowed_by_rules_def Let_def
      by (simp add: decision_defs)
  qed
next
  case False
  then show ?thesis
    unfolding authorize_def allowed_by_rules_def Let_def mfa_clause
    by (simp add: decision_defs membership_is_active_def) blast
qed

lemma authorize_code:
  "z_allowed (authorize c q) \<longleftrightarrow> z_code (authorize c q) = ''ALLOWED''"
  "z_allowed (authorize c q) \<longleftrightarrow> z_http_status_code (authorize c q) = 200"
  by (simp_all add: authorize_def Let_def decision_defs split: option.splits)

interpretation baseline: authorization_policy authorize
proof
  fix c q
  show "z_allowed (authorize c q) \<longleftrightarrow> z_code (authorize c q) = ''ALLOWED''" by (rule authorize_code(1))
qed (simp_all add: authorize_allowed allowed_by_rules_def Let_def)

section \<open>Properties\<close>

definition ex_patron :: actor_context where
  "ex_patron = \<lparr> a_actor_id = 10, a_identity_id = 10, a_tenant_id = 1, a_membership_id = 11,
     a_actor_kind = PATRON_ADMIN, a_membership_state = Member_ACTIVE,
     a_capabilities = capabilities_for PATRON_ADMIN [], a_assigned_case_ids = {}, a_session_id = Some 12,
     a_authenticated_at = 0, a_mfa_verified_at = None, a_correlation_id = 13, a_assignment_scopes = [] \<rparr>"

definition ex_financial :: authorization_request where
  "ex_financial = \<lparr> q_action = ''submission.authorize'',
     q_resource = \<lparr> z_resource_type = ''SUBMISSION_PACKAGE'', z_resource_id = 20, z_tenant_id = 1,
                   z_classification = FINANCIAL_PRIVATE, z_case_id = None \<rparr>,
     q_mfa_required = False, q_evaluated_at = None \<rparr>"

lemma ex_patron_allowed: "z_allowed (authorize ex_patron ex_financial)"
  by (simp add: authorize_allowed allowed_by_rules_def ex_patron_def ex_financial_def patron_admin_capabilities_def)

text \<open>
  C2. The policy decides exactly by its rules: it allows (code ALLOWED, status 200) if and only
  if the resource is of the actor's tenant, the membership is ACTIVE, the capability is held,
  the classification is not a restricted one, financial data is asked by the patron, a
  collaborator has an assignment on the resource's Case that grants both the action and the
  classification, and a required step-up was done within the last fifteen minutes, not in the
  future. Every other request is refused with 404 for a foreign tenant and 403 otherwise, and its
  code and reason are those of the first rule it fails, in that order: NOT_FOUND_OR_FORBIDDEN for
  the tenant, STEP_UP_REQUIRED for the second factor alone, AUTHORIZATION_DENIED with the rule's own
  reason for the others.
\<close>

theorem authorization_decides_by_rules:
  "(z_allowed (authorize c q) \<longleftrightarrow> allowed_by_rules c q)
   \<and> (z_allowed (authorize c q) \<longleftrightarrow> z_code (authorize c q) = ''ALLOWED'')
   \<and> z_http_status_code (authorize c q) =
       (if allowed_by_rules c q then 200 else if a_tenant_id c \<noteq> z_tenant_id (q_resource q) then 404 else 403)
   \<and> (z_code (authorize c q), z_reason (authorize c q)) =
       (case List.find (\<lambda>r. \<not> fst r) (policy_rules c q) of None \<Rightarrow> (''ALLOWED'', None) | Some r \<Rightarrow> snd r)"
proof -
  have "z_http_status_code (authorize c q) =
      (if z_allowed (authorize c q) then 200 else if a_tenant_id c \<noteq> z_tenant_id (q_resource q) then 404 else 403)"
    by (simp add: authorize_def Let_def decision_defs split: option.splits)
  then show ?thesis using authorize_code(1) authorize_allowed authorize_first_failing by simp
qed

text \<open>
  Financial data stays with the patron: whatever the request and the actor, an allowed
  request on FINANCIAL_PRIVATE data comes from an active PATRON_ADMIN of the resource's own
  tenant who holds the capability asked for.
\<close>

theorem financial_data_patron_only:
  assumes "z_allowed (authorize c q)" "z_classification (q_resource q) = FINANCIAL_PRIVATE"
  shows "a_actor_kind c = PATRON_ADMIN \<and> a_tenant_id c = z_tenant_id (q_resource q)
    \<and> a_membership_state c = Member_ACTIVE \<and> q_action q \<in> a_capabilities c"
  using assms by (rule baseline.financial_guard)

theorem financial_data_patron_only_witness:
  "a_actor_kind ex_patron = PATRON_ADMIN"
  using financial_data_patron_only [OF ex_patron_allowed] by (simp add: ex_financial_def)

lemma capability_lists:
  "set patron_admin_capabilities \<subseteq> set capability_values"
  "set collaborator_capabilities \<subseteq> set capability_values"
  "set delegable_capabilities \<subseteq> set capability_values"
  by code_simp+

lemma delegable_patron:
  "set (filter (\<lambda>a. a \<notin> set patron_admin_capabilities) delegable_capabilities) = {''work.task.read'', ''work.task.write''}"
  by code_simp

text \<open>
  C40. The catalog is closed and grants do not escalate: whatever grants are stored, an actor
  kind holds only catalog capabilities; a delegate holds only granted delegable capabilities,
  and the only ones of these the patron does not hold are reading and writing collaborator
  tasks; partners and break-glass support hold none.
\<close>

theorem capabilities_closed:
  "capabilities_for kind granted \<subseteq> set capability_values
   \<and> capabilities_for PATRON_DELEGATE granted \<subseteq> set granted
   \<and> capabilities_for PATRON_DELEGATE granted - capabilities_for PATRON_ADMIN []
       \<subseteq> {''work.task.read'', ''work.task.write''}
   \<and> capabilities_for PARTENAIRE_EXTERNAL granted = {} \<and> capabilities_for SUPPORT_BREAK_GLASS granted = {}"
proof -
  have "capabilities_for kind granted \<subseteq> set capability_values"
  proof (cases kind)
    case SYSTEM
    then show ?thesis by (simp add: capability_values_def)
  qed (use capability_lists in \<open>auto\<close>)
  moreover have "set granted \<inter> set delegable_capabilities - set patron_admin_capabilities
      \<subseteq> {''work.task.read'', ''work.task.write''}"
    unfolding delegable_patron [symmetric] by auto
  ultimately show ?thesis by simp
qed

end
