(* ===== verification/PatronAction.thy ===== *)
theory PatronAction
  imports Dispatcher Security
begin

text \<open>
  The patron's action queue, \<open>backend/app/modules/patron_action\<close>: the lifecycle
  (\<open>domain/state.py\<close>), the two command handlers and the services that guard them
  (\<open>application/service.py\<close>, \<open>application/transition_service.py\<close>), over the tables
  \<open>patron_actions\<close> and \<open>patron_action_transitions\<close> with their UNIQUE and CHECK constraints.
  The action row holds the current state and revision, the transition rows the history; the
  main invariant (\<open>pa_inv\<close>) says that the history explains the row.
\<close>

section \<open>The lifecycle\<close>

datatype pa_state = Action_OPEN | Action_IN_PROGRESS | Action_WAITING | Action_COMPLETED | Action_ABANDONED

fun pa_state_value :: "pa_state \<Rightarrow> string" where
  "pa_state_value Action_OPEN = ''OPEN''"
| "pa_state_value Action_IN_PROGRESS = ''IN_PROGRESS''"
| "pa_state_value Action_WAITING = ''WAITING''"
| "pa_state_value Action_COMPLETED = ''COMPLETED''"
| "pa_state_value Action_ABANDONED = ''ABANDONED''"

text \<open>\<open>PatronActionState(value)\<close>; \<open>None\<close> is the \<open>ValueError\<close>.\<close>

definition pa_state_of :: "string \<Rightarrow> pa_state option" where
  "pa_state_of v = List.find (\<lambda>s. pa_state_value s = v)
     [Action_OPEN, Action_IN_PROGRESS, Action_WAITING, Action_COMPLETED, Action_ABANDONED]"

fun allowed_transitions :: "pa_state \<Rightarrow> pa_state set" where
  "allowed_transitions Action_OPEN = {Action_IN_PROGRESS, Action_WAITING, Action_ABANDONED}"
| "allowed_transitions Action_IN_PROGRESS = {Action_WAITING, Action_COMPLETED, Action_ABANDONED}"
| "allowed_transitions Action_WAITING = {Action_IN_PROGRESS, Action_ABANDONED}"
| "allowed_transitions Action_COMPLETED = {}"
| "allowed_transitions Action_ABANDONED = {}"

text \<open>\<open>True\<close> when the call returns, \<open>False\<close> when it raises \<open>ValueError\<close>.\<close>

definition ensure_transition_allowed :: "string \<Rightarrow> string \<Rightarrow> bool" where
  "ensure_transition_allowed current_state target_state =
     (case (pa_state_of current_state, pa_state_of target_state) of
        (Some current, Some target) \<Rightarrow> target \<in> allowed_transitions current
      | _ \<Rightarrow> False)"

section \<open>Tables\<close>

record pa_row =
  pa_id :: uuid
  pa_tenant_id :: uuid
  pa_case_id :: "uuid option"
  pa_functional_key :: string
  pa_action_type :: string
  pa_severity :: string
  pa_state :: string
  pa_title :: string
  pa_why_now :: string
  pa_impact :: string
  pa_recommended_action :: string
  pa_due_at :: "instant option"
  pa_source_refs :: "string list"
  pa_aggregate_revision :: int
  pa_actor_id :: uuid
  pa_membership_id :: uuid
  pa_command_id :: uuid
  pa_idempotency_key :: uuid
  pa_correlation_id :: "uuid option"

record pt_row =
  pt_id :: uuid
  pt_tenant_id :: uuid
  pt_action_id :: uuid
  pt_from_state :: string
  pt_to_state :: string
  pt_reason_code :: string
  pt_aggregate_revision :: int
  pt_actor_id :: uuid
  pt_membership_id :: uuid
  pt_command_id :: uuid
  pt_idempotency_key :: uuid
  pt_correlation_id :: "uuid option"

record pa_tables =
  pa_actions :: "pa_row list"
  pa_transitions :: "pt_row list"

definition pa_clash :: "pa_row \<Rightarrow> pa_row \<Rightarrow> bool" where
  "pa_clash r r' =
     (pa_id r = pa_id r'
      \<or> (pa_tenant_id r, pa_functional_key r) = (pa_tenant_id r', pa_functional_key r'))"

definition pa_check :: "pa_row \<Rightarrow> bool" where
  "pa_check r =
     (0 < pa_aggregate_revision r
      \<and> pa_state r \<in> {''OPEN'', ''IN_PROGRESS'', ''WAITING'', ''COMPLETED'', ''ABANDONED''}
      \<and> pa_severity r \<in> {''URGENT'', ''BLOCKING'', ''AT_RISK'', ''MONITOR''}
      \<and> pa_action_type r \<in> {''REVIEW_PREPARATION'', ''CONTROL_SUBMISSION'', ''VALIDATE_PRICE'', ''DECIDE_GO_NO_GO''})"

definition pt_clash :: "pt_row \<Rightarrow> pt_row \<Rightarrow> bool" where
  "pt_clash r r' =
     (pt_id r = pt_id r'
      \<or> (pt_tenant_id r, pt_action_id r, pt_aggregate_revision r)
        = (pt_tenant_id r', pt_action_id r', pt_aggregate_revision r')
      \<or> (pt_tenant_id r, pt_command_id r) = (pt_tenant_id r', pt_command_id r'))"

definition pt_check :: "pt_row \<Rightarrow> bool" where
  "pt_check r =
     (1 < pt_aggregate_revision r
      \<and> pt_from_state r \<in> {''OPEN'', ''IN_PROGRESS'', ''WAITING''}
      \<and> pt_to_state r \<in> {''IN_PROGRESS'', ''WAITING'', ''COMPLETED'', ''ABANDONED''})"

section \<open>Commands\<close>

record create_action_fields =
  cf_action_id :: uuid
  cf_case_id :: "uuid option"
  cf_functional_key :: string
  cf_action_type :: string
  cf_severity :: string
  cf_title :: string
  cf_why_now :: string
  cf_impact :: string
  cf_recommended_action :: string
  cf_due_at :: "instant option"
  cf_source_refs :: "string list"

record transition_action_fields =
  tf_transition_id :: uuid
  tf_action_id :: uuid
  tf_expected_revision :: int
  tf_target_state :: string
  tf_reason_code :: string

datatype pa_command = CreatePatronAction create_action_fields | TransitionPatronAction transition_action_fields

section \<open>Handlers\<close>

definition action_ref :: "uuid \<Rightarrow> int \<Rightarrow> json" where
  "action_ref aid revn = JObj [(''aggregate_type'', JStr ''PatronAction''),
     (''aggregate_id'', JStr (uuid_str aid)), (''aggregate_revision'', JInt revn)]"

definition action_event :: "uuid \<Rightarrow> int \<Rightarrow> string \<Rightarrow> (string \<times> json) list \<Rightarrow> pending_event" where
  "action_event aid revn etype payload = \<lparr> pe_aggregate_type = ''PatronAction'', pe_aggregate_id = aid,
     pe_aggregate_revision = revn, pe_event_type = etype, pe_payload = payload,
     pe_topic = ''cockpit_projection'', pe_payload_version = 1 \<rparr>"

definition find_action_key :: "uuid \<Rightarrow> string \<Rightarrow> pa_row list \<Rightarrow> pa_row option" where
  "find_action_key tid fkey rows =
     List.find (\<lambda>r. pa_tenant_id r = tid \<and> pa_functional_key r = fkey) rows"

definition find_action :: "uuid \<Rightarrow> uuid \<Rightarrow> pa_row list \<Rightarrow> pa_row option" where
  "find_action tid aid rows = List.find (\<lambda>r. pa_tenant_id r = tid \<and> pa_id r = aid) rows"

definition transitions_of :: "uuid \<Rightarrow> uuid \<Rightarrow> pt_row list \<Rightarrow> pt_row list" where
  "transitions_of tid aid rows = filter (\<lambda>t. pt_tenant_id t = tid \<and> pt_action_id t = aid) rows"

definition latest_transition :: "uuid \<Rightarrow> uuid \<Rightarrow> pt_row list \<Rightarrow> pt_row option" where
  "latest_transition tid aid rows = first_max pt_aggregate_revision (transitions_of tid aid rows)"

definition new_action ::
  "create_action_fields \<Rightarrow> 'c app_command \<Rightarrow> command_context \<Rightarrow> uuid \<Rightarrow> pa_row" where
  "new_action f c ctx mid = \<lparr> pa_id = cf_action_id f, pa_tenant_id = cc_tenant_id ctx,
     pa_case_id = cf_case_id f, pa_functional_key = cf_functional_key f, pa_action_type = cf_action_type f,
     pa_severity = cf_severity f, pa_state = ''OPEN'', pa_title = cf_title f, pa_why_now = cf_why_now f,
     pa_impact = cf_impact f, pa_recommended_action = cf_recommended_action f, pa_due_at = cf_due_at f,
     pa_source_refs = sort (cf_source_refs f), pa_aggregate_revision = 1, pa_actor_id = cc_actor_id ctx,
     pa_membership_id = mid, pa_command_id = em_command_id c, pa_idempotency_key = em_idempotency_key c,
     pa_correlation_id = em_correlation_id c \<rparr>"

definition create_action_handler ::
  "create_action_fields \<Rightarrow> 'c app_command \<Rightarrow> command_context \<Rightarrow> pa_tables \<Rightarrow> exn + (handler_outcome \<times> pa_tables)" where
  "create_action_handler f c ctx b =
     (case cc_membership_id ctx of None \<Rightarrow> Inl (CommandExecutionError ''PATRON_REQUIRED'') | Some mid \<Rightarrow>
      if cc_actor_kind ctx \<noteq> ''PATRON_ADMIN'' then Inl (CommandExecutionError ''PATRON_REQUIRED'')
      else if find_action_key (cc_tenant_id ctx) (cf_functional_key f) (pa_actions b) \<noteq> None
        then Inl (CommandExecutionError ''PATRON_ACTION_ALREADY_EXISTS'')
      else
        (let r = new_action f c ctx mid in
         case insert_row pa_check pa_clash r (pa_actions b) of Inl e \<Rightarrow> Inl e | Inr rows \<Rightarrow>
         Inr (\<lparr> ho_result_code = ''PATRON_ACTION_CREATED'', ho_aggregate_refs = [action_ref (pa_id r) 1],
                ho_events = [action_event (pa_id r) 1 ''PatronActionCreated''
                  [(''action_id'', JStr (uuid_str (pa_id r))),
                   (''case_id'', json_opt (\<lambda>u. JStr (uuid_str u)) (pa_case_id r)),
                   (''action_type'', JStr (pa_action_type r)), (''severity'', JStr (pa_severity r)),
                   (''state'', JStr (pa_state r))]] \<rparr>,
              b\<lparr> pa_actions := rows \<rparr>)))"

definition new_transition ::
  "transition_action_fields \<Rightarrow> 'c app_command \<Rightarrow> command_context \<Rightarrow> uuid \<Rightarrow> uuid \<Rightarrow> string \<Rightarrow> int \<Rightarrow> pt_row" where
  "new_transition f c ctx mid aid current_state current_revision =
     \<lparr> pt_id = tf_transition_id f, pt_tenant_id = cc_tenant_id ctx, pt_action_id = aid,
       pt_from_state = current_state, pt_to_state = tf_target_state f, pt_reason_code = tf_reason_code f,
       pt_aggregate_revision = current_revision + 1, pt_actor_id = cc_actor_id ctx, pt_membership_id = mid,
       pt_command_id = em_command_id c, pt_idempotency_key = em_idempotency_key c,
       pt_correlation_id = em_correlation_id c \<rparr>"

text \<open>
  The handler does not test the membership; the column is NOT NULL, so a context without one
  fails at the flush. The state and revision come from the latest transition when there is one.
\<close>

definition transition_action_handler ::
  "transition_action_fields \<Rightarrow> 'c app_command \<Rightarrow> command_context \<Rightarrow> pa_tables \<Rightarrow> exn + (handler_outcome \<times> pa_tables)" where
  "transition_action_handler f c ctx b =
     (case find_action (cc_tenant_id ctx) (tf_action_id f) (pa_actions b) of
        None \<Rightarrow> Inl (CommandExecutionError ''NOT_FOUND_OR_FORBIDDEN'')
      | Some a \<Rightarrow>
         (let latest = latest_transition (cc_tenant_id ctx) (pa_id a) (pa_transitions b);
              current_state = (case latest of None \<Rightarrow> pa_state a | Some t \<Rightarrow> pt_to_state t);
              current_revision = (case latest of None \<Rightarrow> pa_aggregate_revision a | Some t \<Rightarrow> pt_aggregate_revision t) in
          if current_revision \<noteq> tf_expected_revision f then Inl (CommandExecutionError ''VERSION_CONFLICT'')
          else if current_state \<in> {''COMPLETED'', ''ABANDONED''} then Inl (CommandExecutionError ''ACTION_ALREADY_CLOSED'')
          else if \<not> ensure_transition_allowed current_state (tf_target_state f)
            then Inl (CommandExecutionError ''INVALID_STATE_TRANSITION'')
          else (case cc_membership_id ctx of None \<Rightarrow> Inl IntegrityError | Some mid \<Rightarrow>
            (let t = new_transition f c ctx mid (pa_id a) current_state current_revision in
             case insert_row pt_check pt_clash t (pa_transitions b) of Inl e \<Rightarrow> Inl e | Inr rows \<Rightarrow>
             Inr (\<lparr> ho_result_code = ''PATRON_ACTION_TRANSITIONED'',
                    ho_aggregate_refs = [action_ref (pa_id a) (pt_aggregate_revision t)],
                    ho_events = [action_event (pa_id a) (pt_aggregate_revision t) ''PatronActionTransitioned''
                      [(''action_id'', JStr (uuid_str (pa_id a))), (''from_state'', JStr current_state),
                       (''to_state'', JStr (tf_target_state f)),
                       (''aggregate_revision'', JInt (pt_aggregate_revision t))]] \<rparr>,
                  b\<lparr> pa_actions := update_where (\<lambda>r. pa_id r = pa_id a)
                       (\<lambda>r. r\<lparr> pa_state := tf_target_state f, pa_aggregate_revision := pt_aggregate_revision t \<rparr>)
                       (pa_actions b),
                     pa_transitions := rows \<rparr>)))))"

text \<open>The registry: each handler is reached under its own command type with its own command.\<close>

definition pa_handlers :: "string \<Rightarrow> (pa_command, pa_tables) handler option" where
  "pa_handlers ctype =
     (if ctype = ''CreatePatronAction'' then
        Some (\<lambda>c ctx fresh b. case em_body c of CreatePatronAction f \<Rightarrow> create_action_handler f c ctx b
                                  | TransitionPatronAction f \<Rightarrow> Inl KeyError)
      else if ctype = ''TransitionPatronAction'' then
        Some (\<lambda>c ctx fresh b. case em_body c of TransitionPatronAction f \<Rightarrow> transition_action_handler f c ctx b
                                  | CreatePatronAction f \<Rightarrow> Inl KeyError)
      else None)"

section \<open>Services\<close>

text \<open>
  The guard of \<open>PatronActionService.execute\<close> and \<open>PatronActionTransitionService.execute\<close>: patron
  only, then the policy, then the dispatcher with the context of the actor. In the actor facts
  the membership is never absent, so its test adds nothing here.
\<close>

definition command_context_of :: "actor_context \<Rightarrow> string \<Rightarrow> instant \<Rightarrow> uuid option \<Rightarrow> command_context" where
  "command_context_of actor kind_value now cid = \<lparr> cc_tenant_id = a_tenant_id actor, cc_actor_id = a_actor_id actor,
     cc_actor_kind = kind_value, cc_received_at = now, cc_identity_id = Some (a_identity_id actor),
     cc_membership_id = Some (a_membership_id actor), cc_session_id = a_session_id actor,
     cc_case_id = cid, cc_correlation_id = Some (a_correlation_id actor) \<rparr>"

definition pa_request :: "string \<Rightarrow> string \<Rightarrow> uuid \<Rightarrow> uuid \<Rightarrow> uuid option \<Rightarrow> instant \<Rightarrow> authorization_request" where
  "pa_request action rtype rid tid cid now = \<lparr> q_action = action,
     q_resource = \<lparr> z_resource_type = rtype, z_resource_id = rid, z_tenant_id = tid,
       z_classification = INTERNAL_OPERATIONAL, z_case_id = cid \<rparr>,
     q_mfa_required = False, q_evaluated_at = Some now \<rparr>"

definition pa_command_target :: "pa_command \<Rightarrow> uuid \<times> uuid option" where
  "pa_command_target body = (case body of CreatePatronAction f \<Rightarrow> (cf_action_id f, cf_case_id f)
     | TransitionPatronAction f \<Rightarrow> (tf_action_id f, None))"

definition pa_execute ::
  "(actor_context \<Rightarrow> authorization_request \<Rightarrow> authorization_decision)
   \<Rightarrow> (pa_command app_command \<Rightarrow> (string \<times> json) list) \<Rightarrow> receipt_row list
   \<Rightarrow> (nat \<Rightarrow> uuid) \<Rightarrow> instant \<Rightarrow> actor_context \<Rightarrow> pa_command app_command \<Rightarrow> instant
   \<Rightarrow> pa_tables platform_db \<Rightarrow> (exn + dispatch_result) \<times> pa_tables platform_db" where
  "pa_execute policy dump seen fresh wall actor c now db =
     (let (rid, cid) = pa_command_target (em_body c) in
      if a_actor_kind actor \<noteq> PATRON_ADMIN then (Inl (PermissionError ''PATRON_REQUIRED''), db)
      else let d = policy actor (pa_request ''patron.action.write'' ''PATRON_ACTION'' rid (a_tenant_id actor) cid now) in
      if \<not> z_allowed d then (Inl (PermissionError (z_code d)), db)
      else dispatch dump pa_handlers seen
        \<lparr> rq_command = c, rq_context = command_context_of actor ''PATRON_ADMIN'' now cid,
          rq_fresh = fresh, rq_handler_fresh = fresh, rq_now = wall \<rparr> db)"

section \<open>The queue\<close>

record pa_projection =
  pp_action_id :: uuid
  pp_case_id :: "uuid option"
  pp_functional_key :: string
  pp_action_type :: string
  pp_severity :: string
  pp_state :: string
  pp_due_at :: "instant option"
  pp_source_refs :: "string list"
  pp_aggregate_revision :: int

definition pa_projection_of :: "pa_row \<Rightarrow> string \<Rightarrow> int \<Rightarrow> pa_projection" where
  "pa_projection_of r st rv = \<lparr> pp_action_id = pa_id r, pp_case_id = pa_case_id r,
     pp_functional_key = pa_functional_key r, pp_action_type = pa_action_type r, pp_severity = pa_severity r,
     pp_state = st, pp_due_at = pa_due_at r, pp_source_refs = pa_source_refs r, pp_aggregate_revision = rv \<rparr>"

text \<open>
  The \<open>CASE\<close> of \<open>PatronActionService.list_open\<close>. Its further keys are the due date with nulls
  last and the creation time; the row order is the creation order.
\<close>

definition severity_rank :: "string \<Rightarrow> nat" where
  "severity_rank s = (if s = ''URGENT'' then 0 else if s = ''BLOCKING'' then 1 else if s = ''AT_RISK'' then 2 else 3)"

definition due_key :: "instant option \<Rightarrow> nat \<times> int" where
  "due_key d = (case d of Some t \<Rightarrow> (0, t) | None \<Rightarrow> (1, 0))"

fun due_le :: "nat \<times> int \<Rightarrow> nat \<times> int \<Rightarrow> bool" where
  "due_le (n, t) (m, u) = (n < m \<or> n = m \<and> t \<le> u)"

fun insert_by :: "('a \<Rightarrow> 'a \<Rightarrow> bool) \<Rightarrow> 'a \<Rightarrow> 'a list \<Rightarrow> 'a list" where
  "insert_by le x [] = [x]"
| "insert_by le x (y # ys) = (if le x y then x # y # ys else y # insert_by le x ys)"

definition sort_by :: "('a \<Rightarrow> 'a \<Rightarrow> bool) \<Rightarrow> 'a list \<Rightarrow> 'a list" where
  "sort_by le xs = foldr (insert_by le) xs []"

definition queue_le :: "pa_row \<Rightarrow> pa_row \<Rightarrow> bool" where
  "queue_le a b =
     (severity_rank (pa_severity a) < severity_rank (pa_severity b)
      \<or> severity_rank (pa_severity a) = severity_rank (pa_severity b)
        \<and> due_le (due_key (pa_due_at a)) (due_key (pa_due_at b)))"

definition queue_rows :: "uuid \<Rightarrow> pa_tables \<Rightarrow> pa_row list" where
  "queue_rows tid b = sort_by queue_le
     (filter (\<lambda>r. pa_tenant_id r = tid \<and> pa_state r \<in> {''OPEN'', ''IN_PROGRESS'', ''WAITING''}) (pa_actions b))"

definition pa_list_open ::
  "(actor_context \<Rightarrow> authorization_request \<Rightarrow> authorization_decision) \<Rightarrow> actor_context \<Rightarrow> instant
   \<Rightarrow> pa_tables \<Rightarrow> exn + pa_projection list" where
  "pa_list_open policy actor now b =
     (if a_actor_kind actor \<noteq> PATRON_ADMIN then Inl (PermissionError ''PATRON_REQUIRED'')
      else let d = policy actor (pa_request ''patron.action.read'' ''PATRON_ACTION_QUEUE'' (a_tenant_id actor)
                     (a_tenant_id actor) None now) in
      if \<not> z_allowed d then Inl (PermissionError (z_code d))
      else Inr (concat (map (\<lambda>r.
        (let latest = latest_transition (a_tenant_id actor) (pa_id r) (pa_transitions b);
             st = (case latest of None \<Rightarrow> pa_state r | Some t \<Rightarrow> pt_to_state t);
             rv = (case latest of None \<Rightarrow> pa_aggregate_revision r | Some t \<Rightarrow> pt_aggregate_revision t) in
         if st \<in> {''COMPLETED'', ''ABANDONED''} then [] else [pa_projection_of r st rv]))
        (queue_rows (a_tenant_id actor) b))))"

text \<open>
  \<open>PatronActionTransitionService.list_open\<close>: no policy call, and the severity is ordered as the
  string it is stored as.
\<close>

definition transition_queue_le :: "pa_row \<Rightarrow> pa_row \<Rightarrow> bool" where
  "transition_queue_le a b =
     (pa_severity a < pa_severity b
      \<or> pa_severity a = pa_severity b \<and> due_le (due_key (pa_due_at a)) (due_key (pa_due_at b)))"

definition pa_transition_list_open ::
  "actor_context \<Rightarrow> pa_tables \<Rightarrow> exn + (uuid \<times> uuid option \<times> string \<times> string) list" where
  "pa_transition_list_open actor b =
     (if a_actor_kind actor \<noteq> PATRON_ADMIN then Inl (PermissionError ''PATRON_REQUIRED'')
      else Inr (concat (map (\<lambda>r.
        (let st = (case latest_transition (a_tenant_id actor) (pa_id r) (pa_transitions b) of
                     None \<Rightarrow> pa_state r | Some t \<Rightarrow> pt_to_state t) in
         if st \<in> {''COMPLETED'', ''ABANDONED''} then []
         else [(pa_id r, pa_case_id r, pa_severity r, st)]))
        (sort_by transition_queue_le
          (filter (\<lambda>r. pa_tenant_id r = a_tenant_id actor \<and> pa_state r \<notin> {''COMPLETED'', ''ABANDONED''})
            (pa_actions b))))))"

section \<open>History explains the row\<close>

text \<open>From a state and a revision, the transitions lead to a state and a revision.\<close>

fun pa_history :: "string \<Rightarrow> int \<Rightarrow> pt_row list \<Rightarrow> string \<Rightarrow> int \<Rightarrow> bool" where
  "pa_history s n [] s' n' = (s' = s \<and> n' = n)"
| "pa_history s n (t # ts) s' n' =
     (pt_from_state t = s \<and> ensure_transition_allowed s (pt_to_state t) \<and> pt_aggregate_revision t = n + 1
      \<and> pa_history (pt_to_state t) (n + 1) ts s' n')"

definition pa_inv :: "pa_tables \<Rightarrow> bool" where
  "pa_inv b =
     (distinct (map pa_id (pa_actions b))
      \<and> (\<forall>a \<in> set (pa_actions b).
           pa_history ''OPEN'' 1 (transitions_of (pa_tenant_id a) (pa_id a) (pa_transitions b))
             (pa_state a) (pa_aggregate_revision a))
      \<and> (\<forall>t \<in> set (pa_transitions b). \<exists>a \<in> set (pa_actions b).
           pa_tenant_id a = pt_tenant_id t \<and> pa_id a = pt_action_id t))"

lemma pa_history_snoc:
  "pa_history s n (ts @ [t]) s' n' \<longleftrightarrow>
     (\<exists>m k. pa_history s n ts m k \<and> pt_from_state t = m \<and> ensure_transition_allowed m (pt_to_state t)
        \<and> pt_aggregate_revision t = k + 1 \<and> s' = pt_to_state t \<and> n' = k + 1)"
  by (induction ts arbitrary: s n) auto

lemma pa_history_bound: "pa_history s n ts s' n' \<Longrightarrow> (\<forall>t \<in> set ts. n < pt_aggregate_revision t) \<and> n' = n + int (length ts)"
proof (induction ts arbitrary: s n)
  case Nil
  then show ?case by simp
next
  case (Cons t ts)
  then have "pa_history (pt_to_state t) (n + 1) ts s' n'" by simp
  from Cons.IH [OF this] have "(\<forall>t \<in> set ts. n + 1 < pt_aggregate_revision t) \<and> n' = n + 1 + int (length ts)" .
  with Cons.prems show ?case by auto
qed

lemma pa_history_sorted:
  "pa_history s n ts s' n' \<Longrightarrow> sorted_wrt (\<lambda>a b. pt_aggregate_revision a < pt_aggregate_revision b) ts"
  by (induction ts arbitrary: s n) (auto dest: pa_history_bound)

lemma pa_history_last:
  "pa_history s n ts s' n' \<Longrightarrow> ts \<noteq> [] \<Longrightarrow> pt_to_state (last ts) = s' \<and> pt_aggregate_revision (last ts) = n'"
  by (induction ts rule: rev_induct) (auto simp: pa_history_snoc)

text \<open>So what the code reads from the latest transition is what the row says.\<close>

lemma latest_is_row:
  assumes "pa_inv b" "a \<in> set (pa_actions b)"
  shows "(case latest_transition (pa_tenant_id a) (pa_id a) (pa_transitions b) of None \<Rightarrow> pa_state a | Some t \<Rightarrow> pt_to_state t)
      = pa_state a"
    "(case latest_transition (pa_tenant_id a) (pa_id a) (pa_transitions b) of None \<Rightarrow> pa_aggregate_revision a
      | Some t \<Rightarrow> pt_aggregate_revision t) = pa_aggregate_revision a"
proof -
  let ?ts = "transitions_of (pa_tenant_id a) (pa_id a) (pa_transitions b)"
  from assms have h: "pa_history ''OPEN'' 1 ?ts (pa_state a) (pa_aggregate_revision a)" by (simp add: pa_inv_def)
  show "(case latest_transition (pa_tenant_id a) (pa_id a) (pa_transitions b) of None \<Rightarrow> pa_state a | Some t \<Rightarrow> pt_to_state t)
      = pa_state a"
    "(case latest_transition (pa_tenant_id a) (pa_id a) (pa_transitions b) of None \<Rightarrow> pa_aggregate_revision a
      | Some t \<Rightarrow> pt_aggregate_revision t) = pa_aggregate_revision a"
    using first_max_sorted [OF pa_history_sorted [OF h]] pa_history_last [OF h]
    by (cases "?ts = []"; simp add: latest_transition_def)+
qed

lemma transition_needs_open:
  "ensure_transition_allowed s t \<Longrightarrow> s \<notin> {''COMPLETED'', ''ABANDONED''}"
  by (auto simp: ensure_transition_allowed_def pa_state_of_def split: option.splits)

section \<open>What the handlers do\<close>

lemma create_action_accepted:
  assumes "create_action_handler f c ctx b = Inr (ho, b')"
  obtains mid where "cc_membership_id ctx = Some mid" "cc_actor_kind ctx = ''PATRON_ADMIN''"
    "b' = b\<lparr> pa_actions := pa_actions b @ [new_action f c ctx mid] \<rparr>"
    "\<forall>r \<in> set (pa_actions b). cf_action_id f \<noteq> pa_id r"
    "\<forall>r \<in> set (pa_actions b). cc_tenant_id ctx = pa_tenant_id r \<longrightarrow> cf_functional_key f \<noteq> pa_functional_key r"
  using assms
  by (auto simp: create_action_handler_def Let_def insert_row_def add_row_Inr pa_clash_def new_action_def
      split: option.splits if_splits sum.splits)

lemma find_action_Some:
  "find_action tid aid rows = Some a \<Longrightarrow> a \<in> set rows \<and> pa_tenant_id a = tid \<and> pa_id a = aid"
  unfolding find_action_def by (auto dest!: find_Some_in)

lemma transition_action_accepted:
  assumes inv: "pa_inv b" and ok: "transition_action_handler f c ctx b = Inr (ho, b')"
  obtains a mid where "a \<in> set (pa_actions b)" "pa_tenant_id a = cc_tenant_id ctx" "pa_id a = tf_action_id f"
    "pa_aggregate_revision a = tf_expected_revision f" "cc_membership_id ctx = Some mid"
    "ensure_transition_allowed (pa_state a) (tf_target_state f)"
    "b' = \<lparr> pa_actions = update_where (\<lambda>r. pa_id r = pa_id a)
              (\<lambda>r. r\<lparr> pa_state := tf_target_state f, pa_aggregate_revision := pa_aggregate_revision a + 1 \<rparr>) (pa_actions b),
            pa_transitions = pa_transitions b
              @ [new_transition f c ctx mid (pa_id a) (pa_state a) (pa_aggregate_revision a)] \<rparr>"
proof -
  from ok obtain a where fa: "find_action (cc_tenant_id ctx) (tf_action_id f) (pa_actions b) = Some a"
    by (auto simp: transition_action_handler_def split: option.splits)
  then have a: "a \<in> set (pa_actions b)" "pa_tenant_id a = cc_tenant_id ctx" "pa_id a = tf_action_id f"
    by (auto dest: find_action_Some)
  note cur = latest_is_row [OF inv a(1), unfolded a(2)]
  from ok obtain mid where m: "cc_membership_id ctx = Some mid"
    by (auto simp: transition_action_handler_def fa Let_def split: option.splits if_splits)
  let ?t = "new_transition f c ctx mid (pa_id a) (pa_state a) (pa_aggregate_revision a)"
  from ok have "pa_aggregate_revision a = tf_expected_revision f" "ensure_transition_allowed (pa_state a) (tf_target_state f)"
    and ins: "\<exists>rows. insert_row pt_check pt_clash ?t (pa_transitions b) = Inr rows
      \<and> b' = b\<lparr> pa_actions := update_where (\<lambda>r. pa_id r = pa_id a)
              (\<lambda>r. r\<lparr> pa_state := tf_target_state f, pa_aggregate_revision := pt_aggregate_revision ?t \<rparr>) (pa_actions b),
              pa_transitions := rows \<rparr>"
    unfolding transition_action_handler_def fa Let_def option.case cur m
    by (auto split: if_splits sum.splits)
  moreover from ins have "b' = \<lparr> pa_actions = update_where (\<lambda>r. pa_id r = pa_id a)
              (\<lambda>r. r\<lparr> pa_state := tf_target_state f, pa_aggregate_revision := pa_aggregate_revision a + 1 \<rparr>) (pa_actions b),
            pa_transitions = pa_transitions b @ [?t] \<rparr>"
    by (auto simp: insert_row_def add_row_Inr new_transition_def split: if_splits)
  ultimately show thesis using that a m by blast
qed

lemma transitions_of_snoc:
  "transitions_of tid aid (rows @ [t]) =
     transitions_of tid aid rows @ (if pt_tenant_id t = tid \<and> pt_action_id t = aid then [t] else [])"
  by (simp add: transitions_of_def)

lemma create_action_inv:
  assumes inv: "pa_inv b" and "create_action_handler f c ctx b = Inr (ho, b')"
  shows "pa_inv b'"
  using assms(2)
proof (rule create_action_accepted)
  fix mid
  let ?r = "new_action f c ctx mid"
  assume b': "b' = b\<lparr> pa_actions := pa_actions b @ [?r] \<rparr>"
    and fresh: "\<forall>r \<in> set (pa_actions b). cf_action_id f \<noteq> pa_id r"
  have "\<forall>t \<in> set (pa_transitions b). pt_action_id t \<noteq> cf_action_id f"
    using inv fresh unfolding pa_inv_def by metis
  then have "transitions_of (pa_tenant_id ?r) (pa_id ?r) (pa_transitions b) = []"
    by (simp add: transitions_of_def filter_empty_conv new_action_def)
  then have "pa_history ''OPEN'' 1 (transitions_of (pa_tenant_id ?r) (pa_id ?r) (pa_transitions b))
      (pa_state ?r) (pa_aggregate_revision ?r)" by (simp add: new_action_def)
  moreover have "pa_id ?r \<notin> pa_id ` set (pa_actions b)" using fresh by (auto simp: new_action_def)
  ultimately show ?thesis using inv by (auto simp: b' pa_inv_def)
qed

lemma transition_action_inv:
  assumes inv: "pa_inv b" and "transition_action_handler f c ctx b = Inr (ho, b')"
  shows "pa_inv b'"
  using assms
proof (rule transition_action_accepted)
  fix a :: pa_row and mid
  let ?t = "new_transition f c ctx mid (pa_id a) (pa_state a) (pa_aggregate_revision a)"
  let ?u = "\<lambda>r. r\<lparr> pa_state := tf_target_state f, pa_aggregate_revision := pa_aggregate_revision a + 1 \<rparr>"
  assume a: "a \<in> set (pa_actions b)" "pa_tenant_id a = cc_tenant_id ctx"
    and ok: "ensure_transition_allowed (pa_state a) (tf_target_state f)"
    and b': "b' = \<lparr> pa_actions = update_where (\<lambda>r. pa_id r = pa_id a) ?u (pa_actions b),
            pa_transitions = pa_transitions b @ [?t] \<rparr>"
  have ids: "map pa_id (pa_actions b') = map pa_id (pa_actions b)" by (simp add: b' map_update_where)
  have t: "pt_tenant_id ?t = pa_tenant_id a" "pt_action_id ?t = pa_id a" "pt_from_state ?t = pa_state a"
    "pt_to_state ?t = tf_target_state f" "pt_aggregate_revision ?t = pa_aggregate_revision a + 1"
    by (simp_all add: new_transition_def a)
  have hist: "pa_history ''OPEN'' 1 (transitions_of (pa_tenant_id r') (pa_id r') (pa_transitions b'))
      (pa_state r') (pa_aggregate_revision r')" if "r' \<in> set (pa_actions b')" for r'
  proof -
    from that obtain r where r: "r \<in> set (pa_actions b)" "r' = (if pa_id r = pa_id a then ?u r else r)"
      by (auto simp: b' set_update_where)
    have old: "pa_history ''OPEN'' 1 (transitions_of (pa_tenant_id r) (pa_id r) (pa_transitions b))
        (pa_state r) (pa_aggregate_revision r)" using inv r(1) by (simp add: pa_inv_def)
    show ?thesis
    proof (cases "pa_id r = pa_id a")
      case True
      then have "r = a" using inv r(1) a(1) by (auto simp: pa_inv_def distinct_map inj_on_def)
      with r old ok t show ?thesis by (simp add: b' transitions_of_snoc pa_history_snoc)
    next
      case False
      with r old t show ?thesis by (simp add: b' transitions_of_snoc)
    qed
  qed
  have own: "\<exists>r' \<in> set (pa_actions b'). pa_tenant_id r' = tid \<and> pa_id r' = aid"
    if "\<exists>r \<in> set (pa_actions b). pa_tenant_id r = tid \<and> pa_id r = aid" for tid aid
  proof -
    from that obtain r where r: "r \<in> set (pa_actions b)" "pa_tenant_id r = tid" "pa_id r = aid" by blast
    then have "(if pa_id r = pa_id a then ?u r else r) \<in> set (pa_actions b')" by (simp add: b' set_update_where)
    then show ?thesis by (rule rev_bexI) (simp add: r)
  qed
  have "\<forall>t \<in> set (pa_transitions b'). \<exists>r' \<in> set (pa_actions b').
      pa_tenant_id r' = pt_tenant_id t \<and> pa_id r' = pt_action_id t"
    using inv own a t by (auto simp: b' pa_inv_def)
  then show ?thesis using ids hist inv by (simp add: pa_inv_def)
qed

interpretation patron_actions: command_handlers pa_handlers pa_inv
  by unfold_locales
    (auto simp: pa_handlers_def split: if_splits pa_command.splits dest: create_action_inv transition_action_inv)

section \<open>Frames\<close>

text \<open>What one handler call does to the rows of one action.\<close>

lemma handler_closed_kept:
  assumes inv: "pa_inv b" and h: "pa_handlers ctype = Some h" "h c ctx fresh b = Inr (ho, b')"
    and a: "a \<in> set (pa_actions b)" "pa_state a \<in> {''COMPLETED'', ''ABANDONED''}"
  shows "a \<in> set (pa_actions b')"
proof (cases "em_body c")
  case (CreatePatronAction f)
  then have "create_action_handler f c ctx b = Inr (ho, b')" using h by (auto simp: pa_handlers_def split: if_splits)
  then show ?thesis by (rule create_action_accepted) (simp add: a)
next
  case (TransitionPatronAction f)
  then have "transition_action_handler f c ctx b = Inr (ho, b')" using h by (auto simp: pa_handlers_def split: if_splits)
  with inv show ?thesis
  proof (rule transition_action_accepted)
    fix x :: pa_row and mid
    assume x: "x \<in> set (pa_actions b)" "ensure_transition_allowed (pa_state x) (tf_target_state f)"
      and b': "b' = \<lparr> pa_actions = update_where (\<lambda>r. pa_id r = pa_id x)
          (\<lambda>r. r\<lparr> pa_state := tf_target_state f, pa_aggregate_revision := pa_aggregate_revision x + 1 \<rparr>) (pa_actions b),
        pa_transitions = pa_transitions b @ [new_transition f c ctx mid (pa_id x) (pa_state x) (pa_aggregate_revision x)] \<rparr>"
    have "pa_id a \<noteq> pa_id x"
    proof
      assume "pa_id a = pa_id x"
      then have "a = x" using inv a(1) x(1) by (auto simp: pa_inv_def distinct_map inj_on_def)
      then show False using transition_needs_open [OF x(2)] a(2) by simp
    qed
    then show ?thesis using a(1) by (force simp: b' set_update_where)
  qed
qed

text \<open>The rows of the other tenants.\<close>

definition other_tenants :: "uuid \<Rightarrow> pa_tables \<Rightarrow> pa_row list \<times> pt_row list" where
  "other_tenants tid b = (filter (\<lambda>r. pa_tenant_id r \<noteq> tid) (pa_actions b),
     filter (\<lambda>t. pt_tenant_id t \<noteq> tid) (pa_transitions b))"

lemma handler_other_tenants:
  assumes inv: "pa_inv b" and h: "pa_handlers ctype = Some h" "h c ctx fresh b = Inr (ho, b')"
  shows "other_tenants (cc_tenant_id ctx) b' = other_tenants (cc_tenant_id ctx) b"
proof (cases "em_body c")
  case (CreatePatronAction f)
  then have "create_action_handler f c ctx b = Inr (ho, b')" using h by (auto simp: pa_handlers_def split: if_splits)
  then show ?thesis by (rule create_action_accepted) (simp add: other_tenants_def new_action_def)
next
  case (TransitionPatronAction f)
  then have "transition_action_handler f c ctx b = Inr (ho, b')" using h by (auto simp: pa_handlers_def split: if_splits)
  with inv show ?thesis
  proof (rule transition_action_accepted)
    fix x :: pa_row and mid
    let ?u = "\<lambda>r. r\<lparr> pa_state := tf_target_state f, pa_aggregate_revision := pa_aggregate_revision x + 1 \<rparr>"
    assume x: "x \<in> set (pa_actions b)" "pa_tenant_id x = cc_tenant_id ctx"
      and b': "b' = \<lparr> pa_actions = update_where (\<lambda>r. pa_id r = pa_id x) ?u (pa_actions b),
        pa_transitions = pa_transitions b @ [new_transition f c ctx mid (pa_id x) (pa_state x) (pa_aggregate_revision x)] \<rparr>"
    have "filter (\<lambda>r. pa_tenant_id r \<noteq> cc_tenant_id ctx) (update_where (\<lambda>r. pa_id r = pa_id x) ?u (pa_actions b))
        = update_where (\<lambda>r. pa_id r = pa_id x) ?u (filter (\<lambda>r. pa_tenant_id r \<noteq> cc_tenant_id ctx) (pa_actions b))"
      by (rule filter_update_where) simp
    also have "\<dots> = filter (\<lambda>r. pa_tenant_id r \<noteq> cc_tenant_id ctx) (pa_actions b)"
      using inv x by (intro update_where_other) (auto simp: pa_inv_def distinct_map inj_on_def)
    finally show ?thesis by (simp add: b' other_tenants_def new_transition_def)
  qed
qed

section \<open>The guard of the service, for any policy\<close>

context authorization_policy
begin

lemma pa_execute_guard:
  assumes "pa_execute policy dump seen fresh wall actor c now db = (r, db')" "db' \<noteq> db"
  shows "a_actor_kind actor = PATRON_ADMIN \<and> a_membership_state actor = Member_ACTIVE
    \<and> ''patron.action.write'' \<in> a_capabilities actor"
proof -
  let ?q = "pa_request ''patron.action.write'' ''PATRON_ACTION'' (fst (pa_command_target (em_body c))) (a_tenant_id actor)
      (snd (pa_command_target (em_body c))) now"
  have "a_actor_kind actor = PATRON_ADMIN \<and> z_allowed (policy actor ?q)"
    using assms by (auto simp: pa_execute_def Let_def split: prod.splits if_splits)
  then show ?thesis
    using active_member [of actor ?q] capability_held [of actor ?q] by (simp add: pa_request_def)
qed

end

section \<open>Properties\<close>

definition ex_action_fields :: create_action_fields where
  "ex_action_fields = \<lparr> cf_action_id = 21, cf_case_id = Some 40, cf_functional_key = ''key'',
     cf_action_type = ''VALIDATE_PRICE'', cf_severity = ''URGENT'', cf_title = ''t'', cf_why_now = ''w'',
     cf_impact = ''i'', cf_recommended_action = ''r'', cf_due_at = None, cf_source_refs = [] \<rparr>"

definition ex_pa_command :: "string \<Rightarrow> uuid \<Rightarrow> pa_command \<Rightarrow> pa_command app_command" where
  "ex_pa_command ctype cid body = \<lparr> em_command_type = ctype, em_command_id = cid, em_idempotency_key = cid,
     em_correlation_id = None, em_body = body \<rparr>"

definition ex_pa_db :: "pa_tables platform_db" where
  "ex_pa_db = \<lparr> db_receipts = [], db_events = [], db_outbox = [],
     db_business = \<lparr> pa_actions = [], pa_transitions = [] \<rparr> \<rparr>"

definition ex_pa_request :: "string \<Rightarrow> uuid \<Rightarrow> pa_command \<Rightarrow> pa_command dispatch_request" where
  "ex_pa_request ctype cid body = \<lparr> rq_command = ex_pa_command ctype cid body,
     rq_context = command_context_of ex_patron ''PATRON_ADMIN'' 0 None,
     rq_fresh = (\<lambda>n. of_nat n + cid * 100), rq_handler_fresh = of_nat, rq_now = 0 \<rparr>"

definition ex_close :: pa_command where
  "ex_close = TransitionPatronAction \<lparr> tf_transition_id = 31, tf_action_id = 21, tf_expected_revision = 1,
     tf_target_state = ''ABANDONED'', tf_reason_code = ''DUP'' \<rparr>"

lemma ex_pa_inv: "pa_inv (db_business ex_pa_db)"
  by (simp add: pa_inv_def ex_pa_db_def)

text \<open>
  C22. The queue's history explains its rows through any history of dispatches: the transitions
  of each action, in revision order, start at OPEN and revision 1, follow one another, each
  allowed by the lifecycle and one revision apart, and end at the state and revision its row
  shows; no transition is without its action.
\<close>

theorem patron_action_history_kept:
  assumes "pa_inv (db_business db)" "dispatch_run dump pa_handlers steps db = (rs, db')"
  shows "pa_inv (db_business db')"
  using assms by (rule patron_actions.run_preserves)

theorem patron_action_history_kept_witness:
  "pa_inv (db_business (snd (dispatch_run (\<lambda>_. []) pa_handlers
     [(0, ex_pa_request ''CreatePatronAction'' 1 (CreatePatronAction ex_action_fields)),
      (0, ex_pa_request ''TransitionPatronAction'' 2 ex_close)] ex_pa_db)))"
  by (rule patron_action_history_kept [OF ex_pa_inv surjective_pairing])

definition ex_closed_action :: pa_row where
  "ex_closed_action = (new_action ex_action_fields (ex_pa_command ''CreatePatronAction'' 1 (CreatePatronAction ex_action_fields))
      (command_context_of ex_patron ''PATRON_ADMIN'' 0 None) 11)\<lparr> pa_state := ''ABANDONED'', pa_aggregate_revision := 2 \<rparr>"

definition ex_closed_db :: "pa_tables platform_db" where
  "ex_closed_db = ex_pa_db\<lparr> db_business := \<lparr> pa_actions = [ex_closed_action],
     pa_transitions = [new_transition \<lparr> tf_transition_id = 31, tf_action_id = 21, tf_expected_revision = 1,
        tf_target_state = ''ABANDONED'', tf_reason_code = ''DUP'' \<rparr> (ex_pa_command ''TransitionPatronAction'' 2 ex_close)
        (command_context_of ex_patron ''PATRON_ADMIN'' 0 None) 11 21 ''OPEN'' 1] \<rparr> \<rparr>"

lemma ex_closed_inv: "pa_inv (db_business ex_closed_db)"
  by (simp add: pa_inv_def ex_closed_db_def ex_closed_action_def new_action_def new_transition_def
      ex_action_fields_def command_context_of_def transitions_of_def ensure_transition_allowed_def pa_state_of_def)

text \<open>
  A closed action is never reopened: the row of an action that is COMPLETED or ABANDONED is
  the same after any history of further dispatches.
\<close>

theorem patron_action_closed_final:
  assumes "pa_inv (db_business db)" "a \<in> set (pa_actions (db_business db))"
    and "pa_state a \<in> {''COMPLETED'', ''ABANDONED''}"
    and "dispatch_run dump pa_handlers steps db = (rs, db')"
  shows "a \<in> set (pa_actions (db_business db'))"
proof -
  have "pa_inv (db_business db') \<and> a \<in> set (pa_actions (db_business db'))"
  proof (rule dispatch_run_invariant [where P = "\<lambda>s. pa_inv (db_business s) \<and> a \<in> set (pa_actions (db_business s))",
        OF _ _ assms(4)])
    fix k rq s r s'
    assume s: "pa_inv (db_business s) \<and> a \<in> set (pa_actions (db_business s))"
      and d: "dispatch dump pa_handlers (take k (db_receipts s)) rq s = (r, s')"
    from d have "a \<in> set (pa_actions (db_business s'))"
      by (cases rule: dispatch_business) (use s assms(3) handler_closed_kept in \<open>auto\<close>)
    with s d show "pa_inv (db_business s') \<and> a \<in> set (pa_actions (db_business s'))"
      using patron_actions.dispatch_preserves by blast
  qed (use assms(1,2) in simp)
  then show ?thesis by blast
qed

theorem patron_action_closed_final_witness:
  "ex_closed_action \<in> set (pa_actions (db_business (snd (dispatch_run (\<lambda>_. []) pa_handlers
     [(0, ex_pa_request ''TransitionPatronAction'' 9 ex_close)] ex_closed_db))))"
  by (rule patron_action_closed_final [OF ex_closed_inv _ _ surjective_pairing])
    (simp_all add: ex_closed_db_def, simp add: ex_closed_action_def)

text \<open>
  The service guards the queue: a call that changes anything is made by an active patron of
  the tenant who holds patron.action.write, and whatever the call, the actions and transitions
  of every other tenant are untouched.
\<close>

theorem patron_action_service_guarded:
  assumes "pa_inv (db_business db)" "pa_execute authorize dump seen fresh wall actor c now db = (r, db')"
  shows "(db' \<noteq> db \<longrightarrow> a_actor_kind actor = PATRON_ADMIN \<and> a_membership_state actor = Member_ACTIVE
            \<and> ''patron.action.write'' \<in> a_capabilities actor)
    \<and> other_tenants (a_tenant_id actor) (db_business db') = other_tenants (a_tenant_id actor) (db_business db)"
proof (cases "db' = db")
  case False
  from assms(2) False obtain cid where
    d: "dispatch dump pa_handlers seen \<lparr> rq_command = c, rq_context = command_context_of actor ''PATRON_ADMIN'' now cid,
          rq_fresh = fresh, rq_handler_fresh = fresh, rq_now = wall \<rparr> db = (r, db')"
    by (auto simp: pa_execute_def Let_def split: prod.splits if_splits)
  then have "other_tenants (a_tenant_id actor) (db_business db') = other_tenants (a_tenant_id actor) (db_business db)"
  proof (cases rule: dispatch_business)
    case (handled h ho)
    from handler_other_tenants [OF assms(1) handled] show ?thesis by (simp add: command_context_of_def)
  qed simp
  with baseline.pa_execute_guard [OF assms(2) False] show ?thesis by simp
qed simp

theorem patron_action_service_guarded_witness:
  "other_tenants 1 (db_business (snd (pa_execute authorize (\<lambda>_. []) [] of_nat 0 ex_patron
     (ex_pa_command ''CreatePatronAction'' 1 (CreatePatronAction ex_action_fields)) 0 ex_pa_db))) = ([], [])"
proof -
  have "other_tenants (a_tenant_id ex_patron) (db_business (snd (pa_execute authorize (\<lambda>_. []) [] of_nat 0 ex_patron
     (ex_pa_command ''CreatePatronAction'' 1 (CreatePatronAction ex_action_fields)) 0 ex_pa_db)))
     = other_tenants (a_tenant_id ex_patron) (db_business ex_pa_db)"
    by (rule patron_action_service_guarded [OF ex_pa_inv surjective_pairing, THEN conjunct2])
  then show ?thesis by (simp add: ex_patron_def ex_pa_db_def other_tenants_def)
qed

section \<open>The order of the queue\<close>

lemma set_insert_by [simp]: "set (insert_by le x ys) = insert x (set ys)"
  by (induction ys) auto

lemma set_sort_by [simp]: "set (sort_by le xs) = set xs"
  by (induction xs) (simp_all add: sort_by_def)

lemma length_insert_by [simp]: "length (insert_by le x ys) = Suc (length ys)"
  by (induction ys) auto

lemma length_sort_by [simp]: "length (sort_by le xs) = length xs"
  by (induction xs) (simp_all add: sort_by_def)

lemma sorted_insert_by:
  assumes tot: "\<And>a b. le a b \<or> le b a" and tr: "\<And>a b c. le a b \<Longrightarrow> le b c \<Longrightarrow> le a c"
  shows "sorted_wrt le ys \<Longrightarrow> sorted_wrt le (insert_by le x ys)"
  using tot by (induction ys) (auto intro: tr)

lemma sorted_sort_by:
  assumes "\<And>a b. le a b \<or> le b a" "\<And>a b c. le a b \<Longrightarrow> le b c \<Longrightarrow> le a c"
  shows "sorted_wrt le (sort_by le xs)"
  by (induction xs) (simp_all add: sort_by_def sorted_insert_by assms)

lemma card_image_distinct: "distinct (map f xs) \<Longrightarrow> card (f ` set xs) = length xs"
  by (metis distinct_card length_map set_map)

lemma queue_le_order: "queue_le a b \<or> queue_le b a" "queue_le a b \<Longrightarrow> queue_le b c \<Longrightarrow> queue_le a c"
proof -
  show "queue_le a b \<or> queue_le b a"
    by (cases "due_key (pa_due_at a)"; cases "due_key (pa_due_at b)") (auto simp: queue_le_def)
  show "queue_le a b \<Longrightarrow> queue_le b c \<Longrightarrow> queue_le a c"
    by (cases "due_key (pa_due_at a)"; cases "due_key (pa_due_at b)"; cases "due_key (pa_due_at c)")
      (auto simp: queue_le_def)
qed

lemma list_open_rows:
  assumes inv: "pa_inv b" and "pa_list_open policy actor now b = Inr ps"
  shows "ps = map (\<lambda>r. pa_projection_of r (pa_state r) (pa_aggregate_revision r)) (queue_rows (a_tenant_id actor) b)"
proof -
  let ?f = "\<lambda>r. (let latest = latest_transition (a_tenant_id actor) (pa_id r) (pa_transitions b);
             st = (case latest of None \<Rightarrow> pa_state r | Some t \<Rightarrow> pt_to_state t);
             rv = (case latest of None \<Rightarrow> pa_aggregate_revision r | Some t \<Rightarrow> pt_aggregate_revision t) in
         if st \<in> {''COMPLETED'', ''ABANDONED''} then [] else [pa_projection_of r st rv])"
  have row: "?f r = [pa_projection_of r (pa_state r) (pa_aggregate_revision r)]"
    if "r \<in> set (queue_rows (a_tenant_id actor) b)" for r
  proof -
    from that have r: "r \<in> set (pa_actions b)" "pa_tenant_id r = a_tenant_id actor"
      "pa_state r \<in> {''OPEN'', ''IN_PROGRESS'', ''WAITING''}" by (auto simp: queue_rows_def)
    note cur = latest_is_row [OF inv r(1), unfolded r(2)]
    from r(3) show ?thesis unfolding Let_def cur by auto
  qed
  have "ps = concat (map ?f (queue_rows (a_tenant_id actor) b))"
    using assms(2) by (auto simp: pa_list_open_def Let_def split: if_splits)
  also have "map ?f (queue_rows (a_tenant_id actor) b)
      = map (\<lambda>r. [pa_projection_of r (pa_state r) (pa_aggregate_revision r)]) (queue_rows (a_tenant_id actor) b)"
    using row by (rule map_cong [OF refl])
  finally show ?thesis by simp
qed

text \<open>
  The patron sees the whole queue in order: a listing holds every action of the tenant that
  is not closed, once, with its current state, and no other; URGENT comes before BLOCKING before
  AT_RISK before the rest, and within a severity the earlier due date first, undated ones last.
\<close>

theorem patron_queue_complete:
  assumes "pa_inv b" "pa_list_open authorize actor now b = Inr ps"
  shows "set (map (\<lambda>p. (pp_action_id p, pp_state p)) ps) = {(pa_id r, pa_state r) | r. r \<in> set (pa_actions b)
           \<and> pa_tenant_id r = a_tenant_id actor \<and> pa_state r \<in> {''OPEN'', ''IN_PROGRESS'', ''WAITING''}}
    \<and> length ps = card (set (map pp_action_id ps))
    \<and> sorted_wrt (\<lambda>p q. severity_rank (pp_severity p) < severity_rank (pp_severity q)
        \<or> severity_rank (pp_severity p) = severity_rank (pp_severity q)
          \<and> due_le (due_key (pp_due_at p)) (due_key (pp_due_at q))) ps"
proof -
  let ?rows = "queue_rows (a_tenant_id actor) b"
  note ps = list_open_rows [OF assms]
  have "set (map (\<lambda>p. (pp_action_id p, pp_state p)) ps) = {(pa_id r, pa_state r) | r. r \<in> set (pa_actions b)
           \<and> pa_tenant_id r = a_tenant_id actor \<and> pa_state r \<in> {''OPEN'', ''IN_PROGRESS'', ''WAITING''}}"
    unfolding ps by (auto simp: queue_rows_def pa_projection_of_def)
  moreover have "length ps = card (set (map pp_action_id ps))"
  proof -
    let ?open = "filter (\<lambda>r. pa_tenant_id r = a_tenant_id actor \<and> pa_state r \<in> {''OPEN'', ''IN_PROGRESS'', ''WAITING''})
        (pa_actions b)"
    have "distinct (map pa_id ?open)" using assms(1) by (simp add: pa_inv_def distinct_map_filter)
    then have "card (pa_id ` set ?open) = length ?open" by (rule card_image_distinct)
    moreover have "set (map pp_action_id ps) = pa_id ` set ?rows" unfolding ps by (simp add: pa_projection_of_def image_image)
    moreover have "set ?rows = set ?open" "length ?rows = length ?open" by (simp_all add: queue_rows_def)
    ultimately show ?thesis by (simp add: ps)
  qed
  moreover have "sorted_wrt queue_le ?rows"
    unfolding queue_rows_def by (rule sorted_sort_by) (fact queue_le_order)+
  then have "sorted_wrt (\<lambda>p q. severity_rank (pp_severity p) < severity_rank (pp_severity q)
        \<or> severity_rank (pp_severity p) = severity_rank (pp_severity q)
          \<and> due_le (due_key (pp_due_at p)) (due_key (pp_due_at q))) ps"
    unfolding ps sorted_wrt_map by (simp add: queue_le_def [abs_def] pa_projection_of_def)
  ultimately show ?thesis by blast
qed

lemma ex_patron_reads: "z_allowed (authorize ex_patron (pa_request ''patron.action.read'' ''PATRON_ACTION_QUEUE'' 1 1 None 0))"
  by (simp add: authorize_allowed allowed_by_rules_def ex_patron_def pa_request_def patron_admin_capabilities_def)

theorem patron_queue_complete_witness:
  "\<exists>ps. pa_list_open authorize ex_patron 0 (db_business ex_closed_db) = Inr ps \<and> length ps = card (set (map pp_action_id ps))"
proof -
  have "a_tenant_id ex_patron = 1" "a_actor_kind ex_patron = PATRON_ADMIN" by (simp_all add: ex_patron_def)
  then obtain ps where "pa_list_open authorize ex_patron 0 (db_business ex_closed_db) = Inr ps"
    using ex_patron_reads by (auto simp: pa_list_open_def Let_def)
  with patron_queue_complete [OF ex_closed_inv this] show ?thesis by blast
qed

end
