(* ===== verification/Sessions.thy ===== *)
theory Sessions
  imports Security
begin

text \<open>
  From an access token to the actor facts: \<open>JwtAccessTokenCodec.decode\<close> of \<open>tokens.py\<close> and
  \<open>AuthenticationContextResolver\<close> of \<open>authenticated_context.py\<close>. The JWT library is a
  parameter (\<open>header_kid\<close>, \<open>verify\<close>): it returns the typed claims of a token whose signature,
  issuer, audience and shape it accepted. The tables the resolver reads are lists of rows; a
  primary key identifies at most one row, so the three-way join has at most one result.
\<close>

section \<open>Access tokens\<close>

record access_token_claims =
  jc_subject :: uuid
  jc_session_id :: uuid
  jc_token_version :: int
  jc_issued_at :: instant
  jc_expires_at :: instant
  jc_token_id :: uuid

record jwt_codec =
  signing_key_id :: string
  verification_keys :: "string \<Rightarrow> string option"

text \<open>
  \<open>header_kid token\<close> is the unverified header's \<open>kid\<close>: \<open>None\<close> when the header is malformed
  (or \<open>kid\<close> is no string), \<open>Some None\<close> when there is none. \<open>None\<close> as a result is
  \<open>AccessTokenRejectedError\<close>.
\<close>

definition jwt_decode ::
  "(string \<Rightarrow> string option option) \<Rightarrow> (string \<Rightarrow> string \<Rightarrow> access_token_claims option)
   \<Rightarrow> jwt_codec \<Rightarrow> instant \<Rightarrow> string \<Rightarrow> access_token_claims option" where
  "jwt_decode header_kid verify codec now token =
     (case header_kid token of None \<Rightarrow> None | Some kid \<Rightarrow>
      (case verification_keys codec (case kid of None \<Rightarrow> signing_key_id codec | Some k \<Rightarrow> k) of
         None \<Rightarrow> None
       | Some key \<Rightarrow>
          (case verify token key of None \<Rightarrow> None | Some claims \<Rightarrow>
           if jc_token_version claims < 1 \<or> jc_issued_at claims > now \<or> jc_expires_at claims \<le> now
             then None else Some claims)))"

section \<open>Tables\<close>

record auth_session_row =
  as_id :: uuid
  as_tenant_id :: uuid
  as_membership_id :: uuid
  as_identity_id :: uuid
  as_token_version :: int
  as_state :: string
  as_issued_at :: instant
  as_expires_at :: instant
  as_absolute_expires_at :: instant
  as_last_seen_at :: instant
  as_mfa_verified_at :: "instant option"

record membership_row =
  mb_id :: uuid
  mb_tenant_id :: uuid
  mb_identity_id :: uuid
  mb_role :: string
  mb_state :: string

record identity_row =
  id_id :: uuid
  id_lifecycle :: string

record case_assignment_row =
  ca_id :: uuid
  ca_tenant_id :: uuid
  ca_membership_id :: uuid
  ca_case_id :: uuid
  ca_state :: string
  ca_aggregate_revision :: int
  ca_scope_actions :: "string list"
  ca_scope_classifications :: "string list"
  ca_granted_by_membership_id :: uuid
  ca_granted_at :: instant
  ca_starts_at :: instant
  ca_ends_at :: "instant option"
  ca_ended_at :: "instant option"

record security_db =
  auth_sessions :: "auth_session_row list"
  memberships :: "membership_row list"
  identities :: "identity_row list"
  case_assignments :: "case_assignment_row list"

section \<open>Enumeration values\<close>

fun actor_kind_value :: "actor_kind \<Rightarrow> string" where
  "actor_kind_value PATRON_ADMIN = ''PATRON_ADMIN''"
| "actor_kind_value PATRON_DELEGATE = ''PATRON_DELEGATE''"
| "actor_kind_value COLLABORATEUR = ''COLLABORATEUR''"
| "actor_kind_value PARTENAIRE_EXTERNAL = ''PARTENAIRE_EXTERNAL''"
| "actor_kind_value SUPPORT_BREAK_GLASS = ''SUPPORT_BREAK_GLASS''"
| "actor_kind_value SYSTEM = ''SYSTEM''"

definition all_actor_kinds :: "actor_kind list" where
  "all_actor_kinds = [PATRON_ADMIN, PATRON_DELEGATE, COLLABORATEUR, PARTENAIRE_EXTERNAL, SUPPORT_BREAK_GLASS, SYSTEM]"

text \<open>\<open>ActorKind(value)\<close>: \<open>None\<close> stands for the \<open>ValueError\<close>.\<close>

definition actor_kind_of :: "string \<Rightarrow> actor_kind option" where
  "actor_kind_of v = List.find (\<lambda>k. actor_kind_value k = v) all_actor_kinds"

fun classification_value :: "data_classification \<Rightarrow> string" where
  "classification_value PUBLIC_TENDER = ''PUBLIC_TENDER''"
| "classification_value INTERNAL_OPERATIONAL = ''INTERNAL_OPERATIONAL''"
| "classification_value PERSONAL_OR_ADMINISTRATIVE = ''PERSONAL_OR_ADMINISTRATIVE''"
| "classification_value FINANCIAL_PRIVATE = ''FINANCIAL_PRIVATE''"
| "classification_value SECURITY_RESTRICTED = ''SECURITY_RESTRICTED''"
| "classification_value SUPPORT_RESTRICTED = ''SUPPORT_RESTRICTED''"

definition all_classifications :: "data_classification list" where
  "all_classifications = [PUBLIC_TENDER, INTERNAL_OPERATIONAL, PERSONAL_OR_ADMINISTRATIVE,
     FINANCIAL_PRIVATE, SECURITY_RESTRICTED, SUPPORT_RESTRICTED]"

definition classification_of :: "string \<Rightarrow> data_classification option" where
  "classification_of v = List.find (\<lambda>k. classification_value k = v) all_classifications"

section \<open>Resolution\<close>

definition session_idle_timeout :: int where
  "session_idle_timeout = minutes (8 * 60)"

definition assignment_active_at :: "uuid \<Rightarrow> uuid \<Rightarrow> instant \<Rightarrow> case_assignment_row \<Rightarrow> bool" where
  "assignment_active_at tid mid now r =
     (ca_tenant_id r = tid \<and> ca_membership_id r = mid \<and> ca_state r = ''ACTIVE''
      \<and> ca_starts_at r \<le> now \<and> (case ca_ends_at r of None \<Rightarrow> True | Some e \<Rightarrow> e > now))"

text \<open>The scope of one row, or nothing when no action or no classification of it is known.\<close>

definition scope_of_row :: "case_assignment_row \<Rightarrow> assignment_scope list" where
  "scope_of_row r =
     (let actions = filter (\<lambda>a. a \<in> set capability_values) (ca_scope_actions r);
          classes = List.map_filter classification_of (ca_scope_classifications r) in
      if actions \<noteq> [] \<and> classes \<noteq> [] then
        [\<lparr> scope_case_id = ca_case_id r, scope_allowed_actions = set actions,
           scope_allowed_classifications = set classes \<rparr>]
      else [])"

definition active_assignment_scopes ::
  "security_db \<Rightarrow> uuid \<Rightarrow> uuid \<Rightarrow> actor_kind \<Rightarrow> instant \<Rightarrow> assignment_scope list" where
  "active_assignment_scopes db tid mid kind now =
     (if kind \<noteq> COLLABORATEUR then []
      else concat (map scope_of_row (filter (assignment_active_at tid mid now) (case_assignments db))))"

definition session_join ::
  "security_db \<Rightarrow> access_token_claims \<Rightarrow> (auth_session_row \<times> membership_row \<times> identity_row) list" where
  "session_join db cl =
     [(s, m, i). s \<leftarrow> auth_sessions db, m \<leftarrow> memberships db, i \<leftarrow> identities db,
        mb_id m = as_membership_id s \<and> mb_tenant_id m = as_tenant_id s \<and> mb_identity_id m = as_identity_id s
        \<and> id_id i = as_identity_id s
        \<and> as_id s = jc_session_id cl \<and> as_identity_id s = jc_subject cl
        \<and> as_token_version s = jc_token_version cl]"

definition session_is_active ::
  "instant \<Rightarrow> auth_session_row \<Rightarrow> membership_row \<Rightarrow> identity_row \<Rightarrow> bool" where
  "session_is_active now s m i =
     (as_state s = ''ACTIVE'' \<and> mb_state m = ''ACTIVE'' \<and> id_lifecycle i = ''ACTIVE''
      \<and> now < as_expires_at s \<and> now < as_absolute_expires_at s)"

text \<open>
  \<open>resolve\<close> after the token was decoded, in one committed transaction: the new tables and the
  context, or \<open>None\<close> for \<open>UnauthenticatedError\<close>, which is raised after the commit. \<open>correlation\<close>
  is the fresh \<open>uuid4()\<close>.
\<close>

definition resolve_claims ::
  "uuid \<Rightarrow> instant \<Rightarrow> access_token_claims \<Rightarrow> security_db \<Rightarrow> actor_context option \<times> security_db" where
  "resolve_claims correlation now cl db =
     (case session_join db cl of
        (s, m, i) # _ \<Rightarrow>
          (if \<not> session_is_active now s m i then
             (None, if as_state s = ''ACTIVE'' \<and> now \<ge> as_expires_at s
                    then db\<lparr> auth_sessions := update_where (\<lambda>r. as_id r = as_id s)
                               (\<lambda>r. r\<lparr> as_state := ''EXPIRED'' \<rparr>) (auth_sessions db) \<rparr>
                    else db)
           else
             (let db1 = db\<lparr> auth_sessions := update_where (\<lambda>r. as_id r = as_id s)
                    (\<lambda>r. r\<lparr> as_last_seen_at := now,
                            as_expires_at := min (now + session_idle_timeout) (as_absolute_expires_at s) \<rparr>)
                    (auth_sessions db) \<rparr> in
              case actor_kind_of (mb_role m) of
                None \<Rightarrow> (None, db1)
              | Some kind \<Rightarrow>
                 (let scopes = active_assignment_scopes db (mb_tenant_id m) (mb_id m) kind now in
                  (Some \<lparr> a_actor_id = id_id i, a_identity_id = id_id i, a_tenant_id = mb_tenant_id m,
                          a_membership_id = mb_id m, a_actor_kind = kind,
                          a_membership_state = Member_ACTIVE, a_capabilities = capabilities_for kind [],
                          a_assigned_case_ids = set (map scope_case_id scopes),
                          a_session_id = Some (as_id s), a_authenticated_at = as_issued_at s,
                          a_mfa_verified_at = as_mfa_verified_at s, a_correlation_id = correlation,
                          a_assignment_scopes = scopes \<rparr>, db1))))
      | [] \<Rightarrow> (None, db))"

definition resolve ::
  "(string \<Rightarrow> string option option) \<Rightarrow> (string \<Rightarrow> string \<Rightarrow> access_token_claims option)
   \<Rightarrow> jwt_codec \<Rightarrow> uuid \<Rightarrow> instant \<Rightarrow> string \<Rightarrow> security_db \<Rightarrow> actor_context option \<times> security_db" where
  "resolve header_kid verify codec correlation now token db =
     (case jwt_decode header_kid verify codec now token of
        None \<Rightarrow> (None, db)
      | Some cl \<Rightarrow> resolve_claims correlation now cl db)"

section \<open>What a resolved context stands for\<close>

lemma jwt_decode_Some:
  "jwt_decode header_kid verify codec now token = Some cl \<longleftrightarrow>
     (\<exists>kid key. header_kid token = Some kid
        \<and> verification_keys codec (case kid of None \<Rightarrow> signing_key_id codec | Some k \<Rightarrow> k) = Some key
        \<and> verify token key = Some cl
        \<and> 1 \<le> jc_token_version cl \<and> jc_issued_at cl \<le> now \<and> now < jc_expires_at cl)"
  by (auto simp: jwt_decode_def not_le not_less split: option.splits)

lemma session_join_in:
  "(s, m, i) \<in> set (session_join db cl) \<longleftrightarrow>
     s \<in> set (auth_sessions db) \<and> m \<in> set (memberships db) \<and> i \<in> set (identities db)
     \<and> mb_id m = as_membership_id s \<and> mb_tenant_id m = as_tenant_id s \<and> mb_identity_id m = as_identity_id s
     \<and> id_id i = as_identity_id s \<and> as_id s = jc_session_id cl \<and> as_identity_id s = jc_subject cl
     \<and> as_token_version s = jc_token_version cl"
  by (auto simp: session_join_def)

lemma resolve_claims_Some:
  assumes "resolve_claims correlation now cl db = (Some c, db')"
  obtains s m i kind where
    "(s, m, i) \<in> set (session_join db cl)" "session_is_active now s m i"
    "actor_kind_of (mb_role m) = Some kind"
    "a_actor_id c = id_id i" "a_tenant_id c = mb_tenant_id m" "a_membership_id c = mb_id m"
    "a_actor_kind c = kind" "a_membership_state c = Member_ACTIVE" "a_capabilities c = capabilities_for kind []"
    "a_mfa_verified_at c = as_mfa_verified_at s"
    "a_assignment_scopes c = active_assignment_scopes db (mb_tenant_id m) (mb_id m) kind now"
    "db' = db\<lparr> auth_sessions := update_where (\<lambda>r. as_id r = as_id s)
                    (\<lambda>r. r\<lparr> as_last_seen_at := now,
                            as_expires_at := min (now + session_idle_timeout) (as_absolute_expires_at s) \<rparr>)
                    (auth_sessions db) \<rparr>"
proof -
  obtain s m i rest where j: "session_join db cl = (s, m, i) # rest"
    using assms by (cases "session_join db cl") (auto simp: resolve_claims_def)
  then have act: "session_is_active now s m i"
    using assms by (auto simp: resolve_claims_def split: if_splits)
  with assms j obtain kind where k: "actor_kind_of (mb_role m) = Some kind"
    by (cases "actor_kind_of (mb_role m)") (auto simp: resolve_claims_def Let_def)
  have mem: "(s, m, i) \<in> set (session_join db cl)" using j by simp
  show thesis
    by (rule that [OF mem act k]) (use assms in \<open>auto simp: resolve_claims_def Let_def j act k\<close>)
qed

lemma map_filter_set: "y \<in> set (List.map_filter f xs) \<longleftrightarrow> (\<exists>x \<in> set xs. f x = Some y)"
  by (auto simp: List.map_filter_def) force

lemma classification_of_Some: "classification_of v = Some k \<longleftrightarrow> v = classification_value k"
  by (cases k) (auto simp: classification_of_def all_classifications_def split: if_splits)

lemma actor_kind_of_Some: "actor_kind_of v = Some k \<longleftrightarrow> v = actor_kind_value k"
  by (cases k) (auto simp: actor_kind_of_def all_actor_kinds_def split: if_splits)

lemma scope_of_row_in:
  "sc \<in> set (scope_of_row r) \<Longrightarrow>
     scope_case_id sc = ca_case_id r
     \<and> scope_allowed_actions sc = set (ca_scope_actions r) \<inter> set capability_values
     \<and> scope_allowed_classifications sc = {k. classification_value k \<in> set (ca_scope_classifications r)}"
  by (auto simp: scope_of_row_def Let_def map_filter_set classification_of_Some split: if_splits)

lemma active_scope_row:
  assumes "assignment_scope_for cid c = Some sc"
    and "a_assignment_scopes c = active_assignment_scopes db tid mid kind now"
  obtains r where "r \<in> set (case_assignments db)" "assignment_active_at tid mid now r" "ca_case_id r = cid"
    "scope_allowed_actions sc = set (ca_scope_actions r) \<inter> set capability_values"
    "scope_allowed_classifications sc = {k. classification_value k \<in> set (ca_scope_classifications r)}"
proof -
  have sc: "sc \<in> set (active_assignment_scopes db tid mid kind now)" and cid: "scope_case_id sc = cid"
    using assms find_Some_in [of "\<lambda>s. scope_case_id s = cid" "a_assignment_scopes c" sc]
    by (auto simp: assignment_scope_for_def)
  then obtain r where r: "r \<in> set (case_assignments db)" "assignment_active_at tid mid now r" "sc \<in> set (scope_of_row r)"
    by (auto simp: active_assignment_scopes_def split: if_splits)
  from that [OF r(1,2)] scope_of_row_in [OF r(3)] cid show thesis by simp
qed

lemma resolve_Some:
  assumes "resolve header_kid verify codec correlation now token db = (Some c, db')"
  obtains cl where "jwt_decode header_kid verify codec now token = Some cl"
    "resolve_claims correlation now cl db = (Some c, db')"
  using assms by (auto simp: resolve_def split: option.splits)

section \<open>Sessions over time\<close>

text \<open>What one resolution may do to a session row.\<close>

definition session_step :: "instant \<Rightarrow> auth_session_row \<Rightarrow> auth_session_row \<Rightarrow> bool" where
  "session_step now s s' =
     (s' = s
      \<or> as_state s = ''ACTIVE'' \<and> as_expires_at s \<le> now \<and> s' = s\<lparr> as_state := ''EXPIRED'' \<rparr>
      \<or> as_state s = ''ACTIVE'' \<and> now < as_expires_at s \<and> now < as_absolute_expires_at s
        \<and> s' = s\<lparr> as_last_seen_at := now,
                  as_expires_at := min (now + session_idle_timeout) (as_absolute_expires_at s) \<rparr>)"

lemma update_where_all2:
  assumes "distinct (map as_id ss)" "s \<in> set ss" "session_step now s (f s)"
  shows "list_all2 (session_step now) ss (update_where (\<lambda>r. as_id r = as_id s) f ss)"
proof -
  have "session_step now r (if as_id r = as_id s then f r else r)" if "r \<in> set ss" for r
  proof (cases "as_id r = as_id s")
    case True
    then have "r = s" using assms(1,2) that by (auto simp: distinct_map inj_on_def)
    then show ?thesis using assms(3) by simp
  next
    case False
    then show ?thesis by (simp add: session_step_def)
  qed
  then show ?thesis by (simp add: update_where_def list_all2_conv_all_nth)
qed

lemma list_all2_session_refl: "list_all2 (session_step now) ss ss"
  by (rule list.rel_refl) (simp add: session_step_def)

lemma resolve_claims_sessions:
  assumes "distinct (map as_id (auth_sessions db))" "resolve_claims correlation now cl db = (r, db')"
  shows "list_all2 (session_step now) (auth_sessions db) (auth_sessions db')"
proof (cases "session_join db cl")
  case Nil
  then show ?thesis using assms(2) list_all2_session_refl by (auto simp: resolve_claims_def)
next
  case (Cons smi rest)
  obtain s m i where smi: "smi = (s, m, i)" by (cases smi)
  then have "(s, m, i) \<in> set (session_join db cl)" using Cons by simp
  then have s: "s \<in> set (auth_sessions db)" by (simp only: session_join_in)
  show ?thesis
  proof (cases "session_is_active now s m i")
    case True
    then have "auth_sessions db' = update_where (\<lambda>r. as_id r = as_id s)
        (\<lambda>r. r\<lparr> as_last_seen_at := now, as_expires_at := min (now + session_idle_timeout) (as_absolute_expires_at s) \<rparr>)
        (auth_sessions db)"
      using assms(2) Cons smi by (auto simp: resolve_claims_def Let_def split: option.splits)
    then show ?thesis
      using True by (simp only:) (rule update_where_all2 [OF assms(1) s], simp add: session_step_def session_is_active_def)
  next
    case inactive: False
    show ?thesis
    proof (cases "as_state s = ''ACTIVE'' \<and> now \<ge> as_expires_at s")
      case True
      then have "auth_sessions db' = update_where (\<lambda>r. as_id r = as_id s) (\<lambda>r. r\<lparr> as_state := ''EXPIRED'' \<rparr>)
          (auth_sessions db)"
        using assms(2) Cons smi inactive by (auto simp: resolve_claims_def)
      then show ?thesis
        using True by (simp only:) (rule update_where_all2 [OF assms(1) s], simp add: session_step_def)
    next
      case False
      then have "db' = db" using assms(2) Cons smi inactive by (auto simp: resolve_claims_def)
      then show ?thesis using list_all2_session_refl by simp
    qed
  qed
qed

text \<open>A sequence of resolutions at given instants, each with its token's claims.\<close>

fun resolve_run :: "(uuid \<times> instant \<times> access_token_claims) list \<Rightarrow> security_db \<Rightarrow> security_db" where
  "resolve_run [] db = db"
| "resolve_run ((u, now, cl) # rs) db = resolve_run rs (snd (resolve_claims u now cl db))"

text \<open>How a session row may stand after any number of resolutions.\<close>

definition session_history :: "auth_session_row \<Rightarrow> auth_session_row \<Rightarrow> bool" where
  "session_history s s' =
     (as_id s' = as_id s \<and> as_tenant_id s' = as_tenant_id s \<and> as_membership_id s' = as_membership_id s
      \<and> as_identity_id s' = as_identity_id s \<and> as_token_version s' = as_token_version s
      \<and> as_absolute_expires_at s' = as_absolute_expires_at s
      \<and> (as_expires_at s \<le> as_absolute_expires_at s \<longrightarrow> as_expires_at s' \<le> as_absolute_expires_at s)
      \<and> (as_state s \<noteq> ''ACTIVE'' \<longrightarrow> s' = s)
      \<and> as_state s' \<in> {as_state s, ''EXPIRED''})"

lemma session_history_refl: "session_history s s"
  by (simp add: session_history_def)

lemma session_history_step: "session_history s s' \<Longrightarrow> session_step now s' s'' \<Longrightarrow> session_history s s''"
  by (auto simp: session_history_def session_step_def)

lemma resolve_run_history:
  assumes "distinct (map as_id (auth_sessions db))" "list_all2 session_history ss (auth_sessions db)"
  shows "list_all2 session_history ss (auth_sessions (resolve_run rs db))"
  using assms
proof (induction rs arbitrary: db)
  case Nil
  then show ?case by simp
next
  case (Cons r rs)
  obtain u now cl where r: "r = (u, now, cl)" by (cases r)
  let ?db = "snd (resolve_claims u now cl db)"
  have step: "list_all2 (session_step now) (auth_sessions db) (auth_sessions ?db)"
    using resolve_claims_sessions [OF Cons.prems(1) surjective_pairing] .
  then have "list_all2 (\<lambda>s s'. as_id s = as_id s') (auth_sessions db) (auth_sessions ?db)"
    by (rule list.rel_mono_strong) (auto simp: session_step_def)
  then have "map as_id (auth_sessions ?db) = map as_id (auth_sessions db)"
    by (simp add: list_all2_conv_all_nth list_eq_iff_nth_eq)
  then have "distinct (map as_id (auth_sessions ?db))" using Cons.prems(1) by simp
  moreover have "list_all2 session_history ss (auth_sessions ?db)"
    using Cons.prems(2) step by (rule list_all2_trans [rotated]) (rule session_history_step)
  ultimately show ?case using Cons.IH r by simp
qed

section \<open>Properties\<close>

text \<open>
  C35. A context is resolved only from current server state: the token verified under a known
  key with fresh claims, and the session it names is of the token's subject and version,
  ACTIVE, and before both of its expiries, its membership and identity are ACTIVE now, and the
  tenant, the role and the capabilities come from the membership row, never from the token.
\<close>

theorem context_reflects_server_state:
  assumes "resolve header_kid verify codec correlation now token db = (Some c, db')"
  shows "\<exists>s \<in> set (auth_sessions db). \<exists>m \<in> set (memberships db). \<exists>i \<in> set (identities db).
     \<exists>cl kind. jwt_decode header_kid verify codec now token = Some cl
       \<and> jc_issued_at cl \<le> now \<and> now < jc_expires_at cl
       \<and> as_id s = jc_session_id cl \<and> as_identity_id s = jc_subject cl \<and> as_token_version s = jc_token_version cl
       \<and> as_state s = ''ACTIVE'' \<and> now < as_expires_at s \<and> now < as_absolute_expires_at s
       \<and> mb_id m = as_membership_id s \<and> mb_tenant_id m = as_tenant_id s \<and> mb_state m = ''ACTIVE''
       \<and> id_id i = jc_subject cl \<and> id_lifecycle i = ''ACTIVE''
       \<and> a_tenant_id c = mb_tenant_id m \<and> a_membership_id c = mb_id m \<and> a_actor_id c = id_id i
       \<and> mb_role m = actor_kind_value kind \<and> a_actor_kind c = kind
       \<and> a_capabilities c = capabilities_for kind []"
proof -
  from assms obtain cl where cl: "jwt_decode header_kid verify codec now token = Some cl"
    "resolve_claims correlation now cl db = (Some c, db')" by (rule resolve_Some)
  from cl(2) show ?thesis
  proof (rule resolve_claims_Some)
    fix s m i kind
    assume j: "(s, m, i) \<in> set (session_join db cl)" and act: "session_is_active now s m i"
      and k: "actor_kind_of (mb_role m) = Some kind"
      and fields: "a_actor_id c = id_id i" "a_tenant_id c = mb_tenant_id m" "a_membership_id c = mb_id m"
      "a_actor_kind c = kind" "a_capabilities c = capabilities_for kind []"
    from j have rows: "s \<in> set (auth_sessions db)" "m \<in> set (memberships db)" "i \<in> set (identities db)"
      by (simp_all only: session_join_in)
    from cl(1) have fresh: "jc_issued_at cl \<le> now \<and> now < jc_expires_at cl" by (auto simp: jwt_decode_Some)
    show ?thesis
      by (intro bexI [OF _ rows(1)] bexI [OF _ rows(2)] bexI [OF _ rows(3)] exI [of _ cl] exI [of _ kind])
        (use cl(1) j act k fields fresh in
          \<open>simp add: session_join_in session_is_active_def actor_kind_of_Some\<close>)
  qed
qed

definition ex_security_db :: security_db where
  "ex_security_db = \<lparr>
     auth_sessions = [\<lparr> as_id = 12, as_tenant_id = 1, as_membership_id = 11, as_identity_id = 10, as_token_version = 1,
       as_state = ''ACTIVE'', as_issued_at = 0, as_expires_at = 1000, as_absolute_expires_at = 5000,
       as_last_seen_at = 0, as_mfa_verified_at = None \<rparr>],
     memberships = [\<lparr> mb_id = 11, mb_tenant_id = 1, mb_identity_id = 10, mb_role = ''COLLABORATEUR'', mb_state = ''ACTIVE'' \<rparr>],
     identities = [\<lparr> id_id = 10, id_lifecycle = ''ACTIVE'' \<rparr>],
     case_assignments = [\<lparr> ca_id = 30, ca_tenant_id = 1, ca_membership_id = 11, ca_case_id = 40, ca_state = ''ACTIVE'',
       ca_aggregate_revision = 0, ca_scope_actions = [''dce.prepare''],
       ca_scope_classifications = [''PUBLIC_TENDER''], ca_granted_by_membership_id = 9, ca_granted_at = 0,
       ca_starts_at = 0, ca_ends_at = None, ca_ended_at = None \<rparr>] \<rparr>"

definition ex_claims :: access_token_claims where
  "ex_claims = \<lparr> jc_subject = 10, jc_session_id = 12, jc_token_version = 1, jc_issued_at = 50,
     jc_expires_at = 200, jc_token_id = 77 \<rparr>"

definition ex_codec :: jwt_codec where
  "ex_codec = \<lparr> signing_key_id = ''active'', verification_keys = [''active'' \<mapsto> ''k''] \<rparr>"

definition ex_scope :: assignment_scope where
  "ex_scope = \<lparr> scope_case_id = 40, scope_allowed_actions = {''dce.prepare''}, scope_allowed_classifications = {PUBLIC_TENDER} \<rparr>"

definition ex_collaborator :: actor_context where
  "ex_collaborator = \<lparr> a_actor_id = 10, a_identity_id = 10, a_tenant_id = 1, a_membership_id = 11,
     a_actor_kind = COLLABORATEUR, a_membership_state = Member_ACTIVE,
     a_capabilities = capabilities_for COLLABORATEUR [], a_assigned_case_ids = {40}, a_session_id = Some 12,
     a_authenticated_at = 0, a_mfa_verified_at = None, a_correlation_id = 99, a_assignment_scopes = [ex_scope] \<rparr>"

lemma ex_resolved:
  "\<exists>db'. resolve (\<lambda>_. Some None) (\<lambda>_ _. Some ex_claims) ex_codec 99 100 ''token'' ex_security_db = (Some ex_collaborator, db')"
  by (simp add: resolve_def jwt_decode_def ex_codec_def ex_claims_def resolve_claims_def session_join_def
      ex_security_db_def session_is_active_def actor_kind_of_def all_actor_kinds_def active_assignment_scopes_def
      assignment_active_at_def scope_of_row_def capability_values_def classification_of_def List.map_filter_def
      all_classifications_def ex_collaborator_def ex_scope_def Let_def)

theorem context_reflects_server_state_witness:
  "\<exists>m \<in> set (memberships ex_security_db). mb_state m = ''ACTIVE'' \<and> mb_role m = ''COLLABORATEUR''"
proof -
  obtain db' where r: "resolve (\<lambda>_. Some None) (\<lambda>_ _. Some ex_claims) ex_codec 99 100 ''token'' ex_security_db
      = (Some ex_collaborator, db')" using ex_resolved by blast
  from context_reflects_server_state [OF r] show ?thesis by (auto simp: ex_security_db_def)
qed

text \<open>
  C21. A collaborator acts only under a live assignment. When the policy allows a request of an
  actor resolved as COLLABORATEUR, the assignment table holds, at that instant, a row of the
  same tenant and membership, on the Case of the resource, ACTIVE and within its dates, whose
  stored scope names the action and the classification.
\<close>

theorem collaborator_needs_live_assignment:
  assumes "resolve header_kid verify codec correlation now token db = (Some c, db')"
    and "a_actor_kind c = COLLABORATEUR" and "z_allowed (authorize c q)"
  shows "\<exists>r \<in> set (case_assignments db).
     ca_tenant_id r = z_tenant_id (q_resource q) \<and> ca_membership_id r = a_membership_id c
     \<and> z_case_id (q_resource q) = Some (ca_case_id r) \<and> ca_state r = ''ACTIVE'' \<and> ca_starts_at r \<le> now
     \<and> (\<forall>e. ca_ends_at r = Some e \<longrightarrow> now < e)
     \<and> q_action q \<in> set (ca_scope_actions r)
     \<and> classification_value (z_classification (q_resource q)) \<in> set (ca_scope_classifications r)"
proof -
  from assms(1) obtain cl where cl: "resolve_claims correlation now cl db = (Some c, db')" by (rule resolve_Some)
  from assms(2,3) obtain cid sc where sc: "z_case_id (q_resource q) = Some cid" "assignment_scope_for cid c = Some sc"
    "q_action q \<in> scope_allowed_actions sc" "z_classification (q_resource q) \<in> scope_allowed_classifications sc"
    and ten: "a_tenant_id c = z_tenant_id (q_resource q)"
    by (auto simp: authorize_allowed allowed_by_rules_def Let_def)
  from cl show ?thesis
  proof (rule resolve_claims_Some)
    fix s m i kind
    assume t: "a_tenant_id c = mb_tenant_id m" "a_membership_id c = mb_id m"
      and scopes: "a_assignment_scopes c = active_assignment_scopes db (mb_tenant_id m) (mb_id m) kind now"
    from active_scope_row [OF sc(2) scopes] obtain r where
      r: "r \<in> set (case_assignments db)" "assignment_active_at (mb_tenant_id m) (mb_id m) now r" "ca_case_id r = cid"
      "scope_allowed_actions sc = set (ca_scope_actions r) \<inter> set capability_values"
      "scope_allowed_classifications sc = {k. classification_value k \<in> set (ca_scope_classifications r)}" by blast
    from r(2) show ?thesis
      by (intro bexI [OF _ r(1)]) (use r(3-5) sc t ten in \<open>auto simp: assignment_active_at_def split: option.splits\<close>)
  qed
qed

definition ex_prepare :: authorization_request where
  "ex_prepare = \<lparr> q_action = ''dce.prepare'',
     q_resource = \<lparr> z_resource_type = ''DCE_VERSION'', z_resource_id = 50, z_tenant_id = 1,
                   z_classification = PUBLIC_TENDER, z_case_id = Some 40 \<rparr>,
     q_mfa_required = False, q_evaluated_at = None \<rparr>"

theorem collaborator_needs_live_assignment_witness:
  "\<exists>r \<in> set (case_assignments ex_security_db). ca_case_id r = 40 \<and> ''dce.prepare'' \<in> set (ca_scope_actions r)"
proof -
  obtain db' where r: "resolve (\<lambda>_. Some None) (\<lambda>_ _. Some ex_claims) ex_codec 99 100 ''token'' ex_security_db
      = (Some ex_collaborator, db')" using ex_resolved by blast
  have "z_allowed (authorize ex_collaborator ex_prepare)"
    by (simp add: authorize_allowed allowed_by_rules_def ex_collaborator_def ex_prepare_def
        collaborator_capabilities_def assignment_scope_for_def ex_scope_def)
  from collaborator_needs_live_assignment [OF r _ this] show ?thesis
    by (auto simp: ex_collaborator_def ex_prepare_def)
qed

text \<open>
  Sessions only shrink: through any sequence of resolutions a session row keeps its
  identity, tenant, membership, version and absolute expiry, its idle expiry never passes the
  absolute one, the only state it can move to is EXPIRED, and a row that is not ACTIVE is never
  touched again.
\<close>

theorem session_history_bounded:
  assumes "distinct (map as_id (auth_sessions db))"
  shows "list_all2 session_history (auth_sessions db) (auth_sessions (resolve_run rs db))"
  by (rule resolve_run_history [OF assms]) (rule list.rel_refl, rule session_history_refl)

theorem session_history_bounded_witness:
  "list_all2 session_history (auth_sessions ex_security_db)
     (auth_sessions (resolve_run [(1, 100, ex_claims), (2, 9000, ex_claims)] ex_security_db))"
  by (rule session_history_bounded) (simp add: ex_security_db_def)

end
