(* ===== verification/Assignments.thy ===== *)
theory Assignments
  imports Dispatcher Sessions
begin

text \<open>
  Case assignments, \<open>backend/app/modules/membership\<close>: the patron's management commands
  (\<open>application/patron_assignment_handler.py\<close>), the collaborator's three interactions
  (\<open>application/assignment_handler.py\<close>) and the scope vocabulary of the commands
  (\<open>backend/app/modules/dce/application/commands.py\<close>), over the assignment tables of
  \<open>backend/app/platform/security/models.py\<close>. The assignment rows are the ones \<open>Sessions\<close>
  resolves collaborators from.

  A \<open>Literal\<close> type of a command is a datatype (\<open>scope_action\<close>); the single classification of
  the vocabulary needs none. The invariants are in \<open>AssignmentHistory\<close>.
\<close>

section \<open>The scope vocabulary\<close>

datatype scope_action =
    Scope_case_dce_read | Scope_requirement_confirm | Scope_document_read | Scope_preparation_transmit
  | Scope_acknowledge | Scope_clarify | Scope_history_read | Scope_unavailability

fun scope_action_value :: "scope_action \<Rightarrow> string" where
  "scope_action_value Scope_case_dce_read = ''case.dce.read''"
| "scope_action_value Scope_requirement_confirm = ''dce.requirement.confirm''"
| "scope_action_value Scope_document_read = ''document.administrative.read''"
| "scope_action_value Scope_preparation_transmit = ''preparation.transmit''"
| "scope_action_value Scope_acknowledge = ''assignment.acknowledge''"
| "scope_action_value Scope_clarify = ''assignment.clarify''"
| "scope_action_value Scope_history_read = ''assignment.history.read''"
| "scope_action_value Scope_unavailability = ''assignment.unavailability''"

definition scope_vocabulary :: "string list" where
  "scope_vocabulary = map scope_action_value
     [Scope_case_dce_read, Scope_requirement_confirm, Scope_document_read, Scope_preparation_transmit,
      Scope_acknowledge, Scope_clarify, Scope_history_read, Scope_unavailability]"

text \<open>\<open>validate_and_canonicalize_scope\<close>: the sorted actions, or \<open>None\<close> for the validation error.\<close>

definition canonicalize_scope :: "scope_action list \<Rightarrow> string list option" where
  "canonicalize_scope actions =
     (if actions = [] \<or> 8 < length actions \<or> \<not> distinct actions then None
      else Some (sort (map scope_action_value actions)))"

text \<open>A scope as a command carries it after validation.\<close>

typedef command_scope = "{xs. \<exists>actions. canonicalize_scope actions = Some xs}"
  morphisms scope_actions_of Command_scope
  by (rule exI [of _ "sort (map scope_action_value [Scope_acknowledge])"])
    (auto simp: canonicalize_scope_def intro!: exI [of _ "[Scope_acknowledge]"])

section \<open>Tables\<close>

record case_row =
  cr_id :: uuid
  cr_tenant_id :: uuid
  cr_lifecycle :: string
  cr_aggregate_revision :: int

record change_row =
  ch_id :: uuid
  ch_tenant_id :: uuid
  ch_assignment_id :: uuid
  ch_case_id :: uuid
  ch_target_membership_id :: uuid
  ch_author_membership_id :: uuid
  ch_event_type :: string
  ch_previous_revision :: "int option"
  ch_resulting_revision :: int
  ch_previous_state :: "string option"
  ch_resulting_state :: string
  ch_reason_code :: "string option"
  ch_previous_scope :: "(string list \<times> string list) option"
  ch_resulting_scope :: "string list \<times> string list"
  ch_command_id :: uuid
  ch_correlation_id :: "uuid option"

record acknowledgement_row =
  ak_id :: uuid
  ak_tenant_id :: uuid
  ak_assignment_id :: uuid
  ak_actor_id :: uuid
  ak_membership_id :: uuid
  ak_assignment_revision :: int
  ak_note :: "string option"
  ak_command_id :: uuid
  ak_correlation_id :: "uuid option"

record clarification_row =
  cl_id :: uuid
  cl_tenant_id :: uuid
  cl_assignment_id :: uuid
  cl_case_id :: uuid
  cl_actor_id :: uuid
  cl_membership_id :: uuid
  cl_kind :: string
  cl_subject :: string
  cl_question :: string
  cl_requested_scope :: "string option"
  cl_priority :: string
  cl_state :: string
  cl_functional_key :: string
  cl_command_id :: uuid
  cl_correlation_id :: "uuid option"

record unavailability_row =
  un_id :: uuid
  un_tenant_id :: uuid
  un_assignment_id :: uuid
  un_actor_id :: uuid
  un_membership_id :: uuid
  un_assignment_revision :: int
  un_reason_kind :: string
  un_reason :: string
  un_from :: instant
  un_until :: "instant option"
  un_known_deadline_impact :: bool
  un_impact_note :: "string option"
  un_command_id :: uuid
  un_correlation_id :: "uuid option"

record validation_row =
  vd_id :: uuid
  vd_tenant_id :: uuid
  vd_assignment_id :: uuid
  vd_case_id :: uuid
  vd_interaction_id :: uuid
  vd_interaction_kind :: string
  vd_validation_code :: string
  vd_patron_membership_id :: uuid
  vd_command_id :: uuid
  vd_correlation_id :: "uuid option"

record asg_tables =
  at_cases :: "case_row list"
  at_memberships :: "membership_row list"
  at_assignments :: "case_assignment_row list"
  at_changes :: "change_row list"
  at_acknowledgements :: "acknowledgement_row list"
  at_clarifications :: "clarification_row list"
  at_unavailabilities :: "unavailability_row list"
  at_validations :: "validation_row list"

definition is_open_state :: "string \<Rightarrow> bool" where
  "is_open_state s = (s \<in> {''ACTIVE'', ''SUSPENDED''})"

text \<open>Primary key and the partial unique index \<open>ux_assignments__open_member_case\<close>.\<close>

definition ca_clash :: "case_assignment_row \<Rightarrow> case_assignment_row \<Rightarrow> bool" where
  "ca_clash r r' =
     (ca_id r = ca_id r'
      \<or> is_open_state (ca_state r) \<and> is_open_state (ca_state r')
        \<and> (ca_tenant_id r, ca_membership_id r, ca_case_id r) = (ca_tenant_id r', ca_membership_id r', ca_case_id r'))"

definition ca_check :: "case_assignment_row \<Rightarrow> bool" where
  "ca_check r =
     (ca_state r \<in> {''ACTIVE'', ''SUSPENDED'', ''ENDED'', ''EXPIRED''}
      \<and> ca_scope_actions r \<noteq> [] \<and> ca_scope_classifications r \<noteq> []
      \<and> (case ca_ends_at r of None \<Rightarrow> True | Some e \<Rightarrow> ca_starts_at r < e)
      \<and> (is_open_state (ca_state r) \<longleftrightarrow> ca_ended_at r = None)
      \<and> 0 \<le> ca_aggregate_revision r)"

definition ch_clash :: "change_row \<Rightarrow> change_row \<Rightarrow> bool" where
  "ch_clash r r' = (ch_id r = ch_id r')"

definition ch_check :: "change_row \<Rightarrow> bool" where
  "ch_check r =
     (ch_event_type r \<in> {''ASSIGNMENT_CREATED'', ''ASSIGNMENT_SCOPE_AMENDED'', ''ASSIGNMENT_SUSPENDED'',
        ''ASSIGNMENT_REACTIVATED'', ''ASSIGNMENT_ENDED''}
      \<and> 0 \<le> ch_resulting_revision r
      \<and> (case ch_previous_revision r of
           None \<Rightarrow> ch_event_type r = ''ASSIGNMENT_CREATED'' \<and> ch_resulting_revision r = 0
         | Some p \<Rightarrow> 0 \<le> p \<and> ch_event_type r \<noteq> ''ASSIGNMENT_CREATED'' \<and> ch_resulting_revision r = p + 1)
      \<and> fst (ch_resulting_scope r) \<noteq> [] \<and> snd (ch_resulting_scope r) \<noteq> []
      \<and> (case ch_reason_code r of None \<Rightarrow> True | Some c \<Rightarrow> c \<in>
          {''PATRON_SUSPENDED'', ''WORKLOAD_REALLOCATION'', ''CASE_PAUSED'', ''ACCESS_REVIEW'', ''PATRON_ENDED'',
           ''CASE_STOPPED'', ''CASE_ARCHIVED'', ''COLLABORATOR_UNAVAILABLE'', ''MEMBERSHIP_REVOKED'',
           ''PATRON_REACTIVATED'', ''CASE_RESUMED'', ''ACCESS_REVIEW_CLEARED''}))"

definition ak_clash :: "acknowledgement_row \<Rightarrow> acknowledgement_row \<Rightarrow> bool" where
  "ak_clash r r' =
     (ak_id r = ak_id r'
      \<or> (ak_tenant_id r, ak_assignment_id r, ak_actor_id r, ak_assignment_revision r)
        = (ak_tenant_id r', ak_assignment_id r', ak_actor_id r', ak_assignment_revision r'))"

definition cl_clash :: "clarification_row \<Rightarrow> clarification_row \<Rightarrow> bool" where
  "cl_clash r r' =
     (cl_id r = cl_id r' \<or> (cl_tenant_id r, cl_functional_key r) = (cl_tenant_id r', cl_functional_key r'))"

definition cl_check :: "clarification_row \<Rightarrow> bool" where
  "cl_check r =
     (cl_kind r \<in> {''SCOPE'', ''PRIORITY'', ''DEADLINE'', ''DOCUMENT'', ''RESPONSIBILITY'', ''OTHER''}
      \<and> cl_priority r \<in> {''LOW'', ''NORMAL'', ''HIGH''} \<and> cl_state r = ''OPEN'')"

definition un_check :: "unavailability_row \<Rightarrow> bool" where
  "un_check r =
     (un_reason_kind r \<in> {''SICKNESS'', ''LEAVE'', ''CAPACITY_CONFLICT'', ''SKILL_GAP'', ''ACCESS_PROBLEM'', ''OTHER''}
      \<and> (case un_until r of None \<Rightarrow> True | Some u \<Rightarrow> un_from r < u)
      \<and> (un_known_deadline_impact r \<longrightarrow>
           (case un_impact_note r of None \<Rightarrow> False | Some n \<Rightarrow> list_ex (\<lambda>c. c \<noteq> CHR '' '') n))
      \<and> 0 \<le> un_assignment_revision r)"

definition vd_check :: "validation_row \<Rightarrow> bool" where
  "vd_check r = ((vd_interaction_kind r, vd_validation_code r) \<in>
     {(''ACKNOWLEDGEMENT'', ''ACKNOWLEDGEMENT_NOTED''), (''CLARIFICATION_REQUEST'', ''CLARIFICATION_NOTED''),
      (''UNAVAILABILITY_REPORT'', ''UNAVAILABILITY_NOTED'')})"

definition un_clash :: "unavailability_row \<Rightarrow> unavailability_row \<Rightarrow> bool" where
  "un_clash r r' = (un_id r = un_id r')"

definition vd_clash :: "validation_row \<Rightarrow> validation_row \<Rightarrow> bool" where
  "vd_clash r r' =
     (vd_id r = vd_id r'
      \<or> (vd_tenant_id r, vd_interaction_kind r, vd_interaction_id r)
        = (vd_tenant_id r', vd_interaction_kind r', vd_interaction_id r'))"

section \<open>Commands\<close>

record create_assignment_fields =
  af_assignment_id :: uuid
  af_case_id :: uuid
  af_target_membership_id :: uuid
  af_expected_case_revision :: int
  af_scope :: command_scope
  af_starts_at :: instant
  af_ends_at :: "instant option"

text \<open>The commands on an existing assignment carry its identifier and the expected revision.\<close>

datatype asg_command =
    CreateCaseAssignment create_assignment_fields
  | AmendCaseAssignmentScope uuid int command_scope
  | SuspendCaseAssignment uuid int string
  | ReactivateCaseAssignment uuid int string
  | EndCaseAssignment uuid int string
  | ValidateAssignmentInteraction uuid uuid string string
  | AcknowledgeAssignment uuid int "string option"
  | RequestAssignmentClarification uuid int string string string "string option" string
  | ReportAssignmentUnavailability uuid int string string instant "instant option" bool "string option"

fun asg_command_type :: "asg_command \<Rightarrow> string" where
  "asg_command_type (CreateCaseAssignment f) = ''CreateCaseAssignment''"
| "asg_command_type (AmendCaseAssignmentScope a r s) = ''AmendCaseAssignmentScope''"
| "asg_command_type (SuspendCaseAssignment a r c) = ''SuspendCaseAssignment''"
| "asg_command_type (ReactivateCaseAssignment a r c) = ''ReactivateCaseAssignment''"
| "asg_command_type (EndCaseAssignment a r c) = ''EndCaseAssignment''"
| "asg_command_type (ValidateAssignmentInteraction a i k v) = ''ValidateAssignmentInteraction''"
| "asg_command_type (AcknowledgeAssignment a r n) = ''AcknowledgeAssignment''"
| "asg_command_type (RequestAssignmentClarification a r k s q rs p) = ''RequestAssignmentClarification''"
| "asg_command_type (ReportAssignmentUnavailability a r k s f u d n) = ''ReportAssignmentUnavailability''"

section \<open>Lookups and outcomes\<close>

definition find_case :: "uuid \<Rightarrow> uuid \<Rightarrow> case_row list \<Rightarrow> case_row option" where
  "find_case tid cid rows = List.find (\<lambda>r. cr_tenant_id r = tid \<and> cr_id r = cid) rows"

definition find_membership :: "uuid \<Rightarrow> uuid \<Rightarrow> membership_row list \<Rightarrow> membership_row option" where
  "find_membership tid mid rows = List.find (\<lambda>r. mb_tenant_id r = tid \<and> mb_id r = mid) rows"

definition find_assignment :: "uuid \<Rightarrow> uuid \<Rightarrow> case_assignment_row list \<Rightarrow> case_assignment_row option" where
  "find_assignment tid aid rows = List.find (\<lambda>r. ca_tenant_id r = tid \<and> ca_id r = aid) rows"

definition case_mismatch :: "command_context \<Rightarrow> uuid \<Rightarrow> bool" where
  "case_mismatch ctx cid = (cc_case_id ctx \<noteq> None \<and> cc_case_id ctx \<noteq> Some cid)"

definition asg_ref :: "string \<Rightarrow> uuid \<Rightarrow> int \<Rightarrow> json" where
  "asg_ref atype u revn = JObj [(''aggregate_type'', JStr atype),
     (''aggregate_id'', JStr (uuid_str u)), (''aggregate_revision'', JInt revn)]"

definition asg_outcome ::
  "string \<Rightarrow> string \<Rightarrow> uuid \<Rightarrow> int \<Rightarrow> string \<Rightarrow> (string \<times> json) list \<Rightarrow> handler_outcome" where
  "asg_outcome rcode atype u revn etype payload = \<lparr> ho_result_code = rcode,
     ho_aggregate_refs = [asg_ref atype u revn],
     ho_events = [\<lparr> pe_aggregate_type = atype, pe_aggregate_id = u, pe_aggregate_revision = revn,
       pe_event_type = etype, pe_payload = payload, pe_topic = ''cockpit_projection'', pe_payload_version = 1 \<rparr>] \<rparr>"

definition scope_fingerprint :: "string list \<Rightarrow> string list \<Rightarrow> string" where
  "scope_fingerprint actions classes = sha256_hex (json_dumps (JObj
     [(''actions'', JList (map JStr actions)), (''classifications'', JList (map JStr classes))]))"

definition row_scope :: "case_assignment_row \<Rightarrow> string list \<times> string list" where
  "row_scope a = (ca_scope_actions a, ca_scope_classifications a)"

text \<open>The change event of an existing assignment that becomes \<open>a'\<close>.\<close>

definition change_of ::
  "'c app_command \<Rightarrow> command_context \<Rightarrow> uuid \<Rightarrow> uuid \<Rightarrow> string \<Rightarrow> string option
   \<Rightarrow> case_assignment_row \<Rightarrow> case_assignment_row \<Rightarrow> change_row" where
  "change_of c ctx mid u etype reason a a' = \<lparr> ch_id = u, ch_tenant_id = cc_tenant_id ctx,
     ch_assignment_id = ca_id a, ch_case_id = ca_case_id a, ch_target_membership_id = ca_membership_id a,
     ch_author_membership_id = mid, ch_event_type = etype,
     ch_previous_revision = Some (ca_aggregate_revision a' - 1), ch_resulting_revision = ca_aggregate_revision a',
     ch_previous_state = Some (ca_state a), ch_resulting_state = ca_state a', ch_reason_code = reason,
     ch_previous_scope = Some (row_scope a), ch_resulting_scope = row_scope a',
     ch_command_id = em_command_id c, ch_correlation_id = em_correlation_id c \<rparr>"

definition creation_change ::
  "'c app_command \<Rightarrow> uuid \<Rightarrow> uuid \<Rightarrow> case_assignment_row \<Rightarrow> change_row" where
  "creation_change c mid u a = \<lparr> ch_id = u, ch_tenant_id = ca_tenant_id a, ch_assignment_id = ca_id a,
     ch_case_id = ca_case_id a, ch_target_membership_id = ca_membership_id a, ch_author_membership_id = mid,
     ch_event_type = ''ASSIGNMENT_CREATED'', ch_previous_revision = None, ch_resulting_revision = 0,
     ch_previous_state = None, ch_resulting_state = ''ACTIVE'', ch_reason_code = None,
     ch_previous_scope = None, ch_resulting_scope = row_scope a,
     ch_command_id = em_command_id c, ch_correlation_id = em_correlation_id c \<rparr>"

text \<open>The flush of an updated row (its CHECK constraints) and of the new change event.\<close>

definition save_change ::
  "case_assignment_row \<Rightarrow> change_row \<Rightarrow> asg_tables \<Rightarrow> exn + asg_tables" where
  "save_change a' e b =
     (if \<not> ca_check a' then Inl IntegrityError
      else if \<not> ch_check e then Inl IntegrityError
      else (case add_row ch_clash e (at_changes b) of Inl x \<Rightarrow> Inl x | Inr rows \<Rightarrow>
        Inr (b\<lparr> at_assignments := update_where (\<lambda>r. ca_id r = ca_id a') (\<lambda>_. a') (at_assignments b),
                at_changes := rows \<rparr>)))"

section \<open>The patron's commands\<close>

definition internal_only :: "string list" where
  "internal_only = [''INTERNAL_OPERATIONAL'']"

definition new_assignment :: "create_assignment_fields \<Rightarrow> command_context \<Rightarrow> uuid \<Rightarrow> uuid \<Rightarrow> uuid \<Rightarrow> case_assignment_row" where
  "new_assignment f ctx mid target cid = \<lparr> ca_id = af_assignment_id f, ca_tenant_id = cc_tenant_id ctx,
     ca_membership_id = target, ca_case_id = cid, ca_state = ''ACTIVE'', ca_aggregate_revision = 0,
     ca_scope_actions = scope_actions_of (af_scope f), ca_scope_classifications = internal_only,
     ca_granted_by_membership_id = mid, ca_granted_at = cc_received_at ctx, ca_starts_at = af_starts_at f,
     ca_ends_at = af_ends_at f, ca_ended_at = None \<rparr>"

definition collaborator_target :: "membership_row \<Rightarrow> bool" where
  "collaborator_target m = (mb_role m = ''COLLABORATEUR'' \<and> mb_state m = ''ACTIVE'')"

definition create_assignment ::
  "create_assignment_fields \<Rightarrow> 'c app_command \<Rightarrow> command_context \<Rightarrow> uuid \<Rightarrow> (nat \<Rightarrow> uuid) \<Rightarrow> asg_tables
   \<Rightarrow> exn + (handler_outcome \<times> asg_tables)" where
  "create_assignment f c ctx mid fresh b =
     (case find_case (cc_tenant_id ctx) (af_case_id f) (at_cases b) of
        None \<Rightarrow> Inl (CommandExecutionError ''NOT_FOUND_OR_FORBIDDEN'')
      | Some k \<Rightarrow>
        if cr_lifecycle k \<noteq> ''ACTIVE'' then Inl (CommandExecutionError ''CASE_INACTIVE'')
        else if cr_aggregate_revision k \<noteq> af_expected_case_revision f then Inl (CommandExecutionError ''CASE_VERSION_CONFLICT'')
        else if case_mismatch ctx (cr_id k) then Inl (CommandExecutionError ''CASE_CONTEXT_MISMATCH'')
        else (case find_membership (cc_tenant_id ctx) (af_target_membership_id f) (at_memberships b) of
          None \<Rightarrow> Inl (CommandExecutionError ''NOT_FOUND_OR_FORBIDDEN'')
        | Some m \<Rightarrow>
          if \<not> collaborator_target m then Inl (CommandExecutionError ''ASSIGNMENT_TARGET_NOT_COLLABORATOR'')
          else if list_ex (\<lambda>r. ca_tenant_id r = cc_tenant_id ctx \<and> ca_membership_id r = mb_id m
                  \<and> ca_case_id r = cr_id k \<and> is_open_state (ca_state r)) (at_assignments b)
            then Inl (CommandExecutionError ''ASSIGNMENT_ALREADY_OPEN'')
          else
            (let a = new_assignment f ctx mid (mb_id m) (cr_id k); e = creation_change c mid (fresh 0) a in
             if \<not> ca_check a then Inl IntegrityError
             else (case add_row ca_clash a (at_assignments b) of Inl x \<Rightarrow> Inl x | Inr assignments \<Rightarrow>
               if \<not> ch_check e then Inl IntegrityError
               else (case add_row ch_clash e (at_changes b) of Inl x \<Rightarrow> Inl x | Inr changes \<Rightarrow>
                 Inr (asg_outcome ''CASE_ASSIGNMENT_CREATED'' ''Assignment'' (ca_id a) 0 ''CaseAssignmentCreated''
                        [(''assignment_id'', JStr (uuid_str (ca_id a))), (''case_id'', JStr (uuid_str (cr_id k))),
                         (''target_membership_id'', JStr (uuid_str (mb_id m))), (''assignment_revision'', JInt 0),
                         (''scope_actions'', JList (map JStr (scope_actions_of (af_scope f)))),
                         (''scope_classifications'', JList (map JStr internal_only))],
                      b\<lparr> at_assignments := assignments, at_changes := changes \<rparr>))))))"

text \<open>The outcome of a change to an existing assignment: the common payload, then \<open>extra\<close>.\<close>

definition change_outcome ::
  "string \<Rightarrow> string \<Rightarrow> case_assignment_row \<Rightarrow> (string \<times> json) list \<Rightarrow> handler_outcome" where
  "change_outcome rcode etype a' extra = asg_outcome rcode ''Assignment'' (ca_id a') (ca_aggregate_revision a') etype
     ([(''assignment_id'', JStr (uuid_str (ca_id a'))), (''case_id'', JStr (uuid_str (ca_case_id a'))),
       (''previous_revision'', JInt (ca_aggregate_revision a' - 1)),
       (''resulting_revision'', JInt (ca_aggregate_revision a'))] @ extra)"

definition amend_scope ::
  "uuid \<Rightarrow> int \<Rightarrow> command_scope \<Rightarrow> 'c app_command \<Rightarrow> command_context \<Rightarrow> uuid \<Rightarrow> (nat \<Rightarrow> uuid) \<Rightarrow> asg_tables
   \<Rightarrow> exn + (handler_outcome \<times> asg_tables)" where
  "amend_scope aid expected scope c ctx mid fresh b =
     (case find_assignment (cc_tenant_id ctx) aid (at_assignments b) of
        None \<Rightarrow> Inl (CommandExecutionError ''NOT_FOUND_OR_FORBIDDEN'')
      | Some a \<Rightarrow>
        if \<not> is_open_state (ca_state a) then Inl (CommandExecutionError ''ASSIGNMENT_INACTIVE'')
        else if ca_aggregate_revision a \<noteq> expected then Inl (CommandExecutionError ''VERSION_CONFLICT'')
        else if case_mismatch ctx (ca_case_id a) then Inl (CommandExecutionError ''CASE_CONTEXT_MISMATCH'')
        else (case find_case (cc_tenant_id ctx) (ca_case_id a) (at_cases b) of
          None \<Rightarrow> Inl (CommandExecutionError ''NOT_FOUND_OR_FORBIDDEN'')
        | Some k \<Rightarrow>
          if cr_lifecycle k = ''ARCHIVED'' then Inl (CommandExecutionError ''NOT_FOUND_OR_FORBIDDEN'')
          else if row_scope a = (scope_actions_of scope, internal_only) then Inl (CommandExecutionError ''ASSIGNMENT_SCOPE_UNCHANGED'')
          else
            (let a' = a\<lparr> ca_scope_actions := scope_actions_of scope, ca_scope_classifications := internal_only,
                        ca_aggregate_revision := ca_aggregate_revision a + 1 \<rparr> in
             case save_change a' (change_of c ctx mid (fresh 0) ''ASSIGNMENT_SCOPE_AMENDED'' None a a') b of
               Inl x \<Rightarrow> Inl x
             | Inr b' \<Rightarrow> Inr (change_outcome ''CASE_ASSIGNMENT_SCOPE_AMENDED'' ''CaseAssignmentScopeAmended'' a'
                 [(''previous_scope_fingerprint'', JStr (scope_fingerprint (ca_scope_actions a) (ca_scope_classifications a))),
                  (''resulting_scope_fingerprint'', JStr (scope_fingerprint (ca_scope_actions a') (ca_scope_classifications a')))],
                 b'))))"

definition suspend_assignment ::
  "uuid \<Rightarrow> int \<Rightarrow> string \<Rightarrow> 'c app_command \<Rightarrow> command_context \<Rightarrow> uuid \<Rightarrow> (nat \<Rightarrow> uuid) \<Rightarrow> asg_tables
   \<Rightarrow> exn + (handler_outcome \<times> asg_tables)" where
  "suspend_assignment aid expected reason c ctx mid fresh b =
     (case find_assignment (cc_tenant_id ctx) aid (at_assignments b) of
        None \<Rightarrow> Inl (CommandExecutionError ''NOT_FOUND_OR_FORBIDDEN'')
      | Some a \<Rightarrow>
        if ca_state a \<noteq> ''ACTIVE'' then Inl (CommandExecutionError ''ASSIGNMENT_NOT_ACTIVE'')
        else if ca_aggregate_revision a \<noteq> expected then Inl (CommandExecutionError ''VERSION_CONFLICT'')
        else if case_mismatch ctx (ca_case_id a) then Inl (CommandExecutionError ''CASE_CONTEXT_MISMATCH'')
        else
          (let a' = a\<lparr> ca_state := ''SUSPENDED'', ca_aggregate_revision := ca_aggregate_revision a + 1 \<rparr> in
           case save_change a' (change_of c ctx mid (fresh 0) ''ASSIGNMENT_SUSPENDED'' (Some reason) a a') b of
             Inl x \<Rightarrow> Inl x
           | Inr b' \<Rightarrow> Inr (change_outcome ''CASE_ASSIGNMENT_SUSPENDED'' ''CaseAssignmentSuspended'' a'
               [(''suspension_reason_code'', JStr reason)], b')))"

definition reactivate_assignment ::
  "uuid \<Rightarrow> int \<Rightarrow> string \<Rightarrow> 'c app_command \<Rightarrow> command_context \<Rightarrow> uuid \<Rightarrow> (nat \<Rightarrow> uuid) \<Rightarrow> asg_tables
   \<Rightarrow> exn + (handler_outcome \<times> asg_tables)" where
  "reactivate_assignment aid expected reason c ctx mid fresh b =
     (case find_assignment (cc_tenant_id ctx) aid (at_assignments b) of
        None \<Rightarrow> Inl (CommandExecutionError ''NOT_FOUND_OR_FORBIDDEN'')
      | Some a \<Rightarrow>
        if ca_state a \<noteq> ''SUSPENDED'' then Inl (CommandExecutionError ''ASSIGNMENT_NOT_SUSPENDED'')
        else if ca_aggregate_revision a \<noteq> expected then Inl (CommandExecutionError ''VERSION_CONFLICT'')
        else if case_mismatch ctx (ca_case_id a) then Inl (CommandExecutionError ''CASE_CONTEXT_MISMATCH'')
        else (case find_case (cc_tenant_id ctx) (ca_case_id a) (at_cases b) of
          None \<Rightarrow> Inl (CommandExecutionError ''NOT_FOUND_OR_FORBIDDEN'')
        | Some k \<Rightarrow>
          if cr_lifecycle k \<noteq> ''ACTIVE'' then Inl (CommandExecutionError ''CASE_INACTIVE'')
          else (case find_membership (cc_tenant_id ctx) (ca_membership_id a) (at_memberships b) of
            None \<Rightarrow> Inl (CommandExecutionError ''NOT_FOUND_OR_FORBIDDEN'')
          | Some m \<Rightarrow>
            if \<not> collaborator_target m then Inl (CommandExecutionError ''ASSIGNMENT_TARGET_NOT_COLLABORATOR'')
            else if ca_starts_at a > cc_received_at ctx then Inl (CommandExecutionError ''ASSIGNMENT_WINDOW_NOT_OPEN'')
            else if (case ca_ends_at a of None \<Rightarrow> False | Some e \<Rightarrow> cc_received_at ctx \<ge> e)
              then Inl (CommandExecutionError ''ASSIGNMENT_WINDOW_CLOSED'')
            else
              (let a' = a\<lparr> ca_state := ''ACTIVE'', ca_aggregate_revision := ca_aggregate_revision a + 1 \<rparr> in
               case save_change a' (change_of c ctx mid (fresh 0) ''ASSIGNMENT_REACTIVATED'' (Some reason) a a') b of
                 Inl x \<Rightarrow> Inl x
               | Inr b' \<Rightarrow> Inr (change_outcome ''CASE_ASSIGNMENT_REACTIVATED'' ''CaseAssignmentReactivated'' a'
                   [(''reactivation_reason_code'', JStr reason)], b')))))"

definition end_assignment ::
  "uuid \<Rightarrow> int \<Rightarrow> string \<Rightarrow> 'c app_command \<Rightarrow> command_context \<Rightarrow> uuid \<Rightarrow> (nat \<Rightarrow> uuid) \<Rightarrow> asg_tables
   \<Rightarrow> exn + (handler_outcome \<times> asg_tables)" where
  "end_assignment aid expected reason c ctx mid fresh b =
     (case find_assignment (cc_tenant_id ctx) aid (at_assignments b) of
        None \<Rightarrow> Inl (CommandExecutionError ''NOT_FOUND_OR_FORBIDDEN'')
      | Some a \<Rightarrow>
        if \<not> is_open_state (ca_state a) then Inl (CommandExecutionError ''ASSIGNMENT_NOT_OPEN'')
        else if ca_aggregate_revision a \<noteq> expected then Inl (CommandExecutionError ''VERSION_CONFLICT'')
        else if case_mismatch ctx (ca_case_id a) then Inl (CommandExecutionError ''CASE_CONTEXT_MISMATCH'')
        else
          (let a' = a\<lparr> ca_state := ''ENDED'', ca_ended_at := Some (cc_received_at ctx),
                      ca_aggregate_revision := ca_aggregate_revision a + 1 \<rparr> in
           case save_change a' (change_of c ctx mid (fresh 0) ''ASSIGNMENT_ENDED'' (Some reason) a a') b of
             Inl x \<Rightarrow> Inl x
           | Inr b' \<Rightarrow> Inr (change_outcome ''CASE_ASSIGNMENT_ENDED'' ''CaseAssignmentEnded'' a'
               [(''previous_state'', JStr (ca_state a)), (''end_reason_code'', JStr reason)], b')))"

text \<open>
  \<open>source_models\<close>: which table an interaction kind names, here whether the interaction is in it;
  \<open>None\<close> is the \<open>KeyError\<close> of an unknown kind.
\<close>

definition interaction_exists :: "string \<Rightarrow> uuid \<Rightarrow> uuid \<Rightarrow> uuid \<Rightarrow> asg_tables \<Rightarrow> bool option" where
  "interaction_exists kind tid aid iid b =
     (if kind = ''ACKNOWLEDGEMENT'' then
        Some (list_ex (\<lambda>r. ak_tenant_id r = tid \<and> ak_assignment_id r = aid \<and> ak_id r = iid) (at_acknowledgements b))
      else if kind = ''CLARIFICATION_REQUEST'' then
        Some (list_ex (\<lambda>r. cl_tenant_id r = tid \<and> cl_assignment_id r = aid \<and> cl_id r = iid) (at_clarifications b))
      else if kind = ''UNAVAILABILITY_REPORT'' then
        Some (list_ex (\<lambda>r. un_tenant_id r = tid \<and> un_assignment_id r = aid \<and> un_id r = iid) (at_unavailabilities b))
      else None)"

definition new_validation ::
  "'c app_command \<Rightarrow> command_context \<Rightarrow> uuid \<Rightarrow> uuid \<Rightarrow> case_assignment_row \<Rightarrow> uuid \<Rightarrow> string \<Rightarrow> string \<Rightarrow> validation_row" where
  "new_validation c ctx mid u a iid kind vcode = \<lparr> vd_id = u, vd_tenant_id = cc_tenant_id ctx,
     vd_assignment_id = ca_id a, vd_case_id = ca_case_id a, vd_interaction_id = iid, vd_interaction_kind = kind,
     vd_validation_code = vcode, vd_patron_membership_id = mid, vd_command_id = em_command_id c,
     vd_correlation_id = em_correlation_id c \<rparr>"

definition validate_interaction ::
  "uuid \<Rightarrow> uuid \<Rightarrow> string \<Rightarrow> string \<Rightarrow> 'c app_command \<Rightarrow> command_context \<Rightarrow> uuid \<Rightarrow> (nat \<Rightarrow> uuid) \<Rightarrow> asg_tables
   \<Rightarrow> exn + (handler_outcome \<times> asg_tables)" where
  "validate_interaction aid iid kind vcode c ctx mid fresh b =
     (case find_assignment (cc_tenant_id ctx) aid (at_assignments b) of
        None \<Rightarrow> Inl (CommandExecutionError ''NOT_FOUND_OR_FORBIDDEN'')
      | Some a \<Rightarrow>
        if case_mismatch ctx (ca_case_id a) then Inl (CommandExecutionError ''CASE_CONTEXT_MISMATCH'')
        else (case interaction_exists kind (cc_tenant_id ctx) (ca_id a) iid b of
          None \<Rightarrow> Inl KeyError
        | Some False \<Rightarrow> Inl (CommandExecutionError ''NOT_FOUND_OR_FORBIDDEN'')
        | Some True \<Rightarrow>
          if list_ex (\<lambda>r. vd_tenant_id r = cc_tenant_id ctx \<and> vd_interaction_kind r = kind
                \<and> vd_interaction_id r = iid) (at_validations b)
            then Inl (CommandExecutionError ''INTERACTION_ALREADY_VALIDATED'')
          else
            (let v = new_validation c ctx mid (fresh 0) a iid kind vcode in
             if \<not> vd_check v then Inl IntegrityError
             else (case add_row vd_clash v (at_validations b) of Inl x \<Rightarrow> Inl x | Inr rows \<Rightarrow>
               Inr (asg_outcome ''INTERACTION_VALIDATED'' ''AssignmentInteractionValidation'' (vd_id v) 0
                      ''AssignmentInteractionValidated''
                      [(''validation_id'', JStr (uuid_str (vd_id v))), (''assignment_id'', JStr (uuid_str (ca_id a))),
                       (''case_id'', JStr (uuid_str (ca_case_id a))), (''interaction_kind'', JStr kind),
                       (''validation_code'', JStr vcode)],
                    b\<lparr> at_validations := rows \<rparr>)))))"

definition patron_assignment_execute :: "(asg_command, asg_tables) handler" where
  "patron_assignment_execute c ctx fresh b =
     (if cc_actor_kind ctx \<noteq> ''PATRON_ADMIN'' then Inl (CommandExecutionError ''ASSIGNMENT_PATRON_REQUIRED'')
      else case cc_membership_id ctx of
        None \<Rightarrow> Inl (CommandExecutionError ''ASSIGNMENT_MEMBERSHIP_CONTEXT_REQUIRED'')
      | Some mid \<Rightarrow>
        (case em_body c of
           CreateCaseAssignment f \<Rightarrow> create_assignment f c ctx mid fresh b
         | AmendCaseAssignmentScope aid r s \<Rightarrow> amend_scope aid r s c ctx mid fresh b
         | SuspendCaseAssignment aid r reason \<Rightarrow> suspend_assignment aid r reason c ctx mid fresh b
         | ReactivateCaseAssignment aid r reason \<Rightarrow> reactivate_assignment aid r reason c ctx mid fresh b
         | EndCaseAssignment aid r reason \<Rightarrow> end_assignment aid r reason c ctx mid fresh b
         | ValidateAssignmentInteraction aid iid kind vcode \<Rightarrow> validate_interaction aid iid kind vcode c ctx mid fresh b
         | _ \<Rightarrow> Inl (CommandExecutionError (''unsupported patron assignment command: '' @ asg_command_type (em_body c)))))"

section \<open>The collaborator's interactions\<close>

text \<open>A row update without a change event, as the two revisioned interactions do it.\<close>

definition save_row :: "case_assignment_row \<Rightarrow> asg_tables \<Rightarrow> exn + asg_tables" where
  "save_row a' b =
     (if \<not> ca_check a' then Inl IntegrityError
      else Inr (b\<lparr> at_assignments := update_where (\<lambda>r. ca_id r = ca_id a') (\<lambda>_. a') (at_assignments b) \<rparr>))"

definition acknowledge ::
  "string option \<Rightarrow> 'c app_command \<Rightarrow> command_context \<Rightarrow> uuid \<Rightarrow> (nat \<Rightarrow> uuid) \<Rightarrow> case_assignment_row \<Rightarrow> asg_tables
   \<Rightarrow> exn + (handler_outcome \<times> asg_tables)" where
  "acknowledge note c ctx mid fresh a b =
     (let a' = a\<lparr> ca_aggregate_revision := ca_aggregate_revision a + 1 \<rparr>;
          r = \<lparr> ak_id = fresh 0, ak_tenant_id = cc_tenant_id ctx, ak_assignment_id = ca_id a,
                ak_actor_id = cc_actor_id ctx, ak_membership_id = mid, ak_assignment_revision = ca_aggregate_revision a',
                ak_note = note, ak_command_id = em_command_id c, ak_correlation_id = em_correlation_id c \<rparr> in
      case save_row a' b of Inl x \<Rightarrow> Inl x | Inr b1 \<Rightarrow>
      (case add_row ak_clash r (at_acknowledgements b) of Inl x \<Rightarrow> Inl x | Inr rows \<Rightarrow>
       Inr (asg_outcome ''ASSIGNMENT_ACKNOWLEDGED'' ''Assignment'' (ca_id a) (ca_aggregate_revision a')
              ''AssignmentAcknowledged''
              [(''assignment_id'', JStr (uuid_str (ca_id a))), (''case_id'', JStr (uuid_str (ca_case_id a))),
               (''membership_id'', JStr (uuid_str mid)), (''assignment_revision'', JInt (ca_aggregate_revision a'))],
            b1\<lparr> at_acknowledgements := rows \<rparr>)))"

definition clarification_functional_key ::
  "uuid \<Rightarrow> uuid \<Rightarrow> string \<Rightarrow> string \<Rightarrow> string \<Rightarrow> string option \<Rightarrow> string \<Rightarrow> string" where
  "clarification_functional_key aid cid kind subject question scope priority = sha256_hex (json_dumps (JObj
     [(''assignment_id'', JStr (uuid_str aid)), (''case_id'', JStr (uuid_str cid)),
      (''clarification_kind'', JStr kind), (''subject'', JStr subject), (''question'', JStr question),
      (''requested_scope'', json_opt JStr scope), (''priority'', JStr priority)]))"

definition clarification_ref :: "uuid \<Rightarrow> json" where
  "clarification_ref u = asg_ref ''AssignmentClarificationRequest'' u 1"

definition clarify ::
  "string \<Rightarrow> string \<Rightarrow> string \<Rightarrow> string option \<Rightarrow> string \<Rightarrow> 'c app_command \<Rightarrow> command_context \<Rightarrow> uuid \<Rightarrow> (nat \<Rightarrow> uuid)
   \<Rightarrow> case_assignment_row \<Rightarrow> asg_tables \<Rightarrow> exn + (handler_outcome \<times> asg_tables)" where
  "clarify kind subject question scope priority c ctx mid fresh a b =
     (let fkey = clarification_functional_key (ca_id a) (ca_case_id a) kind subject question scope priority in
      case List.find (\<lambda>r. cl_tenant_id r = cc_tenant_id ctx \<and> cl_functional_key r = fkey) (at_clarifications b) of
        Some e \<Rightarrow> Inr (\<lparr> ho_result_code = ''ASSIGNMENT_CLARIFICATION_REQUESTED'',
                         ho_aggregate_refs = [clarification_ref (cl_id e)], ho_events = [] \<rparr>, b)
      | None \<Rightarrow>
        (let r = \<lparr> cl_id = fresh 0, cl_tenant_id = cc_tenant_id ctx, cl_assignment_id = ca_id a, cl_case_id = ca_case_id a,
                   cl_actor_id = cc_actor_id ctx, cl_membership_id = mid, cl_kind = kind, cl_subject = subject,
                   cl_question = question, cl_requested_scope = scope, cl_priority = priority, cl_state = ''OPEN'',
                   cl_functional_key = fkey, cl_command_id = em_command_id c, cl_correlation_id = em_correlation_id c \<rparr> in
         if \<not> cl_check r then Inl IntegrityError
         else (case add_row cl_clash r (at_clarifications b) of Inl x \<Rightarrow> Inl x | Inr rows \<Rightarrow>
           Inr (asg_outcome ''ASSIGNMENT_CLARIFICATION_REQUESTED'' ''AssignmentClarificationRequest'' (cl_id r) 1
                  ''AssignmentClarificationRequested''
                  [(''request_id'', JStr (uuid_str (cl_id r))), (''assignment_id'', JStr (uuid_str (ca_id a))),
                   (''case_id'', JStr (uuid_str (ca_case_id a))), (''clarification_kind'', JStr kind),
                   (''priority'', JStr priority), (''state'', JStr ''OPEN'')],
                b\<lparr> at_clarifications := rows \<rparr>))))"

definition report_unavailability ::
  "string \<Rightarrow> string \<Rightarrow> instant \<Rightarrow> instant option \<Rightarrow> bool \<Rightarrow> string option \<Rightarrow> 'c app_command \<Rightarrow> command_context \<Rightarrow> uuid
   \<Rightarrow> (nat \<Rightarrow> uuid) \<Rightarrow> case_assignment_row \<Rightarrow> asg_tables \<Rightarrow> exn + (handler_outcome \<times> asg_tables)" where
  "report_unavailability kind reason since until_at deadline note c ctx mid fresh a b =
     (let a' = a\<lparr> ca_aggregate_revision := ca_aggregate_revision a + 1 \<rparr>;
          r = \<lparr> un_id = fresh 0, un_tenant_id = cc_tenant_id ctx, un_assignment_id = ca_id a,
                un_actor_id = cc_actor_id ctx, un_membership_id = mid, un_assignment_revision = ca_aggregate_revision a',
                un_reason_kind = kind, un_reason = reason, un_from = since, un_until = until_at,
                un_known_deadline_impact = deadline, un_impact_note = note, un_command_id = em_command_id c,
                un_correlation_id = em_correlation_id c \<rparr> in
      case save_row a' b of Inl x \<Rightarrow> Inl x | Inr b1 \<Rightarrow>
      if \<not> un_check r then Inl IntegrityError
      else (case add_row un_clash r (at_unavailabilities b) of Inl x \<Rightarrow> Inl x | Inr rows \<Rightarrow>
       Inr (asg_outcome ''ASSIGNMENT_UNAVAILABILITY_REPORTED'' ''Assignment'' (ca_id a) (ca_aggregate_revision a')
              ''AssignmentUnavailabilityReported''
              [(''assignment_id'', JStr (uuid_str (ca_id a))), (''case_id'', JStr (uuid_str (ca_case_id a))),
               (''membership_id'', JStr (uuid_str mid)), (''assignment_revision'', JInt (ca_aggregate_revision a')),
               (''reason_kind'', JStr kind), (''known_deadline_impact'', JBool deadline)],
            b1\<lparr> at_unavailabilities := rows \<rparr>)))"

text \<open>
  The attributes \<open>execute\<close> reads from any of the three commands, with the entry of
  \<open>_ACTION_BY_COMMAND\<close>; \<open>None\<close> for a command the registry never sends here.
\<close>

fun interaction_target :: "asg_command \<Rightarrow> (uuid \<times> int \<times> string) option" where
  "interaction_target (AcknowledgeAssignment aid r n) = Some (aid, r, ''assignment.acknowledge'')"
| "interaction_target (RequestAssignmentClarification aid r k s q rs p) = Some (aid, r, ''assignment.clarify'')"
| "interaction_target (ReportAssignmentUnavailability aid r k s f u d n) = Some (aid, r, ''assignment.unavailability'')"
| "interaction_target _ = None"

definition run_interaction ::
  "asg_command \<Rightarrow> 'c app_command \<Rightarrow> command_context \<Rightarrow> uuid \<Rightarrow> (nat \<Rightarrow> uuid) \<Rightarrow> case_assignment_row \<Rightarrow> asg_tables
   \<Rightarrow> exn + (handler_outcome \<times> asg_tables)" where
  "run_interaction body c ctx mid fresh a b =
     (case body of
        AcknowledgeAssignment _ _ note \<Rightarrow> acknowledge note c ctx mid fresh a b
      | RequestAssignmentClarification _ _ kind subject question scope priority \<Rightarrow>
          clarify kind subject question scope priority c ctx mid fresh a b
      | ReportAssignmentUnavailability _ _ kind reason since until_at deadline note \<Rightarrow>
          report_unavailability kind reason since until_at deadline note c ctx mid fresh a b
      | _ \<Rightarrow> Inl (CommandExecutionError (''unsupported assignment command: '' @ asg_command_type body)))"

definition assignment_execute :: "(asg_command, asg_tables) handler" where
  "assignment_execute c ctx fresh b =
     (if cc_actor_kind ctx \<noteq> ''COLLABORATEUR'' then Inl (CommandExecutionError ''ASSIGNMENT_COLLABORATOR_REQUIRED'')
      else case cc_membership_id ctx of
        None \<Rightarrow> Inl (CommandExecutionError ''ASSIGNMENT_MEMBERSHIP_CONTEXT_REQUIRED'')
      | Some mid \<Rightarrow>
        (case interaction_target (em_body c) of None \<Rightarrow> Inl KeyError | Some (aid, expected, required) \<Rightarrow>
         (case find_assignment (cc_tenant_id ctx) aid (at_assignments b) of
            None \<Rightarrow> Inl (CommandExecutionError ''NOT_FOUND_OR_FORBIDDEN'')
          | Some a \<Rightarrow>
            if ca_membership_id a \<noteq> mid then Inl (CommandExecutionError ''NOT_FOUND_OR_FORBIDDEN'')
            else if ca_state a \<noteq> ''ACTIVE'' then Inl (CommandExecutionError ''ASSIGNMENT_INACTIVE'')
            else if ca_starts_at a > cc_received_at ctx
                \<or> (case ca_ends_at a of None \<Rightarrow> False | Some e \<Rightarrow> e \<le> cc_received_at ctx)
              then Inl (CommandExecutionError ''ASSIGNMENT_INACTIVE'')
            else if ca_aggregate_revision a \<noteq> expected then Inl (CommandExecutionError ''VERSION_CONFLICT'')
            else (case find_case (cc_tenant_id ctx) (ca_case_id a) (at_cases b) of
              None \<Rightarrow> Inl (CommandExecutionError ''NOT_FOUND_OR_FORBIDDEN'')
            | Some k \<Rightarrow>
              if cr_lifecycle k = ''ARCHIVED'' then Inl (CommandExecutionError ''NOT_FOUND_OR_FORBIDDEN'')
              else if case_mismatch ctx (ca_case_id a) then Inl (CommandExecutionError ''CASE_CONTEXT_MISMATCH'')
              else if required \<notin> set (ca_scope_actions a) then Inl (CommandExecutionError ''ASSIGNMENT_SCOPE_FORBIDDEN'')
              else if ''INTERNAL_OPERATIONAL'' \<notin> set (ca_scope_classifications a)
                then Inl (CommandExecutionError ''ASSIGNMENT_CLASSIFICATION_FORBIDDEN'')
              else run_interaction (em_body c) c ctx mid fresh a b))))"

text \<open>Both registries together, as the dispatcher gets them.\<close>

definition asg_handlers :: "string \<Rightarrow> (asg_command, asg_tables) handler option" where
  "asg_handlers ctype =
     (if ctype \<in> {''CreateCaseAssignment'', ''AmendCaseAssignmentScope'', ''SuspendCaseAssignment'',
          ''ReactivateCaseAssignment'', ''EndCaseAssignment'', ''ValidateAssignmentInteraction''}
        then Some patron_assignment_execute
      else if ctype \<in> {''AcknowledgeAssignment'', ''RequestAssignmentClarification'', ''ReportAssignmentUnavailability''}
        then Some assignment_execute
      else None)"

end
