(* ===== verification/AssignmentHistory.thy ===== *)
theory AssignmentHistory
  imports Assignments "HOL-Library.Multiset"
begin

text \<open>
  What the assignment commands guarantee. The invariant \<open>asg_inv\<close> says that the append-only
  tables explain every assignment row: its change events lead, each allowed, from its creation to
  its state and scope, and every revision up to the current one was recorded exactly once, by a
  change event, an acknowledgement or an unavailability report. \<open>asg_effect\<close> summarises what an
  accepted command writes; the properties follow from it.
\<close>

section \<open>History explains the row\<close>

text \<open>One change event alone: the event type fixes how state and scope may move.\<close>

definition change_ok :: "change_row \<Rightarrow> bool" where
  "change_ok e =
     (let s = ch_previous_state e; s' = ch_resulting_state e; same = (ch_previous_scope e = Some (ch_resulting_scope e)) in
      ch_event_type e = ''ASSIGNMENT_CREATED'' \<and> s = None \<and> ch_previous_scope e = None \<and> s' = ''ACTIVE''
      \<or> ch_event_type e = ''ASSIGNMENT_SCOPE_AMENDED'' \<and> s = Some s' \<and> is_open_state s' \<and> \<not> same
      \<or> ch_event_type e = ''ASSIGNMENT_SUSPENDED'' \<and> s = Some ''ACTIVE'' \<and> s' = ''SUSPENDED'' \<and> same
      \<or> ch_event_type e = ''ASSIGNMENT_REACTIVATED'' \<and> s = Some ''SUSPENDED'' \<and> s' = ''ACTIVE'' \<and> same
      \<or> ch_event_type e = ''ASSIGNMENT_ENDED'' \<and> (s = Some ''ACTIVE'' \<or> s = Some ''SUSPENDED'') \<and> s' = ''ENDED'' \<and> same)"

text \<open>From a state and a scope, the change events lead to a state and a scope.\<close>

fun asg_history ::
  "string option \<Rightarrow> (string list \<times> string list) option \<Rightarrow> change_row list
   \<Rightarrow> string option \<Rightarrow> (string list \<times> string list) option \<Rightarrow> bool" where
  "asg_history s sc [] s' sc' = (s' = s \<and> sc' = sc)"
| "asg_history s sc (e # es) s' sc' =
     (ch_previous_state e = s \<and> ch_previous_scope e = sc \<and> change_ok e
      \<and> asg_history (Some (ch_resulting_state e)) (Some (ch_resulting_scope e)) es s' sc')"

definition changes_of :: "uuid \<Rightarrow> asg_tables \<Rightarrow> change_row list" where
  "changes_of aid b = filter (\<lambda>e. ch_assignment_id e = aid) (at_changes b)"

definition acknowledgements_of :: "uuid \<Rightarrow> asg_tables \<Rightarrow> acknowledgement_row list" where
  "acknowledgements_of aid b = filter (\<lambda>r. ak_assignment_id r = aid) (at_acknowledgements b)"

definition unavailabilities_of :: "uuid \<Rightarrow> asg_tables \<Rightarrow> unavailability_row list" where
  "unavailabilities_of aid b = filter (\<lambda>r. un_assignment_id r = aid) (at_unavailabilities b)"

text \<open>Every revision of an assignment, with its multiplicity, in the three tables that record one.\<close>

definition recorded_revisions :: "uuid \<Rightarrow> asg_tables \<Rightarrow> int multiset" where
  "recorded_revisions aid b = mset (map ch_resulting_revision (changes_of aid b))
     + mset (map ak_assignment_revision (acknowledgements_of aid b))
     + mset (map un_assignment_revision (unavailabilities_of aid b))"

definition scope_bounded :: "case_assignment_row \<Rightarrow> bool" where
  "scope_bounded a =
     (ca_scope_actions a \<noteq> [] \<and> sorted (ca_scope_actions a) \<and> distinct (ca_scope_actions a)
      \<and> set (ca_scope_actions a) \<subseteq> set scope_vocabulary \<and> ca_scope_classifications a = internal_only)"

definition asg_row_inv :: "asg_tables \<Rightarrow> case_assignment_row \<Rightarrow> bool" where
  "asg_row_inv b a =
     (asg_history None None (changes_of (ca_id a) b) (Some (ca_state a)) (Some (row_scope a))
      \<and> recorded_revisions (ca_id a) b = mset [0..ca_aggregate_revision a] \<and> 0 \<le> ca_aggregate_revision a
      \<and> scope_bounded a)"

definition asg_owned :: "asg_tables \<Rightarrow> bool" where
  "asg_owned b =
     (let ids = set (map (\<lambda>a. (ca_tenant_id a, ca_id a)) (at_assignments b)) in
      (\<forall>e \<in> set (at_changes b). (ch_tenant_id e, ch_assignment_id e) \<in> ids)
      \<and> (\<forall>r \<in> set (at_acknowledgements b). (ak_tenant_id r, ak_assignment_id r) \<in> ids)
      \<and> (\<forall>r \<in> set (at_unavailabilities b). (un_tenant_id r, un_assignment_id r) \<in> ids))"

definition asg_inv :: "asg_tables \<Rightarrow> bool" where
  "asg_inv b =
     (distinct (map ca_id (at_assignments b))
      \<and> (\<forall>a \<in> set (at_assignments b). \<forall>a' \<in> set (at_assignments b). ca_clash a a' \<longrightarrow> a = a')
      \<and> (\<forall>a \<in> set (at_assignments b). asg_row_inv b a)
      \<and> asg_owned b)"

lemma asg_history_append:
  "asg_history s sc (es @ es') s' sc' \<longleftrightarrow> (\<exists>t tc. asg_history s sc es t tc \<and> asg_history t tc es' s' sc')"
  by (induction es arbitrary: s sc) auto

lemma sorted_scope: "canonicalize_scope actions = Some xs \<Longrightarrow>
    xs \<noteq> [] \<and> sorted xs \<and> distinct xs \<and> set xs \<subseteq> set scope_vocabulary"
proof -
  have inj: "inj scope_action_value"
  proof (rule injI)
    fix a a'
    show "scope_action_value a = scope_action_value a' \<Longrightarrow> a = a'" by (cases a; cases a') simp_all
  qed
  have voc: "scope_action_value a \<in> set scope_vocabulary" for a by (cases a) (simp_all add: scope_vocabulary_def)
  assume "canonicalize_scope actions = Some xs"
  then have "actions \<noteq> []" "distinct actions" "xs = sort (map scope_action_value actions)"
    by (auto simp: canonicalize_scope_def split: if_splits)
  moreover from this have "distinct xs" using inj by (simp add: distinct_map inj_on_def)
  moreover have "set xs = scope_action_value ` set actions" "sorted xs"
    using \<open>xs = sort (map scope_action_value actions)\<close> by simp_all
  moreover have "set xs \<subseteq> set scope_vocabulary" unfolding \<open>set xs = scope_action_value ` set actions\<close> using voc by blast
  moreover have "set xs \<noteq> {}" unfolding \<open>set xs = scope_action_value ` set actions\<close> using \<open>actions \<noteq> []\<close> by simp
  then have "xs \<noteq> []" by auto
  ultimately show ?thesis by simp
qed

lemma command_scope_bounded:
  "scope_actions_of sc \<noteq> [] \<and> sorted (scope_actions_of sc) \<and> distinct (scope_actions_of sc)
    \<and> set (scope_actions_of sc) \<subseteq> set scope_vocabulary"
  using scope_actions_of [of sc] sorted_scope by blast

section \<open>The two ways an assignment row is written\<close>

text \<open>Appending the log entries of one revision, and replacing the row.\<close>

definition asg_step ::
  "case_assignment_row \<Rightarrow> change_row list \<Rightarrow> acknowledgement_row list \<Rightarrow> unavailability_row list \<Rightarrow> asg_tables \<Rightarrow> asg_tables" where
  "asg_step a' es as us b = b\<lparr>
     at_assignments := update_where (\<lambda>r. ca_id r = ca_id a') (\<lambda>_. a') (at_assignments b),
     at_changes := at_changes b @ es, at_acknowledgements := at_acknowledgements b @ as,
     at_unavailabilities := at_unavailabilities b @ us \<rparr>"

text \<open>
  What such a write must satisfy: it keeps who the assignment is for, adds exactly one log entry,
  of the next revision, whose change events explain the new state and scope, and opens nothing.
\<close>

definition step_ok ::
  "case_assignment_row \<Rightarrow> case_assignment_row \<Rightarrow> change_row list \<Rightarrow> acknowledgement_row list \<Rightarrow> unavailability_row list \<Rightarrow> bool" where
  "step_ok a a' es as us =
     ((ca_id a', ca_tenant_id a', ca_membership_id a', ca_case_id a') = (ca_id a, ca_tenant_id a, ca_membership_id a, ca_case_id a)
      \<and> is_open_state (ca_state a)
      \<and> ca_aggregate_revision a' = ca_aggregate_revision a + 1
      \<and> map ch_resulting_revision es @ map ak_assignment_revision as @ map un_assignment_revision us
          = [ca_aggregate_revision a + 1]
      \<and> (\<forall>e \<in> set es. ch_tenant_id e = ca_tenant_id a \<and> ch_assignment_id e = ca_id a)
      \<and> (\<forall>r \<in> set as. ak_tenant_id r = ca_tenant_id a \<and> ak_assignment_id r = ca_id a)
      \<and> (\<forall>r \<in> set us. un_tenant_id r = ca_tenant_id a \<and> un_assignment_id r = ca_id a)
      \<and> asg_history (Some (ca_state a)) (Some (row_scope a)) es (Some (ca_state a')) (Some (row_scope a'))
      \<and> scope_bounded a')"

lemma asg_inv_unique:
  "asg_inv b \<Longrightarrow> a \<in> set (at_assignments b) \<Longrightarrow> r \<in> set (at_assignments b) \<Longrightarrow> ca_id r = ca_id a \<Longrightarrow> r = a"
  by (auto simp: asg_inv_def distinct_map inj_on_def)

lemma filter_all_or_none:
  "(\<forall>x \<in> set xs. f x = k) \<Longrightarrow> filter (\<lambda>x. f x = i) xs = (if i = k then xs else [])"
  by (auto simp: filter_empty_conv filter_id_conv)

lemma asg_step_inv:
  assumes inv: "asg_inv b" and a: "a \<in> set (at_assignments b)" and ok: "step_ok a a' es as us"
  shows "asg_inv (asg_step a' es as us b)"
proof -
  let ?b = "asg_step a' es as us b"
  let ?w = "\<lambda>r. if ca_id r = ca_id a' then a' else r"
  have key: "ca_id a' = ca_id a" "ca_tenant_id a' = ca_tenant_id a" "ca_membership_id a' = ca_membership_id a"
    "ca_case_id a' = ca_case_id a" using ok by (simp_all add: step_ok_def)
  have rows: "set (at_assignments ?b) = ?w ` set (at_assignments b)" by (simp add: asg_step_def set_update_where)
  have w: "?w r = (if r = a then a' else r)" if "r \<in> set (at_assignments b)" for r
    using that asg_inv_unique [OF inv a that] key by auto
  have ids: "map ca_id (at_assignments ?b) = map ca_id (at_assignments b)"
    by (simp add: asg_step_def map_update_where)
  have chg: "changes_of i ?b = changes_of i b @ (if i = ca_id a then es else [])"
    and ack: "acknowledgements_of i ?b = acknowledgements_of i b @ (if i = ca_id a then as else [])"
    and una: "unavailabilities_of i ?b = unavailabilities_of i b @ (if i = ca_id a then us else [])" for i
    using ok by (simp_all add: asg_step_def changes_of_def acknowledgements_of_def unavailabilities_of_def
        step_ok_def filter_all_or_none [where k = "ca_id a"])
  have clash: "r = r'" if "r \<in> ?w ` set (at_assignments b)" "r' \<in> ?w ` set (at_assignments b)" "ca_clash r r'" for r r'
  proof -
    from that obtain x x' where x: "x \<in> set (at_assignments b)" "x' \<in> set (at_assignments b)" "r = ?w x" "r' = ?w x'" by auto
    have c: "ca_clash (if x = a then a' else x) (if x' = a then a' else x')"
      using that(3) unfolding x(3) x(4) w [OF x(1)] w [OF x(2)] .
    have "is_open_state (ca_state a)" using ok by (simp add: step_ok_def)
    then have "ca_clash x x'" using c key by (cases "x = a"; cases "x' = a") (auto simp: ca_clash_def)
    then have "x = x'" using inv x by (auto simp: asg_inv_def)
    with x show ?thesis by simp
  qed
  have row: "asg_row_inv ?b r'" if "r' \<in> ?w ` set (at_assignments b)" for r'
  proof -
    from that obtain r where r: "r \<in> set (at_assignments b)" "r' = (if r = a then a' else r)" using w by auto
    have old: "asg_row_inv b r" using inv r(1) by (simp add: asg_inv_def)
    show ?thesis
    proof (cases "r = a")
      case True
      have upto: "[0..ca_aggregate_revision a + 1] = [0..ca_aggregate_revision a] @ [ca_aggregate_revision a + 1]"
        using old True by (simp add: asg_row_inv_def upto_rec2)
      have "recorded_revisions (ca_id a) ?b = recorded_revisions (ca_id a) b
          + mset (map ch_resulting_revision es @ map ak_assignment_revision as @ map un_assignment_revision us)"
        by (simp add: recorded_revisions_def chg ack una)
      also have "\<dots> = mset [0..ca_aggregate_revision a + 1]"
        using ok old True unfolding upto by (simp add: step_ok_def asg_row_inv_def)
      finally show ?thesis
        using ok old True r(2) key by (auto simp: asg_row_inv_def chg asg_history_append step_ok_def)
    next
      case False
      then have "ca_id r \<noteq> ca_id a" using asg_inv_unique [OF inv a r(1)] by auto
      with False r(2) old show ?thesis by (simp add: asg_row_inv_def chg ack una recorded_revisions_def)
    qed
  qed
  have pairs: "set (map (\<lambda>a. (ca_tenant_id a, ca_id a)) (at_assignments ?b))
      = set (map (\<lambda>a. (ca_tenant_id a, ca_id a)) (at_assignments b))"
  proof -
    have "(\<lambda>a. (ca_tenant_id a, ca_id a)) (?w r) = (ca_tenant_id r, ca_id r)" if "r \<in> set (at_assignments b)" for r
      using w [OF that] key by auto
    then show ?thesis unfolding set_map rows image_image by (rule image_cong [OF refl])
  qed
  have "asg_owned ?b"
    using inv ok a unfolding asg_owned_def pairs Let_def
    by (auto simp: asg_inv_def asg_owned_def asg_step_def step_ok_def Let_def)
  with inv ids clash row show ?thesis by (simp add: asg_inv_def rows)
qed

lemma asg_create_inv:
  assumes inv: "asg_inv b" and a: "\<forall>r \<in> set (at_assignments b). \<not> ca_clash a r" "scope_bounded a" "ca_aggregate_revision a = 0"
    and e: "ch_tenant_id e = ca_tenant_id a" "ch_assignment_id e = ca_id a" "ch_resulting_revision e = 0"
      "asg_history None None [e] (Some (ca_state a)) (Some (row_scope a))"
  shows "asg_inv (b\<lparr> at_assignments := at_assignments b @ [a], at_changes := at_changes b @ [e] \<rparr>)" (is "asg_inv ?b")
proof -
  have new: "ca_id r \<noteq> ca_id a" if "r \<in> set (at_assignments b)" for r using a(1) that by (auto simp: ca_clash_def)
  have "changes_of (ca_id a) b = []" "acknowledgements_of (ca_id a) b = []" "unavailabilities_of (ca_id a) b = []"
    using inv new by (force simp: asg_inv_def asg_owned_def Let_def changes_of_def acknowledgements_of_def
        unavailabilities_of_def filter_empty_conv)+
  then have "asg_row_inv ?b a"
    using a e by (simp add: asg_row_inv_def changes_of_def recorded_revisions_def acknowledgements_of_def unavailabilities_of_def)
  moreover have "asg_row_inv ?b r" if "r \<in> set (at_assignments b)" for r
    using inv that new [OF that] e
    by (simp add: asg_inv_def asg_row_inv_def changes_of_def recorded_revisions_def acknowledgements_of_def unavailabilities_of_def)
  moreover have "ca_clash r a \<longrightarrow> r = a" if "r \<in> set (at_assignments b)" for r
    using a(1) that by (auto simp: ca_clash_def)
  moreover have "asg_owned ?b" using inv e by (auto simp: asg_inv_def asg_owned_def Let_def)
  moreover have "ca_id a \<notin> ca_id ` set (at_assignments b)" using new by force
  ultimately show ?thesis using inv a(1) by (auto simp: asg_inv_def)
qed

section \<open>What the handlers do\<close>

text \<open>
  A command that is accepted writes in one of four ways: it creates an assignment, makes one
  revision of an open one, records a clarification request (or finds it recorded), or validates
  an interaction.
\<close>

inductive asg_effect :: "asg_command app_command \<Rightarrow> command_context \<Rightarrow> asg_tables \<Rightarrow> asg_tables \<Rightarrow> bool"
  for c ctx b where
  created: "em_body c = CreateCaseAssignment f \<Longrightarrow> cc_actor_kind ctx = ''PATRON_ADMIN'' \<Longrightarrow>
    cc_membership_id ctx = Some mid \<Longrightarrow>
    k \<in> set (at_cases b) \<Longrightarrow> cr_tenant_id k = cc_tenant_id ctx \<Longrightarrow> cr_lifecycle k = ''ACTIVE'' \<Longrightarrow>
    m \<in> set (at_memberships b) \<Longrightarrow> mb_tenant_id m = cc_tenant_id ctx \<Longrightarrow> collaborator_target m \<Longrightarrow>
    a = new_assignment f ctx mid (mb_id m) (cr_id k) \<Longrightarrow>
    \<forall>r \<in> set (at_assignments b). \<not> ca_clash a r \<Longrightarrow>
    asg_effect c ctx b (b\<lparr> at_assignments := at_assignments b @ [a],
        at_changes := at_changes b @ [creation_change c mid u a] \<rparr>)"
| revised: "a \<in> set (at_assignments b) \<Longrightarrow> ca_tenant_id a = cc_tenant_id ctx \<Longrightarrow>
    cc_actor_kind ctx = ''PATRON_ADMIN'' \<and> as = [] \<and> us = []
      \<or> cc_actor_kind ctx = ''COLLABORATEUR'' \<and> cc_membership_id ctx = Some (ca_membership_id a) \<and> es = []
        \<and> a' = a\<lparr> ca_aggregate_revision := ca_aggregate_revision a + 1 \<rparr> \<Longrightarrow>
    scope_bounded a \<longrightarrow> step_ok a a' es as us \<Longrightarrow> asg_effect c ctx b (asg_step a' es as us b)"
| clarified: "a \<in> set (at_assignments b) \<Longrightarrow> ca_tenant_id a = cc_tenant_id ctx \<Longrightarrow>
    cc_actor_kind ctx = ''COLLABORATEUR'' \<Longrightarrow> cc_membership_id ctx = Some (ca_membership_id a) \<Longrightarrow>
    \<forall>r \<in> set rs. cl_tenant_id r = cc_tenant_id ctx \<Longrightarrow>
    asg_effect c ctx b (b\<lparr> at_clarifications := at_clarifications b @ rs \<rparr>)"
| validated: "a \<in> set (at_assignments b) \<Longrightarrow> ca_tenant_id a = cc_tenant_id ctx \<Longrightarrow>
    cc_actor_kind ctx = ''PATRON_ADMIN'' \<Longrightarrow> v = new_validation c ctx mid u a iid kind vcode \<Longrightarrow> vd_check v \<Longrightarrow>
    interaction_exists kind (cc_tenant_id ctx) (ca_id a) iid b = Some True \<Longrightarrow>
    \<forall>r \<in> set (at_validations b). \<not> vd_clash v r \<Longrightarrow>
    asg_effect c ctx b (b\<lparr> at_validations := at_validations b @ [v] \<rparr>)"

lemma find_assignment_Some:
  "find_assignment tid aid rows = Some a \<Longrightarrow> a \<in> set rows \<and> ca_tenant_id a = tid \<and> ca_id a = aid"
  unfolding find_assignment_def by (auto dest!: find_Some_in)

lemma find_case_Some: "find_case tid cid rows = Some k \<Longrightarrow> k \<in> set rows \<and> cr_tenant_id k = tid \<and> cr_id k = cid"
  unfolding find_case_def by (auto dest!: find_Some_in)

lemma find_membership_Some:
  "find_membership tid mid rows = Some m \<Longrightarrow> m \<in> set rows \<and> mb_tenant_id m = tid \<and> mb_id m = mid"
  unfolding find_membership_def by (auto dest!: find_Some_in)

lemma save_change_Inr:
  "save_change a' e b = Inr b' \<Longrightarrow> b' = asg_step a' [e] [] [] b"
  by (auto simp: save_change_def asg_step_def add_row_Inr split: if_splits sum.splits)

lemma save_row_Inr:
  "save_row a' b = Inr b' \<Longrightarrow> b' = b\<lparr> at_assignments := update_where (\<lambda>r. ca_id r = ca_id a') (\<lambda>_. a') (at_assignments b) \<rparr>"
  by (auto simp: save_row_def split: if_splits)

text \<open>The change event of a patron's command is a correct step.\<close>

lemma change_step_ok:
  assumes "(ca_id a', ca_tenant_id a', ca_membership_id a', ca_case_id a') = (ca_id a, ca_tenant_id a, ca_membership_id a, ca_case_id a)"
    and "ca_aggregate_revision a' = ca_aggregate_revision a + 1" "ca_tenant_id a = cc_tenant_id ctx"
    and "is_open_state (ca_state a)" "change_ok (change_of c ctx mid u etype reason a a')"
    and "scope_bounded a \<longrightarrow> scope_bounded a'"
  shows "scope_bounded a \<longrightarrow> step_ok a a' [change_of c ctx mid u etype reason a a'] [] []"
  using assms by (simp add: step_ok_def change_of_def)

lemma create_assignment_effect:
  assumes "em_body c = CreateCaseAssignment f" "cc_actor_kind ctx = ''PATRON_ADMIN''" "cc_membership_id ctx = Some mid"
    and "create_assignment f c ctx mid fresh b = Inr (ho, b')"
  shows "asg_effect c ctx b b'"
proof -
  from assms(4) obtain k m where
    k: "find_case (cc_tenant_id ctx) (af_case_id f) (at_cases b) = Some k" and
    m: "find_membership (cc_tenant_id ctx) (af_target_membership_id f) (at_memberships b) = Some m"
    by (auto simp: create_assignment_def split: option.splits if_splits)
  let ?a = "new_assignment f ctx mid (mb_id m) (cr_id k)"
  from assms(4) have g: "cr_lifecycle k = ''ACTIVE''" "collaborator_target m"
    "\<forall>r \<in> set (at_assignments b). \<not> ca_clash ?a r"
    "b' = b\<lparr> at_assignments := at_assignments b @ [?a],
        at_changes := at_changes b @ [creation_change c mid (fresh 0) ?a] \<rparr>"
    by (auto simp: create_assignment_def k m Let_def add_row_Inr split: if_splits sum.splits)
  show ?thesis unfolding g(4)
    by (rule asg_effect.created [OF assms(1-3) _ _ g(1) _ _ g(2) refl g(3)])
      (use find_case_Some [OF k] find_membership_Some [OF m] in simp_all)
qed

lemma amend_scope_effect:
  assumes "cc_actor_kind ctx = ''PATRON_ADMIN''" "amend_scope aid r sc c ctx mid fresh b = Inr (ho, b')"
  shows "asg_effect c ctx b b'"
proof -
  from assms(2) obtain a where a: "find_assignment (cc_tenant_id ctx) aid (at_assignments b) = Some a"
    by (auto simp: amend_scope_def split: option.splits)
  let ?a' = "a\<lparr> ca_scope_actions := scope_actions_of sc, ca_scope_classifications := internal_only,
                        ca_aggregate_revision := ca_aggregate_revision a + 1 \<rparr>"
  let ?e = "change_of c ctx mid (fresh 0) ''ASSIGNMENT_SCOPE_AMENDED'' None a ?a'"
  from assms(2) have g: "is_open_state (ca_state a)" "row_scope a \<noteq> (scope_actions_of sc, internal_only)"
    "save_change ?a' ?e b = Inr b'"
    by (auto simp: amend_scope_def a Let_def split: if_splits option.splits sum.splits)
  have "change_ok ?e" using g(1,2) by (simp add: change_ok_def change_of_def row_scope_def)
  moreover have "scope_bounded ?a'" using command_scope_bounded [of sc] by (simp add: scope_bounded_def)
  ultimately show ?thesis unfolding save_change_Inr [OF g(3)]
    by (intro asg_effect.revised [where a = a] change_step_ok) (use find_assignment_Some [OF a] g(1) assms(1) in simp_all)
qed

lemma suspend_effect:
  assumes "cc_actor_kind ctx = ''PATRON_ADMIN''" "suspend_assignment aid r reason c ctx mid fresh b = Inr (ho, b')"
  shows "asg_effect c ctx b b'"
proof -
  from assms(2) obtain a where a: "find_assignment (cc_tenant_id ctx) aid (at_assignments b) = Some a"
    by (auto simp: suspend_assignment_def split: option.splits)
  let ?a' = "a\<lparr> ca_state := ''SUSPENDED'', ca_aggregate_revision := ca_aggregate_revision a + 1 \<rparr>"
  let ?e = "change_of c ctx mid (fresh 0) ''ASSIGNMENT_SUSPENDED'' (Some reason) a ?a'"
  from assms(2) have g: "ca_state a = ''ACTIVE''" "save_change ?a' ?e b = Inr b'"
    by (auto simp: suspend_assignment_def a Let_def split: if_splits option.splits sum.splits)
  have "change_ok ?e" using g(1) by (simp add: change_ok_def change_of_def row_scope_def)
  then show ?thesis unfolding save_change_Inr [OF g(2)]
    by (intro asg_effect.revised [where a = a] change_step_ok)
      (use find_assignment_Some [OF a] g(1) assms(1) in \<open>simp_all add: is_open_state_def scope_bounded_def\<close>)
qed

lemma reactivate_effect:
  assumes "cc_actor_kind ctx = ''PATRON_ADMIN''" "reactivate_assignment aid r reason c ctx mid fresh b = Inr (ho, b')"
  shows "asg_effect c ctx b b'"
proof -
  from assms(2) obtain a where a: "find_assignment (cc_tenant_id ctx) aid (at_assignments b) = Some a"
    by (auto simp: reactivate_assignment_def split: option.splits)
  let ?a' = "a\<lparr> ca_state := ''ACTIVE'', ca_aggregate_revision := ca_aggregate_revision a + 1 \<rparr>"
  let ?e = "change_of c ctx mid (fresh 0) ''ASSIGNMENT_REACTIVATED'' (Some reason) a ?a'"
  from assms(2) have g: "ca_state a = ''SUSPENDED''" "save_change ?a' ?e b = Inr b'"
    by (auto simp: reactivate_assignment_def a Let_def split: if_splits option.splits sum.splits)
  have "change_ok ?e" using g(1) by (simp add: change_ok_def change_of_def row_scope_def)
  then show ?thesis unfolding save_change_Inr [OF g(2)]
    by (intro asg_effect.revised [where a = a] change_step_ok)
      (use find_assignment_Some [OF a] g(1) assms(1) in \<open>simp_all add: is_open_state_def scope_bounded_def\<close>)
qed

lemma end_effect:
  assumes "cc_actor_kind ctx = ''PATRON_ADMIN''" "end_assignment aid r reason c ctx mid fresh b = Inr (ho, b')"
  shows "asg_effect c ctx b b'"
proof -
  from assms(2) obtain a where a: "find_assignment (cc_tenant_id ctx) aid (at_assignments b) = Some a"
    by (auto simp: end_assignment_def split: option.splits)
  let ?a' = "a\<lparr> ca_state := ''ENDED'', ca_ended_at := Some (cc_received_at ctx),
                      ca_aggregate_revision := ca_aggregate_revision a + 1 \<rparr>"
  let ?e = "change_of c ctx mid (fresh 0) ''ASSIGNMENT_ENDED'' (Some reason) a ?a'"
  from assms(2) have g: "is_open_state (ca_state a)" "save_change ?a' ?e b = Inr b'"
    by (auto simp: end_assignment_def a Let_def split: if_splits option.splits sum.splits)
  have "change_ok ?e" using g(1) by (auto simp: change_ok_def change_of_def row_scope_def is_open_state_def)
  then show ?thesis unfolding save_change_Inr [OF g(2)]
    by (intro asg_effect.revised [where a = a] change_step_ok)
      (use find_assignment_Some [OF a] g(1) assms(1) in \<open>simp_all add: scope_bounded_def\<close>)
qed

lemma validate_effect:
  assumes "cc_actor_kind ctx = ''PATRON_ADMIN''" "validate_interaction aid iid kind vcode c ctx mid fresh b = Inr (ho, b')"
  shows "asg_effect c ctx b b'"
proof -
  from assms(2) obtain a where a: "find_assignment (cc_tenant_id ctx) aid (at_assignments b) = Some a"
    by (auto simp: validate_interaction_def split: option.splits)
  let ?v = "new_validation c ctx mid (fresh 0) a iid kind vcode"
  from assms(2) have g: "interaction_exists kind (cc_tenant_id ctx) (ca_id a) iid b = Some True" "vd_check ?v"
    "\<forall>r \<in> set (at_validations b). \<not> vd_clash ?v r" "b' = b\<lparr> at_validations := at_validations b @ [?v] \<rparr>"
    by (auto simp: validate_interaction_def a Let_def add_row_Inr split: if_splits option.splits sum.splits bool.splits)
  show ?thesis unfolding g(4)
    by (rule asg_effect.validated [OF _ _ assms(1) refl g(2,1,3)]) (use find_assignment_Some [OF a] in simp_all)
qed

lemma run_interaction_effect:
  assumes a: "a \<in> set (at_assignments b)" "ca_tenant_id a = cc_tenant_id ctx" "ca_state a = ''ACTIVE''"
    and ctx: "cc_actor_kind ctx = ''COLLABORATEUR''" "cc_membership_id ctx = Some (ca_membership_id a)" "mid = ca_membership_id a"
    and run: "run_interaction body c ctx mid fresh a b = Inr (ho, b')"
  shows "asg_effect c ctx b b'"
proof -
  let ?a' = "a\<lparr> ca_aggregate_revision := ca_aggregate_revision a + 1 \<rparr>"
  have logged: "asg_effect c ctx b (asg_step ?a' [] as us b)"
    if "scope_bounded a \<longrightarrow> step_ok a ?a' [] as us" for as us
    using a ctx that by (intro asg_effect.revised [where a = a]) (simp_all add: row_scope_def)
  show ?thesis
  proof (cases body)
    case (AcknowledgeAssignment aid r nt)
    with run obtain b1 where "save_row ?a' b = Inr b1" by (auto simp: run_interaction_def acknowledge_def Let_def split: sum.splits)
    note b1 = save_row_Inr [OF this]
    let ?r = "\<lparr> ak_id = fresh 0, ak_tenant_id = cc_tenant_id ctx, ak_assignment_id = ca_id a,
                ak_actor_id = cc_actor_id ctx, ak_membership_id = mid, ak_assignment_revision = ca_aggregate_revision ?a',
                ak_note = nt, ak_command_id = em_command_id c, ak_correlation_id = em_correlation_id c \<rparr>"
    from run AcknowledgeAssignment b1 have "b' = asg_step ?a' [] [?r] [] b"
      by (auto simp: run_interaction_def acknowledge_def Let_def add_row_Inr asg_step_def dest!: save_row_Inr split: sum.splits)
    then show ?thesis using a(2,3)
      by (simp only:) (rule logged, simp add: step_ok_def is_open_state_def row_scope_def scope_bounded_def)
  next
    case (RequestAssignmentClarification aid r kind subject question scope priority)
    then have "\<exists>rs. b' = b\<lparr> at_clarifications := at_clarifications b @ rs \<rparr> \<and> (\<forall>r \<in> set rs. cl_tenant_id r = cc_tenant_id ctx)"
      using run by (auto simp: run_interaction_def clarify_def Let_def add_row_Inr split: sum.splits option.splits if_splits
          intro: exI [of _ "[]"])
    then show ?thesis using asg_effect.clarified [OF a(1,2) ctx(1,2)] by blast
  next
    case (ReportAssignmentUnavailability aid r kind reason since until_at deadline nt)
    with run obtain b1 where "save_row ?a' b = Inr b1"
      by (auto simp: run_interaction_def report_unavailability_def Let_def split: sum.splits)
    note b1 = save_row_Inr [OF this]
    let ?r = "\<lparr> un_id = fresh 0, un_tenant_id = cc_tenant_id ctx, un_assignment_id = ca_id a,
                un_actor_id = cc_actor_id ctx, un_membership_id = mid, un_assignment_revision = ca_aggregate_revision ?a',
                un_reason_kind = kind, un_reason = reason, un_from = since, un_until = until_at,
                un_known_deadline_impact = deadline, un_impact_note = nt, un_command_id = em_command_id c,
                un_correlation_id = em_correlation_id c \<rparr>"
    from run ReportAssignmentUnavailability b1 have "b' = asg_step ?a' [] [] [?r] b"
      by (auto simp: run_interaction_def report_unavailability_def Let_def add_row_Inr asg_step_def dest!: save_row_Inr
          split: sum.splits if_splits)
    then show ?thesis using a(2,3)
      by (simp only:) (rule logged, simp add: step_ok_def is_open_state_def row_scope_def scope_bounded_def)
  qed (use run in \<open>simp_all add: run_interaction_def\<close>)
qed

lemma asg_handler_effect:
  assumes "asg_handlers ctype = Some h" "h c ctx fresh b = Inr (ho, b')"
  shows "asg_effect c ctx b b'"
proof -
  from assms consider (patron) "patron_assignment_execute c ctx fresh b = Inr (ho, b')"
    | (collaborator) "assignment_execute c ctx fresh b = Inr (ho, b')"
    by (auto simp: asg_handlers_def split: if_splits)
  then show ?thesis
  proof cases
    case patron
    then obtain mid where m: "cc_actor_kind ctx = ''PATRON_ADMIN''" "cc_membership_id ctx = Some mid"
      by (auto simp: patron_assignment_execute_def split: if_splits option.splits)
    with patron show ?thesis
      by (cases "em_body c") (auto simp: patron_assignment_execute_def intro: create_assignment_effect amend_scope_effect
          suspend_effect reactivate_effect end_effect validate_effect)
  next
    case collaborator
    then obtain mid aid expected required where m: "cc_actor_kind ctx = ''COLLABORATEUR''" "cc_membership_id ctx = Some mid"
      "interaction_target (em_body c) = Some (aid, expected, required)"
      by (auto simp: assignment_execute_def split: if_splits option.splits)
    from collaborator m obtain a where a: "find_assignment (cc_tenant_id ctx) aid (at_assignments b) = Some a"
      by (auto simp: assignment_execute_def split: option.splits)
    from collaborator have "ca_membership_id a = mid" "ca_state a = ''ACTIVE''"
      "run_interaction (em_body c) c ctx mid fresh a b = Inr (ho, b')"
      by (auto simp: assignment_execute_def m a split: if_splits option.splits)
    with find_assignment_Some [OF a] m show ?thesis by (intro run_interaction_effect [where a = a and mid = mid]) simp_all
  qed
qed

text \<open>Validations: of the kind's code, at most one per interaction, which exists.\<close>

definition validations_sound :: "asg_tables \<Rightarrow> bool" where
  "validations_sound b =
     ((\<forall>v \<in> set (at_validations b). vd_check v
         \<and> interaction_exists (vd_interaction_kind v) (vd_tenant_id v) (vd_assignment_id v) (vd_interaction_id v) b = Some True)
      \<and> (\<forall>v \<in> set (at_validations b). \<forall>v' \<in> set (at_validations b). vd_clash v v' \<longrightarrow> v = v'))"

lemma interaction_exists_mono:
  assumes "interaction_exists kind tid aid iid b = Some True"
    and "set (at_acknowledgements b) \<subseteq> set (at_acknowledgements b')"
    and "set (at_clarifications b) \<subseteq> set (at_clarifications b')"
    and "set (at_unavailabilities b) \<subseteq> set (at_unavailabilities b')"
  shows "interaction_exists kind tid aid iid b' = Some True"
  using assms by (auto simp: interaction_exists_def list_ex_iff split: if_splits)

lemma validations_sound_mono:
  assumes "validations_sound b" "at_validations b' = at_validations b"
    and "set (at_acknowledgements b) \<subseteq> set (at_acknowledgements b')"
    and "set (at_clarifications b) \<subseteq> set (at_clarifications b')"
    and "set (at_unavailabilities b) \<subseteq> set (at_unavailabilities b')"
  shows "validations_sound b'"
  using assms interaction_exists_mono [OF _ assms(3-5)] by (simp add: validations_sound_def)

lemma asg_effect_row_inv:
  assumes "asg_effect c ctx b b'" "asg_inv b"
  shows "asg_inv b'"
  using assms(1)
proof cases
  case (created f mid k m a u)
  have sb: "scope_bounded a" using command_scope_bounded [of "af_scope f"]
    by (simp add: created(11) new_assignment_def scope_bounded_def)
  have "asg_history None None [creation_change c mid u a] (Some (ca_state a)) (Some (row_scope a))"
    by (simp add: created(11) new_assignment_def creation_change_def change_ok_def row_scope_def)
  with assms(2) created sb show ?thesis
    by (simp only: created(1)) (rule asg_create_inv, auto simp: creation_change_def new_assignment_def)
next
  case (revised a as us es a')
  have "scope_bounded a" using assms(2) revised(2) by (simp add: asg_inv_def asg_row_inv_def)
  then show ?thesis unfolding revised(1) using assms(2) revised(2,5) by (intro asg_step_inv) simp_all
qed (use assms(2) in \<open>simp_all add: asg_inv_def asg_row_inv_def asg_owned_def changes_of_def recorded_revisions_def
        acknowledgements_of_def unavailabilities_of_def\<close>)

lemma asg_effect_validations:
  assumes "asg_effect c ctx b b'" "validations_sound b"
  shows "validations_sound b'"
  using assms(1)
proof cases
  case (validated a v u iid kind vcode)
  have no: "\<not> vd_clash v x \<and> \<not> vd_clash x v" if "x \<in> set (at_validations b)" for x
    using validated(8) that by (auto simp: vd_clash_def)
  have ex: "interaction_exists k t i x b' = interaction_exists k t i x b" for k t i x
    by (simp add: validated(1) interaction_exists_def)
  have "interaction_exists (vd_interaction_kind v) (vd_tenant_id v) (vd_assignment_id v) (vd_interaction_id v) b = Some True"
    using validated by (simp add: new_validation_def)
  then show ?thesis
    using assms(2) validated(6) no unfolding validations_sound_def ex unfolding validated(1) by auto
qed (use assms(2) in \<open>auto simp: asg_step_def intro: validations_sound_mono\<close>)

interpretation assignment_commands: command_handlers asg_handlers "\<lambda>b. asg_inv b \<and> validations_sound b"
  by unfold_locales (blast dest: asg_handler_effect intro: asg_effect_row_inv asg_effect_validations)

section \<open>Frames\<close>

lemma asg_step_frame:
  assumes inv: "asg_inv b" and a: "a \<in> set (at_assignments b)" and ok: "step_ok a a' es as us"
    and r: "r \<in> set (at_assignments b)" "r \<noteq> a"
  shows "r \<in> set (at_assignments (asg_step a' es as us b))"
    "changes_of (ca_id r) (asg_step a' es as us b) = changes_of (ca_id r) b"
    "acknowledgements_of (ca_id r) (asg_step a' es as us b) = acknowledgements_of (ca_id r) b"
    "unavailabilities_of (ca_id r) (asg_step a' es as us b) = unavailabilities_of (ca_id r) b"
proof -
  from r asg_inv_unique [OF inv a r(1)] ok have "ca_id r \<noteq> ca_id a'" "ca_id r \<noteq> ca_id a" by (auto simp: step_ok_def)
  with r ok show "r \<in> set (at_assignments (asg_step a' es as us b))"
    "changes_of (ca_id r) (asg_step a' es as us b) = changes_of (ca_id r) b"
    "acknowledgements_of (ca_id r) (asg_step a' es as us b) = acknowledgements_of (ca_id r) b"
    "unavailabilities_of (ca_id r) (asg_step a' es as us b) = unavailabilities_of (ca_id r) b"
    by (force simp: asg_step_def set_update_where step_ok_def changes_of_def acknowledgements_of_def unavailabilities_of_def
        filter_empty_conv)+
qed

definition assignment_log :: "uuid \<Rightarrow> asg_tables \<Rightarrow> change_row list \<times> acknowledgement_row list \<times> unavailability_row list" where
  "assignment_log aid b = (changes_of aid b, acknowledgements_of aid b, unavailabilities_of aid b)"

lemma asg_effect_closed:
  assumes inv: "asg_inv b" and eff: "asg_effect c ctx b b'"
    and r: "r \<in> set (at_assignments b)" "\<not> is_open_state (ca_state r)"
  shows "r \<in> set (at_assignments b') \<and> assignment_log (ca_id r) b' = assignment_log (ca_id r) b"
  using eff
proof cases
  case (created f mid k m a u)
  then have "ca_id a \<noteq> ca_id r" using r(1) by (auto simp: ca_clash_def)
  then show ?thesis using r(1)
    by (simp add: created(1) assignment_log_def changes_of_def acknowledgements_of_def unavailabilities_of_def creation_change_def)
next
  case (revised a as us es a')
  have ok: "step_ok a a' es as us" using inv revised(2,5) by (simp add: asg_inv_def asg_row_inv_def)
  then have "r \<noteq> a" using r(2) by (auto simp: step_ok_def)
  from asg_step_frame [OF inv revised(2) ok r(1) this] show ?thesis by (simp add: revised(1) assignment_log_def)
qed (use r(1) in \<open>simp_all add: assignment_log_def changes_of_def acknowledgements_of_def unavailabilities_of_def\<close>)

text \<open>Everything the tables hold for the tenants other than one.\<close>

definition other_tenants_assignments ::
  "uuid \<Rightarrow> asg_tables \<Rightarrow> case_assignment_row list \<times> change_row list \<times> acknowledgement_row list
     \<times> clarification_row list \<times> unavailability_row list \<times> validation_row list" where
  "other_tenants_assignments tid b =
     (filter (\<lambda>r. ca_tenant_id r \<noteq> tid) (at_assignments b), filter (\<lambda>r. ch_tenant_id r \<noteq> tid) (at_changes b),
      filter (\<lambda>r. ak_tenant_id r \<noteq> tid) (at_acknowledgements b), filter (\<lambda>r. cl_tenant_id r \<noteq> tid) (at_clarifications b),
      filter (\<lambda>r. un_tenant_id r \<noteq> tid) (at_unavailabilities b), filter (\<lambda>r. vd_tenant_id r \<noteq> tid) (at_validations b))"

lemma filter_none: "(\<forall>x \<in> set xs. \<not> P x) \<Longrightarrow> filter P xs = []"
  by (simp add: filter_empty_conv)

lemma filter_replaced:
  "\<not> P a \<Longrightarrow> \<not> P a' \<Longrightarrow> filter P (update_where (\<lambda>r. r = a) (\<lambda>_. a') rs) = filter P rs"
  by (induction rs) (auto simp: update_where_def)

lemma asg_effect_other_tenants:
  assumes inv: "asg_inv b" and eff: "asg_effect c ctx b b'"
  shows "other_tenants_assignments (cc_tenant_id ctx) b' = other_tenants_assignments (cc_tenant_id ctx) b"
  using eff
proof cases
  case (created f mid k m a u)
  then show ?thesis by (simp add: other_tenants_assignments_def new_assignment_def creation_change_def)
next
  case (revised a as us es a')
  let ?other = "\<lambda>r. ca_tenant_id r \<noteq> cc_tenant_id ctx"
  have ok: "step_ok a a' es as us" using inv revised(2,5) by (simp add: asg_inv_def asg_row_inv_def)
  have "filter ?other (update_where (\<lambda>r. ca_id r = ca_id a') (\<lambda>_. a') (at_assignments b))
      = filter ?other (update_where (\<lambda>r. r = a) (\<lambda>_. a') (at_assignments b))"
  proof -
    have "update_where (\<lambda>r. ca_id r = ca_id a') (\<lambda>_. a') (at_assignments b)
        = update_where (\<lambda>r. r = a) (\<lambda>_. a') (at_assignments b)"
      unfolding update_where_def using ok asg_inv_unique [OF inv revised(2)]
      by (intro map_cong [OF refl]) (auto simp: step_ok_def)
    then show ?thesis by simp
  qed
  also have "\<dots> = filter ?other (at_assignments b)"
    using ok revised(3) by (intro filter_replaced) (simp_all add: step_ok_def)
  finally show ?thesis using ok revised(3)
    by (simp add: other_tenants_assignments_def revised(1) asg_step_def filter_none step_ok_def)
next
  case (clarified a rs)
  then show ?thesis by (simp add: other_tenants_assignments_def filter_none)
next
  case (validated a v u iid kind vcode)
  then show ?thesis by (simp add: other_tenants_assignments_def new_validation_def)
qed

text \<open>A collaborator's command only counts interactions on the collaborator's own assignment.\<close>

definition own_interaction :: "uuid \<Rightarrow> case_assignment_row \<Rightarrow> case_assignment_row \<Rightarrow> bool" where
  "own_interaction mid a a' =
     (a' = a \<or> ca_membership_id a = mid \<and> a' = a\<lparr> ca_aggregate_revision := ca_aggregate_revision a + 1 \<rparr>)"

lemma asg_effect_collaborator:
  assumes inv: "asg_inv b" and eff: "asg_effect c ctx b b'" and kind: "cc_actor_kind ctx \<noteq> ''PATRON_ADMIN''"
  shows "cc_actor_kind ctx = ''COLLABORATEUR'' \<and> at_changes b' = at_changes b \<and> at_validations b' = at_validations b
    \<and> (\<exists>mid. cc_membership_id ctx = Some mid
        \<and> list_all2 (own_interaction mid) (at_assignments b) (at_assignments b'))"
  using eff
proof cases
  case (revised a as us es a')
  have "own_interaction (ca_membership_id a) r (if ca_id r = ca_id a' then a' else r)" if "r \<in> set (at_assignments b)" for r
    using asg_inv_unique [OF inv revised(2) that] revised(4) kind by (auto simp: own_interaction_def)
  then have "list_all2 (own_interaction (ca_membership_id a)) (at_assignments b) (at_assignments b')"
    by (simp add: revised(1) asg_step_def update_where_def list.rel_map list.rel_refl_strong)
  with revised kind show ?thesis by (simp add: asg_step_def)
next
  case (clarified a rs)
  then show ?thesis by (simp add: list.rel_refl own_interaction_def)
qed (use kind in simp_all)

section \<open>Properties\<close>

definition ex_scope_actions :: command_scope where
  "ex_scope_actions = Command_scope [''assignment.acknowledge'', ''case.dce.read'']"

lemma ex_scope_canonical: "scope_actions_of ex_scope_actions = [''assignment.acknowledge'', ''case.dce.read'']"
proof -
  have "canonicalize_scope [Scope_case_dce_read, Scope_acknowledge] = Some [''assignment.acknowledge'', ''case.dce.read'']"
    by code_simp
  then have "[''assignment.acknowledge'', ''case.dce.read''] \<in> {xs. \<exists>actions. canonicalize_scope actions = Some xs}" by blast
  then show ?thesis unfolding ex_scope_actions_def by (rule Command_scope_inverse)
qed

definition ex_asg_fields :: create_assignment_fields where
  "ex_asg_fields = \<lparr> af_assignment_id = 30, af_case_id = 40, af_target_membership_id = 11,
     af_expected_case_revision = 0, af_scope = ex_scope_actions, af_starts_at = 0, af_ends_at = None \<rparr>"

definition ex_asg_tables :: asg_tables where
  "ex_asg_tables = \<lparr>
     at_cases = [\<lparr> cr_id = 40, cr_tenant_id = 1, cr_lifecycle = ''ACTIVE'', cr_aggregate_revision = 0 \<rparr>],
     at_memberships = [\<lparr> mb_id = 11, mb_tenant_id = 1, mb_identity_id = 10, mb_role = ''COLLABORATEUR'', mb_state = ''ACTIVE'' \<rparr>],
     at_assignments = [], at_changes = [], at_acknowledgements = [], at_clarifications = [],
     at_unavailabilities = [], at_validations = [] \<rparr>"

definition ex_asg_db :: "asg_tables platform_db" where
  "ex_asg_db = \<lparr> db_receipts = [], db_events = [], db_outbox = [], db_business = ex_asg_tables \<rparr>"

definition ex_asg_request :: "string \<Rightarrow> uuid \<Rightarrow> uuid \<Rightarrow> asg_command \<Rightarrow> asg_command dispatch_request" where
  "ex_asg_request kind mid cid body = \<lparr> rq_command = \<lparr> em_command_type = asg_command_type body, em_command_id = cid,
       em_idempotency_key = cid, em_correlation_id = None, em_body = body \<rparr>,
     rq_context = \<lparr> cc_tenant_id = 1, cc_actor_id = mid, cc_actor_kind = kind, cc_received_at = 5, cc_identity_id = None,
       cc_membership_id = Some mid, cc_session_id = None, cc_case_id = None, cc_correlation_id = None \<rparr>,
     rq_fresh = (\<lambda>n. of_nat n + cid * 100), rq_handler_fresh = (\<lambda>n. of_nat n + cid * 100), rq_now = 5 \<rparr>"

lemma ex_asg_inv: "asg_inv (db_business ex_asg_db) \<and> validations_sound (db_business ex_asg_db)"
  by (simp add: asg_inv_def validations_sound_def asg_owned_def ex_asg_db_def ex_asg_tables_def Let_def)

text \<open>
  C19. The append-only tables explain every assignment, through any history of dispatched
  commands: the change events of an assignment lead from its creation to its current state and
  scope, each by a move its event type allows; every revision from 0 to the current one was
  recorded exactly once, by a change event, an acknowledgement or an unavailability report; the
  scope is a sorted, duplicate-free, non-empty part of the closed vocabulary under the single
  classification; at most one open assignment exists per membership and Case; and each patron
  validation has the code of its kind and names an interaction that exists, once.
\<close>

theorem assignment_history_kept:
  assumes "asg_inv (db_business db) \<and> validations_sound (db_business db)"
    and "dispatch_run dump asg_handlers steps db = (rs, db')"
  shows "asg_inv (db_business db') \<and> validations_sound (db_business db')"
  using assms by (rule assignment_commands.run_preserves)

theorem assignment_history_kept_witness:
  "asg_inv (db_business (snd (dispatch_run (\<lambda>_. []) asg_handlers
     [(0, ex_asg_request ''PATRON_ADMIN'' 9 1 (CreateCaseAssignment ex_asg_fields)),
      (0, ex_asg_request ''COLLABORATEUR'' 11 2 (AcknowledgeAssignment 30 0 None)),
      (0, ex_asg_request ''PATRON_ADMIN'' 9 3 (SuspendCaseAssignment 30 1 ''CASE_PAUSED''))] ex_asg_db)))"
  by (rule assignment_history_kept [OF ex_asg_inv surjective_pairing, THEN conjunct1])

definition ex_ended_assignment :: case_assignment_row where
  "ex_ended_assignment = \<lparr> ca_id = 30, ca_tenant_id = 1, ca_membership_id = 11, ca_case_id = 40, ca_state = ''ENDED'',
     ca_aggregate_revision = 1, ca_scope_actions = [''assignment.acknowledge'', ''case.dce.read''],
     ca_scope_classifications = internal_only, ca_granted_by_membership_id = 9, ca_granted_at = 0, ca_starts_at = 0,
     ca_ends_at = None, ca_ended_at = Some 5 \<rparr>"

definition ex_first_changes :: "change_row list" where
  "ex_first_changes =
     (let a = ex_ended_assignment\<lparr> ca_state := ''ACTIVE'', ca_aggregate_revision := 0, ca_ended_at := None \<rparr>;
          rq = ex_asg_request ''PATRON_ADMIN'' 9 1 (EndCaseAssignment 30 0 ''PATRON_ENDED'') in
      [creation_change (rq_command rq) 9 70 a,
       change_of (rq_command rq) (rq_context rq) 9 71 ''ASSIGNMENT_ENDED'' (Some ''PATRON_ENDED'') a ex_ended_assignment])"

definition ex_ended_db :: "asg_tables platform_db" where
  "ex_ended_db = ex_asg_db\<lparr> db_business := ex_asg_tables\<lparr> at_assignments := [ex_ended_assignment],
     at_changes := ex_first_changes \<rparr> \<rparr>"

lemma ex_ended_inv: "asg_inv (db_business ex_ended_db)"
proof -
  have "[0..1::int] = [0, 1]" by (simp add: upto_rec1)
  moreover have "''assignment.acknowledge'' \<le> ''case.dce.read''" by code_simp
  ultimately show ?thesis
    by (simp add: asg_inv_def asg_row_inv_def asg_owned_def ex_ended_db_def ex_asg_tables_def ex_first_changes_def
        ex_ended_assignment_def ex_asg_request_def creation_change_def change_of_def changes_of_def recorded_revisions_def
        acknowledgements_of_def unavailabilities_of_def change_ok_def row_scope_def scope_bounded_def
        scope_vocabulary_def internal_only_def Let_def)
qed

text \<open>
  An assignment that is no longer open is closed for good: through any further history of
  commands its row, its change events, its acknowledgements and its unavailability reports stay
  exactly as they are.
\<close>

theorem assignment_closed_final:
  assumes "asg_inv (db_business db)" "a \<in> set (at_assignments (db_business db))"
    and "ca_state a \<notin> {''ACTIVE'', ''SUSPENDED''}"
    and "dispatch_run dump asg_handlers steps db = (rs, db')"
  shows "a \<in> set (at_assignments (db_business db'))
    \<and> assignment_log (ca_id a) (db_business db') = assignment_log (ca_id a) (db_business db)"
proof -
  let ?P = "\<lambda>s. asg_inv (db_business s) \<and> a \<in> set (at_assignments (db_business s))
    \<and> assignment_log (ca_id a) (db_business s) = assignment_log (ca_id a) (db_business db)"
  have "?P db'"
  proof (rule dispatch_run_invariant [where P = ?P, OF _ _ assms(4)])
    fix k rq s r s'
    assume s: "?P s" and d: "dispatch dump asg_handlers (take k (db_receipts s)) rq s = (r, s')"
    from d show "?P s'"
    proof (cases rule: dispatch_business)
      case (handled h ho)
      then have eff: "asg_effect (rq_command rq) (rq_context rq) (db_business s) (db_business s')" by (rule asg_handler_effect)
      have "\<not> is_open_state (ca_state a)" using assms(3) by (simp add: is_open_state_def)
      with asg_effect_closed [OF _ eff] s asg_effect_row_inv [OF eff] show ?thesis by simp
    qed (use s in simp)
  qed (use assms(1,2) in simp)
  then show ?thesis by blast
qed

theorem assignment_closed_final_witness:
  "ex_ended_assignment \<in> set (at_assignments (db_business (snd (dispatch_run (\<lambda>_. []) asg_handlers
     [(0, ex_asg_request ''PATRON_ADMIN'' 9 2 (ReactivateCaseAssignment 30 1 ''CASE_RESUMED''))] ex_ended_db))))"
  by (rule assignment_closed_final [OF ex_ended_inv _ _ surjective_pairing, THEN conjunct1])
    (simp_all add: ex_ended_db_def, simp add: ex_ended_assignment_def)

text \<open>
  Who may write what: whatever the command, nothing of another tenant changes; and a command
  of anyone but a PATRON_ADMIN changes something only when a COLLABORATEUR sends it, and then it
  touches no change event and no validation, and no assignment row except by counting one
  interaction on an assignment of that collaborator's own membership.
\<close>

theorem assignment_writes_guarded:
  assumes "asg_inv (db_business db)" "dispatch dump asg_handlers seen rq db = (r, db')"
  shows "other_tenants_assignments (cc_tenant_id (rq_context rq)) (db_business db')
       = other_tenants_assignments (cc_tenant_id (rq_context rq)) (db_business db)
    \<and> (cc_actor_kind (rq_context rq) = ''PATRON_ADMIN'' \<or> db_business db' = db_business db
       \<or> cc_actor_kind (rq_context rq) = ''COLLABORATEUR''
         \<and> at_changes (db_business db') = at_changes (db_business db)
         \<and> at_validations (db_business db') = at_validations (db_business db)
         \<and> (\<exists>mid. cc_membership_id (rq_context rq) = Some mid
             \<and> list_all2 (own_interaction mid) (at_assignments (db_business db)) (at_assignments (db_business db'))))"
  using assms(2)
proof (cases rule: dispatch_business)
  case (handled h ho)
  then have "asg_effect (rq_command rq) (rq_context rq) (db_business db) (db_business db')" by (rule asg_handler_effect)
  from asg_effect_other_tenants [OF assms(1) this] asg_effect_collaborator [OF assms(1) this] show ?thesis by blast
qed simp

theorem assignment_writes_guarded_witness:
  "other_tenants_assignments 1 (db_business (snd (dispatch (\<lambda>_. []) asg_handlers []
     (ex_asg_request ''COLLABORATEUR'' 11 2 (AcknowledgeAssignment 30 0 None)) ex_ended_db))) = ([], [], [], [], [], [])"
proof -
  have "other_tenants_assignments 1 (db_business (snd (dispatch (\<lambda>_. []) asg_handlers []
     (ex_asg_request ''COLLABORATEUR'' 11 2 (AcknowledgeAssignment 30 0 None)) ex_ended_db)))
    = other_tenants_assignments 1 (db_business ex_ended_db)"
    using assignment_writes_guarded [OF ex_ended_inv surjective_pairing, where dump = "\<lambda>_. []" and seen = "[]" and
        rq = "ex_asg_request ''COLLABORATEUR'' 11 2 (AcknowledgeAssignment 30 0 None)"] by (simp add: ex_asg_request_def)
  then show ?thesis
    by (simp add: other_tenants_assignments_def ex_ended_db_def ex_asg_tables_def ex_ended_assignment_def
        ex_first_changes_def Let_def creation_change_def change_of_def ex_asg_request_def)
qed

end
