(* ===== verification/UuidText.thy ===== *)
theory UuidText
  imports Prelude
begin

text \<open>
  \<open>uuid.UUID(s)\<close> of Python's standard library: the reading of a UUID from text, as the outbox
  worker uses it on payloads, and the fact that it reads back what \<open>str(uuid)\<close> writes.
\<close>

section \<open>Reading\<close>

text \<open>\<open>s.replace(pat, "")\<close> for a non-empty \<open>pat\<close>: left to right, without overlap.\<close>

fun remove_all :: "string \<Rightarrow> nat \<Rightarrow> string \<Rightarrow> string" where
  "remove_all pat k [] = []"
| "remove_all pat (Suc k) (c # cs) = remove_all pat k cs"
| "remove_all pat 0 (c # cs) =
     (if pat \<noteq> [] \<and> take (length pat) (c # cs) = pat then remove_all pat (length pat - 1) cs else c # remove_all pat 0 cs)"

text \<open>\<open>s.strip("{}")\<close>.\<close>

definition strip_braces :: "string \<Rightarrow> string" where
  "strip_braces s = rev (dropWhile (\<lambda>c. c \<in> set ''{}'') (rev (dropWhile (\<lambda>c. c \<in> set ''{}'') s)))"

fun hex_value :: "char \<Rightarrow> nat option" where
  "hex_value c =
     (let n = code c in if 48 \<le> n \<and> n \<le> 57 then Some (n - 48)
      else if 97 \<le> n \<and> n \<le> 102 then Some (n - 87) else if 65 \<le> n \<and> n \<le> 70 then Some (n - 55) else None)"

text \<open>The digits of \<open>int(s, 16)\<close>: single underscores are allowed between two of them.\<close>

fun hex_digits :: "nat \<Rightarrow> string \<Rightarrow> nat option" where
  "hex_digits acc [] = None"
| "hex_digits acc [c] = (case hex_value c of None \<Rightarrow> None | Some d \<Rightarrow> Some (acc * 16 + d))"
| "hex_digits acc (c # d # cs) =
     (case hex_value c of None \<Rightarrow> None
      | Some v \<Rightarrow> if d = CHR ''_'' then hex_digits (acc * 16 + v) cs else hex_digits (acc * 16 + v) (d # cs))"

text \<open>After the optional prefix \<open>0x\<close> one more underscore may follow.\<close>

definition hex_prefix :: "string \<Rightarrow> string" where
  "hex_prefix s =
     (case s of (a # b # cs) \<Rightarrow>
        if a = CHR ''0'' \<and> b \<in> set ''xX'' then (case cs of (c # ds) \<Rightarrow> if c = CHR ''_'' then ds else cs | [] \<Rightarrow> cs) else s
      | _ \<Rightarrow> s)"

definition int_hex :: "string \<Rightarrow> int option" where
  "int_hex s =
     (let t = strip s;
          neg = (t \<noteq> [] \<and> hd t = CHR ''-'');
          u = (if t \<noteq> [] \<and> hd t \<in> set ''+-'' then tl t else t) in
      map_option (\<lambda>n. if neg then - int n else int n) (hex_digits 0 (hex_prefix u)))"

definition uuid_parse :: "string \<Rightarrow> uuid option" where
  "uuid_parse s =
     (let h = filter (\<lambda>c. c \<noteq> CHR ''-'') (strip_braces (remove_all ''uuid:'' 0 (remove_all ''urn:'' 0 s))) in
      if length h \<noteq> 32 then None
      else (case int_hex h of None \<Rightarrow> None | Some n \<Rightarrow> if 0 \<le> n \<and> n < 2 ^ 128 then Some (of_int n) else None))"

section \<open>Round trip\<close>

lemma remove_all_absent: "c \<in> set pat \<Longrightarrow> c \<notin> set s \<Longrightarrow> remove_all pat 0 s = s"
proof (induction s)
  case (Cons d s)
  have "take (length pat) (d # s) \<noteq> pat"
  proof
    assume "take (length pat) (d # s) = pat"
    then have "c \<in> set (take (length pat) (d # s))" using Cons.prems(1) by simp
    then have "c \<in> set (d # s)" by (rule in_set_takeD)
    then show False using Cons.prems(2) by simp
  qed
  then show ?case using Cons by simp
qed simp

lemma hex_value_digit: "d < 16 \<Longrightarrow> hex_value (hex_digit d) = Some d"
  by (auto simp: hex_digit_def code_char_of Let_def)

definition plain_digit :: "char \<Rightarrow> bool" where
  "plain_digit c =
     (c \<notin> set ''{}'' \<and> c \<notin> set ''+-'' \<and> c \<noteq> CHR ''_'' \<and> c \<notin> set ''xX'' \<and> c \<noteq> CHR '':'' \<and> \<not> py_space c)"

lemma hex_char_facts: "c \<in> set hex_chars \<Longrightarrow> plain_digit c"
proof -
  have "list_all plain_digit hex_chars" by code_simp
  then show "c \<in> set hex_chars \<Longrightarrow> plain_digit c" by (simp only: list_all_iff)
qed

lemma plain_digitD:
  assumes "plain_digit c"
  shows "c \<notin> set ''{}''" "c \<notin> set ''+-''" "c \<noteq> CHR ''_''" "c \<notin> set ''xX''" "c \<noteq> CHR '':''" "\<not> py_space c"
  using assms unfolding plain_digit_def by blast+

lemma hex_digits_snoc:
  "s \<noteq> [] \<Longrightarrow> set s \<subseteq> set hex_chars \<Longrightarrow> d < 16 \<Longrightarrow>
     hex_digits acc (s @ [hex_digit d]) = map_option (\<lambda>a. a * 16 + d) (hex_digits acc s)"
proof (induction acc s rule: hex_digits.induct)
  case (2 acc c)
  have "hex_digit d \<noteq> CHR ''_''" by (rule plain_digitD [OF hex_char_facts [OF hex_digit_in [OF 2(3)]]])
  then show ?case using 2 by (simp add: hex_value_digit split: option.split del: hex_value.simps)
next
  case (3 acc c e cs)
  have "e \<in> set hex_chars" using 3(4) by simp
  then have "e \<noteq> CHR ''_''" by (rule plain_digitD [OF hex_char_facts])
  then show ?case using 3 by (cases "hex_value c") (simp_all del: hex_value.simps)
qed simp

lemma hex_digits_fixed: "hex_digits 0 (hex_fixed (Suc k) n) = Some (n mod 16 ^ Suc k)"
proof (induction k arbitrary: n)
  case 0
  show ?case by (simp add: hex_value_digit del: hex_value.simps)
next
  case (Suc k)
  let ?s = "hex_fixed (Suc k) (n div 16)"
  have "hex_digits 0 (?s @ [hex_digit (n mod 16)]) = map_option (\<lambda>a. a * 16 + n mod 16) (hex_digits 0 ?s)"
    by (rule hex_digits_snoc) (simp, rule set_hex_fixed, simp)
  also have "\<dots> = Some ((n div 16) mod 16 ^ Suc k * 16 + n mod 16)" by (simp only: Suc option.map)
  also have "(n div 16) mod 16 ^ Suc k * 16 + n mod 16 = n mod 16 ^ Suc (Suc k)"
    using mod_mult2_eq [of n 16 "16 ^ Suc k"] by (simp only: power_Suc [of 16 "Suc k"] ac_simps)
  finally show ?case by simp
qed

lemma strip_no_space: "\<forall>c \<in> set s. \<not> py_space c \<Longrightarrow> strip s = s"
proof -
  assume a: "\<forall>c \<in> set s. \<not> py_space c"
  have d: "dropWhile py_space t = t" if "set t \<subseteq> set s" for t
    using that a by (cases t) auto
  show ?thesis by (simp add: strip_def lstrip_def d)
qed

lemma strip_braces_none: "\<forall>c \<in> set s. c \<notin> set ''{}'' \<Longrightarrow> strip_braces s = s"
proof -
  assume a: "\<forall>c \<in> set s. c \<notin> set ''{}''"
  have d: "dropWhile (\<lambda>c. c \<in> set ''{}'') t = t" if "set t \<subseteq> set s" for t
    using that a by (cases t) auto
  show ?thesis by (simp only: strip_braces_def d subset_refl set_rev rev_rev_ident)
qed

lemma int_hex_fixed: "int_hex (hex_fixed (Suc (Suc k)) n) = Some (int (n mod 16 ^ Suc (Suc k)))"
proof -
  define h where "h = hex_fixed (Suc (Suc k)) n"
  have sub: "set h \<subseteq> set hex_chars" unfolding h_def by (rule set_hex_fixed)
  have pl: "plain_digit c" if "c \<in> set h" for c using that sub by (blast intro: hex_char_facts)
  have len: "length h = Suc (Suc k)" unfolding h_def by (rule length_hex_fixed)
  then obtain a b cs where h: "h = a # b # cs" by (metis length_Suc_conv)
  have st: "strip h = h" by (rule strip_no_space) (blast dest: pl plain_digitD)
  have "a \<in> set h" "b \<in> set h" unfolding h by simp_all
  then have a: "a \<notin> set ''+-''" and b: "b \<notin> set ''xX''" by (blast dest: plain_digitD pl, blast dest: plain_digitD pl)
  have "a \<noteq> CHR ''-''" using a by simp
  have pre: "hex_prefix h = h" using b unfolding h hex_prefix_def by (simp only: list.case if_False simp_thms)
  have v: "hex_digits 0 h = Some (n mod 16 ^ Suc (Suc k))" unfolding h_def by (rule hex_digits_fixed)
  have "h \<noteq> []" "hd h = a" using h by simp_all
  then have "int_hex h = Some (int (n mod 16 ^ Suc (Suc k)))"
    using a \<open>a \<noteq> CHR ''-''\<close> unfolding int_hex_def st Let_def
    by (simp only: pre v if_False simp_thms option.map)
  then show ?thesis unfolding h_def .
qed

theorem uuid_parse_str: "uuid_parse (uuid_str u) = Some u"
proof -
  define s where "s = uuid_str u"
  have h: "filter (\<lambda>c. c \<noteq> CHR ''-'') s = hex_fixed 32 (unat u)" unfolding s_def by (rule uuid_str_undash)
  have pl: "c = CHR ''-'' \<or> plain_digit c" if "c \<in> set s" for c
  proof (cases "c = CHR ''-''")
    case False
    then have "c \<in> set (filter (\<lambda>c. c \<noteq> CHR ''-'') s)" using that by (simp only: set_filter mem_Collect_eq simp_thms)
    then have "c \<in> set hex_chars" using set_hex_fixed [of 32 "unat u"] unfolding h by blast
    then show ?thesis by (simp only: hex_char_facts simp_thms)
  qed simp
  have colon: "CHR '':'' \<notin> set s"
  proof
    assume "CHR '':'' \<in> set s"
    from pl [OF this] show False by (auto dest: plain_digitD(5))
  qed
  have "c \<notin> set ''{}''" if "c \<in> set s" for c using pl [OF that] by (elim disjE) (simp, rule plain_digitD(1))
  then have br: "strip_braces s = s" by (intro strip_braces_none ballI)
  have rem: "remove_all ''uuid:'' 0 (remove_all ''urn:'' 0 s) = s"
    using colon by (simp add: remove_all_absent [of "CHR '':''"])
  have len: "length (hex_fixed 32 (unat u)) = 32" by (rule length_hex_fixed)
  have lt: "int (unat u) < 2 ^ 128" using unsigned_less [of u] by simp
  have k: "Suc (Suc 30) = 32" by simp
  have "unat u < 16 ^ 32" using unsigned_less [of u, where ?'a = nat] by simp
  then have "unat u mod 16 ^ 32 = unat u" by (rule mod_less)
  then have v: "int_hex (hex_fixed 32 (unat u)) = Some (int (unat u))"
    using int_hex_fixed [of 30 "unat u"] by (simp only: k)
  have "uuid_parse s = Some (of_int (int (unat u)))"
    unfolding uuid_parse_def rem br h Let_def v using len lt by (simp only: option.case if_True if_False of_nat_0_le_iff simp_thms)
  then show ?thesis unfolding s_def by simp
qed

end
