(* ===== verification/CockpitProjection.thy ===== *)
theory CockpitProjection
  imports Dispatcher UuidText "HOL-Library.Product_Lexorder"
begin

text \<open>
  The delivery of the outbox to the cockpit (\<open>workers/cockpit_projection.py\<close>) with the retry
  policy it shares with the other workers (\<open>platform/events/retry_policy.py\<close>) and its counters
  (\<open>platform/observability/outbox.py\<close>).

  The projection is a port: \<open>apply\<close> is given the calls already made and the call, and says
  how it ends (returning, raising one of the three exceptions the worker catches, or any other one).
  \<open>created_at\<close> is a column the database fills; it is the argument \<open>created\<close>.
\<close>

section \<open>Retry policy\<close>

definition DEFAULT_MAX_OUTBOX_ATTEMPTS :: int where
  "DEFAULT_MAX_OUTBOX_ATTEMPTS = 10"

definition MAX_OUTBOX_ATTEMPTS_LIMIT :: int where
  "MAX_OUTBOX_ATTEMPTS_LIMIT = 100"

record retry_decision =
  rd_attempt_count :: int
  rd_status :: string
  rd_next_attempt_at :: "instant option"

definition timedelta_seconds :: "int \<Rightarrow> int" where
  "timedelta_seconds s = s * 1000000"

definition delay_seconds :: "int \<Rightarrow> int" where
  "delay_seconds n = min (30 * 2 ^ nat (max (n - 1) 0)) 3600"

definition decide_retry :: "int \<Rightarrow> instant \<Rightarrow> int \<Rightarrow> exn + retry_decision" where
  "decide_retry attempts now max_attempts =
     (if \<not> (1 \<le> max_attempts \<and> max_attempts \<le> MAX_OUTBOX_ATTEMPTS_LIMIT)
        then Inl (ValueError ''max_attempts must be between 1 and 100'')
      else if max_attempts \<le> attempts + 1
        then Inr \<lparr> rd_attempt_count = attempts + 1, rd_status = ''FAILED'', rd_next_attempt_at = None \<rparr>
      else Inr \<lparr> rd_attempt_count = attempts + 1, rd_status = ''RETRY'',
                 rd_next_attempt_at = Some (now + timedelta_seconds (delay_seconds (attempts + 1))) \<rparr>)"

section \<open>The closed event contract\<close>

record safe_cockpit_event =
  se_event_id :: uuid
  se_event_type :: string
  se_aggregate_type :: string
  se_aggregate_id :: uuid
  se_aggregate_revision :: int
  se_payload :: "(string \<times> json) list"

definition COCKPIT_PROJECTION_TOPIC :: string where
  "COCKPIT_PROJECTION_TOPIC = ''cockpit_projection''"

definition ALLOWED_EVENT_TYPES :: "string list" where
  "ALLOWED_EVENT_TYPES = [''DCE_STAGING_QUARANTINE_RECORDED'', ''DCE_STAGING_SCAN_RECORDED'']"

definition ALLOWED_DATA_FIELDS :: "string list" where
  "ALLOWED_DATA_FIELDS = [''storage_object_id'', ''tenant_id'', ''consultation_id'', ''state'']"

definition ALLOWED_STATES :: "string list" where
  "ALLOWED_STATES = [''PENDING_SCAN'', ''SCANNED'', ''REJECTED'']"

definition EXPECTED_FIELDS :: "string list" where
  "EXPECTED_FIELDS = [''event_id'', ''event_type'', ''aggregate_type'', ''aggregate_id'', ''aggregate_revision'', ''data'']"

fun json_uuid :: "json option \<Rightarrow> uuid option" where
  "json_uuid (Some (JStr s)) = uuid_parse s"
| "json_uuid _ = None"

text \<open>\<open>isinstance(x, int)\<close> holds of a Python bool too, which is 0 or 1.\<close>

fun json_int :: "json option \<Rightarrow> int option" where
  "json_int (Some (JInt i)) = Some i"
| "json_int (Some (JBool b)) = Some (if b then 1 else 0)"
| "json_int _ = None"

fun json_obj :: "json option \<Rightarrow> (string \<times> json) list option" where
  "json_obj (Some (JObj kvs)) = Some kvs"
| "json_obj _ = None"

fun json_str_in :: "string list \<Rightarrow> json option \<Rightarrow> string option" where
  "json_str_in allowed (Some (JStr s)) = (if s \<in> set allowed then Some s else None)"
| "json_str_in allowed _ = None"

definition same_keys :: "(string \<times> json) list \<Rightarrow> string list \<Rightarrow> bool" where
  "same_keys kvs names = (set (map fst kvs) = set names)"

text \<open>The checks of the \<open>data\<close> object.\<close>

definition safe_data :: "uuid \<Rightarrow> (string \<times> json) list \<Rightarrow> bool" where
  "safe_data tid data =
     (same_keys data ALLOWED_DATA_FIELDS
      \<and> map_of data ''tenant_id'' = Some (JStr (uuid_str tid))
      \<and> json_uuid (map_of data ''storage_object_id'') \<noteq> None
      \<and> json_uuid (map_of data ''consultation_id'') \<noteq> None
      \<and> json_str_in ALLOWED_STATES (map_of data ''state'') \<noteq> None)"

definition safe_event :: "json \<Rightarrow> uuid \<Rightarrow> safe_cockpit_event option" where
  "safe_event payload tid =
     (case payload of
        JObj kvs \<Rightarrow>
          if \<not> same_keys kvs EXPECTED_FIELDS then None
          else (case (json_uuid (map_of kvs ''event_id''), json_uuid (map_of kvs ''aggregate_id'')) of
             (Some eid, Some aid) \<Rightarrow>
               (case json_str_in ALLOWED_EVENT_TYPES (map_of kvs ''event_type'') of None \<Rightarrow> None | Some etype \<Rightarrow>
                if map_of kvs ''aggregate_type'' \<noteq> Some (JStr ''DCE_STAGED_OBJECT'') then None
                else (case json_int (map_of kvs ''aggregate_revision'') of None \<Rightarrow> None | Some revn \<Rightarrow>
                  if revn < 0 then None
                  else (case json_obj (map_of kvs ''data'') of None \<Rightarrow> None | Some data \<Rightarrow>
                    if safe_data tid data
                    then Some \<lparr> se_event_id = eid, se_event_type = etype, se_aggregate_type = ''DCE_STAGED_OBJECT'',
                                se_aggregate_id = aid, se_aggregate_revision = revn, se_payload = data \<rparr>
                    else None)))
           | _ \<Rightarrow> None)
      | _ \<Rightarrow> None)"

section \<open>Counters\<close>

definition METRIC_STATUSES :: "string list" where
  "METRIC_STATUSES = [''PUBLISHED'', ''RETRY'', ''FAILED'', ''NOT_CONFIGURED'']"

text \<open>A \<open>collections.Counter\<close>: an absent key counts zero. The worker only records upper-case literals.\<close>

type_synonym counters = "string \<Rightarrow> int"

definition record_metric :: "string \<Rightarrow> counters \<Rightarrow> exn + counters" where
  "record_metric status m =
     (if upper status \<notin> set METRIC_STATUSES then Inl (ValueError ''unsupported cockpit projection status'')
      else Inr (m(upper status := m (upper status) + 1)))"

record run_result =
  rr_delivered :: int
  rr_skipped :: int
  rr_retried :: int
  rr_failed :: int
  rr_not_configured :: int

definition no_result :: run_result where
  "no_result = \<lparr> rr_delivered = 0, rr_skipped = 0, rr_retried = 0, rr_failed = 0, rr_not_configured = 0 \<rparr>"

definition merge_results :: "run_result \<Rightarrow> run_result \<Rightarrow> run_result" where
  "merge_results a b = \<lparr> rr_delivered = rr_delivered a + rr_delivered b, rr_skipped = rr_skipped a + rr_skipped b,
     rr_retried = rr_retried a + rr_retried b, rr_failed = rr_failed a + rr_failed b,
     rr_not_configured = rr_not_configured a + rr_not_configured b \<rparr>"

definition metric_line :: "counters \<Rightarrow> string \<Rightarrow> string" where
  "metric_line m status =
     ''smart_ao_cockpit_projection_messages_total{status='' @ [CHR 0x22] @ status @ [CHR 0x22] @ ''} '' @ int_str (m status)"

text \<open>The statuses in \<open>sorted\<close> order.\<close>

definition render_prometheus :: "counters \<Rightarrow> string" where
  "render_prometheus m = concat (map (\<lambda>l. l @ [CHR 0x0A])
     ([''# HELP smart_ao_cockpit_projection_messages_total Outbox messages by terminal or retry status.'',
       ''# TYPE smart_ao_cockpit_projection_messages_total counter'']
      @ map (metric_line m) [''FAILED'', ''NOT_CONFIGURED'', ''PUBLISHED'', ''RETRY'']))"

section \<open>The worker\<close>

text \<open>How a call of the projection ends: it returns, it raises one of the exceptions the worker
  catches (\<open>CockpitProjectionDeliveryError\<close>, \<open>OSError\<close>, \<open>ValueError\<close>), or any other one.\<close>

datatype apply_outcome = Applied | Rejected | Crashed exn

type_synonym cockpit_call = "uuid \<times> safe_cockpit_event"

type_synonym cockpit_port = "cockpit_call list \<Rightarrow> cockpit_call \<Rightarrow> apply_outcome"

record cockpit_worker =
  cw_projection :: "cockpit_port option"
  cw_batch_size :: int
  cw_lease_seconds :: int
  cw_max_attempts :: int

definition new_cockpit_worker :: "cockpit_port option \<Rightarrow> int \<Rightarrow> int \<Rightarrow> int \<Rightarrow> exn + cockpit_worker" where
  "new_cockpit_worker projection batch_size lease_seconds max_attempts =
     (if \<not> (1 \<le> batch_size \<and> batch_size \<le> 200) then Inl (ValueError ''batch_size must be between 1 and 200'')
      else if \<not> (1 \<le> lease_seconds \<and> lease_seconds \<le> 3600) then Inl (ValueError ''lease_seconds must be between 1 and 3600'')
      else if \<not> (1 \<le> max_attempts \<and> max_attempts \<le> MAX_OUTBOX_ATTEMPTS_LIMIT)
        then Inl (ValueError ''max_attempts must be between 1 and 100'')
      else Inr \<lparr> cw_projection = projection, cw_batch_size = batch_size, cw_lease_seconds = lease_seconds,
                 cw_max_attempts = max_attempts \<rparr>)"

text \<open>The outbox table, the calls the projection received, and the counters.\<close>

record cockpit_state =
  cs_outbox :: "outbox_row list"
  cs_calls :: "cockpit_call list"
  cs_metrics :: counters

definition due :: "instant \<Rightarrow> outbox_row \<Rightarrow> bool" where
  "due now m =
     (ob_topic m = COCKPIT_PROJECTION_TOPIC \<and> ob_status m \<in> {''PENDING'', ''RETRY''}
      \<and> (case ob_next_attempt_at m of None \<Rightarrow> True | Some t \<Rightarrow> t \<le> now))"

definition claimed_ids :: "(uuid \<Rightarrow> instant) \<Rightarrow> cockpit_worker \<Rightarrow> instant \<Rightarrow> outbox_row list \<Rightarrow> uuid list" where
  "claimed_ids created w now rows =
     map ob_id (take (nat (cw_batch_size w)) (sort_key (\<lambda>m. (created (ob_id m), ob_id m)) (filter (due now) rows)))"

definition lease :: "cockpit_worker \<Rightarrow> instant \<Rightarrow> outbox_row \<Rightarrow> outbox_row" where
  "lease w now m = m\<lparr> ob_status := ''RETRY'', ob_next_attempt_at := Some (now + timedelta_seconds (cw_lease_seconds w)) \<rparr>"

definition claim_due_messages ::
  "(uuid \<Rightarrow> instant) \<Rightarrow> cockpit_worker \<Rightarrow> instant \<Rightarrow> cockpit_state \<Rightarrow> uuid list \<times> cockpit_state" where
  "claim_due_messages created w now st =
     (let ids = claimed_ids created w now (cs_outbox st) in
      (ids, st\<lparr> cs_outbox := update_where (\<lambda>m. ob_id m \<in> set ids) (lease w now) (cs_outbox st) \<rparr>))"

definition get_message :: "uuid \<Rightarrow> outbox_row list \<Rightarrow> outbox_row option" where
  "get_message mid rows = List.find (\<lambda>m. ob_id m = mid) rows"

text \<open>The shape \<open>_publish\<close>, \<open>_not_configured\<close>, \<open>_fail\<close> and \<open>_retry\<close> share: re-read the message
  in a transaction of its own, give up when it is gone or published, otherwise update it and count.\<close>

definition settle ::
  "uuid \<Rightarrow> (outbox_row \<Rightarrow> exn + (outbox_row \<times> run_result)) \<Rightarrow> cockpit_state \<Rightarrow> (exn + run_result) \<times> cockpit_state" where
  "settle mid f st =
     (case get_message mid (cs_outbox st) of
        None \<Rightarrow> (Inr (no_result\<lparr> rr_skipped := 1 \<rparr>), st)
      | Some m \<Rightarrow>
        if ob_status m = ''PUBLISHED'' then (Inr (no_result\<lparr> rr_skipped := 1 \<rparr>), st)
        else (case f m of Inl e \<Rightarrow> (Inl e, st) | Inr (m', res) \<Rightarrow>
          (let st' = st\<lparr> cs_outbox := update_where (\<lambda>r. ob_id r = mid) (\<lambda>_. m') (cs_outbox st) \<rparr> in
           case record_metric (ob_status m') (cs_metrics st) of
             Inl e \<Rightarrow> (Inl e, st')
           | Inr counts \<Rightarrow> (Inr res, st'\<lparr> cs_metrics := counts \<rparr>))))"

definition publish_message :: "instant \<Rightarrow> outbox_row \<Rightarrow> exn + (outbox_row \<times> run_result)" where
  "publish_message now m =
     Inr (m\<lparr> ob_status := ''PUBLISHED'', ob_published_at := Some now, ob_next_attempt_at := None,
             ob_last_error_code := None \<rparr>, no_result\<lparr> rr_delivered := 1 \<rparr>)"

definition not_configured_message :: "outbox_row \<Rightarrow> exn + (outbox_row \<times> run_result)" where
  "not_configured_message m =
     Inr (m\<lparr> ob_status := ''NOT_CONFIGURED'', ob_next_attempt_at := None,
             ob_last_error_code := Some ''COCKPIT_PROJECTION_NOT_CONFIGURED'' \<rparr>, no_result\<lparr> rr_not_configured := 1 \<rparr>)"

definition fail_message :: "string \<Rightarrow> outbox_row \<Rightarrow> exn + (outbox_row \<times> run_result)" where
  "fail_message error_code m =
     Inr (m\<lparr> ob_status := ''FAILED'', ob_attempt_count := ob_attempt_count m + 1, ob_next_attempt_at := None,
             ob_last_error_code := Some error_code \<rparr>, no_result\<lparr> rr_failed := 1 \<rparr>)"

definition retry_message :: "cockpit_worker \<Rightarrow> instant \<Rightarrow> string \<Rightarrow> outbox_row \<Rightarrow> exn + (outbox_row \<times> run_result)" where
  "retry_message w now error_code m =
     (case decide_retry (ob_attempt_count m) now (cw_max_attempts w) of Inl e \<Rightarrow> Inl e | Inr d \<Rightarrow>
      Inr (m\<lparr> ob_status := rd_status d, ob_attempt_count := rd_attempt_count d,
              ob_next_attempt_at := rd_next_attempt_at d, ob_last_error_code := Some error_code \<rparr>,
           no_result\<lparr> rr_retried := (if rd_status d = ''RETRY'' then 1 else 0),
                      rr_failed := (if rd_status d = ''FAILED'' then 1 else 0) \<rparr>))"

definition process_message ::
  "cockpit_worker \<Rightarrow> instant \<Rightarrow> uuid \<Rightarrow> cockpit_state \<Rightarrow> (exn + run_result) \<times> cockpit_state" where
  "process_message w now mid st =
     (case get_message mid (cs_outbox st) of
        None \<Rightarrow> (Inr (no_result\<lparr> rr_skipped := 1 \<rparr>), st)
      | Some m \<Rightarrow>
        if ob_topic m \<noteq> COCKPIT_PROJECTION_TOPIC then (Inr (no_result\<lparr> rr_skipped := 1 \<rparr>), st)
        else (case safe_event (ob_payload m) (ob_tenant_id m) of
           None \<Rightarrow> settle mid (fail_message ''INVALID_COCKPIT_EVENT_PAYLOAD'') st
         | Some e \<Rightarrow>
           (case cw_projection w of
              None \<Rightarrow> settle mid not_configured_message st
            | Some port \<Rightarrow>
              (let call = (ob_tenant_id m, e); st' = st\<lparr> cs_calls := cs_calls st @ [call] \<rparr> in
               case port (cs_calls st) call of
                 Applied \<Rightarrow> settle mid (publish_message now) st'
               | Rejected \<Rightarrow> settle mid (retry_message w now ''COCKPIT_PROJECTION_DELIVERY_FAILED'') st'
               | Crashed x \<Rightarrow> (Inl x, st')))))"

fun process_messages ::
  "cockpit_worker \<Rightarrow> instant \<Rightarrow> uuid list \<Rightarrow> run_result \<Rightarrow> cockpit_state \<Rightarrow> (exn + run_result) \<times> cockpit_state" where
  "process_messages w now [] acc st = (Inr acc, st)"
| "process_messages w now (mid # mids) acc st =
     (case process_message w now mid st of
        (Inl e, st') \<Rightarrow> (Inl e, st')
      | (Inr res, st') \<Rightarrow> process_messages w now mids (merge_results acc res) st')"

definition run_once ::
  "(uuid \<Rightarrow> instant) \<Rightarrow> cockpit_worker \<Rightarrow> instant \<Rightarrow> cockpit_state \<Rightarrow> (exn + run_result) \<times> cockpit_state" where
  "run_once created w now st =
     (case claim_due_messages created w now st of (ids, st') \<Rightarrow> process_messages w now ids no_result st')"

text \<open>The loop of \<open>main\<close> over the instants at which it wakes up; an exception ends it.\<close>

fun run_worker ::
  "(uuid \<Rightarrow> instant) \<Rightarrow> cockpit_worker \<Rightarrow> instant list \<Rightarrow> cockpit_state \<Rightarrow> exn option \<times> cockpit_state" where
  "run_worker created w [] st = (None, st)"
| "run_worker created w (now # nows) st =
     (case run_once created w now st of
        (Inl e, st') \<Rightarrow> (Some e, st')
      | (Inr _, st') \<Rightarrow> run_worker created w nows st')"

end
