(* ===== verification/CockpitDelivery.thy ===== *)
theory CockpitDelivery
  imports CockpitProjection
begin

text \<open>
  How the worker of \<open>CockpitProjection\<close> changes the outbox: what one message goes through, what a
  run does to every row, why the queue drains, and when a message is published.
\<close>

section \<open>Rows\<close>

definition live :: "outbox_row \<Rightarrow> bool" where
  "live m = (ob_topic m = COCKPIT_PROJECTION_TOPIC \<and> ob_status m \<in> {''PENDING'', ''RETRY''})"

text \<open>What identifies a message and says what it carries.\<close>

definition same_message :: "outbox_row \<Rightarrow> outbox_row \<Rightarrow> bool" where
  "same_message m m' =
     (ob_id m' = ob_id m \<and> ob_tenant_id m' = ob_tenant_id m \<and> ob_event_id m' = ob_event_id m
      \<and> ob_topic m' = ob_topic m \<and> ob_payload m' = ob_payload m)"

lemma same_message_refl [simp]: "same_message m m"
  by (simp add: same_message_def)

lemma same_message_trans: "same_message a b \<Longrightarrow> same_message b c \<Longrightarrow> same_message a c"
  by (simp add: same_message_def)

lemma due_live: "due now m \<Longrightarrow> live m"
  by (simp add: due_def live_def)

lemma live_unpublished: "live m \<Longrightarrow> ob_status m \<noteq> ''PUBLISHED''"
  by (auto simp: live_def)

section \<open>Valid workers\<close>

definition worker_ok :: "cockpit_worker \<Rightarrow> bool" where
  "worker_ok w = (1 \<le> cw_batch_size w \<and> 1 \<le> cw_lease_seconds w \<and> cw_lease_seconds w \<le> 3600
     \<and> 1 \<le> cw_max_attempts w \<and> cw_max_attempts w \<le> MAX_OUTBOX_ATTEMPTS_LIMIT)"

lemma new_worker_ok: "new_cockpit_worker p b l a = Inr w \<Longrightarrow> worker_ok w \<and> cw_projection w = p"
  by (auto simp: new_cockpit_worker_def worker_ok_def split: if_splits)

lemma delay_bounds: "0 \<le> delay_seconds n" "delay_seconds n \<le> 3600"
  by (simp_all add: delay_seconds_def)

section \<open>One message\<close>

text \<open>The ways in which processing leaves the message: final, or due again within the hour with one
  more attempt counted, still below the limit.\<close>

definition finished :: "outbox_row \<Rightarrow> bool" where
  "finished m = (ob_status m \<in> {''PUBLISHED'', ''NOT_CONFIGURED'', ''FAILED''})"

definition rescheduled :: "cockpit_worker \<Rightarrow> instant \<Rightarrow> outbox_row \<Rightarrow> outbox_row \<Rightarrow> bool" where
  "rescheduled w now m m' =
     (ob_status m' = ''RETRY'' \<and> ob_attempt_count m' = ob_attempt_count m + 1 \<and> ob_attempt_count m' < cw_max_attempts w
      \<and> (\<exists>t. ob_next_attempt_at m' = Some t \<and> now \<le> t \<and> t \<le> now + timedelta_seconds 3600))"

definition applied_call :: "cockpit_worker \<Rightarrow> cockpit_call list \<Rightarrow> cockpit_call \<Rightarrow> bool" where
  "applied_call w calls c =
     (\<exists>port k. cw_projection w = Some port \<and> k < length calls \<and> calls ! k = c \<and> port (take k calls) c = Applied)"

definition acknowledged :: "cockpit_worker \<Rightarrow> cockpit_call list \<Rightarrow> outbox_row \<Rightarrow> bool" where
  "acknowledged w calls m =
     (\<exists>e. safe_event (ob_payload m) (ob_tenant_id m) = Some e \<and> applied_call w calls (ob_tenant_id m, e))"

text \<open>The call a message gives rise to.\<close>

definition called :: "outbox_row \<Rightarrow> cockpit_call \<Rightarrow> bool" where
  "called m c = (fst c = ob_tenant_id m \<and> safe_event (ob_payload m) (ob_tenant_id m) = Some (snd c))"

definition refused :: "outbox_row \<Rightarrow> bool" where
  "refused m = (ob_status m = ''FAILED'' \<and> ob_last_error_code m = Some ''INVALID_COCKPIT_EVENT_PAYLOAD'')"

definition processed :: "cockpit_worker \<Rightarrow> instant \<Rightarrow> cockpit_call list \<Rightarrow> outbox_row \<Rightarrow> outbox_row \<Rightarrow> bool" where
  "processed w now calls m m' =
     (same_message m m' \<and> (finished m' \<or> rescheduled w now m m') \<and> (ob_status m' = ''PUBLISHED'' \<longrightarrow> acknowledged w calls m)
      \<and> (safe_event (ob_payload m) (ob_tenant_id m) = None \<longrightarrow> refused m'))"

lemma applied_call_append: "applied_call w calls c \<Longrightarrow> applied_call w (calls @ more_calls) c"
  by (fastforce simp: applied_call_def nth_append)

lemma acknowledged_append: "acknowledged w calls m \<Longrightarrow> acknowledged w (calls @ more_calls) m"
  by (auto simp: acknowledged_def intro: applied_call_append)

lemma processed_append: "processed w now calls m m' \<Longrightarrow> processed w now (calls @ more_calls) m m'"
  by (auto simp: processed_def intro: acknowledged_append)

lemma record_metric_ok: "s \<in> set METRIC_STATUSES \<Longrightarrow> record_metric s c = Inr (c(s := c s + 1))"
proof -
  have "list_all (\<lambda>s. upper s = s) METRIC_STATUSES" by code_simp
  then show "s \<in> set METRIC_STATUSES \<Longrightarrow> ?thesis" by (simp add: list_all_iff record_metric_def)
qed

lemma settle_ok:
  assumes "get_message mid (cs_outbox st) = Some m" "ob_status m \<noteq> ''PUBLISHED''" "f m = Inr (m', res)"
    "ob_status m' \<in> set METRIC_STATUSES"
  obtains st' where "settle mid f st = (Inr res, st')" "cs_calls st' = cs_calls st"
    "cs_outbox st' = update_where (\<lambda>r. ob_id r = mid) (\<lambda>_. m') (cs_outbox st)"
  using assms
  by (intro that [of "st\<lparr> cs_outbox := update_where (\<lambda>r. ob_id r = mid) (\<lambda>_. m') (cs_outbox st),
        cs_metrics := (cs_metrics st)(ob_status m' := cs_metrics st (ob_status m') + 1) \<rparr>"])
    (simp_all add: settle_def record_metric_ok Let_def)

lemma retry_message_ok:
  assumes "worker_ok w"
  shows "\<exists>m' res. retry_message w now e m = Inr (m', res) \<and> same_message m m' \<and> ob_status m' \<in> {''RETRY'', ''FAILED''}
    \<and> (finished m' \<or> rescheduled w now m m')"
proof -
  let ?a = "ob_attempt_count m + 1"
  have ok: "1 \<le> cw_max_attempts w \<and> cw_max_attempts w \<le> MAX_OUTBOX_ATTEMPTS_LIMIT"
    using assms by (simp add: worker_ok_def)
  show ?thesis
  proof (cases "cw_max_attempts w \<le> ?a")
    case True
    then show ?thesis
      using ok by (simp add: retry_message_def decide_retry_def same_message_def finished_def)
  next
    case False
    have "now \<le> now + timedelta_seconds (delay_seconds ?a) \<and> now + timedelta_seconds (delay_seconds ?a) \<le> now + timedelta_seconds 3600"
      using delay_bounds [of ?a] by (simp add: timedelta_seconds_def)
    then show ?thesis
      using ok False by (simp add: retry_message_def decide_retry_def same_message_def rescheduled_def)
  qed
qed

text \<open>Processing a claimed message: it is settled, or the projection crashed and it is left as claimed.\<close>

definition crashes :: "cockpit_worker \<Rightarrow> bool" where
  "crashes w = (\<exists>port calls c x. cw_projection w = Some port \<and> port calls c = Crashed x)"

lemma process_message_cases:
  assumes "worker_ok w" "get_message mid (cs_outbox st) = Some m" "live m"
  obtains (settled) m' res calls st' where "process_message w now mid st = (Inr res, st')"
      "cs_outbox st' = update_where (\<lambda>r. ob_id r = mid) (\<lambda>_. m') (cs_outbox st)" "cs_calls st' = cs_calls st @ calls"
      "processed w now (cs_calls st @ calls) m m'" "length calls \<le> 1" "\<forall>c \<in> set calls. called m c"
  | (crashed) x c where "process_message w now mid st = (Inl x, st\<lparr> cs_calls := cs_calls st @ [c] \<rparr>)" "crashes w" "called m c"
proof -
  have topic: "ob_topic m = COCKPIT_PROJECTION_TOPIC" and np: "ob_status m \<noteq> ''PUBLISHED''"
    using assms(3) by (auto simp: live_def)
  note step = process_message_def assms(2) topic
  show thesis
  proof (cases "safe_event (ob_payload m) (ob_tenant_id m)")
    case None
    let ?f = "fail_message ''INVALID_COCKPIT_EVENT_PAYLOAD''"
    obtain m' res where f: "?f m = Inr (m', res)" "same_message m m'" "refused m'"
      by (simp add: fail_message_def same_message_def refused_def)
    obtain st' where "settle mid ?f st = (Inr res, st')" "cs_calls st' = cs_calls st"
      "cs_outbox st' = update_where (\<lambda>r. ob_id r = mid) (\<lambda>_. m') (cs_outbox st)"
      using settle_ok [where f = ?f, OF assms(2) np f(1)] f(3) by (auto simp: METRIC_STATUSES_def refused_def)
    then show thesis
      using None f by (intro settled [of res st' m' "[]"]) (simp_all add: step processed_def finished_def refused_def)
  next
    case ev: (Some e)
    show thesis
    proof (cases "cw_projection w")
      case None
      obtain m' res where f: "not_configured_message m = Inr (m', res)" "same_message m m'" "ob_status m' = ''NOT_CONFIGURED''"
        by (simp add: not_configured_message_def same_message_def)
      obtain st' where "settle mid not_configured_message st = (Inr res, st')" "cs_calls st' = cs_calls st"
        "cs_outbox st' = update_where (\<lambda>r. ob_id r = mid) (\<lambda>_. m') (cs_outbox st)"
        using settle_ok [where f = not_configured_message, OF assms(2) np f(1)] f(3) by (auto simp: METRIC_STATUSES_def)
      then show thesis
        using None ev f by (intro settled [of res st' m' "[]"]) (simp_all add: step processed_def finished_def)
    next
      case port: (Some port)
      let ?c = "(ob_tenant_id m, e)"
      let ?st = "st\<lparr> cs_calls := cs_calls st @ [?c] \<rparr>"
      have g: "get_message mid (cs_outbox ?st) = Some m" using assms(2) by simp
      show thesis
      proof (cases "port (cs_calls st) ?c")
        case Applied
        obtain m' res where f: "publish_message now m = Inr (m', res)" "same_message m m'" "ob_status m' = ''PUBLISHED''"
          by (simp add: publish_message_def same_message_def)
        obtain st' where "settle mid (publish_message now) ?st = (Inr res, st')" "cs_calls st' = cs_calls ?st"
          "cs_outbox st' = update_where (\<lambda>r. ob_id r = mid) (\<lambda>_. m') (cs_outbox ?st)"
          using settle_ok [where f = "publish_message now", OF g np f(1)] f(3) by (auto simp: METRIC_STATUSES_def)
        moreover have "applied_call w (cs_calls st @ [?c]) ?c"
          unfolding applied_call_def
          by (rule exI [of _ port], rule exI [of _ "length (cs_calls st)"]) (simp add: port Applied)
        ultimately show thesis
          using Applied ev f port
          by (intro settled [of res st' m' "[?c]"])
            (simp_all add: step processed_def finished_def acknowledged_def called_def Let_def)
      next
        case Rejected
        let ?f = "retry_message w now ''COCKPIT_PROJECTION_DELIVERY_FAILED''"
        obtain m' res where f: "?f m = Inr (m', res)" "same_message m m'" "ob_status m' \<in> {''RETRY'', ''FAILED''}"
          "finished m' \<or> rescheduled w now m m'"
          using retry_message_ok [OF assms(1)] by metis
        obtain st' where "settle mid ?f ?st = (Inr res, st')" "cs_calls st' = cs_calls ?st"
          "cs_outbox st' = update_where (\<lambda>r. ob_id r = mid) (\<lambda>_. m') (cs_outbox ?st)"
          using settle_ok [where f = ?f, OF g np f(1)] f(3) by (auto simp: METRIC_STATUSES_def)
        then show thesis
          using Rejected ev f port
          by (intro settled [of res st' m' "[?c]"]) (auto simp: step processed_def called_def Let_def)
      next
        case (Crashed x)
        then show thesis using port ev by (intro crashed [of x ?c]) (auto simp: step crashes_def called_def Let_def)
      qed
    qed
  qed
qed

section \<open>A batch\<close>

lemma all2_source: "list_all2 R xs ys \<Longrightarrow> y \<in> set ys \<Longrightarrow> \<exists>x \<in> set xs. R x y"
  by (induction rule: list_all2_induct) auto

lemma get_message_row: "distinct (map ob_id rows) \<Longrightarrow> m \<in> set rows \<Longrightarrow> get_message (ob_id m) rows = Some m"
  by (induction rows) (auto simp: get_message_def dest: imageI [where f = ob_id])

lemma update_row_all2:
  assumes "distinct (map ob_id rows)" "m \<in> set rows" "\<And>r. r \<in> set rows \<Longrightarrow> r \<noteq> m \<Longrightarrow> R r r" "R m m'"
  shows "list_all2 R rows (update_where (\<lambda>r. ob_id r = ob_id m) (\<lambda>_. m') rows)"
proof -
  have "R r (if ob_id r = ob_id m then m' else r)" if "r \<in> set rows" for r
    using assms that by (cases "r = m") (auto simp: distinct_map inj_on_def)
  then show ?thesis by (simp add: update_where_def list_all2_map2 list_all2_same)
qed

text \<open>What a batch does to a row: nothing to rows outside, and every row inside is processed unless
  the batch crashed before it.\<close>

definition batch_row ::
  "bool \<Rightarrow> cockpit_worker \<Rightarrow> instant \<Rightarrow> uuid list \<Rightarrow> cockpit_call list \<Rightarrow> outbox_row \<Rightarrow> outbox_row \<Rightarrow> bool" where
  "batch_row completed w now mids calls m m' =
     (if ob_id m \<in> set mids then processed w now calls m m' \<or> (\<not> completed \<and> m' = m) else m' = m)"

lemma map_ids_batch: "list_all2 (batch_row c w now mids calls) rows rows' \<Longrightarrow> map ob_id rows' = map ob_id rows"
  by (induction rule: list_all2_induct) (auto simp: batch_row_def processed_def same_message_def split: if_splits)

lemma process_messages_batch:
  assumes "worker_ok w" "distinct (map ob_id (cs_outbox st))" "distinct mids"
    and "\<And>mid. mid \<in> set mids \<Longrightarrow> \<exists>m \<in> set (cs_outbox st). ob_id m = mid \<and> live m"
    and "process_messages w now mids acc st = (r, st')"
  shows "\<exists>calls. cs_calls st' = cs_calls st @ calls \<and> length calls \<le> length mids \<and> (isl r \<longrightarrow> crashes w \<and> calls \<noteq> [])
    \<and> (\<forall>c \<in> set calls. \<exists>m \<in> set (cs_outbox st). live m \<and> called m c)
    \<and> list_all2 (batch_row (\<not> isl r) w now mids (cs_calls st')) (cs_outbox st) (cs_outbox st')"
  using assms
proof (induction mids arbitrary: acc st)
  case Nil
  then show ?case by (auto simp: list_all2_same batch_row_def)
next
  case (Cons mid mids)
  obtain m where m: "m \<in> set (cs_outbox st)" "ob_id m = mid" "live m" using Cons.prems(4) by auto
  have g: "get_message mid (cs_outbox st) = Some m" using get_message_row [OF Cons.prems(2) m(1)] m(2) by simp
  from Cons.prems(1) g m(3) show ?case
  proof (cases rule: process_message_cases [where now = now])
    case (settled m1 res calls st1)
    have mid: "ob_id m1 = ob_id m" using settled(4) by (simp add: processed_def same_message_def)
    have ids: "map ob_id (cs_outbox st1) = map ob_id (cs_outbox st)"
      unfolding settled(2) by (rule map_update_where) (simp add: mid m(2))
    have run: "process_messages w now mids (merge_results acc res) st1 = (r, st')"
      using Cons.prems(5) settled(1) by simp
    have kept: "\<exists>m \<in> set (cs_outbox st1). ob_id m = i \<and> live m" if i: "i \<in> set mids" for i
    proof -
      obtain m2 where "m2 \<in> set (cs_outbox st)" "ob_id m2 = i" "live m2" using Cons.prems(4) [of i] i by auto
      moreover have "i \<noteq> mid" using Cons.prems(3) i by auto
      ultimately show ?thesis unfolding settled(2) set_update_where by (intro bexI [of _ m2] image_eqI [of _ _ m2]) auto
    qed
    from Cons.IH [OF Cons.prems(1) _ _ kept run] Cons.prems(2,3) ids
    obtain calls2 where IH: "cs_calls st' = cs_calls st1 @ calls2" "length calls2 \<le> length mids" "isl r \<longrightarrow> crashes w \<and> calls2 \<noteq> []"
      "\<forall>c \<in> set calls2. \<exists>m \<in> set (cs_outbox st1). live m \<and> called m c"
      "list_all2 (batch_row (\<not> isl r) w now mids (cs_calls st')) (cs_outbox st1) (cs_outbox st')"
      by auto
    have "list_all2 (\<lambda>a b. if ob_id a = mid then b = m1 \<and> a = m else b = a) (cs_outbox st) (cs_outbox st1)"
      unfolding settled(2) using Cons.prems(2) m
      by (subst m(2) [symmetric], intro update_row_all2) (auto simp: distinct_map inj_on_def)
    then have "list_all2 (batch_row (\<not> isl r) w now (mid # mids) (cs_calls st')) (cs_outbox st) (cs_outbox st')"
    proof (rule list_all2_trans [rotated 1, OF _ IH(5)])
      fix a b c
      assume ab: "if ob_id a = mid then b = m1 \<and> a = m else b = a" and bc: "batch_row (\<not> isl r) w now mids (cs_calls st') b c"
      show "batch_row (\<not> isl r) w now (mid # mids) (cs_calls st') a c"
      proof (cases "ob_id a = mid")
        case True
        then have "c = m1" using ab bc mid m(2) Cons.prems(3) by (simp add: batch_row_def)
        then show ?thesis using True ab processed_append [OF settled(4), of calls2] IH(1) settled(3)
          by (simp add: batch_row_def)
      next
        case False
        then show ?thesis using ab bc by (simp add: batch_row_def)
      qed
    qed
    moreover have "\<exists>a \<in> set (cs_outbox st). live a \<and> called a c" if c: "c \<in> set calls2" for c
    proof -
      obtain b where b: "b \<in> set (cs_outbox st1)" "live b" "called b c" using IH(4) c by auto
      then have "b = m1 \<or> b \<in> set (cs_outbox st)" by (auto simp: settled(2) set_update_where)
      moreover have "called m c" if "called m1 c"
        using that settled(4) by (simp add: called_def processed_def same_message_def)
      ultimately show ?thesis using b m(1,3) by blast
    qed
    ultimately show ?thesis using IH(1,2,3) settled(3,5,6) m(1,3) by (intro exI [of _ "calls @ calls2"]) auto
  next
    case (crashed x c)
    then show ?thesis using Cons.prems(5) m(1,3)
      by (intro exI [of _ "[c]"]) (auto simp: list_all2_same batch_row_def)
  qed
qed

section \<open>A run\<close>

definition run_row ::
  "bool \<Rightarrow> cockpit_worker \<Rightarrow> instant \<Rightarrow> uuid list \<Rightarrow> cockpit_call list \<Rightarrow> outbox_row \<Rightarrow> outbox_row \<Rightarrow> bool" where
  "run_row completed w now ids calls m m' =
     (if ob_id m \<in> set ids then due now m \<and> (processed w now calls m m' \<or> (\<not> completed \<and> m' = lease w now m)) else m' = m)"

lemma lease_fields [simp]: "ob_id (lease w now m) = ob_id m" "same_message m (lease w now m)"
  "ob_attempt_count (lease w now m) = ob_attempt_count m" "ob_status (lease w now m) = ''RETRY''"
  by (simp_all add: lease_def same_message_def)

lemma live_lease: "due now m \<Longrightarrow> live (lease w now m)"
  by (simp add: live_def due_def lease_def)

lemma processed_lease [simp]: "processed w now calls (lease w now m) m' = processed w now calls m m'"
  by (simp add: processed_def rescheduled_def acknowledged_def same_message_def lease_def)

lemma claimed_ids_facts:
  assumes "distinct (map ob_id rows)" "worker_ok w"
  shows "distinct (claimed_ids created w now rows)"
    and "set (claimed_ids created w now rows) \<subseteq> ob_id ` {m \<in> set rows. due now m}"
    and "m \<in> set rows \<Longrightarrow> due now m \<Longrightarrow> claimed_ids created w now rows \<noteq> []"
proof -
  let ?s = "sort_key (\<lambda>m. (created (ob_id m), ob_id m)) (filter (due now) rows)"
  have d: "distinct (map ob_id ?s)"
    using assms(1) by (auto simp: distinct_map distinct_filter intro: inj_on_subset)
  then show "distinct (claimed_ids created w now rows)"
    unfolding claimed_ids_def take_map [symmetric] by (rule distinct_take)
  show "set (claimed_ids created w now rows) \<subseteq> ob_id ` {m \<in> set rows. due now m}"
    unfolding claimed_ids_def by (auto dest!: in_set_takeD)
  assume "m \<in> set rows" "due now m"
  then have "m \<in> set ?s" by simp
  then have "?s \<noteq> []" by (metis empty_iff list.set(1))
  then show "claimed_ids created w now rows \<noteq> []"
    using assms(2) by (simp add: claimed_ids_def worker_ok_def)
qed

lemma run_once_rows:
  assumes "worker_ok w" "distinct (map ob_id (cs_outbox st))" "run_once created w now st = (r, st')"
  obtains ids calls where "ids = claimed_ids created w now (cs_outbox st)" "cs_calls st' = cs_calls st @ calls"
    "length calls \<le> length ids" "isl r \<longrightarrow> crashes w \<and> calls \<noteq> []"
    "list_all2 (run_row (\<not> isl r) w now ids (cs_calls st')) (cs_outbox st) (cs_outbox st')"
    "\<forall>c \<in> set calls. \<exists>m \<in> set (cs_outbox st). live m \<and> called m c"
proof -
  define ids where "ids = claimed_ids created w now (cs_outbox st)"
  note ids = claimed_ids_facts [OF assms(2,1), where created = created and now = now, folded ids_def]
  define f where "f = (\<lambda>m. if ob_id m \<in> set ids then lease w now m else m)"
  define st1 where "st1 = st\<lparr> cs_outbox := map f (cs_outbox st) \<rparr>"
  have run: "process_messages w now ids no_result st1 = (r, st')"
    using assms(3) by (simp add: run_once_def claim_due_messages_def Let_def ids_def st1_def f_def update_where_def)
  have fid: "ob_id (f m) = ob_id m" for m by (simp add: f_def)
  have d: "distinct (map ob_id (cs_outbox st1))"
    using assms(2) by (simp add: st1_def o_def fid)
  have due: "due now m" if "m \<in> set (cs_outbox st)" "ob_id m \<in> set ids" for m
    using ids(2) that assms(2) by (auto simp: distinct_map dest: inj_onD)
  have lv: "\<exists>m \<in> set (cs_outbox st1). ob_id m = mid \<and> live m" if mid: "mid \<in> set ids" for mid
  proof -
    obtain m where m: "m \<in> set (cs_outbox st)" "ob_id m = mid" using ids(2) mid by auto
    then show ?thesis using due [OF m(1)] mid by (intro bexI [of _ "f m"]) (auto simp: st1_def f_def live_lease)
  qed
  from process_messages_batch [OF assms(1) d ids(1) lv run] obtain calls where
    b: "cs_calls st' = cs_calls st1 @ calls" "length calls \<le> length ids" "isl r \<longrightarrow> crashes w \<and> calls \<noteq> []"
      "list_all2 (batch_row (\<not> isl r) w now ids (cs_calls st')) (cs_outbox st1) (cs_outbox st')"
      "\<forall>c \<in> set calls. \<exists>m \<in> set (cs_outbox st1). live m \<and> called m c"
    by auto
  have "list_all2 (\<lambda>m. batch_row (\<not> isl r) w now ids (cs_calls st') (f m)) (cs_outbox st) (cs_outbox st')"
    using b(4) by (simp add: st1_def list_all2_map1)
  then have "list_all2 (run_row (\<not> isl r) w now ids (cs_calls st')) (cs_outbox st) (cs_outbox st')"
    by (rule list.rel_mono_strong) (auto simp: batch_row_def run_row_def f_def due split: if_splits)
  moreover have "\<forall>c \<in> set calls. \<exists>m \<in> set (cs_outbox st). live m \<and> called m c"
  proof
    fix c assume "c \<in> set calls"
    then obtain m where m: "m \<in> set (cs_outbox st)" "live (f m)" "called (f m) c" using b(5) by (auto simp: st1_def)
    then have "live m" using due due_live by (auto simp: f_def split: if_splits)
    moreover have "called m c" using m(3) by (simp add: f_def called_def lease_def split: if_splits)
    ultimately show "\<exists>m \<in> set (cs_outbox st). live m \<and> called m c" using m(1) by blast
  qed
  ultimately show thesis using b(1-3) by (intro that) (simp_all add: ids_def st1_def)
qed

lemma run_row_same: "run_row c w now ids calls m m' \<Longrightarrow> same_message m m'"
  by (auto simp: run_row_def processed_def split: if_splits)

lemma run_row_ids: "list_all2 (run_row c w now ids calls) rows rows' \<Longrightarrow> map ob_id rows' = map ob_id rows"
  by (induction rule: list_all2_induct) (auto dest: run_row_same simp: same_message_def)

section \<open>Attempts left\<close>

definition attempts_left :: "cockpit_worker \<Rightarrow> outbox_row \<Rightarrow> nat" where
  "attempts_left w m = (if live m then nat (max 1 (cw_max_attempts w - ob_attempt_count m)) else 0)"

definition backlog :: "cockpit_worker \<Rightarrow> outbox_row list \<Rightarrow> nat" where
  "backlog w rows = sum_list (map (attempts_left w) rows)"

lemma backlog_zero: "backlog w rows = 0 \<longleftrightarrow> (\<forall>m \<in> set rows. \<not> live m)"
proof -
  have "attempts_left w m = 0 \<longleftrightarrow> \<not> live m" for m by (auto simp: attempts_left_def)
  then show ?thesis by (simp add: backlog_def)
qed

lemma attempts_left_row:
  assumes "run_row True w now ids calls m m'"
  shows "attempts_left w m' + (if ob_id m \<in> set ids then 1 else 0) \<le> attempts_left w m"
proof (cases "ob_id m \<in> set ids")
  case True
  then have "live m" "finished m' \<or> rescheduled w now m m'"
    using assms by (auto simp: run_row_def processed_def due_live)
  then show ?thesis using True by (auto simp: attempts_left_def finished_def rescheduled_def live_def)
next
  case False
  then show ?thesis using assms by (simp add: run_row_def)
qed

lemma backlog_decreases:
  assumes "list_all2 (run_row True w now ids calls) rows rows'" "distinct (map ob_id rows)" "distinct ids"
    "set ids \<subseteq> set (map ob_id rows)"
  shows "backlog w rows' + length ids \<le> backlog w rows"
proof -
  let ?k = "\<lambda>rows. length (filter (\<lambda>m. ob_id m \<in> set ids) rows)"
  have "backlog w rows' + ?k rows \<le> backlog w rows"
    using assms(1)
  proof (induction rule: list_all2_induct)
    case (Cons m rows m' rows')
    then show ?case using attempts_left_row [OF Cons(1)] by (simp add: backlog_def split: if_splits)
  qed (simp add: backlog_def)
  moreover have "?k rows = length ids"
  proof -
    have "length (filter (\<lambda>i. i \<in> set ids) (map ob_id rows)) = card (set (filter (\<lambda>i. i \<in> set ids) (map ob_id rows)))"
      using assms(2) by (simp only: distinct_card distinct_filter)
    also have "set (filter (\<lambda>i. i \<in> set ids) (map ob_id rows)) = set ids" using assms(4) by auto
    finally show ?thesis using assms(3) by (simp add: filter_map o_def distinct_card)
  qed
  ultimately show ?thesis by simp
qed

text \<open>After a completed run that started with every live message due, every live message is due
  within the hour.\<close>

lemma run_row_due:
  assumes "run_row True w now ids calls m m'" "live m' \<Longrightarrow> live m \<Longrightarrow> due now m" "now + timedelta_seconds 3600 \<le> t"
  shows "live m' \<Longrightarrow> due t m'"
proof -
  assume l: "live m'"
  show "due t m'"
  proof (cases "ob_id m \<in> set ids")
    case True
    then have "rescheduled w now m m'" "same_message m m'"
      using assms(1) l by (auto simp: run_row_def processed_def finished_def live_def)
    then show ?thesis using l assms(3) by (auto simp: rescheduled_def due_def live_def)
  next
    case False
    then have "m' = m" using assms(1) by (simp add: run_row_def)
    moreover have "now \<le> t" using assms(3) by (simp add: timedelta_seconds_def)
    ultimately show ?thesis using l assms(2) by (auto simp: due_def split: option.splits)
  qed
qed

lemma run_once_progress:
  assumes "worker_ok w" "\<not> crashes w" "distinct (map ob_id (cs_outbox st))"
    "\<forall>m \<in> set (cs_outbox st). live m \<longrightarrow> due now m" "run_once created w now st = (r, st')"
  shows "\<not> isl r" "map ob_id (cs_outbox st') = map ob_id (cs_outbox st)"
    "now + timedelta_seconds 3600 \<le> t \<Longrightarrow> \<forall>m \<in> set (cs_outbox st'). live m \<longrightarrow> due t m"
    "backlog w (cs_outbox st') + length (cs_calls st') \<le> backlog w (cs_outbox st) + length (cs_calls st)"
    "backlog w (cs_outbox st') \<le> backlog w (cs_outbox st) - 1"
proof -
  obtain ids calls where
    ids: "ids = claimed_ids created w now (cs_outbox st)" and calls: "cs_calls st' = cs_calls st @ calls" "length calls \<le> length ids"
    and r: "isl r \<longrightarrow> crashes w \<and> calls \<noteq> []" and rows: "list_all2 (run_row (\<not> isl r) w now ids (cs_calls st')) (cs_outbox st) (cs_outbox st')"
    using assms(1,3,5) by (rule run_once_rows)
  note f = claimed_ids_facts [OF assms(3,1), where created = created and now = now, folded ids]
  show ok: "\<not> isl r" using r assms(2) by blast
  from rows ok have rows: "list_all2 (run_row True w now ids (cs_calls st')) (cs_outbox st) (cs_outbox st')" by simp
  then show "map ob_id (cs_outbox st') = map ob_id (cs_outbox st)" by (rule run_row_ids)
  have dec: "backlog w (cs_outbox st') + length ids \<le> backlog w (cs_outbox st)"
    using f(2) by (intro backlog_decreases [OF rows assms(3) f(1)]) auto
  then show "backlog w (cs_outbox st') + length (cs_calls st') \<le> backlog w (cs_outbox st) + length (cs_calls st)"
    using calls by simp
  show "backlog w (cs_outbox st') \<le> backlog w (cs_outbox st) - 1"
  proof (cases "backlog w (cs_outbox st) = 0")
    case False
    then obtain m where "m \<in> set (cs_outbox st)" "live m" by (auto simp: backlog_zero)
    then have "ids \<noteq> []" using f(3) assms(4) by blast
    then have "1 \<le> length ids" by (cases ids) auto
    then show ?thesis using dec by simp
  qed (use dec in simp)
  assume t: "now + timedelta_seconds 3600 \<le> t"
  show "\<forall>m \<in> set (cs_outbox st'). live m \<longrightarrow> due t m"
  proof
    fix m' assume "m' \<in> set (cs_outbox st')"
    then obtain m where "m \<in> set (cs_outbox st)" "run_row True w now ids (cs_calls st') m m'"
      using all2_source [OF rows] by blast
    then show "live m' \<longrightarrow> due t m'" using run_row_due [OF _ _ t] assms(4) by blast
  qed
qed

text \<open>Wake-ups at least an hour apart.\<close>

definition hourly :: "instant list \<Rightarrow> bool" where
  "hourly nows = successively (\<lambda>s t. s + timedelta_seconds 3600 \<le> t) nows"

lemma run_worker_drains:
  assumes "worker_ok w" "\<not> crashes w" "hourly nows" "distinct (map ob_id (cs_outbox st))"
    "\<forall>m \<in> set (cs_outbox st). live m \<longrightarrow> (case nows of [] \<Rightarrow> True | now # _ \<Rightarrow> due now m)"
    "run_worker created w nows st = (r, st')"
  shows "r = None \<and> backlog w (cs_outbox st') \<le> backlog w (cs_outbox st) - length nows
    \<and> backlog w (cs_outbox st') + length (cs_calls st') \<le> backlog w (cs_outbox st) + length (cs_calls st)"
  using assms
proof (induction nows arbitrary: st)
  case (Cons now nows)
  obtain r1 st1 where one: "run_once created w now st = (r1, st1)" by fastforce
  have due: "\<forall>m \<in> set (cs_outbox st). live m \<longrightarrow> due now m" using Cons.prems(5) by simp
  note step = run_once_progress [OF Cons.prems(1,2,4) due one]
  obtain res where r1: "r1 = Inr res" using step(1) by (cases r1) auto
  then have rest: "run_worker created w nows st1 = (r, st')" using Cons.prems(6) one by simp
  have d: "distinct (map ob_id (cs_outbox st1))" unfolding step(2) by (rule Cons.prems(4))
  have h: "hourly nows" using Cons.prems(3) by (cases nows) (auto simp: hourly_def)
  have "\<forall>m \<in> set (cs_outbox st1). live m \<longrightarrow> (case nows of [] \<Rightarrow> True | now # _ \<Rightarrow> due now m)"
  proof (cases nows)
    case (Cons t ts)
    then show ?thesis using step(3) [of t] Cons.prems(3) by (simp add: hourly_def)
  qed simp
  from Cons.IH [OF Cons.prems(1,2) h d this rest] step(4,5) show ?case by auto
qed simp

section \<open>Publication\<close>

text \<open>What may have become of a message over any number of runs, crashed ones included.\<close>

definition delivery_row :: "bool \<Rightarrow> cockpit_worker \<Rightarrow> cockpit_call list \<Rightarrow> outbox_row \<Rightarrow> outbox_row \<Rightarrow> bool" where
  "delivery_row completed w calls m m' =
     (same_message m m' \<and> (\<not> live m \<longrightarrow> m' = m) \<and> (live m \<and> ob_status m' = ''PUBLISHED'' \<longrightarrow> acknowledged w calls m)
      \<and> (safe_event (ob_payload m) (ob_tenant_id m) = None \<longrightarrow> m' = m \<or> refused m' \<or> (\<not> completed \<and> live m')))"

lemma run_row_delivery: "run_row c w now ids calls m m' \<Longrightarrow> delivery_row c w calls m m'"
  using run_row_same [of c w now ids calls m m'] live_unpublished [of m]
  by (auto simp: run_row_def delivery_row_def processed_def live_lease dest: due_live split: if_splits)

lemma delivery_row_trans:
  assumes "delivery_row True w calls a b" "delivery_row k w (calls @ more_calls) b c"
  shows "delivery_row k w (calls @ more_calls) a c"
proof -
  have same: "acknowledged w calls' b = acknowledged w calls' a"
    "safe_event (ob_payload b) (ob_tenant_id b) = safe_event (ob_payload a) (ob_tenant_id a)" for calls'
    using assms(1) by (simp_all add: delivery_row_def same_message_def acknowledged_def)
  have ab: "\<not> live a \<Longrightarrow> b = a" "live a \<Longrightarrow> ob_status b = ''PUBLISHED'' \<Longrightarrow> acknowledged w (calls @ more_calls) a"
      "safe_event (ob_payload a) (ob_tenant_id a) = None \<Longrightarrow> b = a \<or> refused b"
    using assms(1) acknowledged_append [of w calls a more_calls] by (auto simp: delivery_row_def)
  have bc: "\<not> live b \<Longrightarrow> c = b" "live b \<Longrightarrow> ob_status c = ''PUBLISHED'' \<Longrightarrow> acknowledged w (calls @ more_calls) a"
      "safe_event (ob_payload a) (ob_tenant_id a) = None \<Longrightarrow> c = b \<or> refused c \<or> (\<not> k \<and> live c)"
    using assms(2) same by (auto simp: delivery_row_def)
  have "same_message a c" using assms by (auto simp: delivery_row_def intro: same_message_trans)
  moreover have "\<not> live a \<longrightarrow> c = a" using ab(1) bc(1) by blast
  moreover have "live a \<and> ob_status c = ''PUBLISHED'' \<longrightarrow> acknowledged w (calls @ more_calls) a"
    using ab(2) bc(1,2) by (cases "live b") auto
  moreover have "safe_event (ob_payload a) (ob_tenant_id a) = None \<longrightarrow> c = a \<or> refused c \<or> (\<not> k \<and> live c)"
    using ab(3) bc(3) by blast
  ultimately show ?thesis by (simp add: delivery_row_def)
qed

lemma run_worker_rows:
  assumes "worker_ok w" "distinct (map ob_id (cs_outbox st))" "run_worker created w nows st = (r, st')"
  shows "(\<exists>calls. cs_calls st' = cs_calls st @ calls \<and> (r \<noteq> None \<longrightarrow> crashes w \<and> calls \<noteq> [])
      \<and> (\<forall>c \<in> set calls. \<exists>m \<in> set (cs_outbox st). live m \<and> called m c))
    \<and> list_all2 (delivery_row (r = None) w (cs_calls st')) (cs_outbox st) (cs_outbox st')"
  using assms
proof (induction nows arbitrary: st)
  case Nil
  then show ?case by (auto simp: list_all2_same delivery_row_def live_def)
next
  case (Cons now nows)
  obtain r1 st1 where one: "run_once created w now st = (r1, st1)" by fastforce
  obtain ids calls where calls: "cs_calls st1 = cs_calls st @ calls" and cr: "isl r1 \<longrightarrow> crashes w \<and> calls \<noteq> []"
    and rows: "list_all2 (run_row (\<not> isl r1) w now ids (cs_calls st1)) (cs_outbox st) (cs_outbox st1)"
    and from_live: "\<forall>c \<in> set calls. \<exists>m \<in> set (cs_outbox st). live m \<and> called m c"
    using Cons.prems(1,2) one by (rule run_once_rows)
  have step: "list_all2 (delivery_row (\<not> isl r1) w (cs_calls st1)) (cs_outbox st) (cs_outbox st1)"
    using rows by (rule list.rel_mono_strong) (rule run_row_delivery)
  show ?case
  proof (cases r1)
    case (Inl e)
    then show ?thesis using Cons.prems(3) one calls cr step from_live by auto
  next
    case (Inr res)
    then have rest: "run_worker created w nows st1 = (r, st')" using Cons.prems(3) one by simp
    have d: "distinct (map ob_id (cs_outbox st1))" unfolding run_row_ids [OF rows] by (rule Cons.prems(2))
    from Cons.IH [OF Cons.prems(1) d rest] obtain calls2 where IH: "cs_calls st' = cs_calls st1 @ calls2" "r \<noteq> None \<longrightarrow> crashes w \<and> calls2 \<noteq> []"
      "list_all2 (delivery_row (r = None) w (cs_calls st')) (cs_outbox st1) (cs_outbox st')"
      "\<forall>c \<in> set calls2. \<exists>m \<in> set (cs_outbox st1). live m \<and> called m c" by auto
    from step Inr have step: "list_all2 (delivery_row True w (cs_calls st1)) (cs_outbox st) (cs_outbox st1)" by simp
    then have "list_all2 (delivery_row (r = None) w (cs_calls st')) (cs_outbox st) (cs_outbox st')"
      using IH(3) by (rule list_all2_trans [rotated 1]) (auto simp: IH(1) intro: delivery_row_trans)
    moreover have "\<exists>m \<in> set (cs_outbox st). live m \<and> called m c" if c: "c \<in> set calls2" for c
    proof -
      obtain b where b: "b \<in> set (cs_outbox st1)" "live b" "called b c" using IH(4) c by auto
      then obtain a where "a \<in> set (cs_outbox st)" "delivery_row True w (cs_calls st1) a b"
        using all2_source [OF step] by blast
      then show ?thesis using b(2,3) by (intro bexI [of _ a]) (auto simp: delivery_row_def called_def same_message_def)
    qed
    ultimately show ?thesis using IH(1,2) calls from_live by (intro conjI exI [of _ "calls @ calls2"]) auto
  qed
qed

end
