(* ===== verification/DceIntake.thy ===== *)
theory DceIntake
  imports Dispatcher ConsultationAggregate DceVersionAggregate
begin

text \<open>
  Intake of a tender file (DCE): the first nine command handlers of
  \<open>backend/app/modules/dce/application/handlers.py\<close>, from the consultation over the staging of
  uploaded objects (claim, quarantine, scan, rejection, expiry) to the admission of a version,
  and the recording of a document extraction. The handlers write the tables of
  \<open>dce/infrastructure/models\<close>; a consultation and a version are first built by the aggregates
  of \<open>ConsultationAggregate\<close> and \<open>DceVersionAggregate\<close> and then stored.

  Left out of the rows are \<open>metadata_history_json\<close>, which no handler reads and which stays empty,
  and the audit timestamps of the mixins. Timestamps are aware, as the HTTP layer sends them. Foreign keys are not modelled: each
  handler looks its parents up in the same transaction.
\<close>

section \<open>Tables\<close>

record consultation_row =
  kr_id :: uuid
  kr_tenant_id :: uuid
  kr_aggregate_revision :: int
  kr_functional_identity_hash :: string
  kr_buyer_legal_name :: string
  kr_buyer_normalized_id :: "string option"
  kr_external_reference :: "string option"
  kr_object_label :: string
  kr_location_label :: "string option"
  kr_source_channel :: string
  kr_source_reference :: "string option"
  kr_source_received_at :: instant
  kr_lifecycle :: string
  kr_freshness :: string
  kr_created_by_actor_id :: uuid
  kr_updated_by_actor_id :: uuid

record staged_row =
  so_id :: uuid
  so_tenant_id :: uuid
  so_consultation_id :: uuid
  so_storage_key :: string
  so_original_filename :: string
  so_expected_byte_size :: int
  so_actual_byte_size :: "int option"
  so_sha256 :: "string option"
  so_media_type :: "string option"
  so_source_channel :: string
  so_state :: string
  so_scan_verdict :: "string option"
  so_scanner_name :: "string option"
  so_scanner_signature_version :: "string option"
  so_scanned_at :: "instant option"
  so_rejection_code :: "string option"
  so_expires_at :: instant
  so_consumed_by :: "uuid option"
  so_consumed_at :: "instant option"
  so_created_by_actor_id :: uuid
  so_updated_by_actor_id :: uuid

record version_row =
  vr_id :: uuid
  vr_tenant_id :: uuid
  vr_aggregate_revision :: int
  vr_consultation_id :: uuid
  vr_corpus_hash :: string
  vr_predecessor :: "uuid option"
  vr_provenance_channel :: string
  vr_provenance_reference :: "string option"
  vr_provenance_url :: "string option"
  vr_source_received_at :: instant
  vr_lifecycle :: string
  vr_integrity :: string
  vr_classification_readiness :: string
  vr_analysis_readiness :: string
  vr_withdrawal_source :: "string option"
  vr_withdrawal_reason :: "string option"
  vr_superseded_at :: "instant option"
  vr_withdrawn_at :: "instant option"
  vr_created_by_actor_id :: uuid
  vr_updated_by_actor_id :: uuid

record document_row =
  dr_id :: uuid
  dr_tenant_id :: uuid
  dr_dce_version_id :: uuid
  dr_storage_object_id :: uuid
  dr_storage_key :: string
  dr_original_filename :: string
  dr_media_type :: string
  dr_byte_size :: int
  dr_sha256 :: string
  dr_received_from :: string

record extraction_row =
  er_id :: uuid
  er_tenant_id :: uuid
  er_dce_version_id :: uuid
  er_dce_document_id :: uuid
  er_input_sha256 :: string
  er_extractor_id :: string
  er_extractor_version :: string
  er_status :: string
  er_fragment_count :: int
  er_extracted_char_count :: int
  er_failure_code :: "string option"

record fragment_row =
  fg_id :: uuid
  fg_tenant_id :: uuid
  fg_extraction_id :: uuid
  fg_ordinal :: int
  fg_locator :: "(string \<times> json) list"
  fg_text :: string
  fg_text_sha256 :: string

record intake_tables =
  it_consultations :: "consultation_row list"
  it_staged :: "staged_row list"
  it_versions :: "version_row list"
  it_documents :: "document_row list"
  it_extractions :: "extraction_row list"
  it_fragments :: "fragment_row list"

definition kr_clash :: "consultation_row \<Rightarrow> consultation_row \<Rightarrow> bool" where
  "kr_clash r r' =
     (kr_id r = kr_id r'
      \<or> (kr_tenant_id r, kr_functional_identity_hash r) = (kr_tenant_id r', kr_functional_identity_hash r')
      \<or> kr_buyer_normalized_id r \<noteq> None \<and> kr_external_reference r \<noteq> None
        \<and> (kr_tenant_id r, kr_buyer_normalized_id r, kr_external_reference r)
          = (kr_tenant_id r', kr_buyer_normalized_id r', kr_external_reference r'))"

definition kr_check :: "consultation_row \<Rightarrow> bool" where
  "kr_check r = (kr_lifecycle r \<in> {''OPEN'', ''CLOSED'', ''ARCHIVED''}
      \<and> kr_freshness r \<in> {''UNKNOWN'', ''CURRENT'', ''REVIEW_REQUIRED''})"

definition so_clash :: "staged_row \<Rightarrow> staged_row \<Rightarrow> bool" where
  "so_clash r r' = (so_id r = so_id r' \<or> so_storage_key r = so_storage_key r')"

definition lower_hex64 :: "string \<Rightarrow> bool" where
  "lower_hex64 s = (length s = 64 \<and> list_all (\<lambda>c. c \<in> set ''0123456789abcdef'') s)"

definition so_check :: "staged_row \<Rightarrow> bool" where
  "so_check r =
     (0 < so_expected_byte_size r
      \<and> (case so_actual_byte_size r of None \<Rightarrow> True | Some n \<Rightarrow> 0 < n)
      \<and> (case so_sha256 r of None \<Rightarrow> True | Some s \<Rightarrow> lower_hex64 s)
      \<and> so_state r \<in> {''AWAITING_UPLOAD'', ''UPLOADING'', ''QUARANTINED'', ''CLEAN'', ''REJECTED'', ''CONSUMED'', ''EXPIRED''}
      \<and> (case so_scan_verdict r of None \<Rightarrow> True | Some v \<Rightarrow> v \<in> {''CLEAN'', ''INFECTED'', ''ERROR''})
      \<and> (so_state r = ''CONSUMED'' \<longrightarrow> so_consumed_by r \<noteq> None \<and> so_consumed_at r \<noteq> None)
      \<and> (so_state r \<noteq> ''CONSUMED'' \<longrightarrow> so_consumed_by r = None \<and> so_consumed_at r = None)
      \<and> (so_state r = ''CLEAN'' \<longrightarrow> so_actual_byte_size r \<noteq> None \<and> so_sha256 r \<noteq> None \<and> so_media_type r \<noteq> None
          \<and> so_scan_verdict r = Some ''CLEAN'' \<and> so_scanner_name r \<noteq> None
          \<and> so_scanner_signature_version r \<noteq> None \<and> so_scanned_at r \<noteq> None))"

definition vr_clash :: "version_row \<Rightarrow> version_row \<Rightarrow> bool" where
  "vr_clash r r' =
     (vr_id r = vr_id r'
      \<or> (vr_tenant_id r, vr_consultation_id r, vr_corpus_hash r) = (vr_tenant_id r', vr_consultation_id r', vr_corpus_hash r'))"

definition vr_check :: "version_row \<Rightarrow> bool" where
  "vr_check r =
     (vr_lifecycle r \<in> {''ADMITTED'', ''SUPERSEDED'', ''WITHDRAWN''}
      \<and> vr_integrity r \<in> {''VERIFIED'', ''PARTIAL'', ''UNUSABLE''}
      \<and> vr_classification_readiness r \<in> {''UNCLASSIFIED'', ''PARTIALLY_CLASSIFIED'', ''CLASSIFIED''}
      \<and> vr_analysis_readiness r \<in> {''NOT_READY'', ''READY_FOR_ANALYSIS'', ''REVIEW_REQUIRED''}
      \<and> (vr_lifecycle r = ''WITHDRAWN'' \<longrightarrow> vr_withdrawal_source r \<noteq> None \<and> vr_withdrawal_reason r \<noteq> None))"

definition dr_clash :: "document_row \<Rightarrow> document_row \<Rightarrow> bool" where
  "dr_clash r r' =
     (dr_id r = dr_id r'
      \<or> (dr_tenant_id r, dr_dce_version_id r, dr_sha256 r) = (dr_tenant_id r', dr_dce_version_id r', dr_sha256 r'))"

definition dr_check :: "document_row \<Rightarrow> bool" where
  "dr_check r = (0 < dr_byte_size r)"

definition er_clash :: "extraction_row \<Rightarrow> extraction_row \<Rightarrow> bool" where
  "er_clash r r' =
     (er_id r = er_id r'
      \<or> (er_tenant_id r, er_dce_document_id r, er_input_sha256 r, er_extractor_id r, er_extractor_version r)
        = (er_tenant_id r', er_dce_document_id r', er_input_sha256 r', er_extractor_id r', er_extractor_version r'))"

definition er_check :: "extraction_row \<Rightarrow> bool" where
  "er_check r =
     (er_status r \<in> {''COMPLETED'', ''REVIEW_REQUIRED'', ''UNSUPPORTED'', ''REJECTED_LIMIT'', ''FAILED_SAFE''}
      \<and> 0 \<le> er_fragment_count r \<and> 0 \<le> er_extracted_char_count r
      \<and> (er_status r = ''COMPLETED'' \<longleftrightarrow> er_failure_code r = None))"

definition fg_clash :: "fragment_row \<Rightarrow> fragment_row \<Rightarrow> bool" where
  "fg_clash r r' =
     (fg_id r = fg_id r'
      \<or> (fg_tenant_id r, fg_extraction_id r, fg_ordinal r) = (fg_tenant_id r', fg_extraction_id r', fg_ordinal r'))"

definition fg_check :: "fragment_row \<Rightarrow> bool" where
  "fg_check r = (0 < fg_ordinal r \<and> fg_text r \<noteq> [])"

section \<open>Commands\<close>

record create_consultation_fields =
  kc_consultation_id :: uuid
  kc_buyer_legal_name :: string
  kc_buyer_normalized_id :: "string option"
  kc_external_reference :: "string option"
  kc_object_label :: string
  kc_location_label :: "string option"
  kc_source_channel :: string
  kc_source_reference :: "string option"
  kc_source_received_at :: instant

record prepare_staging_fields =
  ps_storage_object_id :: uuid
  ps_consultation_id :: uuid
  ps_consultation_revision :: int
  ps_original_filename :: string
  ps_expected_byte_size :: int
  ps_source_channel :: string
  ps_expires_at :: instant

record quarantine_fields =
  qf_actual_byte_size :: int
  qf_sha256 :: string
  qf_media_type :: string
  qf_content_allowed :: bool

record scan_fields =
  sf_actual_byte_size :: int
  sf_sha256 :: string
  sf_media_type :: string
  sf_scan_verdict :: string
  sf_scanner_name :: string
  sf_scanner_signature_version :: string
  sf_scanned_at :: instant

record admission_input =
  ai_document_id :: uuid
  ai_storage_object_id :: uuid

record register_fields =
  rf_dce_version_id :: uuid
  rf_consultation_id :: uuid
  rf_consultation_revision :: int
  rf_corpus_hash :: string
  rf_provenance_channel :: string
  rf_provenance_reference :: "string option"
  rf_provenance_url :: "string option"
  rf_source_received_at :: instant
  rf_documents :: "admission_input list"

record fragment_input =
  fi_ordinal :: int
  fi_locator :: "(string \<times> json) list"
  fi_text :: string
  fi_text_sha256 :: string

record extraction_fields =
  ef_extraction_id :: uuid
  ef_dce_document_id :: uuid
  ef_input_sha256 :: string
  ef_extractor_id :: string
  ef_extractor_version :: string
  ef_status :: string
  ef_extracted_char_count :: int
  ef_failure_code :: "string option"
  ef_fragments :: "fragment_input list"

text \<open>The commands on a staged object carry its identifier.\<close>

datatype intake_command =
    CreateConsultation create_consultation_fields
  | PrepareDceStaging prepare_staging_fields
  | ClaimDceStagedObjectUpload uuid
  | RecordDceStagedObjectQuarantine uuid quarantine_fields
  | RejectDceStagedObjectUpload uuid string
  | ExpireDceStagedObject uuid
  | RecordDceStagedObjectScan uuid scan_fields
  | RegisterDceVersion register_fields
  | RecordDceDocumentExtraction extraction_fields

section \<open>Hashes and keys\<close>

definition staging_storage_key :: "uuid \<Rightarrow> uuid \<Rightarrow> string" where
  "staging_storage_key tid sid = ''dce-staging/'' @ uuid_str tid @ ''/'' @ uuid_str sid"

definition corpus_hash :: "string list \<Rightarrow> string" where
  "corpus_hash hashes = sha256_hex (join [CHR 0x0A] (sort hashes))"

definition functional_identity_hash :: "consultation \<Rightarrow> string" where
  "functional_identity_hash k = sha256_hex (json_dumps (JList (map JStr (functional_identity k))))"

section \<open>Persistence of the aggregates\<close>

fun consultation_lifecycle_value :: "consultation_lifecycle \<Rightarrow> string" where
  "consultation_lifecycle_value Consultation_OPEN = ''OPEN''"
| "consultation_lifecycle_value Consultation_CLOSED = ''CLOSED''"
| "consultation_lifecycle_value Consultation_ARCHIVED = ''ARCHIVED''"

fun consultation_freshness_value :: "consultation_freshness \<Rightarrow> string" where
  "consultation_freshness_value Fresh_UNKNOWN = ''UNKNOWN''"
| "consultation_freshness_value Fresh_CURRENT = ''CURRENT''"
| "consultation_freshness_value Fresh_REVIEW_REQUIRED = ''REVIEW_REQUIRED''"

fun dce_lifecycle_value :: "dce_lifecycle \<Rightarrow> string" where
  "dce_lifecycle_value ADMITTED = ''ADMITTED''"
| "dce_lifecycle_value Dce_SUPERSEDED = ''SUPERSEDED''"
| "dce_lifecycle_value WITHDRAWN = ''WITHDRAWN''"

fun dce_integrity_value :: "dce_integrity \<Rightarrow> string" where
  "dce_integrity_value VERIFIED = ''VERIFIED''"
| "dce_integrity_value PARTIAL = ''PARTIAL''"
| "dce_integrity_value UNUSABLE = ''UNUSABLE''"

fun classification_readiness_value :: "classification_readiness \<Rightarrow> string" where
  "classification_readiness_value UNCLASSIFIED = ''UNCLASSIFIED''"
| "classification_readiness_value PARTIALLY_CLASSIFIED = ''PARTIALLY_CLASSIFIED''"
| "classification_readiness_value CLASSIFIED = ''CLASSIFIED''"

fun analysis_readiness_value :: "analysis_readiness \<Rightarrow> string" where
  "analysis_readiness_value Analysis_NOT_READY = ''NOT_READY''"
| "analysis_readiness_value READY_FOR_ANALYSIS = ''READY_FOR_ANALYSIS''"
| "analysis_readiness_value Analysis_REVIEW_REQUIRED = ''REVIEW_REQUIRED''"

definition consultation_record ::
  "create_consultation_fields \<Rightarrow> command_context \<Rightarrow> consultation \<Rightarrow> consultation_row" where
  "consultation_record f ctx k = \<lparr> kr_id = k_id k, kr_tenant_id = k_tenant_id k,
     kr_aggregate_revision = k_aggregate_revision k, kr_functional_identity_hash = functional_identity_hash k,
     kr_buyer_legal_name = legal_name (k_buyer k), kr_buyer_normalized_id = normalized_identifier (k_buyer k),
     kr_external_reference = k_external_reference k, kr_object_label = k_subject k,
     kr_location_label = kc_location_label f, kr_source_channel = kc_source_channel f,
     kr_source_reference = kc_source_reference f, kr_source_received_at = kc_source_received_at f,
     kr_lifecycle = consultation_lifecycle_value (k_lifecycle k),
     kr_freshness = consultation_freshness_value (k_freshness k),
     kr_created_by_actor_id = cc_actor_id ctx, kr_updated_by_actor_id = cc_actor_id ctx \<rparr>"

definition version_record :: "register_fields \<Rightarrow> command_context \<Rightarrow> dce_version \<Rightarrow> version_row" where
  "version_record f ctx v = \<lparr> vr_id = v_id v, vr_tenant_id = v_tenant_id v,
     vr_aggregate_revision = v_aggregate_revision v, vr_consultation_id = v_consultation_id v,
     vr_corpus_hash = v_corpus_hash v, vr_predecessor = None, vr_provenance_channel = rf_provenance_channel f,
     vr_provenance_reference = rf_provenance_reference f, vr_provenance_url = rf_provenance_url f,
     vr_source_received_at = rf_source_received_at f, vr_lifecycle = dce_lifecycle_value (v_lifecycle v),
     vr_integrity = dce_integrity_value (v_integrity v),
     vr_classification_readiness = classification_readiness_value (v_classification_readiness v),
     vr_analysis_readiness = analysis_readiness_value (v_analysis_readiness v), vr_withdrawal_source = None,
     vr_withdrawal_reason = None, vr_superseded_at = None, vr_withdrawn_at = None,
     vr_created_by_actor_id = cc_actor_id ctx, vr_updated_by_actor_id = cc_actor_id ctx \<rparr>"

section \<open>Outcomes\<close>

definition intake_outcome ::
  "string \<Rightarrow> string \<Rightarrow> string \<Rightarrow> uuid \<Rightarrow> int \<Rightarrow> string \<Rightarrow> (string \<times> json) list \<Rightarrow> handler_outcome" where
  "intake_outcome rcode ref_type etype u revn topic payload = \<lparr> ho_result_code = rcode,
     ho_aggregate_refs = [JObj [(''aggregate_type'', JStr ref_type), (''aggregate_id'', JStr (uuid_str u)),
       (''aggregate_revision'', JInt revn)]],
     ho_events = [\<lparr> pe_aggregate_type = etype, pe_aggregate_id = u, pe_aggregate_revision = revn,
       pe_event_type = rcode, pe_payload = payload, pe_topic = topic, pe_payload_version = 1 \<rparr>] \<rparr>"

definition staged_outcome ::
  "string \<Rightarrow> string \<Rightarrow> command_context \<Rightarrow> staged_row \<Rightarrow> (string \<times> json) list \<Rightarrow> handler_outcome" where
  "staged_outcome rcode topic ctx s extra = intake_outcome rcode ''DCE_STAGED_OBJECT'' ''DCE_STAGED_OBJECT'' (so_id s) 0 topic
     ([(''storage_object_id'', JStr (uuid_str (so_id s))), (''tenant_id'', JStr (uuid_str (cc_tenant_id ctx))),
       (''consultation_id'', JStr (uuid_str (so_consultation_id s)))] @ extra)"

definition retention_topic :: "staged_row \<Rightarrow> string" where
  "retention_topic s = (if so_state s = ''REJECTED'' then ''dce_staging_retention'' else ''cockpit_projection'')"

section \<open>Handlers\<close>

definition create_consultation ::
  "create_consultation_fields \<Rightarrow> command_context \<Rightarrow> intake_tables \<Rightarrow> exn + (handler_outcome \<times> intake_tables)" where
  "create_consultation f ctx b =
     (case Consultation_create (kc_consultation_id f) (cc_tenant_id ctx)
             \<lparr> legal_name = kc_buyer_legal_name f, normalized_identifier = kc_buyer_normalized_id f \<rparr>
             (kc_external_reference f) (kc_object_label f) (kc_source_channel f) of
        Inl e \<Rightarrow> Inl (ValueError (consultation_error_code e))
      | Inr k \<Rightarrow>
        (case insert_row kr_check kr_clash (consultation_record f ctx k) (it_consultations b) of
           Inl x \<Rightarrow> Inl x
         | Inr rows \<Rightarrow>
           Inr (intake_outcome ''CONSULTATION_CREATED'' ''DCE'' ''CONSULTATION'' (k_id k) (k_aggregate_revision k)
                  ''cockpit_projection''
                  [(''consultation_id'', JStr (uuid_str (k_id k))), (''tenant_id'', JStr (uuid_str (k_tenant_id k)))],
                b\<lparr> it_consultations := rows \<rparr>)))"

definition find_consultation :: "uuid \<Rightarrow> uuid \<Rightarrow> consultation_row list \<Rightarrow> consultation_row option" where
  "find_consultation tid cid rows = List.find (\<lambda>r. kr_tenant_id r = tid \<and> kr_id r = cid) rows"

definition find_staged :: "uuid \<Rightarrow> uuid \<Rightarrow> staged_row list \<Rightarrow> staged_row option" where
  "find_staged tid sid rows = List.find (\<lambda>r. so_tenant_id r = tid \<and> so_id r = sid) rows"

definition new_staged :: "prepare_staging_fields \<Rightarrow> command_context \<Rightarrow> staged_row" where
  "new_staged f ctx = \<lparr> so_id = ps_storage_object_id f, so_tenant_id = cc_tenant_id ctx,
     so_consultation_id = ps_consultation_id f,
     so_storage_key = staging_storage_key (cc_tenant_id ctx) (ps_storage_object_id f),
     so_original_filename = ps_original_filename f, so_expected_byte_size = ps_expected_byte_size f,
     so_actual_byte_size = None, so_sha256 = None, so_media_type = None, so_source_channel = ps_source_channel f,
     so_state = ''AWAITING_UPLOAD'', so_scan_verdict = None, so_scanner_name = None,
     so_scanner_signature_version = None, so_scanned_at = None, so_rejection_code = None,
     so_expires_at = ps_expires_at f, so_consumed_by = None, so_consumed_at = None,
     so_created_by_actor_id = cc_actor_id ctx, so_updated_by_actor_id = cc_actor_id ctx \<rparr>"

definition prepare_staging ::
  "prepare_staging_fields \<Rightarrow> command_context \<Rightarrow> intake_tables \<Rightarrow> exn + (handler_outcome \<times> intake_tables)" where
  "prepare_staging f ctx b =
     (case find_consultation (cc_tenant_id ctx) (ps_consultation_id f) (it_consultations b) of
        None \<Rightarrow> Inl (ValueError ''CONSULTATION_REQUIRED_OR_STALE'')
      | Some k \<Rightarrow>
        if kr_aggregate_revision k \<noteq> ps_consultation_revision f then Inl (ValueError ''CONSULTATION_REQUIRED_OR_STALE'')
        else if ps_expires_at f \<le> cc_received_at ctx then Inl (ValueError ''DCE_STAGING_EXPIRY_REQUIRED'')
        else
          (let s = new_staged f ctx in
           case insert_row so_check so_clash s (it_staged b) of Inl x \<Rightarrow> Inl x | Inr rows \<Rightarrow>
           Inr (staged_outcome ''DCE_STAGING_PREPARED'' ''cockpit_projection'' ctx s [], b\<lparr> it_staged := rows \<rparr>)))"

text \<open>The flush of an updated staged object.\<close>

definition save_staged :: "staged_row \<Rightarrow> intake_tables \<Rightarrow> exn + intake_tables" where
  "save_staged s b =
     (if \<not> so_check s then Inl IntegrityError
      else Inr (b\<lparr> it_staged := update_where (\<lambda>r. so_id r = so_id s) (\<lambda>_. s) (it_staged b) \<rparr>))"

definition claim_upload :: "uuid \<Rightarrow> command_context \<Rightarrow> intake_tables \<Rightarrow> exn + (handler_outcome \<times> intake_tables)" where
  "claim_upload sid ctx b =
     (case find_staged (cc_tenant_id ctx) sid (it_staged b) of
        None \<Rightarrow> Inl (ValueError ''DCE_STAGED_OBJECT_NOT_AWAITING_UPLOAD'')
      | Some s \<Rightarrow>
        if so_state s \<noteq> ''AWAITING_UPLOAD'' then Inl (ValueError ''DCE_STAGED_OBJECT_NOT_AWAITING_UPLOAD'')
        else if so_expires_at s \<le> cc_received_at ctx then Inl (ValueError ''DCE_STAGED_OBJECT_EXPIRED'')
        else
          (let s' = s\<lparr> so_state := ''UPLOADING'', so_updated_by_actor_id := cc_actor_id ctx \<rparr> in
           case save_staged s' b of Inl x \<Rightarrow> Inl x | Inr b' \<Rightarrow>
           Inr (staged_outcome ''DCE_STAGING_UPLOAD_CLAIMED'' ''cockpit_projection'' ctx s' [], b')))"

definition quarantined :: "quarantine_fields \<Rightarrow> command_context \<Rightarrow> staged_row \<Rightarrow> staged_row" where
  "quarantined f ctx s =
     (let s1 = s\<lparr> so_actual_byte_size := Some (qf_actual_byte_size f), so_sha256 := Some (lower (qf_sha256 f)),
                so_media_type := Some (qf_media_type f), so_updated_by_actor_id := cc_actor_id ctx \<rparr> in
      if qf_actual_byte_size f \<noteq> so_expected_byte_size s
        then s1\<lparr> so_state := ''REJECTED'', so_rejection_code := Some ''BYTE_SIZE_MISMATCH'' \<rparr>
      else if \<not> qf_content_allowed f
        then s1\<lparr> so_state := ''REJECTED'', so_rejection_code := Some ''MEDIA_TYPE_NOT_ALLOWED'' \<rparr>
      else s1\<lparr> so_state := ''QUARANTINED'', so_rejection_code := None \<rparr>)"

definition record_quarantine ::
  "uuid \<Rightarrow> quarantine_fields \<Rightarrow> command_context \<Rightarrow> intake_tables \<Rightarrow> exn + (handler_outcome \<times> intake_tables)" where
  "record_quarantine sid f ctx b =
     (if cc_actor_kind ctx \<noteq> ''SYSTEM'' then Inl (ValueError ''DCE_STAGING_SYSTEM_ACTOR_REQUIRED'')
      else case find_staged (cc_tenant_id ctx) sid (it_staged b) of
        None \<Rightarrow> Inl (ValueError ''DCE_STAGED_OBJECT_NOT_UPLOADING'')
      | Some s \<Rightarrow>
        if so_state s \<noteq> ''UPLOADING'' then Inl (ValueError ''DCE_STAGED_OBJECT_NOT_UPLOADING'')
        else
          (let s' = quarantined f ctx s in
           case save_staged s' b of Inl x \<Rightarrow> Inl x | Inr b' \<Rightarrow>
           Inr (staged_outcome ''DCE_STAGING_QUARANTINE_RECORDED'' (retention_topic s') ctx s'
                  [(''state'', JStr (so_state s'))], b')))"

definition reject_upload :: "uuid \<Rightarrow> string \<Rightarrow> command_context \<Rightarrow> intake_tables \<Rightarrow> exn + (handler_outcome \<times> intake_tables)" where
  "reject_upload sid rejection ctx b =
     (if cc_actor_kind ctx \<noteq> ''SYSTEM'' then Inl (ValueError ''DCE_STAGING_SYSTEM_ACTOR_REQUIRED'')
      else case find_staged (cc_tenant_id ctx) sid (it_staged b) of
        None \<Rightarrow> Inl (ValueError ''DCE_STAGED_OBJECT_NOT_UPLOADING'')
      | Some s \<Rightarrow>
        if so_state s \<noteq> ''UPLOADING'' then Inl (ValueError ''DCE_STAGED_OBJECT_NOT_UPLOADING'')
        else
          (let s' = s\<lparr> so_state := ''REJECTED'', so_rejection_code := Some rejection,
                      so_updated_by_actor_id := cc_actor_id ctx \<rparr> in
           case save_staged s' b of Inl x \<Rightarrow> Inl x | Inr b' \<Rightarrow>
           Inr (staged_outcome ''DCE_STAGING_UPLOAD_REJECTED'' ''dce_staging_retention'' ctx s' [], b')))"

definition expire_staged :: "uuid \<Rightarrow> command_context \<Rightarrow> intake_tables \<Rightarrow> exn + (handler_outcome \<times> intake_tables)" where
  "expire_staged sid ctx b =
     (if cc_actor_kind ctx \<noteq> ''SYSTEM'' then Inl (ValueError ''DCE_STAGING_SYSTEM_ACTOR_REQUIRED'')
      else case find_staged (cc_tenant_id ctx) sid (it_staged b) of
        None \<Rightarrow> Inl (ValueError ''DCE_STAGED_OBJECT_NOT_EXPIRABLE'')
      | Some s \<Rightarrow>
        if so_state s \<in> {''CONSUMED'', ''EXPIRED''} then Inl (ValueError ''DCE_STAGED_OBJECT_NOT_EXPIRABLE'')
        else if so_expires_at s > cc_received_at ctx then Inl (ValueError ''DCE_STAGED_OBJECT_NOT_EXPIRED'')
        else
          (let s' = s\<lparr> so_state := ''EXPIRED'', so_updated_by_actor_id := cc_actor_id ctx \<rparr> in
           case save_staged s' b of Inl x \<Rightarrow> Inl x | Inr b' \<Rightarrow>
           Inr (staged_outcome ''DCE_STAGING_EXPIRED'' ''dce_staging_retention'' ctx s' [], b')))"

definition scanned :: "scan_fields \<Rightarrow> command_context \<Rightarrow> staged_row \<Rightarrow> staged_row" where
  "scanned f ctx s =
     (let s1 = s\<lparr> so_actual_byte_size := Some (sf_actual_byte_size f), so_sha256 := Some (lower (sf_sha256 f)),
                so_media_type := Some (sf_media_type f), so_scan_verdict := Some (sf_scan_verdict f),
                so_scanner_name := Some (sf_scanner_name f),
                so_scanner_signature_version := Some (sf_scanner_signature_version f),
                so_scanned_at := Some (sf_scanned_at f), so_updated_by_actor_id := cc_actor_id ctx \<rparr> in
      if sf_actual_byte_size f \<noteq> so_expected_byte_size s
        then s1\<lparr> so_state := ''REJECTED'', so_rejection_code := Some ''BYTE_SIZE_MISMATCH'' \<rparr>
      else if sf_scan_verdict f = ''CLEAN'' then s1\<lparr> so_state := ''CLEAN'', so_rejection_code := None \<rparr>
      else if sf_scan_verdict f = ''INFECTED''
        then s1\<lparr> so_state := ''REJECTED'', so_rejection_code := Some ''MALWARE_DETECTED'' \<rparr>
      else s1\<lparr> so_state := ''REJECTED'', so_rejection_code := Some ''SCAN_ERROR'' \<rparr>)"

definition record_scan ::
  "uuid \<Rightarrow> scan_fields \<Rightarrow> command_context \<Rightarrow> intake_tables \<Rightarrow> exn + (handler_outcome \<times> intake_tables)" where
  "record_scan sid f ctx b =
     (if cc_actor_kind ctx \<noteq> ''SYSTEM'' then Inl (ValueError ''DCE_STAGING_SYSTEM_ACTOR_REQUIRED'')
      else case find_staged (cc_tenant_id ctx) sid (it_staged b) of
        None \<Rightarrow> Inl (ValueError ''DCE_STAGED_OBJECT_NOT_QUARANTINED'')
      | Some s \<Rightarrow>
        if so_state s \<noteq> ''QUARANTINED'' then Inl (ValueError ''DCE_STAGED_OBJECT_NOT_QUARANTINED'')
        else
          (let s' = scanned f ctx s in
           case save_staged s' b of Inl x \<Rightarrow> Inl x | Inr b' \<Rightarrow>
           Inr (staged_outcome ''DCE_STAGING_SCAN_RECORDED'' (retention_topic s') ctx s'
                  [(''state'', JStr (so_state s'))], b')))"

section \<open>Admission of a version\<close>

text \<open>The checks of one staged object; \<open>None\<close> when it may be admitted.\<close>

definition staged_problem :: "register_fields \<Rightarrow> command_context \<Rightarrow> staged_row \<Rightarrow> string option" where
  "staged_problem f ctx s =
     (if so_consultation_id s \<noteq> rf_consultation_id f then Some ''DCE_STAGED_OBJECT_CONSULTATION_REQUIRED''
      else if so_state s \<noteq> ''CLEAN'' then Some ''DCE_STAGED_OBJECT_NOT_CLEAN''
      else if so_expires_at s \<le> cc_received_at ctx then Some ''DCE_STAGED_OBJECT_EXPIRED''
      else if so_sha256 s = None \<or> so_media_type s = None \<or> so_actual_byte_size s = None
        then Some ''DCE_STAGED_OBJECT_METADATA_REQUIRED''
      else None)"

fun first_problem :: "('s \<Rightarrow> string option) \<Rightarrow> 's list \<Rightarrow> string option" where
  "first_problem p [] = None"
| "first_problem p (s # ss) = (case p s of Some e \<Rightarrow> Some e | None \<Rightarrow> first_problem p ss)"

text \<open>The staged objects in the order of the command; \<open>None\<close> when one of them is not there.\<close>

fun ordered_staged :: "uuid \<Rightarrow> uuid list \<Rightarrow> staged_row list \<Rightarrow> staged_row list option" where
  "ordered_staged tid [] rows = Some []"
| "ordered_staged tid (sid # sids) rows =
     (case find_staged tid sid rows of None \<Rightarrow> None | Some s \<Rightarrow>
      (case ordered_staged tid sids rows of None \<Rightarrow> None | Some ss \<Rightarrow> Some (s # ss)))"

text \<open>After the metadata check the optional columns are present.\<close>

definition staged_sha :: "staged_row \<Rightarrow> string" where
  "staged_sha s = the (so_sha256 s)"

definition staged_media :: "staged_row \<Rightarrow> string" where
  "staged_media s = the (so_media_type s)"

definition staged_size :: "staged_row \<Rightarrow> int" where
  "staged_size s = the (so_actual_byte_size s)"

fun domain_documents :: "(admission_input \<times> staged_row) list \<Rightarrow> dce_error + dce_document list" where
  "domain_documents [] = Inr []"
| "domain_documents ((d, s) # ds) =
     (case DceDocument_new (ai_document_id d) (so_original_filename s) (staged_sha s) (staged_media s) (staged_size s) of
        Inl e \<Rightarrow> Inl e
      | Inr doc \<Rightarrow> (case domain_documents ds of Inl e \<Rightarrow> Inl e | Inr docs \<Rightarrow> Inr (doc # docs)))"

definition new_document :: "dce_version \<Rightarrow> admission_input \<times> staged_row \<Rightarrow> document_row" where
  "new_document v p = (case p of (d, s) \<Rightarrow> \<lparr> dr_id = ai_document_id d, dr_tenant_id = v_tenant_id v,
     dr_dce_version_id = v_id v, dr_storage_object_id = so_id s, dr_storage_key = so_storage_key s,
     dr_original_filename = so_original_filename s, dr_media_type = staged_media s, dr_byte_size = staged_size s,
     dr_sha256 = staged_sha s, dr_received_from = so_source_channel s \<rparr>)"

definition consume :: "dce_version \<Rightarrow> command_context \<Rightarrow> staged_row \<Rightarrow> staged_row" where
  "consume v ctx s = s\<lparr> so_state := ''CONSUMED'', so_consumed_by := Some (v_id v),
     so_consumed_at := Some (cc_received_at ctx), so_updated_by_actor_id := cc_actor_id ctx \<rparr>"

definition register_version ::
  "register_fields \<Rightarrow> command_context \<Rightarrow> intake_tables \<Rightarrow> exn + (handler_outcome \<times> intake_tables)" where
  "register_version f ctx b =
     (case find_consultation (cc_tenant_id ctx) (rf_consultation_id f) (it_consultations b) of
        None \<Rightarrow> Inl (ValueError ''CONSULTATION_REQUIRED_OR_STALE'')
      | Some k \<Rightarrow>
        let sids = map ai_storage_object_id (rf_documents f) in
        if kr_aggregate_revision k \<noteq> rf_consultation_revision f then Inl (ValueError ''CONSULTATION_REQUIRED_OR_STALE'')
        else if \<not> distinct (map ai_document_id (rf_documents f)) then Inl (ValueError ''DCE_DOCUMENT_IDENTIFIER_DUPLICATE'')
        else if \<not> distinct sids then Inl (ValueError ''DCE_STAGED_OBJECT_DUPLICATE'')
        else (case ordered_staged (cc_tenant_id ctx) sids (it_staged b) of
          None \<Rightarrow> Inl (ValueError ''DCE_STAGED_OBJECT_REQUIRED'')
        | Some staged \<Rightarrow>
          (case first_problem (staged_problem f ctx) staged of Some e \<Rightarrow> Inl (ValueError e) | None \<Rightarrow>
           if lower (rf_corpus_hash f) \<noteq> corpus_hash (map staged_sha staged) then Inl (ValueError ''DCE_CORPUS_HASH_REQUIRED'')
           else (case domain_documents (zip (rf_documents f) staged) of
             Inl e \<Rightarrow> Inl (ValueError (dce_error_code e))
           | Inr docs \<Rightarrow>
             (case DceVersion_register (rf_dce_version_id f) (cc_tenant_id ctx) (rf_consultation_id f) (rf_corpus_hash f) docs
                     (if truthy (rf_provenance_reference f) then or_empty (rf_provenance_reference f) else rf_provenance_channel f)
                     (rf_source_received_at f) None None of
                Inl e \<Rightarrow> Inl (ValueError (dce_error_code e))
              | Inr v \<Rightarrow>
                (case insert_row vr_check vr_clash (version_record f ctx v) (it_versions b) of Inl x \<Rightarrow> Inl x | Inr versions \<Rightarrow>
                 (case insert_rows dr_check dr_clash (map (new_document v) (zip (rf_documents f) staged)) (it_documents b) of
                    Inl x \<Rightarrow> Inl x
                  | Inr documents \<Rightarrow>
                    Inr (intake_outcome ''DCE_VERSION_REGISTERED'' ''DCE'' ''DCE_VERSION'' (v_id v) (v_aggregate_revision v)
                           ''cockpit_projection''
                           [(''dce_version_id'', JStr (uuid_str (v_id v))), (''tenant_id'', JStr (uuid_str (v_tenant_id v))),
                            (''consultation_id'', JStr (uuid_str (v_consultation_id v)))],
                         b\<lparr> it_versions := versions, it_documents := documents,
                            it_staged := update_where (\<lambda>r. so_id r \<in> set (map so_id staged)) (consume v ctx) (it_staged b) \<rparr>))))))))"

section \<open>Recording an extraction\<close>

definition locator_has_kind :: "(string \<times> json) list \<Rightarrow> bool" where
  "locator_has_kind loc = (case map_of loc ''kind'' of Some (JStr _) \<Rightarrow> True | _ \<Rightarrow> False)"

definition fragment_problem :: "fragment_input \<Rightarrow> string option" where
  "fragment_problem p =
     (if \<not> locator_has_kind (fi_locator p) then Some ''DCE_EXTRACTION_FRAGMENT_LOCATOR_REQUIRED''
      else if lower (fi_text_sha256 p) \<noteq> sha256_hex (fi_text p) then Some ''DCE_EXTRACTION_FRAGMENT_HASH_REQUIRED''
      else None)"

definition validate_extraction_fragments :: "fragment_input list \<Rightarrow> string option" where
  "validate_extraction_fragments ps =
     (if map fi_ordinal ps \<noteq> [1..int (length ps)] then Some ''DCE_EXTRACTION_FRAGMENT_ORDINAL_REQUIRED''
      else first_problem fragment_problem ps)"

definition new_fragment :: "command_context \<Rightarrow> uuid \<Rightarrow> uuid \<Rightarrow> fragment_input \<Rightarrow> fragment_row" where
  "new_fragment ctx eid u p = \<lparr> fg_id = u, fg_tenant_id = cc_tenant_id ctx, fg_extraction_id = eid,
     fg_ordinal = fi_ordinal p, fg_locator = fi_locator p, fg_text = fi_text p,
     fg_text_sha256 = lower (fi_text_sha256 p) \<rparr>"

definition new_fragments :: "command_context \<Rightarrow> uuid \<Rightarrow> (nat \<Rightarrow> uuid) \<Rightarrow> fragment_input list \<Rightarrow> fragment_row list" where
  "new_fragments ctx eid fresh ps = map (\<lambda>(i, p). new_fragment ctx eid (fresh i) p) (List.enumerate 0 ps)"

text \<open>The staged object behind a document, as the handler requires it.\<close>

definition storage_consumed :: "version_row \<Rightarrow> document_row \<Rightarrow> staged_row option \<Rightarrow> bool" where
  "storage_consumed v d so =
     (case so of None \<Rightarrow> False | Some s \<Rightarrow>
      so_state s = ''CONSUMED'' \<and> so_consumed_by s = Some (vr_id v)
      \<and> (case so_sha256 s of None \<Rightarrow> False | Some h \<Rightarrow> lower h = lower (dr_sha256 d)))"

definition new_extraction :: "extraction_fields \<Rightarrow> command_context \<Rightarrow> version_row \<Rightarrow> document_row \<Rightarrow> extraction_row" where
  "new_extraction f ctx v d = \<lparr> er_id = ef_extraction_id f, er_tenant_id = cc_tenant_id ctx, er_dce_version_id = vr_id v,
     er_dce_document_id = dr_id d, er_input_sha256 = lower (ef_input_sha256 f), er_extractor_id = ef_extractor_id f,
     er_extractor_version = ef_extractor_version f, er_status = ef_status f,
     er_fragment_count = int (length (ef_fragments f)), er_extracted_char_count = ef_extracted_char_count f,
     er_failure_code = ef_failure_code f \<rparr>"

definition record_extraction ::
  "extraction_fields \<Rightarrow> command_context \<Rightarrow> (nat \<Rightarrow> uuid) \<Rightarrow> intake_tables \<Rightarrow> exn + (handler_outcome \<times> intake_tables)" where
  "record_extraction f ctx fresh b =
     (if cc_actor_kind ctx \<noteq> ''SYSTEM'' then Inl (ValueError ''DCE_EXTRACTION_SYSTEM_ACTOR_REQUIRED'')
      else case List.find (\<lambda>d. dr_tenant_id d = cc_tenant_id ctx \<and> dr_id d = ef_dce_document_id f) (it_documents b) of
        None \<Rightarrow> Inl (ValueError ''DCE_DOCUMENT_REQUIRED'')
      | Some d \<Rightarrow>
        (case List.find (\<lambda>v. vr_tenant_id v = cc_tenant_id ctx \<and> vr_id v = dr_dce_version_id d) (it_versions b) of
           None \<Rightarrow> Inl (ValueError ''DCE_VERSION_NOT_ADMITTED'')
         | Some v \<Rightarrow>
           if vr_lifecycle v \<notin> {''ADMITTED'', ''SUPERSEDED''} then Inl (ValueError ''DCE_VERSION_NOT_ADMITTED'')
           else if vr_integrity v \<noteq> ''VERIFIED'' then Inl (ValueError ''DCE_VERSION_NOT_VERIFIED'')
           else if \<not> storage_consumed v d (find_staged (cc_tenant_id ctx) (dr_storage_object_id d) (it_staged b))
             then Inl (ValueError ''DOCUMENT_STORAGE_NOT_CONSUMED'')
           else if lower (ef_input_sha256 f) \<noteq> lower (dr_sha256 d) then Inl (ValueError ''DOCUMENT_INPUT_HASH_REQUIRED'')
           else (case (if ef_status f \<in> {''COMPLETED'', ''REVIEW_REQUIRED''} then validate_extraction_fragments (ef_fragments f) else None) of
             Some e \<Rightarrow> Inl (ValueError e)
           | None \<Rightarrow>
             (let e = new_extraction f ctx v d in
              case insert_row er_check er_clash e (it_extractions b) of Inl x \<Rightarrow> Inl x | Inr extractions \<Rightarrow>
              (case insert_rows fg_check fg_clash (new_fragments ctx (er_id e) fresh (ef_fragments f)) (it_fragments b) of
                 Inl x \<Rightarrow> Inl x
               | Inr fragments \<Rightarrow>
                 Inr (intake_outcome ''DCE_DOCUMENT_EXTRACTION_RECORDED'' ''DCE_DOCUMENT_EXTRACTION''
                        ''DCE_DOCUMENT_EXTRACTION'' (er_id e) 0 ''cockpit_projection''
                        [(''extraction_id'', JStr (uuid_str (er_id e))), (''dce_document_id'', JStr (uuid_str (dr_id d))),
                         (''status'', JStr (er_status e)), (''fragment_count'', JInt (er_fragment_count e)),
                         (''extracted_char_count'', JInt (er_extracted_char_count e))],
                      b\<lparr> it_extractions := extractions, it_fragments := fragments \<rparr>))))))"

section \<open>The registry\<close>

fun intake_command_type :: "intake_command \<Rightarrow> string" where
  "intake_command_type (CreateConsultation f) = ''CreateConsultation''"
| "intake_command_type (PrepareDceStaging f) = ''PrepareDceStaging''"
| "intake_command_type (ClaimDceStagedObjectUpload s) = ''ClaimDceStagedObjectUpload''"
| "intake_command_type (RecordDceStagedObjectQuarantine s f) = ''RecordDceStagedObjectQuarantine''"
| "intake_command_type (RejectDceStagedObjectUpload s c) = ''RejectDceStagedObjectUpload''"
| "intake_command_type (ExpireDceStagedObject s) = ''ExpireDceStagedObject''"
| "intake_command_type (RecordDceStagedObjectScan s f) = ''RecordDceStagedObjectScan''"
| "intake_command_type (RegisterDceVersion f) = ''RegisterDceVersion''"
| "intake_command_type (RecordDceDocumentExtraction f) = ''RecordDceDocumentExtraction''"

definition run_intake ::
  "intake_command \<Rightarrow> command_context \<Rightarrow> (nat \<Rightarrow> uuid) \<Rightarrow> intake_tables \<Rightarrow> exn + (handler_outcome \<times> intake_tables)" where
  "run_intake body ctx fresh b =
     (case body of
        CreateConsultation f \<Rightarrow> create_consultation f ctx b
      | PrepareDceStaging f \<Rightarrow> prepare_staging f ctx b
      | ClaimDceStagedObjectUpload sid \<Rightarrow> claim_upload sid ctx b
      | RecordDceStagedObjectQuarantine sid f \<Rightarrow> record_quarantine sid f ctx b
      | RejectDceStagedObjectUpload sid c \<Rightarrow> reject_upload sid c ctx b
      | ExpireDceStagedObject sid \<Rightarrow> expire_staged sid ctx b
      | RecordDceStagedObjectScan sid f \<Rightarrow> record_scan sid f ctx b
      | RegisterDceVersion f \<Rightarrow> register_version f ctx b
      | RecordDceDocumentExtraction f \<Rightarrow> record_extraction f ctx fresh b)"

text \<open>Each type is registered with its own handler, so a body of another type never reaches it.\<close>

definition intake_handlers :: "string \<Rightarrow> (intake_command, intake_tables) handler option" where
  "intake_handlers ctype =
     (if ctype \<in> {''CreateConsultation'', ''PrepareDceStaging'', ''ClaimDceStagedObjectUpload'',
          ''RecordDceStagedObjectQuarantine'', ''RejectDceStagedObjectUpload'', ''ExpireDceStagedObject'',
          ''RecordDceStagedObjectScan'', ''RegisterDceVersion'', ''RecordDceDocumentExtraction''}
      then Some (\<lambda>c ctx fresh b.
        if intake_command_type (em_body c) \<noteq> ctype then Inl KeyError else run_intake (em_body c) ctx fresh b)
      else None)"

end
