(* ===== verification/AdmittedCorpus.thy ===== *)
theory AdmittedCorpus
  imports DceIntake
begin

text \<open>
  What the intake guarantees. \<open>intake_inv\<close> ties the tables together: an admitted corpus consists
  exactly of objects that were scanned clean, each consumed by that version alone, its corpus
  hash is the hash of its documents, and an extraction was made from the admitted bytes.
  \<open>intake_effect\<close> summarises what an accepted command writes; the properties follow from it.
\<close>

section \<open>The invariant\<close>

definition documents_of :: "uuid \<Rightarrow> intake_tables \<Rightarrow> document_row list" where
  "documents_of vid b = filter (\<lambda>d. dr_dce_version_id d = vid) (it_documents b)"

definition fragments_of :: "uuid \<Rightarrow> intake_tables \<Rightarrow> fragment_row list" where
  "fragments_of eid b = filter (\<lambda>g. fg_extraction_id g = eid) (it_fragments b)"

definition staged_ok :: "staged_row \<Rightarrow> bool" where
  "staged_ok s =
     (so_storage_key s = staging_storage_key (so_tenant_id s) (so_id s)
      \<and> (so_state s \<in> {''CLEAN'', ''CONSUMED''} \<longrightarrow>
           so_scan_verdict s = Some ''CLEAN'' \<and> so_actual_byte_size s = Some (so_expected_byte_size s)
           \<and> so_media_type s \<noteq> None \<and> (\<exists>h. so_sha256 s = Some h \<and> lower_hex64 h))
      \<and> (so_consumed_by s \<noteq> None \<longleftrightarrow> so_state s = ''CONSUMED'')
      \<and> so_state s \<in> {''AWAITING_UPLOAD'', ''UPLOADING'', ''QUARANTINED'', ''CLEAN'', ''REJECTED'', ''CONSUMED'', ''EXPIRED''})"

text \<open>The document is the staged object, byte for byte as far as the tables say.\<close>

definition document_source :: "document_row \<Rightarrow> staged_row \<Rightarrow> bool" where
  "document_source d s =
     (so_id s = dr_storage_object_id d \<and> so_tenant_id s = dr_tenant_id d \<and> so_state s = ''CONSUMED''
      \<and> so_consumed_by s = Some (dr_dce_version_id d) \<and> so_sha256 s = Some (dr_sha256 d)
      \<and> so_actual_byte_size s = Some (dr_byte_size d) \<and> so_media_type s = Some (dr_media_type d)
      \<and> so_storage_key s = dr_storage_key d \<and> so_original_filename s = dr_original_filename d)"

definition document_ok :: "intake_tables \<Rightarrow> document_row \<Rightarrow> bool" where
  "document_ok b d =
     ((\<exists>s \<in> set (it_staged b). document_source d s
        \<and> (\<exists>v \<in> set (it_versions b). vr_id v = dr_dce_version_id d \<and> vr_tenant_id v = dr_tenant_id d
             \<and> vr_consultation_id v = so_consultation_id s)))"

definition version_ok :: "intake_tables \<Rightarrow> version_row \<Rightarrow> bool" where
  "version_ok b v =
     (documents_of (vr_id v) b \<noteq> [] \<and> distinct (map dr_sha256 (documents_of (vr_id v) b))
      \<and> vr_corpus_hash v = corpus_hash (map dr_sha256 (documents_of (vr_id v) b))
      \<and> (\<exists>k \<in> set (it_consultations b). kr_id k = vr_consultation_id v \<and> kr_tenant_id k = vr_tenant_id v))"

definition extraction_ok :: "intake_tables \<Rightarrow> extraction_row \<Rightarrow> bool" where
  "extraction_ok b e =
     ((\<exists>d \<in> set (it_documents b). dr_id d = er_dce_document_id e \<and> dr_tenant_id d = er_tenant_id e
         \<and> dr_dce_version_id d = er_dce_version_id e \<and> er_input_sha256 e = lower (dr_sha256 d))
      \<and> er_fragment_count e = int (length (fragments_of (er_id e) b))
      \<and> (er_status e \<in> {''COMPLETED'', ''REVIEW_REQUIRED''} \<longrightarrow>
           map fg_ordinal (fragments_of (er_id e) b) = [1..er_fragment_count e]
           \<and> (\<forall>g \<in> set (fragments_of (er_id e) b). fg_text_sha256 g = sha256_hex (fg_text g) \<and> locator_has_kind (fg_locator g))))"

definition intake_inv :: "intake_tables \<Rightarrow> bool" where
  "intake_inv b =
     (distinct (map so_id (it_staged b)) \<and> (\<forall>s \<in> set (it_staged b). staged_ok s)
      \<and> distinct (map dr_storage_object_id (it_documents b)) \<and> (\<forall>d \<in> set (it_documents b). document_ok b d)
      \<and> (\<forall>s \<in> set (it_staged b). so_state s = ''CONSUMED'' \<longrightarrow> so_id s \<in> dr_storage_object_id ` set (it_documents b))
      \<and> distinct (map vr_id (it_versions b)) \<and> (\<forall>v \<in> set (it_versions b). version_ok b v)
      \<and> distinct (map kr_id (it_consultations b))
      \<and> distinct (map (\<lambda>k. (kr_tenant_id k, kr_functional_identity_hash k)) (it_consultations b))
      \<and> distinct (map er_id (it_extractions b)) \<and> (\<forall>e \<in> set (it_extractions b). extraction_ok b e)
      \<and> (\<forall>g \<in> set (it_fragments b). fg_extraction_id g \<in> er_id ` set (it_extractions b)))"

section \<open>What the handlers do\<close>

definition staged_moves :: "(string \<times> string) set" where
  "staged_moves = {(''AWAITING_UPLOAD'', ''UPLOADING''), (''UPLOADING'', ''QUARANTINED''), (''UPLOADING'', ''REJECTED''),
     (''QUARANTINED'', ''CLEAN''), (''QUARANTINED'', ''REJECTED''), (''AWAITING_UPLOAD'', ''EXPIRED''),
     (''UPLOADING'', ''EXPIRED''), (''QUARANTINED'', ''EXPIRED''), (''CLEAN'', ''EXPIRED''), (''REJECTED'', ''EXPIRED'')}"

definition staged_move :: "staged_row \<Rightarrow> staged_row \<Rightarrow> bool" where
  "staged_move s s' =
     ((so_id s', so_tenant_id s', so_consultation_id s', so_storage_key s') = (so_id s, so_tenant_id s, so_consultation_id s, so_storage_key s)
      \<and> (so_state s, so_state s') \<in> staged_moves \<and> staged_ok s')"

text \<open>What a document of the aggregate says, and what the handler passes for it.\<close>

definition document_facts :: "dce_document \<Rightarrow> uuid \<times> string \<times> string \<times> string \<times> int" where
  "document_facts d = (document_id d, original_filename d, doc_sha256 d, media_type d, size_bytes d)"

definition admitted_facts :: "admission_input \<times> staged_row \<Rightarrow> uuid \<times> string \<times> string \<times> string \<times> int" where
  "admitted_facts p = (case p of (d, s) \<Rightarrow>
     (ai_document_id d, so_original_filename s, staged_sha s, staged_media s, staged_size s))"

inductive intake_effect :: "command_context \<Rightarrow> intake_tables \<Rightarrow> intake_tables \<Rightarrow> bool" for ctx b where
  consultation: "consultation_reachable k \<Longrightarrow> k_tenant_id k = cc_tenant_id ctx \<Longrightarrow> r = consultation_record f ctx k \<Longrightarrow>
    \<forall>x \<in> set (it_consultations b). \<not> kr_clash r x \<Longrightarrow>
    intake_effect ctx b (b\<lparr> it_consultations := it_consultations b @ [r] \<rparr>)"
| staged: "s = new_staged f ctx \<Longrightarrow> \<forall>x \<in> set (it_staged b). \<not> so_clash s x \<Longrightarrow>
    intake_effect ctx b (b\<lparr> it_staged := it_staged b @ [s] \<rparr>)"
| moved: "s \<in> set (it_staged b) \<Longrightarrow> so_tenant_id s = cc_tenant_id ctx \<Longrightarrow> staged_ok s \<longrightarrow> staged_move s s' \<Longrightarrow>
    intake_effect ctx b (b\<lparr> it_staged := update_where (\<lambda>r. so_id r = so_id s') (\<lambda>_. s') (it_staged b) \<rparr>)"
| registered: "dce_reachable v \<Longrightarrow> v_tenant_id v = cc_tenant_id ctx \<Longrightarrow> v_lifecycle v = ADMITTED \<Longrightarrow>
    k \<in> set (it_consultations b) \<Longrightarrow> kr_id k = v_consultation_id v \<Longrightarrow> kr_tenant_id k = cc_tenant_id ctx \<Longrightarrow>
    ps \<noteq> [] \<Longrightarrow> distinct (map (\<lambda>(d, s). so_id s) ps) \<Longrightarrow>
    \<forall>(d, s) \<in> set ps. s \<in> set (it_staged b) \<and> so_tenant_id s = cc_tenant_id ctx
      \<and> so_consultation_id s = v_consultation_id v \<and> so_state s = ''CLEAN'' \<Longrightarrow>
    map document_facts (v_documents v) = map admitted_facts ps \<Longrightarrow>
    v_corpus_hash v = corpus_hash (map (\<lambda>(d, s). staged_sha s) ps) \<Longrightarrow>
    r = version_record f ctx v \<Longrightarrow> \<forall>x \<in> set (it_versions b). \<not> vr_clash r x \<Longrightarrow>
    insert_rows dr_check dr_clash (map (new_document v) ps) (it_documents b) = Inr ds \<Longrightarrow>
    intake_effect ctx b (b\<lparr> it_versions := it_versions b @ [r], it_documents := ds,
      it_staged := update_where (\<lambda>r. so_id r \<in> set (map (\<lambda>(d, s). so_id s) ps)) (consume v ctx) (it_staged b) \<rparr>)"
| extracted: "d \<in> set (it_documents b) \<Longrightarrow> dr_tenant_id d = cc_tenant_id ctx \<Longrightarrow> vr_id v = dr_dce_version_id d \<Longrightarrow>
    lower (ef_input_sha256 f) = lower (dr_sha256 d) \<Longrightarrow>
    ef_status f \<in> {''COMPLETED'', ''REVIEW_REQUIRED''} \<longrightarrow> validate_extraction_fragments (ef_fragments f) = None \<Longrightarrow>
    e = new_extraction f ctx v d \<Longrightarrow> \<forall>x \<in> set (it_extractions b). \<not> er_clash e x \<Longrightarrow>
    insert_rows fg_check fg_clash (new_fragments ctx (er_id e) fresh (ef_fragments f)) (it_fragments b) = Inr gs \<Longrightarrow>
    intake_effect ctx b (b\<lparr> it_extractions := it_extractions b @ [e], it_fragments := gs \<rparr>)"

lemma find_staged_Some: "find_staged tid sid rows = Some s \<Longrightarrow> s \<in> set rows \<and> so_tenant_id s = tid \<and> so_id s = sid"
  unfolding find_staged_def by (auto dest!: find_Some_in)

lemma find_consultation_Some:
  "find_consultation tid cid rows = Some k \<Longrightarrow> k \<in> set rows \<and> kr_tenant_id k = tid \<and> kr_id k = cid"
  unfolding find_consultation_def by (auto dest!: find_Some_in)

lemma save_staged_Inr:
  "save_staged s b = Inr b' \<Longrightarrow>
     so_check s \<and> b' = b\<lparr> it_staged := update_where (\<lambda>r. so_id r = so_id s) (\<lambda>_. s) (it_staged b) \<rparr>"
  by (auto simp: save_staged_def split: if_splits)

lemma ordered_staged_Some:
  "ordered_staged tid sids rows = Some ss \<Longrightarrow>
     map so_id ss = sids \<and> (\<forall>s \<in> set ss. s \<in> set rows \<and> so_tenant_id s = tid)"
  by (induction sids arbitrary: ss) (auto split: option.splits dest: find_staged_Some)

lemma first_problem_None: "first_problem p ss = None \<longleftrightarrow> (\<forall>s \<in> set ss. p s = None)"
  by (induction ss) (auto split: option.splits)

lemma domain_documents_Inr: "domain_documents ps = Inr docs \<Longrightarrow> map document_facts docs = map admitted_facts ps"
proof (induction ps arbitrary: docs)
  case Nil
  then show ?case by simp
next
  case (Cons p ps)
  obtain d s where p: "p = (d, s)" by (cases p)
  from Cons.prems p obtain doc docs' where "DceDocument_new (ai_document_id d) (so_original_filename s) (staged_sha s)
      (staged_media s) (staged_size s) = Inr doc" "domain_documents ps = Inr docs'" "docs = doc # docs'"
    by (auto split: sum.splits)
  with Cons.IH [of docs'] p show ?case
    by (auto simp: DceDocument_new_def document_facts_def admitted_facts_def split: if_splits)
qed

lemma create_consultation_effect:
  assumes "create_consultation f ctx b = Inr (ho, b')"
  shows "intake_effect ctx b b'"
proof -
  let ?create = "Consultation_create (kc_consultation_id f) (cc_tenant_id ctx)
      \<lparr> legal_name = kc_buyer_legal_name f, normalized_identifier = kc_buyer_normalized_id f \<rparr>
      (kc_external_reference f) (kc_object_label f) (kc_source_channel f)"
  from assms obtain k where k: "?create = Inr k"
    by (auto simp: create_consultation_def split: sum.splits)
  then have "k_tenant_id k = cc_tenant_id ctx"
    by (auto simp: Consultation_create_def Consultation_record_def Let_def split: option.splits)
  moreover from assms k have "\<forall>x \<in> set (it_consultations b). \<not> kr_clash (consultation_record f ctx k) x"
    "b' = b\<lparr> it_consultations := it_consultations b @ [consultation_record f ctx k] \<rparr>"
    by (auto simp: create_consultation_def insert_row_Inr split: sum.splits)
  ultimately show ?thesis
    using intake_effect.consultation [OF consultation_reachable.created [OF k] _ refl] by simp
qed

lemma prepare_staging_effect:
  "prepare_staging f ctx b = Inr (ho, b') \<Longrightarrow> intake_effect ctx b b'"
  by (auto simp: prepare_staging_def Let_def insert_row_Inr split: option.splits if_splits sum.splits
      intro: intake_effect.staged [OF refl])

lemma moved_effect:
  assumes "find_staged (cc_tenant_id ctx) sid (it_staged b) = Some s" "save_staged s' b = Inr b'"
    and "so_check s' \<Longrightarrow> staged_ok s \<Longrightarrow> staged_move s s'"
  shows "intake_effect ctx b b'"
  using save_staged_Inr [OF assms(2)] find_staged_Some [OF assms(1)] assms(3) intake_effect.moved [of s b ctx s'] by simp

lemma claim_upload_effect:
  assumes "claim_upload sid ctx b = Inr (ho, b')"
  shows "intake_effect ctx b b'"
proof -
  from assms obtain s where s: "find_staged (cc_tenant_id ctx) sid (it_staged b) = Some s" "so_state s = ''AWAITING_UPLOAD''"
    "save_staged (s\<lparr> so_state := ''UPLOADING'', so_updated_by_actor_id := cc_actor_id ctx \<rparr>) b = Inr b'"
    by (auto simp: claim_upload_def Let_def split: option.splits if_splits sum.splits)
  from s(1,3) show ?thesis
    by (rule moved_effect) (use s(2) in \<open>simp add: staged_move_def staged_ok_def staged_moves_def\<close>)
qed

lemma record_quarantine_effect:
  assumes "record_quarantine sid f ctx b = Inr (ho, b')"
  shows "intake_effect ctx b b'"
proof -
  from assms obtain s where s: "find_staged (cc_tenant_id ctx) sid (it_staged b) = Some s" "so_state s = ''UPLOADING''"
    "save_staged (quarantined f ctx s) b = Inr b'"
    by (auto simp: record_quarantine_def Let_def split: option.splits if_splits sum.splits)
  from s(1,3) show ?thesis
    by (rule moved_effect) (use s(2) in \<open>simp add: quarantined_def Let_def staged_move_def staged_ok_def staged_moves_def\<close>)
qed

lemma reject_upload_effect:
  assumes "reject_upload sid c ctx b = Inr (ho, b')"
  shows "intake_effect ctx b b'"
proof -
  from assms obtain s where s: "find_staged (cc_tenant_id ctx) sid (it_staged b) = Some s" "so_state s = ''UPLOADING''"
    "save_staged (s\<lparr> so_state := ''REJECTED'', so_rejection_code := Some c, so_updated_by_actor_id := cc_actor_id ctx \<rparr>) b = Inr b'"
    by (auto simp: reject_upload_def Let_def split: option.splits if_splits sum.splits)
  from s(1,3) show ?thesis
    by (rule moved_effect) (use s(2) in \<open>simp add: staged_move_def staged_ok_def staged_moves_def\<close>)
qed

lemma expire_staged_effect:
  assumes "expire_staged sid ctx b = Inr (ho, b')"
  shows "intake_effect ctx b b'"
proof -
  let ?s' = "\<lambda>s. s\<lparr> so_state := ''EXPIRED'', so_updated_by_actor_id := cc_actor_id ctx \<rparr>"
  from assms obtain s where s: "find_staged (cc_tenant_id ctx) sid (it_staged b) = Some s"
    "so_state s \<notin> {''CONSUMED'', ''EXPIRED''}" "save_staged (?s' s) b = Inr b'"
    by (auto simp: expire_staged_def Let_def split: option.splits if_splits sum.splits)
  from s(1,3) show ?thesis
    by (rule moved_effect) (use s(2) in \<open>auto simp: staged_move_def staged_ok_def staged_moves_def\<close>)
qed

lemma record_scan_effect:
  assumes "record_scan sid f ctx b = Inr (ho, b')"
  shows "intake_effect ctx b b'"
proof -
  from assms obtain s where s: "find_staged (cc_tenant_id ctx) sid (it_staged b) = Some s" "so_state s = ''QUARANTINED''"
    "save_staged (scanned f ctx s) b = Inr b'"
    by (auto simp: record_scan_def Let_def split: option.splits if_splits sum.splits)
  from s(1,3) show ?thesis
    by (rule moved_effect)
      (use s(2) in \<open>simp add: scanned_def Let_def staged_move_def staged_ok_def staged_moves_def so_check_def split: if_splits\<close>)
qed

lemma register_version_effect:
  assumes "register_version f ctx b = Inr (ho, b')"
  shows "intake_effect ctx b b'"
proof -
  let ?sids = "map ai_storage_object_id (rf_documents f)"
  let ?prov = "if truthy (rf_provenance_reference f) then or_empty (rf_provenance_reference f) else rf_provenance_channel f"
  from assms obtain k where k: "find_consultation (cc_tenant_id ctx) (rf_consultation_id f) (it_consultations b) = Some k"
    by (auto simp: register_version_def split: option.splits)
  with assms obtain ss where ss: "ordered_staged (cc_tenant_id ctx) ?sids (it_staged b) = Some ss" and dist: "distinct ?sids"
    by (auto simp: register_version_def Let_def split: option.splits if_splits)
  from assms k ss have np: "first_problem (staged_problem f ctx) ss = None"
    and ch: "lower (rf_corpus_hash f) = corpus_hash (map staged_sha ss)"
    by (auto simp: register_version_def Let_def split: option.splits if_splits)
  let ?ps = "zip (rf_documents f) ss"
  from assms k ss np ch obtain docs where docs: "domain_documents ?ps = Inr docs"
    by (auto simp: register_version_def Let_def split: option.splits if_splits sum.splits)
  with assms k ss np ch obtain v where v: "DceVersion_register (rf_dce_version_id f) (cc_tenant_id ctx) (rf_consultation_id f)
      (rf_corpus_hash f) docs ?prov (rf_source_received_at f) None None = Inr v"
    by (auto simp: register_version_def Let_def split: option.splits if_splits sum.splits)
  from assms k ss np ch docs v obtain ds where ins: "\<forall>x \<in> set (it_versions b). \<not> vr_clash (version_record f ctx v) x"
    "insert_rows dr_check dr_clash (map (new_document v) ?ps) (it_documents b) = Inr ds"
    "b' = b\<lparr> it_versions := it_versions b @ [version_record f ctx v], it_documents := ds,
        it_staged := update_where (\<lambda>r. so_id r \<in> set (map so_id ss)) (consume v ctx) (it_staged b) \<rparr>"
    by (auto simp: register_version_def Let_def insert_row_Inr split: option.splits if_splits sum.splits)
  have vf: "v_tenant_id v = cc_tenant_id ctx" "v_consultation_id v = rf_consultation_id f" "v_lifecycle v = ADMITTED"
    "v_documents v = docs" "v_corpus_hash v = lower (rf_corpus_hash f)" "docs \<noteq> []"
    using v by (auto simp: DceVersion_register_def Let_def Dce_record_def split: if_splits)
  note os = ordered_staged_Some [OF ss]
  have len: "length (rf_documents f) = length ss" using os by (metis length_map)
  then have second: "map (\<lambda>(d, s). g s) ?ps = map g ss" for g :: "staged_row \<Rightarrow> 'x"
    by (induction rule: list_induct2) auto
  note dd = domain_documents_Inr [OF docs]
  have "?ps \<noteq> []"
  proof
    assume "?ps = []"
    with dd have "map document_facts docs = []" by simp
    with vf(6) show False by simp
  qed
  moreover have "\<forall>(d, s) \<in> set ?ps. s \<in> set (it_staged b) \<and> so_tenant_id s = cc_tenant_id ctx
      \<and> so_consultation_id s = v_consultation_id v \<and> so_state s = ''CLEAN''"
    using np os vf(2) by (auto simp: first_problem_None staged_problem_def dest!: set_zip_rightD split: if_splits)
  moreover have "distinct (map (\<lambda>(d, s). so_id s) ?ps)" using dist os second [of so_id] by simp
  ultimately have "intake_effect ctx b (b\<lparr> it_versions := it_versions b @ [version_record f ctx v], it_documents := ds,
      it_staged := update_where (\<lambda>r. so_id r \<in> set (map (\<lambda>(d, s). so_id s) ?ps)) (consume v ctx) (it_staged b) \<rparr>)"
    using find_consultation_Some [OF k] vf dd ch second [of staged_sha]
    by (intro intake_effect.registered [where k = k, OF dce_reachable.registered [OF v] _ _ _ _ _ _ _ _ _ _ refl ins(1,2)]) simp_all
  then show ?thesis unfolding ins(3) second [of so_id] .
qed

lemma record_extraction_effect:
  assumes "record_extraction f ctx fresh b = Inr (ho, b')"
  shows "intake_effect ctx b b'"
proof -
  from assms obtain d where d: "List.find (\<lambda>d. dr_tenant_id d = cc_tenant_id ctx \<and> dr_id d = ef_dce_document_id f) (it_documents b) = Some d"
    by (auto simp: record_extraction_def split: if_splits option.splits)
  with assms obtain v where
    v: "List.find (\<lambda>v. vr_tenant_id v = cc_tenant_id ctx \<and> vr_id v = dr_dce_version_id d) (it_versions b) = Some v"
    by (auto simp: record_extraction_def split: if_splits option.splits)
  let ?e = "new_extraction f ctx v d"
  from assms d v obtain gs where g: "lower (ef_input_sha256 f) = lower (dr_sha256 d)"
    "(if ef_status f \<in> {''COMPLETED'', ''REVIEW_REQUIRED''} then validate_extraction_fragments (ef_fragments f) else None) = None"
    "\<forall>x \<in> set (it_extractions b). \<not> er_clash ?e x"
    "insert_rows fg_check fg_clash (new_fragments ctx (er_id ?e) fresh (ef_fragments f)) (it_fragments b) = Inr gs"
    "b' = b\<lparr> it_extractions := it_extractions b @ [?e], it_fragments := gs \<rparr>"
    by (auto simp: record_extraction_def Let_def insert_row_Inr split: if_splits option.splits sum.splits)
  show ?thesis unfolding g(5)
    by (rule intake_effect.extracted [OF _ _ _ g(1) _ refl g(3,4)])
      (use find_Some_in [OF d] find_Some_in [OF v] g(2) in \<open>auto split: if_splits\<close>)
qed

lemma intake_handler_effect:
  assumes "intake_handlers ctype = Some h" "h c ctx fresh b = Inr (ho, b')"
  shows "intake_effect ctx b b'"
proof -
  from assms have "run_intake (em_body c) ctx fresh b = Inr (ho, b')"
    by (auto simp: intake_handlers_def split: if_splits)
  then show ?thesis
    by (cases "em_body c") (auto simp: run_intake_def intro: create_consultation_effect prepare_staging_effect claim_upload_effect
        record_quarantine_effect reject_upload_effect expire_staged_effect record_scan_effect register_version_effect
        record_extraction_effect)
qed

section \<open>The invariant is kept\<close>

lemma distinct_sorted_wrt: "distinct (map f xs) \<longleftrightarrow> sorted_wrt (\<lambda>x y. f x \<noteq> f y) xs"
  by (induction xs) auto

lemma intake_invD:
  assumes "intake_inv b"
  shows "s \<in> set (it_staged b) \<Longrightarrow> staged_ok s" "d \<in> set (it_documents b) \<Longrightarrow> document_ok b d"
    "v \<in> set (it_versions b) \<Longrightarrow> version_ok b v" "e \<in> set (it_extractions b) \<Longrightarrow> extraction_ok b e"
    "s \<in> set (it_staged b) \<Longrightarrow> so_state s = ''CONSUMED'' \<Longrightarrow> so_id s \<in> dr_storage_object_id ` set (it_documents b)"
  using assms by (simp_all add: intake_inv_def)

lemma staged_unique:
  "intake_inv b \<Longrightarrow> s \<in> set (it_staged b) \<Longrightarrow> s' \<in> set (it_staged b) \<Longrightarrow> so_id s' = so_id s \<Longrightarrow> s' = s"
  by (auto simp: intake_inv_def distinct_map inj_on_def)

lemma document_ok_mono:
  assumes "document_ok b d" "set (it_versions b) \<subseteq> set (it_versions b')"
    and "\<And>s. s \<in> set (it_staged b) \<Longrightarrow> so_state s = ''CONSUMED'' \<Longrightarrow> s \<in> set (it_staged b')"
  shows "document_ok b' d"
  using assms unfolding document_ok_def document_source_def by blast

lemma version_ok_cong:
  assumes "version_ok b v" "documents_of (vr_id v) b' = documents_of (vr_id v) b"
    and "set (it_consultations b) \<subseteq> set (it_consultations b')"
  shows "version_ok b' v"
  using assms unfolding version_ok_def by auto

lemma extraction_ok_cong:
  assumes "extraction_ok b e" "fragments_of (er_id e) b' = fragments_of (er_id e) b"
    and "set (it_documents b) \<subseteq> set (it_documents b')"
  shows "extraction_ok b' e"
  using assms unfolding extraction_ok_def by auto

text \<open>A move of one staged object that is not consumed touches nothing else.\<close>

lemma moved_inv:
  assumes inv: "intake_inv b" and s: "s \<in> set (it_staged b)" and mv: "staged_move s s'"
  shows "intake_inv (b\<lparr> it_staged := update_where (\<lambda>r. so_id r = so_id s') (\<lambda>_. s') (it_staged b) \<rparr>)" (is "intake_inv ?b")
proof -
  have id: "so_id s' = so_id s" and ok: "staged_ok s'" and st: "so_state s \<noteq> ''CONSUMED''" "so_state s' \<noteq> ''CONSUMED''"
    using mv by (auto simp: staged_move_def staged_moves_def)
  have w: "(if so_id r = so_id s' then s' else r) = (if r = s then s' else r)" if "r \<in> set (it_staged b)" for r
    using staged_unique [OF inv s that] id by auto
  have ids: "map so_id (it_staged ?b) = map so_id (it_staged b)" by (simp add: map_update_where)
  have rows: "set (it_staged ?b) = (\<lambda>r. if r = s then s' else r) ` set (it_staged b)"
  proof -
    have "it_staged ?b = update_where (\<lambda>r. so_id r = so_id s') (\<lambda>_. s') (it_staged b)" by simp
    then have "set (it_staged ?b) = (\<lambda>r. if so_id r = so_id s' then s' else r) ` set (it_staged b)"
      by (simp only: set_update_where)
    also have "\<dots> = (\<lambda>r. if r = s then s' else r) ` set (it_staged b)" by (rule image_cong [OF refl]) (rule w)
    finally show ?thesis .
  qed
  have keep: "r \<in> set (it_staged ?b)" if "r \<in> set (it_staged b)" "so_state r = ''CONSUMED''" for r
    unfolding rows using that st(1) by (intro image_eqI [where x = r]) auto
  have "\<forall>d \<in> set (it_documents ?b). document_ok ?b d"
    using inv keep by (auto simp: intake_inv_def intro: document_ok_mono [where b = b])
  moreover have "\<forall>v \<in> set (it_versions ?b). version_ok ?b v"
    using inv by (auto simp: intake_inv_def documents_of_def intro: version_ok_cong [where b = b])
  moreover have "\<forall>e \<in> set (it_extractions ?b). extraction_ok ?b e"
    using inv by (auto simp: intake_inv_def fragments_of_def intro: extraction_ok_cong [where b = b])
  moreover have "\<forall>r \<in> set (it_staged ?b). staged_ok r"
    unfolding rows using inv ok by (auto simp: intake_inv_def)
  moreover have "\<forall>r \<in> set (it_staged ?b). so_state r = ''CONSUMED'' \<longrightarrow> so_id r \<in> dr_storage_object_id ` set (it_documents b)"
    unfolding rows using inv st(2) by (auto simp: intake_inv_def)
  ultimately show ?thesis using inv ids unfolding intake_inv_def by simp
qed

lemma consultation_inv_kept:
  assumes inv: "intake_inv b" and "\<forall>x \<in> set (it_consultations b). \<not> kr_clash r x"
  shows "intake_inv (b\<lparr> it_consultations := it_consultations b @ [r] \<rparr>)" (is "intake_inv ?b")
proof -
  have "kr_id r \<notin> kr_id ` set (it_consultations b)"
    "(kr_tenant_id r, kr_functional_identity_hash r) \<notin> (\<lambda>k. (kr_tenant_id k, kr_functional_identity_hash k)) ` set (it_consultations b)"
    using assms(2) by (auto simp: kr_clash_def)
  moreover have "document_ok b d \<Longrightarrow> document_ok ?b d" for d by (auto intro: document_ok_mono [where b = b])
  moreover have "version_ok b v \<Longrightarrow> version_ok ?b v" for v
    by (auto simp: documents_of_def intro: version_ok_cong [where b = b])
  moreover have "extraction_ok b e \<Longrightarrow> extraction_ok ?b e" for e
    by (auto simp: fragments_of_def intro: extraction_ok_cong [where b = b])
  ultimately show ?thesis using inv by (auto simp: intake_inv_def)
qed

lemma new_staged_inv:
  assumes inv: "intake_inv b" and "\<forall>x \<in> set (it_staged b). \<not> so_clash (new_staged f ctx) x"
  shows "intake_inv (b\<lparr> it_staged := it_staged b @ [new_staged f ctx] \<rparr>)" (is "intake_inv ?b")
proof -
  have "so_id (new_staged f ctx) \<notin> so_id ` set (it_staged b)" using assms(2) by (auto simp: so_clash_def)
  moreover have "staged_ok (new_staged f ctx)" "so_state (new_staged f ctx) \<noteq> ''CONSUMED''"
    by (simp_all add: staged_ok_def new_staged_def)
  moreover have "document_ok b d \<Longrightarrow> document_ok ?b d" for d by (auto intro: document_ok_mono [where b = b])
  moreover have "version_ok b v \<Longrightarrow> version_ok ?b v" for v
    by (auto simp: documents_of_def intro: version_ok_cong [where b = b])
  moreover have "extraction_ok b e \<Longrightarrow> extraction_ok ?b e" for e
    by (auto simp: fragments_of_def intro: extraction_ok_cong [where b = b])
  ultimately show ?thesis using inv by (auto simp: intake_inv_def)
qed

lemma validated_fragments:
  assumes "validate_extraction_fragments ps = None"
  shows "map fi_ordinal ps = [1..int (length ps)]"
    "\<forall>p \<in> set ps. lower (fi_text_sha256 p) = sha256_hex (fi_text p) \<and> locator_has_kind (fi_locator p)"
  using assms by (auto simp: validate_extraction_fragments_def first_problem_None fragment_problem_def split: if_splits)

lemma new_fragments_simps:
  "length (new_fragments ctx eid fresh ps) = length ps"
  "map fg_ordinal (new_fragments ctx eid fresh ps) = map fi_ordinal ps"
  "g \<in> set (new_fragments ctx eid fresh ps) \<Longrightarrow> fg_extraction_id g = eid
     \<and> (\<exists>p \<in> set ps. fg_text g = fi_text p \<and> fg_text_sha256 g = lower (fi_text_sha256 p) \<and> fg_locator g = fi_locator p)"
proof -
  show "length (new_fragments ctx eid fresh ps) = length ps" by (simp add: new_fragments_def)
  have "map fg_ordinal (map (\<lambda>(i, p). new_fragment ctx eid (fresh i) p) (List.enumerate n ps)) = map fi_ordinal ps" for n
    by (induction ps arbitrary: n) (simp_all add: new_fragment_def)
  then show "map fg_ordinal (new_fragments ctx eid fresh ps) = map fi_ordinal ps" by (simp add: new_fragments_def)
  show "g \<in> set (new_fragments ctx eid fresh ps) \<Longrightarrow> fg_extraction_id g = eid
     \<and> (\<exists>p \<in> set ps. fg_text g = fi_text p \<and> fg_text_sha256 g = lower (fi_text_sha256 p) \<and> fg_locator g = fi_locator p)"
    by (auto simp: new_fragments_def new_fragment_def in_set_enumerate_eq)
qed

lemma extracted_inv:
  assumes inv: "intake_inv b" and d: "d \<in> set (it_documents b)" "dr_tenant_id d = cc_tenant_id ctx" "vr_id v = dr_dce_version_id d"
    and hash: "lower (ef_input_sha256 f) = lower (dr_sha256 d)"
    and val: "ef_status f \<in> {''COMPLETED'', ''REVIEW_REQUIRED''} \<longrightarrow> validate_extraction_fragments (ef_fragments f) = None"
    and e: "e = new_extraction f ctx v d" "\<forall>x \<in> set (it_extractions b). \<not> er_clash e x"
    and gs: "gs = it_fragments b @ new_fragments ctx (er_id e) fresh (ef_fragments f)"
  shows "intake_inv (b\<lparr> it_extractions := it_extractions b @ [e], it_fragments := gs \<rparr>)" (is "intake_inv ?b")
proof -
  let ?new = "new_fragments ctx (er_id e) fresh (ef_fragments f)"
  have new: "er_id e \<notin> er_id ` set (it_extractions b)" using e(2) by (auto simp: er_clash_def)
  have own: "\<forall>g \<in> set (it_fragments b). fg_extraction_id g \<in> er_id ` set (it_extractions b)" using inv by (simp add: intake_inv_def)
  have mine: "\<forall>g \<in> set ?new. fg_extraction_id g = er_id e" using new_fragments_simps(3) by blast
  have "filter (\<lambda>g. fg_extraction_id g = er_id e) (it_fragments b) = []" unfolding filter_empty_conv using own new by metis
  then have fe: "fragments_of (er_id e) ?b = ?new" using mine by (auto simp: fragments_of_def gs filter_id_conv)
  have fo: "fragments_of i ?b = fragments_of i b" if "i \<noteq> er_id e" for i
    using mine that by (auto simp: fragments_of_def gs filter_empty_conv)
  have ef: "er_dce_document_id e = dr_id d" "er_tenant_id e = dr_tenant_id d" "er_dce_version_id e = dr_dce_version_id d"
    "er_input_sha256 e = lower (dr_sha256 d)" "er_fragment_count e = int (length (ef_fragments f))" "er_status e = ef_status f"
    using d hash by (simp_all add: e(1) new_extraction_def)
  have "map fg_ordinal ?new = [1..er_fragment_count e]
      \<and> (\<forall>g \<in> set ?new. fg_text_sha256 g = sha256_hex (fg_text g) \<and> locator_has_kind (fg_locator g))"
    if "ef_status f \<in> {''COMPLETED'', ''REVIEW_REQUIRED''}"
  proof -
    from val that have "validate_extraction_fragments (ef_fragments f) = None" by blast
    note vf = validated_fragments [OF this]
    have "fg_text_sha256 g = sha256_hex (fg_text g) \<and> locator_has_kind (fg_locator g)" if "g \<in> set ?new" for g
      using new_fragments_simps(3) [OF that] vf(2) by auto
    then show ?thesis using vf(1) ef(5) new_fragments_simps(2) by metis
  qed
  then have "extraction_ok ?b e"
    unfolding extraction_ok_def fe using d(1) ef new_fragments_simps(1) [of ctx "er_id e" fresh "ef_fragments f"] by auto
  moreover have "extraction_ok ?b x" if "x \<in> set (it_extractions b)" for x
  proof (rule extraction_ok_cong [where b = b])
    show "fragments_of (er_id x) ?b = fragments_of (er_id x) b" using new that by (metis fo imageI)
  qed (simp_all add: intake_invD(4) [OF inv that])
  moreover have "document_ok b x \<Longrightarrow> document_ok ?b x" for x by (auto intro: document_ok_mono [where b = b])
  moreover have "version_ok b x \<Longrightarrow> version_ok ?b x" for x
    by (auto simp: documents_of_def intro: version_ok_cong [where b = b])
  moreover have "\<forall>g \<in> set gs. fg_extraction_id g \<in> er_id ` set (it_extractions b @ [e])" using own mine by (auto simp: gs)
  ultimately show ?thesis using inv new by (auto simp: intake_inv_def)
qed

text \<open>An admission, given what its insertions established.\<close>

lemma registered_inv:
  assumes inv: "intake_inv b" and v: "v_tenant_id v = cc_tenant_id ctx"
    and k: "k \<in> set (it_consultations b)" "kr_id k = v_consultation_id v" "kr_tenant_id k = cc_tenant_id ctx"
    and ps: "ps \<noteq> []" "distinct (map (\<lambda>(d, s). so_id s) ps)"
      "\<forall>(d, s) \<in> set ps. s \<in> set (it_staged b) \<and> so_tenant_id s = cc_tenant_id ctx
        \<and> so_consultation_id s = v_consultation_id v \<and> so_state s = ''CLEAN''"
    and hash: "v_corpus_hash v = corpus_hash (map (\<lambda>(d, s). staged_sha s) ps)"
    and r: "r = version_record f ctx v" "\<forall>x \<in> set (it_versions b). \<not> vr_clash r x"
    and ds: "insert_rows dr_check dr_clash (map (new_document v) ps) (it_documents b) = Inr ds"
  shows "intake_inv (b\<lparr> it_versions := it_versions b @ [r], it_documents := ds,
      it_staged := update_where (\<lambda>r. so_id r \<in> set (map (\<lambda>(d, s). so_id s) ps)) (consume v ctx) (it_staged b) \<rparr>)"
    (is "intake_inv ?b")
proof -
  let ?ids = "set (map (\<lambda>(d, s). so_id s) ps)"
  let ?new = "map (new_document v) ps"
  let ?w = "\<lambda>r. if so_id r \<in> ?ids then consume v ctx r else r"
  have rf: "vr_id r = v_id v" "vr_tenant_id r = cc_tenant_id ctx" "vr_consultation_id r = v_consultation_id v"
    "vr_corpus_hash r = v_corpus_hash v" using v by (simp_all add: r(1) version_record_def)
  note ins = insert_rows_Inr [OF ds]
  have dsE: "ds = it_documents b @ ?new" using ins by simp
  have vnew: "v_id v \<notin> vr_id ` set (it_versions b)" using r(2) rf by (auto simp: vr_clash_def)
  have "it_staged ?b = update_where (\<lambda>r. so_id r \<in> ?ids) (consume v ctx) (it_staged b)" by simp
  then have rows: "set (it_staged ?b) = ?w ` set (it_staged b)" by (simp only: set_update_where)
  have sids: "map so_id (it_staged ?b) = map so_id (it_staged b)" by (simp add: map_update_where consume_def)
  have clean: "so_state s = ''CLEAN''" if "s \<in> set (it_staged b)" "so_id s \<in> ?ids" for s
  proof -
    from that(2) obtain d s0 where p: "(d, s0) \<in> set ps" "so_id s0 = so_id s" by auto
    then have "s0 \<in> set (it_staged b)" "so_state s0 = ''CLEAN''" using ps(3) by auto
    then show ?thesis using staged_unique [OF inv that(1), of s0] p(2) by simp
  qed
  have outside: "so_id s \<notin> ?ids" if "s \<in> set (it_staged b)" "so_state s = ''CONSUMED''" for s
  proof
    assume "so_id s \<in> ?ids"
    from clean [OF that(1) this] that(2) show False by simp
  qed
  have keep: "s \<in> set (it_staged ?b)" if "s \<in> set (it_staged b)" "so_state s = ''CONSUMED''" for s
  proof -
    show ?thesis using outside [OF that] unfolding rows using that(1) by (intro image_eqI [where x = s]) simp_all
  qed
  have nd: "dr_storage_object_id (new_document v p) = so_id (snd p)" "dr_dce_version_id (new_document v p) = v_id v"
    "dr_sha256 (new_document v p) = staged_sha (snd p)" for p by (simp_all add: new_document_def split: prod.split)
  have sos: "map dr_storage_object_id ?new = map (\<lambda>(d, s). so_id s) ps" by (auto simp: nd)
  have shas: "map dr_sha256 ?new = map (\<lambda>(d, s). staged_sha s) ps" by (auto simp: nd)
  have old: "\<forall>d \<in> set (it_documents b). dr_dce_version_id d \<noteq> v_id v \<and> dr_storage_object_id d \<notin> ?ids"
  proof
    fix d assume "d \<in> set (it_documents b)"
    then have "document_ok b d" using inv by (simp add: intake_inv_def)
    then obtain s x where "s \<in> set (it_staged b)" "document_source d s" "x \<in> set (it_versions b)" "vr_id x = dr_dce_version_id d"
      by (auto simp: document_ok_def)
    moreover from this outside [of s] have "dr_storage_object_id d \<notin> ?ids" by (simp add: document_source_def)
    ultimately show "dr_dce_version_id d \<noteq> v_id v \<and> dr_storage_object_id d \<notin> ?ids" using vnew by (metis imageI)
  qed
  have dv: "documents_of (v_id v) ?b = ?new"
    using old by (simp add: documents_of_def dsE filter_map o_def nd filter_empty_conv)
  have do: "documents_of i ?b = documents_of i b" if "i \<noteq> v_id v" for i
    using that by (simp add: documents_of_def dsE filter_map o_def nd)
  have dist: "distinct (map dr_storage_object_id (it_documents ?b))"
  proof -
    have "dr_storage_object_id ` set (it_documents b) \<inter> ?ids = {}" using old by blast
    moreover have "distinct (map dr_storage_object_id (it_documents b))" using inv by (simp add: intake_inv_def)
    moreover have "map dr_storage_object_id (it_documents ?b) = map dr_storage_object_id (it_documents b) @ map (\<lambda>(d, s). so_id s) ps"
      unfolding sos [symmetric] by (simp add: dsE)
    ultimately show ?thesis using ps(2) by (simp only: distinct_append set_map simp_thms)
  qed
  have docs: "document_ok ?b d" if "d \<in> set (it_documents ?b)" for d
  proof (cases "d \<in> set (it_documents b)")
    case True
    show ?thesis by (rule document_ok_mono [OF intake_invD(2) [OF inv True]]) (use keep in auto)
  next
    case False
    with that dsE obtain a s where p: "(a, s) \<in> set ps" "d = new_document v (a, s)" by auto
    then have s: "s \<in> set (it_staged b)" "so_tenant_id s = cc_tenant_id ctx" "so_consultation_id s = v_consultation_id v"
      "so_state s = ''CLEAN''" "so_id s \<in> ?ids" using ps(3) by force+
    have "staged_ok s" using inv s(1) by (simp add: intake_inv_def)
    then have "document_source d (consume v ctx s)" using s v
      by (auto simp: p(2) new_document_def document_source_def consume_def staged_ok_def staged_sha_def staged_media_def staged_size_def)
    moreover have "consume v ctx s \<in> set (it_staged ?b)" unfolding rows using s by (intro image_eqI [where x = s]) auto
    moreover have "r \<in> set (it_versions ?b) \<and> vr_id r = dr_dce_version_id d \<and> vr_tenant_id r = dr_tenant_id d
        \<and> vr_consultation_id r = so_consultation_id (consume v ctx s)"
      using s v by (simp add: rf p(2) new_document_def consume_def)
    ultimately show ?thesis unfolding document_ok_def by blast
  qed
  have "distinct (map dr_sha256 ?new)"
  proof -
    have "sorted_wrt (\<lambda>x y. dr_sha256 x \<noteq> dr_sha256 y) ?new"
      using ins by (auto simp: sorted_wrt_map nd dr_clash_def new_document_def split: prod.splits elim!: sorted_wrt_mono_rel [rotated])
    then show ?thesis by (simp only: distinct_sorted_wrt)
  qed
  moreover have "v_corpus_hash v = corpus_hash (map dr_sha256 ?new)" unfolding shas by (rule hash)
  moreover have "?new \<noteq> []" using ps(1) by simp
  moreover have "\<exists>k \<in> set (it_consultations ?b). kr_id k = vr_consultation_id r \<and> kr_tenant_id k = vr_tenant_id r"
    using k by (auto simp: rf)
  ultimately have "version_ok ?b r" unfolding version_ok_def rf dv by blast
  moreover have "version_ok ?b x" if "x \<in> set (it_versions b)" for x
  proof (rule version_ok_cong [where b = b])
    show "documents_of (vr_id x) ?b = documents_of (vr_id x) b" using vnew that by (metis do imageI)
  qed (simp_all add: intake_invD(3) [OF inv that])
  moreover have "\<forall>s \<in> set (it_staged ?b). staged_ok s"
  proof -
    have "staged_ok (?w s)" if "s \<in> set (it_staged b)" for s
      using intake_invD(1) [OF inv that] clean [OF that] by (simp add: staged_ok_def consume_def)
    then show ?thesis unfolding rows by blast
  qed
  moreover have "so_id s \<in> dr_storage_object_id ` set (it_documents ?b)" if "s \<in> set (it_staged ?b)" "so_state s = ''CONSUMED''" for s
  proof -
    from that(1) obtain s0 where s0: "s0 \<in> set (it_staged b)" "s = ?w s0" unfolding rows by (rule imageE)
    have img: "dr_storage_object_id ` set (it_documents ?b) = dr_storage_object_id ` set (it_documents b) \<union> ?ids"
      using arg_cong [OF sos, of set] by (simp add: dsE image_Un image_image)
    show ?thesis unfolding img using s0 that(2) intake_invD(5) [OF inv s0(1)] by (auto simp: consume_def split: if_splits)
  qed
  moreover have "extraction_ok ?b x" if "x \<in> set (it_extractions b)" for x
    by (rule extraction_ok_cong [OF intake_invD(4) [OF inv that]]) (auto simp: fragments_of_def dsE)
  ultimately show ?thesis
    using inv dist docs vnew rf(1) unfolding intake_inv_def sids by (auto simp: intake_inv_def)
qed

lemma intake_effect_inv:
  assumes "intake_effect ctx b b'" "intake_inv b"
  shows "intake_inv b'"
  using assms(1)
proof cases
  case (consultation k r f)
  then show ?thesis using assms(2) consultation_inv_kept by simp
next
  case (staged s f)
  then show ?thesis using assms(2) new_staged_inv by simp
next
  case (moved s s')
  then show ?thesis using assms(2) moved_inv [of b s s'] by (simp add: intake_inv_def)
next
  case (registered v k ps r f ds)
  then show ?thesis using registered_inv [OF assms(2)] by simp
next
  case (extracted d v f e fresh gs)
  then show ?thesis using extracted_inv [OF assms(2)] insert_rows_Inr [OF extracted(9)] by simp
qed

interpretation intake: command_handlers intake_handlers intake_inv
  by unfold_locales (blast dest: intake_handler_effect intro: intake_effect_inv)

section \<open>The tables refine the aggregates\<close>

text \<open>What the tables store of a corpus, and what the aggregate holds of it.\<close>

definition stored_corpus :: "uuid \<Rightarrow> intake_tables \<Rightarrow> (uuid \<times> string \<times> string \<times> string \<times> int) list" where
  "stored_corpus vid b =
     map (\<lambda>d. (dr_id d, dr_original_filename d, dr_sha256 d, dr_media_type d, dr_byte_size d)) (documents_of vid b)"

definition version_refines :: "intake_tables \<Rightarrow> version_row \<Rightarrow> bool" where
  "version_refines b r =
     (\<exists>v. dce_reachable v \<and> (v_id v, v_tenant_id v, v_consultation_id v) = (vr_id r, vr_tenant_id r, vr_consultation_id r)
        \<and> vr_corpus_hash r = v_corpus_hash v \<and> vr_aggregate_revision r = v_aggregate_revision v
        \<and> vr_lifecycle r = dce_lifecycle_value (v_lifecycle v) \<and> vr_integrity r = dce_integrity_value (v_integrity v)
        \<and> vr_analysis_readiness r = analysis_readiness_value (v_analysis_readiness v)
        \<and> stored_corpus (vr_id r) b = map document_facts (v_documents v))"

definition consultation_refines :: "consultation_row \<Rightarrow> bool" where
  "consultation_refines r =
     (\<exists>k. consultation_reachable k \<and> (k_id k, k_tenant_id k) = (kr_id r, kr_tenant_id r)
        \<and> kr_aggregate_revision r = k_aggregate_revision k \<and> kr_object_label r = k_subject k
        \<and> kr_lifecycle r = consultation_lifecycle_value (k_lifecycle k)
        \<and> kr_functional_identity_hash r = functional_identity_hash k)"

definition tables_refine :: "intake_tables \<Rightarrow> bool" where
  "tables_refine b = ((\<forall>r \<in> set (it_versions b). version_refines b r) \<and> (\<forall>r \<in> set (it_consultations b). consultation_refines r))"

lemma intake_effect_versions:
  assumes eff: "intake_effect ctx b b'" and inv: "intake_inv b" and r: "r \<in> set (it_versions b)"
  shows "r \<in> set (it_versions b') \<and> documents_of (vr_id r) b' = documents_of (vr_id r) b"
  using eff
proof cases
  case (registered v k ps r' f ds)
  have "vr_id r \<noteq> v_id v" using registered(14) r by (auto simp: registered(13) vr_clash_def version_record_def)
  then have "filter (\<lambda>d. dr_dce_version_id d = vr_id r) (map (new_document v) ps) = []"
    by (auto simp: filter_empty_conv new_document_def)
  then show ?thesis using insert_rows_Inr [OF registered(15)] r by (simp add: registered(1) documents_of_def)
qed (use r in \<open>simp_all add: documents_of_def\<close>)

lemma version_refines_cong:
  "version_refines b r \<Longrightarrow> documents_of (vr_id r) b' = documents_of (vr_id r) b \<Longrightarrow> version_refines b' r"
  by (simp add: version_refines_def stored_corpus_def)

lemma intake_effect_refines:
  assumes eff: "intake_effect ctx b b'" and inv: "intake_inv b" and ref: "tables_refine b"
  shows "tables_refine b'"
proof -
  have old: "version_refines b' r" if "r \<in> set (it_versions b)" for r
    using intake_effect_versions [OF eff inv that] ref that by (auto simp: tables_refine_def intro: version_refines_cong [where b = b])
  from eff show ?thesis
  proof cases
    case (consultation k r f)
    then have "consultation_refines r"
      by (auto simp: consultation_refines_def consultation_record_def intro!: exI [of _ k])
    then show ?thesis using ref old by (auto simp: consultation(1) tables_refine_def)
  next
    case (registered v k ps r f ds)
    have "filter (\<lambda>d. dr_dce_version_id d = v_id v) (it_documents b) = []"
    proof -
      have "v_id v \<notin> vr_id ` set (it_versions b)" using registered(14) by (auto simp: registered(13) vr_clash_def version_record_def)
      then have "\<forall>d \<in> set (it_documents b). dr_dce_version_id d \<noteq> v_id v"
        using intake_invD(2) [OF inv] unfolding document_ok_def by (metis imageI)
      then show ?thesis by (simp add: filter_empty_conv)
    qed
    then have "documents_of (v_id v) b' = map (new_document v) ps"
      using insert_rows_Inr [OF registered(15)] by (auto simp: registered(1) documents_of_def filter_id_conv new_document_def)
    then have "stored_corpus (v_id v) b' = map admitted_facts ps"
      by (simp add: stored_corpus_def new_document_def admitted_facts_def split_def)
    then have "version_refines b' r"
      using registered(2,11) unfolding version_refines_def
      by (intro exI [of _ v]) (simp add: registered(13) version_record_def)
    then show ?thesis using ref old by (auto simp: registered(1) tables_refine_def)
  qed (use ref old in \<open>auto simp: tables_refine_def\<close>)
qed

section \<open>The life of a staged object\<close>

text \<open>What may become of a staged object over any number of steps.\<close>

definition staged_follows :: "staged_row \<Rightarrow> staged_row \<Rightarrow> bool" where
  "staged_follows s s' =
     ((so_id s', so_tenant_id s', so_consultation_id s', so_storage_key s') = (so_id s, so_tenant_id s, so_consultation_id s, so_storage_key s)
      \<and> (so_state s, so_state s') \<in> (insert (''CLEAN'', ''CONSUMED'') staged_moves)\<^sup>*
      \<and> (so_state s \<in> {''CONSUMED'', ''EXPIRED''} \<longrightarrow> s' = s)
      \<and> (so_state s = ''REJECTED'' \<longrightarrow> so_state s' \<in> {''REJECTED'', ''EXPIRED''}))"

lemma staged_follows_refl: "staged_follows s s"
  by (simp add: staged_follows_def)

lemma staged_follows_move: "staged_move s s' \<Longrightarrow> staged_follows s s'"
  by (auto simp: staged_move_def staged_follows_def staged_moves_def)

lemma staged_follows_consume: "so_state s = ''CLEAN'' \<Longrightarrow> staged_follows s (consume v ctx s)"
  by (simp add: staged_follows_def consume_def r_into_rtrancl)

lemma staged_follows_trans: "staged_follows s t \<Longrightarrow> staged_follows t u \<Longrightarrow> staged_follows s u"
  unfolding staged_follows_def by (auto intro: rtrancl_trans)

lemma intake_effect_staged:
  assumes eff: "intake_effect ctx b b'" and inv: "intake_inv b" and s: "s \<in> set (it_staged b)"
  shows "\<exists>s' \<in> set (it_staged b'). staged_follows s s'"
  using eff
proof cases
  case (moved x x')
  let ?w = "\<lambda>r. if so_id r = so_id x' then x' else r"
  have mv: "staged_move x x'" using moved(2,4) intake_invD(1) [OF inv] by blast
  then have "so_id x' = so_id x" by (simp add: staged_move_def)
  then have "staged_follows s (?w s)"
    using staged_unique [OF inv moved(2) s] staged_follows_move [OF mv] staged_follows_refl by auto
  moreover have "?w s \<in> set (it_staged b')" using s by (simp add: moved(1) set_update_where)
  ultimately show ?thesis by (rule bexI)
next
  case (registered v k ps r f ds)
  let ?ids = "set (map (\<lambda>(d, s). so_id s) ps)"
  let ?w = "\<lambda>r. if so_id r \<in> ?ids then consume v ctx r else r"
  have "staged_follows s (?w s)"
  proof (cases "so_id s \<in> ?ids")
    case True
    then obtain d s0 where "(d, s0) \<in> set ps" "so_id s0 = so_id s" by auto
    then have "so_state s = ''CLEAN''" using registered(10) staged_unique [OF inv s, of s0] by auto
    then show ?thesis using True staged_follows_consume by simp
  qed (simp add: staged_follows_refl)
  moreover have "it_staged b' = update_where (\<lambda>r. so_id r \<in> ?ids) (consume v ctx) (it_staged b)" by (simp add: registered(1))
  then have "set (it_staged b') = ?w ` set (it_staged b)" by (simp only: set_update_where)
  then have "?w s \<in> set (it_staged b')" using imageI [OF s, of ?w] by (simp only:)
  ultimately show ?thesis by (rule bexI)
qed (use s staged_follows_refl in auto)

end
