(* ===== verification/IntakeProperties.thy ===== *)
theory IntakeProperties
  imports AdmittedCorpus
begin

text \<open>
  The properties of the tender intake over whole histories of dispatched commands, from the
  invariant and the effect summaries of \<open>AdmittedCorpus\<close>, with a worked admission as witness.
\<close>

section \<open>Histories\<close>

interpretation refining: command_handlers intake_handlers "\<lambda>b. intake_inv b \<and> tables_refine b"
  by unfold_locales (blast dest: intake_handler_effect intro: intake_effect_inv intake_effect_refines)

definition intake_history :: "intake_tables \<Rightarrow> intake_tables \<Rightarrow> bool" where
  "intake_history b b' =
     ((\<forall>s \<in> set (it_staged b). \<exists>s' \<in> set (it_staged b'). staged_follows s s')
      \<and> (\<forall>r \<in> set (it_versions b). r \<in> set (it_versions b') \<and> documents_of (vr_id r) b' = documents_of (vr_id r) b))"

lemma intake_history_refl: "intake_history b b"
  by (auto simp: intake_history_def intro: staged_follows_refl)

lemma intake_history_step:
  assumes "intake_history b0 b" "intake_effect ctx b b'" "intake_inv b"
  shows "intake_history b0 b'"
  using assms(1) intake_effect_staged [OF assms(2,3)] intake_effect_versions [OF assms(2,3)]
  unfolding intake_history_def by (metis staged_follows_trans)

section \<open>A worked admission\<close>

lemma lower_hex: "list_all (\<lambda>c. c \<in> set hex_chars) s \<Longrightarrow> lower s = s"
proof (induction s)
  case (Cons c s)
  have "list_all (\<lambda>c. lower_char c = [c]) hex_chars" by code_simp
  then have "lower_char c = [c]" using Cons.prems by (simp add: list_all_iff)
  with Cons show ?case by (simp add: lower_def)
qed (simp add: lower_def)

lemma lower_sha256_hex [simp]: "lower (sha256_hex s) = sha256_hex s"
  using set_sha256_hex by (intro lower_hex) (auto simp: list_all_iff)

lemma is_sha256_sha256_hex: "is_sha256 (sha256_hex s)"
  using set_sha256_hex [of s] unfolding is_sha256_def hex_chars_def by (simp only: lower_sha256_hex length_sha256_hex list_all_iff) blast

definition ex_file_hash :: string where
  "ex_file_hash = sha256_hex ''cctp''"

definition ex_clean_object :: staged_row where
  "ex_clean_object = \<lparr> so_id = 5, so_tenant_id = 1, so_consultation_id = 2, so_storage_key = staging_storage_key 1 5,
     so_original_filename = ''cctp.pdf'', so_expected_byte_size = 4, so_actual_byte_size = Some 4,
     so_sha256 = Some ex_file_hash, so_media_type = Some ''application/pdf'', so_source_channel = ''UPLOAD'',
     so_state = ''CLEAN'', so_scan_verdict = Some ''CLEAN'', so_scanner_name = Some ''clamav'',
     so_scanner_signature_version = Some ''1'', so_scanned_at = Some 3, so_rejection_code = None, so_expires_at = 90,
     so_consumed_by = None, so_consumed_at = None, so_created_by_actor_id = 9, so_updated_by_actor_id = 9 \<rparr>"

definition ex_open_fields :: create_consultation_fields where
  "ex_open_fields = \<lparr> kc_consultation_id = 2, kc_buyer_legal_name = ''Ville'', kc_buyer_normalized_id = None,
     kc_external_reference = None, kc_object_label = ''Ecole'', kc_location_label = None, kc_source_channel = ''EMAIL'',
     kc_source_reference = None, kc_source_received_at = 1 \<rparr>"

definition ex_intake_context :: command_context where
  "ex_intake_context = \<lparr> cc_tenant_id = 1, cc_actor_id = 9, cc_actor_kind = ''PATRON_ADMIN'', cc_received_at = 5,
     cc_identity_id = None, cc_membership_id = None, cc_session_id = None, cc_case_id = None, cc_correlation_id = None \<rparr>"

definition ex_consultation :: consultation where
  "ex_consultation = Consultation_record (ConsultationCreated 2 1) \<lparr>k_id = 2, k_tenant_id = 1,
     k_buyer = \<lparr> legal_name = ''Ville'', normalized_identifier = None \<rparr>, k_external_reference = None, k_subject = ''Ecole'',
     k_initial_source = ''EMAIL'', k_lifecycle = Consultation_OPEN, k_freshness = Fresh_UNKNOWN, k_lots = [],
     k_tranches = [], k_aggregate_revision = 0, k_pending_events = []\<rparr>"

definition ex_intake_tables :: intake_tables where
  "ex_intake_tables = \<lparr> it_consultations = [consultation_record ex_open_fields ex_intake_context ex_consultation],
     it_staged = [ex_clean_object], it_versions = [], it_documents = [], it_extractions = [], it_fragments = [] \<rparr>"

definition ex_register_fields :: register_fields where
  "ex_register_fields = \<lparr> rf_dce_version_id = 7, rf_consultation_id = 2, rf_consultation_revision = 0,
     rf_corpus_hash = corpus_hash [ex_file_hash], rf_provenance_channel = ''UPLOAD'', rf_provenance_reference = None,
     rf_provenance_url = None, rf_source_received_at = 1,
     rf_documents = [\<lparr> ai_document_id = 6, ai_storage_object_id = 5 \<rparr>] \<rparr>"

definition ex_intake_request :: "intake_command dispatch_request" where
  "ex_intake_request = \<lparr> rq_command = \<lparr> em_command_type = ''RegisterDceVersion'', em_command_id = 3,
       em_idempotency_key = 3, em_correlation_id = None, em_body = RegisterDceVersion ex_register_fields \<rparr>,
     rq_context = ex_intake_context, rq_fresh = of_nat, rq_handler_fresh = of_nat, rq_now = 5 \<rparr>"

definition ex_intake_db :: "intake_tables platform_db" where
  "ex_intake_db = \<lparr> db_receipts = [], db_events = [], db_outbox = [], db_business = ex_intake_tables \<rparr>"

lemma ex_intake_consultation_created:
  "Consultation_create 2 1 \<lparr> legal_name = ''Ville'', normalized_identifier = None \<rparr> None ''Ecole'' ''EMAIL'' = Inr ex_consultation"
  by code_simp

lemma ex_consultation_fields [simp]: "k_id ex_consultation = 2" "k_tenant_id ex_consultation = 1"
  "k_aggregate_revision ex_consultation = 0"
  by code_simp+

lemma ex_intake_inv: "intake_inv (db_business ex_intake_db) \<and> tables_refine (db_business ex_intake_db)"
proof -
  have "lower_hex64 ex_file_hash"
    using is_sha256_sha256_hex [of "''cctp''"] by (simp add: lower_hex64_def is_sha256_def ex_file_hash_def)
  then have "intake_inv ex_intake_tables"
    by (simp add: intake_inv_def ex_intake_tables_def ex_clean_object_def staged_ok_def)
  moreover have "consultation_refines (consultation_record ex_open_fields ex_intake_context ex_consultation)"
    unfolding consultation_refines_def
    by (rule exI [of _ ex_consultation])
      (simp add: consultation_record_def consultation_reachable.created [OF ex_intake_consultation_created])
  ultimately show ?thesis by (simp add: ex_intake_db_def tables_refine_def ex_intake_tables_def)
qed

lemma ex_admission:
  "\<exists>ho b' e. register_version ex_register_fields ex_intake_context ex_intake_tables = Inr (ho, b') \<and> ho_events ho = [e]
     \<and> map vr_id (it_versions b') = [7] \<and> map dr_storage_object_id (it_documents b') = [5]
     \<and> map so_state (it_staged b') = [''CONSUMED'']"
proof -
  have sha: "is_sha256 ex_file_hash" "is_sha256 (corpus_hash [ex_file_hash])"
    "lower (corpus_hash [ex_file_hash]) = corpus_hash [ex_file_hash]"
    by (simp_all add: ex_file_hash_def corpus_hash_def is_sha256_sha256_hex)
  have str: "strip ''cctp.pdf'' \<noteq> []" "strip ''application/pdf'' \<noteq> []" "strip ''UPLOAD'' = ''UPLOAD''"
    by code_simp+
  show ?thesis using sha str
    by (simp add: register_version_def ex_register_fields_def ex_intake_tables_def ex_intake_context_def ex_clean_object_def
        find_consultation_def consultation_record_def find_staged_def staged_problem_def staged_sha_def staged_media_def
        staged_size_def DceDocument_new_def DceVersion_register_def Dce_record_def truthy_def insert_row_def add_row_def vr_check_def dr_check_def
        intake_outcome_def
        version_record_def new_document_def update_where_def consume_def Let_def)
qed

definition ex_admitted_tables :: intake_tables where
  "ex_admitted_tables = db_business (snd (dispatch_run (\<lambda>_. []) intake_handlers [(0, ex_intake_request)] ex_intake_db))"

lemma ex_admitted:
  "map vr_id (it_versions ex_admitted_tables) = [7] \<and> map dr_storage_object_id (it_documents ex_admitted_tables) = [5]
     \<and> map so_state (it_staged ex_admitted_tables) = [''CONSUMED'']"
proof -
  obtain ho b' e where reg: "register_version ex_register_fields ex_intake_context ex_intake_tables = Inr (ho, b')" "ho_events ho = [e]"
    and b': "map vr_id (it_versions b') = [7]" "map dr_storage_object_id (it_documents b') = [5]"
      "map so_state (it_staged b') = [''CONSUMED'']" using ex_admission by (elim exE conjE) (rule that)
  have "ex_admitted_tables = b'" unfolding ex_admitted_tables_def
    using reg by (simp add: dispatch_def transaction_def intake_handlers_def ex_intake_request_def run_intake_def ex_intake_db_def
        find_receipt_def add_row_def Let_def)
  with b' show ?thesis by simp
qed

section \<open>Properties\<close>

text \<open>
  C10. Whatever commands are dispatched, in whatever order and with whatever replays, an admitted
  version is clean: its documents are objects of its own consultation and tenant that were
  scanned CLEAN at their declared size and consumed by that version alone, its corpus hash is
  the hash of exactly those documents, without a duplicate; and an extraction was made from an
  admitted document, with fragments numbered from 1 and hashed.
\<close>

theorem intake_corpus_clean:
  assumes "intake_inv (db_business db)" "dispatch_run dump intake_handlers steps db = (rs, db')"
  shows "intake_inv (db_business db')"
  using assms by (rule intake.run_preserves)

theorem intake_corpus_clean_witness:
  "intake_inv ex_admitted_tables \<and> map vr_id (it_versions ex_admitted_tables) = [7]"
proof
  show "intake_inv ex_admitted_tables" unfolding ex_admitted_tables_def
    by (rule intake_corpus_clean [OF conjunct1 [OF ex_intake_inv] surjective_pairing])
qed (use ex_admitted in blast)

text \<open>
  C31. Every staged object lives its life once. Through any history of commands it keeps its
  identity, tenant, consultation and storage key, and moves only along AWAITING_UPLOAD,
  UPLOADING, QUARANTINED, CLEAN, CONSUMED or out by REJECTED and EXPIRED: a consumed or expired
  object never changes again and a rejected one can only expire. The documents of an admitted
  version are never added to, removed or altered.
\<close>

theorem staged_object_lifecycle:
  assumes "intake_inv (db_business db)" "dispatch_run dump intake_handlers steps db = (rs, db')"
  shows "(\<forall>s \<in> set (it_staged (db_business db)). \<exists>s' \<in> set (it_staged (db_business db')). staged_follows s s')
    \<and> (\<forall>r \<in> set (it_versions (db_business db)). r \<in> set (it_versions (db_business db'))
         \<and> documents_of (vr_id r) (db_business db') = documents_of (vr_id r) (db_business db))"
proof -
  let ?P = "\<lambda>s. intake_inv (db_business s) \<and> intake_history (db_business db) (db_business s)"
  have "?P db'"
  proof (rule dispatch_run_invariant [where P = ?P, OF _ _ assms(2)])
    fix k rq s r s'
    assume s: "?P s" and d: "dispatch dump intake_handlers (take k (db_receipts s)) rq s = (r, s')"
    from d show "?P s'"
    proof (cases rule: dispatch_business)
      case (handled h ho)
      then have "intake_effect (rq_context rq) (db_business s) (db_business s')" by (rule intake_handler_effect)
      with s show ?thesis using intake_effect_inv intake_history_step by blast
    qed (use s in simp)
  qed (use assms(1) intake_history_refl in simp)
  then show ?thesis by (simp add: intake_history_def)
qed

theorem staged_object_lifecycle_witness:
  "\<exists>s' \<in> set (it_staged ex_admitted_tables). staged_follows ex_clean_object s' \<and> so_state s' = ''CONSUMED''"
proof -
  have "ex_clean_object \<in> set (it_staged (db_business ex_intake_db))" by (simp add: ex_intake_db_def ex_intake_tables_def)
  then have "\<exists>s' \<in> set (it_staged ex_admitted_tables). staged_follows ex_clean_object s'"
    using staged_object_lifecycle [OF conjunct1 [OF ex_intake_inv] surjective_pairing] unfolding ex_admitted_tables_def by blast
  then show ?thesis using ex_admitted by auto
qed

text \<open>
  C23. The tables implement the aggregates. Through any history of commands every stored
  consultation and version is the image of an aggregate reachable by the domain's operations,
  with its identity, revision, states and hash, and the stored documents of a version are the
  aggregate's documents, in its order.
\<close>

theorem admission_refines_aggregate:
  assumes "intake_inv (db_business db) \<and> tables_refine (db_business db)"
    and "dispatch_run dump intake_handlers steps db = (rs, db')"
  shows "intake_inv (db_business db') \<and> tables_refine (db_business db')"
  using assms by (rule refining.run_preserves)

theorem admission_refines_aggregate_witness:
  "\<exists>r \<in> set (it_versions ex_admitted_tables). version_refines ex_admitted_tables r"
proof -
  have "tables_refine ex_admitted_tables" unfolding ex_admitted_tables_def
    by (rule admission_refines_aggregate [OF ex_intake_inv surjective_pairing, THEN conjunct2])
  moreover have "it_versions ex_admitted_tables \<noteq> []" using ex_admitted by auto
  ultimately show ?thesis unfolding tables_refine_def by (auto simp: neq_Nil_conv)
qed

end
