(* ===== verification/CockpitClaims.thy ===== *)
theory CockpitClaims
  imports CockpitDelivery IntakeProperties
begin

text \<open>
  The properties of the cockpit delivery: the contract decodes what the dispatcher writes, the queue
  drains, nothing is published without an acknowledgement, and what the tender intake announces is
  never within the contract.
\<close>

section \<open>The contract\<close>

lemma safe_event_of_payload:
  "safe_event (event_payload eid p) tid =
     (if pe_event_type p \<in> set ALLOWED_EVENT_TYPES \<and> pe_aggregate_type p = ''DCE_STAGED_OBJECT''
         \<and> 0 \<le> pe_aggregate_revision p \<and> safe_data tid (pe_payload p)
      then Some \<lparr> se_event_id = eid, se_event_type = pe_event_type p, se_aggregate_type = pe_aggregate_type p,
                  se_aggregate_id = pe_aggregate_id p, se_aggregate_revision = pe_aggregate_revision p,
                  se_payload = pe_payload p \<rparr>
      else None)"
  by (simp add: safe_event_def event_payload_def same_keys_def EXPECTED_FIELDS_def uuid_parse_str insert_commute)

text \<open>
  C36. The worker reads back what the dispatcher wrote. Of the payload the dispatcher stores for a
  pending event, the worker recovers exactly that event (its identifier, the aggregate's, the
  revision and the data) when the event satisfies the closed cockpit contract, and nothing otherwise.
\<close>

theorem cockpit_event_roundtrip:
  "safe_event (event_payload eid p) tid =
     (if pe_event_type p \<in> set ALLOWED_EVENT_TYPES \<and> pe_aggregate_type p = ''DCE_STAGED_OBJECT''
         \<and> 0 \<le> pe_aggregate_revision p \<and> safe_data tid (pe_payload p)
      then Some \<lparr> se_event_id = eid, se_event_type = pe_event_type p, se_aggregate_type = pe_aggregate_type p,
                  se_aggregate_id = pe_aggregate_id p, se_aggregate_revision = pe_aggregate_revision p,
                  se_payload = pe_payload p \<rparr>
      else None)"
  by (rule safe_event_of_payload)

section \<open>Delivery\<close>

definition ex_pending :: pending_event where
  "ex_pending = \<lparr> pe_aggregate_type = ''DCE_STAGED_OBJECT'', pe_aggregate_id = 7, pe_aggregate_revision = 0,
     pe_event_type = ''DCE_STAGING_SCAN_RECORDED'',
     pe_payload = [(''storage_object_id'', JStr (uuid_str 7)), (''tenant_id'', JStr (uuid_str 1)),
       (''consultation_id'', JStr (uuid_str 2)), (''state'', JStr ''SCANNED'')],
     pe_topic = ''cockpit_projection'', pe_payload_version = 1 \<rparr>"

definition ex_message :: outbox_row where
  "ex_message = \<lparr> ob_id = 4, ob_tenant_id = 1, ob_event_id = 3, ob_topic = ''cockpit_projection'', ob_payload_version = 1,
     ob_payload = event_payload 3 ex_pending, ob_status = ''PENDING'', ob_attempt_count = 0, ob_next_attempt_at = None,
     ob_published_at = None, ob_last_error_code = None, ob_dedupe_key = ''cockpit_projection:'' @ uuid_str 3 \<rparr>"

definition ex_cockpit :: cockpit_state where
  "ex_cockpit = \<lparr> cs_outbox = [ex_message], cs_calls = [], cs_metrics = (\<lambda>_. 0) \<rparr>"

text \<open>A projection that is down for its first call.\<close>

definition ex_port :: cockpit_port where
  "ex_port calls c = (if calls = [] then Rejected else Applied)"

definition ex_worker :: cockpit_worker where
  "ex_worker = \<lparr> cw_projection = Some ex_port, cw_batch_size = 50, cw_lease_seconds = 120, cw_max_attempts = 3 \<rparr>"

lemma ex_worker_ok: "new_cockpit_worker (Some ex_port) 50 120 3 = Inr ex_worker"
  by (simp add: new_cockpit_worker_def ex_worker_def MAX_OUTBOX_ATTEMPTS_LIMIT_def)

lemma ex_no_crash: "\<not> crashes ex_worker"
  by (simp add: crashes_def ex_worker_def ex_port_def)

lemma ex_live: "live ex_message" "due 0 ex_message" "backlog ex_worker (cs_outbox ex_cockpit) = 3"
  by (simp_all add: backlog_def attempts_left_def live_def due_def ex_message_def ex_cockpit_def ex_worker_def COCKPIT_PROJECTION_TOPIC_def)

text \<open>
  C25. The queue drains, under three conditions: the projection only fails in the ways the worker expects (it never
  raises anything else, which would leave the attempts uncounted), no message is added meanwhile and every waiting
  message is due at the first wake-up, and the wake-ups are at least an hour apart. Then every wake-up uses up at
  least one of the attempts the queue has left, whatever the batch size; so after as many wake-ups as there are
  attempts left (at most \<open>max_attempts\<close> for each message) no message is waiting, and the projection was called at
  most that often.
\<close>

theorem cockpit_queue_drains:
  assumes "new_cockpit_worker projection batch lease_s max_attempts = Inr w" "\<not> crashes w"
    and "distinct (map ob_id (cs_outbox st))" "\<forall>m \<in> set (cs_outbox st). live m \<longrightarrow> due (hd nows) m"
    and "hourly nows" "backlog w (cs_outbox st) \<le> length nows"
    and "run_worker created w nows st = (r, st')"
  shows "r = None \<and> (\<forall>m \<in> set (cs_outbox st'). \<not> live m)
     \<and> length (cs_calls st') \<le> length (cs_calls st) + backlog w (cs_outbox st)"
proof -
  have w: "worker_ok w" using new_worker_ok [OF assms(1)] by simp
  have "\<forall>m \<in> set (cs_outbox st). live m \<longrightarrow> (case nows of [] \<Rightarrow> True | now # _ \<Rightarrow> due now m)"
    using assms(4) by (cases nows) auto
  from run_worker_drains [OF w assms(2,5,3) this assms(7)] assms(6)
  have d: "r = None" "backlog w (cs_outbox st') = 0"
    "length (cs_calls st') \<le> length (cs_calls st) + backlog w (cs_outbox st)" by auto
  from d(2) have "\<forall>m \<in> set (cs_outbox st'). \<not> live m" by (simp only: backlog_zero)
  with d show ?thesis by blast
qed

theorem cockpit_queue_drains_witness:
  "\<exists>st'. run_worker (\<lambda>_. 0) ex_worker [0, 4000000000, 8000000000] ex_cockpit = (None, st')
     \<and> (\<forall>m \<in> set (cs_outbox st'). \<not> live m) \<and> length (cs_calls st') \<le> 3"
proof -
  obtain r st' where run: "run_worker (\<lambda>_. 0) ex_worker [0, 4000000000, 8000000000] ex_cockpit = (r, st')" by fastforce
  have "hourly [0, 4000000000, 8000000000]" by (simp add: hourly_def timedelta_seconds_def)
  then have "r = None \<and> (\<forall>m \<in> set (cs_outbox st'). \<not> live m)
     \<and> length (cs_calls st') \<le> length (cs_calls ex_cockpit) + backlog ex_worker (cs_outbox ex_cockpit)"
    using ex_live by (intro cockpit_queue_drains [OF ex_worker_ok ex_no_crash _ _ _ _ run]) (simp_all add: ex_cockpit_def)
  then show ?thesis using run ex_live(3) by (intro exI [of _ st']) (simp add: ex_cockpit_def)
qed

text \<open>
  C20. Nothing is published without an acknowledgement. Over any number of runs, crashed ones
  included, no message changes its identity or its payload; messages of other topics and messages
  already settled are left as they are; and a message becomes published only after a call of the
  projection with the message's own tenant and decoded event that returned normally.
\<close>

theorem cockpit_publishes_only_acknowledged:
  assumes "new_cockpit_worker (Some port) batch lease_s max_attempts = Inr w"
    and "distinct (map ob_id (cs_outbox st))" "run_worker created w nows st = (r, st')"
    and "i < length (cs_outbox st)" "m = cs_outbox st ! i" "m' = cs_outbox st' ! i"
  shows "same_message m m' \<and> (\<not> live m \<longrightarrow> m' = m)
     \<and> (live m \<and> ob_status m' = ''PUBLISHED'' \<longrightarrow>
          (\<exists>e k. safe_event (ob_payload m) (ob_tenant_id m) = Some e \<and> k < length (cs_calls st')
             \<and> cs_calls st' ! k = (ob_tenant_id m, e)
             \<and> port (take k (cs_calls st')) (ob_tenant_id m, e) = Applied))"
proof -
  have w: "worker_ok w" "cw_projection w = Some port" using new_worker_ok [OF assms(1)] by simp_all
  have "delivery_row (r = None) w (cs_calls st') m m'"
    using run_worker_rows [OF w(1) assms(2,3)] assms(4-6) by (auto simp: list_all2_conv_all_nth)
  then show ?thesis
    unfolding delivery_row_def acknowledged_def applied_call_def using w(2) by auto
qed

theorem cockpit_publishes_only_acknowledged_witness:
  "\<exists>st' m'. run_worker (\<lambda>_. 0) ex_worker [0, 4000000000] ex_cockpit = (None, st') \<and> cs_outbox st' = [m']
     \<and> ob_id m' = 4 \<and> (ob_status m' = ''PUBLISHED'' \<longrightarrow> (\<exists>k < length (cs_calls st'). fst (cs_calls st' ! k) = 1))"
proof -
  obtain r st' where run: "run_worker (\<lambda>_. 0) ex_worker [0, 4000000000] ex_cockpit = (r, st')" by fastforce
  have w: "worker_ok ex_worker" using new_worker_ok [OF ex_worker_ok] by simp
  have d: "distinct (map ob_id (cs_outbox ex_cockpit))" and i: "0 < length (cs_outbox ex_cockpit)"
    and m: "cs_outbox ex_cockpit ! 0 = ex_message" by (simp_all add: ex_cockpit_def)
  note rows = run_worker_rows [OF w d run]
  then have "length (cs_outbox st') = 1" by (auto simp: ex_cockpit_def list_all2_Cons1)
  then have "cs_outbox st' = [cs_outbox st' ! 0]" by (cases "cs_outbox st'") auto
  moreover have "r = None" using rows ex_no_crash by auto
  moreover note cockpit_publishes_only_acknowledged [OF ex_worker_ok d run i refl refl, unfolded m]
  ultimately show ?thesis using run ex_live(1)
    by (intro exI [of _ st'] exI [of _ "cs_outbox st' ! 0"]) (auto simp: same_message_def ex_message_def)
qed

section \<open>What the tender intake announces\<close>

text \<open>An event outside the contract, whatever tenant reads it.\<close>

definition undeliverable :: "pending_event \<Rightarrow> bool" where
  "undeliverable p =
     (pe_event_type p \<notin> set ALLOWED_EVENT_TYPES
      \<or> json_str_in ALLOWED_STATES (map_of (pe_payload p) ''state'') = None)"

lemma undeliverable_None: "undeliverable p \<Longrightarrow> safe_event (event_payload eid p) tid = None"
  by (auto simp: safe_event_of_payload undeliverable_def safe_data_def)

lemma intake_outcome_event:
  "p \<in> set (ho_events (intake_outcome rcode ref_type etype u revn topic payload)) \<longleftrightarrow>
     p = \<lparr> pe_aggregate_type = etype, pe_aggregate_id = u, pe_aggregate_revision = revn,
           pe_event_type = rcode, pe_payload = payload, pe_topic = topic, pe_payload_version = 1 \<rparr>"
  by (simp add: intake_outcome_def)

definition announces_nothing_deliverable :: "handler_outcome \<Rightarrow> bool" where
  "announces_nothing_deliverable ho =
     (\<forall>p \<in> set (ho_events ho). pe_topic p = COCKPIT_PROJECTION_TOPIC \<longrightarrow> undeliverable p)"

lemma other_type_announces:
  "rcode \<notin> set ALLOWED_EVENT_TYPES \<Longrightarrow> announces_nothing_deliverable (intake_outcome rcode ref_type etype u revn topic payload)"
  by (simp add: announces_nothing_deliverable_def intake_outcome_event undeliverable_def)

lemma staged_state_announces:
  assumes "so_state s = ''REJECTED'' \<or> so_state s \<notin> set ALLOWED_STATES"
  shows "announces_nothing_deliverable (staged_outcome rcode (retention_topic s) ctx s [(''state'', JStr (so_state s))])"
proof (cases "so_state s = ''REJECTED''")
  case True
  then show ?thesis
    by (simp add: announces_nothing_deliverable_def staged_outcome_def intake_outcome_event retention_topic_def COCKPIT_PROJECTION_TOPIC_def)
next
  case False
  then show ?thesis using assms
    by (simp add: announces_nothing_deliverable_def staged_outcome_def intake_outcome_event undeliverable_def)
qed

lemma quarantined_state: "so_state (quarantined f ctx s) = ''REJECTED'' \<or> so_state (quarantined f ctx s) = ''QUARANTINED''"
  by (simp add: quarantined_def Let_def)

lemma scanned_state: "so_state (scanned f ctx s) = ''REJECTED'' \<or> so_state (scanned f ctx s) = ''CLEAN''"
  by (simp add: scanned_def Let_def)

lemma intake_announces:
  assumes "intake_handlers ctype = Some h" "h c ctx fresh b = Inr (ho, b')"
  shows "announces_nothing_deliverable ho"
proof -
  note other = other_type_announces ALLOWED_EVENT_TYPES_def
  have q: "announces_nothing_deliverable (staged_outcome rcode (retention_topic (quarantined f ctx s)) ctx (quarantined f ctx s)
      [(''state'', JStr (so_state (quarantined f ctx s)))])" for rcode f s
    using quarantined_state [of f ctx s] by (intro staged_state_announces) (auto simp: ALLOWED_STATES_def)
  have sc: "announces_nothing_deliverable (staged_outcome rcode (retention_topic (scanned f ctx s)) ctx (scanned f ctx s)
      [(''state'', JStr (so_state (scanned f ctx s)))])" for rcode f s
    using scanned_state [of f ctx s] by (intro staged_state_announces) (auto simp: ALLOWED_STATES_def)
  from assms have "run_intake (em_body c) ctx fresh b = Inr (ho, b')"
    by (auto simp: intake_handlers_def split: if_splits)
  then show ?thesis
  proof (cases "em_body c")
    case (CreateConsultation f)
    then show ?thesis using \<open>run_intake _ _ _ _ = _\<close>
      by (auto simp: run_intake_def create_consultation_def other split: sum.splits)
  next
    case (PrepareDceStaging f)
    then show ?thesis using \<open>run_intake _ _ _ _ = _\<close>
      by (auto simp: run_intake_def prepare_staging_def staged_outcome_def other Let_def split: sum.splits option.splits if_splits)
  next
    case (ClaimDceStagedObjectUpload sid)
    then show ?thesis using \<open>run_intake _ _ _ _ = _\<close>
      by (auto simp: run_intake_def claim_upload_def staged_outcome_def other Let_def split: sum.splits option.splits if_splits)
  next
    case (RecordDceStagedObjectQuarantine sid f)
    then show ?thesis using \<open>run_intake _ _ _ _ = _\<close>
      by (auto simp: run_intake_def record_quarantine_def q Let_def split: sum.splits option.splits if_splits)
  next
    case (RejectDceStagedObjectUpload sid e)
    then show ?thesis using \<open>run_intake _ _ _ _ = _\<close>
      by (auto simp: run_intake_def reject_upload_def staged_outcome_def other Let_def split: sum.splits option.splits if_splits)
  next
    case (ExpireDceStagedObject sid)
    then show ?thesis using \<open>run_intake _ _ _ _ = _\<close>
      by (auto simp: run_intake_def expire_staged_def staged_outcome_def other Let_def split: sum.splits option.splits if_splits)
  next
    case (RecordDceStagedObjectScan sid f)
    then show ?thesis using \<open>run_intake _ _ _ _ = _\<close>
      by (auto simp: run_intake_def record_scan_def sc Let_def split: sum.splits option.splits if_splits)
  next
    case (RegisterDceVersion f)
    then show ?thesis using \<open>run_intake _ _ _ _ = _\<close>
      by (auto simp: run_intake_def register_version_def other Let_def split: sum.splits option.splits if_splits)
  next
    case (RecordDceDocumentExtraction f)
    then show ?thesis using \<open>run_intake _ _ _ _ = _\<close>
      by (auto simp: run_intake_def record_extraction_def other Let_def split: sum.splits option.splits if_splits)
  qed
qed

lemma persist_outbox:
  "persist_events_and_outbox ctx c fresh k ps evs obs = Inr (ids, evs', obs') \<Longrightarrow> distinct (map ob_id obs) \<Longrightarrow>
     distinct (map ob_id obs') \<and> (\<forall>m \<in> set obs'. m \<in> set obs \<or> (\<exists>oid eid p. p \<in> set ps \<and> m = new_outbox_row ctx oid eid p))"
proof (induction ps arbitrary: k evs obs ids)
  case (Cons p ps)
  let ?m = "new_outbox_row ctx (fresh (Suc k)) (fresh k) p"
  from Cons.prems(1) obtain evs1 ids1 where
    o: "add_row outbox_clash ?m obs = Inr (obs @ [?m])" and
    rest: "persist_events_and_outbox ctx c fresh (Suc (Suc k)) ps evs1 (obs @ [?m]) = Inr (ids1, evs', obs')"
    by (auto simp: Let_def add_row_def split: sum.splits if_splits)
  have "ob_id ?m \<notin> ob_id ` set obs"
    using o by (auto simp: add_row_def outbox_clash_def list_ex_iff split: if_splits)
  then have "distinct (map ob_id (obs @ [?m]))" using Cons.prems(2) by simp
  from Cons.IH [OF rest this] show ?case by auto
qed simp

definition nothing_deliverable :: "outbox_row list \<Rightarrow> bool" where
  "nothing_deliverable rows =
     (distinct (map ob_id rows)
      \<and> (\<forall>m \<in> set rows. ob_topic m = COCKPIT_PROJECTION_TOPIC \<longrightarrow>
           ob_status m = ''PENDING'' \<and> safe_event (ob_payload m) (ob_tenant_id m) = None))"

lemma intake_dispatch_announces:
  assumes "nothing_deliverable (db_outbox db)" "dispatch dump intake_handlers seen rq db = (r, db')"
  shows "nothing_deliverable (db_outbox db')"
proof (cases r)
  case (Inl e)
  then show ?thesis using assms dispatch_Inl by metis
next
  case (Inr d)
  with assms(2) obtain h where h: "intake_handlers (em_command_type (rq_command rq)) = Some h"
    "transaction dump h seen rq db = Inr (d, db')" by (auto elim: dispatch_Inr)
  from h(2) show ?thesis
  proof (cases rule: transaction_Inr)
    case (replay r)
    then show ?thesis using assms(1) by simp
  next
    case (executed ho b ids evs obs)
    have ann: "announces_nothing_deliverable ho" using intake_announces [OF h(1) executed(3)] .
    have new: "ob_topic m = COCKPIT_PROJECTION_TOPIC \<longrightarrow>
        ob_status m = ''PENDING'' \<and> safe_event (ob_payload m) (ob_tenant_id m) = None"
      if "p \<in> set (ho_events ho)" "m = new_outbox_row (rq_context rq) oid eid p" for oid eid p m
      using that ann by (simp add: new_outbox_row_def announces_nothing_deliverable_def undeliverable_None)
    have "distinct (map ob_id (db_outbox db))" using assms(1) by (simp add: nothing_deliverable_def)
    from persist_outbox [OF executed(4) this] have
      "distinct (map ob_id obs)" "\<forall>m \<in> set obs. m \<in> set (db_outbox db)
         \<or> (\<exists>oid eid p. p \<in> set (ho_events ho) \<and> m = new_outbox_row (rq_context rq) oid eid p)" by auto
    moreover have "db_outbox db' = obs" using executed(6) by simp
    ultimately show ?thesis using assms(1) new unfolding nothing_deliverable_def by metis
  qed
qed

text \<open>
  C27. The cockpit never hears of an admission. The tender intake announces its steps on the cockpit
  topic, but with states the worker's contract does not know (QUARANTINED and CLEAN, where the
  worker expects PENDING_SCAN, SCANNED or REJECTED) or with event types it does not accept: after
  any history of intake commands, in any number of runs and whatever the projection does, the
  worker never calls it, publishes none of those messages, and every message it picked up
  is left FAILED as an invalid payload.
\<close>

theorem intake_never_reaches_cockpit:
  assumes "db_outbox db = []" "dispatch_run dump intake_handlers steps db = (rs, db')"
    and "new_cockpit_worker projection batch lease_s max_attempts = Inr w"
    and "run_worker created w nows \<lparr> cs_outbox = db_outbox db', cs_calls = [], cs_metrics = counts \<rparr> = (r, st')"
  shows "r = None \<and> cs_calls st' = []
     \<and> (\<forall>m \<in> set (cs_outbox st'). ob_topic m = COCKPIT_PROJECTION_TOPIC \<longrightarrow>
          m \<in> set (db_outbox db') \<and> ob_status m = ''PENDING'' \<or> refused m)"
proof -
  let ?st = "\<lparr> cs_outbox = db_outbox db', cs_calls = [], cs_metrics = counts \<rparr>"
  have "nothing_deliverable (db_outbox db)" using assms(1) by (simp add: nothing_deliverable_def)
  then have nd: "nothing_deliverable (db_outbox db')"
    using dispatch_run_invariant [where P = "\<lambda>db. nothing_deliverable (db_outbox db)", OF _ _ assms(2)]
      intake_dispatch_announces by metis
  then have d: "distinct (map ob_id (cs_outbox ?st))" by (simp add: nothing_deliverable_def)
  have w: "worker_ok w" using new_worker_ok [OF assms(3)] by simp
  note rows = run_worker_rows [OF w d assms(4)]
  have none: "safe_event (ob_payload m) (ob_tenant_id m) = None \<and> live m"
    if "m \<in> set (db_outbox db')" "ob_topic m = COCKPIT_PROJECTION_TOPIC" for m
    using nd that by (simp add: nothing_deliverable_def live_def)
  have "\<not> (\<exists>m \<in> set (db_outbox db'). live m \<and> called m c)" for c
    using none by (auto simp: called_def live_def)
  moreover have "\<forall>c \<in> set (cs_calls st'). \<exists>m \<in> set (db_outbox db'). live m \<and> called m c" using rows by auto
  ultimately have no: "c \<notin> set (cs_calls st')" for c by blast
  have "cs_calls st' = []"
  proof (cases "cs_calls st'")
    case (Cons c cs)
    then show ?thesis using no [of c] by simp
  qed
  then have calls: "cs_calls st' = [] \<and> r = None" using rows by auto
  have rel: "list_all2 (delivery_row True w (cs_calls st')) (db_outbox db') (cs_outbox st')"
    using rows calls by simp
  have "m' \<in> set (db_outbox db') \<and> ob_status m' = ''PENDING'' \<or> refused m'"
    if m': "m' \<in> set (cs_outbox st')" "ob_topic m' = COCKPIT_PROJECTION_TOPIC" for m'
  proof -
    obtain m where m: "m \<in> set (db_outbox db')" "delivery_row True w (cs_calls st') m m'"
      using all2_source [OF rel m'(1)] by blast
    then have t: "ob_topic m = COCKPIT_PROJECTION_TOPIC" using m'(2) by (simp add: delivery_row_def same_message_def)
    have "ob_status m = ''PENDING''" using nd m(1) t by (simp add: nothing_deliverable_def)
    with none [OF m(1) t] m show ?thesis by (auto simp: delivery_row_def)
  qed
  with calls show ?thesis by blast
qed

text \<open>A quarantined upload: its announcement is on the cockpit topic, and the worker refuses it.\<close>

definition ex_uploading :: staged_row where
  "ex_uploading = \<lparr> so_id = 5, so_tenant_id = 1, so_consultation_id = 2, so_storage_key = staging_storage_key 1 5,
     so_original_filename = ''cctp.pdf'', so_expected_byte_size = 4, so_actual_byte_size = None,
     so_sha256 = None, so_media_type = None, so_source_channel = ''UPLOAD'', so_state = ''UPLOADING'',
     so_scan_verdict = None, so_scanner_name = None, so_scanner_signature_version = None, so_scanned_at = None,
     so_rejection_code = None, so_expires_at = 90, so_consumed_by = None, so_consumed_at = None,
     so_created_by_actor_id = 9, so_updated_by_actor_id = 9 \<rparr>"

definition ex_quarantine_fields :: quarantine_fields where
  "ex_quarantine_fields = \<lparr> qf_actual_byte_size = 4, qf_sha256 = ex_file_hash, qf_media_type = ''application/pdf'',
     qf_content_allowed = True \<rparr>"

definition ex_system_context :: command_context where
  "ex_system_context = ex_intake_context\<lparr> cc_actor_kind := ''SYSTEM'' \<rparr>"

definition ex_quarantine_request :: "intake_command dispatch_request" where
  "ex_quarantine_request = \<lparr> rq_command = \<lparr> em_command_type = ''RecordDceStagedObjectQuarantine'', em_command_id = 3,
       em_idempotency_key = 3, em_correlation_id = None, em_body = RecordDceStagedObjectQuarantine 5 ex_quarantine_fields \<rparr>,
     rq_context = ex_system_context, rq_fresh = of_nat, rq_handler_fresh = of_nat, rq_now = 5 \<rparr>"

definition ex_uploading_tables :: intake_tables where
  "ex_uploading_tables = ex_intake_tables\<lparr> it_staged := [ex_uploading] \<rparr>"

definition ex_uploading_db :: "intake_tables platform_db" where
  "ex_uploading_db = \<lparr> db_receipts = [], db_events = [], db_outbox = [], db_business = ex_uploading_tables \<rparr>"

lemma ex_quarantined:
  "\<exists>ho b' p. record_quarantine 5 ex_quarantine_fields ex_system_context ex_uploading_tables = Inr (ho, b')
     \<and> ho_events ho = [p] \<and> pe_topic p = COCKPIT_PROJECTION_TOPIC"
proof -
  have "lower_hex64 ex_file_hash" and low: "lower ex_file_hash = ex_file_hash"
    using is_sha256_sha256_hex [of "''cctp''"] by (simp_all add: lower_hex64_def is_sha256_def ex_file_hash_def)
  then have chk: "so_check (quarantined ex_quarantine_fields ex_system_context ex_uploading)"
    by (simp add: so_check_def quarantined_def ex_quarantine_fields_def ex_uploading_def)
  have f: "find_staged (cc_tenant_id ex_system_context) 5 (it_staged ex_uploading_tables) = Some ex_uploading"
    by (simp add: find_staged_def ex_uploading_tables_def ex_uploading_def ex_system_context_def ex_intake_context_def)
  have st: "cc_actor_kind ex_system_context = ''SYSTEM''" "so_state ex_uploading = ''UPLOADING''"
    "so_state (quarantined ex_quarantine_fields ex_system_context ex_uploading) = ''QUARANTINED''"
    by (simp_all add: ex_system_context_def ex_uploading_def quarantined_def ex_quarantine_fields_def)
  show ?thesis
    by (simp add: record_quarantine_def f st Let_def save_staged_def chk staged_outcome_def intake_outcome_def
        retention_topic_def COCKPIT_PROJECTION_TOPIC_def)
qed

theorem intake_never_reaches_cockpit_witness:
  "\<exists>rs db' m r st'. dispatch_run (\<lambda>_. []) intake_handlers [(0, ex_quarantine_request)] ex_uploading_db = (rs, db')
     \<and> db_outbox db' = [m] \<and> ob_topic m = COCKPIT_PROJECTION_TOPIC
     \<and> run_worker (\<lambda>_. 0) ex_worker [0] \<lparr> cs_outbox = db_outbox db', cs_calls = [], cs_metrics = (\<lambda>_. 0) \<rparr> = (r, st')
     \<and> r = None \<and> cs_calls st' = []"
proof -
  obtain ho b' p where q: "record_quarantine 5 ex_quarantine_fields ex_system_context ex_uploading_tables = Inr (ho, b')"
    "ho_events ho = [p]" "pe_topic p = COCKPIT_PROJECTION_TOPIC" using ex_quarantined by (elim exE conjE) (rule that)
  obtain rs db' where run: "dispatch_run (\<lambda>_. []) intake_handlers [(0, ex_quarantine_request)] ex_uploading_db = (rs, db')" by fastforce
  have out: "\<exists>m. db_outbox db' = [m] \<and> ob_topic m = COCKPIT_PROJECTION_TOPIC"
    using run q by (auto simp: dispatch_def transaction_def intake_handlers_def ex_quarantine_request_def run_intake_def
        ex_uploading_db_def find_receipt_def add_row_def new_outbox_row_def Let_def)
  obtain r st' where w: "run_worker (\<lambda>_. 0) ex_worker [0] \<lparr> cs_outbox = db_outbox db', cs_calls = [], cs_metrics = (\<lambda>_. 0) \<rparr> = (r, st')"
    by fastforce
  have "r = None \<and> cs_calls st' = []"
    using intake_never_reaches_cockpit [OF _ run ex_worker_ok w] by (simp add: ex_uploading_db_def)
  with run out w show ?thesis by blast
qed

end
