(* ===== verification/SecurityAudit.thy ===== *)
theory SecurityAudit
  imports Security Sessions Encoding
begin

text \<open>
  The security audit of \<open>backend/app/platform/security/audit.py\<close>: the closed vocabulary, the
  validation an entry must pass before it is appended, and \<open>AuditedAuthorizationPolicy\<close>, which
  decides as the policy it wraps and leaves one event for each refusal. Instants are aware
  datetimes, so the first check of \<open>validate\<close> is vacuous here.
\<close>

section \<open>Vocabulary and table\<close>

datatype audit_event_type =
    Audit_LOGIN_SUCCEEDED | Audit_LOGIN_DENIED | Audit_REFRESH_SUCCEEDED | Audit_REFRESH_DENIED
  | Audit_LOGOUT_SUCCEEDED | Audit_SESSION_REJECTED | Audit_AUTHZ_SUCCEEDED | Audit_AUTHZ_DENIED
  | Audit_AUTHZ_STEP_UP_REQUIRED | Audit_MFA_ENROLLMENT_STARTED | Audit_MFA_ENROLLMENT_CONFIRMED
  | Audit_MFA_VERIFICATION_DENIED | Audit_MFA_STEP_UP_SUCCEEDED | Audit_MFA_RECOVERY_USED
  | Audit_MFA_DISABLED | Audit_SUBMISSION_PACKAGE_EXPORTED

fun audit_event_value :: "audit_event_type \<Rightarrow> string" where
  "audit_event_value Audit_LOGIN_SUCCEEDED = ''AUTH_LOGIN_SUCCEEDED''"
| "audit_event_value Audit_LOGIN_DENIED = ''AUTH_LOGIN_DENIED''"
| "audit_event_value Audit_REFRESH_SUCCEEDED = ''AUTH_REFRESH_SUCCEEDED''"
| "audit_event_value Audit_REFRESH_DENIED = ''AUTH_REFRESH_DENIED''"
| "audit_event_value Audit_LOGOUT_SUCCEEDED = ''AUTH_LOGOUT_SUCCEEDED''"
| "audit_event_value Audit_SESSION_REJECTED = ''AUTH_SESSION_REJECTED''"
| "audit_event_value Audit_AUTHZ_SUCCEEDED = ''AUTHZ_SUCCEEDED''"
| "audit_event_value Audit_AUTHZ_DENIED = ''AUTHZ_DENIED''"
| "audit_event_value Audit_AUTHZ_STEP_UP_REQUIRED = ''AUTHZ_STEP_UP_REQUIRED''"
| "audit_event_value Audit_MFA_ENROLLMENT_STARTED = ''AUTH_MFA_ENROLLMENT_STARTED''"
| "audit_event_value Audit_MFA_ENROLLMENT_CONFIRMED = ''AUTH_MFA_ENROLLMENT_CONFIRMED''"
| "audit_event_value Audit_MFA_VERIFICATION_DENIED = ''AUTH_MFA_VERIFICATION_DENIED''"
| "audit_event_value Audit_MFA_STEP_UP_SUCCEEDED = ''AUTH_MFA_STEP_UP_SUCCEEDED''"
| "audit_event_value Audit_MFA_RECOVERY_USED = ''AUTH_MFA_RECOVERY_USED''"
| "audit_event_value Audit_MFA_DISABLED = ''AUTH_MFA_DISABLED''"
| "audit_event_value Audit_SUBMISSION_PACKAGE_EXPORTED = ''SUBMISSION_PACKAGE_EXPORTED''"

datatype audit_outcome = Outcome_SUCCEEDED | Outcome_DENIED | Outcome_FAILED | Outcome_SUSPICIOUS

fun audit_outcome_value :: "audit_outcome \<Rightarrow> string" where
  "audit_outcome_value Outcome_SUCCEEDED = ''SUCCEEDED''"
| "audit_outcome_value Outcome_DENIED = ''DENIED''"
| "audit_outcome_value Outcome_FAILED = ''FAILED''"
| "audit_outcome_value Outcome_SUSPICIOUS = ''SUSPICIOUS''"

datatype audit_severity = Severity_INFO | Severity_WARNING | Severity_CRITICAL

fun audit_severity_value :: "audit_severity \<Rightarrow> string" where
  "audit_severity_value Severity_INFO = ''INFO''"
| "audit_severity_value Severity_WARNING = ''WARNING''"
| "audit_severity_value Severity_CRITICAL = ''CRITICAL''"

record audit_entry =
  ae_occurred_at :: instant
  ae_tenant_id :: "uuid option"
  ae_actor_id :: "uuid option"
  ae_identity_id :: "uuid option"
  ae_session_id :: "uuid option"
  ae_actor_kind :: "string option"
  ae_auth_strength :: "string option"
  ae_event_type :: audit_event_type
  ae_outcome :: audit_outcome
  ae_severity :: audit_severity
  ae_action :: string
  ae_resource_type :: "string option"
  ae_resource_id :: "uuid option"
  ae_case_id :: "uuid option"
  ae_correlation_id :: "uuid option"
  ae_command_id :: "uuid option"
  ae_request_id :: "uuid option"
  ae_source_ip_hash :: "string option"
  ae_user_agent_family :: "string option"
  ae_reason_code :: "string option"
  ae_metadata :: "(string \<times> json) list"

record audit_row =
  au_id :: uuid
  au_occurred_at :: instant
  au_schema_version :: int
  au_tenant_id :: "uuid option"
  au_actor_id :: "uuid option"
  au_identity_id :: "uuid option"
  au_session_id :: "uuid option"
  au_actor_kind :: "string option"
  au_auth_strength :: "string option"
  au_event_type :: string
  au_outcome :: string
  au_severity :: string
  au_action :: string
  au_resource_type :: "string option"
  au_resource_id :: "uuid option"
  au_case_id :: "uuid option"
  au_correlation_id :: "uuid option"
  au_command_id :: "uuid option"
  au_request_id :: "uuid option"
  au_source_ip_hash :: "string option"
  au_user_agent_family :: "string option"
  au_reason_code :: "string option"
  au_metadata :: "(string \<times> json) list"

section \<open>Validation\<close>

definition code_in :: "nat \<Rightarrow> nat \<Rightarrow> char \<Rightarrow> bool" where
  "code_in a b c = (a \<le> code c \<and> code c \<le> b)"

text \<open>\<open>^[a-z][a-z0-9_.-]{2,119}$\<close>, \<open>^[A-Z][A-Z0-9_]{2,63}$\<close> and \<open>[a-f0-9]{64}\<close>, matched in full.\<close>

definition action_pattern :: "string \<Rightarrow> bool" where
  "action_pattern s =
     (case s of [] \<Rightarrow> False
      | c # cs \<Rightarrow> code_in 97 122 c \<and> 2 \<le> length cs \<and> length cs \<le> 119
          \<and> list_all (\<lambda>d. code_in 97 122 d \<or> code_in 48 57 d \<or> d \<in> set ''_.-'') cs)"

definition reason_pattern :: "string \<Rightarrow> bool" where
  "reason_pattern s =
     (case s of [] \<Rightarrow> False
      | c # cs \<Rightarrow> code_in 65 90 c \<and> 2 \<le> length cs \<and> length cs \<le> 63
          \<and> list_all (\<lambda>d. code_in 65 90 d \<or> code_in 48 57 d \<or> d = CHR ''_'') cs)"

definition hex64_pattern :: "string \<Rightarrow> bool" where
  "hex64_pattern s = (length s = 64 \<and> list_all (\<lambda>d. code_in 97 102 d \<or> code_in 48 57 d) s)"

definition allowed_metadata_keys :: "string list" where
  "allowed_metadata_keys = [''channel'', ''http_method'', ''reason_class'']"

text \<open>The value of one metadata key: the message of the error, if any.\<close>

fun metadata_value_problem :: "string \<Rightarrow> json \<Rightarrow> string option" where
  "metadata_value_problem k (JStr s) =
     (if s = [] \<or> 64 < length s then Some (''metadata '' @ k @ '' is outside bounds'') else None)"
| "metadata_value_problem k (JBool b) = None"
| "metadata_value_problem k (JInt i) = None"
| "metadata_value_problem k _ = Some (''metadata '' @ k @ '' has a forbidden value type'')"

fun metadata_values_problem :: "(string \<times> json) list \<Rightarrow> string option" where
  "metadata_values_problem [] = None"
| "metadata_values_problem ((k, v) # ms) =
     (case metadata_value_problem k v of Some e \<Rightarrow> Some e | None \<Rightarrow> metadata_values_problem ms)"

definition metadata_problem :: "(string \<times> json) list \<Rightarrow> string option" where
  "metadata_problem ms =
     (if \<not> set (map fst ms) \<subseteq> set allowed_metadata_keys then Some ''metadata contains a forbidden key''
      else metadata_values_problem ms)"

definition audit_validate :: "audit_entry \<Rightarrow> string option" where
  "audit_validate a =
     (if \<not> action_pattern (ae_action a) then Some ''action must use the closed audit vocabulary''
      else if (case ae_reason_code a of None \<Rightarrow> False | Some r \<Rightarrow> \<not> reason_pattern r)
        then Some ''reason_code must be an allow-listed code''
      else if (case ae_source_ip_hash a of None \<Rightarrow> False | Some h \<Rightarrow> \<not> hex64_pattern h)
        then Some ''source_ip_hash must be a SHA-256 hexadecimal digest''
      else if (case ae_user_agent_family a of None \<Rightarrow> False | Some u \<Rightarrow> 120 < length u)
        then Some ''user_agent_family is too long''
      else metadata_problem (ae_metadata a))"

definition audit_row_of :: "uuid \<Rightarrow> audit_entry \<Rightarrow> audit_row" where
  "audit_row_of u a = \<lparr> au_id = u, au_occurred_at = ae_occurred_at a, au_schema_version = 1,
     au_tenant_id = ae_tenant_id a, au_actor_id = ae_actor_id a, au_identity_id = ae_identity_id a,
     au_session_id = ae_session_id a, au_actor_kind = ae_actor_kind a, au_auth_strength = ae_auth_strength a,
     au_event_type = audit_event_value (ae_event_type a), au_outcome = audit_outcome_value (ae_outcome a),
     au_severity = audit_severity_value (ae_severity a), au_action = ae_action a,
     au_resource_type = ae_resource_type a, au_resource_id = ae_resource_id a, au_case_id = ae_case_id a,
     au_correlation_id = ae_correlation_id a, au_command_id = ae_command_id a, au_request_id = ae_request_id a,
     au_source_ip_hash = ae_source_ip_hash a, au_user_agent_family = ae_user_agent_family a,
     au_reason_code = ae_reason_code a, au_metadata = ae_metadata a \<rparr>"

definition au_clash :: "audit_row \<Rightarrow> audit_row \<Rightarrow> bool" where
  "au_clash r r' = (au_id r = au_id r')"

text \<open>
  The CHECK constraints that \<open>validate\<close> does not imply. The columns of bounded length hold what \<open>validate\<close> and the
  enumerations let through, except \<open>resource_type\<close>, a \<open>String(64)\<close> that nothing else bounds.
\<close>

definition au_check :: "audit_row \<Rightarrow> bool" where
  "au_check r =
     (pred_option (\<lambda>k. k \<in> set (map actor_kind_value all_actor_kinds)) (au_actor_kind r)
      \<and> pred_option (\<lambda>s. s \<in> {''PASSWORD'', ''MFA'', ''MFA_STEP_UP''}) (au_auth_strength r))"

definition resource_type_fits :: "audit_entry \<Rightarrow> bool" where
  "resource_type_fits a = pred_option (\<lambda>s. length s \<le> 64) (ae_resource_type a)"

text \<open>
  \<open>record\<close> and the flush of its row, with \<open>tenants\<close> the identifiers of the table \<open>tenants\<close> that the foreign key names.
  A text too long for its column is a \<open>DataError\<close>, here \<open>DatabaseError\<close>.
\<close>

definition audit_record :: "(uuid \<Rightarrow> bool) \<Rightarrow> uuid \<Rightarrow> audit_entry \<Rightarrow> audit_row list \<Rightarrow> exn + audit_row list" where
  "audit_record tenants u a rows =
     (case audit_validate a of Some e \<Rightarrow> Inl (ValueError e)
      | None \<Rightarrow>
        if \<not> resource_type_fits a then Inl DatabaseError
        else if \<not> au_check (audit_row_of u a) \<or> \<not> pred_option tenants (ae_tenant_id a) then Inl IntegrityError
        else add_row au_clash (audit_row_of u a) rows)"

section \<open>The audited policy\<close>

definition refusal_entry :: "actor_context \<Rightarrow> authorization_request \<Rightarrow> authorization_decision \<Rightarrow> audit_entry" where
  "refusal_entry c q d = \<lparr> ae_occurred_at = (case q_evaluated_at q of Some t \<Rightarrow> t | None \<Rightarrow> a_authenticated_at c),
     ae_tenant_id = Some (a_tenant_id c), ae_actor_id = Some (a_actor_id c), ae_identity_id = Some (a_identity_id c),
     ae_session_id = a_session_id c, ae_actor_kind = Some (actor_kind_value (a_actor_kind c)), ae_auth_strength = None,
     ae_event_type = (if z_code d = ''STEP_UP_REQUIRED'' then Audit_AUTHZ_STEP_UP_REQUIRED else Audit_AUTHZ_DENIED),
     ae_outcome = Outcome_DENIED,
     ae_severity = (if z_code d = ''STEP_UP_REQUIRED'' then Severity_INFO else Severity_WARNING),
     ae_action = q_action q, ae_resource_type = Some (z_resource_type (q_resource q)),
     ae_resource_id = Some (z_resource_id (q_resource q)), ae_case_id = z_case_id (q_resource q),
     ae_correlation_id = Some (a_correlation_id c), ae_command_id = None, ae_request_id = None,
     ae_source_ip_hash = None, ae_user_agent_family = None, ae_reason_code = Some (z_code d),
     ae_metadata = [(''channel'', JStr ''policy'')] \<rparr>"

definition audited_authorize ::
  "(uuid \<Rightarrow> bool) \<Rightarrow> (actor_context \<Rightarrow> authorization_request \<Rightarrow> authorization_decision) \<Rightarrow> uuid \<Rightarrow> actor_context
   \<Rightarrow> authorization_request \<Rightarrow> audit_row list \<Rightarrow> (exn + authorization_decision) \<times> audit_row list" where
  "audited_authorize tenants policy u c q rows =
     (let d = policy c q in
      if z_allowed d then (Inr d, rows)
      else (case audit_record tenants u (refusal_entry c q d) rows of Inl e \<Rightarrow> (Inl e, rows) | Inr rows' \<Rightarrow> (Inr d, rows')))"

section \<open>Properties\<close>

lemma capability_actions: "list_all action_pattern capability_values"
  by code_simp

lemma actor_kind_listed: "actor_kind_value k \<in> actor_kind_value ` set all_actor_kinds"
  by (cases k) (simp_all add: all_actor_kinds_def)

lemma authorize_codes:
  "z_code (authorize c q) \<in> {''ALLOWED'', ''NOT_FOUND_OR_FORBIDDEN'', ''AUTHORIZATION_DENIED'', ''STEP_UP_REQUIRED''}"
  by (simp add: authorize_def Let_def decision_defs split: option.splits)

lemma reason_codes:
  "list_all reason_pattern [''ALLOWED'', ''NOT_FOUND_OR_FORBIDDEN'', ''AUTHORIZATION_DENIED'', ''STEP_UP_REQUIRED'']"
  by code_simp

lemma refusal_entry_valid:
  assumes "q_action q \<in> set capability_values"
  shows "audit_validate (refusal_entry c q (authorize c q)) = None"
proof -
  have "action_pattern (q_action q)" using capability_actions assms by (simp only: list_all_iff)
  moreover have "reason_pattern (z_code (authorize c q))" using reason_codes authorize_codes [of c q] by auto
  ultimately show ?thesis
    by (simp add: audit_validate_def refusal_entry_def metadata_problem_def allowed_metadata_keys_def)
qed

text \<open>
  C34. The audited policy is the policy plus its trace. On an action of the capability catalogue, with an unused event
  identifier and an actor of a registered tenant, an allowed request is answered and leaves no trace, and a refused one
  whose resource type has at most 64 characters is answered with exactly the decision of the baseline policy and
  appends one DENIED event, which names the actor, the action, the resource and the refusal code and carries no other
  detail than its channel. A refusal on a longer resource type does not fit the audit table: it raises instead of
  answering, and appends nothing.
\<close>

theorem audited_policy_transparent:
  assumes "q_action q \<in> set capability_values" "u \<notin> au_id ` set rows" "tenants (a_tenant_id c)"
  shows "if allowed_by_rules c q \<or> length (z_resource_type (q_resource q)) \<le> 64
    then \<exists>evs. audited_authorize tenants authorize u c q rows = (Inr (authorize c q), rows @ evs)
      \<and> (evs = [] \<longleftrightarrow> allowed_by_rules c q)
      \<and> (\<forall>r \<in> set evs. evs = [r] \<and> au_outcome r = ''DENIED'' \<and> au_action r = q_action q
           \<and> au_actor_id r = Some (a_actor_id c) \<and> au_tenant_id r = Some (a_tenant_id c)
           \<and> au_resource_id r = Some (z_resource_id (q_resource q)) \<and> au_reason_code r = Some (z_code (authorize c q))
           \<and> au_metadata r = [(''channel'', JStr ''policy'')] \<and> au_source_ip_hash r = None)
    else audited_authorize tenants authorize u c q rows = (Inl DatabaseError, rows)"
proof (cases "z_allowed (authorize c q)")
  case True
  then show ?thesis by (auto simp: audited_authorize_def authorize_allowed)
next
  case False
  let ?e = "refusal_entry c q (authorize c q)"
  let ?r = "audit_row_of u ?e"
  have new: "add_row au_clash ?r rows = Inr (rows @ [?r])"
    using assms(2) by (auto simp: add_row_Inr au_clash_def audit_row_of_def)
  have ok: "au_check ?r" "pred_option tenants (ae_tenant_id ?e)"
    using assms(3) by (simp_all add: au_check_def audit_row_of_def refusal_entry_def actor_kind_listed)
  have fits: "resource_type_fits ?e \<longleftrightarrow> length (z_resource_type (q_resource q)) \<le> 64" by (simp add: resource_type_fits_def refusal_entry_def)
  show ?thesis
  proof (cases "length (z_resource_type (q_resource q)) \<le> 64")
    case True
    then have "audited_authorize tenants authorize u c q rows = (Inr (authorize c q), rows @ [?r])"
      using False refusal_entry_valid [OF assms(1)] ok new fits by (simp add: audited_authorize_def audit_record_def Let_def)
    then show ?thesis unfolding if_P [OF disjI2 [OF True]] using False
      by (intro exI [of _ "[?r]"]) (simp add: authorize_allowed audit_row_of_def refusal_entry_def)
  next
    case long: False
    then have "audited_authorize tenants authorize u c q rows = (Inl DatabaseError, rows)"
      using False refusal_entry_valid [OF assms(1)] fits by (simp add: audited_authorize_def audit_record_def Let_def)
    then show ?thesis using False long by (simp add: authorize_allowed)
  qed
qed

theorem audited_policy_transparent_witness:
  "\<exists>evs. audited_authorize (\<lambda>t. t = 2) authorize 1 (ex_patron\<lparr> a_tenant_id := 2 \<rparr>) ex_financial [] = (Inr decision_not_found_or_forbidden, evs) \<and> evs \<noteq> []"
proof -
  have "q_action ex_financial \<in> set capability_values" by code_simp
  from audited_policy_transparent [OF this, where u = 1 and rows = "[]" and c = "ex_patron\<lparr> a_tenant_id := 2 \<rparr>" and tenants = "\<lambda>t. t = 2"]
  show ?thesis by (auto simp: authorize_def allowed_by_rules_def ex_financial_def ex_patron_def Let_def)
qed

end
