(* ===== verification/SubmissionTables.thy ===== *)
theory SubmissionTables
  imports PatronAction DecisionRules SecurityAudit
begin

text \<open>
  The tables the submission module reads and writes: the columns it reads of the Case, decision,
  requirement, preparation, pricing and enterprise tables, and its own three tables with their
  constraints (\<open>submission/infrastructure/models/submission.py\<close>).
\<close>

section \<open>Tables\<close>

record gate_case_row =
  gc_id :: uuid
  gc_tenant_id :: uuid
  gc_applicable_dce_version_id :: "uuid option"

record decision_row =
  gd_id :: uuid
  gd_tenant_id :: uuid
  gd_case_id :: uuid
  gd_decision_type :: string
  gd_validity :: string
  gd_cycle_number :: int
  gd_updated_at :: instant
  gd_selected_final_context_id :: "uuid option"
  gd_lifecycle :: string
  gd_outcome :: string
  gd_context_status :: string
  gd_condition_status :: string

record context_ref_row =
  gx_tenant_id :: uuid
  gx_decision_context_id :: uuid
  gx_aggregate_type :: string
  gx_aggregate_id :: uuid

record requirement_row =
  gq_id :: uuid
  gq_tenant_id :: uuid
  gq_dce_version_id :: uuid

record confirmation_row =
  gk_requirement_id :: uuid
  gk_tenant_id :: uuid
  gk_outcome :: string

record condition_row =
  gn_id :: uuid
  gn_tenant_id :: uuid
  gn_decision_id :: uuid
  gn_status :: string

record risk_link_row =
  gl_id :: uuid
  gl_tenant_id :: uuid
  gl_case_id :: uuid

record preparation_row =
  sp_id :: uuid
  sp_tenant_id :: uuid
  sp_case_id :: uuid
  sp_assignment_id :: uuid
  sp_dce_version_id :: uuid
  sp_state :: string
  sp_aggregate_revision :: int

record readiness_row =
  sr_id :: uuid
  sr_tenant_id :: uuid
  sr_package_id :: uuid
  sr_revision :: int
  sr_state :: string
  sr_blocker_codes :: "string list"
  sr_warning_codes :: "string list"

record technical_row =
  sd_id :: uuid
  sd_tenant_id :: uuid
  sd_package_id :: uuid
  sd_version :: int
  sd_document_kind :: string
  sd_state :: string
  sd_content_sha256 :: string
  sd_storage_key :: string

record financial_row =
  fs_id :: uuid
  fs_tenant_id :: uuid
  fs_case_id :: uuid
  fs_state :: string
  fs_aggregate_revision :: int
  fs_published_at :: "instant option"

record proposal_row =
  ep_id :: uuid
  ep_tenant_id :: uuid
  ep_case_id :: uuid
  ep_assignment_id :: uuid
  ep_capability_id :: uuid
  ep_capability_version_id :: uuid
  ep_validity_state :: string

record capability_row =
  ec_id :: uuid
  ec_tenant_id :: uuid
  ec_company_id :: uuid
  ec_capability_kind :: string
  ec_name :: string
  ec_summary :: string
  ec_state :: string

record capability_version_row =
  cv_id :: uuid
  cv_tenant_id :: uuid
  cv_capability_id :: uuid
  cv_version_number :: int
  cv_title :: string
  cv_description :: string
  cv_valid_from :: instant
  cv_valid_until :: "instant option"
  cv_usage_scope :: string

record proof_link_row =
  el_tenant_id :: uuid
  el_capability_version_id :: uuid
  el_document_id :: uuid

record enterprise_document_row =
  ed_id :: uuid
  ed_tenant_id :: uuid
  ed_company_id :: uuid
  ed_document_kind :: string
  ed_document_label :: string
  ed_expires_at :: "instant option"
  ed_sha256 :: string
  ed_verification_status :: string

record package_row =
  pk_id :: uuid
  pk_tenant_id :: uuid
  pk_preparation_package_id :: uuid
  pk_case_id :: uuid
  pk_dce_version_id :: uuid
  pk_technical_document_id :: uuid
  pk_technical_document_version :: int
  pk_financial_snapshot_id :: uuid
  pk_financial_snapshot_revision :: int
  pk_version :: int
  pk_state :: string
  pk_manifest_sha256 :: string
  pk_manifest :: json
  pk_actor_id :: uuid
  pk_membership_id :: uuid
  pk_command_id :: uuid
  pk_idempotency_key :: uuid
  pk_correlation_id :: "uuid option"

record evidence_row =
  se_id :: uuid
  se_tenant_id :: uuid
  se_submission_package_id :: uuid
  se_case_id :: uuid
  se_evidence_type :: string
  se_status :: string
  se_external_reference_hash :: string
  se_evidence_sha256 :: string
  se_notes_redacted :: "string option"
  se_actor_id :: uuid
  se_membership_id :: "uuid option"
  se_command_id :: uuid
  se_idempotency_key :: uuid
  se_correlation_id :: "uuid option"

record signature_row =
  sg_id :: uuid
  sg_tenant_id :: uuid
  sg_submission_package_id :: uuid
  sg_case_id :: uuid
  sg_provider :: string
  sg_signer_membership_id :: uuid
  sg_expected_package_version :: int
  sg_status :: string
  sg_provider_reference_hash :: "string option"
  sg_signature_sha256 :: "string option"
  sg_actor_id :: uuid
  sg_membership_id :: "uuid option"
  sg_command_id :: uuid
  sg_idempotency_key :: uuid
  sg_correlation_id :: "uuid option"

record submission_tables =
  st_cases :: "gate_case_row list"
  st_decisions :: "decision_row list"
  st_context_refs :: "context_ref_row list"
  st_requirements :: "requirement_row list"
  st_confirmations :: "confirmation_row list"
  st_conditions :: "condition_row list"
  st_risk_links :: "risk_link_row list"
  st_patron :: pa_tables
  st_preparations :: "preparation_row list"
  st_readiness :: "readiness_row list"
  st_technical :: "technical_row list"
  st_financials :: "financial_row list"
  st_proposals :: "proposal_row list"
  st_capabilities :: "capability_row list"
  st_capability_versions :: "capability_version_row list"
  st_proof_links :: "proof_link_row list"
  st_enterprise_documents :: "enterprise_document_row list"
  st_packages :: "package_row list"
  st_evidence :: "evidence_row list"
  st_signatures :: "signature_row list"
  st_audit :: "audit_row list"

definition pk_clash :: "package_row \<Rightarrow> package_row \<Rightarrow> bool" where
  "pk_clash r r' =
     (pk_id r = pk_id r'
      \<or> (pk_tenant_id r, pk_preparation_package_id r, pk_version r)
        = (pk_tenant_id r', pk_preparation_package_id r', pk_version r')
      \<or> (pk_tenant_id r, pk_command_id r) = (pk_tenant_id r', pk_command_id r'))"

definition pk_check :: "package_row \<Rightarrow> bool" where
  "pk_check r = (0 < pk_version r \<and> pk_state r \<in> {''PRET_CONTROLE'', ''AUTORISE_DEPOT''}
     \<and> 0 < pk_technical_document_version r \<and> 0 \<le> pk_financial_snapshot_revision r)"

definition se_clash :: "evidence_row \<Rightarrow> evidence_row \<Rightarrow> bool" where
  "se_clash r r' = (se_id r = se_id r' \<or> (se_tenant_id r, se_command_id r) = (se_tenant_id r', se_command_id r'))"

text \<open>The NOT NULL on the membership comes with the CHECK constraints.\<close>

definition se_check :: "evidence_row \<Rightarrow> bool" where
  "se_check r = (se_evidence_type r \<in> {''MANUAL_RECEIPT'', ''MANUAL_PORTAL_REFERENCE''}
     \<and> se_status r \<in> {''RECEIVED'', ''REJECTED''} \<and> se_membership_id r \<noteq> None)"

definition sg_clash :: "signature_row \<Rightarrow> signature_row \<Rightarrow> bool" where
  "sg_clash r r' = (sg_id r = sg_id r' \<or> (sg_tenant_id r, sg_command_id r) = (sg_tenant_id r', sg_command_id r'))"

definition sg_check :: "signature_row \<Rightarrow> bool" where
  "sg_check r = (sg_status r \<in> {''REQUESTED'', ''SIGNED'', ''REJECTED''} \<and> 0 < sg_expected_package_version r
     \<and> (case sg_provider_reference_hash r of None \<Rightarrow> True | Some h \<Rightarrow> hex64_pattern h)
     \<and> (case sg_signature_sha256 r of None \<Rightarrow> True | Some h \<Rightarrow> hex64_pattern h) \<and> sg_membership_id r \<noteq> None)"

end
