(* ===== verification/Submission.thy ===== *)
theory Submission
  imports SubmissionTables "HOL-Library.Product_Lexorder"
begin

text \<open>
  The submission module, \<open>backend/app/modules/submission\<close>: the reader that collects the facts of
  the decision gate from the tables, the handler that freezes a package for human submission, the
  records of evidence and of electronic signatures, the services that guard them, and the export
  of a package.

  Parameters of the model:
  \<open>stamp\<close> is \<open>isoformat\<close> of a timestamp as the database driver delivers it, \<open>archive\<close> the ZIP
  container over zlib, and \<open>storage\<close> the document store; a byte string is the list of its bytes.
\<close>

section \<open>The decision gate\<close>

definition case_applicable_dce :: "uuid \<Rightarrow> uuid \<Rightarrow> submission_tables \<Rightarrow> uuid option" where
  "case_applicable_dce tid cid t =
     (case List.find (\<lambda>r. gc_tenant_id r = tid \<and> gc_id r = cid) (st_cases t) of
        None \<Rightarrow> None | Some r \<Rightarrow> gc_applicable_dce_version_id r)"

definition context_requirements :: "uuid \<Rightarrow> uuid \<Rightarrow> submission_tables \<Rightarrow> uuid list" where
  "context_requirements tid xid t =
     map gx_aggregate_id (filter (\<lambda>r. gx_tenant_id r = tid \<and> gx_decision_context_id r = xid
       \<and> gx_aggregate_type r = ''DCE_REQUIREMENT'') (st_context_refs t))"

text \<open>The join of the requirements with their current confirmations.\<close>

definition confirmed_pairs ::
  "uuid \<Rightarrow> uuid \<Rightarrow> uuid list \<Rightarrow> submission_tables \<Rightarrow> (requirement_row \<times> confirmation_row) list" where
  "confirmed_pairs tid vid rids t =
     filter (\<lambda>(q, k). gk_tenant_id k = gq_tenant_id q \<and> gk_requirement_id k = gq_id q
       \<and> gq_tenant_id q = tid \<and> gq_dce_version_id q = vid \<and> gq_id q \<in> set rids \<and> gk_outcome k = ''CONFIRMED'')
       (List.product (st_requirements t) (st_confirmations t))"

definition all_dce_requirements_confirmed :: "uuid \<Rightarrow> uuid \<Rightarrow> uuid option \<Rightarrow> submission_tables \<Rightarrow> bool" where
  "all_dce_requirements_confirmed tid cid xid t =
     (case xid of None \<Rightarrow> False | Some x \<Rightarrow>
      (case case_applicable_dce tid cid t of None \<Rightarrow> False | Some vid \<Rightarrow>
       let rids = context_requirements tid x t in
       if rids = [] then True else length (confirmed_pairs tid vid rids t) = length rids))"

definition link_action_key :: "risk_link_row \<Rightarrow> string" where
  "link_action_key l = ''decision-risk-requirement:'' @ uuid_str (gl_id l)"

text \<open>The outer join: the actions of a link, or one row without an action.\<close>

definition link_actions :: "uuid \<Rightarrow> uuid \<Rightarrow> risk_link_row \<Rightarrow> submission_tables \<Rightarrow> pa_row option list" where
  "link_actions tid cid l t =
     (let as = filter (\<lambda>a. pa_tenant_id a = tid \<and> pa_case_id a = Some cid \<and> pa_functional_key a = link_action_key l)
                 (pa_actions (st_patron t)) in
      if as = [] then [None] else map Some as)"

definition action_unresolved :: "uuid \<Rightarrow> submission_tables \<Rightarrow> pa_row option \<Rightarrow> bool" where
  "action_unresolved tid t a =
     (case a of None \<Rightarrow> True | Some r \<Rightarrow>
      (case latest_transition tid (pa_id r) (pa_transitions (st_patron t)) of
         None \<Rightarrow> pa_state r \<notin> {''COMPLETED'', ''ABANDONED''}
       | Some l \<Rightarrow> (if pt_to_state l = [] then pa_state r else pt_to_state l) \<notin> {''COMPLETED'', ''ABANDONED''}))"

definition case_risk_links :: "uuid \<Rightarrow> uuid \<Rightarrow> submission_tables \<Rightarrow> risk_link_row list" where
  "case_risk_links tid cid t = filter (\<lambda>l. gl_tenant_id l = tid \<and> gl_case_id l = cid) (st_risk_links t)"

definition unresolved_risk_action_count :: "uuid \<Rightarrow> uuid \<Rightarrow> submission_tables \<Rightarrow> int" where
  "unresolved_risk_action_count tid cid t =
     int (length (filter (action_unresolved tid t)
       (concat (map (\<lambda>l. link_actions tid cid l t) (case_risk_links tid cid t)))))"

definition current_decision :: "uuid \<Rightarrow> uuid \<Rightarrow> submission_tables \<Rightarrow> decision_row option" where
  "current_decision tid cid t =
     first_max (\<lambda>d. (gd_cycle_number d, gd_updated_at d))
       (filter (\<lambda>d. gd_tenant_id d = tid \<and> gd_case_id d = cid \<and> gd_decision_type d = ''GO_NO_GO''
          \<and> gd_validity d = ''CURRENT'') (st_decisions t))"

definition open_condition_count :: "uuid \<Rightarrow> uuid \<Rightarrow> submission_tables \<Rightarrow> int" where
  "open_condition_count tid did t =
     int (length (filter (\<lambda>n. gn_tenant_id n = tid \<and> gn_decision_id n = did \<and> gn_status n = ''OPEN'') (st_conditions t)))"

definition read_gate :: "uuid \<Rightarrow> uuid \<Rightarrow> submission_tables \<Rightarrow> gate_snapshot option" where
  "read_gate tid cid t =
     (case current_decision tid cid t of None \<Rightarrow> None | Some d \<Rightarrow>
      Some \<lparr> g_lifecycle = gd_lifecycle d, g_outcome = gd_outcome d, g_context_status = gd_context_status d,
        g_condition_status = gd_condition_status d, g_open_condition_count = open_condition_count tid (gd_id d) t,
        g_unresolved_risk_action_count = unresolved_risk_action_count tid cid t,
        g_all_dce_requirements_confirmed =
          all_dce_requirements_confirmed tid cid (gd_selected_final_context_id d) t \<rparr>)"

text \<open>\<open>_assert_decision_gate\<close>: the error it raises, if any. The reader is optional in the wiring.\<close>

type_synonym gate_reader = "uuid \<Rightarrow> uuid \<Rightarrow> submission_tables \<Rightarrow> gate_snapshot option"

definition assert_decision_gate :: "gate_reader option \<Rightarrow> uuid \<Rightarrow> uuid \<Rightarrow> submission_tables \<Rightarrow> exn option" where
  "assert_decision_gate reader tid cid t =
     (case reader of None \<Rightarrow> Some (CommandExecutionError ''DECISION_GATE_NOT_CONFIGURED'') | Some read \<Rightarrow>
      (case read tid cid t of None \<Rightarrow> Some (CommandExecutionError ''DECISION_GATE_NOT_AVAILABLE'') | Some g \<Rightarrow>
       if \<not> can_submit (evaluate_submission_gate g) then Some (CommandExecutionError ''DECISION_SUBMISSION_BLOCKED'')
       else None))"

section \<open>Canonical text with \<open>ensure_ascii=False\<close>\<close>

definition json_raw_char :: "char \<Rightarrow> string" where
  "json_raw_char c =
     (let n = code c; bs = char_of (92::nat) in
      if n = 34 then [bs, CHR 0x22] else if n = 92 then [bs, bs]
      else if n = 10 then [bs, CHR ''n''] else if n = 13 then [bs, CHR ''r'']
      else if n = 9 then [bs, CHR ''t''] else if n = 12 then [bs, CHR ''f'']
      else if n = 8 then [bs, CHR ''b''] else if n < 32 then bs # CHR ''u'' # hex4 n else [c])"

definition json_raw_string :: "string \<Rightarrow> string" where
  "json_raw_string s = CHR 0x22 # concat (map json_raw_char s) @ [CHR 0x22]"

fun json_raw_text :: "json \<Rightarrow> string" and
    json_raw_items :: "json list \<Rightarrow> string" and
    json_raw_members :: "(string \<times> json) list \<Rightarrow> string" where
  "json_raw_text JNull = ''null''"
| "json_raw_text (JBool b) = (if b then ''true'' else ''false'')"
| "json_raw_text (JInt i) = int_str i"
| "json_raw_text (JStr s) = json_raw_string s"
| "json_raw_text (JList xs) = ''['' @ json_raw_items xs @ '']''"
| "json_raw_text (JObj kvs) = ''{'' @ json_raw_members kvs @ ''}''"
| "json_raw_items [] = []"
| "json_raw_items [x] = json_raw_text x"
| "json_raw_items (x # y # ys) = json_raw_text x @ '','' @ json_raw_items (y # ys)"
| "json_raw_members [] = []"
| "json_raw_members [(k, v)] = json_raw_string k @ '':'' @ json_raw_text v"
| "json_raw_members ((k, v) # m # ms) = json_raw_string k @ '':'' @ json_raw_text v @ '','' @ json_raw_members (m # ms)"

definition manifest_text :: "json \<Rightarrow> string" where
  "manifest_text m = json_raw_text (canon m)"

definition manifest_hash :: "json \<Rightarrow> string" where
  "manifest_hash m = sha256_hex (manifest_text m)"

section \<open>Enterprise proofs\<close>

definition proof_json :: "(instant \<Rightarrow> string) \<Rightarrow> enterprise_document_row \<Rightarrow> json" where
  "proof_json stamp d = JObj [(''document_id'', JStr (uuid_str (ed_id d))), (''document_kind'', JStr (ed_document_kind d)),
     (''document_label'', JStr (ed_document_label d)), (''sha256'', JStr (ed_sha256 d)),
     (''expires_at'', case ed_expires_at d of None \<Rightarrow> JNull | Some e \<Rightarrow> JStr (stamp e))]"

definition proof_problem :: "uuid \<Rightarrow> instant \<Rightarrow> enterprise_document_row option \<Rightarrow> string option" where
  "proof_problem company now doc =
     (case doc of None \<Rightarrow> Some ''CAPABILITY_PROOF_UNAUTHORIZED'' | Some d \<Rightarrow>
      if ed_company_id d \<noteq> company then Some ''CAPABILITY_PROOF_UNAUTHORIZED''
      else if ed_verification_status d \<noteq> ''VALIDATED'' then Some ''CAPABILITY_PROOF_UNAUTHORIZED''
      else if (case ed_expires_at d of None \<Rightarrow> False | Some e \<Rightarrow> e \<le> now) then Some ''CAPABILITY_PROOF_EXPIRED''
      else None)"

fun proof_documents ::
  "(instant \<Rightarrow> string) \<Rightarrow> uuid \<Rightarrow> uuid \<Rightarrow> instant \<Rightarrow> enterprise_document_row list \<Rightarrow> proof_link_row list \<Rightarrow> exn + json list" where
  "proof_documents stamp tid company now docs [] = Inr []"
| "proof_documents stamp tid company now docs (l # ls) =
     (let doc = List.find (\<lambda>d. ed_tenant_id d = tid \<and> ed_id d = el_document_id l) docs in
      case proof_problem company now doc of Some e \<Rightarrow> Inl (CommandExecutionError e) | None \<Rightarrow>
      (case proof_documents stamp tid company now docs ls of Inl e \<Rightarrow> Inl e | Inr js \<Rightarrow> Inr (proof_json stamp (the doc) # js)))"

definition find_capability :: "uuid \<Rightarrow> proposal_row \<Rightarrow> submission_tables \<Rightarrow> capability_row option" where
  "find_capability tid p t = List.find (\<lambda>r. ec_tenant_id r = tid \<and> ec_id r = ep_capability_id p) (st_capabilities t)"

definition find_capability_version :: "uuid \<Rightarrow> proposal_row \<Rightarrow> submission_tables \<Rightarrow> capability_version_row option" where
  "find_capability_version tid p t =
     List.find (\<lambda>r. cv_tenant_id r = tid \<and> cv_id r = ep_capability_version_id p \<and> cv_capability_id r = ep_capability_id p)
       (st_capability_versions t)"

definition version_links :: "uuid \<Rightarrow> capability_version_row \<Rightarrow> submission_tables \<Rightarrow> proof_link_row list" where
  "version_links tid v t =
     sort_key el_document_id (filter (\<lambda>l. el_tenant_id l = tid \<and> el_capability_version_id l = cv_id v) (st_proof_links t))"

definition enterprise_entry :: "capability_row \<Rightarrow> capability_version_row \<Rightarrow> json list \<Rightarrow> json" where
  "enterprise_entry c v docs = JObj [(''kind'', JStr ''ENTERPRISE_CAPABILITY''), (''capability_id'', JStr (uuid_str (ec_id c))),
     (''capability_kind'', JStr (ec_capability_kind c)), (''name'', JStr (ec_name c)), (''summary'', JStr (ec_summary c)),
     (''version_id'', JStr (uuid_str (cv_id v))), (''version_number'', JInt (cv_version_number v)),
     (''title'', JStr (cv_title v)), (''description'', JStr (cv_description v)), (''usage_scope'', JStr (cv_usage_scope v)),
     (''proof_documents'', JList docs)]"

definition proposal_entry ::
  "(instant \<Rightarrow> string) \<Rightarrow> uuid \<Rightarrow> instant \<Rightarrow> submission_tables \<Rightarrow> proposal_row \<Rightarrow> exn + json" where
  "proposal_entry stamp tid now t p =
     (if ep_validity_state p \<noteq> ''CURRENT'' then Inl (CommandExecutionError ''CAPABILITY_PROOF_EXPIRED'')
      else (case (find_capability tid p t, find_capability_version tid p t) of
        (Some c, Some v) \<Rightarrow>
          if ec_state c \<noteq> ''ACTIVE'' then Inl (CommandExecutionError ''CAPABILITY_PROOF_UNAUTHORIZED'')
          else if cv_valid_from v > now \<or> (case cv_valid_until v of None \<Rightarrow> False | Some u \<Rightarrow> u \<le> now)
            then Inl (CommandExecutionError ''CAPABILITY_PROOF_EXPIRED'')
          else if version_links tid v t = [] then Inl (CommandExecutionError ''CAPABILITY_PROOF_MISSING'')
          else (case proof_documents stamp tid (ec_company_id c) now (st_enterprise_documents t) (version_links tid v t) of
                  Inl e \<Rightarrow> Inl e | Inr docs \<Rightarrow> Inr (enterprise_entry c v docs))
      | _ \<Rightarrow> Inl (CommandExecutionError ''CAPABILITY_PROOF_UNAUTHORIZED'')))"

fun proposal_entries ::
  "(instant \<Rightarrow> string) \<Rightarrow> uuid \<Rightarrow> instant \<Rightarrow> submission_tables \<Rightarrow> proposal_row list \<Rightarrow> exn + json list" where
  "proposal_entries stamp tid now t [] = Inr []"
| "proposal_entries stamp tid now t (p # ps) =
     (case proposal_entry stamp tid now t p of Inl e \<Rightarrow> Inl e | Inr j \<Rightarrow>
      (case proposal_entries stamp tid now t ps of Inl e \<Rightarrow> Inl e | Inr js \<Rightarrow> Inr (j # js)))"

definition validated_enterprise_entries ::
  "(instant \<Rightarrow> string) \<Rightarrow> preparation_row \<Rightarrow> command_context \<Rightarrow> submission_tables \<Rightarrow> exn + json list" where
  "validated_enterprise_entries stamp prep ctx t =
     proposal_entries stamp (cc_tenant_id ctx) (cc_received_at ctx) t
       (sort_key ep_id (filter (\<lambda>p. ep_tenant_id p = cc_tenant_id ctx \<and> ep_case_id p = sp_case_id prep
          \<and> ep_assignment_id p = sp_assignment_id prep) (st_proposals t)))"

section \<open>Commands\<close>

record prepare_package_fields =
  pq_preparation_package_id :: uuid
  pq_expected_preparation_revision :: int

record evidence_fields =
  vf_evidence_id :: uuid
  vf_submission_package_id :: uuid
  vf_evidence_type :: string
  vf_external_reference_hash :: string
  vf_evidence_sha256 :: string
  vf_notes_redacted :: "string option"

record signature_request_fields =
  gf_signature_id :: uuid
  gf_submission_package_id :: uuid
  gf_expected_package_version :: int
  gf_signer_membership_id :: uuid
  gf_provider :: string

text \<open>The values the pattern of \<open>outcome\<close> lets through.\<close>

datatype signature_outcome = Signature_SIGNED | Signature_REJECTED

fun signature_outcome_value :: "signature_outcome \<Rightarrow> string" where
  "signature_outcome_value Signature_SIGNED = ''SIGNED''"
| "signature_outcome_value Signature_REJECTED = ''REJECTED''"

record signature_callback_fields =
  gb_signature_id :: uuid
  gb_submission_package_id :: uuid
  gb_provider :: string
  gb_provider_reference_hash :: string
  gb_signature_sha256 :: string
  gb_outcome :: signature_outcome

datatype submission_command =
    PrepareSubmissionPackage prepare_package_fields
  | RecordSubmissionEvidence evidence_fields
  | RequestSubmissionSignature signature_request_fields
  | RecordSubmissionSignature signature_callback_fields

fun submission_command_type :: "submission_command \<Rightarrow> string" where
  "submission_command_type (PrepareSubmissionPackage f) = ''PrepareSubmissionPackage''"
| "submission_command_type (RecordSubmissionEvidence f) = ''RecordSubmissionEvidence''"
| "submission_command_type (RequestSubmissionSignature f) = ''RequestSubmissionSignature''"
| "submission_command_type (RecordSubmissionSignature f) = ''RecordSubmissionSignature''"

definition submission_outcome :: "string \<Rightarrow> string \<Rightarrow> string \<Rightarrow> uuid \<Rightarrow> int \<Rightarrow> (string \<times> json) list \<Rightarrow> handler_outcome" where
  "submission_outcome rcode etype agg u revn payload = \<lparr> ho_result_code = rcode,
     ho_aggregate_refs = [JObj [(''aggregate_type'', JStr agg), (''aggregate_id'', JStr (uuid_str u)),
       (''aggregate_revision'', JInt revn)]],
     ho_events = [\<lparr> pe_aggregate_type = agg, pe_aggregate_id = u, pe_aggregate_revision = revn,
       pe_event_type = etype, pe_payload = payload, pe_topic = ''cockpit_projection'', pe_payload_version = 1 \<rparr>] \<rparr>"

section \<open>Preparing a package\<close>

definition find_preparation :: "uuid \<Rightarrow> uuid \<Rightarrow> submission_tables \<Rightarrow> preparation_row option" where
  "find_preparation tid pid t = List.find (\<lambda>r. sp_tenant_id r = tid \<and> sp_id r = pid) (st_preparations t)"

definition latest_readiness :: "uuid \<Rightarrow> uuid \<Rightarrow> submission_tables \<Rightarrow> readiness_row option" where
  "latest_readiness tid pid t =
     first_max sr_revision (filter (\<lambda>r. sr_tenant_id r = tid \<and> sr_package_id r = pid) (st_readiness t))"

definition latest_technical :: "uuid \<Rightarrow> uuid \<Rightarrow> submission_tables \<Rightarrow> technical_row option" where
  "latest_technical tid pid t =
     first_max (\<lambda>r. (sd_version r, sd_id r))
       (filter (\<lambda>r. sd_tenant_id r = tid \<and> sd_package_id r = pid \<and> sd_state r = ''GENERATED'') (st_technical t))"

text \<open>\<open>DESC\<close> puts a NULL first.\<close>

definition latest_price :: "uuid \<Rightarrow> uuid \<Rightarrow> submission_tables \<Rightarrow> financial_row option" where
  "latest_price tid cid t =
     first_max (\<lambda>r. (case fs_published_at r of None \<Rightarrow> (1 :: int, 0) | Some at \<Rightarrow> (0, at), fs_id r))
       (filter (\<lambda>r. fs_tenant_id r = tid \<and> fs_case_id r = cid \<and> fs_state r = ''PUBLISHED'') (st_financials t))"

definition preparation_packages :: "uuid \<Rightarrow> uuid \<Rightarrow> package_row list \<Rightarrow> package_row list" where
  "preparation_packages tid pid rows = filter (\<lambda>r. pk_tenant_id r = tid \<and> pk_preparation_package_id r = pid) rows"

definition next_package_version :: "uuid \<Rightarrow> uuid \<Rightarrow> package_row list \<Rightarrow> int" where
  "next_package_version tid pid rows =
     (let vs = map pk_version (preparation_packages tid pid rows) in (if vs = [] then 0 else Max (set vs)) + 1)"

definition package_manifest ::
  "preparation_row \<Rightarrow> readiness_row \<Rightarrow> technical_row \<Rightarrow> financial_row \<Rightarrow> json list \<Rightarrow> json" where
  "package_manifest prep rd doc fin entries = JObj
     [(''schema_version'', JInt 2), (''case_id'', JStr (uuid_str (sp_case_id prep))),
      (''preparation_package_id'', JStr (uuid_str (sp_id prep))), (''dce_version_id'', JStr (uuid_str (sp_dce_version_id prep))),
      (''readiness'', JObj [(''revision'', JInt (sr_revision rd)), (''state'', JStr (sr_state rd)),
         (''blocker_codes'', JList (map JStr (sort (sr_blocker_codes rd)))),
         (''warning_codes'', JList (map JStr (sort (sr_warning_codes rd))))]),
      (''entries'', JList ([JObj [(''kind'', JStr (sd_document_kind doc)), (''document_id'', JStr (uuid_str (sd_id doc))),
            (''version'', JInt (sd_version doc)), (''sha256'', JStr (sd_content_sha256 doc))],
          JObj [(''kind'', JStr ''OFFICIAL_PRICING_VERSION''), (''snapshot_id'', JStr (uuid_str (fs_id fin))),
            (''revision'', JInt (fs_aggregate_revision fin))]] @ entries)),
      (''external_submission'', JStr ''NOT_PERFORMED'')]"

definition new_package ::
  "'c app_command \<Rightarrow> command_context \<Rightarrow> uuid \<Rightarrow> uuid \<Rightarrow> preparation_row \<Rightarrow> technical_row \<Rightarrow> financial_row \<Rightarrow> int \<Rightarrow> json
   \<Rightarrow> package_row" where
  "new_package c ctx mid u prep doc fin version m = \<lparr> pk_id = u, pk_tenant_id = cc_tenant_id ctx,
     pk_preparation_package_id = sp_id prep, pk_case_id = sp_case_id prep, pk_dce_version_id = sp_dce_version_id prep,
     pk_technical_document_id = sd_id doc, pk_technical_document_version = sd_version doc,
     pk_financial_snapshot_id = fs_id fin, pk_financial_snapshot_revision = fs_aggregate_revision fin,
     pk_version = version, pk_state = ''PRET_CONTROLE'', pk_manifest_sha256 = manifest_hash m, pk_manifest = m,
     pk_actor_id = cc_actor_id ctx, pk_membership_id = mid, pk_command_id = em_command_id c,
     pk_idempotency_key = em_idempotency_key c, pk_correlation_id = em_correlation_id c \<rparr>"

definition prepare_package ::
  "(instant \<Rightarrow> string) \<Rightarrow> gate_reader option \<Rightarrow> prepare_package_fields \<Rightarrow> 'c app_command \<Rightarrow> command_context
   \<Rightarrow> (nat \<Rightarrow> uuid) \<Rightarrow> submission_tables \<Rightarrow> exn + (handler_outcome \<times> submission_tables)" where
  "prepare_package stamp reader f c ctx fresh t =
     (case cc_membership_id ctx of None \<Rightarrow> Inl (CommandExecutionError ''SUBMISSION_PATRON_REQUIRED'') | Some mid \<Rightarrow>
      if cc_actor_kind ctx \<noteq> ''PATRON_ADMIN'' then Inl (CommandExecutionError ''SUBMISSION_PATRON_REQUIRED'')
      else (case find_preparation (cc_tenant_id ctx) (pq_preparation_package_id f) t of
        None \<Rightarrow> Inl (CommandExecutionError ''NOT_FOUND_OR_FORBIDDEN'')
      | Some prep \<Rightarrow>
        if sp_aggregate_revision prep \<noteq> pq_expected_preparation_revision f then Inl (CommandExecutionError ''VERSION_CONFLICT'')
        else if sp_state prep \<notin> {''GENERATED'', ''READY'', ''A_REVIEW''} then Inl (CommandExecutionError ''PREPARATION_NOT_GENERATED'')
        else (case latest_readiness (cc_tenant_id ctx) (sp_id prep) t of
          None \<Rightarrow> Inl (CommandExecutionError ''READINESS_NOT_FOUND'')
        | Some rd \<Rightarrow>
          if sr_state rd = ''BLOCKED'' then Inl (CommandExecutionError ''PREPARATION_BLOCKED'')
          else (case latest_technical (cc_tenant_id ctx) (sp_id prep) t of
            None \<Rightarrow> Inl (CommandExecutionError ''TECHNICAL_DOCUMENT_REQUIRED'')
          | Some doc \<Rightarrow>
            (case latest_price (cc_tenant_id ctx) (sp_case_id prep) t of
               None \<Rightarrow> Inl (CommandExecutionError ''OFFICIAL_PRICE_NOT_PUBLISHED'')
             | Some fin \<Rightarrow>
               (case assert_decision_gate reader (cc_tenant_id ctx) (sp_case_id prep) t of Some e \<Rightarrow> Inl e | None \<Rightarrow>
                (case validated_enterprise_entries stamp prep ctx t of Inl e \<Rightarrow> Inl e | Inr entries \<Rightarrow>
                 (let version = next_package_version (cc_tenant_id ctx) (sp_id prep) (st_packages t);
                      m = package_manifest prep rd doc fin entries;
                      p = new_package c ctx mid (fresh 0) prep doc fin version m in
                  case insert_row pk_check pk_clash p (st_packages t) of Inl e \<Rightarrow> Inl e | Inr rows \<Rightarrow>
                  Inr (submission_outcome ''SUBMISSION_PACKAGE_PREPARED'' ''SubmissionPackagePrepared'' ''SubmissionPackage''
                         (pk_id p) (pk_version p)
                         [(''submission_package_id'', JStr (uuid_str (pk_id p))), (''preparation_package_id'', JStr (uuid_str (sp_id prep))),
                          (''version'', JInt (pk_version p)), (''state'', JStr (pk_state p)),
                          (''manifest_sha256'', JStr (pk_manifest_sha256 p)), (''external_submission'', JStr ''NOT_PERFORMED'')],
                       t\<lparr> st_packages := rows \<rparr>)))))))))"

section \<open>Evidence and signatures\<close>

definition find_package :: "uuid \<Rightarrow> uuid \<Rightarrow> package_row list \<Rightarrow> package_row option" where
  "find_package tid pid rows = List.find (\<lambda>r. pk_tenant_id r = tid \<and> pk_id r = pid) rows"

definition new_evidence :: "evidence_fields \<Rightarrow> 'c app_command \<Rightarrow> command_context \<Rightarrow> package_row \<Rightarrow> evidence_row" where
  "new_evidence f c ctx p = \<lparr> se_id = vf_evidence_id f, se_tenant_id = cc_tenant_id ctx, se_submission_package_id = pk_id p,
     se_case_id = pk_case_id p, se_evidence_type = vf_evidence_type f, se_status = ''RECEIVED'',
     se_external_reference_hash = vf_external_reference_hash f, se_evidence_sha256 = vf_evidence_sha256 f,
     se_notes_redacted = vf_notes_redacted f, se_actor_id = cc_actor_id ctx, se_membership_id = cc_membership_id ctx,
     se_command_id = em_command_id c, se_idempotency_key = em_idempotency_key c, se_correlation_id = em_correlation_id c \<rparr>"

definition record_evidence ::
  "evidence_fields \<Rightarrow> 'c app_command \<Rightarrow> command_context \<Rightarrow> submission_tables \<Rightarrow> exn + (handler_outcome \<times> submission_tables)" where
  "record_evidence f c ctx t =
     (case find_package (cc_tenant_id ctx) (vf_submission_package_id f) (st_packages t) of
        None \<Rightarrow> Inl (CommandExecutionError ''NOT_FOUND_OR_FORBIDDEN'')
      | Some p \<Rightarrow>
        if list_ex (\<lambda>r. se_tenant_id r = cc_tenant_id ctx \<and> se_command_id r = em_command_id c) (st_evidence t)
          then Inl (CommandExecutionError ''SUBMISSION_EVIDENCE_ALREADY_EXISTS'')
        else
          (let r = new_evidence f c ctx p in
           case insert_row se_check se_clash r (st_evidence t) of Inl e \<Rightarrow> Inl e | Inr rows \<Rightarrow>
           Inr (submission_outcome ''SUBMISSION_EVIDENCE_RECORDED'' ''SubmissionEvidenceRecorded'' ''SubmissionEvidence'' (se_id r) 1
                  [(''submission_evidence_id'', JStr (uuid_str (se_id r))), (''submission_package_id'', JStr (uuid_str (pk_id p))),
                   (''status'', JStr (se_status r)), (''external_submission'', JStr ''NOT_PERFORMED'')],
                t\<lparr> st_evidence := rows \<rparr>)))"

definition new_signature :: "signature_request_fields \<Rightarrow> 'c app_command \<Rightarrow> command_context \<Rightarrow> package_row \<Rightarrow> signature_row" where
  "new_signature f c ctx p = \<lparr> sg_id = gf_signature_id f, sg_tenant_id = cc_tenant_id ctx, sg_submission_package_id = pk_id p,
     sg_case_id = pk_case_id p, sg_provider = gf_provider f, sg_signer_membership_id = gf_signer_membership_id f,
     sg_expected_package_version = pk_version p, sg_status = ''REQUESTED'', sg_provider_reference_hash = None,
     sg_signature_sha256 = None, sg_actor_id = cc_actor_id ctx, sg_membership_id = cc_membership_id ctx,
     sg_command_id = em_command_id c, sg_idempotency_key = em_idempotency_key c, sg_correlation_id = em_correlation_id c \<rparr>"

definition request_signature ::
  "signature_request_fields \<Rightarrow> 'c app_command \<Rightarrow> command_context \<Rightarrow> submission_tables
   \<Rightarrow> exn + (handler_outcome \<times> submission_tables)" where
  "request_signature f c ctx t =
     (case find_package (cc_tenant_id ctx) (gf_submission_package_id f) (st_packages t) of
        None \<Rightarrow> Inl (CommandExecutionError ''NOT_FOUND_OR_FORBIDDEN'')
      | Some p \<Rightarrow>
        if pk_version p \<noteq> gf_expected_package_version f then Inl (CommandExecutionError ''VERSION_CONFLICT'')
        else
          (let r = new_signature f c ctx p in
           case insert_row sg_check sg_clash r (st_signatures t) of Inl e \<Rightarrow> Inl e | Inr rows \<Rightarrow>
           Inr (submission_outcome ''SUBMISSION_SIGNATURE_REQUESTED'' ''SubmissionSignatureRequested'' ''SubmissionSignature'' (sg_id r) 1
                  [(''submission_package_id'', JStr (uuid_str (pk_id p))), (''provider'', JStr (sg_provider r)),
                   (''status'', JStr (sg_status r))],
                t\<lparr> st_signatures := rows \<rparr>)))"

text \<open>
  The UPDATE of a signature row. The trigger \<open>trg_submission_signature_append_only\<close> of the migration that creates the table
  refuses every UPDATE of a row, before any constraint is checked.
\<close>

definition flush_signature_update :: "uuid \<Rightarrow> signature_row \<Rightarrow> signature_row list \<Rightarrow> exn + signature_row list" where
  "flush_signature_update sid r' rows =
     (if list_ex (\<lambda>x. sg_id x = sid) rows then Inl DatabaseError else Inr (update_where (\<lambda>x. sg_id x = sid) (\<lambda>_. r') rows))"

definition record_signature ::
  "signature_callback_fields \<Rightarrow> command_context \<Rightarrow> submission_tables \<Rightarrow> exn + (handler_outcome \<times> submission_tables)" where
  "record_signature f ctx t =
     (case List.find (\<lambda>r. sg_tenant_id r = cc_tenant_id ctx \<and> sg_id r = gb_signature_id f) (st_signatures t) of
        None \<Rightarrow> Inl (CommandExecutionError ''NOT_FOUND_OR_FORBIDDEN'')
      | Some r \<Rightarrow>
        if sg_provider r \<noteq> gb_provider f \<or> gb_submission_package_id f \<noteq> sg_submission_package_id r
          then Inl (CommandExecutionError ''NOT_FOUND_OR_FORBIDDEN'')
        else if sg_status r \<noteq> ''REQUESTED'' then Inl (CommandExecutionError ''SIGNATURE_ALREADY_FINALIZED'')
        else
          (let r' = r\<lparr> sg_status := signature_outcome_value (gb_outcome f), sg_provider_reference_hash := Some (gb_provider_reference_hash f),
                      sg_signature_sha256 := Some (gb_signature_sha256 f) \<rparr> in
           case flush_signature_update (sg_id r) r' (st_signatures t) of Inl e \<Rightarrow> Inl e
           | Inr rows \<Rightarrow> Inr (submission_outcome ''SUBMISSION_SIGNATURE_RECORDED'' ''SubmissionSignatureRecorded'' ''SubmissionSignature'' (sg_id r') 2
                  [(''submission_package_id'', JStr (uuid_str (sg_submission_package_id r'))), (''provider'', JStr (sg_provider r')),
                   (''status'', JStr (sg_status r')), (''external_submission'', JStr ''NOT_PERFORMED'')],
                t\<lparr> st_signatures := rows \<rparr>)))"

section \<open>The registry\<close>

definition run_submission ::
  "(instant \<Rightarrow> string) \<Rightarrow> gate_reader option \<Rightarrow> submission_command app_command \<Rightarrow> command_context \<Rightarrow> (nat \<Rightarrow> uuid)
   \<Rightarrow> submission_tables \<Rightarrow> exn + (handler_outcome \<times> submission_tables)" where
  "run_submission stamp reader c ctx fresh t =
     (case em_body c of
        PrepareSubmissionPackage f \<Rightarrow> prepare_package stamp reader f c ctx fresh t
      | RecordSubmissionEvidence f \<Rightarrow> record_evidence f c ctx t
      | RequestSubmissionSignature f \<Rightarrow> request_signature f c ctx t
      | RecordSubmissionSignature f \<Rightarrow> record_signature f ctx t)"

definition submission_handlers ::
  "(instant \<Rightarrow> string) \<Rightarrow> gate_reader option \<Rightarrow> string \<Rightarrow> (submission_command, submission_tables) handler option" where
  "submission_handlers stamp reader ctype =
     (if ctype \<in> {''PrepareSubmissionPackage'', ''RecordSubmissionEvidence'', ''RequestSubmissionSignature'', ''RecordSubmissionSignature''}
      then Some (\<lambda>c ctx fresh t.
        if submission_command_type (em_body c) \<noteq> ctype then Inl KeyError else run_submission stamp reader c ctx fresh t)
      else None)"

section \<open>Services\<close>

text \<open>
  The guards of \<open>SubmissionPackageService.prepare\<close>, \<open>SubmissionEvidenceService\<close> and
  \<open>SubmissionSignatureService\<close>: patron, policy, dispatcher. As in the actor facts the membership
  is never absent.
\<close>

definition submission_request :: "string \<Rightarrow> string \<Rightarrow> data_classification \<Rightarrow> bool \<Rightarrow> uuid \<Rightarrow> uuid \<Rightarrow> instant \<Rightarrow> authorization_request" where
  "submission_request action rtype cls mfa rid tid now = \<lparr> q_action = action,
     q_resource = \<lparr> z_resource_type = rtype, z_resource_id = rid, z_tenant_id = tid, z_classification = cls, z_case_id = None \<rparr>,
     q_mfa_required = mfa, q_evaluated_at = Some now \<rparr>"

type_synonym policy = "actor_context \<Rightarrow> authorization_request \<Rightarrow> authorization_decision"

text \<open>What the three services share after their first test: policy, then dispatch.\<close>

definition authorized_dispatch ::
  "(string \<Rightarrow> (submission_command, submission_tables) handler option)
   \<Rightarrow> policy \<Rightarrow> (submission_command app_command \<Rightarrow> (string \<times> json) list) \<Rightarrow> receipt_row list \<Rightarrow> (nat \<Rightarrow> uuid) \<Rightarrow> instant
   \<Rightarrow> actor_context \<Rightarrow> authorization_request \<Rightarrow> submission_command app_command \<Rightarrow> instant
   \<Rightarrow> submission_tables platform_db \<Rightarrow> (exn + dispatch_result) \<times> submission_tables platform_db" where
  "authorized_dispatch handlers policy dump seen fresh wall actor q c now db =
     (let d = policy actor q in
      if \<not> z_allowed d then (Inl (PermissionError (z_code d)), db)
      else dispatch dump handlers seen
        \<lparr> rq_command = c, rq_context = command_context_of actor (actor_kind_value (a_actor_kind actor)) now None,
          rq_fresh = fresh, rq_handler_fresh = fresh, rq_now = wall \<rparr> db)"

definition prepare_execute where
  "prepare_execute handlers policy dump seen fresh wall actor pid c now db =
     (if a_actor_kind actor \<noteq> PATRON_ADMIN then (Inl (PermissionError ''SUBMISSION_PATRON_REQUIRED''), db)
      else authorized_dispatch handlers policy dump seen fresh wall actor
        (submission_request ''submission.authorize'' ''PREPARATION_PACKAGE_SUBMISSION'' FINANCIAL_PRIVATE False pid
           (a_tenant_id actor) now) c now db)"

definition evidence_execute where
  "evidence_execute handlers policy dump seen fresh wall actor eid c now db =
     (if a_actor_kind actor \<noteq> PATRON_ADMIN then (Inl (PermissionError ''PATRON_REQUIRED''), db)
      else authorized_dispatch handlers policy dump seen fresh wall actor
        (submission_request ''submission.authorize'' ''SUBMISSION_EVIDENCE'' INTERNAL_OPERATIONAL False eid
           (a_tenant_id actor) now) c now db)"

text \<open>The provider the service is built with, and the one the command names, if it names one.\<close>

definition provider_pattern :: "string \<Rightarrow> bool" where
  "provider_pattern s =
     (case s of [] \<Rightarrow> False
      | c # cs \<Rightarrow> code_in 65 90 c \<and> 1 \<le> length cs \<and> length cs \<le> 63
          \<and> list_all (\<lambda>d. code_in 65 90 d \<or> code_in 48 57 d \<or> d \<in> set ''_.-'') cs)"

definition signature_service :: "string \<Rightarrow> exn + string" where
  "signature_service provider =
     (if \<not> provider_pattern (strip provider) then Inl (ValueError ''signature provider must be an uppercase closed identifier'')
      else Inr (strip provider))"

definition command_provider :: "submission_command \<Rightarrow> string option" where
  "command_provider body = (case body of RequestSubmissionSignature f \<Rightarrow> Some (gf_provider f)
     | RecordSubmissionSignature f \<Rightarrow> Some (gb_provider f) | _ \<Rightarrow> None)"

definition signature_execute where
  "signature_execute provider handlers policy dump seen fresh wall actor sid c now db =
     (if a_actor_kind actor \<noteq> PATRON_ADMIN \<or> \<not> membership_is_active actor then (Inl (PermissionError ''PATRON_REQUIRED''), db)
      else if (case command_provider (em_body c) of None \<Rightarrow> False | Some p \<Rightarrow> p \<noteq> provider)
        then (Inl (CommandExecutionError ''INVALID_PROVIDER''), db)
      else authorized_dispatch handlers policy dump seen fresh wall actor
        (submission_request ''submission.signature.write'' ''SUBMISSION_SIGNATURE'' SECURITY_RESTRICTED True sid
           (a_tenant_id actor) now) c now db)"

record signature_projection =
  sj_signature_id :: uuid
  sj_submission_package_id :: uuid
  sj_case_id :: uuid
  sj_provider :: string
  sj_status :: string
  sj_expected_package_version :: int
  sj_revision :: int

definition signature_projection_of :: "signature_row \<Rightarrow> signature_projection" where
  "signature_projection_of r = \<lparr> sj_signature_id = sg_id r, sj_submission_package_id = sg_submission_package_id r,
     sj_case_id = sg_case_id r, sj_provider = sg_provider r, sj_status = sg_status r,
     sj_expected_package_version = sg_expected_package_version r,
     sj_revision = (if sg_status r = ''REQUESTED'' then 1 else 2) \<rparr>"

definition signature_get :: "uuid \<Rightarrow> uuid \<Rightarrow> signature_row list \<Rightarrow> signature_projection option" where
  "signature_get tid sid rows = map_option signature_projection_of (List.find (\<lambda>r. sg_tenant_id r = tid \<and> sg_id r = sid) rows)"

definition signature_read :: "policy \<Rightarrow> actor_context \<Rightarrow> uuid \<Rightarrow> instant \<Rightarrow> submission_tables \<Rightarrow> exn + signature_projection" where
  "signature_read policy actor sid now t =
     (if a_actor_kind actor \<noteq> PATRON_ADMIN \<or> \<not> membership_is_active actor then Inl (PermissionError ''PATRON_REQUIRED'')
      else let d = policy actor (submission_request ''submission.signature.read'' ''SUBMISSION_SIGNATURE'' SECURITY_RESTRICTED
                                   False sid (a_tenant_id actor) now) in
      if \<not> z_allowed d then Inl (PermissionError (z_code d))
      else (case signature_get (a_tenant_id actor) sid (st_signatures t) of
              None \<Rightarrow> Inl (CommandExecutionError ''NOT_FOUND_OR_FORBIDDEN'') | Some p \<Rightarrow> Inr p))"

section \<open>Export\<close>

definition export_audit_entry :: "actor_context \<Rightarrow> uuid \<Rightarrow> uuid \<Rightarrow> instant \<Rightarrow> audit_entry" where
  "export_audit_entry actor pid cid now = \<lparr> ae_occurred_at = now, ae_tenant_id = Some (a_tenant_id actor),
     ae_actor_id = Some (a_actor_id actor), ae_identity_id = Some (a_identity_id actor), ae_session_id = a_session_id actor,
     ae_actor_kind = Some (actor_kind_value (a_actor_kind actor)), ae_auth_strength = None,
     ae_event_type = Audit_SUBMISSION_PACKAGE_EXPORTED, ae_outcome = Outcome_SUCCEEDED, ae_severity = Severity_INFO,
     ae_action = ''submission.export'', ae_resource_type = Some ''SUBMISSION_PACKAGE'', ae_resource_id = Some pid,
     ae_case_id = Some cid, ae_correlation_id = Some (a_correlation_id actor), ae_command_id = None, ae_request_id = None,
     ae_source_ip_hash = None, ae_user_agent_family = None, ae_reason_code = None,
     ae_metadata = [(''channel'', JStr ''download'')] \<rparr>"

definition export_event :: "actor_context \<Rightarrow> uuid \<Rightarrow> package_row \<Rightarrow> json \<Rightarrow> event_row" where
  "export_event actor eid r payload = \<lparr> ev_id = eid, ev_tenant_id = a_tenant_id actor, ev_aggregate_type = ''SubmissionPackage'',
     ev_aggregate_id = pk_id r, ev_aggregate_revision = pk_version r, ev_event_type = ''SubmissionPackageExported'',
     ev_payload_version = 1, ev_payload = payload, ev_actor_id = Some (a_actor_id actor), ev_command_id = None,
     ev_correlation_id = Some (a_correlation_id actor), ev_causation_id = None \<rparr>"

definition export_message :: "actor_context \<Rightarrow> uuid \<Rightarrow> uuid \<Rightarrow> string \<Rightarrow> string \<Rightarrow> json \<Rightarrow> instant \<Rightarrow> outbox_row" where
  "export_message actor oid eid topic prefix payload now = \<lparr> ob_id = oid, ob_tenant_id = a_tenant_id actor, ob_event_id = eid,
     ob_topic = topic, ob_payload_version = 1, ob_payload = payload, ob_status = ''PENDING'', ob_attempt_count = 0,
     ob_next_attempt_at = Some now, ob_published_at = None, ob_last_error_code = None,
     ob_dedupe_key = prefix @ '':'' @ uuid_str eid \<rparr>"

text \<open>
  The first transaction, which only reads: the package and the two files of the archive.
\<close>

definition export_read ::
  "gate_reader option \<Rightarrow> (string \<Rightarrow> exn + nat list) \<Rightarrow> uuid \<Rightarrow> uuid \<Rightarrow> submission_tables
   \<Rightarrow> exn + (package_row \<times> nat list \<times> nat list)" where
  "export_read reader storage tid pid t =
     (case find_package tid pid (st_packages t) of None \<Rightarrow> Inl (PermissionError ''NOT_FOUND_OR_FORBIDDEN'') | Some r \<Rightarrow>
      if manifest_hash (pk_manifest r) \<noteq> pk_manifest_sha256 r then Inl (CommandExecutionError ''SUBMISSION_MANIFEST_INTEGRITY_FAILED'')
      else (case List.find (\<lambda>d. sd_tenant_id d = tid \<and> sd_id d = pk_technical_document_id r) (st_technical t) of
        None \<Rightarrow> Inl (CommandExecutionError ''TECHNICAL_DOCUMENT_REQUIRED'')
      | Some d \<Rightarrow>
        (case assert_decision_gate reader tid (pk_case_id r) t of Some e \<Rightarrow> Inl e | None \<Rightarrow>
         (case storage (sd_storage_key d) of Inl e \<Rightarrow> Inl e
          | Inr technical \<Rightarrow> Inr (r, utf8 (manifest_text (pk_manifest r)), technical)))))"

text \<open>The second one: the audit event, the domain event and its two messages.\<close>

definition export_write ::
  "actor_context \<Rightarrow> package_row \<Rightarrow> string \<Rightarrow> (nat \<Rightarrow> uuid) \<Rightarrow> instant \<Rightarrow> submission_tables platform_db
   \<Rightarrow> exn + submission_tables platform_db" where
  "export_write actor r archive_sha fresh now db =
     (let payload = JObj [(''submission_package_id'', JStr (uuid_str (pk_id r))),
            (''manifest_sha256'', JStr (pk_manifest_sha256 r)), (''archive_sha256'', JStr archive_sha),
            (''delivery'', JStr ''DOWNLOAD'')];
          email = JObj [(''submission_package_id'', JStr (uuid_str (pk_id r))), (''delivery'', JStr ''EXPORT_READY'')];
          t = db_business db in
      case audit_record ((=) (pk_tenant_id r)) (fresh 1) (export_audit_entry actor (pk_id r) (pk_case_id r) now) (st_audit t) of Inl e \<Rightarrow> Inl e | Inr audit \<Rightarrow>
      (case add_row event_clash (export_event actor (fresh 0) r payload) (db_events db) of Inl e \<Rightarrow> Inl e | Inr evs \<Rightarrow>
       (case add_row outbox_clash (export_message actor (fresh 2) (fresh 0) ''submission.package.exported'' ''submission-export'' payload now)
               (db_outbox db) of Inl e \<Rightarrow> Inl e | Inr obs1 \<Rightarrow>
        (case add_row outbox_clash (export_message actor (fresh 3) (fresh 0) ''submission.package.exported.smtp'' ''submission-export-email'' email now)
                obs1 of Inl e \<Rightarrow> Inl e | Inr obs2 \<Rightarrow>
         Inr (db\<lparr> db_events := evs, db_outbox := obs2, db_business := t\<lparr> st_audit := audit \<rparr> \<rparr>)))))"

definition export_package ::
  "gate_reader option \<Rightarrow> policy \<Rightarrow> (string \<Rightarrow> exn + nat list) option \<Rightarrow> ((string \<times> nat list) list \<Rightarrow> nat list) \<Rightarrow> actor_context \<Rightarrow> uuid
   \<Rightarrow> (nat \<Rightarrow> uuid) \<Rightarrow> instant \<Rightarrow> submission_tables platform_db \<Rightarrow> (exn + nat list) \<times> submission_tables platform_db" where
  "export_package reader policy store archive actor pid fresh now db =
     (if a_actor_kind actor \<noteq> PATRON_ADMIN then (Inl (PermissionError ''SUBMISSION_PATRON_REQUIRED''), db)
      else (case store of None \<Rightarrow> (Inl (RuntimeError ''SUBMISSION_EXPORT_STORAGE_NOT_CONFIGURED''), db) | Some storage \<Rightarrow>
      let d = policy actor (submission_request ''submission.authorize'' ''SUBMISSION_PACKAGE'' FINANCIAL_PRIVATE False pid
                              (a_tenant_id actor) now) in
      if \<not> z_allowed d then (Inl (PermissionError (z_code d)), db)
      else (case export_read reader storage (a_tenant_id actor) pid (db_business db) of Inl e \<Rightarrow> (Inl e, db)
        | Inr (r, m, technical) \<Rightarrow>
          let bytes = archive [(''manifest.json'', m), (''technical-response.md'', technical)] in
          (case export_write actor r (sha256_bytes bytes) fresh now db of Inl e \<Rightarrow> (Inl e, db) | Inr db' \<Rightarrow> (Inr bytes, db')))))"

end
