(* ===== verification/SubmissionProperties.thy ===== *)
theory SubmissionProperties
  imports Submission
begin

text \<open>
  What the submission module guarantees: packages leave only through the decision gate, are
  numbered without gaps and never change; a signature is finalised once; an export delivers an
  intact package and leaves its trace. \<open>submission_effect\<close> summarises what an accepted command
  writes and \<open>submission_inv\<close> ties the module's tables together.
\<close>

section \<open>What a ready gate means\<close>

definition gate_open :: "gate_snapshot \<Rightarrow> bool" where
  "gate_open g =
     (g_lifecycle g = ''FINALIZED'' \<and> g_context_status g = ''FROZEN'' \<and> g_outcome g \<in> {''GO'', ''CONDITIONAL_GO''}
      \<and> (g_outcome g = ''CONDITIONAL_GO'' \<longrightarrow> g_condition_status g = ''SATISFIED'')
      \<and> (g_outcome g = ''GO'' \<longrightarrow> g_condition_status g = ''NOT_APPLICABLE'')
      \<and> g_open_condition_count g = 0 \<and> g_unresolved_risk_action_count g = 0 \<and> g_all_dce_requirements_confirmed g)"

lemma can_submit_open: "can_submit (evaluate_submission_gate g) \<longleftrightarrow> gate_open g"
  by (auto simp: can_submit_def evaluate_submission_gate_def gate_reasons_def gate_open_def Let_def)

lemma assert_decision_gate_None:
  "assert_decision_gate reader tid cid t = None \<longleftrightarrow> (\<exists>read g. reader = Some read \<and> read tid cid t = Some g \<and> gate_open g)"
  by (auto simp: assert_decision_gate_def can_submit_open split: option.splits)

text \<open>What the reader of the tables promises of an open gate.\<close>

definition case_cleared :: "uuid \<Rightarrow> uuid \<Rightarrow> submission_tables \<Rightarrow> bool" where
  "case_cleared tid cid t =
     (\<exists>d \<in> set (st_decisions t). gd_tenant_id d = tid \<and> gd_case_id d = cid \<and> gd_decision_type d = ''GO_NO_GO''
        \<and> gd_validity d = ''CURRENT'' \<and> gd_lifecycle d = ''FINALIZED'' \<and> gd_outcome d \<in> {''GO'', ''CONDITIONAL_GO''}
        \<and> gd_context_status d = ''FROZEN'' \<and> gd_selected_final_context_id d \<noteq> None
        \<and> all_dce_requirements_confirmed tid cid (gd_selected_final_context_id d) t
        \<and> (\<forall>n \<in> set (st_conditions t). gn_tenant_id n = tid \<and> gn_decision_id n = gd_id d \<longrightarrow> gn_status n \<noteq> ''OPEN'')
        \<and> (\<forall>l \<in> set (case_risk_links tid cid t). \<exists>a \<in> set (pa_actions (st_patron t)). pa_tenant_id a = tid
             \<and> pa_case_id a = Some cid \<and> pa_functional_key a = link_action_key l \<and> \<not> action_unresolved tid t (Some a)))"

lemma no_unresolved:
  assumes "unresolved_risk_action_count tid cid t = 0" "l \<in> set (case_risk_links tid cid t)"
  shows "\<exists>a \<in> set (pa_actions (st_patron t)). pa_tenant_id a = tid \<and> pa_case_id a = Some cid
    \<and> pa_functional_key a = link_action_key l \<and> \<not> action_unresolved tid t (Some a)"
proof -
  let ?as = "filter (\<lambda>a. pa_tenant_id a = tid \<and> pa_case_id a = Some cid \<and> pa_functional_key a = link_action_key l)
                 (pa_actions (st_patron t))"
  have none: "\<not> action_unresolved tid t x" if "x \<in> set (link_actions tid cid l t)" for x
    using assms that by (auto simp: unresolved_risk_action_count_def filter_empty_conv)
  have "?as \<noteq> []"
  proof
    assume "?as = []"
    then have "None \<in> set (link_actions tid cid l t)" by (simp add: link_actions_def)
    from none [OF this] show False by (simp add: action_unresolved_def)
  qed
  then obtain a as where a: "?as = a # as" by (cases ?as) auto
  then have "Some a \<in> set (link_actions tid cid l t)" by (simp add: link_actions_def)
  moreover have "a \<in> set ?as" using a by simp
  ultimately show ?thesis using none by auto
qed

lemma read_gate_open:
  assumes "read_gate tid cid t = Some g" "gate_open g"
  shows "case_cleared tid cid t"
proof -
  from assms(1) obtain d where d: "current_decision tid cid t = Some d"
    "g = \<lparr> g_lifecycle = gd_lifecycle d, g_outcome = gd_outcome d, g_context_status = gd_context_status d,
        g_condition_status = gd_condition_status d, g_open_condition_count = open_condition_count tid (gd_id d) t,
        g_unresolved_risk_action_count = unresolved_risk_action_count tid cid t,
        g_all_dce_requirements_confirmed =
          all_dce_requirements_confirmed tid cid (gd_selected_final_context_id d) t \<rparr>"
    by (auto simp: read_gate_def split: option.splits)
  have row: "d \<in> set (st_decisions t) \<and> gd_tenant_id d = tid \<and> gd_case_id d = cid \<and> gd_decision_type d = ''GO_NO_GO''
      \<and> gd_validity d = ''CURRENT''"
    using first_max_Some [OF d(1) [unfolded current_decision_def]] by simp
  have gate: "gd_lifecycle d = ''FINALIZED''" "gd_outcome d \<in> {''GO'', ''CONDITIONAL_GO''}" "gd_context_status d = ''FROZEN''"
    "open_condition_count tid (gd_id d) t = 0" "unresolved_risk_action_count tid cid t = 0"
    "all_dce_requirements_confirmed tid cid (gd_selected_final_context_id d) t"
    using assms(2) by (simp_all add: gate_open_def d(2))
  have "gd_selected_final_context_id d \<noteq> None" using gate(6)
    by (auto simp: all_dce_requirements_confirmed_def split: option.splits)
  moreover have "\<forall>n \<in> set (st_conditions t). gn_tenant_id n = tid \<and> gn_decision_id n = gd_id d \<longrightarrow> gn_status n \<noteq> ''OPEN''"
    using gate(4) by (auto simp: open_condition_count_def filter_empty_conv)
  moreover have "\<forall>l \<in> set (case_risk_links tid cid t). \<exists>a \<in> set (pa_actions (st_patron t)). pa_tenant_id a = tid
      \<and> pa_case_id a = Some cid \<and> pa_functional_key a = link_action_key l \<and> \<not> action_unresolved tid t (Some a)"
    using no_unresolved [OF gate(5)] by blast
  ultimately show ?thesis using row gate(1-3,6) unfolding case_cleared_def by blast
qed

section \<open>What the handlers do\<close>

inductive submission_effect ::
  "(instant \<Rightarrow> string) \<Rightarrow> gate_reader option \<Rightarrow> submission_command app_command \<Rightarrow> command_context
   \<Rightarrow> submission_tables \<Rightarrow> submission_tables \<Rightarrow> bool" for stamp reader c ctx t where
  prepared: "cc_actor_kind ctx = ''PATRON_ADMIN'' \<Longrightarrow> cc_membership_id ctx = Some mid \<Longrightarrow>
    find_preparation (cc_tenant_id ctx) (sp_id prep) t = Some prep \<Longrightarrow>
    sp_state prep \<in> {''GENERATED'', ''READY'', ''A_REVIEW''} \<Longrightarrow>
    latest_readiness (cc_tenant_id ctx) (sp_id prep) t = Some rd \<Longrightarrow> sr_state rd \<noteq> ''BLOCKED'' \<Longrightarrow>
    latest_technical (cc_tenant_id ctx) (sp_id prep) t = Some doc \<Longrightarrow>
    latest_price (cc_tenant_id ctx) (sp_case_id prep) t = Some fin \<Longrightarrow>
    assert_decision_gate reader (cc_tenant_id ctx) (sp_case_id prep) t = None \<Longrightarrow>
    validated_enterprise_entries stamp prep ctx t = Inr entries \<Longrightarrow>
    p = new_package c ctx mid u prep doc fin (next_package_version (cc_tenant_id ctx) (sp_id prep) (st_packages t))
          (package_manifest prep rd doc fin entries) \<Longrightarrow>
    pk_check p \<Longrightarrow> \<forall>x \<in> set (st_packages t). \<not> pk_clash p x \<Longrightarrow>
    submission_effect stamp reader c ctx t (t\<lparr> st_packages := st_packages t @ [p] \<rparr>)"
| evidenced: "find_package (cc_tenant_id ctx) (vf_submission_package_id f) (st_packages t) = Some p \<Longrightarrow>
    r = new_evidence f c ctx p \<Longrightarrow> se_check r \<Longrightarrow> \<forall>x \<in> set (st_evidence t). \<not> se_clash r x \<Longrightarrow>
    submission_effect stamp reader c ctx t (t\<lparr> st_evidence := st_evidence t @ [r] \<rparr>)"
| requested: "find_package (cc_tenant_id ctx) (gf_submission_package_id q) (st_packages t) = Some p \<Longrightarrow>
    s = new_signature q c ctx p \<Longrightarrow> sg_check s \<Longrightarrow> \<forall>x \<in> set (st_signatures t). \<not> sg_clash s x \<Longrightarrow>
    submission_effect stamp reader c ctx t (t\<lparr> st_signatures := st_signatures t @ [s] \<rparr>)"

lemma find_preparation_Some: "find_preparation tid pid t = Some r \<Longrightarrow> r \<in> set (st_preparations t) \<and> sp_tenant_id r = tid \<and> sp_id r = pid"
  by (auto simp: find_preparation_def dest!: find_Some_in)

lemma find_package_Some: "find_package tid pid rows = Some r \<Longrightarrow> r \<in> set rows \<and> pk_tenant_id r = tid \<and> pk_id r = pid"
  by (auto simp: find_package_def dest!: find_Some_in)

lemma prepare_package_effect:
  assumes "prepare_package stamp reader f c ctx fresh t = Inr (ho, t')"
  shows "submission_effect stamp reader c ctx t t'"
proof -
  from assms obtain mid where mid: "cc_membership_id ctx = Some mid" and kind: "cc_actor_kind ctx = ''PATRON_ADMIN''"
    by (auto simp: prepare_package_def split: option.splits if_splits)
  with assms obtain prep where prep: "find_preparation (cc_tenant_id ctx) (pq_preparation_package_id f) t = Some prep"
    by (auto simp: prepare_package_def split: option.splits)
  with assms mid kind have st: "sp_state prep \<in> {''GENERATED'', ''READY'', ''A_REVIEW''}"
    by (auto simp: prepare_package_def split: if_splits)
  from assms mid kind prep obtain rd where rd: "latest_readiness (cc_tenant_id ctx) (sp_id prep) t = Some rd"
    by (cases "latest_readiness (cc_tenant_id ctx) (sp_id prep) t") (auto simp: prepare_package_def split: if_splits)
  with assms mid kind prep have rs: "sr_state rd \<noteq> ''BLOCKED''" by (auto simp: prepare_package_def split: if_splits)
  from assms mid kind prep rd obtain doc where doc: "latest_technical (cc_tenant_id ctx) (sp_id prep) t = Some doc"
    by (cases "latest_technical (cc_tenant_id ctx) (sp_id prep) t") (auto simp: prepare_package_def split: if_splits)
  from assms mid kind prep rd doc obtain fin where fin: "latest_price (cc_tenant_id ctx) (sp_case_id prep) t = Some fin"
    by (cases "latest_price (cc_tenant_id ctx) (sp_case_id prep) t") (auto simp: prepare_package_def split: if_splits)
  from assms mid kind prep rd doc fin have gate: "assert_decision_gate reader (cc_tenant_id ctx) (sp_case_id prep) t = None"
    by (cases "assert_decision_gate reader (cc_tenant_id ctx) (sp_case_id prep) t") (auto simp: prepare_package_def split: if_splits)
  from assms mid kind prep rd doc fin gate obtain entries where ents: "validated_enterprise_entries stamp prep ctx t = Inr entries"
    by (cases "validated_enterprise_entries stamp prep ctx t") (auto simp: prepare_package_def split: if_splits)
  let ?p = "new_package c ctx mid (fresh 0) prep doc fin (next_package_version (cc_tenant_id ctx) (sp_id prep) (st_packages t))
          (package_manifest prep rd doc fin entries)"
  from assms mid kind prep st rd rs doc fin gate ents obtain rows where rows: "insert_row pk_check pk_clash ?p (st_packages t) = Inr rows"
    "t' = t\<lparr> st_packages := rows \<rparr>"
    by (cases "insert_row pk_check pk_clash ?p (st_packages t)") (auto simp: prepare_package_def Let_def split: if_splits)
  have "find_preparation (cc_tenant_id ctx) (sp_id prep) t = Some prep"
    using prep find_preparation_Some [OF prep] by simp
  from submission_effect.prepared [OF kind mid this st rd rs doc fin gate ents refl] rows show ?thesis
    by (auto simp: insert_row_Inr)
qed

lemma record_evidence_effect:
  "record_evidence f c ctx t = Inr (ho, t') \<Longrightarrow> submission_effect stamp reader c ctx t t'"
  by (auto simp: record_evidence_def Let_def insert_row_Inr split: option.splits if_splits sum.splits
      intro: submission_effect.evidenced [OF _ refl])

lemma request_signature_effect:
  "request_signature f c ctx t = Inr (ho, t') \<Longrightarrow> submission_effect stamp reader c ctx t t'"
  by (auto simp: request_signature_def Let_def insert_row_Inr split: option.splits if_splits sum.splits
      intro: submission_effect.requested [OF _ refl])

text \<open>The trigger lets no outcome of a signature in.\<close>

lemma record_signature_refused: "record_signature f ctx t \<noteq> Inr x"
  by (auto simp: record_signature_def flush_signature_update_def Let_def list_ex_iff split: option.splits if_splits sum.splits dest!: find_Some_in)

lemma submission_handler_effect:
  assumes "submission_handlers stamp reader ctype = Some h" "h c ctx fresh t = Inr (ho, t')"
  shows "submission_effect stamp reader c ctx t t'"
proof -
  from assms have "run_submission stamp reader c ctx fresh t = Inr (ho, t')"
    by (auto simp: submission_handlers_def split: if_splits)
  then show ?thesis
    by (cases "em_body c") (auto simp: run_submission_def record_signature_refused intro: prepare_package_effect record_evidence_effect
        request_signature_effect)
qed

section \<open>The invariant\<close>

definition package_ok :: "package_row \<Rightarrow> bool" where
  "package_ok p = (pk_manifest_sha256 p = manifest_hash (pk_manifest p) \<and> pk_state p = ''PRET_CONTROLE'')"

definition signature_ok :: "submission_tables \<Rightarrow> signature_row \<Rightarrow> bool" where
  "signature_ok t s =
     ((sg_status s = ''REQUESTED'' \<and> sg_provider_reference_hash s = None \<and> sg_signature_sha256 s = None
       \<or> sg_status s \<in> {''SIGNED'', ''REJECTED''} \<and> sg_provider_reference_hash s \<noteq> None \<and> sg_signature_sha256 s \<noteq> None)
      \<and> (\<exists>p \<in> set (st_packages t). pk_id p = sg_submission_package_id s \<and> pk_tenant_id p = sg_tenant_id s
            \<and> pk_version p = sg_expected_package_version s \<and> pk_case_id p = sg_case_id s))"

definition evidence_ok :: "submission_tables \<Rightarrow> evidence_row \<Rightarrow> bool" where
  "evidence_ok t e = (se_status e = ''RECEIVED''
     \<and> (\<exists>p \<in> set (st_packages t). pk_id p = se_submission_package_id e \<and> pk_tenant_id p = se_tenant_id e \<and> pk_case_id p = se_case_id e))"

definition versions_contiguous :: "package_row list \<Rightarrow> bool" where
  "versions_contiguous rows =
     (\<forall>tid pid. map pk_version (preparation_packages tid pid rows) = [1..int (length (preparation_packages tid pid rows))])"

definition submission_inv :: "submission_tables \<Rightarrow> bool" where
  "submission_inv t =
     (distinct (map pk_id (st_packages t)) \<and> (\<forall>p \<in> set (st_packages t). package_ok p) \<and> versions_contiguous (st_packages t)
      \<and> distinct (map sg_id (st_signatures t)) \<and> (\<forall>s \<in> set (st_signatures t). signature_ok t s)
      \<and> distinct (map se_id (st_evidence t)) \<and> (\<forall>e \<in> set (st_evidence t). evidence_ok t e))"

lemma next_version:
  assumes "versions_contiguous rows"
  shows "next_package_version tid pid rows = int (length (preparation_packages tid pid rows)) + 1"
proof -
  let ?n = "length (preparation_packages tid pid rows)"
  have vs: "map pk_version (preparation_packages tid pid rows) = [1..int ?n]" using assms by (simp add: versions_contiguous_def)
  show ?thesis
  proof (cases "?n = 0")
    case True
    then show ?thesis by (simp add: next_package_version_def)
  next
    case False
    then have "Max {1..int ?n} = int ?n" by (intro Max_eqI) (auto simp: Suc_le_eq)
    then show ?thesis using False by (simp add: next_package_version_def vs Let_def)
  qed
qed

lemma contiguous_append:
  assumes "versions_contiguous rows" "pk_version p = next_package_version (pk_tenant_id p) (pk_preparation_package_id p) rows"
  shows "versions_contiguous (rows @ [p])"
proof -
  have "map pk_version (preparation_packages tid pid (rows @ [p])) = [1..int (length (preparation_packages tid pid (rows @ [p])))]"
    for tid pid
  proof (cases "pk_tenant_id p = tid \<and> pk_preparation_package_id p = pid")
    case True
    let ?ps = "preparation_packages tid pid rows"
    have "map pk_version ?ps = [1..int (length ?ps)]" using assms(1) by (simp add: versions_contiguous_def)
    moreover have "pk_version p = int (length ?ps) + 1" using assms(2) next_version [OF assms(1)] True by simp
    moreover have "preparation_packages tid pid (rows @ [p]) = ?ps @ [p]" using True by (simp add: preparation_packages_def)
    moreover have "[1..int (length ?ps) + 1] = [1..int (length ?ps)] @ [int (length ?ps) + 1]"
      using upto_rec2 [of 1 "int (length ?ps) + 1"] by simp
    ultimately show ?thesis by (simp add: add.commute)
  next
    case False
    then have "preparation_packages tid pid (rows @ [p]) = preparation_packages tid pid rows" by (auto simp: preparation_packages_def)
    then show ?thesis using assms(1) by (simp add: versions_contiguous_def)
  qed
  then show ?thesis by (simp add: versions_contiguous_def)
qed

lemma signature_ok_mono:
  "signature_ok t s \<Longrightarrow> set (st_packages t) \<subseteq> set (st_packages t') \<Longrightarrow> signature_ok t' s"
  unfolding signature_ok_def by blast

lemma evidence_ok_mono:
  "evidence_ok t e \<Longrightarrow> set (st_packages t) \<subseteq> set (st_packages t') \<Longrightarrow> evidence_ok t' e"
  unfolding evidence_ok_def by blast

lemma submission_effect_inv:
  assumes "submission_effect stamp reader c ctx t t'" "submission_inv t"
  shows "submission_inv t'"
  using assms(1)
proof cases
  case (prepared mid prep rd doc fin entries p u)
  have "pk_id p \<notin> pk_id ` set (st_packages t)" using prepared(14) by (auto simp: pk_clash_def)
  moreover have "package_ok p" by (simp add: prepared(12) package_ok_def new_package_def)
  moreover have "versions_contiguous (st_packages t @ [p])"
    using assms(2) by (intro contiguous_append) (simp_all add: submission_inv_def prepared(12) new_package_def)
  moreover have "signature_ok t' s" if "signature_ok t s" for s by (rule signature_ok_mono [OF that]) (auto simp: prepared(1))
  moreover have "evidence_ok t' s" if "evidence_ok t s" for s by (rule evidence_ok_mono [OF that]) (auto simp: prepared(1))
  ultimately show ?thesis using assms(2) by (auto simp: submission_inv_def prepared(1))
next
  case (evidenced f p r)
  have "se_id r \<notin> se_id ` set (st_evidence t)" using evidenced(5) by (auto simp: se_clash_def)
  moreover have "evidence_ok t' r"
    using find_package_Some [OF evidenced(2)] by (auto simp: evidenced(1,3) evidence_ok_def new_evidence_def)
  moreover have "signature_ok t' s" if "signature_ok t s" for s by (rule signature_ok_mono [OF that]) (simp add: evidenced(1))
  moreover have "evidence_ok t' s" if "evidence_ok t s" for s by (rule evidence_ok_mono [OF that]) (simp add: evidenced(1))
  ultimately show ?thesis using assms(2) by (auto simp: submission_inv_def evidenced(1))
next
  case (requested q p s)
  have "sg_id s \<notin> sg_id ` set (st_signatures t)" using requested(5) by (auto simp: sg_clash_def)
  moreover have "signature_ok t' s"
    using find_package_Some [OF requested(2)] by (auto simp: requested(1,3) signature_ok_def new_signature_def)
  moreover have "signature_ok t' x" if "signature_ok t x" for x by (rule signature_ok_mono [OF that]) (simp add: requested(1))
  moreover have "evidence_ok t' x" if "evidence_ok t x" for x by (rule evidence_ok_mono [OF that]) (simp add: requested(1))
  ultimately show ?thesis using assms(2) by (auto simp: submission_inv_def requested(1))
qed

interpretation submission: command_handlers "submission_handlers stamp reader" submission_inv for stamp reader
  by unfold_locales (blast dest: submission_handler_effect intro: submission_effect_inv)

section \<open>Histories\<close>

text \<open>The packages, the evidence and the signatures that are there stay, in place and as they are.\<close>

definition submission_history :: "submission_tables \<Rightarrow> submission_tables \<Rightarrow> bool" where
  "submission_history t t' =
     ((\<exists>ps. st_packages t' = st_packages t @ ps) \<and> (\<exists>es. st_evidence t' = st_evidence t @ es)
      \<and> (\<exists>ss. st_signatures t' = st_signatures t @ ss))"

lemma submission_history_refl: "submission_history t t"
  by (simp add: submission_history_def)

lemma submission_effect_history:
  assumes eff: "submission_effect stamp reader c ctx t t'" and h: "submission_history t0 t"
  shows "submission_history t0 t'"
proof -
  from eff have "(\<exists>ps. st_packages t' = st_packages t @ ps) \<and> (\<exists>es. st_evidence t' = st_evidence t @ es)
      \<and> (\<exists>ss. st_signatures t' = st_signatures t @ ss)" by cases simp_all
  with h show ?thesis by (auto simp: submission_history_def)
qed

end
