(* ===== verification/SubmissionClaims.thy ===== *)
theory SubmissionClaims
  imports SubmissionProperties
begin

text \<open>
  The properties of the submission module, on dispatches, on whole histories of dispatches, and
  on the services, each with a worked Case whose decision is a finalised GO.
\<close>

section \<open>A worked Case\<close>

definition ex_submission_tables :: submission_tables where
  "ex_submission_tables = \<lparr>
     st_cases = [\<lparr> gc_id = 40, gc_tenant_id = 1, gc_applicable_dce_version_id = Some 7 \<rparr>],
     st_decisions = [\<lparr> gd_id = 50, gd_tenant_id = 1, gd_case_id = 40, gd_decision_type = ''GO_NO_GO'', gd_validity = ''CURRENT'',
        gd_cycle_number = 1, gd_updated_at = 3, gd_selected_final_context_id = Some 51, gd_lifecycle = ''FINALIZED'',
        gd_outcome = ''GO'', gd_context_status = ''FROZEN'', gd_condition_status = ''NOT_APPLICABLE'' \<rparr>],
     st_context_refs = [\<lparr> gx_tenant_id = 1, gx_decision_context_id = 51, gx_aggregate_type = ''DCE_REQUIREMENT'', gx_aggregate_id = 52 \<rparr>],
     st_requirements = [\<lparr> gq_id = 52, gq_tenant_id = 1, gq_dce_version_id = 7 \<rparr>],
     st_confirmations = [\<lparr> gk_requirement_id = 52, gk_tenant_id = 1, gk_outcome = ''CONFIRMED'' \<rparr>],
     st_conditions = [], st_risk_links = [], st_patron = \<lparr> pa_actions = [], pa_transitions = [] \<rparr>,
     st_preparations = [\<lparr> sp_id = 60, sp_tenant_id = 1, sp_case_id = 40, sp_assignment_id = 30, sp_dce_version_id = 7,
        sp_state = ''GENERATED'', sp_aggregate_revision = 2 \<rparr>],
     st_readiness = [\<lparr> sr_id = 61, sr_tenant_id = 1, sr_package_id = 60, sr_revision = 1, sr_state = ''READY'',
        sr_blocker_codes = [], sr_warning_codes = [] \<rparr>],
     st_technical = [\<lparr> sd_id = 62, sd_tenant_id = 1, sd_package_id = 60, sd_version = 1, sd_document_kind = ''TECHNICAL_RESPONSE'',
        sd_state = ''GENERATED'', sd_content_sha256 = ''ab'', sd_storage_key = ''k'' \<rparr>],
     st_financials = [\<lparr> fs_id = 63, fs_tenant_id = 1, fs_case_id = 40, fs_state = ''PUBLISHED'', fs_aggregate_revision = 1,
        fs_published_at = Some 2 \<rparr>],
     st_proposals = [], st_capabilities = [], st_capability_versions = [], st_proof_links = [], st_enterprise_documents = [],
     st_packages = [], st_evidence = [], st_signatures = [], st_audit = [] \<rparr>"

definition ex_submission_db :: "submission_tables platform_db" where
  "ex_submission_db = \<lparr> db_receipts = [], db_events = [], db_outbox = [], db_business = ex_submission_tables \<rparr>"

definition ex_prepare_command :: "submission_command app_command" where
  "ex_prepare_command = \<lparr> em_command_type = ''PrepareSubmissionPackage'', em_command_id = 3, em_idempotency_key = 3,
     em_correlation_id = None,
     em_body = PrepareSubmissionPackage \<lparr> pq_preparation_package_id = 60, pq_expected_preparation_revision = 2 \<rparr> \<rparr>"

definition ex_submission_request :: "submission_command dispatch_request" where
  "ex_submission_request = \<lparr> rq_command = ex_prepare_command,
     rq_context = command_context_of ex_patron ''PATRON_ADMIN'' 5 None, rq_fresh = of_nat, rq_handler_fresh = of_nat, rq_now = 5 \<rparr>"

abbreviation ex_submission_handlers :: "string \<Rightarrow> (submission_command, submission_tables) handler option" where
  "ex_submission_handlers \<equiv> submission_handlers (\<lambda>_. []) (Some read_gate)"

definition ex_submitted_db :: "submission_tables platform_db" where
  "ex_submitted_db = snd (dispatch (\<lambda>_. []) ex_submission_handlers [] ex_submission_request ex_submission_db)"

lemma ex_submission_inv: "submission_inv (db_business ex_submission_db)"
  by (simp add: submission_inv_def ex_submission_db_def ex_submission_tables_def versions_contiguous_def preparation_packages_def)

lemma ex_gate: "assert_decision_gate (Some read_gate) 1 40 ex_submission_tables = None"
  by (simp add: assert_decision_gate_def read_gate_def current_decision_def open_condition_count_def unresolved_risk_action_count_def
      case_risk_links_def all_dce_requirements_confirmed_def case_applicable_dce_def context_requirements_def confirmed_pairs_def
      can_submit_open gate_open_def ex_submission_tables_def)

lemma ex_prepared:
  "\<exists>ho p e. prepare_package (\<lambda>_. []) (Some read_gate) \<lparr> pq_preparation_package_id = 60, pq_expected_preparation_revision = 2 \<rparr>
      ex_prepare_command (command_context_of ex_patron ''PATRON_ADMIN'' 5 None) of_nat ex_submission_tables
        = Inr (ho, ex_submission_tables\<lparr> st_packages := [p] \<rparr>)
     \<and> ho_events ho = [e] \<and> (pk_id p, pk_tenant_id p, pk_case_id p, pk_technical_document_id p) = (0, 1, 40, 62)
     \<and> pk_manifest_sha256 p = manifest_hash (pk_manifest p)"
  using ex_gate
  by (simp add: prepare_package_def command_context_of_def ex_patron_def find_preparation_def latest_readiness_def latest_technical_def
      latest_price_def validated_enterprise_entries_def next_package_version_def preparation_packages_def new_package_def insert_row_def
      add_row_def pk_check_def submission_outcome_def Let_def ex_submission_tables_def)

lemma ex_submitted:
  obtains p where "db_business ex_submitted_db = ex_submission_tables\<lparr> st_packages := [p] \<rparr>"
    "(pk_id p, pk_tenant_id p, pk_case_id p, pk_technical_document_id p) = (0, 1, 40, 62)"
    "pk_manifest_sha256 p = manifest_hash (pk_manifest p)"
proof -
  obtain ho p e where p: "prepare_package (\<lambda>_. []) (Some read_gate) \<lparr> pq_preparation_package_id = 60, pq_expected_preparation_revision = 2 \<rparr>
      ex_prepare_command (command_context_of ex_patron ''PATRON_ADMIN'' 5 None) of_nat ex_submission_tables
        = Inr (ho, ex_submission_tables\<lparr> st_packages := [p] \<rparr>)"
    "ho_events ho = [e]" "(pk_id p, pk_tenant_id p, pk_case_id p, pk_technical_document_id p) = (0, 1, 40, 62)"
    "pk_manifest_sha256 p = manifest_hash (pk_manifest p)" using ex_prepared by (elim exE conjE) (rule that)
  have "db_business ex_submitted_db = ex_submission_tables\<lparr> st_packages := [p] \<rparr>" unfolding ex_submitted_db_def
    using p(1,2) by (simp add: dispatch_def transaction_def submission_handlers_def run_submission_def ex_submission_request_def
        ex_submission_db_def ex_prepare_command_def find_receipt_def add_row_def Let_def)
  then show ?thesis using that p(3,4) by blast
qed

text \<open>The rows of the preparation itself are far from the identifiers of the export.\<close>

lemma ex_submitted_rows: "map ev_id (db_events ex_submitted_db) = [1] \<and> map ob_id (db_outbox ex_submitted_db) = [2]
    \<and> map ob_event_id (db_outbox ex_submitted_db) = [1]"
proof -
  obtain ho p e where p: "prepare_package (\<lambda>_. []) (Some read_gate) \<lparr> pq_preparation_package_id = 60, pq_expected_preparation_revision = 2 \<rparr>
      ex_prepare_command (command_context_of ex_patron ''PATRON_ADMIN'' 5 None) of_nat ex_submission_tables
        = Inr (ho, ex_submission_tables\<lparr> st_packages := [p] \<rparr>)"
    "ho_events ho = [e]" using ex_prepared by (elim exE conjE) (rule that)
  show ?thesis unfolding ex_submitted_db_def
    using p by (simp add: dispatch_def transaction_def submission_handlers_def run_submission_def ex_submission_request_def
        ex_submission_db_def ex_prepare_command_def find_receipt_def add_row_def new_event_row_def new_outbox_row_def Let_def)
qed

lemma ex_patron_kind: "a_actor_kind ex_patron = PATRON_ADMIN" "a_tenant_id ex_patron = 1"
  by (simp_all add: ex_patron_def)

lemma ex_exported:
  obtains bytes db' where "export_package (Some read_gate) authorize (Some (\<lambda>_. Inr [7])) (concat \<circ> map snd) ex_patron 0
     (\<lambda>n. of_nat n + 100) 5 ex_submitted_db = (Inr bytes, db')"
proof -
  obtain p where p: "db_business ex_submitted_db = ex_submission_tables\<lparr> st_packages := [p] \<rparr>"
    "(pk_id p, pk_tenant_id p, pk_case_id p, pk_technical_document_id p) = (0, 1, 40, 62)"
    "pk_manifest_sha256 p = manifest_hash (pk_manifest p)" by (rule ex_submitted)
  have gate: "assert_decision_gate (Some read_gate) 1 40 (ex_submission_tables\<lparr> st_packages := [p] \<rparr>) = None"
    using ex_gate by (simp add: assert_decision_gate_def read_gate_def current_decision_def open_condition_count_def
        unresolved_risk_action_count_def case_risk_links_def all_dce_requirements_confirmed_def case_applicable_dce_def
        context_requirements_def confirmed_pairs_def can_submit_open gate_open_def ex_submission_tables_def)
  have rd: "export_read (Some read_gate) (\<lambda>_. Inr [7]) 1 0 (ex_submission_tables\<lparr> st_packages := [p] \<rparr>)
      = Inr (p, utf8 (manifest_text (pk_manifest p)), [7])"
    using p(2,3) gate by (simp add: export_read_def find_package_def ex_submission_tables_def)
  have z: "z_allowed (authorize ex_patron (submission_request ''submission.authorize'' ''SUBMISSION_PACKAGE'' FINANCIAL_PRIVATE False 0 1 5))"
    by (simp add: authorize_allowed allowed_by_rules_def ex_patron_def submission_request_def patron_admin_capabilities_def)
  have v: "audit_validate (export_audit_entry ex_patron 0 40 5) = None"
  proof -
    have "action_pattern ''submission.export''" by code_simp
    then show ?thesis by (simp add: audit_validate_def export_audit_entry_def metadata_problem_def allowed_metadata_keys_def)
  qed
  have w: "\<exists>db'. export_write ex_patron p sha (\<lambda>n. of_nat n + 100) 5 ex_submitted_db = Inr db'" for sha
  proof -
    have evs: "ev_id ` set (db_events ex_submitted_db) = {1}" and obs: "ob_id ` set (db_outbox ex_submitted_db) = {2}"
      "ob_event_id ` set (db_outbox ex_submitted_db) = {1}"
      using ex_submitted_rows by (simp_all flip: set_map)
    have ev: "add_row event_clash (export_event ex_patron 100 p js) (db_events ex_submitted_db)
        = Inr (db_events ex_submitted_db @ [export_event ex_patron 100 p js])" for js
    proof -
      have "ev_id x = 1" if "x \<in> set (db_events ex_submitted_db)" for x using evs that by blast
      then show ?thesis by (auto simp: add_row_Inr event_clash_def export_event_def)
    qed
    have ob: "\<forall>x \<in> set (db_outbox ex_submitted_db). \<not> outbox_clash (export_message ex_patron u 100 topic pre js 5) x"
      if "u \<noteq> 2" for u topic pre js
    proof -
      have "ob_id x = 2 \<and> ob_event_id x = 1" if "x \<in> set (db_outbox ex_submitted_db)" for x using obs that by blast
      then show ?thesis using that by (auto simp: outbox_clash_def export_message_def)
    qed
    have ob1: "add_row outbox_clash (export_message ex_patron 102 100 topic pre js 5) (db_outbox ex_submitted_db)
        = Inr (db_outbox ex_submitted_db @ [export_message ex_patron 102 100 topic pre js 5])" for topic pre js
      using ob [of 102 topic pre js] by (simp add: add_row_Inr)
    have ob2: "add_row outbox_clash (export_message ex_patron 103 100 topic' pre' js' 5)
          (db_outbox ex_submitted_db @ [export_message ex_patron 102 100 topic pre js 5])
        = Inr ((db_outbox ex_submitted_db @ [export_message ex_patron 102 100 topic pre js 5]) @ [export_message ex_patron 103 100 topic' pre' js' 5])"
      if "topic' \<noteq> topic" for topic pre js topic' pre' js'
      using ob [of 103 topic' pre' js'] that by (simp add: add_row_Inr) (simp add: outbox_clash_def export_message_def)
    have "au_check (audit_row_of 101 (export_audit_entry ex_patron 0 40 5)) \<and> resource_type_fits (export_audit_entry ex_patron 0 40 5)
        \<and> pred_option ((=) 1) (ae_tenant_id (export_audit_entry ex_patron 0 40 5))"
      by (simp add: au_check_def audit_row_of_def export_audit_entry_def resource_type_fits_def ex_patron_def all_actor_kinds_def)
    moreover have "st_audit (db_business ex_submitted_db) = []" using p(1) by (simp add: ex_submission_tables_def)
    ultimately show ?thesis using p(2) v ob2 by (simp add: export_write_def audit_record_def add_row_def [of au_clash] ev ob1 Let_def)
  qed
  have "export_package (Some read_gate) authorize (Some (\<lambda>_. Inr [7])) (concat \<circ> map snd) ex_patron 0 (\<lambda>n. of_nat n + 100) 5 ex_submitted_db
      = (let bytes = utf8 (manifest_text (pk_manifest p)) @ [7] in
         case export_write ex_patron p (sha256_bytes bytes) (\<lambda>n. of_nat n + 100) 5 ex_submitted_db of
           Inl e \<Rightarrow> (Inl e, ex_submitted_db) | Inr db' \<Rightarrow> (Inr bytes, db'))"
    using rd z p(1) by (simp add: export_package_def ex_patron_kind Let_def)
  with w [of "sha256_bytes (utf8 (manifest_text (pk_manifest p)) @ [7])"] show ?thesis
    by (elim exE) (simp add: that)
qed

section \<open>Properties\<close>

definition package_admitted :: "command_context \<Rightarrow> submission_tables \<Rightarrow> package_row \<Rightarrow> bool" where
  "package_admitted ctx t p =
     (cc_actor_kind ctx = ''PATRON_ADMIN'' \<and> pk_tenant_id p = cc_tenant_id ctx
      \<and> (\<exists>prep \<in> set (st_preparations t). sp_id prep = pk_preparation_package_id p \<and> sp_case_id prep = pk_case_id p
           \<and> sp_state prep \<in> {''GENERATED'', ''READY'', ''A_REVIEW''})
      \<and> (\<exists>rd. latest_readiness (pk_tenant_id p) (pk_preparation_package_id p) t = Some rd \<and> sr_state rd \<noteq> ''BLOCKED'')
      \<and> case_cleared (pk_tenant_id p) (pk_case_id p) t
      \<and> pk_manifest_sha256 p = manifest_hash (pk_manifest p)
      \<and> pk_version p = next_package_version (pk_tenant_id p) (pk_preparation_package_id p) (st_packages t))"

text \<open>
  C3. Nothing is submitted past the decision. With the table reader wired in, a dispatch leaves
  the packages as they are or appends one, and then it was a PATRON_ADMIN who asked, for a
  generated preparation whose latest readiness is not blocked, and the Case was cleared: a
  current GO/NO-GO decision, finalised as GO or CONDITIONAL_GO on a frozen context, with every
  referenced requirement confirmed, no open condition, and every linked risk action closed. The
  package carries the hash of its manifest and the next version number.
\<close>

theorem submission_package_gated:
  assumes "dispatch dump (submission_handlers stamp (Some read_gate)) seen rq db = (r, db')"
  shows "st_packages (db_business db') = st_packages (db_business db)
    \<or> (\<exists>p. st_packages (db_business db') = st_packages (db_business db) @ [p]
        \<and> package_admitted (rq_context rq) (db_business db) p)"
  using assms
proof (cases rule: dispatch_business)
  case (handled h ho)
  then have "submission_effect stamp (Some read_gate) (rq_command rq) (rq_context rq) (db_business db) (db_business db')"
    by (rule submission_handler_effect)
  then show ?thesis
  proof cases
    case (prepared mid prep rd doc fin entries p u)
    from prepared(10) have "case_cleared (cc_tenant_id (rq_context rq)) (sp_case_id prep) (db_business db)"
      by (auto simp: assert_decision_gate_None intro: read_gate_open)
    moreover have "p = new_package (rq_command rq) (rq_context rq) mid u prep doc fin
        (next_package_version (cc_tenant_id (rq_context rq)) (sp_id prep) (st_packages (db_business db)))
        (package_manifest prep rd doc fin entries)" by (rule prepared(12))
    then have "pk_tenant_id p = cc_tenant_id (rq_context rq)" "pk_preparation_package_id p = sp_id prep" "pk_case_id p = sp_case_id prep"
      "pk_manifest_sha256 p = manifest_hash (pk_manifest p)"
      "pk_version p = next_package_version (cc_tenant_id (rq_context rq)) (sp_id prep) (st_packages (db_business db))"
      by (simp_all add: new_package_def)
    ultimately have "package_admitted (rq_context rq) (db_business db) p"
      using prepared(2,5,6,7) find_preparation_Some [OF prepared(4)] by (auto simp: package_admitted_def)
    then show ?thesis by (simp add: prepared(1))
  qed simp_all
qed simp

theorem submission_package_gated_witness:
  "case_cleared 1 40 (db_business ex_submission_db)"
proof -
  have d: "dispatch (\<lambda>_. []) ex_submission_handlers [] ex_submission_request ex_submission_db
      = (fst (dispatch (\<lambda>_. []) ex_submission_handlers [] ex_submission_request ex_submission_db), ex_submitted_db)"
    by (simp add: ex_submitted_db_def)
  have "st_packages (db_business ex_submitted_db) \<noteq> st_packages (db_business ex_submission_db)"
    by (rule ex_submitted) (simp add: ex_submission_db_def ex_submission_tables_def)
  with submission_package_gated [OF d] obtain p where
    "package_admitted (rq_context ex_submission_request) (db_business ex_submission_db) p" by auto
  then show ?thesis
    by (auto simp: package_admitted_def ex_submission_db_def ex_submission_tables_def ex_submission_request_def
        command_context_of_def ex_patron_def)
qed

text \<open>
  C24. The submission tables stay sound through any history of dispatches, whatever reader is
  wired in: the packages of a preparation are numbered 1, 2, 3 without gap, each with the hash
  of its manifest; evidence and signatures name a package of their own tenant and Case, a
  signature the version it was asked for; and a signature has provider proofs exactly when it is
  SIGNED or REJECTED.
\<close>

theorem submission_tables_sound:
  assumes "submission_inv (db_business db)" "dispatch_run dump (submission_handlers stamp reader) steps db = (rs, db')"
  shows "submission_inv (db_business db')"
  using assms by (rule submission.run_preserves)

theorem submission_tables_sound_witness:
  "submission_inv (db_business (snd (dispatch_run (\<lambda>_. []) ex_submission_handlers
     [(0, ex_submission_request), (0, ex_submission_request)] ex_submission_db)))"
  by (rule submission_tables_sound [OF ex_submission_inv surjective_pairing])

text \<open>
  C30. Packages, evidence and signatures are append-only: through any history of dispatches every row of before is still
  there, in place and unchanged. For the signatures this means more than their code intends: the trigger on their
  table refuses the UPDATE by which a callback would finalise one, so that no outcome is ever recorded and a
  signature stays REQUESTED.
\<close>

theorem submission_records_immutable:
  assumes "submission_inv (db_business db)" "dispatch_run dump (submission_handlers stamp reader) steps db = (rs, db')"
  shows "submission_history (db_business db) (db_business db')
    \<and> set (st_signatures (db_business db)) \<subseteq> set (st_signatures (db_business db'))"
proof -
  let ?P = "\<lambda>x. submission_inv (db_business x) \<and> submission_history (db_business db) (db_business x)"
  have "?P db'"
  proof (rule dispatch_run_invariant [where P = ?P, OF _ _ assms(2)])
    fix k rq s r s'
    assume s: "?P s" and d: "dispatch dump (submission_handlers stamp reader) (take k (db_receipts s)) rq s = (r, s')"
    from d show "?P s'"
    proof (cases rule: dispatch_business)
      case (handled h ho)
      then have "submission_effect stamp reader (rq_command rq) (rq_context rq) (db_business s) (db_business s')"
        by (rule submission_handler_effect)
      with s show ?thesis using submission_effect_inv submission_effect_history by blast
    qed (use s in simp)
  qed (use assms(1) submission_history_refl in simp)
  then show ?thesis by (auto simp: submission_history_def)
qed

theorem submission_records_immutable_witness:
  "\<exists>ps. st_packages (db_business (snd (dispatch_run (\<lambda>_. []) ex_submission_handlers [(1, ex_submission_request)] ex_submitted_db)))
     = st_packages (db_business ex_submitted_db) @ ps"
proof -
  have "ex_submitted_db = snd (dispatch_run (\<lambda>_. []) ex_submission_handlers [(0, ex_submission_request)] ex_submission_db)"
    by (simp add: ex_submitted_db_def split: prod.splits)
  then have "submission_inv (db_business ex_submitted_db)"
    using submission.run_preserves [OF ex_submission_inv surjective_pairing] by metis
  then show ?thesis
    by (rule submission_records_immutable [OF _ surjective_pairing, THEN conjunct1, unfolded submission_history_def, THEN conjunct1])
qed


text \<open>What an export writes: one audit event, one domain event, two pending messages.\<close>

definition export_traced :: "uuid \<Rightarrow> submission_tables platform_db \<Rightarrow> submission_tables platform_db \<Rightarrow> bool" where
  "export_traced pid db db' =
     (\<exists>a e m1 m2. db' = db\<lparr> db_events := db_events db @ [e], db_outbox := db_outbox db @ [m1, m2],
          db_business := (db_business db)\<lparr> st_audit := st_audit (db_business db) @ [a] \<rparr> \<rparr>
        \<and> ev_aggregate_id e = pid \<and> ob_event_id m1 = ev_id e \<and> ob_event_id m2 = ev_id e
        \<and> ob_status m1 = ''PENDING'' \<and> ob_status m2 = ''PENDING''
        \<and> au_event_type a = ''SUBMISSION_PACKAGE_EXPORTED'' \<and> au_resource_id a = Some pid)"

lemma export_write_traced:
  assumes "export_write actor p sha fresh now db = Inr db'"
  shows "export_traced (pk_id p) db db'"
proof -
  from assms obtain e m1 m2 where
    "db' = db\<lparr> db_events := db_events db @ [e], db_outbox := db_outbox db @ [m1, m2],
          db_business := (db_business db)\<lparr> st_audit := st_audit (db_business db)
            @ [audit_row_of (fresh 1) (export_audit_entry actor (pk_id p) (pk_case_id p) now)] \<rparr> \<rparr>"
    "ev_aggregate_id e = pk_id p" "ob_event_id m1 = ev_id e" "ob_event_id m2 = ev_id e"
    "ob_status m1 = ''PENDING''" "ob_status m2 = ''PENDING''"
    by (auto simp: export_write_def audit_record_def add_row_Inr export_message_def export_event_def Let_def
        split: sum.splits option.splits if_splits)
  then show ?thesis unfolding export_traced_def
    by (intro exI [of _ "audit_row_of (fresh 1) (export_audit_entry actor (pk_id p) (pk_case_id p) now)"] exI [of _ e]
        exI [of _ m1] exI [of _ m2]) (simp add: audit_row_of_def export_audit_entry_def)
qed

text \<open>The package and the bytes that leave.\<close>

definition export_intact ::
  "(string \<Rightarrow> exn + nat list) \<Rightarrow> ((string \<times> nat list) list \<Rightarrow> nat list) \<Rightarrow> uuid \<Rightarrow> uuid \<Rightarrow> submission_tables \<Rightarrow> nat list \<Rightarrow> bool" where
  "export_intact storage archive tid pid t bytes =
     (\<exists>p \<in> set (st_packages t). \<exists>d \<in> set (st_technical t). \<exists>technical.
        pk_id p = pid \<and> pk_tenant_id p = tid \<and> manifest_hash (pk_manifest p) = pk_manifest_sha256 p
        \<and> case_cleared tid (pk_case_id p) t
        \<and> sd_id d = pk_technical_document_id p \<and> storage (sd_storage_key d) = Inr technical
        \<and> bytes = archive [(''manifest.json'', utf8 (manifest_text (pk_manifest p))), (''technical-response.md'', technical)])"

lemma export_read_intact:
  assumes "export_read (Some read_gate) storage tid pid t = Inr (p, m, technical)"
  shows "export_intact storage archive tid pid t (archive [(''manifest.json'', m), (''technical-response.md'', technical)]) \<and> pk_id p = pid"
proof -
  from assms obtain d where pd: "find_package tid pid (st_packages t) = Some p"
    "manifest_hash (pk_manifest p) = pk_manifest_sha256 p" "m = utf8 (manifest_text (pk_manifest p))"
    "List.find (\<lambda>d. sd_tenant_id d = tid \<and> sd_id d = pk_technical_document_id p) (st_technical t) = Some d"
    "assert_decision_gate (Some read_gate) tid (pk_case_id p) t = None" "storage (sd_storage_key d) = Inr technical"
    by (auto simp: export_read_def split: option.splits if_splits sum.splits)
  have "case_cleared tid (pk_case_id p) t" using pd(5) by (auto simp: assert_decision_gate_None intro: read_gate_open)
  then have "export_intact storage archive tid pid t (archive [(''manifest.json'', m), (''technical-response.md'', technical)])"
    unfolding export_intact_def using pd(2,3,6) find_package_Some [OF pd(1)] find_Some_in [OF pd(4)]
    by (intro bexI [of _ p] bexI [of _ d] exI [of _ technical]) simp_all
  then show ?thesis using find_package_Some [OF pd(1)] by simp
qed

text \<open>
  C29. An export delivers an intact, cleared package and leaves its trace. When it returns bytes,
  an active PATRON_ADMIN of the package's tenant asked, the manifest still has the stored hash,
  the Case is cleared at that moment, the archive holds the manifest text and the stored
  technical response, and exactly one audit event, one domain event and two pending messages
  were written. When it raises, the database is as it was.
\<close>

theorem export_delivers_intact:
  assumes "export_package (Some read_gate) authorize store archive actor pid fresh now db = (r, db')"
  shows "case r of Inl e \<Rightarrow> db' = db
    | Inr bytes \<Rightarrow> a_actor_kind actor = PATRON_ADMIN \<and> a_membership_state actor = Member_ACTIVE
        \<and> (\<exists>storage. store = Some storage \<and> export_intact storage archive (a_tenant_id actor) pid (db_business db) bytes)
        \<and> export_traced pid db db'"
proof (cases r)
  case (Inl e)
  then show ?thesis using assms by (auto simp: export_package_def Let_def split: if_splits option.splits sum.splits)
next
  case (Inr bytes)
  with assms obtain storage where st: "store = Some storage" and kind: "a_actor_kind actor = PATRON_ADMIN"
    by (auto simp: export_package_def split: if_splits option.splits)
  let ?q = "submission_request ''submission.authorize'' ''SUBMISSION_PACKAGE'' FINANCIAL_PRIVATE False pid (a_tenant_id actor) now"
  from assms Inr st kind have z: "z_allowed (authorize actor ?q)" by (auto simp: export_package_def Let_def split: if_splits)
  with assms Inr st kind obtain p m technical where rd: "export_read (Some read_gate) storage (a_tenant_id actor) pid (db_business db) = Inr (p, m, technical)"
    by (auto simp: export_package_def Let_def split: sum.splits)
  let ?bytes = "archive [(''manifest.json'', m), (''technical-response.md'', technical)]"
  from assms Inr st kind z rd have wr: "export_write actor p (sha256_bytes ?bytes) fresh now db = Inr db'" "bytes = ?bytes"
    by (auto simp: export_package_def Let_def split: sum.splits)
  have "a_membership_state actor = Member_ACTIVE" using z by (rule baseline.active_member)
  then show ?thesis
    using Inr st kind wr(2) export_read_intact [OF rd, of archive] export_write_traced [OF wr(1)] by simp
qed

theorem export_delivers_intact_witness:
  "\<exists>bytes db'. export_package (Some read_gate) authorize (Some (\<lambda>_. Inr [7])) (concat \<circ> map snd) ex_patron 0
       (\<lambda>n. of_nat n + 100) 5 ex_submitted_db
       = (Inr bytes, db') \<and> export_traced 0 ex_submitted_db db'"
proof -
  obtain bytes db' where e: "export_package (Some read_gate) authorize (Some (\<lambda>_. Inr [7])) (concat \<circ> map snd) ex_patron 0
      (\<lambda>n. of_nat n + 100) 5 ex_submitted_db = (Inr bytes, db')" by (rule ex_exported)
  from export_delivers_intact [OF e] e show ?thesis by simp
qed

end
