(* ===== verification/RequirementTables.thy ===== *)
theory RequirementTables
  imports DceIntake SecurityAudit
begin

text \<open>
  The tables behind the requirements of a tender (\<open>modules/dce/infrastructure/models/\<close>): the analysis
  of the consultation rules with its observations, the requirements materialized from them, their
  human confirmations, and the register of what a rectified version changes for a case.
  \<open>created_at\<close> and \<open>updated_at\<close> are filled by the database and left out of the rows; foreign keys hold
  because the handlers insert rows of what they just looked up.
\<close>

section \<open>Analysis\<close>

record analysis_row =
  ra_id :: uuid
  ra_tenant_id :: uuid
  ra_dce_version_id :: uuid
  ra_input_manifest_sha256 :: string
  ra_analyzer_id :: string
  ra_analyzer_version :: string
  ra_status :: string
  ra_source_fragment_count :: int
  ra_source_char_count :: int
  ra_failure_code :: "string option"

record observation_row =
  oc_id :: uuid
  oc_tenant_id :: uuid
  oc_analysis_id :: uuid
  oc_dce_version_id :: uuid
  oc_requirement_kind :: string
  oc_directive :: string
  oc_rule_id :: string
  oc_rule_version :: string
  oc_fragment_id :: uuid
  oc_start_byte_offset :: int
  oc_end_byte_offset :: int
  oc_excerpt :: string

record observation_source_row =
  os_id :: uuid
  os_tenant_id :: uuid
  os_observation_id :: uuid
  os_fragment_id :: uuid
  os_start_byte_offset :: int
  os_end_byte_offset :: int

section \<open>Requirements\<close>

record requirement_run_row =
  qr_id :: uuid
  qr_tenant_id :: uuid
  qr_dce_version_id :: uuid
  qr_dce_rc_analysis_id :: uuid
  qr_input_manifest_sha256 :: string
  qr_materializer_id :: string
  qr_materializer_version :: string
  qr_status :: string
  qr_source_observation_count :: int
  qr_failure_code :: "string option"

record dce_requirement_row =
  dq_id :: uuid
  dq_tenant_id :: uuid
  dq_requirements_run_id :: uuid
  dq_dce_version_id :: uuid
  dq_source_observation_id :: uuid
  dq_requirement_type :: string
  dq_directive_signal :: string
  dq_confirmation_status :: string
  dq_uncertainty_status :: string

record requirement_source_row =
  ds_id :: uuid
  ds_tenant_id :: uuid
  ds_requirement_id :: uuid
  ds_source_observation_id :: uuid
  ds_fragment_id :: uuid
  ds_start_byte_offset :: int
  ds_end_byte_offset :: int

definition qr_clash :: "requirement_run_row \<Rightarrow> requirement_run_row \<Rightarrow> bool" where
  "qr_clash r r' =
     (qr_id r = qr_id r'
      \<or> (qr_tenant_id r, qr_dce_version_id r, qr_dce_rc_analysis_id r, qr_input_manifest_sha256 r, qr_materializer_id r,
          qr_materializer_version r)
        = (qr_tenant_id r', qr_dce_version_id r', qr_dce_rc_analysis_id r', qr_input_manifest_sha256 r', qr_materializer_id r',
           qr_materializer_version r'))"

definition qr_check :: "requirement_run_row \<Rightarrow> bool" where
  "qr_check r =
     (qr_status r \<in> {''COMPLETED'', ''NO_SIGNAL'', ''REJECTED_LIMIT'', ''FAILED_SAFE''}
      \<and> 0 \<le> qr_source_observation_count r
      \<and> (qr_status r \<in> {''COMPLETED'', ''NO_SIGNAL''} \<longleftrightarrow> qr_failure_code r = None))"

definition dq_clash :: "dce_requirement_row \<Rightarrow> dce_requirement_row \<Rightarrow> bool" where
  "dq_clash r r' =
     (dq_id r = dq_id r'
      \<or> (dq_tenant_id r, dq_requirements_run_id r, dq_source_observation_id r)
        = (dq_tenant_id r', dq_requirements_run_id r', dq_source_observation_id r'))"

definition REQUIREMENT_TYPE_VALUES :: "string list" where
  "REQUIREMENT_TYPE_VALUES = [''CANDIDATURE_DOCUMENT'', ''OFFER_DOCUMENT'', ''SUBMISSION_DEADLINE_SIGNAL'',
     ''SUBMISSION_CHANNEL'', ''FILE_CONSTRAINT'', ''SITE_VISIT'', ''AWARD_CRITERION_SIGNAL'', ''NEGOTIATION_SIGNAL'',
     ''OFFER_VALIDITY_SIGNAL'', ''CONTRACT_RISK_SIGNAL'']"

definition DIRECTIVE_VALUES :: "string list" where
  "DIRECTIVE_VALUES = [''REQUIRED_SIGNAL'', ''OPTIONAL_SIGNAL'', ''UNSPECIFIED'']"

definition dq_check :: "dce_requirement_row \<Rightarrow> bool" where
  "dq_check r =
     (dq_requirement_type r \<in> set REQUIREMENT_TYPE_VALUES \<and> dq_directive_signal r \<in> set DIRECTIVE_VALUES
      \<and> dq_confirmation_status r = ''PENDING_HUMAN_CONFIRMATION'' \<and> dq_uncertainty_status r = ''SOURCE_SIGNAL_ONLY'')"

definition ds_clash :: "requirement_source_row \<Rightarrow> requirement_source_row \<Rightarrow> bool" where
  "ds_clash r r' =
     (ds_id r = ds_id r' \<or> (ds_tenant_id r, ds_requirement_id r) = (ds_tenant_id r', ds_requirement_id r'))"

definition ds_check :: "requirement_source_row \<Rightarrow> bool" where
  "ds_check r = (0 \<le> ds_start_byte_offset r \<and> ds_start_byte_offset r < ds_end_byte_offset r)"

section \<open>Confirmations\<close>

record requirement_confirmation_row =
  cf_id :: uuid
  cf_tenant_id :: uuid
  cf_requirement_id :: uuid
  cf_revision :: int
  cf_previous_confirmation_id :: "uuid option"
  cf_outcome :: string
  cf_reason_code :: string
  cf_confirmed_by_actor_id :: uuid

record current_confirmation_row =
  cu_tenant_id :: uuid
  cu_requirement_id :: uuid
  cu_confirmation_id :: uuid
  cu_revision :: int
  cu_outcome :: string

definition OUTCOME_VALUES :: "string list" where
  "OUTCOME_VALUES = [''CONFIRMED'', ''REVIEW_REQUIRED'', ''NOT_APPLICABLE'']"

definition REASON_VALUES :: "string list" where
  "REASON_VALUES = [''SOURCE_REVIEWED'', ''AMBIGUOUS_SOURCE'', ''CONTRADICTORY_DCE'', ''PATRON_NOT_APPLICABLE'',
     ''NEEDS_EXTERNAL_CLARIFICATION'']"

definition cf_clash :: "requirement_confirmation_row \<Rightarrow> requirement_confirmation_row \<Rightarrow> bool" where
  "cf_clash r r' =
     (cf_id r = cf_id r'
      \<or> (cf_tenant_id r, cf_requirement_id r, cf_revision r) = (cf_tenant_id r', cf_requirement_id r', cf_revision r'))"

definition cf_check :: "requirement_confirmation_row \<Rightarrow> bool" where
  "cf_check r = (0 < cf_revision r \<and> cf_outcome r \<in> set OUTCOME_VALUES \<and> cf_reason_code r \<in> set REASON_VALUES)"

definition cu_clash :: "current_confirmation_row \<Rightarrow> current_confirmation_row \<Rightarrow> bool" where
  "cu_clash r r' = (cu_requirement_id r = cu_requirement_id r')"

definition cu_check :: "current_confirmation_row \<Rightarrow> bool" where
  "cu_check r = (0 < cu_revision r \<and> cu_outcome r \<in> set OUTCOME_VALUES)"

section \<open>Impact of a rectification\<close>

text \<open>The columns of a case the impact reads.\<close>

record versioned_case_row =
  vc_id :: uuid
  vc_tenant_id :: uuid
  vc_lifecycle :: string
  vc_applicable_dce_version_id :: "uuid option"

record impact_run_row =
  im_id :: uuid
  im_tenant_id :: uuid
  im_case_id :: uuid
  im_predecessor_dce_version_id :: uuid
  im_successor_dce_version_id :: uuid
  im_input_manifest_sha256 :: string
  im_algorithm_id :: string
  im_algorithm_version :: string
  im_status :: string
  im_previous_requirement_count :: int
  im_successor_requirement_count :: int
  im_failure_code :: "string option"
  im_created_by_actor_id :: uuid

record impact_item_row =
  ii_id :: uuid
  ii_tenant_id :: uuid
  ii_impact_run_id :: uuid
  ii_case_id :: uuid
  ii_impact_kind :: string
  ii_previous_requirement_id :: "uuid option"
  ii_successor_requirement_id :: "uuid option"
  ii_review_state :: string
  ii_evidence_code :: string

definition im_clash :: "impact_run_row \<Rightarrow> impact_run_row \<Rightarrow> bool" where
  "im_clash r r' =
     (im_id r = im_id r'
      \<or> (im_tenant_id r, im_case_id r, im_predecessor_dce_version_id r, im_successor_dce_version_id r,
          im_input_manifest_sha256 r, im_algorithm_id r, im_algorithm_version r)
        = (im_tenant_id r', im_case_id r', im_predecessor_dce_version_id r', im_successor_dce_version_id r',
           im_input_manifest_sha256 r', im_algorithm_id r', im_algorithm_version r'))"

definition im_check :: "impact_run_row \<Rightarrow> bool" where
  "im_check r =
     (im_status r \<in> {''COMPLETED'', ''NO_SIGNAL''} \<and> 0 \<le> im_previous_requirement_count r
      \<and> 0 \<le> im_successor_requirement_count r \<and> im_failure_code r = None)"

definition ii_clash :: "impact_item_row \<Rightarrow> impact_item_row \<Rightarrow> bool" where
  "ii_clash r r' = (ii_id r = ii_id r')"

definition ii_check :: "impact_item_row \<Rightarrow> bool" where
  "ii_check r =
     (ii_review_state r \<in> {''REVIEW_REQUIRED'', ''PENDING_HUMAN_REVIEW''}
      \<and> ii_evidence_code r \<in> {''RECTIFICATION_CHAIN'', ''PREVIOUS_REQUIREMENT'', ''SUCCESSOR_REQUIREMENT'', ''NO_SIGNAL''}
      \<and> (ii_impact_kind r = ''PREVIOUS_REQUIREMENT_REQUIRES_REVIEW''
           \<and> ii_previous_requirement_id r \<noteq> None \<and> ii_successor_requirement_id r = None
         \<or> ii_impact_kind r = ''SUCCESSOR_REQUIREMENT_CANDIDATE''
           \<and> ii_previous_requirement_id r = None \<and> ii_successor_requirement_id r \<noteq> None
         \<or> ii_impact_kind r \<in> {''DCE_VERSION_REPLACED'', ''VERSION_HAS_NO_MATERIALIZED_SIGNAL''}
           \<and> ii_previous_requirement_id r = None \<and> ii_successor_requirement_id r = None))"

section \<open>The tables\<close>

record requirement_tables =
  rt_versions :: "version_row list"
  rt_cases :: "versioned_case_row list"
  rt_analyses :: "analysis_row list"
  rt_observations :: "observation_row list"
  rt_observation_sources :: "observation_source_row list"
  rt_runs :: "requirement_run_row list"
  rt_requirements :: "dce_requirement_row list"
  rt_sources :: "requirement_source_row list"
  rt_confirmations :: "requirement_confirmation_row list"
  rt_currents :: "current_confirmation_row list"
  rt_impacts :: "impact_run_row list"
  rt_impact_items :: "impact_item_row list"
  rt_audit :: "audit_row list"

end
