(* ===== verification/NameUuid.thy ===== *)
theory NameUuid
  imports Encoding
begin

text \<open>
  \<open>uuid.uuid5(namespace, name)\<close> of Python's standard library: the first 16 bytes of the SHA-1
  digest of the namespace and the name, with the version and variant bits set. SHA-1 is written
  out on 32-bit words, with the words and the padding it shares with SHA-256.
\<close>

unbundle bit_operations_syntax

type_synonym sha1_state = "w32 \<times> w32 \<times> w32 \<times> w32 \<times> w32"

definition sha1_init :: sha1_state where
  "sha1_init = (0x67452301, 0xEFCDAB89, 0x98BADCFE, 0x10325476, 0xC3D2E1F0)"

definition sha1_k :: "nat \<Rightarrow> w32" where
  "sha1_k t = (if t < 20 then 0x5A827999 else if t < 40 then 0x6ED9EBA1 else if t < 60 then 0x8F1BBCDC else 0xCA62C1D6)"

definition sha1_f :: "nat \<Rightarrow> w32 \<Rightarrow> w32 \<Rightarrow> w32 \<Rightarrow> w32" where
  "sha1_f t b c d =
     (if t < 20 then ch b c d else if t < 40 then (b XOR c) XOR d else if t < 60 then maj b c d else (b XOR c) XOR d)"

text \<open>The message schedule, built backwards as for SHA-256.\<close>

fun sha1_schedule :: "nat \<Rightarrow> w32 list \<Rightarrow> w32 list" where
  "sha1_schedule 0 ws = rev ws"
| "sha1_schedule (Suc n) ws =
     sha1_schedule n (rotr 31 (((ws ! 2 XOR ws ! 7) XOR ws ! 13) XOR ws ! 15) # ws)"

fun sha1_round :: "nat \<times> w32 \<Rightarrow> sha1_state \<Rightarrow> sha1_state" where
  "sha1_round (t, w) (a, b, c, d, e) =
     (rotr 27 a + sha1_f t b c d + e + sha1_k t + w, a, rotr 2 b, c, d)"

fun sha1_add :: "sha1_state \<Rightarrow> sha1_state \<Rightarrow> sha1_state" where
  "sha1_add (a, b, c, d, e) (a', b', c', d', e') = (a + a', b + b', c + c', d + d', e + e')"

definition sha1_compress :: "w32 list \<Rightarrow> sha1_state \<Rightarrow> sha1_state" where
  "sha1_compress block st = sha1_add st (fold sha1_round (List.enumerate 0 (sha1_schedule 64 (rev block))) st)"

fun sha1_blocks :: "w32 list \<Rightarrow> sha1_state \<Rightarrow> sha1_state" where
  "sha1_blocks ws st =
     (if length ws < 16 then st else sha1_blocks (drop 16 ws) (sha1_compress (take 16 ws) st))"

declare sha1_blocks.simps [simp del]

text \<open>The first four words of the digest are the first 16 bytes, big-endian.\<close>

fun sha1_uuid :: "sha1_state \<Rightarrow> uuid" where
  "sha1_uuid (a, b, c, d, e) =
     ((push_bit 96 (ucast a) OR push_bit 64 (ucast b)) OR push_bit 32 (ucast c)) OR ucast d"

definition uuid_bytes :: "uuid \<Rightarrow> nat list" where
  "uuid_bytes u = be_bytes 16 (unat u)"

text \<open>The bits of RFC 4122: variant 10 and version 5.\<close>

definition as_version5 :: "uuid \<Rightarrow> uuid" where
  "as_version5 u =
     (((u AND NOT (push_bit 48 0xC000)) OR push_bit 48 0x8000) AND NOT (push_bit 64 0xF000)) OR push_bit 76 5"

definition uuid5 :: "uuid \<Rightarrow> string \<Rightarrow> uuid" where
  "uuid5 namespace s =
     as_version5 (sha1_uuid (sha1_blocks (be_words (sha_pad (uuid_bytes namespace @ utf8 s))) sha1_init))"

end
