(* ===== verification/DceRequirements.thy ===== *)
theory DceRequirements
  imports RequirementTables NameUuid "HOL-Library.Product_Lexorder"
begin

text \<open>
  The requirements of a tender (\<open>modules/dce/application/requirements.py\<close>, \<open>impact.py\<close>, the last three
  handlers of \<open>handlers.py\<close> and their commands): what is materialized from a completed analysis, its
  human confirmation, and the register of what a rectified version changes for a case.

  \<open>created\<close> is the \<open>created_at\<close> column of the runs, which the database fills.
\<close>

section \<open>Signals\<close>

record requirement_signal =
  sl_observation_id :: uuid
  sl_requirement_kind :: string
  sl_directive :: string
  sl_rule_id :: string
  sl_rule_version :: string
  sl_fragment_id :: uuid
  sl_start_byte_offset :: int
  sl_end_byte_offset :: int

record requirement_projection =
  rj_status :: string
  rj_failure_code :: "string option"
  rj_signals :: "requirement_signal list"

definition MATERIALIZER_ID :: string where
  "MATERIALIZER_ID = ''smart-ao-rc-requirement-materializer''"

definition MATERIALIZER_VERSION :: string where
  "MATERIALIZER_VERSION = ''2''"

definition SYSTEM_REQUIREMENTS_ACTOR_ID :: uuid where
  "SYSTEM_REQUIREMENTS_ACTOR_ID = 0x16"

definition MAX_OBSERVATIONS :: nat where
  "MAX_OBSERVATIONS = 20000"

definition REQUIREMENT_TYPES :: "(string \<times> string) list" where
  "REQUIREMENT_TYPES =
     [(''RC_DOCUMENT_CANDIDATURE'', ''CANDIDATURE_DOCUMENT''), (''RC_CONTENT_OFFER'', ''OFFER_DOCUMENT''),
      (''RC_SUBMISSION_DEADLINE'', ''SUBMISSION_DEADLINE_SIGNAL''), (''RC_RESPONSE_CHANNEL'', ''SUBMISSION_CHANNEL''),
      (''RC_FILE_CONSTRAINT'', ''FILE_CONSTRAINT''), (''RC_SITE_VISIT'', ''SITE_VISIT''),
      (''RC_AWARD_CRITERION'', ''AWARD_CRITERION_SIGNAL''), (''RC_NEGOTIATION'', ''NEGOTIATION_SIGNAL''),
      (''RC_OFFER_VALIDITY'', ''OFFER_VALIDITY_SIGNAL''), (''CCAP_PENALTIES'', ''CONTRACT_RISK_SIGNAL''),
      (''CCAP_RETENTION_GUARANTEE'', ''CONTRACT_RISK_SIGNAL''), (''CCAP_GUARANTEE'', ''CONTRACT_RISK_SIGNAL''),
      (''CCAP_INSURANCE'', ''CONTRACT_RISK_SIGNAL''), (''CCTP_VARIANTS'', ''CONTRACT_RISK_SIGNAL''),
      (''CCAP_SUBCONTRACTING'', ''CONTRACT_RISK_SIGNAL''), (''CCAP_QUALIFICATIONS'', ''CONTRACT_RISK_SIGNAL'')]"

text \<open>The handler has a table of its own.\<close>

definition EXPECTED_TYPES :: "(string \<times> string) list" where
  "EXPECTED_TYPES =
     [(''RC_DOCUMENT_CANDIDATURE'', ''CANDIDATURE_DOCUMENT''), (''RC_CONTENT_OFFER'', ''OFFER_DOCUMENT''),
      (''RC_SUBMISSION_DEADLINE'', ''SUBMISSION_DEADLINE_SIGNAL''), (''RC_RESPONSE_CHANNEL'', ''SUBMISSION_CHANNEL''),
      (''RC_FILE_CONSTRAINT'', ''FILE_CONSTRAINT''), (''RC_SITE_VISIT'', ''SITE_VISIT''),
      (''RC_AWARD_CRITERION'', ''AWARD_CRITERION_SIGNAL''), (''RC_NEGOTIATION'', ''NEGOTIATION_SIGNAL''),
      (''RC_OFFER_VALIDITY'', ''OFFER_VALIDITY_SIGNAL'')]"

definition project_requirements :: "requirement_signal list \<Rightarrow> requirement_projection" where
  "project_requirements signals =
     (if MAX_OBSERVATIONS < length signals
        then \<lparr> rj_status = ''REJECTED_LIMIT'', rj_failure_code = Some ''REQUIREMENT_LIMIT'', rj_signals = signals \<rparr>
      else if signals = [] then \<lparr> rj_status = ''NO_SIGNAL'', rj_failure_code = None, rj_signals = [] \<rparr>
      else if list_ex (\<lambda>s. map_of REQUIREMENT_TYPES (sl_requirement_kind s) = None) signals
        then \<lparr> rj_status = ''FAILED_SAFE'', rj_failure_code = Some ''REQUIREMENT_MAPPING_UNKNOWN'', rj_signals = signals \<rparr>
      else \<lparr> rj_status = ''COMPLETED'', rj_failure_code = None, rj_signals = signals \<rparr>)"

definition signal_line :: "requirement_signal \<Rightarrow> string" where
  "signal_line s = join ''|'' [uuid_str (sl_observation_id s), sl_requirement_kind s, sl_directive s, sl_rule_id s,
     sl_rule_version s, uuid_str (sl_fragment_id s), int_str (sl_start_byte_offset s), int_str (sl_end_byte_offset s)]"

definition requirements_manifest_sha256 :: "requirement_signal list \<Rightarrow> string" where
  "requirements_manifest_sha256 signals = sha256_hex (join [CHR 0x0A] (map signal_line signals))"

section \<open>Reading the signals\<close>

definition find_version :: "uuid \<Rightarrow> uuid \<Rightarrow> version_row list \<Rightarrow> version_row option" where
  "find_version tid vid rows = List.find (\<lambda>r. vr_tenant_id r = tid \<and> vr_id r = vid) rows"

definition find_analysis :: "uuid \<Rightarrow> uuid \<Rightarrow> analysis_row list \<Rightarrow> analysis_row option" where
  "find_analysis tid aid rows = List.find (\<lambda>r. ra_tenant_id r = tid \<and> ra_id r = aid) rows"

definition requirements_ready :: "version_row option \<Rightarrow> bool" where
  "requirements_ready v =
     (case v of None \<Rightarrow> False | Some r \<Rightarrow> vr_lifecycle r \<in> {''ADMITTED'', ''SUPERSEDED''} \<and> vr_integrity r = ''VERIFIED'')"

text \<open>The join of the observations a filter keeps with their sources, in the order of the observations.\<close>

definition observed_pairs ::
  "uuid \<Rightarrow> (observation_row \<Rightarrow> bool) \<Rightarrow> requirement_tables \<Rightarrow> (observation_row \<times> observation_source_row) list" where
  "observed_pairs tid keep t =
     concat (map (\<lambda>oc. map (Pair oc) (filter (\<lambda>os. os_tenant_id os = oc_tenant_id oc \<and> os_observation_id os = oc_id oc)
                                              (rt_observation_sources t)))
       (sort_key oc_id (filter (\<lambda>oc. oc_tenant_id oc = tid \<and> keep oc) (rt_observations t))))"

definition signal_of :: "observation_row \<times> observation_source_row \<Rightarrow> requirement_signal" where
  "signal_of p = (case p of (oc, os) \<Rightarrow> \<lparr> sl_observation_id = oc_id oc, sl_requirement_kind = oc_requirement_kind oc,
     sl_directive = oc_directive oc, sl_rule_id = oc_rule_id oc, sl_rule_version = oc_rule_version oc,
     sl_fragment_id = os_fragment_id os, sl_start_byte_offset = os_start_byte_offset os,
     sl_end_byte_offset = os_end_byte_offset os \<rparr>)"

definition load_signals :: "uuid \<Rightarrow> uuid \<Rightarrow> uuid \<Rightarrow> requirement_tables \<Rightarrow> exn + requirement_signal list" where
  "load_signals tid vid aid t =
     (if \<not> requirements_ready (find_version tid vid (rt_versions t)) then Inl (ValueError ''DCE_VERSION_NOT_REQUIREMENTS_READY'')
      else (case find_analysis tid aid (rt_analyses t) of
         None \<Rightarrow> Inl (ValueError ''DCE_RC_ANALYSIS_COMPLETED_REQUIRED'')
       | Some a \<Rightarrow>
         if ra_dce_version_id a \<noteq> vid \<or> ra_status a \<noteq> ''COMPLETED''
           then Inl (ValueError ''DCE_RC_ANALYSIS_COMPLETED_REQUIRED'')
         else Inr (map signal_of (observed_pairs tid (\<lambda>oc. oc_analysis_id oc = aid) t))))"

section \<open>Commands\<close>

record requirement_input =
  ri_requirement_id :: uuid
  ri_source_observation_id :: uuid
  ri_requirement_type :: string
  ri_directive_signal :: string
  ri_confirmation_status :: string
  ri_uncertainty_status :: string

record materialization_fields =
  mf_requirements_run_id :: uuid
  mf_dce_version_id :: uuid
  mf_dce_rc_analysis_id :: uuid
  mf_input_manifest_sha256 :: string
  mf_materializer_id :: string
  mf_materializer_version :: string
  mf_status :: string
  mf_source_observation_count :: int
  mf_failure_code :: "string option"
  mf_requirements :: "requirement_input list"

record confirmation_fields =
  nf_confirmation_id :: uuid
  nf_requirement_id :: uuid
  nf_expected_confirmation_revision :: int
  nf_outcome :: string
  nf_reason_code :: string

record impact_item_input =
  pi_impact_item_id :: uuid
  pi_impact_kind :: string
  pi_previous_requirement_id :: "uuid option"
  pi_successor_requirement_id :: "uuid option"
  pi_review_state :: string
  pi_evidence_code :: string

record impact_fields =
  if_impact_run_id :: uuid
  if_case_id :: uuid
  if_predecessor_dce_version_id :: uuid
  if_successor_dce_version_id :: uuid
  if_input_manifest_sha256 :: string
  if_algorithm_id :: string
  if_algorithm_version :: string
  if_status :: string
  if_previous_requirement_count :: int
  if_successor_requirement_count :: int
  if_items :: "impact_item_input list"

datatype requirement_command =
    RecordDceRequirementMaterializationRun materialization_fields
  | RecordDceRequirementConfirmation confirmation_fields
  | RecordCaseDceImpactRun impact_fields

text \<open>The constraints of the command models, where a violation is a \<open>ValidationError\<close>, a \<open>ValueError\<close>.\<close>

definition requirement_input_valid :: "requirement_input \<Rightarrow> bool" where
  "requirement_input_valid i =
     (ri_requirement_type i \<in> set REQUIREMENT_TYPE_VALUES \<and> ri_directive_signal i \<in> set DIRECTIVE_VALUES
      \<and> ri_confirmation_status i = ''PENDING_HUMAN_CONFIRMATION'' \<and> ri_uncertainty_status i = ''SOURCE_SIGNAL_ONLY'')"

definition terminal_projection_valid :: "materialization_fields \<Rightarrow> bool" where
  "terminal_projection_valid f =
     (distinct (map ri_source_observation_id (mf_requirements f)) \<and> distinct (map ri_requirement_id (mf_requirements f))
      \<and> (if mf_status f = ''COMPLETED''
           then mf_failure_code f = None \<and> int (length (mf_requirements f)) = mf_source_observation_count f
         else if mf_status f = ''NO_SIGNAL''
           then mf_failure_code f = None \<and> mf_source_observation_count f = 0 \<and> mf_requirements f = []
         else mf_failure_code f \<noteq> None \<and> mf_requirements f = []))"

definition materialization_valid :: "materialization_fields \<Rightarrow> bool" where
  "materialization_valid f =
     (is_sha256 (mf_input_manifest_sha256 f)
      \<and> 1 \<le> length (mf_materializer_id f) \<and> length (mf_materializer_id f) \<le> 100
      \<and> 1 \<le> length (mf_materializer_version f) \<and> length (mf_materializer_version f) \<le> 64
      \<and> mf_status f \<in> {''COMPLETED'', ''NO_SIGNAL'', ''REJECTED_LIMIT'', ''FAILED_SAFE''}
      \<and> 0 \<le> mf_source_observation_count f
      \<and> (case mf_failure_code f of None \<Rightarrow> True | Some c \<Rightarrow> length c \<le> 120)
      \<and> length (mf_requirements f) \<le> 20000 \<and> list_all requirement_input_valid (mf_requirements f)
      \<and> terminal_projection_valid f)"

definition requirement_type_of :: "string \<Rightarrow> string" where
  "requirement_type_of kind = (case map_of REQUIREMENT_TYPES kind of Some t \<Rightarrow> t | None \<Rightarrow> [])"

definition requirement_run_id :: "uuid \<Rightarrow> string \<Rightarrow> uuid" where
  "requirement_run_id aid manifest = uuid5 aid (manifest @ '':'' @ MATERIALIZER_ID @ '':'' @ MATERIALIZER_VERSION)"

definition requirement_input_of :: "uuid \<Rightarrow> requirement_signal \<Rightarrow> requirement_input" where
  "requirement_input_of run_id s = \<lparr> ri_requirement_id = uuid5 run_id (uuid_str (sl_observation_id s)),
     ri_source_observation_id = sl_observation_id s, ri_requirement_type = requirement_type_of (sl_requirement_kind s),
     ri_directive_signal = sl_directive s, ri_confirmation_status = ''PENDING_HUMAN_CONFIRMATION'',
     ri_uncertainty_status = ''SOURCE_SIGNAL_ONLY'' \<rparr>"

text \<open>Types of \<open>COMPLETED\<close> projections are all in the table; the empty default is not reached.\<close>

definition recording_fields :: "uuid \<Rightarrow> uuid \<Rightarrow> requirement_projection \<Rightarrow> materialization_fields" where
  "recording_fields vid aid p =
     (let manifest = requirements_manifest_sha256 (rj_signals p); run_id = requirement_run_id aid manifest in
      \<lparr> mf_requirements_run_id = run_id, mf_dce_version_id = vid, mf_dce_rc_analysis_id = aid,
        mf_input_manifest_sha256 = manifest, mf_materializer_id = MATERIALIZER_ID,
        mf_materializer_version = MATERIALIZER_VERSION, mf_status = rj_status p,
        mf_source_observation_count = int (length (rj_signals p)), mf_failure_code = rj_failure_code p,
        mf_requirements = (if rj_status p = ''COMPLETED'' then map (requirement_input_of run_id) (rj_signals p) else []) \<rparr>)"

section \<open>Materialization\<close>

definition requirement_outcome ::
  "string \<Rightarrow> string \<Rightarrow> uuid \<Rightarrow> int \<Rightarrow> string option \<Rightarrow> (string \<times> json) list \<Rightarrow> handler_outcome" where
  "requirement_outcome rcode aggregate u revn etype payload = \<lparr> ho_result_code = rcode,
     ho_aggregate_refs = [JObj [(''aggregate_type'', JStr aggregate), (''aggregate_id'', JStr (uuid_str u)),
       (''aggregate_revision'', JInt revn)]],
     ho_events = (case etype of None \<Rightarrow> [] | Some e \<Rightarrow>
       [\<lparr> pe_aggregate_type = aggregate, pe_aggregate_id = u, pe_aggregate_revision = revn, pe_event_type = e,
          pe_payload = payload, pe_topic = ''cockpit_projection'', pe_payload_version = 1 \<rparr>]) \<rparr>"

text \<open>One pair of the comparison: the identifiers first, then the type the handler expects, whose lookup
  raises \<open>KeyError\<close> for a kind outside its table.\<close>

definition mapping_problem :: "requirement_input \<times> requirement_signal \<Rightarrow> exn option" where
  "mapping_problem p = (case p of (i, s) \<Rightarrow>
     if ri_source_observation_id i \<noteq> sl_observation_id s then Some (ValueError ''DCE_REQUIREMENT_MAPPING_REQUIRED'')
     else (case map_of EXPECTED_TYPES (sl_requirement_kind s) of
        None \<Rightarrow> Some KeyError
      | Some t \<Rightarrow>
        if ri_requirement_type i \<noteq> t \<or> ri_directive_signal i \<noteq> sl_directive s
           \<or> ri_confirmation_status i \<noteq> ''PENDING_HUMAN_CONFIRMATION'' \<or> ri_uncertainty_status i \<noteq> ''SOURCE_SIGNAL_ONLY''
        then Some (ValueError ''DCE_REQUIREMENT_MAPPING_REQUIRED'') else None))"

fun first_exn :: "('a \<Rightarrow> exn option) \<Rightarrow> 'a list \<Rightarrow> exn option" where
  "first_exn p [] = None"
| "first_exn p (x # xs) = (case p x of Some e \<Rightarrow> Some e | None \<Rightarrow> first_exn p xs)"

definition requirements_problem :: "materialization_fields \<Rightarrow> requirement_signal list \<Rightarrow> exn option" where
  "requirements_problem f signals =
     (if mf_status f \<noteq> ''COMPLETED'' then None
      else if length (mf_requirements f) \<noteq> length signals then Some (ValueError ''DCE_REQUIREMENT_COUNT_REQUIRED'')
      else first_exn mapping_problem (zip (mf_requirements f) signals))"

definition new_requirement_run :: "materialization_fields \<Rightarrow> command_context \<Rightarrow> requirement_run_row" where
  "new_requirement_run f ctx = \<lparr> qr_id = mf_requirements_run_id f, qr_tenant_id = cc_tenant_id ctx,
     qr_dce_version_id = mf_dce_version_id f, qr_dce_rc_analysis_id = mf_dce_rc_analysis_id f,
     qr_input_manifest_sha256 = lower (mf_input_manifest_sha256 f), qr_materializer_id = mf_materializer_id f,
     qr_materializer_version = mf_materializer_version f, qr_status = mf_status f,
     qr_source_observation_count = mf_source_observation_count f, qr_failure_code = mf_failure_code f \<rparr>"

definition new_requirement :: "materialization_fields \<Rightarrow> command_context \<Rightarrow> requirement_input \<Rightarrow> dce_requirement_row" where
  "new_requirement f ctx i = \<lparr> dq_id = ri_requirement_id i, dq_tenant_id = cc_tenant_id ctx,
     dq_requirements_run_id = mf_requirements_run_id f, dq_dce_version_id = mf_dce_version_id f,
     dq_source_observation_id = ri_source_observation_id i, dq_requirement_type = ri_requirement_type i,
     dq_directive_signal = ri_directive_signal i, dq_confirmation_status = ri_confirmation_status i,
     dq_uncertainty_status = ri_uncertainty_status i \<rparr>"

definition new_requirement_source ::
  "command_context \<Rightarrow> uuid \<Rightarrow> requirement_input \<Rightarrow> observation_source_row \<Rightarrow> requirement_source_row" where
  "new_requirement_source ctx u i os = \<lparr> ds_id = u, ds_tenant_id = cc_tenant_id ctx, ds_requirement_id = ri_requirement_id i,
     ds_source_observation_id = ri_source_observation_id i, ds_fragment_id = os_fragment_id os,
     ds_start_byte_offset = os_start_byte_offset os, ds_end_byte_offset = os_end_byte_offset os \<rparr>"

text \<open>\<open>source_by_observation\<close>: the last pair of an observation wins.\<close>

definition source_by_observation :: "(observation_row \<times> observation_source_row) list \<Rightarrow> uuid \<Rightarrow> observation_source_row option" where
  "source_by_observation pairs = map_of (rev (map (\<lambda>(oc, os). (oc_id oc, os)) pairs))"

fun insert_requirements ::
  "materialization_fields \<Rightarrow> command_context \<Rightarrow> (uuid \<Rightarrow> observation_source_row option) \<Rightarrow> (nat \<Rightarrow> uuid) \<Rightarrow> nat
   \<Rightarrow> requirement_input list \<Rightarrow> requirement_tables \<Rightarrow> exn + requirement_tables" where
  "insert_requirements f ctx source fresh k [] t = Inr t"
| "insert_requirements f ctx source fresh k (i # is) t =
     (case source (ri_source_observation_id i) of None \<Rightarrow> Inl KeyError | Some os \<Rightarrow>
      (case insert_row dq_check dq_clash (new_requirement f ctx i) (rt_requirements t) of Inl e \<Rightarrow> Inl e | Inr reqs \<Rightarrow>
       (case insert_row ds_check ds_clash (new_requirement_source ctx (fresh k) i os) (rt_sources t) of Inl e \<Rightarrow> Inl e | Inr srcs \<Rightarrow>
        insert_requirements f ctx source fresh (Suc k) is (t\<lparr> rt_requirements := reqs, rt_sources := srcs \<rparr>))))"

definition same_run :: "materialization_fields \<Rightarrow> command_context \<Rightarrow> requirement_run_row \<Rightarrow> bool" where
  "same_run f ctx r =
     (qr_tenant_id r = cc_tenant_id ctx \<and> qr_dce_version_id r = mf_dce_version_id f
      \<and> qr_dce_rc_analysis_id r = mf_dce_rc_analysis_id f
      \<and> qr_input_manifest_sha256 r = lower (mf_input_manifest_sha256 f)
      \<and> qr_materializer_id r = mf_materializer_id f \<and> qr_materializer_version r = mf_materializer_version f)"

definition record_materialization ::
  "materialization_fields \<Rightarrow> command_context \<Rightarrow> (nat \<Rightarrow> uuid) \<Rightarrow> requirement_tables \<Rightarrow> exn + (handler_outcome \<times> requirement_tables)" where
  "record_materialization f ctx fresh t =
     (if cc_actor_kind ctx \<noteq> ''SYSTEM'' then Inl (ValueError ''DCE_REQUIREMENT_SYSTEM_ACTOR_REQUIRED'')
      else if \<not> requirements_ready (find_version (cc_tenant_id ctx) (mf_dce_version_id f) (rt_versions t))
        then Inl (ValueError ''DCE_VERSION_NOT_REQUIREMENTS_READY'')
      else (case List.find (\<lambda>r. ra_tenant_id r = cc_tenant_id ctx \<and> ra_id r = mf_dce_rc_analysis_id f
                                 \<and> ra_dce_version_id r = mf_dce_version_id f) (rt_analyses t) of
        None \<Rightarrow> Inl (ValueError ''DCE_RC_ANALYSIS_COMPLETED_REQUIRED'')
      | Some a \<Rightarrow>
        if ra_status a \<noteq> ''COMPLETED'' then Inl (ValueError ''DCE_RC_ANALYSIS_COMPLETED_REQUIRED'')
        else
          (let pairs = observed_pairs (cc_tenant_id ctx)
                 (\<lambda>oc. oc_analysis_id oc = ra_id a \<and> oc_dce_version_id oc = mf_dce_version_id f) t;
               signals = map signal_of pairs; p = project_requirements signals in
           if lower (mf_input_manifest_sha256 f) \<noteq> requirements_manifest_sha256 signals
             then Inl (ValueError ''DCE_REQUIREMENT_INPUT_MANIFEST_REQUIRED'')
           else if mf_source_observation_count f \<noteq> int (length signals)
             then Inl (ValueError ''DCE_REQUIREMENT_SOURCE_COUNT_REQUIRED'')
           else (case List.find (same_run f ctx) (rt_runs t) of
             Some r \<Rightarrow> Inr (requirement_outcome ''DCE_REQUIREMENTS_ALREADY_MATERIALIZED''
                         ''DCE_REQUIREMENT_MATERIALIZATION_RUN'' (qr_id r) 0 None [], t)
           | None \<Rightarrow>
             if mf_status f \<noteq> rj_status p \<or> mf_failure_code f \<noteq> rj_failure_code p
               then Inl (ValueError ''DCE_REQUIREMENT_PROJECTION_REQUIRED'')
             else (case requirements_problem f signals of Some e \<Rightarrow> Inl e | None \<Rightarrow>
               (case insert_row qr_check qr_clash (new_requirement_run f ctx) (rt_runs t) of Inl e \<Rightarrow> Inl e | Inr runs \<Rightarrow>
                (case insert_requirements f ctx (source_by_observation pairs) fresh 0 (mf_requirements f) (t\<lparr> rt_runs := runs \<rparr>) of
                   Inl e \<Rightarrow> Inl e
                 | Inr t' \<Rightarrow>
                   Inr (requirement_outcome ''DCE_REQUIREMENTS_MATERIALIZED'' ''DCE_REQUIREMENT_MATERIALIZATION_RUN''
                          (mf_requirements_run_id f) 0 (Some ''DCE_REQUIREMENTS_MATERIALIZED'')
                          [(''requirements_run_id'', JStr (uuid_str (mf_requirements_run_id f))),
                           (''dce_version_id'', JStr (uuid_str (mf_dce_version_id f))),
                           (''dce_rc_analysis_id'', JStr (uuid_str (mf_dce_rc_analysis_id f))),
                           (''status'', JStr (mf_status f)),
                           (''source_observation_count'', JInt (mf_source_observation_count f)),
                           (''requirement_count'', JInt (int (length (mf_requirements f))))],
                        t'))))))))"

section \<open>Confirmation\<close>

definition confirmation_valid :: "confirmation_fields \<Rightarrow> bool" where
  "confirmation_valid f =
     (0 \<le> nf_expected_confirmation_revision f \<and> nf_outcome f \<in> set OUTCOME_VALUES \<and> nf_reason_code f \<in> set REASON_VALUES
      \<and> (nf_outcome f = ''NOT_APPLICABLE'' \<longleftrightarrow> nf_reason_code f = ''PATRON_NOT_APPLICABLE''))"

definition find_requirement :: "uuid \<Rightarrow> uuid \<Rightarrow> dce_requirement_row list \<Rightarrow> dce_requirement_row option" where
  "find_requirement tid rid rows = List.find (\<lambda>r. dq_tenant_id r = tid \<and> dq_id r = rid) rows"

definition find_current :: "uuid \<Rightarrow> uuid \<Rightarrow> current_confirmation_row list \<Rightarrow> current_confirmation_row option" where
  "find_current tid rid rows = List.find (\<lambda>r. cu_tenant_id r = tid \<and> cu_requirement_id r = rid) rows"

definition new_confirmation ::
  "confirmation_fields \<Rightarrow> command_context \<Rightarrow> uuid \<Rightarrow> current_confirmation_row option \<Rightarrow> requirement_confirmation_row" where
  "new_confirmation f ctx rid cur = \<lparr> cf_id = nf_confirmation_id f, cf_tenant_id = cc_tenant_id ctx, cf_requirement_id = rid,
     cf_revision = (case cur of None \<Rightarrow> 0 | Some c \<Rightarrow> cu_revision c) + 1,
     cf_previous_confirmation_id = map_option cu_confirmation_id cur, cf_outcome = nf_outcome f,
     cf_reason_code = nf_reason_code f, cf_confirmed_by_actor_id = cc_actor_id ctx \<rparr>"

text \<open>The pointer to the current confirmation, added with the first one and moved afterwards.\<close>

definition save_current ::
  "requirement_confirmation_row \<Rightarrow> current_confirmation_row option \<Rightarrow> current_confirmation_row list
   \<Rightarrow> exn + current_confirmation_row list" where
  "save_current k cur rows =
     (case cur of
        None \<Rightarrow> insert_row cu_check cu_clash \<lparr> cu_tenant_id = cf_tenant_id k, cu_requirement_id = cf_requirement_id k,
                  cu_confirmation_id = cf_id k, cu_revision = cf_revision k, cu_outcome = cf_outcome k \<rparr> rows
      | Some c \<Rightarrow>
        (let c' = c\<lparr> cu_confirmation_id := cf_id k, cu_revision := cf_revision k, cu_outcome := cf_outcome k \<rparr> in
         if \<not> cu_check c' then Inl IntegrityError
         else Inr (update_where (\<lambda>r. cu_tenant_id r = cu_tenant_id c \<and> cu_requirement_id r = cu_requirement_id c) (\<lambda>_. c') rows)))"

text \<open>
  The tenants that the audit events of this module name exist: the tenant of a row that was found, and the tenant of a
  resolved actor, whose membership row has it, are kept in \<open>tenants\<close> by their own foreign keys.
\<close>

definition confirmation_entry :: "'c app_command \<Rightarrow> command_context \<Rightarrow> uuid \<Rightarrow> audit_entry" where
  "confirmation_entry c ctx rid = \<lparr> ae_occurred_at = cc_received_at ctx, ae_tenant_id = Some (cc_tenant_id ctx),
     ae_actor_id = Some (cc_actor_id ctx), ae_identity_id = cc_identity_id ctx, ae_session_id = cc_session_id ctx,
     ae_actor_kind = Some (cc_actor_kind ctx), ae_auth_strength = None, ae_event_type = Audit_AUTHZ_SUCCEEDED,
     ae_outcome = Outcome_SUCCEEDED, ae_severity = Severity_INFO, ae_action = ''dce.requirement.confirm'',
     ae_resource_type = Some ''DCE_REQUIREMENT'', ae_resource_id = Some rid, ae_case_id = cc_case_id ctx,
     ae_correlation_id = em_correlation_id c, ae_command_id = Some (em_command_id c), ae_request_id = None,
     ae_source_ip_hash = None, ae_user_agent_family = None, ae_reason_code = Some ''DCE_REQUIREMENT_CONFIRMED'',
     ae_metadata = [(''channel'', JStr ''command'')] \<rparr>"

definition record_confirmation ::
  "'c app_command \<Rightarrow> confirmation_fields \<Rightarrow> command_context \<Rightarrow> (nat \<Rightarrow> uuid) \<Rightarrow> requirement_tables
   \<Rightarrow> exn + (handler_outcome \<times> requirement_tables)" where
  "record_confirmation c f ctx fresh t =
     (if cc_actor_kind ctx = ''SYSTEM'' then Inl (ValueError ''DCE_REQUIREMENT_HUMAN_ACTOR_REQUIRED'')
      else case find_requirement (cc_tenant_id ctx) (nf_requirement_id f) (rt_requirements t) of
        None \<Rightarrow> Inl (ValueError ''NOT_FOUND_OR_FORBIDDEN'')
      | Some q \<Rightarrow>
        (let cur = find_current (cc_tenant_id ctx) (dq_id q) (rt_currents t);
             k = new_confirmation f ctx (dq_id q) cur in
         if (case cur of None \<Rightarrow> 0 | Some c \<Rightarrow> cu_revision c) \<noteq> nf_expected_confirmation_revision f
           then Inl (ValueError ''DCE_REQUIREMENT_CONFIRMATION_STALE'')
         else if nf_outcome f = ''NOT_APPLICABLE'' \<and> cc_actor_kind ctx = ''COLLABORATEUR''
           then Inl (ValueError ''DCE_REQUIREMENT_PATRON_REQUIRED'')
         else (case insert_row cf_check cf_clash k (rt_confirmations t) of Inl e \<Rightarrow> Inl e | Inr confirmations \<Rightarrow>
           (case save_current k cur (rt_currents t) of Inl e \<Rightarrow> Inl e | Inr currents \<Rightarrow>
            (case (if cc_case_id ctx = None then Inr (rt_audit t)
                   else audit_record ((=) (cc_tenant_id ctx)) (fresh 0) (confirmation_entry c ctx (dq_id q)) (rt_audit t)) of
               Inl e \<Rightarrow> Inl e
             | Inr audit \<Rightarrow>
               Inr (requirement_outcome ''DCE_REQUIREMENT_CONFIRMED'' ''DCE_REQUIREMENT_CONFIRMATION'' (cf_id k) (cf_revision k)
                      (Some ''DCE_REQUIREMENT_CONFIRMED'')
                      [(''confirmation_id'', JStr (uuid_str (cf_id k))), (''requirement_id'', JStr (uuid_str (dq_id q))),
                       (''outcome'', JStr (cf_outcome k)), (''reason_code'', JStr (cf_reason_code k)),
                       (''revision'', JInt (cf_revision k))],
                    t\<lparr> rt_confirmations := confirmations, rt_currents := currents, rt_audit := audit \<rparr>))))))"

section \<open>Impact\<close>

definition IMPACT_ALGORITHM_ID :: string where
  "IMPACT_ALGORITHM_ID = ''smart-ao-case-dce-impact''"

definition IMPACT_ALGORITHM_VERSION :: string where
  "IMPACT_ALGORITHM_VERSION = ''1''"

definition SYSTEM_IMPACT_ACTOR_ID :: uuid where
  "SYSTEM_IMPACT_ACTOR_ID = 0x17"

record impact_requirement =
  ir_id :: uuid
  ir_requirement_type :: string
  ir_directive_signal :: string
  ir_source_observation_id :: uuid

definition impact_requirement_of :: "dce_requirement_row \<Rightarrow> impact_requirement" where
  "impact_requirement_of r = \<lparr> ir_id = dq_id r, ir_requirement_type = dq_requirement_type r,
     ir_directive_signal = dq_directive_signal r, ir_source_observation_id = dq_source_observation_id r \<rparr>"

definition load_impact_requirements ::
  "(uuid \<Rightarrow> instant) \<Rightarrow> uuid \<Rightarrow> uuid \<Rightarrow> requirement_tables \<Rightarrow> exn + impact_requirement list" where
  "load_impact_requirements created tid vid t =
     (case first_max (\<lambda>r. (created (qr_id r), qr_id r))
             (filter (\<lambda>r. qr_tenant_id r = tid \<and> qr_dce_version_id r = vid \<and> qr_status r \<in> {''COMPLETED'', ''NO_SIGNAL''}) (rt_runs t)) of
        None \<Rightarrow> Inl (ValueError ''DCE_REQUIREMENTS_NOT_READY'')
      | Some run \<Rightarrow> Inr (map impact_requirement_of (sort_key dq_id
          (filter (\<lambda>r. dq_tenant_id r = tid \<and> dq_requirements_run_id r = qr_id run) (rt_requirements t)))))"

definition impact_line :: "string \<Rightarrow> impact_requirement \<Rightarrow> string" where
  "impact_line side r = join ''|'' [side, uuid_str (ir_id r), ir_requirement_type r, ir_directive_signal r,
     uuid_str (ir_source_observation_id r)]"

definition impact_manifest_sha256 ::
  "uuid \<Rightarrow> uuid \<Rightarrow> uuid \<Rightarrow> impact_requirement list \<Rightarrow> impact_requirement list \<Rightarrow> string" where
  "impact_manifest_sha256 cid pid sid previous successor = sha256_hex (join [CHR 0x0A]
     ([''CASE|'' @ uuid_str cid, ''PREDECESSOR|'' @ uuid_str pid, ''SUCCESSOR|'' @ uuid_str sid]
      @ map (impact_line ''PREVIOUS'') previous @ map (impact_line ''SUCCESSOR'') successor))"

definition impact_run_id :: "uuid \<Rightarrow> uuid \<Rightarrow> uuid \<Rightarrow> string \<Rightarrow> uuid" where
  "impact_run_id cid pid sid manifest = uuid5 cid (join '':'' [uuid_str pid, uuid_str sid, manifest,
     IMPACT_ALGORITHM_ID, IMPACT_ALGORITHM_VERSION])"

definition marker_item :: "uuid \<Rightarrow> string \<Rightarrow> string \<Rightarrow> impact_item_input" where
  "marker_item u kind evidence = \<lparr> pi_impact_item_id = uuid5 u kind, pi_impact_kind = kind,
     pi_previous_requirement_id = None, pi_successor_requirement_id = None, pi_review_state = ''REVIEW_REQUIRED'',
     pi_evidence_code = evidence \<rparr>"

definition previous_item :: "uuid \<Rightarrow> impact_requirement \<Rightarrow> impact_item_input" where
  "previous_item u r = \<lparr> pi_impact_item_id = uuid5 u (''PREVIOUS_REQUIREMENT:'' @ uuid_str (ir_id r)),
     pi_impact_kind = ''PREVIOUS_REQUIREMENT_REQUIRES_REVIEW'', pi_previous_requirement_id = Some (ir_id r),
     pi_successor_requirement_id = None, pi_review_state = ''REVIEW_REQUIRED'', pi_evidence_code = ''PREVIOUS_REQUIREMENT'' \<rparr>"

definition successor_item :: "uuid \<Rightarrow> impact_requirement \<Rightarrow> impact_item_input" where
  "successor_item u r = \<lparr> pi_impact_item_id = uuid5 u (''SUCCESSOR_REQUIREMENT:'' @ uuid_str (ir_id r)),
     pi_impact_kind = ''SUCCESSOR_REQUIREMENT_CANDIDATE'', pi_previous_requirement_id = None,
     pi_successor_requirement_id = Some (ir_id r), pi_review_state = ''PENDING_HUMAN_REVIEW'',
     pi_evidence_code = ''SUCCESSOR_REQUIREMENT'' \<rparr>"

definition expected_impact_items :: "uuid \<Rightarrow> impact_requirement list \<Rightarrow> impact_requirement list \<Rightarrow> impact_item_input list" where
  "expected_impact_items u previous successor =
     [marker_item u ''DCE_VERSION_REPLACED'' ''RECTIFICATION_CHAIN'']
     @ map (previous_item u) previous @ map (successor_item u) successor
     @ (if previous = [] \<and> successor = [] then [marker_item u ''VERSION_HAS_NO_MATERIALIZED_SIGNAL'' ''NO_SIGNAL''] else [])"

definition impact_valid :: "impact_fields \<Rightarrow> bool" where
  "impact_valid f =
     (is_sha256 (if_input_manifest_sha256 f) \<and> if_status f \<in> {''COMPLETED'', ''NO_SIGNAL''}
      \<and> 1 \<le> length (if_algorithm_id f) \<and> length (if_algorithm_id f) \<le> 100
      \<and> 1 \<le> length (if_algorithm_version f) \<and> length (if_algorithm_version f) \<le> 64
      \<and> 0 \<le> if_previous_requirement_count f \<and> 0 \<le> if_successor_requirement_count f \<and> length (if_items f) \<le> 40000
      \<and> distinct (map pi_impact_item_id (if_items f))
      \<and> (if if_previous_requirement_count f + if_successor_requirement_count f = 0
           then if_status f = ''NO_SIGNAL'' else if_status f = ''COMPLETED''))"

definition find_case_version :: "uuid \<Rightarrow> uuid \<Rightarrow> versioned_case_row list \<Rightarrow> versioned_case_row option" where
  "find_case_version tid cid rows = List.find (\<lambda>r. vc_tenant_id r = tid \<and> vc_id r = cid) rows"

definition chained :: "versioned_case_row \<Rightarrow> version_row option \<Rightarrow> version_row option \<Rightarrow> (version_row \<times> version_row) option" where
  "chained c p s =
     (case (p, s) of
        (Some pv, Some sv) \<Rightarrow>
          if vc_applicable_dce_version_id c \<noteq> Some (vr_id pv) \<or> vr_consultation_id pv \<noteq> vr_consultation_id sv
             \<or> vr_predecessor sv \<noteq> Some (vr_id pv) \<or> vr_integrity pv \<noteq> ''VERIFIED''
             \<or> vr_lifecycle sv \<noteq> ''ADMITTED'' \<or> vr_integrity sv \<noteq> ''VERIFIED''
          then None else Some (pv, sv)
      | _ \<Rightarrow> None)"

definition new_impact_run :: "impact_fields \<Rightarrow> command_context \<Rightarrow> string \<Rightarrow> impact_run_row" where
  "new_impact_run f ctx manifest = \<lparr> im_id = if_impact_run_id f, im_tenant_id = cc_tenant_id ctx, im_case_id = if_case_id f,
     im_predecessor_dce_version_id = if_predecessor_dce_version_id f,
     im_successor_dce_version_id = if_successor_dce_version_id f, im_input_manifest_sha256 = manifest,
     im_algorithm_id = if_algorithm_id f, im_algorithm_version = if_algorithm_version f, im_status = if_status f,
     im_previous_requirement_count = if_previous_requirement_count f,
     im_successor_requirement_count = if_successor_requirement_count f, im_failure_code = None,
     im_created_by_actor_id = cc_actor_id ctx \<rparr>"

definition new_impact_item :: "impact_fields \<Rightarrow> command_context \<Rightarrow> impact_item_input \<Rightarrow> impact_item_row" where
  "new_impact_item f ctx i = \<lparr> ii_id = pi_impact_item_id i, ii_tenant_id = cc_tenant_id ctx,
     ii_impact_run_id = if_impact_run_id f, ii_case_id = if_case_id f, ii_impact_kind = pi_impact_kind i,
     ii_previous_requirement_id = pi_previous_requirement_id i, ii_successor_requirement_id = pi_successor_requirement_id i,
     ii_review_state = pi_review_state i, ii_evidence_code = pi_evidence_code i \<rparr>"

definition same_impact :: "impact_fields \<Rightarrow> command_context \<Rightarrow> string \<Rightarrow> impact_run_row \<Rightarrow> bool" where
  "same_impact f ctx manifest r =
     (im_tenant_id r = cc_tenant_id ctx \<and> im_case_id r = if_case_id f
      \<and> im_predecessor_dce_version_id r = if_predecessor_dce_version_id f
      \<and> im_successor_dce_version_id r = if_successor_dce_version_id f \<and> im_input_manifest_sha256 r = manifest
      \<and> im_algorithm_id r = if_algorithm_id f \<and> im_algorithm_version r = if_algorithm_version f)"

definition record_impact ::
  "(uuid \<Rightarrow> instant) \<Rightarrow> impact_fields \<Rightarrow> command_context \<Rightarrow> requirement_tables \<Rightarrow> exn + (handler_outcome \<times> requirement_tables)" where
  "record_impact created f ctx t =
     (if cc_actor_kind ctx \<noteq> ''SYSTEM'' then Inl (ValueError ''CASE_DCE_IMPACT_SYSTEM_ACTOR_REQUIRED'')
      else case find_case_version (cc_tenant_id ctx) (if_case_id f) (rt_cases t) of
        None \<Rightarrow> Inl (ValueError ''CASE_NOT_FOUND_OR_FORBIDDEN'')
      | Some c \<Rightarrow>
        if vc_lifecycle c = ''ARCHIVED'' then Inl (ValueError ''CASE_NOT_FOUND_OR_FORBIDDEN'')
        else (case chained c (find_version (cc_tenant_id ctx) (if_predecessor_dce_version_id f) (rt_versions t))
                             (find_version (cc_tenant_id ctx) (if_successor_dce_version_id f) (rt_versions t)) of
          None \<Rightarrow> Inl (ValueError ''CASE_DCE_PREDECESSOR_MISMATCH'')
        | Some (pv, sv) \<Rightarrow>
          if vr_lifecycle pv \<notin> {''ADMITTED'', ''SUPERSEDED''} then Inl (ValueError ''CASE_DCE_PREDECESSOR_MISMATCH'')
          else (case load_impact_requirements created (cc_tenant_id ctx) (vr_id pv) t of Inl e \<Rightarrow> Inl e | Inr previous \<Rightarrow>
           (case load_impact_requirements created (cc_tenant_id ctx) (vr_id sv) t of Inl e \<Rightarrow> Inl e | Inr successor \<Rightarrow>
            (let manifest = impact_manifest_sha256 (if_case_id f) (vr_id pv) (vr_id sv) previous successor in
             if if_impact_run_id f \<noteq> impact_run_id (if_case_id f) (vr_id pv) (vr_id sv) manifest
                \<or> lower (if_input_manifest_sha256 f) \<noteq> manifest
               then Inl (ValueError ''CASE_DCE_IMPACT_INPUT_MANIFEST_REQUIRED'')
             else if if_previous_requirement_count f \<noteq> int (length previous)
                \<or> if_successor_requirement_count f \<noteq> int (length successor)
               then Inl (ValueError ''CASE_DCE_IMPACT_SOURCE_COUNT_REQUIRED'')
             else if if_items f \<noteq> expected_impact_items (if_impact_run_id f) previous successor
               then Inl (ValueError ''CASE_DCE_IMPACT_PROJECTION_REQUIRED'')
             else (case List.find (same_impact f ctx manifest) (rt_impacts t) of
               Some r \<Rightarrow> Inr (requirement_outcome ''CASE_DCE_IMPACT_ALREADY_RECORDED'' ''CASE_DCE_IMPACT_RUN'' (im_id r) 0 None [], t)
             | None \<Rightarrow>
               (case insert_row im_check im_clash (new_impact_run f ctx manifest) (rt_impacts t) of Inl e \<Rightarrow> Inl e | Inr impacts \<Rightarrow>
                (case insert_rows ii_check ii_clash (map (new_impact_item f ctx) (if_items f)) (rt_impact_items t) of Inl e \<Rightarrow> Inl e
                 | Inr items \<Rightarrow>
                   Inr (requirement_outcome ''CASE_DCE_IMPACT_RECORDED'' ''CASE_DCE_IMPACT_RUN'' (if_impact_run_id f) 0
                          (Some ''CASE_DCE_IMPACT_RECORDED'')
                          [(''impact_run_id'', JStr (uuid_str (if_impact_run_id f))), (''case_id'', JStr (uuid_str (vc_id c))),
                           (''predecessor_dce_version_id'', JStr (uuid_str (vr_id pv))),
                           (''successor_dce_version_id'', JStr (uuid_str (vr_id sv))), (''status'', JStr (if_status f)),
                           (''previous_requirement_count'', JInt (if_previous_requirement_count f)),
                           (''successor_requirement_count'', JInt (if_successor_requirement_count f)),
                           (''item_count'', JInt (int (length (if_items f))))],
                        t\<lparr> rt_impacts := impacts, rt_impact_items := items \<rparr>)))))))))"

section \<open>The registry\<close>

fun requirement_command_type :: "requirement_command \<Rightarrow> string" where
  "requirement_command_type (RecordDceRequirementMaterializationRun f) = ''RecordDceRequirementMaterializationRun''"
| "requirement_command_type (RecordDceRequirementConfirmation f) = ''RecordDceRequirementConfirmation''"
| "requirement_command_type (RecordCaseDceImpactRun f) = ''RecordCaseDceImpactRun''"

text \<open>A body that violates its model is refused when it is built, before any dispatch.\<close>

fun requirement_command_valid :: "requirement_command \<Rightarrow> bool" where
  "requirement_command_valid (RecordDceRequirementMaterializationRun f) = materialization_valid f"
| "requirement_command_valid (RecordDceRequirementConfirmation f) = confirmation_valid f"
| "requirement_command_valid (RecordCaseDceImpactRun f) = impact_valid f"

definition run_requirement ::
  "(uuid \<Rightarrow> instant) \<Rightarrow> requirement_command app_command \<Rightarrow> command_context \<Rightarrow> (nat \<Rightarrow> uuid) \<Rightarrow> requirement_tables
   \<Rightarrow> exn + (handler_outcome \<times> requirement_tables)" where
  "run_requirement created c ctx fresh t =
     (case em_body c of
        RecordDceRequirementMaterializationRun f \<Rightarrow> record_materialization f ctx fresh t
      | RecordDceRequirementConfirmation f \<Rightarrow> record_confirmation c f ctx fresh t
      | RecordCaseDceImpactRun f \<Rightarrow> record_impact created f ctx t)"

definition requirement_handlers ::
  "(uuid \<Rightarrow> instant) \<Rightarrow> string \<Rightarrow> (requirement_command, requirement_tables) handler option" where
  "requirement_handlers created ctype =
     (if ctype \<in> {''RecordDceRequirementMaterializationRun'', ''RecordDceRequirementConfirmation'', ''RecordCaseDceImpactRun''}
      then Some (\<lambda>c ctx fresh t.
        if requirement_command_type (em_body c) \<noteq> ctype \<or> \<not> requirement_command_valid (em_body c) then Inl KeyError
        else run_requirement created c ctx fresh t)
      else None)"

section \<open>Services\<close>

definition system_context :: "uuid \<Rightarrow> uuid \<Rightarrow> instant \<Rightarrow> command_context" where
  "system_context tid aid now = \<lparr> cc_tenant_id = tid, cc_actor_id = aid, cc_actor_kind = ''SYSTEM'', cc_received_at = now,
     cc_identity_id = None, cc_membership_id = None, cc_session_id = None, cc_case_id = None, cc_correlation_id = None \<rparr>"

text \<open>What a service call takes from its environment: identifiers and the dispatcher's lookup.\<close>

record service_call =
  sc_fresh :: "nat \<Rightarrow> uuid"
  sc_handler_fresh :: "nat \<Rightarrow> uuid"
  sc_now :: instant
  sc_seen :: "receipt_row list"

definition dispatch_command ::
  "(uuid \<Rightarrow> instant) \<Rightarrow> (requirement_command app_command \<Rightarrow> (string \<times> json) list) \<Rightarrow> service_call \<Rightarrow> command_context
   \<Rightarrow> requirement_command app_command \<Rightarrow> requirement_tables platform_db
   \<Rightarrow> (exn + dispatch_result) \<times> requirement_tables platform_db" where
  "dispatch_command created dump sc ctx c db =
     dispatch dump (requirement_handlers created) (sc_seen sc)
       \<lparr> rq_command = c, rq_context = ctx, rq_fresh = sc_fresh sc, rq_handler_fresh = sc_handler_fresh sc, rq_now = sc_now sc \<rparr> db"

definition materialize ::
  "(uuid \<Rightarrow> instant) \<Rightarrow> (requirement_command app_command \<Rightarrow> (string \<times> json) list) \<Rightarrow> service_call \<Rightarrow> uuid \<Rightarrow> uuid \<Rightarrow> uuid
   \<Rightarrow> requirement_tables platform_db \<Rightarrow> (exn + dispatch_result) \<times> requirement_tables platform_db" where
  "materialize created dump sc tid vid aid db =
     (case load_signals tid vid aid (db_business db) of Inl e \<Rightarrow> (Inl e, db) | Inr signals \<Rightarrow>
      (let f = recording_fields vid aid (project_requirements signals) in
       if \<not> materialization_valid f then (Inl (ValueError ''ValidationError''), db)
       else dispatch_command created dump sc (system_context tid SYSTEM_REQUIREMENTS_ACTOR_ID (sc_now sc))
              \<lparr> em_command_type = ''RecordDceRequirementMaterializationRun'', em_command_id = mf_requirements_run_id f,
                em_idempotency_key = mf_requirements_run_id f, em_correlation_id = Some vid,
                em_body = RecordDceRequirementMaterializationRun f \<rparr> db))"

definition impact_fields_of ::
  "uuid \<Rightarrow> uuid \<Rightarrow> uuid \<Rightarrow> impact_requirement list \<Rightarrow> impact_requirement list \<Rightarrow> impact_fields" where
  "impact_fields_of cid pid sid previous successor =
     (let manifest = impact_manifest_sha256 cid pid sid previous successor; u = impact_run_id cid pid sid manifest in
      \<lparr> if_impact_run_id = u, if_case_id = cid, if_predecessor_dce_version_id = pid, if_successor_dce_version_id = sid,
        if_input_manifest_sha256 = manifest, if_algorithm_id = IMPACT_ALGORITHM_ID,
        if_algorithm_version = IMPACT_ALGORITHM_VERSION,
        if_status = (if previous = [] \<and> successor = [] then ''NO_SIGNAL'' else ''COMPLETED''),
        if_previous_requirement_count = int (length previous), if_successor_requirement_count = int (length successor),
        if_items = expected_impact_items u previous successor \<rparr>)"

definition run_impact ::
  "(uuid \<Rightarrow> instant) \<Rightarrow> (requirement_command app_command \<Rightarrow> (string \<times> json) list) \<Rightarrow> service_call \<Rightarrow> uuid \<Rightarrow> uuid \<Rightarrow> uuid
   \<Rightarrow> uuid \<Rightarrow> requirement_tables platform_db \<Rightarrow> (exn + dispatch_result) \<times> requirement_tables platform_db" where
  "run_impact created dump sc tid cid pid sid db =
     (let t = db_business db in
      case find_case_version tid cid (rt_cases t) of
        None \<Rightarrow> (Inl (ValueError ''CASE_NOT_FOUND_OR_FORBIDDEN''), db)
      | Some c \<Rightarrow>
        if vc_lifecycle c = ''ARCHIVED'' then (Inl (ValueError ''CASE_NOT_FOUND_OR_FORBIDDEN''), db)
        else (case chained c (find_version tid pid (rt_versions t)) (find_version tid sid (rt_versions t)) of
          None \<Rightarrow> (Inl (ValueError ''CASE_DCE_PREDECESSOR_MISMATCH''), db)
        | Some (pv, sv) \<Rightarrow>
          (case load_impact_requirements created tid (vr_id pv) t of Inl e \<Rightarrow> (Inl e, db) | Inr previous \<Rightarrow>
           (case load_impact_requirements created tid (vr_id sv) t of Inl e \<Rightarrow> (Inl e, db) | Inr successor \<Rightarrow>
            (let f = impact_fields_of cid pid sid previous successor in
             if \<not> impact_valid f then (Inl (ValueError ''ValidationError''), db)
             else dispatch_command created dump sc (system_context tid SYSTEM_IMPACT_ACTOR_ID (sc_now sc))
                    \<lparr> em_command_type = ''RecordCaseDceImpactRun'', em_command_id = if_impact_run_id f,
                      em_idempotency_key = if_impact_run_id f, em_correlation_id = Some sid,
                      em_body = RecordCaseDceImpactRun f \<rparr> db)))))"

text \<open>The confirmation service: the case is resolved on the server, the audited policy decides, the refusals
  of the service itself leave an audit event in a transaction of their own.\<close>

definition denial_entry :: "actor_context \<Rightarrow> 'c app_command \<Rightarrow> uuid \<Rightarrow> uuid option \<Rightarrow> instant \<Rightarrow> string \<Rightarrow> audit_entry" where
  "denial_entry a c rid case_id now reason = \<lparr> ae_occurred_at = now, ae_tenant_id = Some (a_tenant_id a),
     ae_actor_id = Some (a_actor_id a), ae_identity_id = Some (a_identity_id a), ae_session_id = a_session_id a,
     ae_actor_kind = Some (actor_kind_value (a_actor_kind a)), ae_auth_strength = None, ae_event_type = Audit_AUTHZ_DENIED,
     ae_outcome = Outcome_DENIED, ae_severity = Severity_WARNING, ae_action = ''dce.requirement.confirm'',
     ae_resource_type = Some ''DCE_REQUIREMENT'', ae_resource_id = Some rid, ae_case_id = case_id,
     ae_correlation_id = em_correlation_id c, ae_command_id = Some (em_command_id c), ae_request_id = None,
     ae_source_ip_hash = None, ae_user_agent_family = None, ae_reason_code = Some reason,
     ae_metadata = [(''channel'', JStr ''service'')] \<rparr>"

definition record_manual_denial ::
  "uuid \<Rightarrow> audit_entry \<Rightarrow> requirement_tables platform_db \<Rightarrow> exn + requirement_tables platform_db" where
  "record_manual_denial u e db =
     (case audit_record (\<lambda>tid. ae_tenant_id e = Some tid) u e (rt_audit (db_business db)) of Inl x \<Rightarrow> Inl x
      | Inr rows \<Rightarrow> Inr (db\<lparr> db_business := (db_business db)\<lparr> rt_audit := rows \<rparr> \<rparr>))"

definition resolve_unique_requirement_case_id :: "uuid \<Rightarrow> uuid \<Rightarrow> requirement_tables \<Rightarrow> exn + uuid" where
  "resolve_unique_requirement_case_id tid rid t =
     (case find_requirement tid rid (rt_requirements t) of
        None \<Rightarrow> Inl (PermissionError ''NOT_FOUND_OR_FORBIDDEN'')
      | Some q \<Rightarrow>
        (case take 2 (sort (map vc_id (filter (\<lambda>c. vc_tenant_id c = tid
                 \<and> vc_applicable_dce_version_id c = Some (dq_dce_version_id q) \<and> vc_lifecycle c = ''ACTIVE'') (rt_cases t)))) of
           [cid] \<Rightarrow> Inr cid
         | _ \<Rightarrow> Inl (ValueError ''DCE_REQUIREMENT_CASE_SCOPE_AMBIGUOUS'')))"

definition denied ::
  "uuid \<Rightarrow> audit_entry \<Rightarrow> string \<Rightarrow> requirement_tables platform_db
   \<Rightarrow> (exn + dispatch_result) \<times> requirement_tables platform_db" where
  "denied u e why db =
     (case record_manual_denial u e db of Inl x \<Rightarrow> (Inl x, db) | Inr db' \<Rightarrow> (Inl (PermissionError why), db'))"

definition confirmation_request :: "actor_context \<Rightarrow> uuid \<Rightarrow> uuid \<Rightarrow> instant \<Rightarrow> authorization_request" where
  "confirmation_request a rid cid now = \<lparr> q_action = ''dce.requirement.confirm'',
     q_resource = \<lparr> z_resource_type = ''DCE_REQUIREMENT'', z_resource_id = rid, z_tenant_id = a_tenant_id a,
       z_classification = INTERNAL_OPERATIONAL, z_case_id = Some cid \<rparr>,
     q_mfa_required = False, q_evaluated_at = Some now \<rparr>"

definition confirm_context :: "actor_context \<Rightarrow> uuid \<Rightarrow> instant \<Rightarrow> command_context" where
  "confirm_context a cid now = \<lparr> cc_tenant_id = a_tenant_id a, cc_actor_id = a_actor_id a,
     cc_actor_kind = actor_kind_value (a_actor_kind a), cc_received_at = now, cc_identity_id = Some (a_identity_id a),
     cc_membership_id = None, cc_session_id = a_session_id a, cc_case_id = Some cid,
     cc_correlation_id = Some (a_correlation_id a) \<rparr>"

definition confirm ::
  "(uuid \<Rightarrow> instant) \<Rightarrow> (requirement_command app_command \<Rightarrow> (string \<times> json) list) \<Rightarrow> service_call \<Rightarrow> uuid \<Rightarrow> actor_context
   \<Rightarrow> requirement_command app_command \<Rightarrow> confirmation_fields \<Rightarrow> requirement_tables platform_db
   \<Rightarrow> (exn + dispatch_result) \<times> requirement_tables platform_db" where
  "confirm created dump sc u a c f db =
     (let rid = nf_requirement_id f; entry = denial_entry a c rid in
      if a_actor_kind a = SYSTEM
        then denied u (entry None (sc_now sc) ''DCE_REQUIREMENT_HUMAN_ACTOR_REQUIRED'') ''DCE_REQUIREMENT_HUMAN_ACTOR_REQUIRED'' db
      else (case resolve_unique_requirement_case_id (a_tenant_id a) rid (db_business db) of
        Inl (PermissionError why) \<Rightarrow>
          if why = ''NOT_FOUND_OR_FORBIDDEN'' then denied u (entry None (sc_now sc) why) why db else (Inl (PermissionError why), db)
      | Inl e \<Rightarrow> (Inl e, db)
      | Inr cid \<Rightarrow>
        (case audited_authorize ((=) (a_tenant_id a)) authorize u a (confirmation_request a rid cid (sc_now sc)) (rt_audit (db_business db)) of
           (Inl e, rows) \<Rightarrow> (Inl e, db\<lparr> db_business := (db_business db)\<lparr> rt_audit := rows \<rparr> \<rparr>)
         | (Inr d, rows) \<Rightarrow>
           (let db1 = db\<lparr> db_business := (db_business db)\<lparr> rt_audit := rows \<rparr> \<rparr> in
            if \<not> z_allowed d then (Inl (PermissionError (z_code d)), db1)
            else if nf_outcome f = ''NOT_APPLICABLE'' \<and> a_actor_kind a = COLLABORATEUR
              then denied u (entry (Some cid) (sc_now sc) ''DCE_REQUIREMENT_PATRON_REQUIRED'') ''DCE_REQUIREMENT_PATRON_REQUIRED'' db1
            else dispatch_command created dump sc (confirm_context a cid (sc_now sc))
                   (c\<lparr> em_body := RecordDceRequirementConfirmation f \<rparr>) db1))))"

end
