(* ===== verification/RequirementTrace.thy ===== *)
theory RequirementTrace
  imports DceRequirements
begin

text \<open>
  What the requirement handlers guarantee. \<open>requirement_inv\<close> says that every stored requirement is traced
  to one observation of a completed analysis with one exact source, and that the confirmations of a
  requirement form a chain whose last link is the current one. \<open>requirement_effect\<close> summarises what an
  accepted command writes.
\<close>

section \<open>The invariant\<close>

definition sources_of :: "dce_requirement_row \<Rightarrow> requirement_tables \<Rightarrow> requirement_source_row list" where
  "sources_of q t = filter (\<lambda>d. ds_tenant_id d = dq_tenant_id q \<and> ds_requirement_id d = dq_id q) (rt_sources t)"

definition confirmations_of :: "uuid \<Rightarrow> uuid \<Rightarrow> requirement_tables \<Rightarrow> requirement_confirmation_row list" where
  "confirmations_of tid rid t = filter (\<lambda>k. cf_tenant_id k = tid \<and> cf_requirement_id k = rid) (rt_confirmations t)"

definition observed_as :: "dce_requirement_row \<Rightarrow> requirement_run_row \<Rightarrow> observation_row \<Rightarrow> bool" where
  "observed_as q run oc =
     (oc_tenant_id oc = dq_tenant_id q \<and> oc_id oc = dq_source_observation_id q
      \<and> oc_analysis_id oc = qr_dce_rc_analysis_id run \<and> oc_dce_version_id oc = dq_dce_version_id q
      \<and> map_of EXPECTED_TYPES (oc_requirement_kind oc) = Some (dq_requirement_type q)
      \<and> oc_directive oc = dq_directive_signal q)"

definition exact_source :: "requirement_source_row \<Rightarrow> observation_source_row \<Rightarrow> bool" where
  "exact_source d os =
     (ds_tenant_id d = os_tenant_id os \<and> ds_source_observation_id d = os_observation_id os \<and> ds_fragment_id d = os_fragment_id os
      \<and> ds_start_byte_offset d = os_start_byte_offset os \<and> ds_end_byte_offset d = os_end_byte_offset os)"

definition traced :: "requirement_tables \<Rightarrow> dce_requirement_row \<Rightarrow> bool" where
  "traced t q =
     ((\<exists>run \<in> set (rt_runs t). qr_id run = dq_requirements_run_id q \<and> qr_tenant_id run = dq_tenant_id q
         \<and> qr_dce_version_id run = dq_dce_version_id q \<and> qr_status run = ''COMPLETED''
         \<and> (\<exists>oc \<in> set (rt_observations t). observed_as q run oc))
      \<and> (\<exists>d os. sources_of q t = [d] \<and> ds_source_observation_id d = dq_source_observation_id q
           \<and> os \<in> set (rt_observation_sources t) \<and> exact_source d os))"

text \<open>The confirmations of a requirement in the order they were recorded, and the pointer to the last.\<close>

definition linked :: "requirement_confirmation_row list \<Rightarrow> bool" where
  "linked ks =
     (map cf_revision ks = [1..int (length ks)]
      \<and> (\<forall>i. Suc i < length ks \<longrightarrow> cf_previous_confirmation_id (ks ! Suc i) = Some (cf_id (ks ! i)))
      \<and> (ks \<noteq> [] \<longrightarrow> cf_previous_confirmation_id (hd ks) = None))"

definition points_to_last :: "requirement_confirmation_row list \<Rightarrow> current_confirmation_row option \<Rightarrow> bool" where
  "points_to_last ks cur =
     (case cur of None \<Rightarrow> ks = []
      | Some c \<Rightarrow> ks \<noteq> [] \<and> cu_confirmation_id c = cf_id (last ks) \<and> cu_revision c = cf_revision (last ks)
          \<and> cu_outcome c = cf_outcome (last ks))"

definition requirement_inv :: "requirement_tables \<Rightarrow> bool" where
  "requirement_inv t =
     (distinct (map dq_id (rt_requirements t)) \<and> (\<forall>q \<in> set (rt_requirements t). traced t q)
      \<and> (\<forall>run \<in> set (rt_runs t). qr_status run = ''COMPLETED'' \<longrightarrow>
           int (length (filter (\<lambda>q. dq_requirements_run_id q = qr_id run) (rt_requirements t))) = qr_source_observation_count run)
      \<and> distinct (map qr_id (rt_runs t))
      \<and> distinct (map cu_requirement_id (rt_currents t))
      \<and> (\<forall>tid rid. linked (confirmations_of tid rid t) \<and> points_to_last (confirmations_of tid rid t) (find_current tid rid (rt_currents t)))
      \<and> (\<forall>k \<in> set (rt_confirmations t). \<exists>q \<in> set (rt_requirements t). dq_id q = cf_requirement_id k \<and> dq_tenant_id q = cf_tenant_id k))"

section \<open>What the handlers do\<close>

inductive requirement_effect :: "command_context \<Rightarrow> requirement_tables \<Rightarrow> requirement_tables \<Rightarrow> bool" for ctx t where
  nothing: "requirement_effect ctx t t"
| materialized: "\<forall>x \<in> set (rt_runs t). \<not> qr_clash (new_requirement_run f ctx) x \<Longrightarrow> materialization_valid f \<Longrightarrow>
    \<forall>(oc, os) \<in> set pairs. oc \<in> set (rt_observations t) \<and> oc_tenant_id oc = cc_tenant_id ctx
      \<and> oc_analysis_id oc = mf_dce_rc_analysis_id f \<and> oc_dce_version_id oc = mf_dce_version_id f
      \<and> os \<in> set (rt_observation_sources t) \<and> os_tenant_id os = cc_tenant_id ctx \<and> os_observation_id os = oc_id oc \<Longrightarrow>
    mf_status f = ''COMPLETED'' \<longrightarrow>
      mf_source_observation_count f = int (length pairs)
      \<and> list_all2 (\<lambda>i p. mapping_problem (i, signal_of p) = None) (mf_requirements f) pairs \<Longrightarrow>
    insert_requirements f ctx (source_by_observation pairs) fresh 0 (mf_requirements f)
      (t\<lparr> rt_runs := rt_runs t @ [new_requirement_run f ctx] \<rparr>) = Inr t' \<Longrightarrow>
    requirement_effect ctx t t'"
| confirmed: "q \<in> set (rt_requirements t) \<Longrightarrow> dq_tenant_id q = cc_tenant_id ctx \<Longrightarrow>
    cur = find_current (cc_tenant_id ctx) (dq_id q) (rt_currents t) \<Longrightarrow> k = new_confirmation f ctx (dq_id q) cur \<Longrightarrow>
    \<forall>x \<in> set (rt_confirmations t). \<not> cf_clash k x \<Longrightarrow> save_current k cur (rt_currents t) = Inr currents \<Longrightarrow>
    (nf_outcome f = ''NOT_APPLICABLE'' \<longrightarrow> cc_actor_kind ctx \<noteq> ''COLLABORATEUR'') \<Longrightarrow>
    cc_actor_kind ctx \<noteq> ''SYSTEM'' \<Longrightarrow>
    requirement_effect ctx t (t\<lparr> rt_confirmations := rt_confirmations t @ [k], rt_currents := currents, rt_audit := audit \<rparr>)"
| impacted: "requirement_effect ctx t (t\<lparr> rt_impacts := impacts, rt_impact_items := items \<rparr>)"

lemma find_requirement_Some: "find_requirement tid rid rows = Some q \<Longrightarrow> q \<in> set rows \<and> dq_tenant_id q = tid \<and> dq_id q = rid"
  by (auto simp: find_requirement_def find_Some_iff)

lemma observed_pairs_facts:
  "(oc, os) \<in> set (observed_pairs tid keep t) \<Longrightarrow>
     oc \<in> set (rt_observations t) \<and> oc_tenant_id oc = tid \<and> keep oc
     \<and> os \<in> set (rt_observation_sources t) \<and> os_tenant_id os = tid \<and> os_observation_id os = oc_id oc"
  by (auto simp: observed_pairs_def)

lemma first_exn_None: "first_exn p xs = None \<longleftrightarrow> (\<forall>x \<in> set xs. p x = None)"
  by (induction xs) (auto split: option.splits)

lemma record_materialization_effect:
  assumes "record_materialization f ctx fresh t = Inr (ho, t')" "materialization_valid f"
  shows "requirement_effect ctx t t'"
proof -
  let ?find = "List.find (\<lambda>r. ra_tenant_id r = cc_tenant_id ctx \<and> ra_id r = mf_dce_rc_analysis_id f
    \<and> ra_dce_version_id r = mf_dce_version_id f) (rt_analyses t)"
  obtain a where find: "?find = Some a" using assms(1) by (cases ?find) (auto simp: record_materialization_def split: if_splits)
  then have a: "ra_id a = mf_dce_rc_analysis_id f" by (auto simp: find_Some_iff)
  define pairs where "pairs = observed_pairs (cc_tenant_id ctx)
    (\<lambda>oc. oc_analysis_id oc = ra_id a \<and> oc_dce_version_id oc = mf_dce_version_id f) t"
  note run = assms(1) [unfolded record_materialization_def Let_def find option.case, folded pairs_def]
  show ?thesis
  proof (cases "List.find (same_run f ctx) (rt_runs t)")
    case (Some r)
    then have "t' = t" using run by (auto split: if_splits)
    then show ?thesis by (simp add: requirement_effect.nothing)
  next
    case None
    from run None obtain runs where
      n: "mf_source_observation_count f = int (length pairs)" and p: "requirements_problem f (map signal_of pairs) = None"
      and r: "insert_row qr_check qr_clash (new_requirement_run f ctx) (rt_runs t) = Inr runs"
      and i: "insert_requirements f ctx (source_by_observation pairs) fresh 0 (mf_requirements f) (t\<lparr> rt_runs := runs \<rparr>) = Inr t'"
      by (auto split: if_splits option.splits sum.splits)
    have runs: "runs = rt_runs t @ [new_requirement_run f ctx]" "\<forall>x \<in> set (rt_runs t). \<not> qr_clash (new_requirement_run f ctx) x"
      using r by (simp_all add: insert_row_Inr)
    have src: "\<forall>(oc, os) \<in> set pairs. oc \<in> set (rt_observations t) \<and> oc_tenant_id oc = cc_tenant_id ctx
      \<and> oc_analysis_id oc = mf_dce_rc_analysis_id f \<and> oc_dce_version_id oc = mf_dce_version_id f
      \<and> os \<in> set (rt_observation_sources t) \<and> os_tenant_id os = cc_tenant_id ctx \<and> os_observation_id os = oc_id oc"
      using a by (auto simp: pairs_def dest: observed_pairs_facts)
    have ok: "mf_status f = ''COMPLETED'' \<longrightarrow> mf_source_observation_count f = int (length pairs)
      \<and> list_all2 (\<lambda>i p. mapping_problem (i, signal_of p) = None) (mf_requirements f) pairs"
      using n p by (auto simp: requirements_problem_def first_exn_None list_all2_iff zip_map2 split: if_splits)
    show ?thesis by (rule requirement_effect.materialized [OF runs(2) assms(2) src ok i [unfolded runs(1)]])
  qed
qed

lemma record_confirmation_effect:
  assumes "record_confirmation c f ctx fresh t = Inr (ho, t')"
  shows "requirement_effect ctx t t'"
proof -
  obtain q where find: "find_requirement (cc_tenant_id ctx) (nf_requirement_id f) (rt_requirements t) = Some q"
    using assms by (cases "find_requirement (cc_tenant_id ctx) (nf_requirement_id f) (rt_requirements t)")
      (auto simp: record_confirmation_def split: if_splits)
  define cur where "cur = find_current (cc_tenant_id ctx) (dq_id q) (rt_currents t)"
  define k where "k = new_confirmation f ctx (dq_id q) cur"
  define audited where "audited = (if cc_case_id ctx = None then Inr (rt_audit t)
    else audit_record ((=) (cc_tenant_id ctx)) (fresh 0) (confirmation_entry c ctx (dq_id q)) (rt_audit t))"
  note run = assms [unfolded record_confirmation_def Let_def find option.case, folded cur_def, folded k_def, folded audited_def]
  obtain confirmations where ins: "insert_row cf_check cf_clash k (rt_confirmations t) = Inr confirmations"
    using run by (cases "insert_row cf_check cf_clash k (rt_confirmations t)") (simp_all split: if_splits)
  obtain currents where sv: "save_current k cur (rt_currents t) = Inr currents"
    using run ins by (cases "save_current k cur (rt_currents t)") (simp_all split: if_splits)
  obtain audit where au: "audited = Inr audit" using run ins sv by (cases audited) (simp_all split: if_splits)
  have t': "t' = t\<lparr> rt_confirmations := rt_confirmations t @ [k], rt_currents := currents, rt_audit := audit \<rparr>"
    using run ins [unfolded insert_row_Inr] by (simp add: ins sv au split: if_splits)
  have guard: "cc_actor_kind ctx \<noteq> ''SYSTEM''" "nf_outcome f = ''NOT_APPLICABLE'' \<longrightarrow> cc_actor_kind ctx \<noteq> ''COLLABORATEUR''"
    using run by (simp_all split: if_splits)
  have q: "q \<in> set (rt_requirements t)" "dq_tenant_id q = cc_tenant_id ctx"
    using find_requirement_Some [OF find] by simp_all
  have "\<forall>x \<in> set (rt_confirmations t). \<not> cf_clash k x" using ins by (simp add: insert_row_Inr)
  then show ?thesis
    unfolding t' by (rule requirement_effect.confirmed [OF q cur_def k_def _ sv guard(2,1)])
qed

lemma record_impact_effect:
  assumes "record_impact created f ctx t = Inr (ho, t')"
  shows "requirement_effect ctx t t'"
  using assms
  by (auto simp: record_impact_def Let_def split: if_splits option.splits sum.splits prod.splits intro: requirement_effect.impacted requirement_effect.nothing)

section \<open>Insertion of the requirements\<close>

lemma insert_requirements_Inr:
  assumes "insert_requirements f ctx source fresh k is t = Inr t'"
  shows "\<exists>srcs. t' = t\<lparr> rt_requirements := rt_requirements t @ map (new_requirement f ctx) is, rt_sources := rt_sources t @ srcs \<rparr>
    \<and> list_all2 (\<lambda>i d. \<exists>u os. source (ri_source_observation_id i) = Some os \<and> d = new_requirement_source ctx u i os) is srcs
    \<and> (\<forall>i \<in> set is. \<forall>r \<in> set (rt_requirements t). dq_id r \<noteq> ri_requirement_id i)
    \<and> (\<forall>d \<in> set srcs. \<forall>r \<in> set (rt_sources t). \<not> ds_clash d r)"
  using assms
proof (induction "is" arbitrary: k t)
  case Nil
  then show ?case by (intro exI [of _ "[]"]) simp
next
  case (Cons i "is")
  from Cons.prems obtain os where os: "source (ri_source_observation_id i) = Some os"
    by (auto split: option.splits)
  define q where "q = new_requirement f ctx i"
  define d where "d = new_requirement_source ctx (fresh k) i os"
  from Cons.prems obtain reqs srcs where
    ins: "insert_row dq_check dq_clash q (rt_requirements t) = Inr reqs" "insert_row ds_check ds_clash d (rt_sources t) = Inr srcs"
    and rest: "insert_requirements f ctx source fresh (Suc k) is (t\<lparr> rt_requirements := reqs, rt_sources := srcs \<rparr>) = Inr t'"
    by (auto simp: os q_def d_def split: sum.splits)
  have new: "reqs = rt_requirements t @ [q]" "srcs = rt_sources t @ [d]"
    "\<forall>r \<in> set (rt_requirements t). \<not> dq_clash q r" "\<forall>r \<in> set (rt_sources t). \<not> ds_clash d r"
    using ins by (simp_all add: insert_row_Inr)
  from Cons.IH [OF rest] obtain srcs2 where IH:
    "t' = t\<lparr> rt_requirements := (rt_requirements t @ [q]) @ map (new_requirement f ctx) is, rt_sources := (rt_sources t @ [d]) @ srcs2 \<rparr>"
    "list_all2 (\<lambda>i d. \<exists>u os. source (ri_source_observation_id i) = Some os \<and> d = new_requirement_source ctx u i os) is srcs2"
    "\<forall>i \<in> set is. \<forall>r \<in> set (rt_requirements t). dq_id r \<noteq> ri_requirement_id i"
    "\<forall>d2 \<in> set srcs2. \<forall>r \<in> set (rt_sources t). \<not> ds_clash d2 r"
    unfolding new by auto
  have "dq_id r \<noteq> ri_requirement_id i" if "r \<in> set (rt_requirements t)" for r
    using new(3) that by (auto simp: dq_clash_def q_def new_requirement_def)
  then show ?case
    using IH new(4) os by (intro exI [of _ "d # srcs2"]) (auto simp: q_def d_def)
qed

section \<open>The invariant is kept\<close>

lemma requirement_invD:
  assumes "requirement_inv t"
  shows "q \<in> set (rt_requirements t) \<Longrightarrow> traced t q"
    "run \<in> set (rt_runs t) \<Longrightarrow> qr_status run = ''COMPLETED'' \<Longrightarrow>
      int (length (filter (\<lambda>q. dq_requirements_run_id q = qr_id run) (rt_requirements t))) = qr_source_observation_count run"
    "linked (confirmations_of tid rid t)"
    "points_to_last (confirmations_of tid rid t) (find_current tid rid (rt_currents t))"
  using assms by (simp_all add: requirement_inv_def)

lemma new_requirement_simps [simp]:
  "dq_id (new_requirement f ctx i) = ri_requirement_id i"
  "dq_tenant_id (new_requirement f ctx i) = cc_tenant_id ctx"
  "dq_requirements_run_id (new_requirement f ctx i) = mf_requirements_run_id f"
  "dq_dce_version_id (new_requirement f ctx i) = mf_dce_version_id f"
  "dq_source_observation_id (new_requirement f ctx i) = ri_source_observation_id i"
  "dq_requirement_type (new_requirement f ctx i) = ri_requirement_type i"
  "dq_directive_signal (new_requirement f ctx i) = ri_directive_signal i"
  by (simp_all add: new_requirement_def)

lemma new_run_simps [simp]:
  "qr_id (new_requirement_run f ctx) = mf_requirements_run_id f"
  "qr_tenant_id (new_requirement_run f ctx) = cc_tenant_id ctx"
  "qr_dce_version_id (new_requirement_run f ctx) = mf_dce_version_id f"
  "qr_dce_rc_analysis_id (new_requirement_run f ctx) = mf_dce_rc_analysis_id f"
  "qr_status (new_requirement_run f ctx) = mf_status f"
  "qr_source_observation_count (new_requirement_run f ctx) = mf_source_observation_count f"
  by (simp_all add: new_requirement_run_def)

lemma new_source_simps [simp]:
  "ds_tenant_id (new_requirement_source ctx u i os) = cc_tenant_id ctx"
  "ds_requirement_id (new_requirement_source ctx u i os) = ri_requirement_id i"
  "ds_source_observation_id (new_requirement_source ctx u i os) = ri_source_observation_id i"
  "ds_fragment_id (new_requirement_source ctx u i os) = os_fragment_id os"
  "ds_start_byte_offset (new_requirement_source ctx u i os) = os_start_byte_offset os"
  "ds_end_byte_offset (new_requirement_source ctx u i os) = os_end_byte_offset os"
  by (simp_all add: new_requirement_source_def)

lemma materialization_distinct:
  assumes "materialization_valid f"
  shows "distinct (map ri_requirement_id (mf_requirements f))"
    "mf_status f \<noteq> ''COMPLETED'' \<Longrightarrow> mf_requirements f = []"
  using assms by (auto simp: materialization_valid_def terminal_projection_valid_def split: if_splits)

text \<open>Of rows matched one to one with inputs of distinct identifiers, exactly one belongs to an input.\<close>

lemma filter_matched:
  assumes "list_all2 (\<lambda>i d. \<exists>u os. source (ri_source_observation_id i) = Some os \<and> d = new_requirement_source ctx u i os) is srcs"
    "distinct (map ri_requirement_id is)" "i \<in> set is"
  shows "\<exists>u os. source (ri_source_observation_id i) = Some os
    \<and> filter (\<lambda>d. ds_requirement_id d = ri_requirement_id i) srcs = [new_requirement_source ctx u i os]"
  using assms
proof (induction rule: list_all2_induct)
  case (Cons j js d ds)
  obtain u os where d: "source (ri_source_observation_id j) = Some os" "d = new_requirement_source ctx u j os" using Cons(1) by blast
  have ids: "ds_requirement_id ` set ds = ri_requirement_id ` set js"
    using Cons(2) by (induction rule: list_all2_induct) auto
  show ?case
  proof (cases "i = j")
    case True
    have "ri_requirement_id i \<notin> ds_requirement_id ` set ds" using Cons.prems(1) True ids by simp
    then have "filter (\<lambda>d. ds_requirement_id d = ri_requirement_id i) ds = []" by (force simp: filter_empty_conv)
    then show ?thesis using True d by auto
  next
    case False
    then have "i \<in> set js" using Cons.prems(2) by simp
    moreover have "ri_requirement_id j \<noteq> ri_requirement_id i"
      using Cons.prems(1) \<open>i \<in> set js\<close> by (auto dest: imageI [where f = ri_requirement_id])
    ultimately show ?thesis using Cons.IH Cons.prems(1) d by auto
  qed
qed simp

lemma mapping_None:
  assumes "mapping_problem (i, signal_of (oc, os)) = None"
  shows "ri_source_observation_id i = oc_id oc" "map_of EXPECTED_TYPES (oc_requirement_kind oc) = Some (ri_requirement_type i)"
    "ri_directive_signal i = oc_directive oc"
  using assms by (auto simp: mapping_problem_def signal_of_def split: if_splits option.splits)

lemma source_by_observation_in:
  "source_by_observation pairs u = Some os \<Longrightarrow> \<exists>oc. (oc, os) \<in> set pairs \<and> oc_id oc = u"
  by (auto simp: source_by_observation_def dest!: map_of_SomeD)

lemma materialized_inv:
  assumes inv: "requirement_inv t" and fresh_run: "\<forall>x \<in> set (rt_runs t). \<not> qr_clash (new_requirement_run f ctx) x"
    and valid: "materialization_valid f"
    and pairs: "\<forall>(oc, os) \<in> set pairs. oc \<in> set (rt_observations t) \<and> oc_tenant_id oc = cc_tenant_id ctx
      \<and> oc_analysis_id oc = mf_dce_rc_analysis_id f \<and> oc_dce_version_id oc = mf_dce_version_id f
      \<and> os \<in> set (rt_observation_sources t) \<and> os_tenant_id os = cc_tenant_id ctx \<and> os_observation_id os = oc_id oc"
    and ok: "mf_status f = ''COMPLETED'' \<longrightarrow>
      mf_source_observation_count f = int (length pairs)
      \<and> list_all2 (\<lambda>i p. mapping_problem (i, signal_of p) = None) (mf_requirements f) pairs"
    and ins: "insert_requirements f ctx (source_by_observation pairs) fr 0 (mf_requirements f)
      (t\<lparr> rt_runs := rt_runs t @ [new_requirement_run f ctx] \<rparr>) = Inr t'"
  shows "requirement_inv t'"
proof -
  let ?is = "mf_requirements f" and ?run = "new_requirement_run f ctx"
  note dist = materialization_distinct [OF valid]
  obtain srcs where
    t': "t' = t\<lparr> rt_runs := rt_runs t @ [?run], rt_requirements := rt_requirements t @ map (new_requirement f ctx) ?is,
      rt_sources := rt_sources t @ srcs \<rparr>"
    and match: "list_all2 (\<lambda>i d. \<exists>u os. source_by_observation pairs (ri_source_observation_id i) = Some os
      \<and> d = new_requirement_source ctx u i os) ?is srcs"
    and new_id: "\<forall>i \<in> set ?is. \<forall>r \<in> set (rt_requirements t). dq_id r \<noteq> ri_requirement_id i"
    and new_src: "\<forall>d \<in> set srcs. \<forall>r \<in> set (rt_sources t). \<not> ds_clash d r"
    using insert_requirements_Inr [OF ins] by auto
  have src_ids: "ds_requirement_id ` set srcs = ri_requirement_id ` set ?is" "\<forall>d \<in> set srcs. ds_tenant_id d = cc_tenant_id ctx"
    using match by (induction rule: list_all2_induct) auto
  have run_ids: "\<forall>x \<in> set (rt_runs t). qr_id x \<noteq> mf_requirements_run_id f"
    using fresh_run by (auto simp: qr_clash_def)
  have old: "traced t' q" if q: "q \<in> set (rt_requirements t)" for q
  proof -
    have "dq_id q \<notin> ds_requirement_id ` set srcs" using new_id q unfolding src_ids(1) by auto
    then have "sources_of q t' = sources_of q t" by (force simp: sources_of_def t' filter_empty_conv)
    then show ?thesis using requirement_invD(1) [OF inv q] by (auto simp: traced_def t')
  qed
  have new: "traced t' (new_requirement f ctx i)" if i: "i \<in> set ?is" for i
  proof -
    have st: "mf_status f = ''COMPLETED''" using dist(2) i by (cases "mf_status f = ''COMPLETED''") auto
    then have la: "list_all2 (\<lambda>i p. mapping_problem (i, signal_of p) = None) ?is pairs" using ok by simp
    obtain j where j: "j < length ?is" "?is ! j = i" using i by (auto simp: in_set_conv_nth)
    obtain oc os where p: "pairs ! j = (oc, os)" by (cases "pairs ! j")
    have m: "(oc, os) \<in> set pairs" "mapping_problem (i, signal_of (oc, os)) = None"
      using list_all2_nthD [OF la j(1)] list_all2_lengthD [OF la] j nth_mem [of j pairs] unfolding p by simp_all
    note mp = mapping_None [OF m(2)]
    obtain u os' where s: "source_by_observation pairs (ri_source_observation_id i) = Some os'"
      "filter (\<lambda>d. ds_requirement_id d = ri_requirement_id i) srcs = [new_requirement_source ctx u i os']"
      using filter_matched [OF match dist(1) i] by auto
    obtain oc' where oc': "(oc', os') \<in> set pairs" "oc_id oc' = ri_source_observation_id i"
      using source_by_observation_in [OF s(1)] by auto
    have "ri_requirement_id i \<in> ds_requirement_id ` set srcs" using i unfolding src_ids(1) by simp
    then have "\<forall>r \<in> set (rt_sources t). \<not> (ds_tenant_id r = cc_tenant_id ctx \<and> ds_requirement_id r = ri_requirement_id i)"
      using new_src src_ids(2) by (fastforce simp: ds_clash_def)
    then have "filter (\<lambda>d. ds_tenant_id d = cc_tenant_id ctx \<and> ds_requirement_id d = ri_requirement_id i) (rt_sources t) = []"
      by (simp add: filter_empty_conv)
    moreover have "filter (\<lambda>d. ds_tenant_id d = cc_tenant_id ctx \<and> ds_requirement_id d = ri_requirement_id i) srcs
        = filter (\<lambda>d. ds_requirement_id d = ri_requirement_id i) srcs"
      using src_ids(2) by (intro filter_cong) auto
    ultimately have src: "sources_of (new_requirement f ctx i) t' = [new_requirement_source ctx u i os']"
      using s(2) by (simp add: sources_of_def t')
    have "os' \<in> set (rt_observation_sources t)" "os_tenant_id os' = cc_tenant_id ctx" "os_observation_id os' = oc_id oc'"
      using pairs oc'(1) by auto
    then have "exact_source (new_requirement_source ctx u i os') os'" "os' \<in> set (rt_observation_sources t')"
      using oc'(2) by (simp_all add: exact_source_def t')
    moreover have "observed_as (new_requirement f ctx i) ?run oc" "oc \<in> set (rt_observations t')"
      using pairs m(1) mp by (auto simp: observed_as_def t')
    moreover have "?run \<in> set (rt_runs t')" by (simp add: t')
    ultimately show ?thesis unfolding traced_def using src st by (intro conjI bexI [of _ ?run] exI) auto
  qed
  have counts: "int (length (filter (\<lambda>q. dq_requirements_run_id q = qr_id run) (rt_requirements t'))) = qr_source_observation_count run"
    if run: "run \<in> set (rt_runs t')" "qr_status run = ''COMPLETED''" for run
  proof (cases "run \<in> set (rt_runs t)")
    case True
    then have "mf_requirements_run_id f \<noteq> qr_id run" using run_ids by auto
    then show ?thesis using requirement_invD(2) [OF inv True run(2)] by (simp add: t' filter_map o_def)
  next
    case False
    then have r: "run = ?run" using run(1) by (simp add: t')
    have "\<forall>q \<in> set (rt_requirements t). dq_requirements_run_id q \<noteq> mf_requirements_run_id f"
    proof
      fix q assume "q \<in> set (rt_requirements t)"
      then obtain x where "x \<in> set (rt_runs t)" "qr_id x = dq_requirements_run_id q"
        using requirement_invD(1) [OF inv] unfolding traced_def by blast
      then show "dq_requirements_run_id q \<noteq> mf_requirements_run_id f" using run_ids by auto
    qed
    then have "filter (\<lambda>q. dq_requirements_run_id q = mf_requirements_run_id f) (rt_requirements t) = []"
      by (simp add: filter_empty_conv)
    moreover have "int (length ?is) = mf_source_observation_count f"
      using ok run(2) r by (auto dest: list_all2_lengthD)
    ultimately show ?thesis by (simp add: t' r filter_map o_def)
  qed
  have "distinct (map dq_id (rt_requirements t'))"
    using inv dist(1) new_id by (auto simp: requirement_inv_def t' o_def)
  moreover have "distinct (map qr_id (rt_runs t'))" using inv run_ids by (auto simp: requirement_inv_def t')
  moreover have "\<forall>q \<in> set (rt_requirements t'). traced t' q" using old new by (auto simp: t')
  ultimately show ?thesis
    using inv counts unfolding requirement_inv_def confirmations_of_def by (simp add: t') blast
qed

lemma upto_snoc: "[1..int n + 1] = [1..int n] @ [int n + 1]"
  using upto_rec2 [of 1 "int n + 1"] by simp

lemma linked_snoc:
  assumes "linked ks" "cf_revision k = int (length ks) + 1"
    "cf_previous_confirmation_id k = (if ks = [] then None else Some (cf_id (last ks)))"
  shows "linked (ks @ [k])"
proof -
  have "cf_previous_confirmation_id ((ks @ [k]) ! Suc i) = Some (cf_id ((ks @ [k]) ! i))" if "Suc i < length (ks @ [k])" for i
  proof (cases "Suc i < length ks")
    case True
    then show ?thesis using assms(1) by (simp add: linked_def nth_append)
  next
    case False
    then have i: "length ks = Suc i" using that by simp
    then have "ks \<noteq> []" by auto
    then show ?thesis using i assms(3) by (simp add: nth_append last_conv_nth)
  qed
  moreover have "int (length (ks @ [k])) = int (length ks) + 1" by simp
  then have "map cf_revision (ks @ [k]) = [1..int (length (ks @ [k]))]"
    using assms(1,2) upto_snoc [of "length ks"] by (simp only: linked_def map_append list.map)
  moreover have "cf_previous_confirmation_id (hd (ks @ [k])) = None"
    using assms by (cases "ks = []") (simp_all add: linked_def)
  ultimately show ?thesis by (simp add: linked_def)
qed

lemma linked_last: "linked ks \<Longrightarrow> ks \<noteq> [] \<Longrightarrow> cf_revision (last ks) = int (length ks)"
proof -
  assume "linked ks" "ks \<noteq> []"
  then obtain n where n: "length ks = Suc n" "map cf_revision ks = [1..int n + 1]"
    by (cases "length ks") (auto simp: linked_def add.commute)
  have "cf_revision (last ks) = last (map cf_revision ks)" using \<open>ks \<noteq> []\<close> by (simp add: last_map)
  then show ?thesis unfolding n(2) upto_snoc using n(1) by simp
qed

lemma find_current_Some: "find_current tid rid rows = Some c \<Longrightarrow> c \<in> set rows \<and> cu_tenant_id c = tid \<and> cu_requirement_id c = rid"
  by (auto simp: find_current_def find_Some_iff)

lemma find_current_other:
  assumes "cu_tenant_id c' = tid" "cu_requirement_id c' = rid" "\<not> (tid' = tid \<and> rid' = rid)"
  shows "find_current tid' rid' (update_where (\<lambda>r. cu_tenant_id r = tid \<and> cu_requirement_id r = rid) (\<lambda>_. c') rows)
     = find_current tid' rid' rows"
  using assms by (induction rows) (auto simp: find_current_def update_where_def)

lemma find_current_moved:
  assumes "cu_tenant_id c' = tid" "cu_requirement_id c' = rid" "find_current tid rid rows \<noteq> None"
  shows "find_current tid rid (update_where (\<lambda>r. cu_tenant_id r = tid \<and> cu_requirement_id r = rid) (\<lambda>_. c') rows) = Some c'"
  using assms by (induction rows) (auto simp: find_current_def update_where_def)

lemma find_current_update:
  assumes "cu_tenant_id c' = tid" "cu_requirement_id c' = rid" "find_current tid rid rows \<noteq> None"
  shows "find_current tid' rid' (update_where (\<lambda>r. cu_tenant_id r = tid \<and> cu_requirement_id r = rid) (\<lambda>_. c') rows)
     = (if tid' = tid \<and> rid' = rid then Some c' else find_current tid' rid' rows)"
  using find_current_other [OF assms(1,2)] find_current_moved [OF assms] by auto

text \<open>The pointer after a confirmation: moved for its requirement, as it was for every other.\<close>

lemma save_current_Inr:
  assumes "save_current k (find_current tid rid rows) rows = Inr rows'" "cf_tenant_id k = tid" "cf_requirement_id k = rid"
    "distinct (map cu_requirement_id rows)"
  shows "distinct (map cu_requirement_id rows')"
    "find_current tid' rid' rows' = (if tid' = tid \<and> rid' = rid
       then Some \<lparr> cu_tenant_id = tid, cu_requirement_id = rid, cu_confirmation_id = cf_id k, cu_revision = cf_revision k,
                   cu_outcome = cf_outcome k \<rparr>
       else find_current tid' rid' rows)"
proof -
  let ?new = "\<lparr> cu_tenant_id = tid, cu_requirement_id = rid, cu_confirmation_id = cf_id k, cu_revision = cf_revision k,
    cu_outcome = cf_outcome k \<rparr>"
  have "distinct (map cu_requirement_id rows') \<and> find_current tid' rid' rows' =
      (if tid' = tid \<and> rid' = rid then Some ?new else find_current tid' rid' rows)"
  proof (cases "find_current tid rid rows")
    case None
    then have "rows' = rows @ [?new]" "\<forall>x \<in> set rows. \<not> cu_clash ?new x"
      using assms(1-3) by (simp_all add: save_current_def insert_row_Inr)
    then show ?thesis using assms(4) None
      by (auto simp: cu_clash_def find_current_def find_append split: option.splits)
  next
    case (Some c)
    then have c: "cu_tenant_id c = tid" "cu_requirement_id c = rid" by (auto dest: find_current_Some)
    let ?c = "c\<lparr> cu_confirmation_id := cf_id k, cu_revision := cf_revision k, cu_outcome := cf_outcome k \<rparr>"
    have eq: "?c = ?new" using c by simp
    have rows': "rows' = update_where (\<lambda>r. cu_tenant_id r = tid \<and> cu_requirement_id r = rid) (\<lambda>_. ?new) rows"
      using assms(1) c unfolding Some save_current_def option.case Let_def eq by (simp split: if_splits)
    have "map cu_requirement_id rows' = map cu_requirement_id rows"
      unfolding rows' update_where_def by auto
    then show ?thesis using assms(4) Some by (simp add: rows' find_current_update)
  qed
  then show "distinct (map cu_requirement_id rows')"
    "find_current tid' rid' rows' = (if tid' = tid \<and> rid' = rid then Some ?new else find_current tid' rid' rows)"
    by simp_all
qed

lemma confirmed_inv:
  assumes inv: "requirement_inv t" and q: "q \<in> set (rt_requirements t)" "dq_tenant_id q = cc_tenant_id ctx"
    and cur: "cur = find_current (cc_tenant_id ctx) (dq_id q) (rt_currents t)"
    and k: "k = new_confirmation f ctx (dq_id q) cur"
    and sv: "save_current k cur (rt_currents t) = Inr currents"
  shows "requirement_inv (t\<lparr> rt_confirmations := rt_confirmations t @ [k], rt_currents := currents, rt_audit := audit \<rparr>)"
    (is "requirement_inv ?t")
proof -
  let ?tid = "cc_tenant_id ctx" and ?rid = "dq_id q"
  let ?ks = "confirmations_of ?tid ?rid t"
  have kf: "cf_tenant_id k = ?tid" "cf_requirement_id k = ?rid" by (simp_all add: k new_confirmation_def)
  note old = requirement_invD(3,4) [OF inv]
  have "cf_revision k = int (length ?ks) + 1 \<and> cf_previous_confirmation_id k = (if ?ks = [] then None else Some (cf_id (last ?ks)))"
    using old(2) [of ?tid ?rid] linked_last [OF old(1) [of ?tid ?rid]]
    by (auto simp: k new_confirmation_def cur points_to_last_def split: option.splits)
  then have link: "linked (?ks @ [k])" using old(1) by (intro linked_snoc) auto
  have ks: "confirmations_of tid rid ?t = confirmations_of tid rid t @ (if tid = ?tid \<and> rid = ?rid then [k] else [])" for tid rid
    using kf by (auto simp: confirmations_of_def)
  have dc: "distinct (map cu_requirement_id (rt_currents t))" using inv by (simp add: requirement_inv_def)
  note save = save_current_Inr [OF sv [unfolded cur] kf dc]
  have "linked (confirmations_of tid rid ?t) \<and> points_to_last (confirmations_of tid rid ?t) (find_current tid rid (rt_currents ?t))" for tid rid
  proof (cases "tid = ?tid \<and> rid = ?rid")
    case True
    then show ?thesis using link by (simp add: ks save(2) points_to_last_def)
  next
    case False
    then have "confirmations_of tid rid ?t = confirmations_of tid rid t"
      "find_current tid rid (rt_currents ?t) = find_current tid rid (rt_currents t)" by (auto simp: ks save(2))
    then show ?thesis using old by simp
  qed
  moreover have "traced ?t r = traced t r" for r by (simp add: traced_def sources_of_def)
  ultimately show ?thesis using inv q kf save(1) by (auto simp: requirement_inv_def)
qed

lemma requirement_effect_inv:
  assumes "requirement_effect ctx t t'" "requirement_inv t"
  shows "requirement_inv t'"
  using assms(1)
proof cases
  case materialized
  then show ?thesis using materialized_inv [OF assms(2)] by blast
next
  case (confirmed q cur k f currents audit)
  then show ?thesis using confirmed_inv [OF assms(2)] by blast
next
  case (impacted impacts items)
  have "traced t' r = traced t r" for r unfolding impacted by (simp add: traced_def sources_of_def)
  then show ?thesis using assms(2) unfolding impacted by (simp add: requirement_inv_def confirmations_of_def)
qed (use assms(2) in simp)

lemma requirement_handler_effect:
  assumes "requirement_handlers created ctype = Some h" "h c ctx fresh t = Inr (ho, t')"
  shows "requirement_effect ctx t t'"
proof -
  from assms have run: "run_requirement created c ctx fresh t = Inr (ho, t')" and valid: "requirement_command_valid (em_body c)"
    by (auto simp: requirement_handlers_def split: if_splits)
  show ?thesis
  proof (cases "em_body c")
    case (RecordDceRequirementMaterializationRun f)
    then show ?thesis using run valid by (simp add: run_requirement_def record_materialization_effect)
  next
    case (RecordDceRequirementConfirmation f)
    then show ?thesis using run by (simp add: run_requirement_def record_confirmation_effect)
  next
    case (RecordCaseDceImpactRun f)
    then show ?thesis using run by (simp add: run_requirement_def record_impact_effect)
  qed
qed

interpretation requirements: command_handlers "requirement_handlers created" requirement_inv for created
  by unfold_locales (blast dest: requirement_handler_effect intro: requirement_effect_inv)

end
