(* ===== verification/RequirementClaims.thy ===== *)
theory RequirementClaims
  imports RequirementTrace IntakeProperties
begin

text \<open>
  The properties of the requirement handlers, on histories of dispatches and on the materialization
  service, each with a worked analysis of one observation.
\<close>

section \<open>What a materialization accepts\<close>

lemma mapped_requirements:
  assumes "requirements_problem f signals = None" "mf_status f = ''COMPLETED''" "i \<in> set (mf_requirements f)"
  shows "\<exists>kind. map_of EXPECTED_TYPES kind = Some (ri_requirement_type i)"
proof -
  have n: "length (mf_requirements f) = length signals" and m: "\<forall>p \<in> set (zip (mf_requirements f) signals). mapping_problem p = None"
    using assms(1,2) by (auto simp: requirements_problem_def first_exn_None split: if_splits)
  obtain k where k: "k < length signals" "mf_requirements f ! k = i" using assms(3) n by (metis in_set_conv_nth)
  then have "(i, signals ! k) \<in> set (zip (mf_requirements f) signals)" using n by (auto simp: set_zip)
  then have "mapping_problem (i, signals ! k) = None" using m by blast
  then show ?thesis by (auto simp: mapping_problem_def split: if_splits option.splits)
qed

lemma expected_not_contract_risk: "map_of EXPECTED_TYPES kind \<noteq> Some ''CONTRACT_RISK_SIGNAL''"
proof
  assume "map_of EXPECTED_TYPES kind = Some ''CONTRACT_RISK_SIGNAL''"
  then have "''CONTRACT_RISK_SIGNAL'' \<in> snd ` set EXPECTED_TYPES" by (force dest: map_of_SomeD)
  moreover have "''CONTRACT_RISK_SIGNAL'' \<notin> snd ` set EXPECTED_TYPES" by code_simp
  ultimately show False by simp
qed

lemma record_materialization_mapped:
  assumes "record_materialization f ctx fresh t = Inr (ho, t')" "t' \<noteq> t \<or> rt_runs t = []"
  shows "\<exists>signals. requirements_problem f signals = None"
  using assms by (auto simp: record_materialization_def Let_def split: if_splits option.splits)

lemma record_materialization_contract_risk:
  assumes "record_materialization f ctx fresh t = Inr (ho, t')" "mf_status f = ''COMPLETED''"
    "i \<in> set (mf_requirements f)" "ri_requirement_type i = ''CONTRACT_RISK_SIGNAL''"
  shows "t' = t \<and> rt_runs t \<noteq> []"
  using record_materialization_mapped [OF assms(1)] mapped_requirements [OF _ assms(2,3)] expected_not_contract_risk
  by (metis assms(4))

lemma dispatch_materialization:
  assumes "dispatch_command created dump sc ctx c db = (Inr d, db')" "em_body c = RecordDceRequirementMaterializationRun f"
  obtains "db' = db" "db_receipts db \<noteq> [] \<or> sc_seen sc \<noteq> []"
  | ho where "record_materialization f ctx (sc_handler_fresh sc) (db_business db) = Inr (ho, db_business db')"
proof -
  from assms(1) [unfolded dispatch_command_def] obtain h where h: "requirement_handlers created (em_command_type c) = Some h"
    "transaction dump h (sc_seen sc) \<lparr> rq_command = c, rq_context = ctx, rq_fresh = sc_fresh sc,
       rq_handler_fresh = sc_handler_fresh sc, rq_now = sc_now sc \<rparr> db = Inr (d, db')" by (auto elim: dispatch_Inr)
  from h(2) show thesis
  proof (cases rule: transaction_Inr)
    case (replay r)
    then have "db_receipts db \<noteq> [] \<or> sc_seen sc \<noteq> []" by (auto simp: find_receipt_def)
    then show ?thesis using that(1) replay(3) by simp
  next
    case (executed ho b ids evs obs)
    from h(1) executed(3) have "run_requirement created c ctx (sc_handler_fresh sc) (db_business db) = Inr (ho, b)"
      by (auto simp: requirement_handlers_def split: if_splits)
    then show ?thesis using that(2) [of ho] executed(6) by (simp add: run_requirement_def assms(2))
  qed
qed

section \<open>A worked analysis\<close>

definition ex_observation :: "string \<Rightarrow> observation_row" where
  "ex_observation kind = \<lparr> oc_id = 9, oc_tenant_id = 1, oc_analysis_id = 8, oc_dce_version_id = 7, oc_requirement_kind = kind,
     oc_directive = ''REQUIRED_SIGNAL'', oc_rule_id = ''r'', oc_rule_version = ''1'', oc_fragment_id = 10,
     oc_start_byte_offset = 0, oc_end_byte_offset = 9, oc_excerpt = ''visite'' \<rparr>"

definition ex_observed_source :: observation_source_row where
  "ex_observed_source = \<lparr> os_id = 11, os_tenant_id = 1, os_observation_id = 9, os_fragment_id = 10,
     os_start_byte_offset = 0, os_end_byte_offset = 9 \<rparr>"

definition ex_requirement_tables :: "string \<Rightarrow> requirement_tables" where
  "ex_requirement_tables kind = \<lparr>
     rt_versions = [\<lparr> vr_id = 7, vr_tenant_id = 1, vr_aggregate_revision = 1, vr_consultation_id = 6, vr_corpus_hash = ''ab'',
       vr_predecessor = None, vr_provenance_channel = ''MANUAL'', vr_provenance_reference = None, vr_provenance_url = None,
       vr_source_received_at = 1, vr_lifecycle = ''ADMITTED'', vr_integrity = ''VERIFIED'',
       vr_classification_readiness = ''PENDING'', vr_analysis_readiness = ''PENDING'', vr_withdrawal_source = None,
       vr_withdrawal_reason = None, vr_superseded_at = None, vr_withdrawn_at = None, vr_created_by_actor_id = 2, vr_updated_by_actor_id = 2 \<rparr>],
     rt_cases = [],
     rt_analyses = [\<lparr> ra_id = 8, ra_tenant_id = 1, ra_dce_version_id = 7, ra_input_manifest_sha256 = ''ab'', ra_analyzer_id = ''rc'',
       ra_analyzer_version = ''1'', ra_status = ''COMPLETED'', ra_source_fragment_count = 1, ra_source_char_count = 9,
       ra_failure_code = None \<rparr>],
     rt_observations = [ex_observation kind], rt_observation_sources = [ex_observed_source],
     rt_runs = [], rt_requirements = [], rt_sources = [], rt_confirmations = [], rt_currents = [], rt_impacts = [],
     rt_impact_items = [], rt_audit = [] \<rparr>"

definition ex_signal :: "string \<Rightarrow> requirement_signal" where
  "ex_signal kind = \<lparr> sl_observation_id = 9, sl_requirement_kind = kind, sl_directive = ''REQUIRED_SIGNAL'', sl_rule_id = ''r'',
     sl_rule_version = ''1'', sl_fragment_id = 10, sl_start_byte_offset = 0, sl_end_byte_offset = 9 \<rparr>"

definition ex_requirement_db :: "string \<Rightarrow> requirement_tables platform_db" where
  "ex_requirement_db kind = \<lparr> db_receipts = [], db_events = [], db_outbox = [], db_business = ex_requirement_tables kind \<rparr>"

definition ex_materialization :: materialization_fields where
  "ex_materialization = \<lparr> mf_requirements_run_id = 20, mf_dce_version_id = 7, mf_dce_rc_analysis_id = 8,
     mf_input_manifest_sha256 = requirements_manifest_sha256 [ex_signal ''RC_SITE_VISIT''], mf_materializer_id = ''m'',
     mf_materializer_version = ''2'', mf_status = ''COMPLETED'', mf_source_observation_count = 1, mf_failure_code = None,
     mf_requirements = [\<lparr> ri_requirement_id = 21, ri_source_observation_id = 9, ri_requirement_type = ''SITE_VISIT'',
       ri_directive_signal = ''REQUIRED_SIGNAL'', ri_confirmation_status = ''PENDING_HUMAN_CONFIRMATION'',
       ri_uncertainty_status = ''SOURCE_SIGNAL_ONLY'' \<rparr>] \<rparr>"

definition ex_materialization_request :: "requirement_command dispatch_request" where
  "ex_materialization_request = \<lparr>
     rq_command = \<lparr> em_command_type = ''RecordDceRequirementMaterializationRun'', em_command_id = 3, em_idempotency_key = 3,
       em_correlation_id = None, em_body = RecordDceRequirementMaterializationRun ex_materialization \<rparr>,
     rq_context = system_context 1 SYSTEM_REQUIREMENTS_ACTOR_ID 5, rq_fresh = of_nat, rq_handler_fresh = of_nat, rq_now = 5 \<rparr>"

definition ex_service_call :: service_call where
  "ex_service_call = \<lparr> sc_fresh = of_nat, sc_handler_fresh = of_nat, sc_now = 5, sc_seen = [] \<rparr>"

lemma ex_requirement_inv: "requirement_inv (db_business (ex_requirement_db kind))"
  by (simp add: requirement_inv_def ex_requirement_db_def ex_requirement_tables_def confirmations_of_def linked_def
      points_to_last_def find_current_def)

lemma ex_pairs: "observed_pairs 1 (\<lambda>oc. oc_analysis_id oc = 8) (ex_requirement_tables kind) = [(ex_observation kind, ex_observed_source)]"
  "observed_pairs 1 (\<lambda>oc. oc_analysis_id oc = 8 \<and> oc_dce_version_id oc = 7) (ex_requirement_tables kind)
     = [(ex_observation kind, ex_observed_source)]"
  "signal_of (ex_observation kind, ex_observed_source) = ex_signal kind"
  by (simp_all add: observed_pairs_def ex_requirement_tables_def ex_observation_def ex_observed_source_def ex_signal_def signal_of_def)

lemma ex_requirement_types: "map_of EXPECTED_TYPES ''RC_SITE_VISIT'' = Some ''SITE_VISIT''"
  "map_of REQUIREMENT_TYPES ''RC_SITE_VISIT'' = Some ''SITE_VISIT''"
  "map_of REQUIREMENT_TYPES ''CCAP_PENALTIES'' = Some ''CONTRACT_RISK_SIGNAL''"
  by (simp_all add: EXPECTED_TYPES_def REQUIREMENT_TYPES_def)

lemma ex_signals_loaded: "load_signals 1 7 8 (db_business (ex_requirement_db kind)) = Inr [ex_signal kind]"
proof -
  have "requirements_ready (find_version 1 7 (rt_versions (ex_requirement_tables kind)))"
    "\<exists>a. find_analysis 1 8 (rt_analyses (ex_requirement_tables kind)) = Some a \<and> ra_dce_version_id a = 7 \<and> ra_status a = ''COMPLETED''"
    by (simp_all add: requirements_ready_def find_version_def find_analysis_def ex_requirement_tables_def)
  then show ?thesis by (auto simp: load_signals_def ex_requirement_db_def ex_pairs)
qed

lemma ex_projection: "map_of REQUIREMENT_TYPES kind \<noteq> None \<Longrightarrow> rj_status (project_requirements [ex_signal kind]) = ''COMPLETED''
    \<and> rj_failure_code (project_requirements [ex_signal kind]) = None"
  by (auto simp: project_requirements_def MAX_OBSERVATIONS_def ex_signal_def)

lemma ex_materialization_valid: "materialization_valid ex_materialization"
  using is_sha256_sha256_hex
  by (simp add: materialization_valid_def ex_materialization_def requirements_manifest_sha256_def requirement_input_valid_def
      terminal_projection_valid_def REQUIREMENT_TYPE_VALUES_def DIRECTIVE_VALUES_def)

lemma ex_materialized: "\<exists>ho t' e. record_materialization ex_materialization (system_context 1 SYSTEM_REQUIREMENTS_ACTOR_ID 5) of_nat
      (ex_requirement_tables ''RC_SITE_VISIT'') = Inr (ho, t') \<and> ho_events ho = [e] \<and> map dq_id (rt_requirements t') = [21]"
proof -
  let ?t = "ex_requirement_tables ''RC_SITE_VISIT''" and ?s = "ex_signal ''RC_SITE_VISIT''"
  have m: "lower (requirements_manifest_sha256 s) = requirements_manifest_sha256 s" for s
    by (simp add: requirements_manifest_sha256_def)
  have v: "requirements_ready (find_version 1 7 (rt_versions ?t))"
    by (simp add: requirements_ready_def find_version_def ex_requirement_tables_def)
  have a: "\<exists>a. List.find (\<lambda>r. ra_tenant_id r = 1 \<and> ra_id r = 8 \<and> ra_dce_version_id r = 7) (rt_analyses ?t) = Some a
      \<and> ra_status a = ''COMPLETED'' \<and> ra_id a = 8"
    by (simp add: ex_requirement_tables_def)
  have q: "requirements_problem ex_materialization [?s] = None"
    by (simp add: requirements_problem_def mapping_problem_def ex_materialization_def ex_signal_def ex_requirement_types)
  have r: "rt_runs ?t = [] \<and> rt_requirements ?t = [] \<and> rt_sources ?t = []" by (simp add: ex_requirement_tables_def)
  have o: "source_by_observation [(ex_observation k, ex_observed_source)] 9 = Some ex_observed_source" for k
    by (simp add: source_by_observation_def ex_observation_def)
  let ?ctx = "system_context 1 SYSTEM_REQUIREMENTS_ACTOR_ID 5"
  define i where "i = hd (mf_requirements ex_materialization)"
  have c: "qr_check (new_requirement_run ex_materialization ?ctx)" "dq_check (new_requirement ex_materialization ?ctx i)"
      "ds_check (new_requirement_source ?ctx (of_nat 0) i ex_observed_source)" "mf_requirements ex_materialization = [i]"
      "ri_source_observation_id i = 9" "ri_requirement_id i = 21"
    by (simp_all add: qr_check_def dq_check_def ds_check_def new_requirement_run_def new_requirement_def new_requirement_source_def
        ex_materialization_def ex_observed_source_def REQUIREMENT_TYPE_VALUES_def DIRECTIVE_VALUES_def i_def)
  have d: "dq_id (new_requirement ex_materialization ?ctx i) = 21" by (simp add: new_requirement_def c(6))
  have i: "\<exists>t'. insert_requirements ex_materialization ?ctx (source_by_observation [(ex_observation k, ex_observed_source)]) of_nat 0
      (mf_requirements ex_materialization) (?t\<lparr> rt_runs := runs \<rparr>) = Inr t' \<and> map dq_id (rt_requirements t') = [21]" for k runs
    using c(2,3) by (simp add: r c(4,5) o d insert_row_def add_row_def del: new_requirement_simps new_source_simps)
  have f: "mf_dce_version_id ex_materialization = 7" "mf_dce_rc_analysis_id ex_materialization = 8"
    "mf_status ex_materialization = ''COMPLETED''" "mf_failure_code ex_materialization = None"
    "mf_source_observation_count ex_materialization = 1"
    "mf_input_manifest_sha256 ex_materialization = requirements_manifest_sha256 [?s]" "cc_tenant_id ?ctx = 1" "cc_actor_kind ?ctx = ''SYSTEM''"
    by (simp_all add: ex_materialization_def system_context_def)
  let ?run = "new_requirement_run ex_materialization ?ctx"
  obtain t' where t': "insert_requirements ex_materialization ?ctx
      (source_by_observation [(ex_observation ''RC_SITE_VISIT'', ex_observed_source)]) of_nat 0 (mf_requirements ex_materialization)
      (?t\<lparr> rt_runs := [?run] \<rparr>) = Inr t'" "map dq_id (rt_requirements t') = [21]"
    using i [of "''RC_SITE_VISIT''" "[?run]"] by (elim exE conjE) (rule that)
  show ?thesis
    using a t'(2) ex_projection [of "''RC_SITE_VISIT''"]
    by (auto simp add: record_materialization_def Let_def f m v q r c(1) ex_pairs ex_requirement_types insert_row_def add_row_def
        requirement_outcome_def t'(1))
qed

lemma ex_requirement_dispatched:
  obtains d db' where "dispatch_run (\<lambda>_. []) (requirement_handlers (\<lambda>_. 0)) [(0, ex_materialization_request)]
      (ex_requirement_db ''RC_SITE_VISIT'') = ([Inr d], db')" "map dq_id (rt_requirements (db_business db')) = [21]"
proof -
  obtain ho t' e where m: "record_materialization ex_materialization (system_context 1 SYSTEM_REQUIREMENTS_ACTOR_ID 5) of_nat
      (ex_requirement_tables ''RC_SITE_VISIT'') = Inr (ho, t')" "ho_events ho = [e]" "map dq_id (rt_requirements t') = [21]"
    using ex_materialized by (elim exE conjE) (rule that)
  have h: "\<exists>h. requirement_handlers (\<lambda>_. 0) ''RecordDceRequirementMaterializationRun'' = Some h
      \<and> h (rq_command ex_materialization_request) (rq_context ex_materialization_request) (rq_handler_fresh ex_materialization_request)
          (ex_requirement_tables ''RC_SITE_VISIT'') = Inr (ho, t')"
    using m(1) by (simp add: requirement_handlers_def ex_materialization_request_def ex_materialization_valid run_requirement_def)
  have c: "em_command_type (rq_command ex_materialization_request) = ''RecordDceRequirementMaterializationRun''"
    by (simp add: ex_materialization_request_def)
  have "\<exists>d db'. dispatch (\<lambda>_. []) (requirement_handlers (\<lambda>_. 0)) [] ex_materialization_request (ex_requirement_db ''RC_SITE_VISIT'')
      = (Inr d, db') \<and> db_business db' = t'"
    using h m(2) by (auto simp: dispatch_def transaction_def c find_receipt_def add_row_def ex_requirement_db_def Let_def)
  then show ?thesis using that m(3) by (auto simp: ex_requirement_db_def)
qed

section \<open>Properties\<close>

text \<open>
  C18. Whatever commands are dispatched, every stored requirement is traced to one observation of the
  analysis its run names, with the type the observation's kind stands for and exactly one source, equal to
  the source of the observation; a completed run has one requirement per observation; the confirmations of
  a requirement are numbered from 1 without a gap, each names the one before it, and the current
  confirmation is the last.\<close>

theorem requirements_traced:
  assumes "requirement_inv (db_business db)"
    "dispatch_run dump (requirement_handlers created) steps db = (rs, db')"
  shows "requirement_inv (db_business db')"
  using assms by (rule requirements.run_preserves)

theorem requirements_traced_witness:
  "\<exists>d db'. dispatch_run (\<lambda>_. []) (requirement_handlers (\<lambda>_. 0)) [(0, ex_materialization_request)]
      (ex_requirement_db ''RC_SITE_VISIT'') = ([Inr d], db')
    \<and> map dq_id (rt_requirements (db_business db')) = [21] \<and> requirement_inv (db_business db')"
proof -
  obtain d db' where r: "dispatch_run (\<lambda>_. []) (requirement_handlers (\<lambda>_. 0)) [(0, ex_materialization_request)]
      (ex_requirement_db ''RC_SITE_VISIT'') = ([Inr d], db')" "map dq_id (rt_requirements (db_business db')) = [21]"
    by (rule ex_requirement_dispatched)
  then show ?thesis using requirements_traced [OF ex_requirement_inv r(1)] by (intro exI conjI)
qed

text \<open>
  C26. A completed analysis with a contract observation (\<open>CCAP_\<close>/\<open>CCTP_\<close>), which the service maps to
  \<open>CONTRACT_RISK_SIGNAL\<close> and submits as a completed projection, is never materialized: the handler's own
  table of types does not have these kinds, so the tables of the business are left as they were, and
  for a first materialization the call fails.\<close>

theorem contract_risk_never_materialized:
  assumes "load_signals tid vid aid (db_business db) = Inr signals"
    "rj_status (project_requirements signals) = ''COMPLETED''"
    "s \<in> set signals" "map_of REQUIREMENT_TYPES (sl_requirement_kind s) = Some ''CONTRACT_RISK_SIGNAL''"
    "materialize created dump sc tid vid aid db = (r, db')"
  shows "db_business db' = db_business db
    \<and> (rt_runs (db_business db) = [] \<and> db_receipts db = [] \<and> sc_seen sc = [] \<longrightarrow> (\<exists>e. r = Inl e) \<and> db' = db)"
proof -
  define f where "f = recording_fields vid aid (project_requirements signals)"
  let ?ctx = "system_context tid SYSTEM_REQUIREMENTS_ACTOR_ID (sc_now sc)"
  have sig: "rj_signals (project_requirements signals) = signals"
    using assms(3) by (auto simp: project_requirements_def)
  define i where "i = requirement_input_of (requirement_run_id aid (requirements_manifest_sha256 signals)) s"
  have f: "mf_status f = ''COMPLETED''" "i \<in> set (mf_requirements f)" "ri_requirement_type i = ''CONTRACT_RISK_SIGNAL''"
    using assms(2-4) by (simp_all add: f_def i_def recording_fields_def sig Let_def)
      (simp add: requirement_input_of_def requirement_type_of_def)
  show ?thesis
  proof (cases "materialization_valid f")
    case False
    then show ?thesis using assms(1,5) by (auto simp: materialize_def f_def Let_def)
  next
    case True
    define c where "c = \<lparr> em_command_type = ''RecordDceRequirementMaterializationRun'', em_command_id = mf_requirements_run_id f,
      em_idempotency_key = mf_requirements_run_id f, em_correlation_id = Some vid, em_body = RecordDceRequirementMaterializationRun f \<rparr>"
    have run: "dispatch_command created dump sc ?ctx c db = (r, db')"
      using assms(1,5) True by (simp add: materialize_def c_def flip: f_def)
    have body: "em_body c = RecordDceRequirementMaterializationRun f" by (simp add: c_def)
    show ?thesis
    proof (cases r)
      case (Inl e)
      then have "db' = db" using run unfolding dispatch_command_def by (metis dispatch_Inl)
      then show ?thesis using Inl by simp
    next
      case (Inr d)
      from run [unfolded Inr] body show ?thesis
        by (cases rule: dispatch_materialization) (auto dest: record_materialization_contract_risk [OF _ f])
    qed
  qed
qed

theorem contract_risk_never_materialized_witness:
  "\<exists>e. materialize (\<lambda>_. 0) (\<lambda>_. []) ex_service_call 1 7 8 (ex_requirement_db ''CCAP_PENALTIES'')
     = (Inl e, ex_requirement_db ''CCAP_PENALTIES'')"
proof -
  let ?db = "ex_requirement_db ''CCAP_PENALTIES''" and ?s = "ex_signal ''CCAP_PENALTIES''"
  obtain r db' where m: "materialize (\<lambda>_. 0) (\<lambda>_. []) ex_service_call 1 7 8 ?db = (r, db')" by (rule prod.exhaust)
  have "rj_status (project_requirements [?s]) = ''COMPLETED''" using ex_projection ex_requirement_types by simp
  moreover have "map_of REQUIREMENT_TYPES (sl_requirement_kind ?s) = Some ''CONTRACT_RISK_SIGNAL''"
    using ex_requirement_types by (simp add: ex_signal_def)
  ultimately have "(\<exists>e. r = Inl e) \<and> db' = ?db"
    using contract_risk_never_materialized [OF ex_signals_loaded _ _ _ m, of ?s]
    by (simp add: ex_requirement_db_def ex_requirement_tables_def ex_service_call_def)
  then show ?thesis using m by auto
qed

end
