(* ===== verification/DecisionTables.thy ===== *)
theory DecisionTables
  imports DceRequirements DecisionAggregate DecisionRules PatronAction
begin

text \<open>
  The tables of the Decision module (\<open>modules/decision/infrastructure/models\<close>): the roots with their
  contexts, references and conditions, the risk register, and the columns of the other modules' tables
  the repositories read. \<open>_check\<close> and \<open>_clash\<close> are the check and uniqueness constraints; foreign keys
  hold because the handlers insert children of rows they just looked up. The conditions of one decision
  are inserted by one transaction, so that their \<open>created_at\<close> is the same and their order is by id.
\<close>

section \<open>Other modules' columns\<close>

record decision_case_row =
  ck_id :: uuid
  ck_tenant_id :: uuid
  ck_aggregate_revision :: int
  ck_scope_fingerprint :: string
  ck_applicable_dce_version_id :: "uuid option"
  ck_lifecycle :: string

record scenario_row =
  sn_id :: uuid
  sn_tenant_id :: uuid
  sn_case_id :: uuid
  sn_version :: int
  sn_state :: string

section \<open>Decisions\<close>

record decision_row =
  ld_id :: uuid
  ld_tenant_id :: uuid
  ld_aggregate_revision :: int
  ld_decision_type :: string
  ld_subject_type :: string
  ld_subject_id :: uuid
  ld_case_id :: uuid
  ld_scope_fingerprint :: string
  ld_decision_key_hash :: string
  ld_cycle_number :: int
  ld_lifecycle :: string
  ld_outcome :: string
  ld_validity :: string
  ld_condition_status :: string
  ld_context_status :: string
  ld_selected_final_context_id :: "uuid option"
  ld_successor_decision_id :: "uuid option"
  ld_final_justification :: "string option"
  ld_finalized_by_actor_id :: "uuid option"
  ld_finalized_at :: "instant option"
  ld_review_required_reason :: "string option"
  ld_review_required_at :: "instant option"
  ld_cancel_reason :: "string option"
  ld_cancelled_at :: "instant option"
  ld_created_by_actor_id :: uuid
  ld_updated_by_actor_id :: uuid

definition active_row :: "decision_row \<Rightarrow> bool" where
  "active_row r = (ld_validity r = ''CURRENT'' \<and> ld_lifecycle r \<notin> {''SUPERSEDED'', ''CANCELLED''})"

definition ld_clash :: "decision_row \<Rightarrow> decision_row \<Rightarrow> bool" where
  "ld_clash r r' =
     (ld_id r = ld_id r'
      \<or> (ld_tenant_id r, ld_decision_key_hash r, ld_cycle_number r) = (ld_tenant_id r', ld_decision_key_hash r', ld_cycle_number r')
      \<or> active_row r \<and> active_row r' \<and> (ld_tenant_id r, ld_decision_key_hash r) = (ld_tenant_id r', ld_decision_key_hash r'))"

definition ld_check :: "decision_row \<Rightarrow> bool" where
  "ld_check r =
     (ld_decision_type r \<in> {''GO_NO_GO'', ''RISK_ACCEPTANCE'', ''PARTNER_SELECTION'', ''PRICING_APPROVAL'', ''SUBMISSION_AUTHORIZATION''}
      \<and> strip (ld_subject_type r) \<noteq> [] \<and> 0 < ld_cycle_number r
      \<and> ld_lifecycle r \<in> {''DRAFT'', ''PENDING_PATRON'', ''FINALIZED'', ''SUPERSEDED'', ''CANCELLED''}
      \<and> ld_outcome r \<in> {''UNDECIDED'', ''GO'', ''CONDITIONAL_GO'', ''NO_GO'', ''ACCEPTED'', ''REJECTED'', ''AUTHORIZED'', ''NOT_AUTHORIZED''}
      \<and> ld_validity r \<in> {''CURRENT'', ''REVIEW_REQUIRED'', ''SUPERSEDED'', ''INVALIDATED''}
      \<and> ld_condition_status r \<in> {''NOT_APPLICABLE'', ''OPEN'', ''SATISFIED'', ''FAILED'', ''WAIVED''}
      \<and> ld_context_status r \<in> {''INCOMPLETE'', ''FROZEN'', ''STALE''}
      \<and> (ld_lifecycle r = ''FINALIZED'' \<longrightarrow> ld_outcome r \<noteq> ''UNDECIDED'' \<and> ld_selected_final_context_id r \<noteq> None
           \<and> ld_final_justification r \<noteq> None \<and> ld_finalized_by_actor_id r \<noteq> None \<and> ld_finalized_at r \<noteq> None)
      \<and> (ld_outcome r = ''CONDITIONAL_GO'' \<longrightarrow> ld_condition_status r \<noteq> ''NOT_APPLICABLE'')
      \<and> (ld_lifecycle r = ''SUPERSEDED'' \<longrightarrow> ld_successor_decision_id r \<noteq> None
           \<and> ld_successor_decision_id r \<noteq> Some (ld_id r) \<and> ld_validity r = ''SUPERSEDED'')
      \<and> (ld_validity r = ''REVIEW_REQUIRED'' \<longrightarrow> ld_review_required_reason r \<noteq> None \<and> ld_review_required_at r \<noteq> None)
      \<and> (ld_lifecycle r = ''CANCELLED'' \<longrightarrow> ld_cancel_reason r \<noteq> None \<and> ld_cancelled_at r \<noteq> None))"

record context_row =
  lx_id :: uuid
  lx_tenant_id :: uuid
  lx_decision_id :: uuid
  lx_sequence_number :: int
  lx_context_fingerprint :: string
  lx_canonical_context_json :: json
  lx_rationale :: string
  lx_unknowns :: "string list"
  lx_prepared_at :: instant
  lx_context_state :: string
  lx_is_selected_final :: bool
  lx_prepared_by_actor_id :: uuid

definition lx_clash :: "context_row \<Rightarrow> context_row \<Rightarrow> bool" where
  "lx_clash r r' =
     (lx_id r = lx_id r'
      \<or> (lx_tenant_id r, lx_decision_id r, lx_sequence_number r) = (lx_tenant_id r', lx_decision_id r', lx_sequence_number r')
      \<or> lx_is_selected_final r \<and> lx_is_selected_final r' \<and> (lx_tenant_id r, lx_decision_id r) = (lx_tenant_id r', lx_decision_id r'))"

definition lx_check :: "context_row \<Rightarrow> bool" where
  "lx_check r = (0 < lx_sequence_number r \<and> lx_context_state r \<in> {''DRAFT'', ''FROZEN''})"

record reference_row =
  lr_id :: uuid
  lr_tenant_id :: uuid
  lr_decision_context_id :: uuid
  lr_aggregate_type :: string
  lr_aggregate_id :: uuid
  lr_aggregate_revision :: int
  lr_content_hash :: "string option"
  lr_reference_role :: string

definition lr_clash :: "reference_row \<Rightarrow> reference_row \<Rightarrow> bool" where
  "lr_clash r r' =
     (lr_id r = lr_id r'
      \<or> (lr_tenant_id r, lr_decision_context_id r, lr_aggregate_type r, lr_aggregate_id r, lr_reference_role r)
        = (lr_tenant_id r', lr_decision_context_id r', lr_aggregate_type r', lr_aggregate_id r', lr_reference_role r'))"

definition lr_check :: "reference_row \<Rightarrow> bool" where
  "lr_check r = (strip (lr_aggregate_type r) \<noteq> [] \<and> 0 \<le> lr_aggregate_revision r \<and> strip (lr_reference_role r) \<noteq> [])"

record condition_row =
  lc_id :: uuid
  lc_tenant_id :: uuid
  lc_decision_id :: uuid
  lc_label :: string
  lc_owner_actor_id :: "uuid option"
  lc_due_at :: "instant option"
  lc_due_date_absence_reason :: "string option"
  lc_failure_consequence :: string
  lc_status :: string
  lc_satisfied_evidence_ref :: "json option"
  lc_failure_reason :: "string option"
  lc_waiver_justification :: "string option"

definition lc_clash :: "condition_row \<Rightarrow> condition_row \<Rightarrow> bool" where
  "lc_clash r r' = (lc_id r = lc_id r')"

definition lc_check :: "condition_row \<Rightarrow> bool" where
  "lc_check r =
     ((lc_due_at r \<noteq> None \<or> (case lc_due_date_absence_reason r of None \<Rightarrow> False | Some s \<Rightarrow> strip s \<noteq> []))
      \<and> strip (lc_failure_consequence r) \<noteq> []
      \<and> lc_status r \<in> {''OPEN'', ''SATISFIED'', ''FAILED'', ''WAIVED''})"

record condition_transition_row =
  lt_id :: uuid
  lt_tenant_id :: uuid
  lt_decision_id :: uuid
  lt_condition_id :: uuid
  lt_from_status :: string
  lt_to_status :: string
  lt_satisfied_evidence_ref :: "json option"
  lt_failure_reason :: "string option"
  lt_aggregate_revision :: int
  lt_actor_id :: uuid
  lt_membership_id :: uuid
  lt_command_id :: uuid
  lt_idempotency_key :: uuid
  lt_correlation_id :: "uuid option"

definition lt_clash :: "condition_transition_row \<Rightarrow> condition_transition_row \<Rightarrow> bool" where
  "lt_clash r r' =
     (lt_id r = lt_id r' \<or> (lt_tenant_id r, lt_command_id r) = (lt_tenant_id r', lt_command_id r')
      \<or> (lt_tenant_id r, lt_idempotency_key r) = (lt_tenant_id r', lt_idempotency_key r'))"

definition lt_check :: "condition_transition_row \<Rightarrow> bool" where
  "lt_check r = (lt_from_status r = ''OPEN'' \<and> lt_to_status r \<in> {''SATISFIED'', ''FAILED''} \<and> 0 < lt_aggregate_revision r)"

section \<open>Risks\<close>

record risk_row =
  ki_id :: uuid
  ki_tenant_id :: uuid
  ki_case_id :: uuid
  ki_dce_version_id :: uuid
  ki_source_fragment_id :: uuid
  ki_functional_key :: string
  ki_category :: string
  ki_risk_code :: string
  ki_title :: string
  ki_statement :: string
  ki_severity :: string
  ki_likelihood :: string
  ki_treatment :: string
  ki_source_excerpt :: string
  ki_source_locator :: "(string \<times> json) list"
  ki_start_byte_offset :: int
  ki_end_byte_offset :: int
  ki_actor_id :: uuid
  ki_membership_id :: uuid
  ki_command_id :: uuid
  ki_idempotency_key :: uuid
  ki_correlation_id :: "uuid option"
  ki_due_at :: "instant option"

definition risk_clash :: "risk_row \<Rightarrow> risk_row \<Rightarrow> bool" where
  "risk_clash r r' =
     (ki_id r = ki_id r' \<or> (ki_tenant_id r, ki_functional_key r) = (ki_tenant_id r', ki_functional_key r'))"

text \<open>The declared lengths, which PostgreSQL enforces with an error of its own (\<open>DataError\<close>, not
  \<open>IntegrityError\<close>).\<close>

definition risk_fits :: "risk_row \<Rightarrow> bool" where
  "risk_fits r =
     (length (ki_functional_key r) \<le> 160 \<and> length (ki_risk_code r) \<le> 100 \<and> length (ki_title r) \<le> 240
      \<and> length (ki_source_excerpt r) \<le> 2000)"

definition risk_check :: "risk_row \<Rightarrow> bool" where
  "risk_check r =
     (ki_category r \<in> {''CCAP'', ''CCTP''} \<and> ki_severity r \<in> {''LOW'', ''MEDIUM'', ''HIGH'', ''CRITICAL''}
      \<and> ki_likelihood r \<in> {''RARE'', ''POSSIBLE'', ''LIKELY'', ''ALMOST_CERTAIN''}
      \<and> ki_treatment r \<in> {''OPEN'', ''ACCEPTED'', ''MITIGATED''}
      \<and> strip (ki_title r) \<noteq> [] \<and> strip (ki_statement r) \<noteq> [] \<and> strip (ki_source_excerpt r) \<noteq> []
      \<and> 0 \<le> ki_start_byte_offset r \<and> ki_start_byte_offset r < ki_end_byte_offset r)"

record risk_transition_row =
  kx_id :: uuid
  kx_tenant_id :: uuid
  kx_risk_id :: uuid
  kx_from_treatment :: string
  kx_to_treatment :: string
  kx_evidence_excerpt :: string
  kx_evidence_locator :: "(string \<times> json) list"
  kx_evidence_start_byte_offset :: int
  kx_evidence_end_byte_offset :: int
  kx_rationale :: string
  kx_aggregate_revision :: int
  kx_actor_id :: uuid
  kx_membership_id :: uuid
  kx_command_id :: uuid
  kx_idempotency_key :: uuid
  kx_correlation_id :: "uuid option"

definition kx_clash :: "risk_transition_row \<Rightarrow> risk_transition_row \<Rightarrow> bool" where
  "kx_clash r r' =
     (kx_id r = kx_id r' \<or> (kx_tenant_id r, kx_command_id r) = (kx_tenant_id r', kx_command_id r')
      \<or> (kx_tenant_id r, kx_idempotency_key r) = (kx_tenant_id r', kx_idempotency_key r')
      \<or> (kx_tenant_id r, kx_risk_id r, kx_aggregate_revision r) = (kx_tenant_id r', kx_risk_id r', kx_aggregate_revision r'))"

definition kx_check :: "risk_transition_row \<Rightarrow> bool" where
  "kx_check r =
     ((kx_from_treatment r = ''OPEN'' \<and> kx_to_treatment r \<in> {''ACCEPTED'', ''MITIGATED''}
       \<or> kx_from_treatment r = ''ACCEPTED'' \<and> kx_to_treatment r = ''MITIGATED'')
      \<and> 1 < kx_aggregate_revision r \<and> strip (kx_evidence_excerpt r) \<noteq> [] \<and> strip (kx_rationale r) \<noteq> []
      \<and> 0 \<le> kx_evidence_start_byte_offset r \<and> kx_evidence_start_byte_offset r < kx_evidence_end_byte_offset r)"

record risk_link_row =
  kl_id :: uuid
  kl_tenant_id :: uuid
  kl_case_id :: uuid
  kl_risk_id :: uuid
  kl_requirement_id :: uuid
  kl_dce_version_id :: uuid
  kl_functional_key :: string
  kl_relationship :: string
  kl_rationale :: string
  kl_source_refs :: "string list"
  kl_actor_id :: uuid
  kl_membership_id :: uuid
  kl_command_id :: uuid
  kl_idempotency_key :: uuid
  kl_correlation_id :: "uuid option"

definition kl_clash :: "risk_link_row \<Rightarrow> risk_link_row \<Rightarrow> bool" where
  "kl_clash r r' =
     (kl_id r = kl_id r' \<or> (kl_tenant_id r, kl_functional_key r) = (kl_tenant_id r', kl_functional_key r')
      \<or> (kl_tenant_id r, kl_command_id r) = (kl_tenant_id r', kl_command_id r')
      \<or> (kl_tenant_id r, kl_idempotency_key r) = (kl_tenant_id r', kl_idempotency_key r'))"

definition kl_check :: "risk_link_row \<Rightarrow> bool" where
  "kl_check r =
     (kl_relationship r \<in> {''IMPACTS'', ''MITIGATES'', ''CONSTRAINS''}
      \<and> strip (kl_rationale r) \<noteq> [])"

section \<open>The tables\<close>

record decision_tables =
  dt_cases :: "decision_case_row list"
  dt_versions :: "version_row list"
  dt_requirements :: "dce_requirement_row list"
  dt_currents :: "current_confirmation_row list"
  dt_scenarios :: "scenario_row list"
  dt_extractions :: "extraction_row list"
  dt_fragments :: "fragment_row list"
  dt_decisions :: "decision_row list"
  dt_contexts :: "context_row list"
  dt_references :: "reference_row list"
  dt_conditions :: "condition_row list"
  dt_condition_transitions :: "condition_transition_row list"
  dt_risks :: "risk_row list"
  dt_risk_transitions :: "risk_transition_row list"
  dt_links :: "risk_link_row list"
  dt_patron :: pa_tables

end
