(* ===== verification/DecisionLedger.thy ===== *)
theory DecisionLedger
  imports DecisionTables UuidText
begin

text \<open>
  The GO/NO-GO decisions as they are stored: the commands and handlers of
  \<open>modules/decision/application/lifecycle.py\<close> and \<open>finalize.py\<close> with the queries of
  \<open>infrastructure/repositories.py\<close>, \<open>condition_repository.py\<close> and \<open>verified_context_reader.py\<close>.

  \<open>clock\<close> gives the calendar fields of an instant, which \<open>isoformat\<close> prints.
\<close>

section \<open>Commands\<close>

record reference_input =
  ni_aggregate_type :: string
  ni_aggregate_id :: uuid
  ni_aggregate_revision :: int
  ni_content_hash :: "string option"
  ni_reference_role :: string

record create_decision_fields =
  qc_decision_id :: uuid
  qc_case_id :: uuid
  qc_decision_type :: string
  qc_scope_fingerprint :: "string option"

record freeze_fields =
  qz_decision_id :: uuid
  qz_case_id :: uuid
  qz_context_id :: uuid
  qz_expected_revision :: int
  qz_rationale :: string
  qz_unknowns :: "string list"
  qz_risks :: "string list"
  qz_references :: "reference_input list"

record resolve_fields =
  qv_decision_id :: uuid
  qv_case_id :: uuid
  qv_condition_id :: uuid
  qv_transition_id :: uuid
  qv_expected_revision :: int
  qv_target_status :: string
  qv_evidence_reference :: "string option"
  qv_condition_failure :: "string option"

record condition_input =
  wi_condition_id :: uuid
  wi_label :: string
  wi_owner_actor_id :: uuid
  wi_due_at :: "instant option"
  wi_due_date_absence_reason :: "string option"
  wi_failure_consequence :: string

record finalize_fields =
  qg_decision_id :: uuid
  qg_case_id :: uuid
  qg_expected_revision :: int
  qg_displayed_fingerprint :: string
  qg_outcome :: string
  qg_justification :: string
  qg_conditions :: "condition_input list"

datatype decision_command =
    CreateDecision create_decision_fields
  | FreezeDecisionContext freeze_fields
  | ResolveDecisionCondition resolve_fields
  | FinalizeGoNoGoDecision finalize_fields

text \<open>The constraints of the command models. Texts are stripped before their length is checked, except
  those of a condition, whose model does not strip.\<close>

definition stripped_text :: "nat \<Rightarrow> nat \<Rightarrow> string \<Rightarrow> bool" where
  "stripped_text lo hi s = (strip s = s \<and> lo \<le> length s \<and> length s \<le> hi)"

definition reference_input_valid :: "reference_input \<Rightarrow> bool" where
  "reference_input_valid n =
     (ni_aggregate_type n \<in> {''CASE'', ''DCE_VERSION'', ''DCE_REQUIREMENT'', ''DECISION_RISK'', ''PRICING_SCENARIO''}
      \<and> 0 \<le> ni_aggregate_revision n \<and> pred_option is_sha256 (ni_content_hash n)
      \<and> stripped_text 1 80 (ni_reference_role n))"

definition condition_input_valid :: "condition_input \<Rightarrow> bool" where
  "condition_input_valid n =
     (1 \<le> length (wi_label n) \<and> length (wi_label n) \<le> 500
      \<and> pred_option (\<lambda>s. length s \<le> 1000) (wi_due_date_absence_reason n)
      \<and> 1 \<le> length (wi_failure_consequence n) \<and> length (wi_failure_consequence n) \<le> 1000)"

fun decision_command_valid :: "decision_command \<Rightarrow> bool" where
  "decision_command_valid (CreateDecision f) = (qc_decision_type f = ''GO_NO_GO'' \<and> pred_option is_sha256 (qc_scope_fingerprint f))"
| "decision_command_valid (FreezeDecisionContext f) =
     (0 \<le> qz_expected_revision f \<and> stripped_text 1 4000 (qz_rationale f)
      \<and> length (qz_unknowns f) \<le> 100 \<and> list_all (\<lambda>s. strip s = s) (qz_unknowns f)
      \<and> length (qz_risks f) \<le> 100 \<and> list_all (\<lambda>s. strip s = s) (qz_risks f)
      \<and> 1 \<le> length (qz_references f) \<and> length (qz_references f) \<le> 500 \<and> list_all reference_input_valid (qz_references f))"
| "decision_command_valid (ResolveDecisionCondition f) =
     (0 \<le> qv_expected_revision f \<and> qv_target_status f \<in> {''SATISFIED'', ''FAILED''}
      \<and> pred_option (stripped_text 0 2000) (qv_evidence_reference f) \<and> pred_option (stripped_text 0 2000) (qv_condition_failure f))"
| "decision_command_valid (FinalizeGoNoGoDecision f) =
     (0 \<le> qg_expected_revision f \<and> is_sha256 (qg_displayed_fingerprint f)
      \<and> qg_outcome f \<in> {''GO'', ''CONDITIONAL_GO'', ''NO_GO''} \<and> stripped_text 1 4000 (qg_justification f)
      \<and> length (qg_conditions f) \<le> 32 \<and> list_all condition_input_valid (qg_conditions f))"

section \<open>The root, read and updated under its revision\<close>

definition find_decision :: "uuid \<Rightarrow> uuid \<Rightarrow> decision_row list \<Rightarrow> decision_row option" where
  "find_decision tid did rows = List.find (\<lambda>r. ld_tenant_id r = tid \<and> ld_id r = did) rows"

definition contexts_of :: "uuid \<Rightarrow> uuid \<Rightarrow> context_row list \<Rightarrow> context_row list" where
  "contexts_of tid did rows =
     sort_key (\<lambda>x. (lx_sequence_number x, lx_id x)) (filter (\<lambda>x. lx_tenant_id x = tid \<and> lx_decision_id x = did) rows)"

definition conditions_of :: "uuid \<Rightarrow> uuid \<Rightarrow> condition_row list \<Rightarrow> condition_row list" where
  "conditions_of tid did rows = sort_key lc_id (filter (\<lambda>n. lc_tenant_id n = tid \<and> lc_decision_id n = did) rows)"

definition references_of :: "uuid \<Rightarrow> uuid \<Rightarrow> decision_tables \<Rightarrow> reference_row list" where
  "references_of tid did t =
     filter (\<lambda>r. lr_tenant_id r = tid
         \<and> list_ex (\<lambda>x. lx_tenant_id x = tid \<and> lx_decision_id x = did \<and> lx_id x = lr_decision_context_id r) (dt_contexts t))
       (dt_references t)"

text \<open>\<open>update_root_with_expected_revision\<close>: one statement, guarded by the revision, that bumps it. The
  \<open>RuntimeError\<close> stands for \<open>OptimisticRevisionConflictError\<close>, of which it is the base.\<close>

definition update_root ::
  "uuid \<Rightarrow> uuid \<Rightarrow> int \<Rightarrow> (decision_row \<Rightarrow> decision_row) \<Rightarrow> decision_row list \<Rightarrow> exn + int \<times> decision_row list" where
  "update_root tid did expected change rows =
     (if expected < 0 then Inl (ValueError ''expected_revision must be non-negative'')
      else (case List.find (\<lambda>r. ld_tenant_id r = tid \<and> ld_id r = did \<and> ld_aggregate_revision r = expected) rows of
        None \<Rightarrow> Inl (RuntimeError ''aggregate was changed or is unavailable'')
      | Some r \<Rightarrow>
        (let r' = (change r)\<lparr> ld_aggregate_revision := ld_aggregate_revision r + 1 \<rparr> in
         if \<not> ld_check r' \<or> list_ex (\<lambda>x. ld_id x \<noteq> did \<and> ld_clash r' x) rows then Inl IntegrityError
         else Inr (expected + 1, update_where (\<lambda>x. ld_tenant_id x = tid \<and> ld_id x = did) (\<lambda>_. r') rows))))"

definition stale_revision :: "exn \<Rightarrow> exn" where
  "stale_revision e = (case e of RuntimeError _ \<Rightarrow> CommandExecutionError ''STALE_DECISION_REVISION'' | _ \<Rightarrow> e)"

definition decision_ref :: "string \<Rightarrow> uuid \<Rightarrow> int \<Rightarrow> (string \<times> json) list \<Rightarrow> json" where
  "decision_ref aggregate u revn extra = JObj ([(''aggregate_type'', JStr aggregate), (''aggregate_id'', JStr (uuid_str u)),
     (''aggregate_revision'', JInt revn)] @ extra)"

definition decision_pending :: "string \<Rightarrow> uuid \<Rightarrow> int \<Rightarrow> string \<Rightarrow> (string \<times> json) list \<Rightarrow> pending_event" where
  "decision_pending aggregate u revn etype payload = \<lparr> pe_aggregate_type = aggregate, pe_aggregate_id = u,
     pe_aggregate_revision = revn, pe_event_type = etype, pe_payload = payload,
     pe_topic = ''cockpit_projection'', pe_payload_version = 1 \<rparr>"

section \<open>Creation\<close>

definition active_case :: "uuid \<Rightarrow> uuid \<Rightarrow> decision_tables \<Rightarrow> decision_case_row option" where
  "active_case tid cid t = List.find (\<lambda>k. ck_tenant_id k = tid \<and> ck_id k = cid \<and> ck_lifecycle k = ''ACTIVE'') (dt_cases t)"

definition decision_key_hash :: "uuid \<Rightarrow> string \<Rightarrow> string \<Rightarrow> string" where
  "decision_key_hash cid dtype scope = sha256_hex (json_dumps (JObj
     [(''case_id'', JStr (uuid_str cid)), (''decision_type'', JStr dtype), (''scope_fingerprint'', JStr scope)]))"

definition active_decision_exists :: "uuid \<Rightarrow> string \<Rightarrow> decision_tables \<Rightarrow> bool" where
  "active_decision_exists tid key t =
     list_ex (\<lambda>r. ld_tenant_id r = tid \<and> ld_decision_key_hash r = key \<and> active_row r) (dt_decisions t)"

definition next_cycle_number :: "uuid \<Rightarrow> string \<Rightarrow> decision_tables \<Rightarrow> int" where
  "next_cycle_number tid key t =
     fold max (map ld_cycle_number (filter (\<lambda>r. ld_tenant_id r = tid \<and> ld_decision_key_hash r = key) (dt_decisions t))) 0 + 1"

definition new_decision :: "create_decision_fields \<Rightarrow> command_context \<Rightarrow> string \<Rightarrow> string \<Rightarrow> int \<Rightarrow> decision_row" where
  "new_decision f ctx scope key cycle = \<lparr> ld_id = qc_decision_id f, ld_tenant_id = cc_tenant_id ctx, ld_aggregate_revision = 0,
     ld_decision_type = qc_decision_type f, ld_subject_type = ''CASE'', ld_subject_id = qc_case_id f, ld_case_id = qc_case_id f,
     ld_scope_fingerprint = scope, ld_decision_key_hash = key, ld_cycle_number = cycle,
     ld_lifecycle = ''DRAFT'', ld_outcome = ''UNDECIDED'', ld_validity = ''CURRENT'', ld_condition_status = ''NOT_APPLICABLE'',
     ld_context_status = ''INCOMPLETE'', ld_selected_final_context_id = None, ld_successor_decision_id = None,
     ld_final_justification = None, ld_finalized_by_actor_id = None, ld_finalized_at = None,
     ld_review_required_reason = None, ld_review_required_at = None, ld_cancel_reason = None, ld_cancelled_at = None,
     ld_created_by_actor_id = cc_actor_id ctx, ld_updated_by_actor_id = cc_actor_id ctx \<rparr>"

text \<open>\<open>case_exists\<close> and \<open>case_scope_fingerprint\<close> read the same row. A violation of a constraint at the flush is
  reported as an active decision.\<close>

definition create_decision ::
  "create_decision_fields \<Rightarrow> command_context \<Rightarrow> decision_tables \<Rightarrow> exn + (handler_outcome \<times> decision_tables)" where
  "create_decision f ctx t =
     (case active_case (cc_tenant_id ctx) (qc_case_id f) t of
        None \<Rightarrow> Inl (CommandExecutionError ''NOT_FOUND_OR_FORBIDDEN'')
      | Some k \<Rightarrow>
        (let scope = lower (ck_scope_fingerprint k); key = decision_key_hash (qc_case_id f) (qc_decision_type f) scope;
             r = new_decision f ctx scope key (next_cycle_number (cc_tenant_id ctx) key t) in
         if (case qc_scope_fingerprint f of None \<Rightarrow> False | Some s \<Rightarrow> scope \<noteq> lower s)
           then Inl (CommandExecutionError ''STALE_CASE_SCOPE'')
         else if active_decision_exists (cc_tenant_id ctx) key t then Inl (CommandExecutionError ''DECISION_ALREADY_ACTIVE'')
         else (case insert_row ld_check ld_clash r (dt_decisions t) of
           Inl _ \<Rightarrow> Inl (CommandExecutionError ''DECISION_ALREADY_ACTIVE'')
         | Inr rows \<Rightarrow>
           Inr (\<lparr> ho_result_code = ''DECISION_DRAFT_CREATED'', ho_aggregate_refs = [decision_ref ''Decision'' (ld_id r) 0 []],
                  ho_events = [decision_pending ''Decision'' (ld_id r) 0 ''DecisionDraftCreated''
                    [(''decision_id'', JStr (uuid_str (ld_id r))), (''case_id'', JStr (uuid_str (ld_case_id r)))]] \<rparr>,
                t\<lparr> dt_decisions := rows \<rparr>))))"

section \<open>Freezing the context\<close>

definition case_has_applicable_dce :: "uuid \<Rightarrow> uuid \<Rightarrow> decision_tables \<Rightarrow> bool" where
  "case_has_applicable_dce tid cid t =
     list_ex (\<lambda>v. list_ex (\<lambda>k. ck_tenant_id k = tid \<and> ck_id k = cid \<and> ck_tenant_id k = vr_tenant_id v
                             \<and> ck_applicable_dce_version_id k = Some (vr_id v)) (dt_cases t)
                 \<and> vr_lifecycle v = ''ADMITTED'') (dt_versions t)"

text \<open>\<open>context_reference_is_valid\<close>: the reference names a current fact of the case.\<close>

definition case_reference_valid :: "uuid \<Rightarrow> uuid \<Rightarrow> reference_input \<Rightarrow> decision_tables \<Rightarrow> bool" where
  "case_reference_valid tid cid n t =
     (ni_content_hash n = None
      \<and> list_ex (\<lambda>k. ck_tenant_id k = tid \<and> ck_id k = cid \<and> ck_id k = ni_aggregate_id n
            \<and> ck_aggregate_revision k = ni_aggregate_revision n \<and> ck_lifecycle k = ''ACTIVE'') (dt_cases t))"

definition version_reference_valid :: "uuid \<Rightarrow> uuid \<Rightarrow> reference_input \<Rightarrow> decision_tables \<Rightarrow> bool" where
  "version_reference_valid tid cid n t =
     list_ex (\<lambda>v. vr_tenant_id v = tid \<and> vr_id v = ni_aggregate_id n
         \<and> list_ex (\<lambda>k. ck_tenant_id k = vr_tenant_id v \<and> ck_applicable_dce_version_id k = Some (vr_id v) \<and> ck_id k = cid) (dt_cases t)
         \<and> vr_aggregate_revision v = ni_aggregate_revision n \<and> vr_lifecycle v = ''ADMITTED''
         \<and> (case ni_content_hash n of None \<Rightarrow> True | Some h \<Rightarrow> lower (vr_corpus_hash v) = lower h)) (dt_versions t)"

definition requirement_reference_valid :: "uuid \<Rightarrow> uuid \<Rightarrow> reference_input \<Rightarrow> decision_tables \<Rightarrow> bool" where
  "requirement_reference_valid tid cid n t =
     (ni_content_hash n = None
      \<and> list_ex (\<lambda>q. dq_tenant_id q = tid \<and> dq_id q = ni_aggregate_id n
          \<and> list_ex (\<lambda>k. ck_tenant_id k = dq_tenant_id q \<and> ck_applicable_dce_version_id k = Some (dq_dce_version_id q) \<and> ck_id k = cid) (dt_cases t)
          \<and> list_ex (\<lambda>u. cu_tenant_id u = dq_tenant_id q \<and> cu_requirement_id u = dq_id q
                \<and> cu_revision u = ni_aggregate_revision n \<and> cu_outcome u = ''CONFIRMED'') (dt_currents t)) (dt_requirements t))"

definition risk_reference_valid :: "uuid \<Rightarrow> uuid \<Rightarrow> reference_input \<Rightarrow> decision_tables \<Rightarrow> bool" where
  "risk_reference_valid tid cid n t =
     (ni_aggregate_revision n = 1 \<and> ni_content_hash n = None
      \<and> list_ex (\<lambda>r. ki_tenant_id r = tid \<and> ki_id r = ni_aggregate_id n
          \<and> list_ex (\<lambda>k. ck_tenant_id k = ki_tenant_id r \<and> ck_id k = ki_case_id r \<and> ck_id k = cid \<and> ck_lifecycle k = ''ACTIVE''
                \<and> ck_applicable_dce_version_id k = Some (ki_dce_version_id r)) (dt_cases t)) (dt_risks t))"

definition scenario_reference_valid :: "uuid \<Rightarrow> uuid \<Rightarrow> reference_input \<Rightarrow> decision_tables \<Rightarrow> bool" where
  "scenario_reference_valid tid cid n t =
     (ni_content_hash n = None
      \<and> list_ex (\<lambda>p. sn_tenant_id p = tid \<and> sn_id p = ni_aggregate_id n \<and> sn_case_id p = cid
            \<and> sn_version p = ni_aggregate_revision n \<and> sn_state p \<noteq> ''ARCHIVED'') (dt_scenarios t))"

definition context_reference_is_valid :: "uuid \<Rightarrow> uuid \<Rightarrow> reference_input \<Rightarrow> decision_tables \<Rightarrow> bool" where
  "context_reference_is_valid tid cid n t =
     (if ni_aggregate_type n = ''CASE'' then case_reference_valid tid cid n t
      else if ni_aggregate_type n = ''DCE_VERSION'' then version_reference_valid tid cid n t
      else if ni_aggregate_type n = ''DCE_REQUIREMENT'' then requirement_reference_valid tid cid n t
      else if ni_aggregate_type n = ''DECISION_RISK'' then risk_reference_valid tid cid n t
      else if ni_aggregate_type n = ''PRICING_SCENARIO'' then scenario_reference_valid tid cid n t
      else False)"

definition reference_token :: "reference_input \<Rightarrow> string" where
  "reference_token n = ni_aggregate_type n @ '':'' @ uuid_str (ni_aggregate_id n) @ '':'' @ int_str (ni_aggregate_revision n)
     @ '':'' @ ni_reference_role n"

text \<open>\<open>UUID(hexdigest[:32])\<close>; thirty-two hexadecimal digits always parse.\<close>

definition reference_id :: "reference_input \<Rightarrow> uuid" where
  "reference_id n = (case uuid_parse (take 32 (sha256_hex (reference_token n))) of Some u \<Rightarrow> u | None \<Rightarrow> 0)"

definition new_reference :: "command_context \<Rightarrow> uuid \<Rightarrow> reference_input \<Rightarrow> reference_row" where
  "new_reference ctx xid n = \<lparr> lr_id = reference_id n, lr_tenant_id = cc_tenant_id ctx, lr_decision_context_id = xid,
     lr_aggregate_type = ni_aggregate_type n, lr_aggregate_id = ni_aggregate_id n,
     lr_aggregate_revision = ni_aggregate_revision n, lr_content_hash = map_option lower (ni_content_hash n),
     lr_reference_role = strip (ni_reference_role n) \<rparr>"

definition context_built :: "(instant \<Rightarrow> py_datetime) \<Rightarrow> freeze_fields \<Rightarrow> command_context \<Rightarrow> decision_context" where
  "context_built clock f ctx = DecisionContext_build (qz_context_id f) (cc_tenant_id ctx) (map reference_token (qz_references f))
     (qz_unknowns f) (qz_risks f) (clock (cc_received_at ctx))"

definition canonical_context :: "(instant \<Rightarrow> py_datetime) \<Rightarrow> freeze_fields \<Rightarrow> command_context \<Rightarrow> json" where
  "canonical_context clock f ctx = JObj
     [(''decision_id'', JStr (uuid_str (qz_decision_id f))), (''case_id'', JStr (uuid_str (qz_case_id f))),
      (''references'', JList (map (\<lambda>n. JObj
         [(''aggregate_type'', JStr (ni_aggregate_type n)), (''aggregate_id'', JStr (uuid_str (ni_aggregate_id n))),
          (''aggregate_revision'', JInt (ni_aggregate_revision n)), (''content_hash'', json_opt JStr (ni_content_hash n)),
          (''reference_role'', JStr (ni_reference_role n))]) (qz_references f))),
      (''unknowns'', JList (map JStr (x_unknowns (context_built clock f ctx)))),
      (''risks'', JList (map JStr (x_risks (context_built clock f ctx)))),
      (''prepared_at'', JStr (isoformat (clock (cc_received_at ctx))))]"

definition new_context :: "(instant \<Rightarrow> py_datetime) \<Rightarrow> freeze_fields \<Rightarrow> command_context \<Rightarrow> context_row" where
  "new_context clock f ctx = \<lparr> lx_id = qz_context_id f, lx_tenant_id = cc_tenant_id ctx, lx_decision_id = qz_decision_id f,
     lx_sequence_number = 1, lx_context_fingerprint = x_fingerprint (context_built clock f ctx),
     lx_canonical_context_json = canonical_context clock f ctx, lx_rationale = strip (qz_rationale f),
     lx_unknowns = x_unknowns (context_built clock f ctx), lx_prepared_at = cc_received_at ctx, lx_context_state = ''FROZEN'',
     lx_is_selected_final = False, lx_prepared_by_actor_id = cc_actor_id ctx \<rparr>"

definition freeze_context ::
  "(instant \<Rightarrow> py_datetime) \<Rightarrow> freeze_fields \<Rightarrow> command_context \<Rightarrow> decision_tables \<Rightarrow> exn + (handler_outcome \<times> decision_tables)" where
  "freeze_context clock f ctx t =
     (let tid = cc_tenant_id ctx; x = new_context clock f ctx in
      case find_decision tid (qz_decision_id f) (dt_decisions t) of
        None \<Rightarrow> Inl (CommandExecutionError ''NOT_FOUND_OR_FORBIDDEN'')
      | Some r \<Rightarrow>
        if ld_case_id r \<noteq> qz_case_id f then Inl (CommandExecutionError ''NOT_FOUND_OR_FORBIDDEN'')
        else if ld_decision_type r \<noteq> ''GO_NO_GO'' \<or> ld_lifecycle r \<noteq> ''DRAFT'' \<or> ld_context_status r \<noteq> ''INCOMPLETE''
          \<or> contexts_of tid (qz_decision_id f) (dt_contexts t) \<noteq> []
          then Inl (CommandExecutionError ''DECISION_NOT_READY_FOR_CONTEXT'')
        else if ld_aggregate_revision r \<noteq> qz_expected_revision f then Inl (CommandExecutionError ''STALE_DECISION_REVISION'')
        else if \<not> list_ex (\<lambda>n. ni_aggregate_type n = ''CASE'' \<and> ni_aggregate_id n = qz_case_id f) (qz_references f)
          then Inl (CommandExecutionError ''DECISION_CONTEXT_CASE_REFERENCE_REQUIRED'')
        else if case_has_applicable_dce tid (qz_case_id f) t
          \<and> \<not> list_ex (\<lambda>n. ni_aggregate_type n = ''DCE_REQUIREMENT'') (qz_references f)
          then Inl (CommandExecutionError ''DCE_REQUIREMENT_REFERENCE_REQUIRED'')
        else if \<not> list_all (\<lambda>n. context_reference_is_valid tid (qz_case_id f) n t) (qz_references f)
          then Inl (CommandExecutionError ''INVALID_DECISION_CONTEXT_REFERENCE'')
        else
          (case insert_row lx_check lx_clash x (dt_contexts t) of Inl e \<Rightarrow> Inl e | Inr contexts \<Rightarrow>
           (case insert_rows lr_check lr_clash (map (new_reference ctx (qz_context_id f)) (qz_references f)) (dt_references t) of
              Inl e \<Rightarrow> Inl e
            | Inr references \<Rightarrow>
              (case update_root tid (qz_decision_id f) (qz_expected_revision f)
                      (\<lambda>r. r\<lparr> ld_lifecycle := ''PENDING_PATRON'', ld_context_status := ''FROZEN'', ld_updated_by_actor_id := cc_actor_id ctx \<rparr>)
                      (dt_decisions t) of
                 Inl e \<Rightarrow> Inl (stale_revision e)
               | Inr (revn, rows) \<Rightarrow>
                 Inr (\<lparr> ho_result_code = ''DECISION_CONTEXT_FROZEN'',
                        ho_aggregate_refs = [decision_ref ''Decision'' (qz_decision_id f) revn [],
                          decision_ref ''DecisionContext'' (qz_context_id f) revn [(''fingerprint'', JStr (lx_context_fingerprint x))]],
                        ho_events = [decision_pending ''Decision'' (qz_decision_id f) revn ''DecisionContextFrozen''
                          [(''decision_id'', JStr (uuid_str (qz_decision_id f))), (''case_id'', JStr (uuid_str (qz_case_id f))),
                           (''context_id'', JStr (uuid_str (qz_context_id f))), (''fingerprint'', JStr (lx_context_fingerprint x)),
                           (''reference_count'', JInt (int (length (qz_references f))))]] \<rparr>,
                      t\<lparr> dt_contexts := contexts, dt_references := references, dt_decisions := rows \<rparr>)))))"

section \<open>Finalization\<close>

definition condition_proposed :: "(instant \<Rightarrow> py_datetime) \<Rightarrow> condition_input \<Rightarrow> decision_condition" where
  "condition_proposed clock n = DecisionCondition_proposed (wi_condition_id n) (wi_label n) (Some (uuid_str (wi_owner_actor_id n)))
     (map_option clock (wi_due_at n)) (wi_due_date_absence_reason n) (Some (wi_failure_consequence n))"

definition new_condition :: "(instant \<Rightarrow> py_datetime) \<Rightarrow> uuid \<Rightarrow> uuid \<Rightarrow> condition_input \<Rightarrow> condition_row" where
  "new_condition clock tid did n = \<lparr> lc_id = wi_condition_id n, lc_tenant_id = tid, lc_decision_id = did,
     lc_label = n_label (condition_proposed clock n), lc_owner_actor_id = Some (wi_owner_actor_id n), lc_due_at = wi_due_at n,
     lc_due_date_absence_reason = n_due_date_absence_reason (condition_proposed clock n),
     lc_failure_consequence = or_empty (n_failure_consequence (condition_proposed clock n)), lc_status = ''OPEN'',
     lc_satisfied_evidence_ref = None, lc_failure_reason = None, lc_waiver_justification = None \<rparr>"

definition condition_drafts ::
  "(instant \<Rightarrow> py_datetime) \<Rightarrow> uuid \<Rightarrow> uuid \<Rightarrow> condition_input list \<Rightarrow> exn + condition_row list" where
  "condition_drafts clock tid did ns =
     (if \<not> distinct (map wi_condition_id ns) then Inl (CommandExecutionError ''CONDITION_IDENTIFIERS_MUST_BE_UNIQUE'')
      else if first_invalid (map (condition_proposed clock) ns) \<noteq> None then Inl (CommandExecutionError ''CONDITIONAL_GO_INVALID'')
      else Inr (map (new_condition clock tid did) ns))"

text \<open>\<open>has_confirmed_dce_requirements\<close>: the referenced requirements of the applicable version that are
  confirmed, counted as rows of the join, against the number of references.\<close>

definition referenced_requirements :: "uuid \<Rightarrow> uuid \<Rightarrow> decision_tables \<Rightarrow> uuid list" where
  "referenced_requirements tid xid t = map lr_aggregate_id (filter (\<lambda>r. lr_tenant_id r = tid \<and> lr_decision_context_id r = xid
     \<and> lr_aggregate_type r = ''DCE_REQUIREMENT'') (dt_references t))"

definition confirmed_join :: "uuid \<Rightarrow> uuid \<Rightarrow> uuid list \<Rightarrow> decision_tables \<Rightarrow> (dce_requirement_row \<times> current_confirmation_row) list" where
  "confirmed_join tid vid ids t =
     filter (\<lambda>(q, u). cu_tenant_id u = dq_tenant_id q \<and> cu_requirement_id u = dq_id q \<and> dq_tenant_id q = tid
         \<and> dq_dce_version_id q = vid \<and> dq_id q \<in> set ids \<and> cu_outcome u = ''CONFIRMED'')
       (List.product (dt_requirements t) (dt_currents t))"

definition has_confirmed_dce_requirements :: "uuid \<Rightarrow> uuid \<Rightarrow> uuid \<Rightarrow> decision_tables \<Rightarrow> bool" where
  "has_confirmed_dce_requirements tid xid cid t =
     (case Option.bind (List.find (\<lambda>k. ck_tenant_id k = tid \<and> ck_id k = cid) (dt_cases t)) ck_applicable_dce_version_id of
        None \<Rightarrow> False
      | Some vid \<Rightarrow>
        (let ids = referenced_requirements tid xid t in
         ids = [] \<or> length (confirmed_join tid vid ids t) = length ids))"

definition finalized_root :: "finalize_fields \<Rightarrow> command_context \<Rightarrow> uuid \<Rightarrow> decision_row \<Rightarrow> decision_row" where
  "finalized_root f ctx xid r = r\<lparr> ld_lifecycle := ''FINALIZED'', ld_outcome := qg_outcome f, ld_validity := ''CURRENT'',
     ld_condition_status := (if qg_outcome f = ''CONDITIONAL_GO'' then ''OPEN'' else ''NOT_APPLICABLE''),
     ld_context_status := ''FROZEN'', ld_selected_final_context_id := Some xid,
     ld_final_justification := Some (strip (qg_justification f)), ld_finalized_by_actor_id := Some (cc_actor_id ctx),
     ld_finalized_at := Some (cc_received_at ctx), ld_updated_by_actor_id := cc_actor_id ctx \<rparr>"

definition finalize_go_no_go ::
  "(instant \<Rightarrow> py_datetime) \<Rightarrow> finalize_fields \<Rightarrow> command_context \<Rightarrow> decision_tables \<Rightarrow> exn + (handler_outcome \<times> decision_tables)" where
  "finalize_go_no_go clock f ctx t =
     (let tid = cc_tenant_id ctx; did = qg_decision_id f in
      if cc_actor_kind ctx \<notin> {''PATRON_ADMIN'', ''PATRON_DELEGATE''} \<or> cc_membership_id ctx = None
        then Inl (CommandExecutionError ''PATRON_REQUIRED'')
      else (case find_decision tid did (dt_decisions t) of
        None \<Rightarrow> Inl (CommandExecutionError ''NOT_FOUND_OR_FORBIDDEN'')
      | Some r \<Rightarrow>
        if ld_case_id r \<noteq> qg_case_id f then Inl (CommandExecutionError ''NOT_FOUND_OR_FORBIDDEN'')
        else if ld_decision_type r \<noteq> ''GO_NO_GO'' \<or> ld_lifecycle r \<noteq> ''PENDING_PATRON'' \<or> ld_outcome r \<noteq> ''UNDECIDED''
          \<or> ld_validity r \<noteq> ''CURRENT'' \<or> ld_context_status r \<noteq> ''FROZEN''
          then Inl (CommandExecutionError ''DECISION_NOT_READY_FOR_FINALIZATION'')
        else if contexts_of tid did (dt_contexts t) = [] then Inl (CommandExecutionError ''DECISION_CONTEXT_REQUIRED'')
        else
          (let x = last (contexts_of tid did (dt_contexts t)) in
           if lx_context_state x \<noteq> ''FROZEN'' \<or> lower (lx_context_fingerprint x) \<noteq> lower (qg_displayed_fingerprint f)
             then Inl (CommandExecutionError ''STALE_DECISION_CONTEXT'')
           else if references_of tid did t = [] then Inl (CommandExecutionError ''DECISION_CONTEXT_REFERENCES_REQUIRED'')
           else if qg_outcome f \<noteq> ''CONDITIONAL_GO'' \<and> qg_conditions f \<noteq> []
             then Inl (CommandExecutionError ''CONDITIONS_ONLY_FOR_CONDITIONAL_GO'')
           else if qg_outcome f = ''CONDITIONAL_GO'' \<and> qg_conditions f = []
             then Inl (CommandExecutionError ''CONDITIONAL_GO_REQUIRES_CONDITIONS'')
           else (case condition_drafts clock tid did (qg_conditions f) of Inl e \<Rightarrow> Inl e | Inr drafts \<Rightarrow>
             if \<not> has_confirmed_dce_requirements tid (lx_id x) (qg_case_id f) t
               then Inl (CommandExecutionError ''DCE_REQUIREMENTS_NOT_CONFIRMED'')
             else (case update_root tid did (qg_expected_revision f) (finalized_root f ctx (lx_id x)) (dt_decisions t) of
               Inl e \<Rightarrow> Inl (stale_revision e)
             | Inr (revn, rows) \<Rightarrow>
               (case insert_rows lc_check lc_clash drafts (dt_conditions t) of Inl e \<Rightarrow> Inl e | Inr conditions \<Rightarrow>
                Inr (\<lparr> ho_result_code = ''DECISION_FINALIZED'', ho_aggregate_refs = [decision_ref ''Decision'' did revn []],
                       ho_events = [decision_pending ''Decision'' did revn ''DecisionFinalized''
                         [(''decision_id'', JStr (uuid_str did)), (''case_id'', JStr (uuid_str (qg_case_id f))),
                          (''outcome'', JStr (qg_outcome f)), (''condition_count'', JInt (int (length drafts))),
                          (''aggregate_revision'', JInt revn)]] \<rparr>,
                     t\<lparr> dt_decisions := rows, dt_conditions := conditions \<rparr>)))))))"

section \<open>Resolution of a condition\<close>

text \<open>\<open>statuses\<close> with the entry of the first condition of that id replaced.\<close>

fun resolved_statuses :: "uuid \<Rightarrow> string \<Rightarrow> condition_row list \<Rightarrow> string list" where
  "resolved_statuses cid target [] = []"
| "resolved_statuses cid target (n # ns) =
     (if lc_id n = cid then target # map lc_status ns else lc_status n # resolved_statuses cid target ns)"

definition condition_status_of :: "string list \<Rightarrow> string" where
  "condition_status_of statuses =
     (if ''FAILED'' \<in> set statuses then ''FAILED''
      else if list_all (\<lambda>s. s \<in> {''SATISFIED'', ''WAIVED''}) statuses then ''SATISFIED'' else ''OPEN'')"

definition evidence_json :: "(instant \<Rightarrow> py_datetime) \<Rightarrow> resolve_fields \<Rightarrow> command_context \<Rightarrow> json option" where
  "evidence_json clock f ctx =
     (if truthy (qv_evidence_reference f)
      then Some (JObj [(''reference'', JStr (strip (or_empty (qv_evidence_reference f)))),
                       (''recorded_at'', JStr (isoformat (clock (cc_received_at ctx))))])
      else None)"

definition new_condition_transition ::
  "(instant \<Rightarrow> py_datetime) \<Rightarrow> resolve_fields \<Rightarrow> 'c app_command \<Rightarrow> command_context \<Rightarrow> uuid \<Rightarrow> condition_transition_row" where
  "new_condition_transition clock f c ctx mid = \<lparr> lt_id = qv_transition_id f, lt_tenant_id = cc_tenant_id ctx,
     lt_decision_id = qv_decision_id f, lt_condition_id = qv_condition_id f, lt_from_status = ''OPEN'',
     lt_to_status = qv_target_status f, lt_satisfied_evidence_ref = evidence_json clock f ctx,
     lt_failure_reason = strip_or_None (qv_condition_failure f), lt_aggregate_revision = qv_expected_revision f + 1,
     lt_actor_id = cc_actor_id ctx, lt_membership_id = mid, lt_command_id = em_command_id c,
     lt_idempotency_key = em_idempotency_key c, lt_correlation_id = em_correlation_id c \<rparr>"

definition resolved_condition :: "condition_transition_row \<Rightarrow> condition_row \<Rightarrow> condition_row" where
  "resolved_condition tr n = n\<lparr> lc_status := lt_to_status tr, lc_satisfied_evidence_ref := lt_satisfied_evidence_ref tr,
     lc_failure_reason := lt_failure_reason tr \<rparr>"

text \<open>\<open>transition\<close>: the row itself is looked up again, under a lock, with its decision.\<close>

definition condition_transition ::
  "condition_transition_row \<Rightarrow> decision_tables \<Rightarrow> exn + decision_tables" where
  "condition_transition tr t =
     (case List.find (\<lambda>n. lc_tenant_id n = lt_tenant_id tr \<and> lc_decision_id n = lt_decision_id tr \<and> lc_id n = lt_condition_id tr)
             (dt_conditions t) of
        None \<Rightarrow> Inl (ValueError ''DECISION_CONDITION_NOT_OPEN'')
      | Some n \<Rightarrow>
        if lc_status n \<noteq> lt_from_status tr then Inl (ValueError ''DECISION_CONDITION_NOT_OPEN'')
        else if \<not> lc_check (resolved_condition tr n) then Inl IntegrityError
        else (case insert_row lt_check lt_clash tr (dt_condition_transitions t) of Inl e \<Rightarrow> Inl e | Inr rows \<Rightarrow>
          Inr (t\<lparr> dt_conditions := update_where (\<lambda>m. lc_id m = lc_id n) (resolved_condition tr) (dt_conditions t),
                   dt_condition_transitions := rows \<rparr>)))"

definition already_resolved :: "exn \<Rightarrow> exn" where
  "already_resolved e = (case e of ValueError _ \<Rightarrow> CommandExecutionError ''DECISION_CONDITION_ALREADY_RESOLVED'' | _ \<Rightarrow> e)"

definition resolve_condition ::
  "(instant \<Rightarrow> py_datetime) \<Rightarrow> resolve_fields \<Rightarrow> 'c app_command \<Rightarrow> command_context \<Rightarrow> decision_tables
   \<Rightarrow> exn + (handler_outcome \<times> decision_tables)" where
  "resolve_condition clock f c ctx t =
     (let tid = cc_tenant_id ctx; did = qv_decision_id f in
      case find_decision tid did (dt_decisions t) of
        None \<Rightarrow> Inl (CommandExecutionError ''NOT_FOUND_OR_FORBIDDEN'')
      | Some r \<Rightarrow>
        if ld_case_id r \<noteq> qv_case_id f then Inl (CommandExecutionError ''NOT_FOUND_OR_FORBIDDEN'')
        else if ld_outcome r \<noteq> ''CONDITIONAL_GO'' \<or> ld_lifecycle r \<noteq> ''FINALIZED''
          then Inl (CommandExecutionError ''DECISION_NOT_CONDITIONAL_GO'')
        else
          (let ns = conditions_of tid did (dt_conditions t) in
           case List.find (\<lambda>n. lc_id n = qv_condition_id f) ns of
             None \<Rightarrow> Inl (CommandExecutionError ''DECISION_CONDITION_NOT_FOUND'')
           | Some n \<Rightarrow>
             if lc_status n \<noteq> ''OPEN'' then Inl (CommandExecutionError ''DECISION_CONDITION_ALREADY_RESOLVED'')
             else if ld_aggregate_revision r \<noteq> qv_expected_revision f then Inl (CommandExecutionError ''STALE_DECISION_REVISION'')
             else if qv_target_status f = ''SATISFIED'' \<and> \<not> truthy (qv_evidence_reference f)
               then Inl (CommandExecutionError ''CONDITION_EVIDENCE_REQUIRED'')
             else if qv_target_status f = ''FAILED'' \<and> \<not> truthy (qv_condition_failure f)
               then Inl (CommandExecutionError ''CONDITION_FAILURE_REASON_REQUIRED'')
             else
               (let status = condition_status_of (resolved_statuses (qv_condition_id f) (qv_target_status f) ns) in
                case cc_membership_id ctx of None \<Rightarrow> Inl (ValueError ''badly formed hexadecimal UUID string'') | Some mid \<Rightarrow>
                (case condition_transition (new_condition_transition clock f c ctx mid) t of Inl e \<Rightarrow> Inl (already_resolved e) | Inr t1 \<Rightarrow>
                 (case update_root tid did (qv_expected_revision f)
                         (\<lambda>r. r\<lparr> ld_condition_status := status, ld_updated_by_actor_id := cc_actor_id ctx \<rparr>) (dt_decisions t1) of
                    Inl e \<Rightarrow> Inl (stale_revision e)
                  | Inr (revn, rows) \<Rightarrow>
                    Inr (\<lparr> ho_result_code = ''DECISION_CONDITION_RESOLVED'',
                           ho_aggregate_refs = [decision_ref ''Decision'' did revn [], decision_ref ''DecisionCondition'' (qv_condition_id f) revn []],
                           ho_events = [decision_pending ''Decision'' did revn ''DecisionConditionResolved''
                             [(''decision_id'', JStr (uuid_str did)), (''condition_id'', JStr (uuid_str (qv_condition_id f))),
                              (''status'', JStr (qv_target_status f)), (''condition_status'', JStr status)]] \<rparr>,
                         t1\<lparr> dt_decisions := rows \<rparr>)))))) "

section \<open>The handlers\<close>

definition run_decision ::
  "(instant \<Rightarrow> py_datetime) \<Rightarrow> decision_command app_command \<Rightarrow> command_context \<Rightarrow> decision_tables
   \<Rightarrow> exn + (handler_outcome \<times> decision_tables)" where
  "run_decision clock c ctx t =
     (case em_body c of
        CreateDecision f \<Rightarrow> create_decision f ctx t
      | FreezeDecisionContext f \<Rightarrow> freeze_context clock f ctx t
      | ResolveDecisionCondition f \<Rightarrow> resolve_condition clock f c ctx t
      | FinalizeGoNoGoDecision f \<Rightarrow> finalize_go_no_go clock f ctx t)"

fun decision_command_type :: "decision_command \<Rightarrow> string" where
  "decision_command_type (CreateDecision f) = ''CreateDecision''"
| "decision_command_type (FreezeDecisionContext f) = ''FreezeDecisionContext''"
| "decision_command_type (ResolveDecisionCondition f) = ''ResolveDecisionCondition''"
| "decision_command_type (FinalizeGoNoGoDecision f) = ''FinalizeGoNoGoDecision''"

text \<open>A body that violates its model is refused when it is built, before any dispatch.\<close>

definition decision_handlers ::
  "(instant \<Rightarrow> py_datetime) \<Rightarrow> string \<Rightarrow> (decision_command, decision_tables) handler option" where
  "decision_handlers clock ctype =
     (if ctype \<in> {''CreateDecision'', ''FreezeDecisionContext'', ''ResolveDecisionCondition'', ''FinalizeGoNoGoDecision''}
      then Some (\<lambda>c ctx fresh t.
        if decision_command_type (em_body c) \<noteq> ctype \<or> \<not> decision_command_valid (em_body c) then Inl KeyError
        else run_decision clock c ctx t)
      else None)"

section \<open>The services\<close>

fun decision_target :: "decision_command \<Rightarrow> uuid \<times> uuid" where
  "decision_target (CreateDecision f) = (qc_decision_id f, qc_case_id f)"
| "decision_target (FreezeDecisionContext f) = (qz_decision_id f, qz_case_id f)"
| "decision_target (ResolveDecisionCondition f) = (qv_decision_id f, qv_case_id f)"
| "decision_target (FinalizeGoNoGoDecision f) = (qg_decision_id f, qg_case_id f)"

definition decision_request :: "string \<Rightarrow> string \<Rightarrow> uuid \<Rightarrow> uuid \<Rightarrow> uuid \<Rightarrow> bool \<Rightarrow> instant \<Rightarrow> authorization_request" where
  "decision_request action rtype rid tid cid mfa now = \<lparr> q_action = action,
     q_resource = \<lparr> z_resource_type = rtype, z_resource_id = rid, z_tenant_id = tid,
       z_classification = INTERNAL_OPERATIONAL, z_case_id = Some cid \<rparr>,
     q_mfa_required = mfa, q_evaluated_at = Some now \<rparr>"

definition dispatch_decision ::
  "(instant \<Rightarrow> py_datetime) \<Rightarrow> (decision_command app_command \<Rightarrow> (string \<times> json) list) \<Rightarrow> service_call \<Rightarrow> actor_context
   \<Rightarrow> decision_command app_command \<Rightarrow> uuid \<Rightarrow> decision_tables platform_db \<Rightarrow> (exn + dispatch_result) \<times> decision_tables platform_db" where
  "dispatch_decision clock dump sc a c cid db =
     dispatch dump (decision_handlers clock) (sc_seen sc)
       \<lparr> rq_command = c, rq_context = command_context_of a (actor_kind_value (a_actor_kind a)) (sc_now sc) (Some cid),
          rq_fresh = sc_fresh sc, rq_handler_fresh = sc_handler_fresh sc, rq_now = sc_now sc \<rparr> db"

text \<open>\<open>PatronDecisionLifecycleService\<close> and \<open>PatronDecisionFinalizationService\<close>. A resolved actor always has a
  membership (\<open>a_membership_id\<close> is not optional).\<close>

definition lifecycle_execute ::
  "(actor_context \<Rightarrow> authorization_request \<Rightarrow> authorization_decision) \<Rightarrow> (instant \<Rightarrow> py_datetime)
   \<Rightarrow> (decision_command app_command \<Rightarrow> (string \<times> json) list) \<Rightarrow> service_call \<Rightarrow> actor_context \<Rightarrow> decision_command app_command
   \<Rightarrow> decision_tables platform_db \<Rightarrow> (exn + dispatch_result) \<times> decision_tables platform_db" where
  "lifecycle_execute policy clock dump sc a c db =
     (let (did, cid) = decision_target (em_body c) in
      if a_actor_kind a \<noteq> PATRON_ADMIN then (Inl (PermissionError ''PATRON_REQUIRED''), db)
      else (let d = policy a (decision_request ''decision.manage'' ''DECISION'' did (a_tenant_id a) cid False (sc_now sc)) in
        if \<not> z_allowed d then (Inl (PermissionError (z_code d)), db)
        else dispatch_decision clock dump sc a c cid db))"

definition finalization_execute ::
  "(actor_context \<Rightarrow> authorization_request \<Rightarrow> authorization_decision) \<Rightarrow> (instant \<Rightarrow> py_datetime)
   \<Rightarrow> (decision_command app_command \<Rightarrow> (string \<times> json) list) \<Rightarrow> service_call \<Rightarrow> actor_context \<Rightarrow> decision_command app_command
   \<Rightarrow> decision_tables platform_db \<Rightarrow> (exn + dispatch_result) \<times> decision_tables platform_db" where
  "finalization_execute policy clock dump sc a c db =
     (let (did, cid) = decision_target (em_body c) in
      if a_actor_kind a \<notin> {PATRON_ADMIN, PATRON_DELEGATE} then (Inl (PermissionError ''PATRON_REQUIRED''), db)
      else (let d = policy a (decision_request ''decision.finalize'' ''DECISION'' did (a_tenant_id a) cid True (sc_now sc)) in
        if \<not> z_allowed d then (Inl (PermissionError (z_code d)), db)
        else dispatch_decision clock dump sc a c cid db))"

end
