(* ===== verification/DecisionTrace.thy ===== *)
theory DecisionTrace
  imports DecisionLedger
begin

text \<open>
  The stored decisions against the aggregate of \<open>DecisionAggregate\<close>. \<open>decision_image\<close> relates a row, with
  its contexts and conditions, to an aggregate; \<open>ledger_inv\<close> says that the tables are consistent and that
  every row without a failed condition is the image of a reachable aggregate (the aggregate has no
  operation that fails a condition). \<open>ledger_effect\<close> summarises what an accepted command writes.
\<close>

section \<open>Values of the enumerations\<close>

fun lifecycle_value :: "decision_lifecycle \<Rightarrow> string" where
  "lifecycle_value Decision_DRAFT = ''DRAFT''"
| "lifecycle_value PENDING_PATRON = ''PENDING_PATRON''"
| "lifecycle_value FINALIZED = ''FINALIZED''"
| "lifecycle_value Decision_SUPERSEDED = ''SUPERSEDED''"
| "lifecycle_value CANCELLED = ''CANCELLED''"

fun outcome_value :: "decision_outcome \<Rightarrow> string" where
  "outcome_value UNDECIDED = ''UNDECIDED''"
| "outcome_value GO = ''GO''"
| "outcome_value CONDITIONAL_GO = ''CONDITIONAL_GO''"
| "outcome_value NO_GO = ''NO_GO''"
| "outcome_value ACCEPTED = ''ACCEPTED''"
| "outcome_value REJECTED = ''REJECTED''"
| "outcome_value AUTHORIZED = ''AUTHORIZED''"
| "outcome_value NOT_AUTHORIZED = ''NOT_AUTHORIZED''"

fun validity_value :: "decision_validity \<Rightarrow> string" where
  "validity_value Validity_CURRENT = ''CURRENT''"
| "validity_value Validity_REVIEW_REQUIRED = ''REVIEW_REQUIRED''"
| "validity_value Validity_SUPERSEDED = ''SUPERSEDED''"
| "validity_value INVALIDATED = ''INVALIDATED''"

fun context_status_value :: "context_status \<Rightarrow> string" where
  "context_status_value INCOMPLETE = ''INCOMPLETE''"
| "context_status_value FROZEN = ''FROZEN''"
| "context_status_value STALE = ''STALE''"

fun condition_status_value :: "condition_status \<Rightarrow> string" where
  "condition_status_value NOT_APPLICABLE = ''NOT_APPLICABLE''"
| "condition_status_value Condition_OPEN = ''OPEN''"
| "condition_status_value Condition_SATISFIED = ''SATISFIED''"
| "condition_status_value Condition_FAILED = ''FAILED''"
| "condition_status_value Condition_WAIVED = ''WAIVED''"

lemma lifecycle_values [simp]:
  "lifecycle_value l = ''DRAFT'' \<longleftrightarrow> l = Decision_DRAFT" "lifecycle_value l = ''PENDING_PATRON'' \<longleftrightarrow> l = PENDING_PATRON"
  "lifecycle_value l = ''FINALIZED'' \<longleftrightarrow> l = FINALIZED"
  by (cases l; simp)+

lemma outcome_values [simp]:
  "outcome_value oc = ''UNDECIDED'' \<longleftrightarrow> oc = UNDECIDED" "outcome_value oc = ''CONDITIONAL_GO'' \<longleftrightarrow> oc = CONDITIONAL_GO"
  by (cases oc; simp)+

lemma condition_status_values [simp]:
  "condition_status_value s = ''OPEN'' \<longleftrightarrow> s = Condition_OPEN" "condition_status_value s = ''FAILED'' \<longleftrightarrow> s = Condition_FAILED"
  "condition_status_value s = ''SATISFIED'' \<longleftrightarrow> s = Condition_SATISFIED" "condition_status_value s = ''WAIVED'' \<longleftrightarrow> s = Condition_WAIVED"
  by (cases s; simp)+

section \<open>The image of an aggregate\<close>

definition context_rows :: "decision_row \<Rightarrow> decision_tables \<Rightarrow> context_row list" where
  "context_rows r t = filter (\<lambda>x. lx_tenant_id x = ld_tenant_id r \<and> lx_decision_id x = ld_id r) (dt_contexts t)"

definition condition_rows :: "decision_row \<Rightarrow> decision_tables \<Rightarrow> condition_row list" where
  "condition_rows r t = filter (\<lambda>n. lc_tenant_id n = ld_tenant_id r \<and> lc_decision_id n = ld_id r) (dt_conditions t)"

definition context_image :: "(instant \<Rightarrow> py_datetime) \<Rightarrow> decision_context \<Rightarrow> context_row \<Rightarrow> bool" where
  "context_image clock c x =
     (x_context_id c = lx_id x \<and> x_tenant_id c = lx_tenant_id x \<and> x_fingerprint c = lx_context_fingerprint x
      \<and> x_unknowns c = lx_unknowns x \<and> x_prepared_at c = clock (lx_prepared_at x) \<and> lx_context_state x = ''FROZEN'')"

definition condition_image :: "(instant \<Rightarrow> py_datetime) \<Rightarrow> decision_condition \<Rightarrow> condition_row \<Rightarrow> bool" where
  "condition_image clock n r =
     (n_id n = lc_id r \<and> n_label n = lc_label r \<and> n_owner n = map_option uuid_str (lc_owner_actor_id r)
      \<and> n_due_at n = map_option clock (lc_due_at r) \<and> n_due_date_absence_reason n = lc_due_date_absence_reason r
      \<and> n_failure_consequence n = Some (lc_failure_consequence r) \<and> condition_status_value (n_status n) = lc_status r
      \<and> (case lc_satisfied_evidence_ref r of None \<Rightarrow> n_evidence_reference n = None
         | Some j \<Rightarrow> \<exists>s a. n_evidence_reference n = Some s \<and> n_observed_at n = Some a
             \<and> j = JObj [(''reference'', JStr s), (''recorded_at'', JStr (isoformat a))]))"

definition root_image :: "(instant \<Rightarrow> py_datetime) \<Rightarrow> decision_row \<Rightarrow> decision \<Rightarrow> bool" where
  "root_image clock r d =
     (d_id d = ld_id r \<and> d_tenant_id d = ld_tenant_id r \<and> d_decision_type d = GO_NO_GO \<and> ld_decision_type r = ''GO_NO_GO''
      \<and> d_subject_reference d = uuid_str (ld_subject_id r) \<and> d_scope_fingerprint d = ld_scope_fingerprint r
      \<and> d_created_by d = uuid_str (ld_created_by_actor_id r)
      \<and> lifecycle_value (d_lifecycle d) = ld_lifecycle r \<and> outcome_value (d_outcome d) = ld_outcome r
      \<and> validity_value (d_validity d) = ld_validity r \<and> context_status_value (d_context_status d) = ld_context_status r
      \<and> condition_status_value (d_condition_status d) = ld_condition_status r
      \<and> d_successor_decision_id d = ld_successor_decision_id r \<and> d_aggregate_revision d = ld_aggregate_revision r
      \<and> d_final_justification d = ld_final_justification r
      \<and> d_final_approved_by d = map_option uuid_str (ld_finalized_by_actor_id r)
      \<and> d_final_approved_at d = map_option clock (ld_finalized_at r))"

definition decision_image :: "(instant \<Rightarrow> py_datetime) \<Rightarrow> decision_tables \<Rightarrow> decision_row \<Rightarrow> decision \<Rightarrow> bool" where
  "decision_image clock t r d =
     (root_image clock r d \<and> list_all2 (context_image clock) (d_context_history d) (context_rows r t)
      \<and> list_all2 (condition_image clock) (d_conditions d) (condition_rows r t))"

definition not_failed :: "decision_tables \<Rightarrow> decision_row \<Rightarrow> bool" where
  "not_failed t r = (\<forall>n \<in> set (condition_rows r t). lc_status n \<noteq> ''FAILED'')"

section \<open>The invariant\<close>

text \<open>What the constraints of the tables and the handlers keep between the rows. The verdict of a finalized
  row names its only context.\<close>

definition tables_consistent :: "decision_tables \<Rightarrow> bool" where
  "tables_consistent t =
     (distinct (map ld_id (dt_decisions t)) \<and> distinct (map lc_id (dt_conditions t))
      \<and> (\<forall>k \<in> set (dt_cases t). is_sha256 (ck_scope_fingerprint k))
      \<and> (\<forall>r \<in> set (dt_decisions t). \<forall>r' \<in> set (dt_decisions t). active_row r \<and> active_row r' \<and> ld_id r \<noteq> ld_id r'
           \<longrightarrow> (ld_tenant_id r, ld_decision_key_hash r) \<noteq> (ld_tenant_id r', ld_decision_key_hash r'))
      \<and> (\<forall>x \<in> set (dt_contexts t). \<exists>r \<in> set (dt_decisions t). ld_tenant_id r = lx_tenant_id x \<and> ld_id r = lx_decision_id x)
      \<and> (\<forall>n \<in> set (dt_conditions t). \<exists>r \<in> set (dt_decisions t). ld_tenant_id r = lc_tenant_id n \<and> ld_id r = lc_decision_id n))"

definition row_inv :: "(instant \<Rightarrow> py_datetime) \<Rightarrow> decision_tables \<Rightarrow> decision_row \<Rightarrow> bool" where
  "row_inv clock t r =
     (length (context_rows r t) = (if ld_lifecycle r = ''DRAFT'' then 0 else 1)
      \<and> (ld_lifecycle r = ''FINALIZED'' \<longrightarrow> map (Some \<circ> lx_id) (context_rows r t) = [ld_selected_final_context_id r])
      \<and> (ld_lifecycle r \<noteq> ''FINALIZED'' \<longrightarrow> condition_rows r t = [])
      \<and> (not_failed t r \<longrightarrow> (\<exists>d. decision_reachable d \<and> decision_image clock t r d)))"

definition ledger_inv :: "(instant \<Rightarrow> py_datetime) \<Rightarrow> decision_tables \<Rightarrow> bool" where
  "ledger_inv clock t = (tables_consistent t \<and> (\<forall>r \<in> set (dt_decisions t). row_inv clock t r))"

section \<open>What an accepted command writes\<close>

definition root_key :: "uuid \<Rightarrow> uuid \<Rightarrow> decision_row \<Rightarrow> bool" where
  "root_key tid did r = (ld_tenant_id r = tid \<and> ld_id r = did)"

inductive ledger_effect :: "(instant \<Rightarrow> py_datetime) \<Rightarrow> command_context \<Rightarrow> decision_tables \<Rightarrow> decision_tables \<Rightarrow> bool"
  for clock ctx t where
  created: "k \<in> set (dt_cases t) \<Longrightarrow> scope = lower (ck_scope_fingerprint k) \<Longrightarrow> qc_decision_type f = ''GO_NO_GO'' \<Longrightarrow>
    r = new_decision f ctx scope key cycle \<Longrightarrow> \<forall>x \<in> set (dt_decisions t). \<not> ld_clash r x \<Longrightarrow>
    ledger_effect clock ctx t (t\<lparr> dt_decisions := dt_decisions t @ [r] \<rparr>)"
| frozen: "decision_command_valid (FreezeDecisionContext f) \<Longrightarrow> r \<in> set (dt_decisions t) \<Longrightarrow> root_key (cc_tenant_id ctx) (qz_decision_id f) r \<Longrightarrow>
    ld_lifecycle r = ''DRAFT'' \<Longrightarrow> ld_decision_type r = ''GO_NO_GO'' \<Longrightarrow> context_rows r t = [] \<Longrightarrow>
    list_all (\<lambda>n. context_reference_is_valid (cc_tenant_id ctx) (qz_case_id f) n t) (qz_references f) \<Longrightarrow>
    \<forall>n \<in> set (qz_references f). \<forall>x \<in> set (dt_references t). \<not> lr_clash (new_reference ctx (qz_context_id f) n) x \<Longrightarrow>
    r' = r\<lparr> ld_lifecycle := ''PENDING_PATRON'', ld_context_status := ''FROZEN'', ld_updated_by_actor_id := cc_actor_id ctx,
             ld_aggregate_revision := ld_aggregate_revision r + 1 \<rparr> \<Longrightarrow>
    \<forall>x \<in> set (dt_decisions t). ld_id x \<noteq> ld_id r \<longrightarrow> \<not> ld_clash r' x \<Longrightarrow>
    ledger_effect clock ctx t (t\<lparr> dt_contexts := dt_contexts t @ [new_context clock f ctx],
      dt_references := dt_references t @ map (new_reference ctx (qz_context_id f)) (qz_references f),
      dt_decisions := update_where (root_key (cc_tenant_id ctx) (qz_decision_id f)) (\<lambda>_. r') (dt_decisions t) \<rparr>)"
| finalized: "decision_command_valid (FinalizeGoNoGoDecision f) \<Longrightarrow> r \<in> set (dt_decisions t) \<Longrightarrow> root_key (cc_tenant_id ctx) (qg_decision_id f) r \<Longrightarrow>
    ld_lifecycle r = ''PENDING_PATRON'' \<Longrightarrow> ld_outcome r = ''UNDECIDED'' \<Longrightarrow> ld_validity r = ''CURRENT'' \<Longrightarrow>
    ld_context_status r = ''FROZEN'' \<Longrightarrow> cc_actor_kind ctx \<in> {''PATRON_ADMIN'', ''PATRON_DELEGATE''} \<Longrightarrow>
    contexts_of (cc_tenant_id ctx) (qg_decision_id f) (dt_contexts t) \<noteq> [] \<Longrightarrow>
    x = last (contexts_of (cc_tenant_id ctx) (qg_decision_id f) (dt_contexts t)) \<Longrightarrow>
    lower (lx_context_fingerprint x) = lower (qg_displayed_fingerprint f) \<Longrightarrow>
    (qg_outcome f = ''CONDITIONAL_GO'' \<longleftrightarrow> qg_conditions f \<noteq> []) \<Longrightarrow>
    distinct (map wi_condition_id (qg_conditions f)) \<Longrightarrow>
    \<forall>n \<in> set (qg_conditions f). validate_for_approval (condition_proposed clock n) = None \<Longrightarrow>
    ns = map (new_condition clock (cc_tenant_id ctx) (qg_decision_id f)) (qg_conditions f) \<Longrightarrow>
    \<forall>n \<in> set ns. \<forall>m \<in> set (dt_conditions t). \<not> lc_clash n m \<Longrightarrow>
    has_confirmed_dce_requirements (cc_tenant_id ctx) (lx_id x) (ld_case_id r) t \<Longrightarrow>
    r' = (finalized_root f ctx (lx_id x) r)\<lparr> ld_aggregate_revision := ld_aggregate_revision r + 1 \<rparr> \<Longrightarrow>
    \<forall>y \<in> set (dt_decisions t). ld_id y \<noteq> ld_id r \<longrightarrow> \<not> ld_clash r' y \<Longrightarrow>
    ledger_effect clock ctx t (t\<lparr> dt_decisions := update_where (root_key (cc_tenant_id ctx) (qg_decision_id f)) (\<lambda>_. r') (dt_decisions t),
      dt_conditions := dt_conditions t @ ns \<rparr>)"
| resolved: "decision_command_valid (ResolveDecisionCondition f) \<Longrightarrow> r \<in> set (dt_decisions t) \<Longrightarrow> root_key (cc_tenant_id ctx) (qv_decision_id f) r \<Longrightarrow>
    ld_outcome r = ''CONDITIONAL_GO'' \<Longrightarrow> ld_lifecycle r = ''FINALIZED'' \<Longrightarrow>
    n \<in> set (condition_rows r t) \<Longrightarrow> lc_id n = qv_condition_id f \<Longrightarrow> lc_status n = ''OPEN'' \<Longrightarrow>
    (qv_target_status f = ''SATISFIED'' \<longrightarrow> truthy (qv_evidence_reference f)) \<Longrightarrow>
    tr = new_condition_transition clock f (c :: decision_command app_command) ctx mid \<Longrightarrow>
    status = condition_status_of (resolved_statuses (qv_condition_id f) (qv_target_status f)
      (conditions_of (cc_tenant_id ctx) (qv_decision_id f) (dt_conditions t))) \<Longrightarrow>
    r' = r\<lparr> ld_condition_status := status, ld_updated_by_actor_id := cc_actor_id ctx, ld_aggregate_revision := ld_aggregate_revision r + 1 \<rparr> \<Longrightarrow>
    \<forall>y \<in> set (dt_decisions t). ld_id y \<noteq> ld_id r \<longrightarrow> \<not> ld_clash r' y \<Longrightarrow>
    ledger_effect clock ctx t (t\<lparr> dt_conditions := update_where (\<lambda>m. lc_id m = qv_condition_id f) (resolved_condition tr) (dt_conditions t),
      dt_condition_transitions := dt_condition_transitions t @ [tr],
      dt_decisions := update_where (root_key (cc_tenant_id ctx) (qv_decision_id f)) (\<lambda>_. r') (dt_decisions t) \<rparr>)"

lemma find_decision_Some: "find_decision tid did rows = Some r \<Longrightarrow> r \<in> set rows \<and> root_key tid did r"
  by (auto simp: find_decision_def find_Some_iff root_key_def)

lemma update_root_Inr:
  assumes "update_root tid did expected change rows = Inr (revn, rows')"
  obtains r where "r \<in> set rows" "root_key tid did r" "ld_aggregate_revision r = expected" "revn = expected + 1"
    "ld_check ((change r)\<lparr> ld_aggregate_revision := expected + 1 \<rparr>)"
    "\<forall>x \<in> set rows. ld_id x \<noteq> did \<longrightarrow> \<not> ld_clash ((change r)\<lparr> ld_aggregate_revision := expected + 1 \<rparr>) x"
    "rows' = update_where (root_key tid did) (\<lambda>_. (change r)\<lparr> ld_aggregate_revision := expected + 1 \<rparr>) rows"
proof (cases "List.find (\<lambda>r. ld_tenant_id r = tid \<and> ld_id r = did \<and> ld_aggregate_revision r = expected) rows")
  case None
  then show ?thesis using assms by (simp add: update_root_def split: if_splits)
next
  case (Some r)
  then have r: "r \<in> set rows" "root_key tid did r" "ld_aggregate_revision r = expected" by (auto simp: find_Some_iff root_key_def)
  show ?thesis
    using assms r(3) by (intro that [OF r]) (auto simp: update_root_def Some Let_def list_ex_iff root_key_def [abs_def] split: if_splits)
qed

lemma the_root:
  assumes "distinct (map ld_id rows)" "r \<in> set rows" "r' \<in> set rows" "root_key tid did r" "root_key tid did r'"
  shows "r = r'"
  using assms by (auto simp: root_key_def distinct_map dest: inj_onD)

lemma contexts_of_rows: "root_key tid did r \<Longrightarrow>
    contexts_of tid did (dt_contexts t) = sort_key (\<lambda>x. (lx_sequence_number x, lx_id x)) (context_rows r t)"
  by (simp add: contexts_of_def context_rows_def root_key_def)

lemma conditions_of_rows: "root_key tid did r \<Longrightarrow> conditions_of tid did (dt_conditions t) = sort_key lc_id (condition_rows r t)"
  by (simp add: conditions_of_def condition_rows_def root_key_def)

lemma sort_key_Nil [simp]: "sort_key g xs = [] \<longleftrightarrow> xs = []"
  by (metis length_0_conv length_sort)

lemma create_decision_effect:
  assumes "create_decision f ctx t = Inr (ho, t')" "decision_command_valid (CreateDecision f)"
  shows "ledger_effect clock ctx t t'"
proof -
  let ?find = "active_case (cc_tenant_id ctx) (qc_case_id f) t"
  obtain k where k: "?find = Some k" using assms(1) by (cases ?find) (auto simp: create_decision_def)
  then have kin: "k \<in> set (dt_cases t)" by (auto simp: active_case_def find_Some_iff)
  let ?scope = "lower (ck_scope_fingerprint k)"
  let ?key = "decision_key_hash (qc_case_id f) (qc_decision_type f) ?scope"
  let ?r = "new_decision f ctx ?scope ?key (next_cycle_number (cc_tenant_id ctx) ?key t)"
  obtain rows where r: "insert_row ld_check ld_clash ?r (dt_decisions t) = Inr rows" "t' = t\<lparr> dt_decisions := rows \<rparr>"
    using assms(1) unfolding create_decision_def k option.case Let_def by (auto split: if_splits sum.splits)
  then have "rows = dt_decisions t @ [?r]" "\<forall>x \<in> set (dt_decisions t). \<not> ld_clash ?r x" by (simp_all add: insert_row_Inr)
  then show ?thesis unfolding r(2) using assms(2)
    by (auto intro!: ledger_effect.created [OF kin refl _ refl])
qed

lemma freeze_context_effect:
  assumes "freeze_context clock f ctx t = Inr (ho, t')" "decision_command_valid (FreezeDecisionContext f)" "tables_consistent t"
  shows "ledger_effect clock ctx t t'"
proof -
  let ?tid = "cc_tenant_id ctx" and ?did = "qz_decision_id f"
  let ?change = "\<lambda>r. r\<lparr> ld_lifecycle := ''PENDING_PATRON'', ld_context_status := ''FROZEN'', ld_updated_by_actor_id := cc_actor_id ctx \<rparr>"
  let ?refs = "map (new_reference ctx (qz_context_id f)) (qz_references f)"
  obtain r where find: "find_decision ?tid ?did (dt_decisions t) = Some r"
    using assms(1) by (cases "find_decision ?tid ?did (dt_decisions t)") (auto simp: freeze_context_def Let_def)
  then have rin: "r \<in> set (dt_decisions t)" "root_key ?tid ?did r" by (auto dest: find_decision_Some)
  note run = assms(1) [unfolded freeze_context_def Let_def find option.case]
  obtain contexts references revn rows where
    st: "ld_decision_type r = ''GO_NO_GO''" "ld_lifecycle r = ''DRAFT''" "contexts_of ?tid ?did (dt_contexts t) = []"
    and refs: "list_all (\<lambda>n. context_reference_is_valid ?tid (qz_case_id f) n t) (qz_references f)"
    and cx: "insert_row lx_check lx_clash (new_context clock f ctx) (dt_contexts t) = Inr contexts"
    and rf: "insert_rows lr_check lr_clash ?refs (dt_references t) = Inr references"
    and up: "update_root ?tid ?did (qz_expected_revision f) ?change (dt_decisions t) = Inr (revn, rows)"
    and t': "t' = t\<lparr> dt_contexts := contexts, dt_references := references, dt_decisions := rows \<rparr>"
    using run by (auto split: if_splits sum.splits)
  obtain r1 where r1: "r1 \<in> set (dt_decisions t)" "root_key ?tid ?did r1" "ld_aggregate_revision r1 = qz_expected_revision f"
    "\<forall>x \<in> set (dt_decisions t). ld_id x \<noteq> ?did \<longrightarrow> \<not> ld_clash ((?change r1)\<lparr> ld_aggregate_revision := qz_expected_revision f + 1 \<rparr>) x"
    "rows = update_where (root_key ?tid ?did) (\<lambda>_. (?change r1)\<lparr> ld_aggregate_revision := qz_expected_revision f + 1 \<rparr>) (dt_decisions t)"
    using up by (rule update_root_Inr)
  have "r1 = r" using assms(3) r1(1,2) rin by (intro the_root) (auto simp: tables_consistent_def)
  have ids: "ld_id r = ?did" using rin(2) by (simp add: root_key_def)
  have ctx0: "context_rows r t = []" using st(3) by (simp add: contexts_of_rows [OF rin(2)])
  have ins: "contexts = dt_contexts t @ [new_context clock f ctx]" using cx by (simp add: insert_row_Inr)
  have inr: "references = dt_references t @ ?refs" "\<forall>n \<in> set (qz_references f). \<forall>x \<in> set (dt_references t). \<not> lr_clash (new_reference ctx (qz_context_id f) n) x"
    using insert_rows_Inr [OF rf] by auto
  show ?thesis unfolding t' ins inr(1) r1(5)
    by (rule ledger_effect.frozen [OF assms(2) rin st(2,1) ctx0 refs inr(2)])
      (use r1(3,4) \<open>r1 = r\<close> ids in simp_all)
qed

lemma condition_drafts_Inr:
  assumes "condition_drafts clock tid did ns = Inr drafts"
  shows "distinct (map wi_condition_id ns)" "\<forall>n \<in> set ns. validate_for_approval (condition_proposed clock n) = None"
    "drafts = map (new_condition clock tid did) ns"
  using assms by (auto simp: condition_drafts_def first_invalid_None split: if_splits)

lemma finalize_accepted:
  assumes "finalize_go_no_go clock f ctx t = Inr (ho, t')" "tables_consistent t"
  obtains r x ns r' where "r \<in> set (dt_decisions t)" "root_key (cc_tenant_id ctx) (qg_decision_id f) r"
    "ld_lifecycle r = ''PENDING_PATRON''" "ld_outcome r = ''UNDECIDED''" "ld_validity r = ''CURRENT''"
    "ld_context_status r = ''FROZEN''" "cc_actor_kind ctx \<in> {''PATRON_ADMIN'', ''PATRON_DELEGATE''}"
    "contexts_of (cc_tenant_id ctx) (qg_decision_id f) (dt_contexts t) \<noteq> []"
    "x = last (contexts_of (cc_tenant_id ctx) (qg_decision_id f) (dt_contexts t))"
    "lower (lx_context_fingerprint x) = lower (qg_displayed_fingerprint f)"
    "qg_outcome f = ''CONDITIONAL_GO'' \<longleftrightarrow> qg_conditions f \<noteq> []"
    "distinct (map wi_condition_id (qg_conditions f))"
    "\<forall>n \<in> set (qg_conditions f). validate_for_approval (condition_proposed clock n) = None"
    "ns = map (new_condition clock (cc_tenant_id ctx) (qg_decision_id f)) (qg_conditions f)"
    "\<forall>n \<in> set ns. \<forall>m \<in> set (dt_conditions t). \<not> lc_clash n m"
    "has_confirmed_dce_requirements (cc_tenant_id ctx) (lx_id x) (ld_case_id r) t"
    "r' = (finalized_root f ctx (lx_id x) r)\<lparr> ld_aggregate_revision := ld_aggregate_revision r + 1 \<rparr>"
    "\<forall>y \<in> set (dt_decisions t). ld_id y \<noteq> ld_id r \<longrightarrow> \<not> ld_clash r' y"
    "t' = t\<lparr> dt_decisions := update_where (root_key (cc_tenant_id ctx) (qg_decision_id f)) (\<lambda>_. r') (dt_decisions t),
      dt_conditions := dt_conditions t @ ns \<rparr>"
proof -
  let ?tid = "cc_tenant_id ctx" and ?did = "qg_decision_id f"
  obtain r where find: "find_decision ?tid ?did (dt_decisions t) = Some r"
    using assms(1) by (cases "find_decision ?tid ?did (dt_decisions t)") (auto simp: finalize_go_no_go_def Let_def split: if_splits)
  then have rin: "r \<in> set (dt_decisions t)" "root_key ?tid ?did r" by (auto dest: find_decision_Some)
  define x where "x = last (contexts_of ?tid ?did (dt_contexts t))"
  let ?change = "finalized_root f ctx (lx_id x)"
  note run = assms(1) [unfolded finalize_go_no_go_def Let_def find option.case, folded x_def]
  obtain drafts where drafts: "condition_drafts clock ?tid ?did (qg_conditions f) = Inr drafts"
    using run by (cases "condition_drafts clock ?tid ?did (qg_conditions f)") (auto split: if_splits)
  note run = run [unfolded drafts sum.case]
  obtain revn rows conditions where
    st: "ld_lifecycle r = ''PENDING_PATRON''" "ld_outcome r = ''UNDECIDED''" "ld_validity r = ''CURRENT''" "ld_context_status r = ''FROZEN''"
      "cc_actor_kind ctx \<in> {''PATRON_ADMIN'', ''PATRON_DELEGATE''}" "contexts_of ?tid ?did (dt_contexts t) \<noteq> []"
      "lower (lx_context_fingerprint x) = lower (qg_displayed_fingerprint f)" "qg_outcome f = ''CONDITIONAL_GO'' \<longleftrightarrow> qg_conditions f \<noteq> []"
      "has_confirmed_dce_requirements ?tid (lx_id x) (ld_case_id r) t"
    and up: "update_root ?tid ?did (qg_expected_revision f) ?change (dt_decisions t) = Inr (revn, rows)"
    and cd: "insert_rows lc_check lc_clash drafts (dt_conditions t) = Inr conditions"
    and t': "t' = t\<lparr> dt_decisions := rows, dt_conditions := conditions \<rparr>"
    using run by (auto split: if_splits sum.splits)
  obtain r1 where r1: "r1 \<in> set (dt_decisions t)" "root_key ?tid ?did r1" "ld_aggregate_revision r1 = qg_expected_revision f"
    "\<forall>x \<in> set (dt_decisions t). ld_id x \<noteq> ?did \<longrightarrow> \<not> ld_clash ((?change r1)\<lparr> ld_aggregate_revision := qg_expected_revision f + 1 \<rparr>) x"
    "rows = update_where (root_key ?tid ?did) (\<lambda>_. (?change r1)\<lparr> ld_aggregate_revision := qg_expected_revision f + 1 \<rparr>) (dt_decisions t)"
    using up by (rule update_root_Inr)
  have same: "r1 = r" using assms(2) r1(1,2) rin by (intro the_root) (auto simp: tables_consistent_def)
  note d = condition_drafts_Inr [OF drafts]
  have ins: "conditions = dt_conditions t @ drafts" "\<forall>n \<in> set drafts. \<forall>m \<in> set (dt_conditions t). \<not> lc_clash n m"
    using insert_rows_Inr [OF cd] by auto
  have t'': "t' = t\<lparr> dt_decisions := update_where (root_key ?tid ?did) (\<lambda>_. (?change r)\<lparr> ld_aggregate_revision := ld_aggregate_revision r + 1 \<rparr>)
      (dt_decisions t), dt_conditions := dt_conditions t @ drafts \<rparr>" using r1(3,5) same by (simp add: t' ins(1))
  show thesis
    by (rule that [OF rin st(1-6) x_def st(7,8) d(1,2) d(3) ins(2) st(9) refl _ t''])
      (use r1(3,4) same rin(2) in \<open>simp_all add: root_key_def\<close>)
qed

lemma finalize_effect:
  assumes "finalize_go_no_go clock f ctx t = Inr (ho, t')" "decision_command_valid (FinalizeGoNoGoDecision f)" "tables_consistent t"
  shows "ledger_effect clock ctx t t'"
proof (rule finalize_accepted [OF assms(1,3)], goal_cases)
  case prems: (1 r x ns r')
  show ?case unfolding prems(19) by (rule ledger_effect.finalized [OF assms(2) prems(1-18)])
qed

lemma resolve_condition_effect:
  assumes "resolve_condition clock f (c :: decision_command app_command) ctx t = Inr (ho, t')" "decision_command_valid (ResolveDecisionCondition f)" "tables_consistent t"
  shows "ledger_effect clock ctx t t'"
proof -
  let ?tid = "cc_tenant_id ctx" and ?did = "qv_decision_id f"
  obtain r where find: "find_decision ?tid ?did (dt_decisions t) = Some r"
    using assms(1) by (cases "find_decision ?tid ?did (dt_decisions t)") (auto simp: resolve_condition_def Let_def)
  then have rin: "r \<in> set (dt_decisions t)" "root_key ?tid ?did r" by (auto dest: find_decision_Some)
  define ns where "ns = conditions_of ?tid ?did (dt_conditions t)"
  note run = assms(1) [unfolded resolve_condition_def Let_def find option.case, folded ns_def]
  obtain n where n: "List.find (\<lambda>n. lc_id n = qv_condition_id f) ns = Some n"
    using run by (cases "List.find (\<lambda>n. lc_id n = qv_condition_id f) ns") (auto split: if_splits)
  note run = run [unfolded n option.case]
  obtain mid where mid: "cc_membership_id ctx = Some mid" using run by (cases "cc_membership_id ctx") (auto split: if_splits)
  note run = run [unfolded mid option.case]
  define tr where "tr = new_condition_transition clock f c ctx mid"
  note run = run [folded tr_def]
  define status where "status = condition_status_of (resolved_statuses (qv_condition_id f) (qv_target_status f) ns)"
  note run = run [folded status_def]
  let ?change = "\<lambda>r. r\<lparr> ld_condition_status := status, ld_updated_by_actor_id := cc_actor_id ctx \<rparr>"
  have nin: "n \<in> set (condition_rows r t)" "lc_id n = qv_condition_id f"
    using find_Some_in [OF n] by (simp_all add: ns_def conditions_of_rows [OF rin(2)])
  obtain t1 revn rows where st: "ld_outcome r = ''CONDITIONAL_GO''" "ld_lifecycle r = ''FINALIZED''" "lc_status n = ''OPEN''"
      "qv_target_status f = ''SATISFIED'' \<longrightarrow> truthy (qv_evidence_reference f)"
    and ct: "condition_transition tr t = Inr t1"
    and up: "update_root ?tid ?did (qv_expected_revision f) ?change (dt_decisions t1) = Inr (revn, rows)"
    and t': "t' = t1\<lparr> dt_decisions := rows \<rparr>"
    using run by (auto split: if_splits sum.splits)
  have trf: "lt_tenant_id tr = ?tid" "lt_decision_id tr = ?did" "lt_condition_id tr = qv_condition_id f" "lt_from_status tr = ''OPEN''"
    by (simp_all add: tr_def new_condition_transition_def)
  have t1: "t1 = t\<lparr> dt_conditions := update_where (\<lambda>m. lc_id m = qv_condition_id f) (resolved_condition tr) (dt_conditions t),
                 dt_condition_transitions := dt_condition_transitions t @ [tr] \<rparr>"
    using ct by (auto simp: condition_transition_def trf insert_row_Inr find_Some_iff split: option.splits if_splits sum.splits)
  have same: "dt_decisions t1 = dt_decisions t" by (simp add: t1)
  obtain r1 where r1: "r1 \<in> set (dt_decisions t)" "root_key ?tid ?did r1" "ld_aggregate_revision r1 = qv_expected_revision f"
    "\<forall>x \<in> set (dt_decisions t). ld_id x \<noteq> ?did \<longrightarrow> \<not> ld_clash ((?change r1)\<lparr> ld_aggregate_revision := qv_expected_revision f + 1 \<rparr>) x"
    "rows = update_where (root_key ?tid ?did) (\<lambda>_. (?change r1)\<lparr> ld_aggregate_revision := qv_expected_revision f + 1 \<rparr>) (dt_decisions t)"
    using up unfolding same by (rule update_root_Inr)
  have "r1 = r" using assms(3) r1(1,2) rin by (intro the_root) (auto simp: tables_consistent_def)
  have "t' = t\<lparr> dt_conditions := update_where (\<lambda>m. lc_id m = qv_condition_id f) (resolved_condition tr) (dt_conditions t),
      dt_condition_transitions := dt_condition_transitions t @ [tr],
      dt_decisions := update_where (root_key ?tid ?did) (\<lambda>_. (?change r1)\<lparr> ld_aggregate_revision := qv_expected_revision f + 1 \<rparr>) (dt_decisions t) \<rparr>"
    by (simp add: t' t1 r1(5))
  then show ?thesis
    by (simp only:) (rule ledger_effect.resolved [OF assms(2) rin st(1,2) nin st(3,4) tr_def status_def [unfolded ns_def]],
      use r1(3,4) \<open>r1 = r\<close> rin(2) in \<open>simp_all add: root_key_def\<close>)
qed

section \<open>Facts on texts and lists\<close>

lemma strip_unspaced: "\<forall>c \<in> set s. \<not> py_space c \<Longrightarrow> strip s = s"
proof -
  have id: "dropWhile py_space xs = xs" if "\<forall>c \<in> set xs. \<not> py_space c" for xs using that by (cases xs) auto
  show "\<forall>c \<in> set s. \<not> py_space c \<Longrightarrow> strip s = s" by (simp add: strip_def lstrip_def id)
qed

lemma hex_unspaced: "c \<in> set hex_chars \<or> c = CHR ''-'' \<Longrightarrow> \<not> py_space c"
proof -
  have "list_all (\<lambda>c. \<not> py_space c) (CHR ''-'' # hex_chars)" by code_simp
  then show "c \<in> set hex_chars \<or> c = CHR ''-'' \<Longrightarrow> \<not> py_space c" by (auto simp: list_all_iff)
qed

lemma strip_uuid_str [simp]: "strip (uuid_str u) = uuid_str u"
proof (rule strip_unspaced)
  have "c \<in> set hex_chars \<or> c = CHR ''-''" if "c \<in> set (uuid_str u)" for c
    using that set_hex_fixed [of 32 "unat u"] by (auto simp: uuid_str_def Let_def dest!: in_set_takeD in_set_dropD)
  then show "\<forall>c \<in> set (uuid_str u). \<not> py_space c" using hex_unspaced by blast
qed

lemma uuid_str_not_Nil [simp]: "uuid_str u \<noteq> []"
  by (simp add: uuid_str_def Let_def)

lemma strip_fingerprint: "is_sha256 s \<Longrightarrow> strip (lower s) = lower s \<and> lower s \<noteq> []"
proof -
  assume s: "is_sha256 s"
  then have "\<forall>c \<in> set (lower s). \<not> py_space c" using hex_unspaced by (auto simp: is_sha256_def list_all_iff hex_chars_def)
  then have "strip (lower s) = lower s" by (rule strip_unspaced)
  moreover have "lower_char c \<noteq> []" for c by (simp add: lower_char_def Let_def)
  then have "lower s \<noteq> []" using s by (cases s) (auto simp: is_sha256_def lower_def)
  ultimately show ?thesis by simp
qed

lemma condition_status_of_set: "set ss = set ss' \<Longrightarrow> condition_status_of ss = condition_status_of ss'"
  by (simp add: condition_status_of_def list_all_iff)

lemma set_resolved_statuses:
  "distinct (map lc_id ns) \<Longrightarrow>
     set (resolved_statuses cid target ns) = (\<lambda>n. if lc_id n = cid then target else lc_status n) ` set ns"
proof (induction ns)
  case (Cons n ns)
  have "(\<lambda>m. if lc_id m = cid then target else lc_status m) ` set ns = lc_status ` set ns" if "lc_id n = cid"
    using Cons.prems that by (intro image_cong) (auto, metis image_eqI)
  then show ?case using Cons by auto
qed simp

lemma image_update_first:
  assumes "list_all2 (condition_image clock) ds rs" "distinct (map lc_id rs)"
    "\<And>r. r \<in> set rs \<Longrightarrow> lc_id r = cid \<Longrightarrow> condition_image clock m (g r)"
  shows "list_all2 (condition_image clock) (update_first (\<lambda>x. n_id x = cid) m ds) (map (\<lambda>r. if lc_id r = cid then g r else r) rs)"
  using assms
proof (induction rule: list_all2_induct)
  case (Cons d ds r rs)
  have id: "n_id d = lc_id r" using Cons.hyps(1) by (simp add: condition_image_def)
  show ?case
  proof (cases "lc_id r = cid")
    case True
    then have "map (\<lambda>r. if lc_id r = cid then g r else r) rs = rs" using Cons.prems(1) by (intro map_idI) (auto, metis image_eqI)
    then show ?thesis using True id Cons.prems(2) Cons.hyps(2) by simp
  next
    case False
    then show ?thesis using id Cons by simp
  qed
qed simp

lemma image_find:
  assumes "list_all2 (condition_image clock) ds rs" "r \<in> set rs" "lc_id r = cid" "distinct (map lc_id rs)"
  shows "\<exists>d. List.find (\<lambda>x. n_id x = cid) ds = Some d \<and> condition_image clock d r"
  using assms
proof (induction rule: list_all2_induct)
  case (Cons d ds r' rs)
  have id: "n_id d = lc_id r'" using Cons.hyps(1) by (simp add: condition_image_def)
  show ?case
  proof (cases "r = r'")
    case True
    then show ?thesis using id Cons by simp
  next
    case False
    then have "r \<in> set rs" "lc_id r' \<noteq> cid" using Cons.prems by auto
    then show ?thesis using Cons.IH Cons.prems id by simp
  qed
qed simp

lemma image_statuses:
  "list_all2 (condition_image clock) ds rs \<Longrightarrow> map (condition_status_value \<circ> n_status) ds = map lc_status rs"
  by (induction rule: list_all2_induct) (auto simp: condition_image_def)

lemma derive_condition_status_value:
  "condition_status_value (derive_condition_status ds) = condition_status_of (map (condition_status_value \<circ> n_status) ds)"
  by (auto simp: derive_condition_status_def condition_status_of_def list_ex_iff list_all_iff image_iff
      eq_commute [of "''FAILED''"])

lemma approve_conditional_go_accepts:
  assumes "may_approve displayed just by_whom d" "ns \<noteq> []" "distinct (map n_id ns)" "\<forall>n \<in> set ns. validate_for_approval n = None"
  shows "Decision_approve_conditional_go displayed just ns by_whom at_time d =
     (None, approved CONDITIONAL_GO Condition_OPEN (ConditionalGoDecisionApproved (d_id d)) just by_whom at_time (d\<lparr> d_conditions := ns \<rparr>))"
proof -
  have "Decision_ensure_pending_current_context displayed d = None" "first_invalid ns = None" "strip just \<noteq> []" "strip by_whom \<noteq> []"
    using assms by (simp_all add: may_approve_def ensure_pending_None first_invalid_None)
  then show ?thesis using assms(2,3)
    by (simp add: Decision_approve_conditional_go_def Decision_finalize_def approved_def Decision_record_def
        Decision_increment_revision_def Let_def)
qed

section \<open>Every accepted command keeps the invariant\<close>

lemma row_inv_cong:
  "context_rows r t' = context_rows r t \<Longrightarrow> condition_rows r t' = condition_rows r t \<Longrightarrow> row_inv clock t' r = row_inv clock t r"
  by (simp add: row_inv_def not_failed_def decision_image_def)

lemma no_children:
  assumes "tables_consistent t" "\<forall>x \<in> set (dt_decisions t). ld_id r \<noteq> ld_id x"
  shows "context_rows r t = []" "condition_rows r t = []"
  using assms unfolding tables_consistent_def context_rows_def condition_rows_def filter_empty_conv by metis+

lemma created_inv:
  assumes inv: "ledger_inv clock t" and k: "k \<in> set (dt_cases t)" "scope = lower (ck_scope_fingerprint k)"
    and r: "r = new_decision f ctx scope key cycle" "qc_decision_type f = ''GO_NO_GO''" "\<forall>x \<in> set (dt_decisions t). \<not> ld_clash r x"
  shows "ledger_inv clock (t\<lparr> dt_decisions := dt_decisions t @ [r] \<rparr>)" (is "ledger_inv clock ?t")
proof -
  have con: "tables_consistent t" using inv by (simp add: ledger_inv_def)
  have fresh: "\<forall>x \<in> set (dt_decisions t). ld_id r \<noteq> ld_id x" using r(3) by (auto simp: ld_clash_def)
  have "is_sha256 (ck_scope_fingerprint k)" using con k(1) by (simp add: tables_consistent_def)
  then have scope: "strip scope = scope" "scope \<noteq> []" using strip_fingerprint k(2) by auto
  have "tables_consistent ?t" unfolding tables_consistent_def
  proof (intro conjI)
    show "distinct (map ld_id (dt_decisions ?t))" using con fresh by (auto simp: tables_consistent_def)
    show "\<forall>q \<in> set (dt_decisions ?t). \<forall>q' \<in> set (dt_decisions ?t). active_row q \<and> active_row q' \<and> ld_id q \<noteq> ld_id q'
        \<longrightarrow> (ld_tenant_id q, ld_decision_key_hash q) \<noteq> (ld_tenant_id q', ld_decision_key_hash q')"
      using con r(3) by (auto simp: tables_consistent_def ld_clash_def)
  qed (use con in \<open>auto simp: tables_consistent_def\<close>)
  moreover have "row_inv clock ?t q" if "q \<in> set (dt_decisions t)" for q
    using inv that row_inv_cong [of q ?t t] by (simp add: ledger_inv_def context_rows_def condition_rows_def)
  moreover have "row_inv clock ?t r"
  proof -
    have rows: "context_rows r ?t = []" "condition_rows r ?t = []"
      using no_children [OF con fresh] by (simp_all add: context_rows_def condition_rows_def)
    obtain d where d: "Decision_create_draft (ld_id r) (ld_tenant_id r) GO_NO_GO (uuid_str (ld_subject_id r)) scope
        (uuid_str (ld_created_by_actor_id r)) = Inr d" using scope by (simp add: Decision_create_draft_def)
    then have ch: "d_context_history d = []" "d_conditions d = []" using scope
      by (auto simp: Decision_create_draft_def Decision_record_def)
    have "root_image clock r d" using d r(1,2) scope
      by (auto simp: Decision_create_draft_def root_image_def new_decision_def Decision_record_def)
    then have "decision_image clock ?t r d" by (simp add: decision_image_def rows ch)
    moreover have "decision_reachable d" using d by (rule decision_reachable.drafted)
    ultimately have ex: "\<exists>d. decision_reachable d \<and> decision_image clock ?t r d" by blast
    have "ld_lifecycle r = ''DRAFT''" by (simp add: r(1) new_decision_def)
    then show ?thesis using ex rows by (simp add: row_inv_def)
  qed
  ultimately show ?thesis by (simp add: ledger_inv_def)
qed

text \<open>A root is replaced by one with the same identity.\<close>

lemma replaced_rows:
  assumes "distinct (map ld_id rows)" "r \<in> set rows" "root_key tid did r"
  shows "set (update_where (root_key tid did) (\<lambda>_. r') rows) = insert r' {x \<in> set rows. ld_id x \<noteq> ld_id r}"
proof -
  have "root_key tid did x \<longleftrightarrow> ld_id x = ld_id r" if "x \<in> set rows" for x
    using assms that by (metis (full_types) distinct_map inj_onD root_key_def)
  then show ?thesis using assms(2) by (auto simp: update_where_def image_iff)
qed

lemma replaced_ids:
  assumes "root_key tid did r'"
  shows "map ld_id (update_where (root_key tid did) (\<lambda>_. r') rows) = map ld_id rows"
  using assms by (auto simp: update_where_def root_key_def)

lemma replaced_consistent:
  assumes "tables_consistent t" "r \<in> set (dt_decisions t)" "root_key tid did r" "root_key tid did r'"
    "\<forall>x \<in> set (dt_decisions t). ld_id x \<noteq> ld_id r \<longrightarrow> \<not> ld_clash r' x"
    "dt_decisions t' = update_where (root_key tid did) (\<lambda>_. r') (dt_decisions t)" "dt_cases t' = dt_cases t"
    "set (map (\<lambda>x. (lx_tenant_id x, lx_decision_id x)) (dt_contexts t')) \<subseteq> insert (tid, did) (set (map (\<lambda>x. (lx_tenant_id x, lx_decision_id x)) (dt_contexts t)))"
    "set (map (\<lambda>x. (lc_tenant_id x, lc_decision_id x)) (dt_conditions t')) \<subseteq> insert (tid, did) (set (map (\<lambda>x. (lc_tenant_id x, lc_decision_id x)) (dt_conditions t)))"
    "distinct (map lc_id (dt_conditions t'))"
  shows "tables_consistent t'"
proof -
  have dist: "distinct (map ld_id (dt_decisions t))" using assms(1) by (simp add: tables_consistent_def)
  note rows = replaced_rows [OF dist assms(2,3), of r', folded assms(6)]
  have key: "ld_id r' = ld_id r" "ld_tenant_id r' = tid" "ld_id r = did" using assms(3,4) by (simp_all add: root_key_def)
  have parents: "(\<exists>q \<in> set (dt_decisions t'). ld_tenant_id q = a \<and> ld_id q = b) \<longleftrightarrow>
      (\<exists>q \<in> set (dt_decisions t). ld_tenant_id q = a \<and> ld_id q = b)" for a b
    using rows key assms(2,3) dist by (auto simp: root_key_def) (metis distinct_map inj_onD)+
  have root: "\<exists>q \<in> set (dt_decisions t). ld_tenant_id q = tid \<and> ld_id q = did" using assms(2,3) by (auto simp: root_key_def)
  show ?thesis unfolding tables_consistent_def
  proof (intro conjI)
    show "distinct (map ld_id (dt_decisions t'))" using dist by (simp add: assms(6) replaced_ids [OF assms(4)])
    show "\<forall>q \<in> set (dt_decisions t'). \<forall>q' \<in> set (dt_decisions t'). active_row q \<and> active_row q' \<and> ld_id q \<noteq> ld_id q'
        \<longrightarrow> (ld_tenant_id q, ld_decision_key_hash q) \<noteq> (ld_tenant_id q', ld_decision_key_hash q')"
      using assms(1,5) key(1) unfolding rows tables_consistent_def ld_clash_def by auto
    show "\<forall>x \<in> set (dt_contexts t'). \<exists>q \<in> set (dt_decisions t'). ld_tenant_id q = lx_tenant_id x \<and> ld_id q = lx_decision_id x"
    proof
      fix x assume "x \<in> set (dt_contexts t')"
      then have "(lx_tenant_id x, lx_decision_id x) \<in> insert (tid, did) (set (map (\<lambda>x. (lx_tenant_id x, lx_decision_id x)) (dt_contexts t)))"
        using assms(8) by auto
      then show "\<exists>q \<in> set (dt_decisions t'). ld_tenant_id q = lx_tenant_id x \<and> ld_id q = lx_decision_id x"
        using root assms(1) unfolding parents tables_consistent_def by auto
    qed
    show "\<forall>x \<in> set (dt_conditions t'). \<exists>q \<in> set (dt_decisions t'). ld_tenant_id q = lc_tenant_id x \<and> ld_id q = lc_decision_id x"
    proof
      fix x assume "x \<in> set (dt_conditions t')"
      then have "(lc_tenant_id x, lc_decision_id x) \<in> insert (tid, did) (set (map (\<lambda>x. (lc_tenant_id x, lc_decision_id x)) (dt_conditions t)))"
        using assms(9) by auto
      then show "\<exists>q \<in> set (dt_decisions t'). ld_tenant_id q = lc_tenant_id x \<and> ld_id q = lc_decision_id x"
        using root assms(1) unfolding parents tables_consistent_def by auto
    qed
  qed (use assms(1,7,10) in \<open>auto simp: tables_consistent_def\<close>)
qed

text \<open>The other rows keep their children, so that only the replaced row is left to show.\<close>

lemma replaced_inv:
  assumes inv: "ledger_inv clock t" and r: "r \<in> set (dt_decisions t)" "root_key tid did r"
    and con: "tables_consistent t'" and dec: "dt_decisions t' = update_where (root_key tid did) (\<lambda>_. r') (dt_decisions t)"
    and other: "\<And>q. q \<in> set (dt_decisions t) \<Longrightarrow> ld_id q \<noteq> did \<Longrightarrow> context_rows q t' = context_rows q t \<and> condition_rows q t' = condition_rows q t"
    and mine: "row_inv clock t' r'"
  shows "ledger_inv clock t'"
proof -
  have "distinct (map ld_id (dt_decisions t))" using inv by (simp add: ledger_inv_def tables_consistent_def)
  note rows = replaced_rows [OF this r, of r', folded dec]
  have "row_inv clock t' q" if "q \<in> set (dt_decisions t)" "ld_id q \<noteq> ld_id r" for q
    using inv that other r(2) row_inv_cong [of q t' t] by (auto simp: ledger_inv_def root_key_def)
  then show ?thesis using con mine by (auto simp: ledger_inv_def rows)
qed


lemma the_row_inv: "ledger_inv clock t \<Longrightarrow> r \<in> set (dt_decisions t) \<Longrightarrow> row_inv clock t r"
  by (simp add: ledger_inv_def)

lemma reachable_exec: "decision_reachable d \<Longrightarrow> decision_exec x d = (None, d') \<Longrightarrow> decision_reachable d'"
  by (rule decision_reachable.stepped)

text \<open>Freezing is \<open>prepare_context\<close> of the context that is built.\<close>

lemma reference_token_not_blank: "strip (reference_token n) \<noteq> []"
proof -
  have "CHR '':'' \<in> set (reference_token n)" by (simp add: reference_token_def)
  moreover have "\<not> py_space (CHR '':'')" by code_simp
  ultimately show ?thesis unfolding strip_eq_Nil by blast
qed

lemma frozen_image:
  assumes "decision_reachable d" "root_image clock r d" "ld_lifecycle r = ''DRAFT''" "ld_tenant_id r = cc_tenant_id ctx"
    "d_context_history d = []" "qz_references f \<noteq> []"
    "r' = r\<lparr> ld_lifecycle := ''PENDING_PATRON'', ld_context_status := ''FROZEN'', ld_updated_by_actor_id := cc_actor_id ctx,
             ld_aggregate_revision := ld_aggregate_revision r + 1 \<rparr>"
  obtains d' where "decision_reachable d'" "root_image clock r' d'" "d_conditions d' = d_conditions d"
    "d_context_history d' = [context_built clock f ctx]"
proof -
  let ?x = "context_built clock f ctx"
  have life: "d_lifecycle d = Decision_DRAFT" using assms(2,3) unfolding root_image_def by (metis lifecycle_values(1))
  have x: "x_tenant_id ?x = d_tenant_id d" "x_references ?x \<noteq> []" using assms(2,4,6)
    by (auto simp: context_built_def DecisionContext_build_def Let_def root_image_def stripped_non_blank_def filter_empty_conv
        reference_token_not_blank ex_in_conv)
  define d' where "d' = d\<lparr> d_context_history := [?x], d_lifecycle := PENDING_PATRON, d_context_status := FROZEN,
      d_aggregate_revision := d_aggregate_revision d + 1,
      d_pending_events := d_pending_events d @ [DecisionContextPrepared (d_id d) (x_context_id ?x) (x_fingerprint ?x)] \<rparr>"
  have "Decision_prepare_context ?x d = Inr d'" using x life assms(5)
    by (simp add: Decision_prepare_context_def decision_helper_defs d'_def)
  then have "decision_exec (PrepareContext ?x) d = (None, d')" by (simp add: or_unchanged_def)
  then have "decision_reachable d'" using assms(1) by (rule reachable_exec [rotated])
  moreover have "root_image clock r' d'" using assms(2) by (simp add: root_image_def d'_def assms(7))
  ultimately show ?thesis by (rule that) (simp_all add: d'_def)
qed

lemma frozen_inv:
  assumes inv: "ledger_inv clock t" and r: "r \<in> set (dt_decisions t)" "root_key (cc_tenant_id ctx) (qz_decision_id f) r"
    "ld_lifecycle r = ''DRAFT''" "context_rows r t = []" and refs: "qz_references f \<noteq> []"
    and r': "r' = r\<lparr> ld_lifecycle := ''PENDING_PATRON'', ld_context_status := ''FROZEN'', ld_updated_by_actor_id := cc_actor_id ctx,
             ld_aggregate_revision := ld_aggregate_revision r + 1 \<rparr>"
    and clash: "\<forall>x \<in> set (dt_decisions t). ld_id x \<noteq> ld_id r \<longrightarrow> \<not> ld_clash r' x"
    and t': "t' = t\<lparr> dt_contexts := dt_contexts t @ [new_context clock f ctx], dt_references := references,
      dt_decisions := update_where (root_key (cc_tenant_id ctx) (qz_decision_id f)) (\<lambda>_. r') (dt_decisions t) \<rparr>"
  shows "ledger_inv clock t'"
proof (rule replaced_inv [OF inv r(1,2), where r' = r'])
  let ?x = "new_context clock f ctx"
  have con: "tables_consistent t" using inv by (simp add: ledger_inv_def)
  have key: "root_key (cc_tenant_id ctx) (qz_decision_id f) r'" using r(2) by (simp add: r' root_key_def)
  show "tables_consistent t'"
    by (rule replaced_consistent [OF con r(1,2) key clash]) (use con in \<open>auto simp: t' new_context_def tables_consistent_def\<close>)
  show "dt_decisions t' = update_where (root_key (cc_tenant_id ctx) (qz_decision_id f)) (\<lambda>_. r') (dt_decisions t)" by (simp add: t')
  show "context_rows q t' = context_rows q t \<and> condition_rows q t' = condition_rows q t" if "ld_id q \<noteq> qz_decision_id f" for q
    using that by (simp add: t' context_rows_def condition_rows_def new_context_def)
  have "row_inv clock t r" using inv r(1) by (rule the_row_inv)
  then have cond: "condition_rows r t = []" and "\<exists>d. decision_reachable d \<and> decision_image clock t r d"
    using r(3) by (auto simp: row_inv_def not_failed_def)
  then obtain d where d: "decision_reachable d" "root_image clock r d" "d_context_history d = []" "d_conditions d = []"
    using r(4) by (auto simp: decision_image_def)
  have "ld_tenant_id r = cc_tenant_id ctx" using r(2) by (simp add: root_key_def)
  then obtain d' where d': "decision_reachable d'" "root_image clock r' d'" "d_conditions d' = []"
    "d_context_history d' = [context_built clock f ctx]"
    using frozen_image [OF d(1,2) r(3) _ d(3) refs r'] d(4) by metis
  have rows: "context_rows r' t' = [?x]" "condition_rows r' t' = []"
    using r(2,4) cond by (auto simp: r' t' root_key_def context_rows_def condition_rows_def new_context_def)
  have "context_image clock (context_built clock f ctx) ?x"
    by (simp add: context_image_def new_context_def context_built_def DecisionContext_build_def Let_def)
  then have "decision_image clock t' r' d'" using d' rows by (simp add: decision_image_def)
  then have ex: "\<exists>d. decision_reachable d \<and> decision_image clock t' r' d" using d'(1) by blast
  have "ld_lifecycle r' = ''PENDING_PATRON''" by (simp add: r')
  then show "row_inv clock t' r'" using rows ex by (simp add: row_inv_def)
qed

text \<open>Finalizing is one of the three approvals, of the fingerprint that the frozen context has.\<close>

lemma approval_exec:
  assumes "may_approve displayed just by_whom d" "oc \<in> {GO, NO_GO, CONDITIONAL_GO}" "oc = CONDITIONAL_GO \<longleftrightarrow> ns \<noteq> []"
    "distinct (map n_id ns)" "\<forall>n \<in> set ns. validate_for_approval n = None" "d_conditions d = []"
  obtains op e where "decision_exec op d = (None, approved oc (if oc = CONDITIONAL_GO then Condition_OPEN else NOT_APPLICABLE) e
    just by_whom at_time (d\<lparr> d_conditions := ns \<rparr>))"
proof -
  have same: "d\<lparr> d_conditions := [] \<rparr> = d" using assms(6) by simp
  from assms(2) consider "oc = GO" | "oc = NO_GO" | "oc = CONDITIONAL_GO" by blast
  then show ?thesis
  proof cases
    case 1
    then have "ns = []" using assms(3) by simp
    moreover have "decision_exec (ApproveGo displayed just by_whom at_time) d
        = (None, approved GO NOT_APPLICABLE (GoDecisionApproved (d_id d)) just by_whom at_time d)"
      using assms(1) approve_go_accepted [THEN iffD2, OF conjI, OF assms(1) refl] by (simp add: or_unchanged_def)
    ultimately show ?thesis using 1 same that [of "ApproveGo displayed just by_whom at_time" "GoDecisionApproved (d_id d)"] by simp
  next
    case 2
    then have "ns = []" using assms(3) by simp
    moreover have "decision_exec (ApproveNoGo displayed just by_whom at_time) d
        = (None, approved NO_GO NOT_APPLICABLE (NoGoDecisionApproved (d_id d)) just by_whom at_time d)"
      using assms(1) approve_no_go_accepted [THEN iffD2, OF conjI, OF assms(1) refl] by (simp add: or_unchanged_def)
    ultimately show ?thesis using 2 same that [of "ApproveNoGo displayed just by_whom at_time" "NoGoDecisionApproved (d_id d)"] by simp
  next
    case 3
    then have "ns \<noteq> []" using assms(3) by simp
    then show ?thesis
      using 3 that [of "ApproveConditionalGo displayed just ns by_whom at_time"]
        approve_conditional_go_accepts [OF assms(1) _ assms(4,5)] by simp
  qed
qed

lemma proposed_image:
  assumes "validate_for_approval (condition_proposed clock n) = None"
  shows "condition_image clock (condition_proposed clock n) (new_condition clock tid did n)"
  using assms by (auto simp: condition_image_def new_condition_def condition_proposed_def DecisionCondition_proposed_def
      validate_for_approval_def truthy_def strip_or_None_def or_empty_def split: if_splits option.splits)

definition outcome_of :: "string \<Rightarrow> decision_outcome" where
  "outcome_of s = (if s = ''GO'' then GO else if s = ''NO_GO'' then NO_GO else CONDITIONAL_GO)"

lemma outcome_of_value:
  "s \<in> {''GO'', ''CONDITIONAL_GO'', ''NO_GO''} \<Longrightarrow> outcome_value (outcome_of s) = s"
  "outcome_of s \<in> {GO, NO_GO, CONDITIONAL_GO}"
  "s \<in> {''GO'', ''CONDITIONAL_GO'', ''NO_GO''} \<Longrightarrow> outcome_of s = CONDITIONAL_GO \<longleftrightarrow> s = ''CONDITIONAL_GO''"
  by (auto simp: outcome_of_def)

lemma finalized_image:
  assumes d: "decision_reachable d" "root_image clock r d" "d_context_history d = [c]" "d_conditions d = []"
    and r: "ld_lifecycle r = ''PENDING_PATRON''" "ld_context_status r = ''FROZEN''"
    and f: "decision_command_valid (FinalizeGoNoGoDecision f)" "qg_outcome f = ''CONDITIONAL_GO'' \<longleftrightarrow> qg_conditions f \<noteq> []"
      "distinct (map wi_condition_id (qg_conditions f))"
      "\<forall>n \<in> set (qg_conditions f). validate_for_approval (condition_proposed clock n) = None"
    and r': "r' = (finalized_root f ctx xid r)\<lparr> ld_aggregate_revision := ld_aggregate_revision r + 1 \<rparr>"
  obtains d' where "decision_reachable d'" "root_image clock r' d'" "d_context_history d' = [c]"
    "d_conditions d' = map (condition_proposed clock) (qg_conditions f)"
proof -
  let ?ns = "map (condition_proposed clock) (qg_conditions f)" and ?by = "uuid_str (cc_actor_id ctx)" and ?oc = "outcome_of (qg_outcome f)"
  let ?cs = "if ?oc = CONDITIONAL_GO then Condition_OPEN else NOT_APPLICABLE"
  have out: "qg_outcome f \<in> {''GO'', ''CONDITIONAL_GO'', ''NO_GO''}" "strip (qg_justification f) = qg_justification f" "qg_justification f \<noteq> []"
    using f(1) by (auto simp: stripped_text_def)
  have "d_lifecycle d = PENDING_PATRON" using d(2) r(1) unfolding root_image_def by (metis lifecycle_values(2))
  then have may: "may_approve (x_fingerprint c) (qg_justification f) ?by d" using d(3) out by (simp add: may_approve_def)
  have ids: "n_id \<circ> condition_proposed clock = wi_condition_id"
    by (rule ext) (simp add: condition_proposed_def DecisionCondition_proposed_def)
  obtain op e where step: "decision_exec op d = (None, approved ?oc ?cs e (qg_justification f) ?by (clock (cc_received_at ctx)) (d\<lparr> d_conditions := ?ns \<rparr>))"
    by (rule approval_exec [OF may outcome_of_value(2), of "qg_outcome f" ?ns])
      (use f(2-4) d(4) ids outcome_of_value(3) [OF out(1)] in auto)
  define d' where "d' = approved ?oc ?cs e (qg_justification f) ?by (clock (cc_received_at ctx)) (d\<lparr> d_conditions := ?ns \<rparr>)"
  have cs: "condition_status_value ?cs = (if qg_outcome f = ''CONDITIONAL_GO'' then ''OPEN'' else ''NOT_APPLICABLE'')"
    using outcome_of_value(3) [OF out(1)] by simp
  have "root_image clock r' d'" using d(2) r(2) cs outcome_of_value(1) [OF out(1)]
    by (simp add: root_image_def d'_def r' finalized_root_def approved_def)
  moreover have "decision_reachable d'" using reachable_exec [OF d(1) step] by (simp add: d'_def)
  ultimately show ?thesis using d(3) by (intro that [of d']) (simp_all add: d'_def approved_def)
qed

lemma finalized_inv:
  assumes inv: "ledger_inv clock t" and r: "r \<in> set (dt_decisions t)" "root_key (cc_tenant_id ctx) (qg_decision_id f) r"
    "ld_lifecycle r = ''PENDING_PATRON''" "ld_context_status r = ''FROZEN''"
    and x: "x = last (contexts_of (cc_tenant_id ctx) (qg_decision_id f) (dt_contexts t))"
    and f: "decision_command_valid (FinalizeGoNoGoDecision f)" "qg_outcome f = ''CONDITIONAL_GO'' \<longleftrightarrow> qg_conditions f \<noteq> []"
      "distinct (map wi_condition_id (qg_conditions f))"
      "\<forall>n \<in> set (qg_conditions f). validate_for_approval (condition_proposed clock n) = None"
    and ns: "ns = map (new_condition clock (cc_tenant_id ctx) (qg_decision_id f)) (qg_conditions f)"
      "\<forall>n \<in> set ns. \<forall>m \<in> set (dt_conditions t). \<not> lc_clash n m"
    and r': "r' = (finalized_root f ctx (lx_id x) r)\<lparr> ld_aggregate_revision := ld_aggregate_revision r + 1 \<rparr>"
    and clash: "\<forall>y \<in> set (dt_decisions t). ld_id y \<noteq> ld_id r \<longrightarrow> \<not> ld_clash r' y"
    and t': "t' = t\<lparr> dt_decisions := update_where (root_key (cc_tenant_id ctx) (qg_decision_id f)) (\<lambda>_. r') (dt_decisions t),
      dt_conditions := dt_conditions t @ ns \<rparr>"
  shows "ledger_inv clock t'"
proof (rule replaced_inv [OF inv r(1,2), where r' = r'])
  have con: "tables_consistent t" using inv by (simp add: ledger_inv_def)
  have key: "root_key (cc_tenant_id ctx) (qg_decision_id f) r'" using r(2) by (simp add: r' root_key_def finalized_root_def)
  have mine: "\<forall>n \<in> set ns. lc_tenant_id n = cc_tenant_id ctx \<and> lc_decision_id n = qg_decision_id f" by (simp add: ns(1) new_condition_def)
  have "distinct (map lc_id ns)" using f(3) by (simp add: ns(1) new_condition_def comp_def)
  moreover have "distinct (map lc_id (dt_conditions t))" using con by (simp add: tables_consistent_def)
  ultimately have ids: "distinct (map lc_id (dt_conditions t'))" using ns(2) by (auto simp: t' lc_clash_def) metis
  show "tables_consistent t'"
    by (rule replaced_consistent [OF con r(1,2) key clash _ _ _ _ ids]) (use mine in \<open>auto simp: t'\<close>)
  show "dt_decisions t' = update_where (root_key (cc_tenant_id ctx) (qg_decision_id f)) (\<lambda>_. r') (dt_decisions t)" by (simp add: t')
  show "context_rows q t' = context_rows q t \<and> condition_rows q t' = condition_rows q t" if "ld_id q \<noteq> qg_decision_id f" for q
    using that mine by (auto simp: t' context_rows_def condition_rows_def filter_empty_conv)
  have "row_inv clock t r" using inv r(1) by (rule the_row_inv)
  then have cond: "condition_rows r t = []" and len: "length (context_rows r t) = 1"
    and "\<exists>d. decision_reachable d \<and> decision_image clock t r d" using r(3) by (auto simp: row_inv_def not_failed_def)
  from len obtain y where "context_rows r t = [y]" by (auto simp: length_Suc_conv)
  then have crow: "context_rows r t = [x]" unfolding x contexts_of_rows [OF r(2)] by simp
  from \<open>\<exists>d. decision_reachable d \<and> decision_image clock t r d\<close> obtain d c where d: "decision_reachable d" "root_image clock r d"
    "d_context_history d = [c]" "context_image clock c x" "d_conditions d = []"
    by (auto simp: decision_image_def crow cond list_all2_Cons2)
  obtain d' where d': "decision_reachable d'" "root_image clock r' d'" "d_context_history d' = [c]"
    "d_conditions d' = map (condition_proposed clock) (qg_conditions f)"
    by (rule finalized_image [OF d(1-3,5) r(3,4) f r'])
  have same: "context_rows r' t' = context_rows r t" "condition_rows r' t' = condition_rows r t @ ns"
    using key r(2) mine by (auto simp: t' root_key_def context_rows_def condition_rows_def filter_id_conv)
  have rows: "context_rows r' t' = [x]" "condition_rows r' t' = ns" by (simp_all add: same crow cond)
  have "list_all2 (condition_image clock) (d_conditions d') ns" unfolding d'(4) ns(1)
    using f(4) proposed_image by (auto simp: list_all2_conv_all_nth)
  then have "decision_image clock t' r' d'" using d'(2,3) d(4) rows by (simp add: decision_image_def)
  then have ex: "\<exists>d. decision_reachable d \<and> decision_image clock t' r' d" using d'(1) by blast
  have "ld_lifecycle r' = ''FINALIZED''" "ld_selected_final_context_id r' = Some (lx_id x)" by (simp_all add: r' finalized_root_def)
  then show "row_inv clock t' r'" using rows ex by (simp add: row_inv_def)
qed

lemma same_condition: "distinct (map lc_id rows) \<Longrightarrow> m \<in> set rows \<Longrightarrow> n \<in> set rows \<Longrightarrow> lc_id m = lc_id n \<Longrightarrow> m = n"
  by (metis distinct_map inj_onD)

lemma resolved_not_failed:
  assumes "distinct (map lc_id rows)" "n \<in> set rows" "lc_id n = cid" "lc_status n = ''OPEN''"
    "\<forall>m \<in> set (map (\<lambda>m. if lc_id m = cid then g m else m) rows). lc_status m \<noteq> ''FAILED''"
  shows "\<forall>m \<in> set rows. lc_status m \<noteq> ''FAILED''" "lc_status (g n) \<noteq> ''FAILED''"
proof
  fix m assume m: "m \<in> set rows"
  show "lc_status m \<noteq> ''FAILED''"
  proof (cases "lc_id m = cid")
    case True
    then have "m = n" using same_condition [OF assms(1) m assms(2)] assms(3) by simp
    then show ?thesis using assms(4) by simp
  next
    case False
    then show ?thesis using m assms(5) by auto
  qed
next
  show "lc_status (g n) \<noteq> ''FAILED''" using assms(2,3,5) by auto
qed

text \<open>Satisfying a condition is \<open>record_condition_satisfied\<close>; failing one leaves the aggregate behind.\<close>

lemma image_condition_status:
  assumes "list_all2 (condition_image clock) ds rows" "set statuses = lc_status ` set rows"
  shows "condition_status_value (derive_condition_status ds) = condition_status_of statuses"
proof -
  have "set statuses = set (map (condition_status_value \<circ> n_status) ds)" using assms by (simp add: image_statuses [OF assms(1)])
  then show ?thesis unfolding derive_condition_status_value by (rule condition_status_of_set [symmetric])
qed

lemma satisfied_image:
  assumes d: "decision_reachable d" "root_image clock r d" "list_all2 (condition_image clock) (d_conditions d) rows"
    and r: "ld_lifecycle r = ''FINALIZED''" "ld_outcome r = ''CONDITIONAL_GO''"
    and n: "n \<in> set rows" "lc_id n = cid" "lc_status n = ''OPEN''" "distinct (map lc_id rows)"
    and ev: "strip ev \<noteq> []" "g = (\<lambda>m. m\<lparr> lc_status := ''SATISFIED'', lc_satisfied_evidence_ref :=
        Some (JObj [(''reference'', JStr (strip ev)), (''recorded_at'', JStr (isoformat at_time))]), lc_failure_reason := why \<rparr>)"
    and rows': "rows' = map (\<lambda>m. if lc_id m = cid then g m else m) rows" "set statuses = lc_status ` set rows'"
    and r': "r' = r\<lparr> ld_condition_status := condition_status_of statuses, ld_updated_by_actor_id := who,
        ld_aggregate_revision := ld_aggregate_revision r + 1 \<rparr>"
  obtains d' where "decision_reachable d'" "root_image clock r' d'" "d_context_history d' = d_context_history d"
    "list_all2 (condition_image clock) (d_conditions d') rows'"
proof -
  obtain m where m: "List.find (\<lambda>x. n_id x = cid) (d_conditions d) = Some m" "condition_image clock m n"
    using image_find [OF d(3) n(1,2,4)] by blast
  have open': "n_status m = Condition_OPEN" using m(2) n(3) unfolding condition_image_def by (metis condition_status_values(1))
  have st: "d_lifecycle d = FINALIZED" "d_outcome d = CONDITIONAL_GO" using d(2) r unfolding root_image_def
    by (metis lifecycle_values(3), metis outcome_values(2))
  define m' where "m' = m\<lparr> n_status := Condition_SATISFIED, n_evidence_reference := Some (strip ev), n_observed_at := Some at_time \<rparr>"
  define ns where "ns = update_first (\<lambda>x. n_id x = cid) m' (d_conditions d)"
  define d' where "d' = Decision_record (DecisionConditionSatisfied (d_id d) (n_id m')) (Decision_increment_revision
      (d\<lparr> d_conditions := ns, d_condition_status := derive_condition_status ns \<rparr>))"
  have "Decision_record_condition_satisfied cid ev at_time d = Inr d'"
    using st m(1) open' ev(1) by (simp add: Decision_record_condition_satisfied_def find_open_condition_def mark_satisfied_def
        m'_def ns_def d'_def Let_def)
  then have "decision_exec (RecordConditionSatisfied cid ev at_time) d = (None, d')" by (simp add: or_unchanged_def)
  then have reach: "decision_reachable d'" using d(1) by (rule reachable_exec [rotated])
  have img: "list_all2 (condition_image clock) ns rows'" unfolding ns_def rows'(1)
  proof (rule image_update_first [OF d(3) n(4)])
    fix q assume "q \<in> set rows" "lc_id q = cid"
    then have "q = n" using n(1,2) by (intro same_condition [OF n(4)]) simp_all
    then show "condition_image clock m' (g q)" using m(2) by (simp add: condition_image_def m'_def ev(2))
  qed
  have "root_image clock r' d'" using d(2) image_condition_status [OF img rows'(2)]
    by (simp add: root_image_def d'_def r' Decision_record_def Decision_increment_revision_def)
  then show ?thesis using reach img by (intro that [of d']) (simp_all add: d'_def Decision_record_def Decision_increment_revision_def)
qed

lemma resolved_inv:
  fixes c :: "decision_command app_command"
  assumes inv: "ledger_inv clock t" and r: "r \<in> set (dt_decisions t)" "root_key (cc_tenant_id ctx) (qv_decision_id f) r"
    "ld_outcome r = ''CONDITIONAL_GO''" "ld_lifecycle r = ''FINALIZED''"
    and f: "decision_command_valid (ResolveDecisionCondition f)" "qv_target_status f = ''SATISFIED'' \<longrightarrow> truthy (qv_evidence_reference f)"
    and n: "n \<in> set (condition_rows r t)" "lc_id n = qv_condition_id f" "lc_status n = ''OPEN''"
    and tr: "tr = new_condition_transition clock f c ctx mid"
    and status: "status = condition_status_of (resolved_statuses (qv_condition_id f) (qv_target_status f)
      (conditions_of (cc_tenant_id ctx) (qv_decision_id f) (dt_conditions t)))"
    and r': "r' = r\<lparr> ld_condition_status := status, ld_updated_by_actor_id := cc_actor_id ctx, ld_aggregate_revision := ld_aggregate_revision r + 1 \<rparr>"
    and clash: "\<forall>y \<in> set (dt_decisions t). ld_id y \<noteq> ld_id r \<longrightarrow> \<not> ld_clash r' y"
    and t': "t' = t\<lparr> dt_conditions := update_where (\<lambda>m. lc_id m = qv_condition_id f) (resolved_condition tr) (dt_conditions t),
      dt_condition_transitions := transitions,
      dt_decisions := update_where (root_key (cc_tenant_id ctx) (qv_decision_id f)) (\<lambda>_. r') (dt_decisions t) \<rparr>"
  shows "ledger_inv clock t'"
proof (rule replaced_inv [OF inv r(1,2), where r' = r'])
  let ?g = "\<lambda>m. if lc_id m = qv_condition_id f then resolved_condition tr m else m"
  have con: "tables_consistent t" using inv by (simp add: ledger_inv_def)
  have key: "root_key (cc_tenant_id ctx) (qv_decision_id f) r'" using r(2) by (simp add: r' root_key_def)
  have g: "lc_id (?g m) = lc_id m" "lc_tenant_id (?g m) = lc_tenant_id m" "lc_decision_id (?g m) = lc_decision_id m" for m
    by (simp_all add: resolved_condition_def)
  have conds: "dt_conditions t' = map ?g (dt_conditions t)" by (simp add: t' update_where_def)
  have dist: "distinct (map lc_id (dt_conditions t))" using con by (simp add: tables_consistent_def)
  have ids: "distinct (map lc_id (dt_conditions t'))" using dist by (simp add: conds comp_def g cong: map_cong)
  show "tables_consistent t'"
    by (rule replaced_consistent [OF con r(1,2) key clash _ _ _ _ ids]) (auto simp: t' update_where_def g)
  show "dt_decisions t' = update_where (root_key (cc_tenant_id ctx) (qv_decision_id f)) (\<lambda>_. r') (dt_decisions t)" by (simp add: t')
  have cond: "condition_rows q t' = map ?g (condition_rows q t)" for q
    by (simp add: condition_rows_def conds filter_map comp_def g)
  have nr: "n \<in> set (dt_conditions t)" "lc_decision_id n = qv_decision_id f" using n(1) r(2) by (auto simp: condition_rows_def root_key_def)
  show "context_rows q t' = context_rows q t \<and> condition_rows q t' = condition_rows q t" if "ld_id q \<noteq> qv_decision_id f" for q
  proof
    show "context_rows q t' = context_rows q t" by (simp add: t' context_rows_def)
    have "lc_id m \<noteq> qv_condition_id f" if "m \<in> set (condition_rows q t)" for m
    proof
      assume "lc_id m = qv_condition_id f"
      moreover have "m \<in> set (dt_conditions t)" using that by (simp add: condition_rows_def)
      ultimately have "m = n" using nr(1) n(2) by (intro same_condition [OF dist]) simp_all
      then show False using that \<open>ld_id q \<noteq> qv_decision_id f\<close> nr(2) by (simp add: condition_rows_def)
    qed
    then show "condition_rows q t' = condition_rows q t" unfolding cond by (intro map_idI) auto
  qed
  have ri: "row_inv clock t r" using inv r(1) by (rule the_row_inv)
  have same: "context_rows r' t' = context_rows r t" "condition_rows r' t' = map ?g (condition_rows r t)"
    unfolding cond [symmetric] by (simp_all add: r' t' context_rows_def condition_rows_def)
  have life: "ld_lifecycle r' = ''FINALIZED''" "ld_selected_final_context_id r' = ld_selected_final_context_id r" using r(4) by (simp_all add: r')
  have "\<exists>d. decision_reachable d \<and> decision_image clock t' r' d" if nf: "not_failed t' r'"
  proof -
    have rdist: "distinct (map lc_id (condition_rows r t))" using dist by (simp add: condition_rows_def distinct_map_filter)
    note old = resolved_not_failed [OF rdist n, of "resolved_condition tr", folded same, folded not_failed_def, OF nf]
    then have target: "qv_target_status f = ''SATISFIED''"
      using f(1) by (auto simp: resolved_condition_def tr new_condition_transition_def)
    then obtain ev where ev: "qv_evidence_reference f = Some ev" "strip ev = ev" "ev \<noteq> []"
      using f by (auto simp: truthy_def stripped_text_def split: option.splits)
    have "not_failed t r" using old(1) by (simp add: not_failed_def)
    then obtain d where d: "decision_reachable d" "root_image clock r d" "list_all2 (context_image clock) (d_context_history d) (context_rows r t)"
      "list_all2 (condition_image clock) (d_conditions d) (condition_rows r t)" using ri by (auto simp: row_inv_def decision_image_def)
    have g': "resolved_condition tr = (\<lambda>m. m\<lparr> lc_status := ''SATISFIED'', lc_satisfied_evidence_ref :=
        Some (JObj [(''reference'', JStr (strip ev)), (''recorded_at'', JStr (isoformat (clock (cc_received_at ctx))))]),
        lc_failure_reason := lt_failure_reason tr \<rparr>)"
      using target ev by (intro ext) (simp add: resolved_condition_def tr new_condition_transition_def evidence_json_def truthy_def or_empty_def)
    have set_st: "set (resolved_statuses (qv_condition_id f) (qv_target_status f) (conditions_of (cc_tenant_id ctx) (qv_decision_id f) (dt_conditions t)))
        = lc_status ` set (map ?g (condition_rows r t))"
    proof -
      have sorted: "distinct (map lc_id (sort_key lc_id (condition_rows r t)))" using rdist by (simp add: distinct_map)
      have st: "(\<lambda>n. if lc_id n = qv_condition_id f then qv_target_status f else lc_status n) = lc_status \<circ> ?g"
        by (rule ext) (simp add: resolved_condition_def tr new_condition_transition_def)
      show ?thesis unfolding conditions_of_rows [OF r(2)]
        by (simp only: set_resolved_statuses [OF sorted] st set_sort set_map image_comp)
    qed
    have strip: "strip ev \<noteq> []" using ev by simp
    obtain d' where d': "decision_reachable d'" "root_image clock r' d'" "d_context_history d' = d_context_history d"
      "list_all2 (condition_image clock) (d_conditions d') (map ?g (condition_rows r t))"
      by (rule satisfied_image [OF d(1,2,4) r(4,3) n rdist strip g' refl set_st r' [unfolded status]])
    then have "decision_image clock t' r' d'" using d(3) same by (simp add: decision_image_def)
    then show ?thesis using d'(1) by blast
  qed
  then show "row_inv clock t' r'" using ri life r(4) same(1) by (simp add: row_inv_def)
qed

lemma ledger_effect_inv: "ledger_effect clock ctx t t' \<Longrightarrow> ledger_inv clock t \<Longrightarrow> ledger_inv clock t'"
proof (induction rule: ledger_effect.induct)
  case (created k scope f r key cycle)
  then show ?case by (intro created_inv [where k = k and scope = scope and f = f and key = key and cycle = cycle and ctx = ctx])
next
  case (frozen f r r')
  have "qz_references f \<noteq> []" using frozen.hyps(1) by auto
  then show ?case by (rule frozen_inv [OF frozen.prems frozen.hyps(2,3,4,6) _ frozen.hyps(9,10) refl])
next
  case (finalized f r x ns r')
  show ?case by (rule finalized_inv [OF finalized.prems finalized.hyps(2,3,4,7,10,1,12,13,14,15,16,18,19) refl])
next
  case (resolved f r n tr c mid status r')
  show ?case by (rule resolved_inv [OF resolved.prems resolved.hyps(2,3,4,5,1,9,6,7,8,10,11,12,13) refl])
qed

lemma decision_handler_effect:
  assumes "decision_handlers clock ctype = Some h" "tables_consistent t" "h c ctx fresh t = Inr (ho, t')"
  shows "ledger_effect clock ctx t t'"
proof -
  have valid: "decision_command_valid (em_body c)" and run: "run_decision clock c ctx t = Inr (ho, t')"
    using assms(1,3) by (auto simp: decision_handlers_def split: if_splits)
  show ?thesis
  proof (cases "em_body c")
    case (CreateDecision f)
    then show ?thesis using run valid by (auto simp: run_decision_def intro: create_decision_effect)
  next
    case (FreezeDecisionContext f)
    then show ?thesis using run valid assms(2) by (auto simp: run_decision_def intro: freeze_context_effect)
  next
    case (ResolveDecisionCondition f)
    then show ?thesis using run valid assms(2) by (auto simp: run_decision_def intro: resolve_condition_effect)
  next
    case (FinalizeGoNoGoDecision f)
    then show ?thesis using run valid assms(2) by (auto simp: run_decision_def intro: finalize_effect)
  qed
qed

interpretation ledger: command_handlers "decision_handlers clock" "ledger_inv clock" for clock
proof
  fix ctype h b c ctx fresh ho b'
  assume "decision_handlers clock ctype = Some h" "ledger_inv clock b" "h c ctx fresh b = Inr (ho, b')"
  then show "ledger_inv clock b'" using decision_handler_effect ledger_effect_inv ledger_inv_def by metis
qed

end
