(* ===== verification/DecisionClaims.thy ===== *)
theory DecisionClaims
  imports DecisionTrace IntakeProperties
begin

text \<open>
  The properties of the stored decisions over histories in which the commands of the Decision module
  interleave with arbitrary changes of the tables it only reads.
\<close>

section \<open>Histories\<close>

text \<open>What holds of the other modules' tables whatever those modules do: their keys make the requirements and the
  current confirmations unique, and the only writer of a case's scope fingerprint, the Case handler, writes a
  SHA-256 there (the column itself, a CHAR(64), does not check it).\<close>

definition foreign_ok :: "decision_tables \<Rightarrow> bool" where
  "foreign_ok t =
     ((\<forall>k \<in> set (dt_cases t). is_sha256 (ck_scope_fingerprint k)) \<and> distinct (map dq_id (dt_requirements t))
      \<and> distinct (map (\<lambda>u. (cu_tenant_id u, cu_requirement_id u)) (dt_currents t)))"

definition same_ledger :: "decision_tables \<Rightarrow> decision_tables \<Rightarrow> bool" where
  "same_ledger t t' =
     (dt_decisions t' = dt_decisions t \<and> dt_contexts t' = dt_contexts t \<and> dt_references t' = dt_references t
      \<and> dt_conditions t' = dt_conditions t)"

inductive ledger_history ::
  "(decision_command app_command \<Rightarrow> (string \<times> json) list) \<Rightarrow> (instant \<Rightarrow> py_datetime)
   \<Rightarrow> decision_tables platform_db \<Rightarrow> decision_tables platform_db \<Rightarrow> bool"
  for dump clock db where
  start: "ledger_history dump clock db db"
| dispatched: "ledger_history dump clock db db1 \<Longrightarrow> dispatch dump (decision_handlers clock) seen rq db1 = (r, db2) \<Longrightarrow>
    ledger_history dump clock db db2"
| elsewhere: "ledger_history dump clock db db1 \<Longrightarrow> same_ledger (db_business db1) (db_business db2) \<Longrightarrow>
    foreign_ok (db_business db2) \<Longrightarrow> ledger_history dump clock db db2"

lemma dispatch_effect:
  assumes "dispatch dump (decision_handlers clock) seen rq db = (r, db')" "tables_consistent (db_business db)"
  obtains (unchanged) "db_business db' = db_business db"
  | (effect) "ledger_effect clock (rq_context rq) (db_business db) (db_business db')"
proof (cases r)
  case (Inl e)
  then show ?thesis using assms(1) dispatch_Inl unchanged by metis
next
  case (Inr d)
  with assms(1) obtain h where h: "decision_handlers clock (em_command_type (rq_command rq)) = Some h"
    "transaction dump h seen rq db = Inr (d, db')" by (auto elim: dispatch_Inr)
  from h(2) show ?thesis
  proof (cases rule: transaction_Inr)
    case (replay r)
    then show ?thesis using unchanged by simp
  next
    case (executed ho b ids evs obs)
    then show ?thesis using effect decision_handler_effect [OF h(1) assms(2) executed(3)] by simp
  qed
qed

text \<open>What every command and every change elsewhere keep holds after any history.\<close>

lemma history_invariant:
  assumes "ledger_history dump clock db db'" "P (db_business db)"
    and con: "\<And>t. P t \<Longrightarrow> tables_consistent t"
    and effect: "\<And>ctx t t'. P t \<Longrightarrow> ledger_effect clock ctx t t' \<Longrightarrow> P t'"
    and other: "\<And>t t'. P t \<Longrightarrow> same_ledger t t' \<Longrightarrow> foreign_ok t' \<Longrightarrow> P t'"
  shows "P (db_business db')"
  using assms(1,2)
proof (induction rule: ledger_history.induct)
  case (dispatched db1 seen rq r db2)
  then have p: "P (db_business db1)" by simp
  from dispatched.hyps(2) con [OF p] show ?case
  proof (cases rule: dispatch_effect)
    case unchanged
    then show ?thesis using p by simp
  next
    case effect
    then show ?thesis using p assms(4) by blast
  qed
qed (use other in auto)

lemma effect_foreign: "ledger_effect clock ctx t t' \<Longrightarrow> foreign_ok t \<Longrightarrow> foreign_ok t'"
  by (induction rule: ledger_effect.induct) (simp_all add: foreign_ok_def)

lemma same_ledger_inv:
  assumes "same_ledger t t'" "foreign_ok t'" "ledger_inv clock t"
  shows "ledger_inv clock t'"
proof -
  have rows: "context_rows r t' = context_rows r t" "condition_rows r t' = condition_rows r t" for r
    using assms(1) by (simp_all add: same_ledger_def context_rows_def condition_rows_def)
  have "tables_consistent t'" using assms by (auto simp: tables_consistent_def ledger_inv_def same_ledger_def foreign_ok_def)
  then show ?thesis using assms(1,3) row_inv_cong [OF rows] by (simp add: ledger_inv_def same_ledger_def)
qed

definition ledger_ok :: "(instant \<Rightarrow> py_datetime) \<Rightarrow> decision_tables \<Rightarrow> bool" where
  "ledger_ok clock t = (ledger_inv clock t \<and> foreign_ok t)"

lemma ledger_ok_facts:
  "ledger_ok clock t \<Longrightarrow> tables_consistent t"
  "ledger_ok clock t \<Longrightarrow> ledger_effect clock ctx t t' \<Longrightarrow> ledger_ok clock t'"
  "ledger_ok clock t \<Longrightarrow> same_ledger t t' \<Longrightarrow> foreign_ok t' \<Longrightarrow> ledger_ok clock t'"
  by (auto simp: ledger_ok_def intro: ledger_effect_inv effect_foreign same_ledger_inv) (simp add: ledger_inv_def)

lemma history_ok: "ledger_history dump clock db db' \<Longrightarrow> ledger_ok clock (db_business db) \<Longrightarrow> ledger_ok clock (db_business db')"
  by (erule history_invariant) (auto intro: ledger_ok_facts)

section \<open>What a command does to one row\<close>

text \<open>A stored row is never removed; it moves forward or keeps its verdict.\<close>

lemma effect_row:
  assumes "ledger_effect clock ctx t t'" "tables_consistent t" "r \<in> set (dt_decisions t)"
  obtains (unchanged) "r \<in> set (dt_decisions t')"
  | (frozen) r' where "r' \<in> set (dt_decisions t')" "ld_id r' = ld_id r" "ld_lifecycle r = ''DRAFT''"
  | (finalized) r' x where "r' \<in> set (dt_decisions t')" "ld_id r' = ld_id r" "ld_lifecycle r = ''PENDING_PATRON''"
      "x = last (contexts_of (ld_tenant_id r) (ld_id r) (dt_contexts t))"
      "has_confirmed_dce_requirements (ld_tenant_id r) (lx_id x) (ld_case_id r) t"
  | (resolved) r' where "r' \<in> set (dt_decisions t')" "ld_lifecycle r = ''FINALIZED''"
      "r' = r\<lparr> ld_condition_status := ld_condition_status r', ld_updated_by_actor_id := ld_updated_by_actor_id r',
          ld_aggregate_revision := ld_aggregate_revision r' \<rparr>"
proof -
  have replaced: "r \<in> set (update_where (root_key tid did) (\<lambda>_. q') (dt_decisions t)) \<or> r = q"
    "q' \<in> set (update_where (root_key tid did) (\<lambda>_. q') (dt_decisions t))"
    if "q \<in> set (dt_decisions t)" "root_key tid did q" for q q' tid did
  proof -
    have dist: "distinct (map ld_id (dt_decisions t))" using assms(2) by (simp add: tables_consistent_def)
    then have "r = q" if "ld_id r = ld_id q" using that \<open>q \<in> _\<close> assms(3) by (metis distinct_map inj_onD)
    then show "r \<in> set (update_where (root_key tid did) (\<lambda>_. q') (dt_decisions t)) \<or> r = q"
      "q' \<in> set (update_where (root_key tid did) (\<lambda>_. q') (dt_decisions t))"
      using assms(3) by (auto simp: replaced_rows [OF dist that])
  qed
  from assms(1) show ?thesis
  proof cases
    case (created k scope f r cycle key)
    then show ?thesis using assms(3) that(1) by simp
  next
    case (frozen f q q')
    then show ?thesis using replaced [OF frozen(3,4), of q'] that(1) that(2) [of q'] by auto
  next
    case (finalized f q x ns q')
    then show ?thesis
      using replaced [OF finalized(3,4), of q'] that(1) that(3) [of q' x] by (auto simp: root_key_def finalized_root_def)
  next
    case (resolved f q n tr c mid status q')
    then show ?thesis using replaced [OF resolved(3,4), of q'] that(1) that(4) [of q'] by auto
  qed
qed

section \<open>The count of confirmed requirements\<close>

lemma confirmed_join_covers:
  assumes "foreign_ok t" "length (confirmed_join tid vid ids t) = length ids"
  shows "distinct ids"
    "\<forall>i \<in> set ids. \<exists>q \<in> set (dt_requirements t). \<exists>u \<in> set (dt_currents t). dq_id q = i \<and> dq_tenant_id q = tid
        \<and> dq_dce_version_id q = vid \<and> cu_tenant_id u = tid \<and> cu_requirement_id u = i \<and> cu_outcome u = ''CONFIRMED''"
proof -
  let ?J = "confirmed_join tid vid ids t"
  have keys: "distinct (map dq_id (dt_requirements t))" "distinct (map (\<lambda>u. (cu_tenant_id u, cu_requirement_id u)) (dt_currents t))"
    using assms(1) by (simp_all add: foreign_ok_def)
  then have "distinct (dt_requirements t)" "distinct (dt_currents t)" by (simp_all add: distinct_map)
  then have dist: "distinct ?J" by (simp add: confirmed_join_def distinct_product)
  have mem: "q \<in> set (dt_requirements t) \<and> u \<in> set (dt_currents t) \<and> cu_tenant_id u = tid \<and> cu_requirement_id u = dq_id q
      \<and> dq_tenant_id q = tid \<and> dq_dce_version_id q = vid \<and> dq_id q \<in> set ids \<and> cu_outcome u = ''CONFIRMED''" if "(q, u) \<in> set ?J" for q u
    using that by (auto simp: confirmed_join_def)
  have inj: "inj_on (dq_id \<circ> fst) (set ?J)"
  proof (rule inj_onI)
    fix x y assume xy: "x \<in> set ?J" "y \<in> set ?J" "(dq_id \<circ> fst) x = (dq_id \<circ> fst) y"
    obtain q u q' u' where e: "x = (q, u)" "y = (q', u')" by (metis surj_pair)
    then have m: "q \<in> set (dt_requirements t)" "q' \<in> set (dt_requirements t)" "u \<in> set (dt_currents t)" "u' \<in> set (dt_currents t)"
      "dq_id q = dq_id q'" "(cu_tenant_id u, cu_requirement_id u) = (cu_tenant_id u', cu_requirement_id u')"
      using mem [of q u] mem [of q' u'] xy by auto
    have "q = q'" using keys(1) m(1,2,5) by (metis distinct_map inj_onD)
    moreover have "u = u'" using inj_onD [OF _ m(6) m(3,4)] keys(2) by (simp add: distinct_map)
    ultimately show "x = y" using e by simp
  qed
  have image: "card ((dq_id \<circ> fst) ` set ?J) = length ids"
    by (simp only: card_image [OF inj] distinct_card [OF dist] assms(2))
  moreover have sub: "(dq_id \<circ> fst) ` set ?J \<subseteq> set ids" using mem by fastforce
  ultimately have "length ids \<le> card (set ids)" by (metis card_mono List.finite_set)
  then have card: "card (set ids) = length ids" using card_length [of ids] by simp
  then show "distinct ids" by (rule card_distinct)
  have "set ids = (dq_id \<circ> fst) ` set ?J" using card sub image by (metis card_subset_eq List.finite_set)
  then show "\<forall>i \<in> set ids. \<exists>q \<in> set (dt_requirements t). \<exists>u \<in> set (dt_currents t). dq_id q = i \<and> dq_tenant_id q = tid
        \<and> dq_dce_version_id q = vid \<and> cu_tenant_id u = tid \<and> cu_requirement_id u = i \<and> cu_outcome u = ''CONFIRMED''"
    using mem by fastforce
qed

lemma confirmed_requirements:
  assumes "foreign_ok t" "has_confirmed_dce_requirements tid xid cid t"
  obtains vid where "Option.bind (List.find (\<lambda>k. ck_tenant_id k = tid \<and> ck_id k = cid) (dt_cases t)) ck_applicable_dce_version_id = Some vid"
    "distinct (referenced_requirements tid xid t)"
    "\<forall>i \<in> set (referenced_requirements tid xid t). \<exists>q \<in> set (dt_requirements t). \<exists>u \<in> set (dt_currents t). dq_id q = i \<and> dq_tenant_id q = tid
        \<and> dq_dce_version_id q = vid \<and> cu_tenant_id u = tid \<and> cu_requirement_id u = i \<and> cu_outcome u = ''CONFIRMED''"
proof -
  obtain vid where v: "Option.bind (List.find (\<lambda>k. ck_tenant_id k = tid \<and> ck_id k = cid) (dt_cases t)) ck_applicable_dce_version_id = Some vid"
    "referenced_requirements tid xid t = []
      \<or> length (confirmed_join tid vid (referenced_requirements tid xid t) t) = length (referenced_requirements tid xid t)"
    using assms(2) by (auto simp: has_confirmed_dce_requirements_def Let_def split: option.splits)
  from v(2) show thesis
  proof
    assume "referenced_requirements tid xid t = []"
    then show thesis by (intro that [OF v(1)]) simp_all
  next
    assume "length (confirmed_join tid vid (referenced_requirements tid xid t) t) = length (referenced_requirements tid xid t)"
    then show thesis using confirmed_join_covers [OF assms(1)] that [OF v(1)] by blast
  qed
qed

section \<open>A decision that repeats a requirement\<close>

definition deadlocked :: "uuid \<Rightarrow> decision_tables \<Rightarrow> bool" where
  "deadlocked did t =
     (\<exists>r x. r \<in> set (dt_decisions t) \<and> ld_id r = did \<and> ld_lifecycle r = ''PENDING_PATRON'' \<and> ld_validity r = ''CURRENT''
        \<and> context_rows r t = [x] \<and> \<not> distinct (referenced_requirements (ld_tenant_id r) (lx_id x) t))"

text \<open>Contexts and references are only appended, and a pending decision never gets a second context.\<close>

lemma effect_references:
  assumes "ledger_effect clock ctx t t'" "\<not> distinct (referenced_requirements tid xid t)"
  shows "\<not> distinct (referenced_requirements tid xid t')"
proof -
  have "\<exists>rows. dt_references t' = dt_references t @ rows" using assms(1) by cases auto
  then show ?thesis using assms(2) by (auto simp: referenced_requirements_def)
qed

lemma effect_deadlocked:
  assumes "ledger_effect clock ctx t t'" "ledger_ok clock t" "deadlocked did t"
  shows "deadlocked did t'"
proof -
  have inv: "ledger_inv clock t" "foreign_ok t" "tables_consistent t" using assms(2) by (auto simp: ledger_ok_def ledger_inv_def)
  obtain r x where r: "r \<in> set (dt_decisions t)" "ld_id r = did" "ld_lifecycle r = ''PENDING_PATRON''" "ld_validity r = ''CURRENT''"
    "context_rows r t = [x]" "\<not> distinct (referenced_requirements (ld_tenant_id r) (lx_id x) t)"
    using assms(3) unfolding deadlocked_def by blast
  have last: "last (contexts_of (ld_tenant_id r) (ld_id r) (dt_contexts t)) = x"
    using r(5) by (simp add: contexts_of_rows [of _ _ r] root_key_def)
  have "r \<in> set (dt_decisions t')" using assms(1) inv(3) r(1)
  proof (cases rule: effect_row)
    case (finalized r' y)
    then have "distinct (referenced_requirements (ld_tenant_id r) (lx_id x) t)" unfolding last
      using confirmed_requirements [OF inv(2)] by metis
    then show ?thesis using r(6) by simp
  qed (use r(3) in auto)
  moreover have "ledger_inv clock t'" using assms(1) inv(1) by (rule ledger_effect_inv)
  ultimately have "length (context_rows r t') = 1" using r(3) by (auto simp: ledger_inv_def row_inv_def)
  moreover have "\<exists>rows. dt_contexts t' = dt_contexts t @ rows" using assms(1) by cases auto
  then obtain rows where "context_rows r t' = context_rows r t @ rows" by (auto simp: context_rows_def)
  ultimately have "context_rows r t' = [x]" using r(5) by auto
  then show ?thesis using \<open>r \<in> set (dt_decisions t')\<close> r(2-4) effect_references [OF assms(1) r(6)] unfolding deadlocked_def by blast
qed

lemma history_deadlocked:
  assumes "ledger_history dump clock db db'" "ledger_ok clock (db_business db)" "deadlocked did (db_business db)"
  shows "deadlocked did (db_business db')"
proof -
  have "ledger_ok clock (db_business db') \<and> deadlocked did (db_business db')"
  proof (rule history_invariant [OF assms(1), where P = "\<lambda>t. ledger_ok clock t \<and> deadlocked did t"])
    fix t t' assume "ledger_ok clock t \<and> deadlocked did t" "same_ledger t t'" "foreign_ok t'"
    then show "ledger_ok clock t' \<and> deadlocked did t'" using ledger_ok_facts(3)
      by (auto simp: deadlocked_def same_ledger_def context_rows_def referenced_requirements_def)
  qed (use assms(2,3) ledger_ok_facts effect_deadlocked in blast)+
  then show ?thesis by simp
qed

section \<open>A finalized row\<close>

text \<open>Everything of a row but the status of its conditions, its last writer and its revision.\<close>

definition verdict ::
  "decision_row \<Rightarrow> (uuid \<times> uuid \<times> uuid \<times> string \<times> string \<times> string) \<times> (string \<times> string \<times> string \<times> uuid option \<times> string option
     \<times> uuid option \<times> instant option)" where
  "verdict r = ((ld_id r, ld_tenant_id r, ld_case_id r, ld_decision_type r, ld_scope_fingerprint r, ld_decision_key_hash r),
     (ld_lifecycle r, ld_outcome r, ld_validity r, ld_selected_final_context_id r, ld_final_justification r,
      ld_finalized_by_actor_id r, ld_finalized_at r))"

lemma effect_verdict:
  assumes "ledger_effect clock ctx t t'" "tables_consistent t" "q \<in> set (dt_decisions t)" "ld_lifecycle q = ''FINALIZED''"
  shows "\<exists>q' \<in> set (dt_decisions t'). verdict q' = verdict q"
  using assms(1-3)
proof (cases rule: effect_row)
  case (resolved r')
  have "verdict r' = verdict q" by (subst resolved(3)) (simp add: verdict_def)
  then show ?thesis using resolved(1) by blast
qed (use assms(4) in auto)

lemma history_verdict:
  assumes "ledger_history dump clock db db'" "ledger_ok clock (db_business db)"
    "r \<in> set (dt_decisions (db_business db))" "ld_lifecycle r = ''FINALIZED''"
  shows "\<exists>q \<in> set (dt_decisions (db_business db')). verdict q = verdict r"
proof -
  let ?P = "\<lambda>t. ledger_ok clock t \<and> (\<exists>q \<in> set (dt_decisions t). verdict q = verdict r)"
  have "?P (db_business db')"
  proof (rule history_invariant [OF assms(1), where P = ?P])
    fix ctx t t' assume t: "?P t" "ledger_effect clock ctx t t'"
    then obtain q where q: "q \<in> set (dt_decisions t)" "verdict q = verdict r" by blast
    then have "ld_lifecycle q = ''FINALIZED''" using assms(4) by (simp add: verdict_def)
    then show "?P t'" using effect_verdict [OF t(2) _ q(1)] t q(2) ledger_ok_facts by metis
  next
    fix t t' assume "?P t" "same_ledger t t'" "foreign_ok t'"
    then show "?P t'" using ledger_ok_facts(3) by (auto simp: same_ledger_def)
  qed (use assms(2,3) ledger_ok_facts(1) in blast)+
  then show ?thesis by simp
qed

lemma frozen_root_pending:
  assumes "freeze_context clock f ctx t = Inr (ho, t')" "tables_consistent t"
  obtains r r' where "r \<in> set (dt_decisions t)" "ld_lifecycle r = ''DRAFT''" "r' \<in> set (dt_decisions t')"
    "root_key (cc_tenant_id ctx) (qz_decision_id f) r'" "ld_lifecycle r' = ''PENDING_PATRON''" "ld_validity r' = ld_validity r"
proof -
  let ?tid = "cc_tenant_id ctx" and ?did = "qz_decision_id f"
  let ?change = "\<lambda>r. r\<lparr> ld_lifecycle := ''PENDING_PATRON'', ld_context_status := ''FROZEN'', ld_updated_by_actor_id := cc_actor_id ctx \<rparr>"
  obtain r where find: "find_decision ?tid ?did (dt_decisions t) = Some r"
    using assms(1) by (cases "find_decision ?tid ?did (dt_decisions t)") (auto simp: freeze_context_def Let_def)
  then have rin: "r \<in> set (dt_decisions t)" "root_key ?tid ?did r" by (auto dest: find_decision_Some)
  note run = assms(1) [unfolded freeze_context_def Let_def find option.case]
  obtain revn where st: "ld_lifecycle r = ''DRAFT''"
    and up: "update_root ?tid ?did (qz_expected_revision f) ?change (dt_decisions t) = Inr (revn, dt_decisions t')"
    using run by (auto split: if_splits sum.splits)
  obtain r1 where r1: "r1 \<in> set (dt_decisions t)" "root_key ?tid ?did r1"
    "dt_decisions t' = update_where (root_key ?tid ?did) (\<lambda>_. (?change r1)\<lparr> ld_aggregate_revision := qz_expected_revision f + 1 \<rparr>) (dt_decisions t)"
    using up by (rule update_root_Inr)
  have dist: "distinct (map ld_id (dt_decisions t))" using assms(2) by (simp add: tables_consistent_def)
  have same: "r1 = r" by (rule the_root [OF dist r1(1) rin(1) r1(2) rin(2)])
  show thesis
    by (rule that [OF rin(1) st, of "(?change r1)\<lparr> ld_aggregate_revision := qz_expected_revision f + 1 \<rparr>"])
      (use r1(2) same in \<open>simp_all add: r1(3) replaced_rows [OF dist r1(1,2)] root_key_def\<close>)
qed

section \<open>A worked decision\<close>

definition ex_clock :: "instant \<Rightarrow> py_datetime" where
  "ex_clock a = ex_time"

definition ex_decision_tables :: decision_tables where
  "ex_decision_tables = \<lparr>
     dt_cases = [\<lparr> ck_id = 40, ck_tenant_id = 1, ck_aggregate_revision = 0, ck_scope_fingerprint = sha256_hex ''scope'',
       ck_applicable_dce_version_id = Some 7, ck_lifecycle = ''ACTIVE'' \<rparr>],
     dt_versions = [],
     dt_requirements = [\<lparr> dq_id = 21, dq_tenant_id = 1, dq_requirements_run_id = 20, dq_dce_version_id = 7,
       dq_source_observation_id = 9, dq_requirement_type = ''SITE_VISIT'', dq_directive_signal = ''REQUIRED_SIGNAL'',
       dq_confirmation_status = ''PENDING_HUMAN_CONFIRMATION'', dq_uncertainty_status = ''SOURCE_SIGNAL_ONLY'' \<rparr>],
     dt_currents = [\<lparr> cu_tenant_id = 1, cu_requirement_id = 21, cu_confirmation_id = 22, cu_revision = 1, cu_outcome = ''CONFIRMED'' \<rparr>],
     dt_scenarios = [], dt_extractions = [], dt_fragments = [], dt_decisions = [], dt_contexts = [], dt_references = [],
     dt_conditions = [], dt_condition_transitions = [], dt_risks = [], dt_risk_transitions = [], dt_links = [],
     dt_patron = \<lparr> pa_actions = [], pa_transitions = [] \<rparr> \<rparr>"

definition ex_decision_db :: "decision_tables \<Rightarrow> decision_tables platform_db" where
  "ex_decision_db t = \<lparr> db_receipts = [], db_events = [], db_outbox = [], db_business = t \<rparr>"

definition ex_verified_patron :: actor_context where
  "ex_verified_patron = ex_patron\<lparr> a_mfa_verified_at := Some 5 \<rparr>"

definition ex_decision_context :: command_context where
  "ex_decision_context = command_context_of ex_verified_patron ''PATRON_ADMIN'' 5 (Some 40)"

definition ex_create :: create_decision_fields where
  "ex_create = \<lparr> qc_decision_id = 30, qc_case_id = 40, qc_decision_type = ''GO_NO_GO'', qc_scope_fingerprint = None \<rparr>"

definition ex_command :: "string \<Rightarrow> decision_command \<Rightarrow> decision_command app_command" where
  "ex_command ctype body = \<lparr> em_command_type = ctype, em_command_id = 3, em_idempotency_key = 3, em_correlation_id = None, em_body = body \<rparr>"

definition ex_decision_request :: "decision_command app_command \<Rightarrow> decision_command dispatch_request" where
  "ex_decision_request c = \<lparr> rq_command = c, rq_context = ex_decision_context, rq_fresh = of_nat, rq_handler_fresh = of_nat, rq_now = 5 \<rparr>"

definition ex_decision_call :: service_call where
  "ex_decision_call = \<lparr> sc_fresh = of_nat, sc_handler_fresh = of_nat, sc_now = 5, sc_seen = [] \<rparr>"

definition ex_scope_key :: string where
  "ex_scope_key = decision_key_hash 40 ''GO_NO_GO'' (sha256_hex ''scope'')"

definition ex_root :: decision_row where
  "ex_root = new_decision ex_create ex_decision_context (sha256_hex ''scope'') ex_scope_key 1"

lemma ex_created: "\<exists>ho. create_decision ex_create ex_decision_context ex_decision_tables = Inr (ho, ex_decision_tables\<lparr> dt_decisions := [ex_root] \<rparr>)
    \<and> length (ho_events ho) = 1"
proof -
  have "strip ''CASE'' \<noteq> []" by code_simp
  then have "ld_check ex_root" by (simp add: ld_check_def ex_root_def new_decision_def ex_create_def)
  then have c: "ld_check (new_decision ex_create ex_decision_context (sha256_hex ''scope'') (decision_key_hash 40 ''GO_NO_GO'' (sha256_hex ''scope'')) 1)"
    by (simp add: ex_root_def ex_scope_key_def)
  have "active_case (cc_tenant_id ex_decision_context) (qc_case_id ex_create) ex_decision_tables = Some (hd (dt_cases ex_decision_tables))"
    by (simp add: active_case_def ex_decision_tables_def ex_decision_context_def command_context_of_def ex_verified_patron_def ex_patron_def ex_create_def)
  moreover have "ck_scope_fingerprint (hd (dt_cases ex_decision_tables)) = sha256_hex ''scope''" "dt_decisions ex_decision_tables = []"
    by (simp_all add: ex_decision_tables_def)
  ultimately show ?thesis using c
    by (simp add: create_decision_def Let_def ex_create_def insert_row_def add_row_def active_decision_exists_def next_cycle_number_def
        ex_root_def ex_scope_key_def)
qed

lemma ex_tables_ok: "foreign_ok ex_decision_tables" "ledger_inv clock ex_decision_tables"
  by (simp_all add: foreign_ok_def ex_decision_tables_def is_sha256_sha256_hex ledger_inv_def tables_consistent_def)

lemma ex_create_dispatched:
  obtains d db' where "dispatch (\<lambda>_. []) (decision_handlers ex_clock) [] (ex_decision_request (ex_command ''CreateDecision'' (CreateDecision ex_create)))
      (ex_decision_db ex_decision_tables) = (Inr d, db')" "db_business db' = ex_decision_tables\<lparr> dt_decisions := [ex_root] \<rparr>"
proof -
  let ?c = "ex_command ''CreateDecision'' (CreateDecision ex_create)"
  obtain ho e where m: "create_decision ex_create ex_decision_context ex_decision_tables = Inr (ho, ex_decision_tables\<lparr> dt_decisions := [ex_root] \<rparr>)"
    "ho_events ho = [e]" using ex_created by (auto simp: length_Suc_conv)
  have h: "\<exists>h. decision_handlers ex_clock ''CreateDecision'' = Some h
      \<and> h ?c ex_decision_context of_nat ex_decision_tables = Inr (ho, ex_decision_tables\<lparr> dt_decisions := [ex_root] \<rparr>)"
    using m(1) by (simp add: decision_handlers_def run_decision_def ex_command_def) (simp add: ex_create_def)
  have c: "em_command_type ?c = ''CreateDecision''" by (simp add: ex_command_def)
  have "\<exists>d db'. dispatch (\<lambda>_. []) (decision_handlers ex_clock) [] (ex_decision_request ?c) (ex_decision_db ex_decision_tables)
      = (Inr d, db') \<and> db_business db' = ex_decision_tables\<lparr> dt_decisions := [ex_root] \<rparr>"
    using h m(2) by (auto simp: dispatch_def transaction_def c find_receipt_def add_row_def ex_decision_db_def ex_decision_request_def Let_def)
  then show ?thesis using that by blast
qed

text \<open>The decision with a frozen context, whose references are \<open>refs\<close>.\<close>

definition ex_freeze :: freeze_fields where
  "ex_freeze = \<lparr> qz_decision_id = 30, qz_case_id = 40, qz_context_id = 31, qz_expected_revision = 0, qz_rationale = ''r'',
     qz_unknowns = [], qz_risks = [], qz_references = [\<lparr> ni_aggregate_type = ''CASE'', ni_aggregate_id = 40,
       ni_aggregate_revision = 0, ni_content_hash = None, ni_reference_role = ''case'' \<rparr>] \<rparr>"

definition ex_requirement_reference :: "uuid \<Rightarrow> string \<Rightarrow> reference_row" where
  "ex_requirement_reference rid role = \<lparr> lr_id = rid, lr_tenant_id = 1, lr_decision_context_id = 31,
     lr_aggregate_type = ''DCE_REQUIREMENT'', lr_aggregate_id = 21, lr_aggregate_revision = 1, lr_content_hash = None,
     lr_reference_role = role \<rparr>"

definition ex_pending_root :: decision_row where
  "ex_pending_root = ex_root\<lparr> ld_lifecycle := ''PENDING_PATRON'', ld_context_status := ''FROZEN'',
     ld_updated_by_actor_id := cc_actor_id ex_decision_context, ld_aggregate_revision := ld_aggregate_revision ex_root + 1 \<rparr>"

definition ex_pending_tables :: "reference_row list \<Rightarrow> decision_tables" where
  "ex_pending_tables refs = ex_decision_tables\<lparr> dt_decisions := [ex_pending_root],
     dt_contexts := [new_context ex_clock ex_freeze ex_decision_context], dt_references := refs \<rparr>"

lemma ex_key: "root_key 1 30 ex_root" "root_key 1 30 ex_pending_root" "cc_tenant_id ex_decision_context = 1"
  by (simp_all add: root_key_def ex_root_def ex_pending_root_def new_decision_def ex_create_def ex_decision_context_def
      command_context_of_def ex_verified_patron_def ex_patron_def)

lemma ex_created_inv: "ledger_inv ex_clock (ex_decision_tables\<lparr> dt_decisions := [ex_root] \<rparr>)"
proof -
  obtain k where k: "k \<in> set (dt_cases ex_decision_tables)" "ck_scope_fingerprint k = sha256_hex ''scope''"
    by (simp add: ex_decision_tables_def)
  then have "sha256_hex ''scope'' = lower (ck_scope_fingerprint k)" by simp
  then have "ledger_inv ex_clock (ex_decision_tables\<lparr> dt_decisions := dt_decisions ex_decision_tables @ [ex_root] \<rparr>)"
    by (rule created_inv [OF ex_tables_ok(2) k(1) _ ex_root_def]) (simp_all add: ex_create_def ex_decision_tables_def)
  then show ?thesis by (simp add: ex_decision_tables_def)
qed

lemma ex_pending_ok: "ledger_ok ex_clock (ex_pending_tables refs)"
proof -
  let ?t = "ex_decision_tables\<lparr> dt_decisions := [ex_root] \<rparr>"
  have none: "dt_contexts ex_decision_tables = []" by (simp add: ex_decision_tables_def)
  have "ledger_inv ex_clock (ex_pending_tables refs)"
  proof (rule frozen_inv [OF ex_created_inv, of ex_root ex_decision_context ex_freeze])
    show "root_key (cc_tenant_id ex_decision_context) (qz_decision_id ex_freeze) ex_root" using ex_key by (simp add: ex_freeze_def)
    show "ex_pending_tables refs = ?t\<lparr> dt_contexts := dt_contexts ?t @ [new_context ex_clock ex_freeze ex_decision_context], dt_references := refs,
        dt_decisions := update_where (root_key (cc_tenant_id ex_decision_context) (qz_decision_id ex_freeze)) (\<lambda>_. ex_pending_root) (dt_decisions ?t) \<rparr>"
      using ex_key by (simp add: ex_pending_tables_def update_where_def none ex_freeze_def)
  qed (simp_all add: ex_root_def new_decision_def none context_rows_def ex_freeze_def ex_pending_root_def)
  then show ?thesis using ex_tables_ok(1) by (simp add: ledger_ok_def foreign_ok_def ex_pending_tables_def)
qed

definition ex_finalize :: finalize_fields where
  "ex_finalize = \<lparr> qg_decision_id = 30, qg_case_id = 40, qg_expected_revision = 1,
     qg_displayed_fingerprint = x_fingerprint (context_built ex_clock ex_freeze ex_decision_context), qg_outcome = ''GO'',
     qg_justification = ''ok'', qg_conditions = [] \<rparr>"

abbreviation ex_finalize_command :: "decision_command app_command" where
  "ex_finalize_command \<equiv> ex_command ''FinalizeGoNoGoDecision'' (FinalizeGoNoGoDecision ex_finalize)"

lemma ex_fingerprint: "is_sha256 (x_fingerprint (context_built ex_clock ex_freeze ex_decision_context))"
  by (simp add: context_built_def DecisionContext_build_def Let_def context_fingerprint_def is_sha256_sha256_hex)

lemma ex_finalize_valid: "decision_command_valid (FinalizeGoNoGoDecision ex_finalize)"
proof -
  have "strip ''ok'' = ''ok''" by code_simp
  then show ?thesis using ex_fingerprint by (simp add: ex_finalize_def stripped_text_def)
qed

abbreviation ex_finalized_root :: decision_row where
  "ex_finalized_root \<equiv> (finalized_root ex_finalize ex_decision_context 31 ex_pending_root)\<lparr> ld_aggregate_revision := 2 \<rparr>"

lemma ex_finalized: "\<exists>ho. finalize_go_no_go ex_clock ex_finalize ex_decision_context (ex_pending_tables [ex_requirement_reference 50 ''dce''])
    = Inr (ho, (ex_pending_tables [ex_requirement_reference 50 ''dce''])\<lparr> dt_decisions := [ex_finalized_root] \<rparr>) \<and> length (ho_events ho) = 1"
proof -
  let ?t = "ex_pending_tables [ex_requirement_reference 50 ''dce'']" and ?x = "new_context ex_clock ex_freeze ex_decision_context"
  have ctx: "cc_tenant_id ex_decision_context = 1" "cc_actor_kind ex_decision_context = ''PATRON_ADMIN''" "cc_membership_id ex_decision_context = Some 11"
    by (simp_all add: ex_decision_context_def command_context_of_def ex_verified_patron_def ex_patron_def)
  have f: "qg_decision_id ex_finalize = 30" "qg_case_id ex_finalize = 40" "qg_expected_revision ex_finalize = 1" "qg_outcome ex_finalize = ''GO''"
    "qg_conditions ex_finalize = []" "lower (lx_context_fingerprint ?x) = lower (qg_displayed_fingerprint ex_finalize)"
    by (simp_all add: ex_finalize_def new_context_def)
  have x: "lx_id ?x = 31" "lx_tenant_id ?x = 1" "lx_decision_id ?x = 30" "lx_context_state ?x = ''FROZEN''"
    using ctx by (simp_all add: new_context_def ex_freeze_def)
  have r: "ld_id ex_pending_root = 30" "ld_tenant_id ex_pending_root = 1" "ld_case_id ex_pending_root = 40" "ld_aggregate_revision ex_pending_root = 1"
    "ld_decision_type ex_pending_root = ''GO_NO_GO''" "ld_lifecycle ex_pending_root = ''PENDING_PATRON''" "ld_outcome ex_pending_root = ''UNDECIDED''"
    "ld_validity ex_pending_root = ''CURRENT''" "ld_context_status ex_pending_root = ''FROZEN''"
    using ctx by (simp_all add: ex_pending_root_def ex_root_def new_decision_def ex_create_def)
  have t: "dt_decisions ?t = [ex_pending_root]" "dt_contexts ?t = [?x]" "dt_conditions ?t = []"
    "dt_references ?t = [ex_requirement_reference 50 ''dce'']" by (simp_all add: ex_pending_tables_def ex_decision_tables_def)
  have q: "lr_tenant_id (ex_requirement_reference i s) = 1" "lr_decision_context_id (ex_requirement_reference i s) = 31"
    "lr_aggregate_type (ex_requirement_reference i s) = ''DCE_REQUIREMENT''" "lr_aggregate_id (ex_requirement_reference i s) = 21" for i s
    by (simp_all add: ex_requirement_reference_def)
  have refs: "references_of 1 30 ?t \<noteq> []" "referenced_requirements 1 31 ?t = [21]"
    using x by (simp_all add: references_of_def referenced_requirements_def t q)
  have "Option.bind (List.find (\<lambda>k. ck_tenant_id k = 1 \<and> ck_id k = 40) (dt_cases ?t)) ck_applicable_dce_version_id = Some 7"
    "length (confirmed_join 1 7 [21] ?t) = 1" by (simp_all add: confirmed_join_def ex_pending_tables_def ex_decision_tables_def)
  then have conf: "has_confirmed_dce_requirements 1 31 40 ?t" by (simp add: has_confirmed_dce_requirements_def refs(2))
  have "strip ''CASE'' \<noteq> []" by code_simp
  then have "ld_check ex_finalized_root"
    by (simp add: ld_check_def finalized_root_def f ex_pending_root_def ex_root_def new_decision_def ex_create_def)
  then have up: "update_root 1 30 1 (finalized_root ex_finalize ex_decision_context 31) [ex_pending_root] = Inr (2, [ex_finalized_root])"
    by (simp add: update_root_def r update_where_def Let_def finalized_root_def)
  show ?thesis
    by (simp add: finalize_go_no_go_def Let_def ctx f find_decision_def t r contexts_of_def x refs(1) condition_drafts_def conf up)
qed

section \<open>Properties\<close>

text \<open>
  C12. Whatever the Decision commands and the other modules do from an empty ledger, every stored decision
  without a failed condition is the image of a reachable aggregate of \<open>DecisionAggregate\<close>: its status
  columns, verdict, frozen context and conditions are those of an object that the domain operations can
  build.\<close>

theorem decision_ledger_refines_aggregate:
  assumes "dt_decisions (db_business db) = []" "dt_contexts (db_business db) = []" "dt_conditions (db_business db) = []"
    "foreign_ok (db_business db)" "ledger_history dump clock db db'"
    "r \<in> set (dt_decisions (db_business db'))" "not_failed (db_business db') r"
  shows "\<exists>d. decision_reachable d \<and> decision_image clock (db_business db') r d"
proof -
  have "ledger_ok clock (db_business db)" using assms(1-4) by (simp add: ledger_ok_def ledger_inv_def tables_consistent_def foreign_ok_def)
  then have "ledger_inv clock (db_business db')" using history_ok [OF assms(5)] by (simp add: ledger_ok_def)
  then show ?thesis using assms(6,7) by (simp add: ledger_inv_def row_inv_def)
qed

theorem decision_ledger_refines_aggregate_witness:
  "\<exists>db' d. ledger_history (\<lambda>_. []) ex_clock (ex_decision_db ex_decision_tables) db' \<and> dt_decisions (db_business db') = [ex_root]
     \<and> decision_reachable d \<and> decision_image ex_clock (db_business db') ex_root d"
proof -
  let ?db = "ex_decision_db ex_decision_tables"
  obtain d db' where r: "dispatch (\<lambda>_. []) (decision_handlers ex_clock) [] (ex_decision_request (ex_command ''CreateDecision'' (CreateDecision ex_create)))
      ?db = (Inr d, db')" "db_business db' = ex_decision_tables\<lparr> dt_decisions := [ex_root] \<rparr>" by (rule ex_create_dispatched)
  have h: "ledger_history (\<lambda>_. []) ex_clock ?db db'" using ledger_history.start r(1) by (rule ledger_history.dispatched)
  have e: "dt_decisions (db_business ?db) = []" "dt_contexts (db_business ?db) = []" "dt_conditions (db_business ?db) = []"
    "foreign_ok (db_business ?db)" "not_failed (db_business db') ex_root"
    using ex_tables_ok(1) by (simp_all add: ex_decision_db_def r(2) ex_decision_tables_def not_failed_def condition_rows_def)
  have "dt_decisions (db_business db') = [ex_root]" by (simp add: r(2))
  then show ?thesis using decision_ledger_refines_aggregate [OF e(1-4) h _ e(5)] h by auto
qed

text \<open>
  C16. A finalization that wrote anything was asked by a patron whom the policy allowed with a second factor,
  showed the fingerprint of the only context of a pending decision, and every requirement this context
  references is confirmed by a human for the version applicable to the case. The decision is then final with
  the outcome asked for.\<close>

theorem decision_finalized_on_confirmed:
  assumes "ledger_ok clock (db_business db)" "em_body c = FinalizeGoNoGoDecision f"
    "finalization_execute policy clock dump sc a c db = (Inr d, db')" "db_business db' \<noteq> db_business db"
  shows "a_actor_kind a \<in> {PATRON_ADMIN, PATRON_DELEGATE}
    \<and> z_allowed (policy a (decision_request ''decision.finalize'' ''DECISION'' (qg_decision_id f) (a_tenant_id a) (qg_case_id f) True (sc_now sc)))
    \<and> (\<exists>r \<in> set (dt_decisions (db_business db)). \<exists>x vid. ld_id r = qg_decision_id f \<and> ld_lifecycle r = ''PENDING_PATRON''
        \<and> context_rows r (db_business db) = [x] \<and> lower (lx_context_fingerprint x) = lower (qg_displayed_fingerprint f)
        \<and> Option.bind (List.find (\<lambda>k. ck_tenant_id k = a_tenant_id a \<and> ck_id k = ld_case_id r) (dt_cases (db_business db)))
            ck_applicable_dce_version_id = Some vid
        \<and> (\<forall>i \<in> set (referenced_requirements (a_tenant_id a) (lx_id x) (db_business db)).
             \<exists>q \<in> set (dt_requirements (db_business db)). \<exists>u \<in> set (dt_currents (db_business db)). dq_id q = i
               \<and> dq_dce_version_id q = vid \<and> cu_requirement_id u = i \<and> cu_outcome u = ''CONFIRMED'')
        \<and> (\<exists>r' \<in> set (dt_decisions (db_business db')). ld_id r' = ld_id r \<and> ld_lifecycle r' = ''FINALIZED''
             \<and> ld_outcome r' = qg_outcome f \<and> ld_selected_final_context_id r' = Some (lx_id x)
             \<and> ld_finalized_by_actor_id r' = Some (a_actor_id a)))"
proof -
  let ?t = "db_business db" and ?tid = "a_tenant_id a" and ?did = "qg_decision_id f" and ?cid = "qg_case_id f"
  let ?ctx = "command_context_of a (actor_kind_value (a_actor_kind a)) (sc_now sc) (Some ?cid)"
  have ok: "tables_consistent ?t" "foreign_ok ?t" "ledger_inv clock ?t" using assms(1) by (auto simp: ledger_ok_def ledger_inv_def)
  have ctx: "cc_tenant_id ?ctx = ?tid" "cc_actor_id ?ctx = a_actor_id a" by (simp_all add: command_context_of_def)
  have guard: "a_actor_kind a \<in> {PATRON_ADMIN, PATRON_DELEGATE}"
    "z_allowed (policy a (decision_request ''decision.finalize'' ''DECISION'' ?did ?tid ?cid True (sc_now sc)))"
    "dispatch_decision clock dump sc a c ?cid db = (Inr d, db')"
    using assms(3) by (auto simp: finalization_execute_def assms(2) Let_def split: if_splits)
  then obtain h where h: "decision_handlers clock (em_command_type c) = Some h"
    "transaction dump h (sc_seen sc) \<lparr> rq_command = c, rq_context = ?ctx, rq_fresh = sc_fresh sc, rq_handler_fresh = sc_handler_fresh sc,
       rq_now = sc_now sc \<rparr> db = (Inr (d, db'))" unfolding dispatch_decision_def by (auto elim: dispatch_Inr)
  from h(2) obtain ho where "finalize_go_no_go clock f ?ctx ?t = Inr (ho, db_business db')"
  proof (cases rule: transaction_Inr)
    case (executed ho b ids evs obs)
    then show ?thesis using h(1) that by (auto simp: decision_handlers_def run_decision_def assms(2) split: if_splits)
  qed (use assms(4) in simp)
  then show ?thesis
  proof (rule finalize_accepted [OF _ ok(1)], goal_cases)
    case prems: (1 r x ns r')
    have "length (context_rows r ?t) = 1" using ok(3) prems(1,3) by (simp add: ledger_inv_def row_inv_def)
    then obtain y where "context_rows r ?t = [y]" by (auto simp: length_Suc_conv)
    then have x: "context_rows r ?t = [x]" unfolding prems(9) contexts_of_rows [OF prems(2)] by simp
    obtain vid where v: "Option.bind (List.find (\<lambda>k. ck_tenant_id k = ?tid \<and> ck_id k = ld_case_id r) (dt_cases ?t)) ck_applicable_dce_version_id = Some vid"
      "\<forall>i \<in> set (referenced_requirements ?tid (lx_id x) ?t). \<exists>q \<in> set (dt_requirements ?t). \<exists>u \<in> set (dt_currents ?t). dq_id q = i \<and> dq_tenant_id q = ?tid
        \<and> dq_dce_version_id q = vid \<and> cu_tenant_id u = ?tid \<and> cu_requirement_id u = i \<and> cu_outcome u = ''CONFIRMED''"
      by (rule confirmed_requirements [OF ok(2) prems(16) [unfolded ctx]]) (rule that, assumption+)
    have id: "ld_id r = ?did" using prems(2) by (simp add: root_key_def)
    have new: "\<exists>r' \<in> set (dt_decisions (db_business db')). ld_id r' = ld_id r \<and> ld_lifecycle r' = ''FINALIZED''
        \<and> ld_outcome r' = qg_outcome f \<and> ld_selected_final_context_id r' = Some (lx_id x) \<and> ld_finalized_by_actor_id r' = Some (a_actor_id a)"
      using replaced_rows [OF _ prems(1,2), of r'] ok(1)
      by (intro bexI [of _ r']) (simp_all add: prems(17,19) finalized_root_def ctx tables_consistent_def)
    have conf: "\<forall>i \<in> set (referenced_requirements ?tid (lx_id x) ?t). \<exists>q \<in> set (dt_requirements ?t). \<exists>u \<in> set (dt_currents ?t). dq_id q = i
        \<and> dq_dce_version_id q = vid \<and> cu_requirement_id u = i \<and> cu_outcome u = ''CONFIRMED''" using v(2) by blast
    show ?case
      by (rule conjI [OF guard(1)], rule conjI [OF guard(2)], rule bexI [OF _ prems(1)], rule exI [of _ x], rule exI [of _ vid])
        (intro conjI id prems(3,10) x v(1) conf new)
  qed
qed

theorem decision_finalized_on_confirmed_witness:
  "\<exists>d db'. finalization_execute authorize ex_clock (\<lambda>_. []) ex_decision_call ex_verified_patron ex_finalize_command
      (ex_decision_db (ex_pending_tables [ex_requirement_reference 50 ''dce''])) = (Inr d, db')
    \<and> (\<exists>r' \<in> set (dt_decisions (db_business db')). ld_lifecycle r' = ''FINALIZED'' \<and> ld_outcome r' = ''GO'')"
proof -
  let ?t = "ex_pending_tables [ex_requirement_reference 50 ''dce'']" and ?t' = "(ex_pending_tables [ex_requirement_reference 50 ''dce''])\<lparr> dt_decisions := [ex_finalized_root] \<rparr>"
  obtain ho e where m: "finalize_go_no_go ex_clock ex_finalize ex_decision_context ?t = Inr (ho, ?t')" "ho_events ho = [e]"
    using ex_finalized by (auto simp: length_Suc_conv)
  have h: "\<exists>h. decision_handlers ex_clock ''FinalizeGoNoGoDecision'' = Some h \<and> h ex_finalize_command ex_decision_context of_nat ?t = Inr (ho, ?t')"
    using m(1) ex_finalize_valid by (simp add: decision_handlers_def run_decision_def ex_command_def)
  have c: "em_command_type ex_finalize_command = ''FinalizeGoNoGoDecision''" "em_body ex_finalize_command = FinalizeGoNoGoDecision ex_finalize"
    by (simp_all add: ex_command_def)
  have a: "z_allowed (authorize ex_verified_patron (decision_request ''decision.finalize'' ''DECISION'' 30 (a_tenant_id ex_verified_patron) 40 True 5))"
    by (simp add: authorize_allowed allowed_by_rules_def ex_verified_patron_def ex_patron_def decision_request_def patron_admin_capabilities_def minutes_def seconds_def)
  have k: "command_context_of ex_verified_patron ''PATRON_ADMIN'' 5 (Some 40) = ex_decision_context"
    "a_actor_kind ex_verified_patron = PATRON_ADMIN" by (simp_all add: ex_decision_context_def ex_verified_patron_def ex_patron_def)
  have t: "qg_decision_id ex_finalize = 30" "qg_case_id ex_finalize = 40" by (simp_all add: ex_finalize_def)
  obtain d db' where run: "finalization_execute authorize ex_clock (\<lambda>_. []) ex_decision_call ex_verified_patron ex_finalize_command (ex_decision_db ?t) = (Inr d, db')"
    "db_business db' = ?t'"
    using h m(2) a by (auto simp: finalization_execute_def c k t ex_decision_call_def dispatch_decision_def dispatch_def transaction_def
        find_receipt_def add_row_def ex_decision_db_def Let_def)
  have "ld_lifecycle ex_finalized_root \<noteq> ld_lifecycle ex_pending_root" by (simp add: finalized_root_def ex_pending_root_def)
  moreover have "dt_decisions (db_business db') = [ex_finalized_root]" "dt_decisions (db_business (ex_decision_db ?t)) = [ex_pending_root]"
    by (simp_all add: run(2) ex_decision_db_def ex_pending_tables_def)
  ultimately have "db_business db' \<noteq> db_business (ex_decision_db ?t)" by (metis list.inject)
  then have "\<exists>r' \<in> set (dt_decisions (db_business db')). ld_lifecycle r' = ''FINALIZED'' \<and> ld_outcome r' = qg_outcome ex_finalize"
    using decision_finalized_on_confirmed [OF _ c(2) run(1)] ex_pending_ok by (auto simp: ex_decision_db_def)
  then show ?thesis using run(1) by (auto simp: ex_finalize_def)
qed

text \<open>
  C13. A context that references one DCE requirement twice (under two roles) blocks its decision for good:
  the readiness check counts confirmed requirements against references, so that whatever happens later the
  decision stays pending, and every creation of a decision of its type for the same case and scope is refused,
  whether it names the scope or leaves it to the case: with DECISION_ALREADY_ACTIVE, or with STALE_CASE_SCOPE
  when the scope it names is not the case's.\<close>

theorem repeated_requirement_deadlocks:
  assumes "ledger_ok clock (db_business db)" "deadlocked did (db_business db)" "ledger_history dump clock db db'"
  shows "\<exists>r \<in> set (dt_decisions (db_business db')). ld_id r = did \<and> ld_lifecycle r = ''PENDING_PATRON''
    \<and> (\<forall>f ctx k. cc_tenant_id ctx = ld_tenant_id r \<and> active_case (cc_tenant_id ctx) (qc_case_id f) (db_business db') = Some k
        \<and> decision_key_hash (qc_case_id f) (qc_decision_type f) (lower (ck_scope_fingerprint k)) = ld_decision_key_hash r
        \<longrightarrow> create_decision f ctx (db_business db') = Inl (CommandExecutionError
             (case qc_scope_fingerprint f of
                Some s \<Rightarrow> if lower s = lower (ck_scope_fingerprint k) then ''DECISION_ALREADY_ACTIVE'' else ''STALE_CASE_SCOPE''
              | None \<Rightarrow> ''DECISION_ALREADY_ACTIVE'')))"
proof -
  obtain r where r: "r \<in> set (dt_decisions (db_business db'))" "ld_id r = did" "ld_lifecycle r = ''PENDING_PATRON''" "ld_validity r = ''CURRENT''"
    using history_deadlocked [OF assms(3,1,2)] unfolding deadlocked_def by blast
  have "active_decision_exists (ld_tenant_id r) (ld_decision_key_hash r) (db_business db')"
    using r by (auto simp: active_decision_exists_def list_ex_iff active_row_def)
  then have "create_decision f ctx (db_business db') = Inl (CommandExecutionError
             (case qc_scope_fingerprint f of
                Some s \<Rightarrow> if lower s = lower (ck_scope_fingerprint k) then ''DECISION_ALREADY_ACTIVE'' else ''STALE_CASE_SCOPE''
              | None \<Rightarrow> ''DECISION_ALREADY_ACTIVE''))"
    if "cc_tenant_id ctx = ld_tenant_id r" "active_case (cc_tenant_id ctx) (qc_case_id f) (db_business db') = Some k"
      "decision_key_hash (qc_case_id f) (qc_decision_type f) (lower (ck_scope_fingerprint k)) = ld_decision_key_hash r"
    for f ctx k using that by (auto simp: create_decision_def Let_def split: option.splits)
  then show ?thesis using r by blast
qed

text \<open>Such a context is accepted: nothing in the handler compares the references with each other.\<close>

lemma freeze_accepts_repeated:
  assumes "freeze_context clock f ctx t = Inr (ho, t')" "decision_command_valid (FreezeDecisionContext f)" "ledger_ok clock t"
    "\<not> distinct (map ni_aggregate_id (filter (\<lambda>n. ni_aggregate_type n = ''DCE_REQUIREMENT'') (qz_references f)))"
    "\<forall>r \<in> set (dt_references t). lr_decision_context_id r \<noteq> qz_context_id f"
    "\<forall>r \<in> set (dt_decisions t). ld_lifecycle r = ''DRAFT'' \<longrightarrow> ld_validity r = ''CURRENT''"
  shows "deadlocked (qz_decision_id f) t'"
proof -
  have con: "tables_consistent t" using assms(3) by (rule ledger_ok_facts)
  have eff: "ledger_effect clock ctx t t'" using assms(1,2) con by (rule freeze_context_effect)
  have fz: "dt_contexts t' = dt_contexts t @ [new_context clock f ctx]"
    "dt_references t' = dt_references t @ map (new_reference ctx (qz_context_id f)) (qz_references f)"
    using assms(1) by (auto simp: freeze_context_def Let_def insert_row_Inr split: option.splits if_splits sum.splits dest: insert_rows_Inr)
  obtain r where r: "r \<in> set (dt_decisions t')" "root_key (cc_tenant_id ctx) (qz_decision_id f) r"
    "ld_lifecycle r = ''PENDING_PATRON''" "ld_validity r = ''CURRENT''"
    using frozen_root_pending [OF assms(1) con] assms(6) by metis
  have "ledger_inv clock t'" using ledger_ok_facts(2) [OF assms(3) eff] by (simp add: ledger_ok_def)
  then have "length (context_rows r t') = 1" using r by (auto simp: ledger_inv_def row_inv_def)
  moreover have "new_context clock f ctx \<in> set (context_rows r t')" using r(2) by (simp add: context_rows_def fz(1) root_key_def new_context_def)
  ultimately have one: "context_rows r t' = [new_context clock f ctx]" by (auto simp: length_Suc_conv)
  have "map lr_aggregate_id (filter (\<lambda>q. lr_aggregate_type q = ''DCE_REQUIREMENT'') (map (new_reference ctx (qz_context_id f)) (qz_references f)))
      = map ni_aggregate_id (filter (\<lambda>n. ni_aggregate_type n = ''DCE_REQUIREMENT'') (qz_references f))"
    by (simp add: filter_map comp_def new_reference_def)
  then have "\<not> distinct (referenced_requirements (ld_tenant_id r) (lx_id (new_context clock f ctx)) t')"
    using assms(4) r(2) by (simp add: referenced_requirements_def fz(2) root_key_def new_context_def filter_map comp_def new_reference_def)
  then show ?thesis using r one by (auto simp: deadlocked_def root_key_def)
qed

theorem repeated_requirement_deadlocks_witness:
  "\<exists>r db'. dispatch (\<lambda>_. []) (decision_handlers ex_clock) [] (ex_decision_request ex_finalize_command)
      (ex_decision_db (ex_pending_tables [ex_requirement_reference 50 ''dce'', ex_requirement_reference 51 ''risk''])) = (r, db')
    \<and> (\<exists>q \<in> set (dt_decisions (db_business db')). ld_id q = 30 \<and> ld_lifecycle q = ''PENDING_PATRON'')"
proof -
  let ?t = "ex_pending_tables [ex_requirement_reference 50 ''dce'', ex_requirement_reference 51 ''risk'']"
  have t: "dt_decisions ?t = [ex_pending_root]" "dt_contexts ?t = [new_context ex_clock ex_freeze ex_decision_context]"
    "dt_references ?t = [ex_requirement_reference 50 ''dce'', ex_requirement_reference 51 ''risk'']" by (simp_all add: ex_pending_tables_def)
  have x: "context_rows ex_pending_root ?t = [new_context ex_clock ex_freeze ex_decision_context]"
    "lx_id (new_context ex_clock ex_freeze ex_decision_context) = 31" "ld_tenant_id ex_pending_root = 1" "ld_id ex_pending_root = 30"
    using ex_key by (simp_all add: context_rows_def t new_context_def ex_freeze_def root_key_def)
  have "\<not> distinct (referenced_requirements 1 31 ?t)" by (simp add: referenced_requirements_def t) (simp add: ex_requirement_reference_def)
  moreover have "ld_lifecycle ex_pending_root = ''PENDING_PATRON''" "ld_validity ex_pending_root = ''CURRENT''"
    by (simp_all add: ex_pending_root_def ex_root_def new_decision_def)
  ultimately have d: "deadlocked 30 (db_business (ex_decision_db ?t))" using x by (auto simp: deadlocked_def ex_decision_db_def t)
  have ok: "ledger_ok ex_clock (db_business (ex_decision_db ?t))" using ex_pending_ok by (simp add: ex_decision_db_def)
  obtain r db' where r: "dispatch (\<lambda>_. []) (decision_handlers ex_clock) [] (ex_decision_request ex_finalize_command) (ex_decision_db ?t) = (r, db')"
    by (rule prod.exhaust)
  have "ledger_history (\<lambda>_. []) ex_clock (ex_decision_db ?t) db'" using ledger_history.start r by (rule ledger_history.dispatched)
  then show ?thesis using repeated_requirement_deadlocks [OF ok d] r by blast
qed

text \<open>
  C17. A finalized decision keeps its verdict whatever happens later: through any history its outcome, its
  justification, the context it was taken on, who took it and when are those of the finalization, and its
  lifecycle stays FINALIZED; only the status of its conditions may move.\<close>

theorem ledger_verdict_permanent:
  assumes "ledger_ok clock (db_business db)" "r \<in> set (dt_decisions (db_business db))" "ld_lifecycle r = ''FINALIZED''"
    "ledger_history dump clock db db'"
  shows "\<exists>q \<in> set (dt_decisions (db_business db')). ld_id q = ld_id r \<and> ld_lifecycle q = ''FINALIZED'' \<and> ld_outcome q = ld_outcome r
    \<and> ld_final_justification q = ld_final_justification r \<and> ld_selected_final_context_id q = ld_selected_final_context_id r
    \<and> ld_finalized_by_actor_id q = ld_finalized_by_actor_id r \<and> ld_finalized_at q = ld_finalized_at r"
  using history_verdict [OF assms(4,1,2,3)] assms(3) by (auto simp: verdict_def)

theorem ledger_verdict_permanent_witness:
  "\<exists>r db'. dispatch (\<lambda>_. []) (decision_handlers ex_clock) [] (ex_decision_request (ex_command ''CreateDecision'' (CreateDecision ex_create)))
      (ex_decision_db ((ex_pending_tables [ex_requirement_reference 50 ''dce''])\<lparr> dt_decisions := [ex_finalized_root] \<rparr>)) = (r, db')
    \<and> (\<exists>q \<in> set (dt_decisions (db_business db')). ld_lifecycle q = ''FINALIZED'' \<and> ld_outcome q = ''GO'')"
proof -
  let ?t = "(ex_pending_tables [ex_requirement_reference 50 ''dce''])\<lparr> dt_decisions := [ex_finalized_root] \<rparr>"
  obtain ho where "finalize_go_no_go ex_clock ex_finalize ex_decision_context (ex_pending_tables [ex_requirement_reference 50 ''dce'']) = Inr (ho, ?t)"
    using ex_finalized by blast
  then have "ledger_effect ex_clock ex_decision_context (ex_pending_tables [ex_requirement_reference 50 ''dce'']) ?t"
    using ex_finalize_valid ledger_ok_facts(1) [OF ex_pending_ok] by (rule finalize_effect)
  then have ok: "ledger_ok ex_clock (db_business (ex_decision_db ?t))" using ledger_ok_facts(2) [OF ex_pending_ok] by (simp add: ex_decision_db_def)
  have m: "ex_finalized_root \<in> set (dt_decisions (db_business (ex_decision_db ?t)))" "ld_lifecycle ex_finalized_root = ''FINALIZED''"
    "ld_outcome ex_finalized_root = ''GO''" by (simp_all add: ex_decision_db_def finalized_root_def ex_finalize_def)
  obtain r db' where r: "dispatch (\<lambda>_. []) (decision_handlers ex_clock) [] (ex_decision_request (ex_command ''CreateDecision'' (CreateDecision ex_create)))
      (ex_decision_db ?t) = (r, db')" by (rule prod.exhaust)
  have "ledger_history (\<lambda>_. []) ex_clock (ex_decision_db ?t) db'" using ledger_history.start r by (rule ledger_history.dispatched)
  then show ?thesis using ledger_verdict_permanent [OF ok m(1,2)] m(3) r by auto
qed

end
