(* ===== verification/DecisionRisks.thy ===== *)
theory DecisionRisks
  imports DecisionTables
begin

text \<open>
  The risk register of a case: the commands and handlers of \<open>modules/decision/application/risk.py\<close> and
  \<open>risk_requirement.py\<close> over \<open>infrastructure/risk_repository.py\<close> and \<open>risk_requirement_repository.py\<close>. A risk
  is sourced from bytes of an extracted fragment, its treatment moves by appended transitions, and a link to
  a confirmed requirement opens a patron action (\<open>PatronActionWriter\<close> of \<open>modules/patron_action\<close>).

  \<open>wording\<close> is the fixed French text of that action, which no code reads.
\<close>

section \<open>Commands\<close>

record register_risk_fields =
  kr_risk_id :: uuid
  kr_case_id :: uuid
  kr_dce_version_id :: uuid
  kr_source_fragment_id :: uuid
  kr_category :: string
  kr_risk_code :: string
  kr_title :: string
  kr_statement :: string
  kr_severity :: string
  kr_likelihood :: string
  kr_source_excerpt :: string
  kr_source_locator :: "(string \<times> json) list"
  kr_start_byte_offset :: int
  kr_end_byte_offset :: int
  kr_due_at :: "instant option"

record transition_risk_fields =
  kt_risk_id :: uuid
  kt_case_id :: uuid
  kt_expected_revision :: int
  kt_to_treatment :: string
  kt_evidence_excerpt :: string
  kt_evidence_locator :: "(string \<times> json) list"
  kt_evidence_start_byte_offset :: int
  kt_evidence_end_byte_offset :: int
  kt_rationale :: string

record link_fields =
  kf_link_id :: uuid
  kf_case_id :: uuid
  kf_risk_id :: uuid
  kf_requirement_id :: uuid
  kf_dce_version_id :: uuid
  kf_relationship :: string
  kf_rationale :: string

datatype risk_command =
    RegisterStructuredRisk register_risk_fields
  | TransitionStructuredRiskTreatment transition_risk_fields
  | LinkRiskToRequirement link_fields

definition bounded_text :: "nat \<Rightarrow> string \<Rightarrow> bool" where
  "bounded_text hi s = (strip s = s \<and> 1 \<le> length s \<and> length s \<le> hi)"

fun risk_command_valid :: "risk_command \<Rightarrow> bool" where
  "risk_command_valid (RegisterStructuredRisk f) =
     (kr_category f \<in> {''CCAP'', ''CCTP''} \<and> bounded_text 100 (kr_risk_code f) \<and> bounded_text 240 (kr_title f)
      \<and> bounded_text 4000 (kr_statement f) \<and> kr_severity f \<in> {''LOW'', ''MEDIUM'', ''HIGH'', ''CRITICAL''}
      \<and> kr_likelihood f \<in> {''RARE'', ''POSSIBLE'', ''LIKELY'', ''ALMOST_CERTAIN''} \<and> bounded_text 2000 (kr_source_excerpt f)
      \<and> 0 \<le> kr_start_byte_offset f \<and> 0 < kr_end_byte_offset f)"
| "risk_command_valid (TransitionStructuredRiskTreatment f) =
     (1 \<le> kt_expected_revision f \<and> kt_to_treatment f \<in> {''ACCEPTED'', ''MITIGATED''} \<and> bounded_text 2000 (kt_evidence_excerpt f)
      \<and> 0 \<le> kt_evidence_start_byte_offset f \<and> 0 < kt_evidence_end_byte_offset f \<and> bounded_text 2000 (kt_rationale f))"
| "risk_command_valid (LinkRiskToRequirement f) =
     (kf_relationship f \<in> {''IMPACTS'', ''MITIGATES'', ''CONSTRAINS''} \<and> bounded_text 4000 (kf_rationale f))"

section \<open>Reading the case and the source\<close>

definition risk_case_exists :: "uuid \<Rightarrow> uuid \<Rightarrow> decision_tables \<Rightarrow> bool" where
  "risk_case_exists tid cid t = list_ex (\<lambda>k. ck_tenant_id k = tid \<and> ck_id k = cid) (dt_cases t)"

definition case_uses_dce_version :: "uuid \<Rightarrow> uuid \<Rightarrow> uuid \<Rightarrow> decision_tables \<Rightarrow> bool" where
  "case_uses_dce_version tid cid vid t =
     list_ex (\<lambda>k. ck_tenant_id k = tid \<and> ck_id k = cid \<and> ck_applicable_dce_version_id k = Some vid) (dt_cases t)"

text \<open>The fragment, joined with its completed extraction of the version.\<close>

definition source_fragment :: "uuid \<Rightarrow> uuid \<Rightarrow> uuid \<Rightarrow> decision_tables \<Rightarrow> fragment_row option" where
  "source_fragment tid vid fid t =
     List.find (\<lambda>f. fg_tenant_id f = tid \<and> fg_id f = fid
         \<and> list_ex (\<lambda>x. er_tenant_id x = fg_tenant_id f \<and> er_id x = fg_extraction_id f \<and> er_dce_version_id x = vid
               \<and> er_status x = ''COMPLETED'') (dt_extractions t)) (dt_fragments t)"

text \<open>\<open>source_supports\<close>: the bytes at the offsets decode to the excerpt, that is, are its encoding.\<close>

definition source_supports :: "uuid \<Rightarrow> uuid \<Rightarrow> uuid \<Rightarrow> string \<Rightarrow> int \<Rightarrow> int \<Rightarrow> decision_tables \<Rightarrow> bool" where
  "source_supports tid vid fid quote s e t =
     (case source_fragment tid vid fid t of None \<Rightarrow> False
      | Some f \<Rightarrow>
        (let bytes = utf8 (fg_text f) in
         0 \<le> s \<and> s < e \<and> e \<le> int (length bytes) \<and> take (nat (e - s)) (drop (nat s) bytes) = utf8 quote))"

section \<open>Registration\<close>

fun risk_category_of :: "string \<Rightarrow> risk_category" where
  "risk_category_of s = (if s = ''CCAP'' then CCAP else CCTP)"

fun risk_severity_of :: "string \<Rightarrow> risk_severity" where
  "risk_severity_of s = (if s = ''LOW'' then Severity_LOW else if s = ''MEDIUM'' then Severity_MEDIUM
     else if s = ''HIGH'' then Severity_HIGH else Severity_CRITICAL)"

fun risk_likelihood_of :: "string \<Rightarrow> risk_likelihood" where
  "risk_likelihood_of s = (if s = ''RARE'' then RARE else if s = ''POSSIBLE'' then POSSIBLE
     else if s = ''LIKELY'' then LIKELY else ALMOST_CERTAIN)"

definition structured_risk_of :: "register_risk_fields \<Rightarrow> structured_risk" where
  "structured_risk_of f = \<lparr> sr_category = risk_category_of (kr_category f), sr_risk_code = kr_risk_code f, sr_title = kr_title f,
     sr_statement = kr_statement f, sr_severity = risk_severity_of (kr_severity f),
     sr_likelihood = risk_likelihood_of (kr_likelihood f), sr_treatment = Treatment_OPEN,
     sr_source_excerpt = kr_source_excerpt f, sr_start_byte_offset = kr_start_byte_offset f,
     sr_end_byte_offset = kr_end_byte_offset f, sr_source_locator = kr_source_locator f \<rparr>"

definition risk_functional_key :: "register_risk_fields \<Rightarrow> string" where
  "risk_functional_key f = uuid_str (kr_case_id f) @ '':'' @ uuid_str (kr_dce_version_id f) @ '':''
     @ uuid_str (kr_source_fragment_id f) @ '':'' @ kr_risk_code f"

definition new_risk :: "register_risk_fields \<Rightarrow> 'c app_command \<Rightarrow> command_context \<Rightarrow> uuid \<Rightarrow> risk_row" where
  "new_risk f c ctx mid = \<lparr> ki_id = kr_risk_id f, ki_tenant_id = cc_tenant_id ctx, ki_case_id = kr_case_id f,
     ki_dce_version_id = kr_dce_version_id f, ki_source_fragment_id = kr_source_fragment_id f,
     ki_functional_key = risk_functional_key f, ki_category = kr_category f, ki_risk_code = kr_risk_code f,
     ki_title = kr_title f, ki_statement = kr_statement f, ki_severity = kr_severity f, ki_likelihood = kr_likelihood f,
     ki_treatment = ''OPEN'', ki_source_excerpt = kr_source_excerpt f, ki_source_locator = kr_source_locator f,
     ki_start_byte_offset = kr_start_byte_offset f, ki_end_byte_offset = kr_end_byte_offset f,
     ki_actor_id = cc_actor_id ctx, ki_membership_id = mid, ki_command_id = em_command_id c,
     ki_idempotency_key = em_idempotency_key c, ki_correlation_id = cc_correlation_id ctx, ki_due_at = kr_due_at f \<rparr>"

definition risk_ref :: "string \<Rightarrow> uuid \<Rightarrow> int \<Rightarrow> json" where
  "risk_ref aggregate u revn = JObj [(''aggregate_type'', JStr aggregate), (''aggregate_id'', JStr (uuid_str u)),
     (''aggregate_revision'', JInt revn)]"

definition risk_event :: "string \<Rightarrow> uuid \<Rightarrow> int \<Rightarrow> string \<Rightarrow> (string \<times> json) list \<Rightarrow> pending_event" where
  "risk_event aggregate u revn etype payload = \<lparr> pe_aggregate_type = aggregate, pe_aggregate_id = u,
     pe_aggregate_revision = revn, pe_event_type = etype, pe_payload = payload,
     pe_topic = ''cockpit_projection'', pe_payload_version = 1 \<rparr>"

text \<open>The guard that the three handlers share.\<close>

definition patron_member :: "command_context \<Rightarrow> exn + uuid" where
  "patron_member ctx =
     (case cc_membership_id ctx of
        Some mid \<Rightarrow> if cc_actor_kind ctx = ''PATRON_ADMIN'' then Inr mid else Inl (CommandExecutionError ''PATRON_REQUIRED'')
      | None \<Rightarrow> Inl (CommandExecutionError ''PATRON_REQUIRED''))"

definition register_risk ::
  "register_risk_fields \<Rightarrow> 'c app_command \<Rightarrow> command_context \<Rightarrow> decision_tables \<Rightarrow> exn + (handler_outcome \<times> decision_tables)" where
  "register_risk f c ctx t =
     (let tid = cc_tenant_id ctx in
      case patron_member ctx of Inl e \<Rightarrow> Inl e | Inr mid \<Rightarrow>
      if \<not> risk_case_exists tid (kr_case_id f) t then Inl (CommandExecutionError ''NOT_FOUND_OR_FORBIDDEN'')
      else if \<not> case_uses_dce_version tid (kr_case_id f) (kr_dce_version_id f) t then Inl (CommandExecutionError ''STALE_DCE_CONTEXT'')
      else if source_fragment tid (kr_dce_version_id f) (kr_source_fragment_id f) t = None
        then Inl (CommandExecutionError ''SOURCE_FRAGMENT_NOT_FOUND_OR_FORBIDDEN'')
      else if \<not> source_supports tid (kr_dce_version_id f) (kr_source_fragment_id f) (kr_source_excerpt f)
                  (kr_start_byte_offset f) (kr_end_byte_offset f) t
        then Inl (CommandExecutionError ''SOURCE_PROVENANCE_MISMATCH'')
      else (case StructuredRisk_validate (structured_risk_of f) of Some m \<Rightarrow> Inl (ValueError m) | None \<Rightarrow>
        if list_ex (\<lambda>r. ki_tenant_id r = tid \<and> ki_functional_key r = risk_functional_key f) (dt_risks t)
          then Inl (CommandExecutionError ''RISK_ALREADY_REGISTERED'')
        else if \<not> risk_fits (new_risk f c ctx mid) then Inl (RuntimeError ''value too long for type character varying'')
        else (case insert_row risk_check risk_clash (new_risk f c ctx mid) (dt_risks t) of Inl e \<Rightarrow> Inl e | Inr rows \<Rightarrow>
          Inr (\<lparr> ho_result_code = ''DECISION_RISK_REGISTERED'', ho_aggregate_refs = [risk_ref ''DecisionRisk'' (kr_risk_id f) 1],
                 ho_events = [risk_event ''DecisionRisk'' (kr_risk_id f) 1 ''DecisionRiskRegistered''
                   [(''risk_id'', JStr (uuid_str (kr_risk_id f))), (''case_id'', JStr (uuid_str (kr_case_id f))),
                    (''category'', JStr (kr_category f)), (''severity'', JStr (kr_severity f))]] \<rparr>,
               t\<lparr> dt_risks := rows \<rparr>))))"

section \<open>Treatment\<close>

fun treatment_of :: "string \<Rightarrow> risk_treatment option" where
  "treatment_of s = (if s = ''OPEN'' then Some Treatment_OPEN else if s = ''ACCEPTED'' then Some Treatment_ACCEPTED
     else if s = ''MITIGATED'' then Some Treatment_MITIGATED else None)"

definition treatments_of :: "uuid \<Rightarrow> uuid \<Rightarrow> decision_tables \<Rightarrow> risk_transition_row list" where
  "treatments_of tid rid t = filter (\<lambda>x. kx_tenant_id x = tid \<and> kx_risk_id x = rid) (dt_risk_transitions t)"

definition latest_treatment :: "uuid \<Rightarrow> uuid \<Rightarrow> decision_tables \<Rightarrow> risk_transition_row option" where
  "latest_treatment tid rid t = first_max kx_aggregate_revision (treatments_of tid rid t)"

definition current_treatment :: "risk_row \<Rightarrow> decision_tables \<Rightarrow> string \<times> int" where
  "current_treatment r t =
     (case latest_treatment (ki_tenant_id r) (ki_id r) t of
        None \<Rightarrow> (ki_treatment r, 1) | Some x \<Rightarrow> (kx_to_treatment x, kx_aggregate_revision x))"

definition new_treatment :: "transition_risk_fields \<Rightarrow> 'c app_command \<Rightarrow> command_context \<Rightarrow> uuid \<Rightarrow> string \<Rightarrow> int \<Rightarrow> risk_transition_row" where
  "new_treatment f c ctx mid from_treatment revn = \<lparr> kx_id = em_command_id c, kx_tenant_id = cc_tenant_id ctx, kx_risk_id = kt_risk_id f,
     kx_from_treatment = from_treatment, kx_to_treatment = kt_to_treatment f, kx_evidence_excerpt = kt_evidence_excerpt f,
     kx_evidence_locator = kt_evidence_locator f, kx_evidence_start_byte_offset = kt_evidence_start_byte_offset f,
     kx_evidence_end_byte_offset = kt_evidence_end_byte_offset f, kx_rationale = kt_rationale f, kx_aggregate_revision = revn,
     kx_actor_id = cc_actor_id ctx, kx_membership_id = mid, kx_command_id = em_command_id c,
     kx_idempotency_key = em_idempotency_key c, kx_correlation_id = cc_correlation_id ctx \<rparr>"

text \<open>The rule on the treatments, with the conversions that can fail before it.\<close>

definition treatment_allowed :: "string \<Rightarrow> string \<Rightarrow> bool" where
  "treatment_allowed from_treatment to_treatment =
     (case (treatment_of from_treatment, treatment_of to_treatment) of
        (Some a, Some b) \<Rightarrow> validate_risk_treatment_transition a b | _ \<Rightarrow> False)"

text \<open>\<open>transition\<close> of the repository reads the risk and its latest transition again.\<close>

definition append_treatment :: "risk_transition_row \<Rightarrow> decision_tables \<Rightarrow> exn + decision_tables" where
  "append_treatment x t =
     (case List.find (\<lambda>r. ki_tenant_id r = kx_tenant_id x \<and> ki_id r = kx_risk_id x) (dt_risks t) of
        None \<Rightarrow> Inl (ValueError ''RISK_NOT_FOUND_OR_FORBIDDEN'')
      | Some r \<Rightarrow>
        (let (treatment, revn) = current_treatment r t in
         if treatment \<noteq> kx_from_treatment x then Inl (ValueError ''RISK_TREATMENT_NOT_CURRENT'')
         else if revn + 1 \<noteq> kx_aggregate_revision x then Inl (ValueError ''RISK_REVISION_CONFLICT'')
         else (case insert_row kx_check kx_clash x (dt_risk_transitions t) of Inl e \<Rightarrow> Inl e | Inr rows \<Rightarrow>
           Inr (t\<lparr> dt_risk_transitions := rows \<rparr>))))"

definition as_execution_error :: "exn \<Rightarrow> exn" where
  "as_execution_error e = (case e of ValueError m \<Rightarrow> CommandExecutionError m | _ \<Rightarrow> e)"

definition transition_risk ::
  "transition_risk_fields \<Rightarrow> 'c app_command \<Rightarrow> command_context \<Rightarrow> decision_tables \<Rightarrow> exn + (handler_outcome \<times> decision_tables)" where
  "transition_risk f c ctx t =
     (let tid = cc_tenant_id ctx in
      case patron_member ctx of Inl e \<Rightarrow> Inl e | Inr mid \<Rightarrow>
      (case List.find (\<lambda>r. ki_tenant_id r = tid \<and> ki_case_id r = kt_case_id f \<and> ki_id r = kt_risk_id f) (dt_risks t) of
         None \<Rightarrow> Inl (CommandExecutionError ''RISK_NOT_FOUND_OR_FORBIDDEN'')
       | Some r \<Rightarrow>
         (let (treatment, revn) = current_treatment r t in
          if revn \<noteq> kt_expected_revision f then Inl (CommandExecutionError ''RISK_REVISION_CONFLICT'')
          else if \<not> treatment_allowed treatment (kt_to_treatment f) then Inl (CommandExecutionError ''INVALID_RISK_TREATMENT_TRANSITION'')
          else if \<not> source_supports tid (ki_dce_version_id r) (ki_source_fragment_id r) (kt_evidence_excerpt f)
                      (kt_evidence_start_byte_offset f) (kt_evidence_end_byte_offset f) t
            then Inl (CommandExecutionError ''SOURCE_PROVENANCE_MISMATCH'')
          else (case append_treatment (new_treatment f c ctx mid treatment (revn + 1)) t of
             Inl e \<Rightarrow> Inl (as_execution_error e)
           | Inr t' \<Rightarrow>
             Inr (\<lparr> ho_result_code = ''DECISION_RISK_TREATMENT_TRANSITIONED'',
                    ho_aggregate_refs = [risk_ref ''DecisionRisk'' (kt_risk_id f) (revn + 1)],
                    ho_events = [risk_event ''DecisionRisk'' (kt_risk_id f) (revn + 1) ''DecisionRiskTreatmentTransitioned''
                      [(''risk_id'', JStr (uuid_str (kt_risk_id f))), (''case_id'', JStr (uuid_str (kt_case_id f))),
                       (''from_treatment'', JStr treatment), (''to_treatment'', JStr (kt_to_treatment f)),
                       (''revision'', JInt (revn + 1))]] \<rparr>, t')))))"

section \<open>Links to requirements\<close>

definition risk_matches_case_and_version :: "uuid \<Rightarrow> uuid \<Rightarrow> uuid \<Rightarrow> uuid \<Rightarrow> decision_tables \<Rightarrow> bool" where
  "risk_matches_case_and_version tid rid cid vid t =
     list_ex (\<lambda>r. ki_tenant_id r = tid \<and> ki_id r = rid \<and> ki_case_id r = cid \<and> ki_dce_version_id r = vid) (dt_risks t)"

definition requirement_is_confirmed :: "uuid \<Rightarrow> uuid \<Rightarrow> uuid \<Rightarrow> decision_tables \<Rightarrow> bool" where
  "requirement_is_confirmed tid qid vid t =
     list_ex (\<lambda>q. dq_tenant_id q = tid \<and> dq_id q = qid \<and> dq_dce_version_id q = vid
        \<and> list_ex (\<lambda>u. cu_tenant_id u = dq_tenant_id q \<and> cu_requirement_id u = dq_id q \<and> cu_outcome u = ''CONFIRMED'') (dt_currents t))
       (dt_requirements t)"

fun relation_of :: "string \<Rightarrow> risk_requirement_relation" where
  "relation_of s = (if s = ''IMPACTS'' then IMPACTS else if s = ''MITIGATES'' then MITIGATES else CONSTRAINS)"

definition link_functional_key :: "link_fields \<Rightarrow> string" where
  "link_functional_key f = uuid_str (kf_case_id f) @ '':'' @ uuid_str (kf_dce_version_id f) @ '':'' @ uuid_str (kf_risk_id f)
     @ '':'' @ uuid_str (kf_requirement_id f) @ '':'' @ kf_relationship f"

definition new_link :: "link_fields \<Rightarrow> 'c app_command \<Rightarrow> command_context \<Rightarrow> uuid \<Rightarrow> risk_link_row" where
  "new_link f c ctx mid = \<lparr> kl_id = kf_link_id f, kl_tenant_id = cc_tenant_id ctx, kl_case_id = kf_case_id f,
     kl_risk_id = kf_risk_id f, kl_requirement_id = kf_requirement_id f, kl_dce_version_id = kf_dce_version_id f,
     kl_functional_key = link_functional_key f, kl_relationship = kf_relationship f, kl_rationale = kf_rationale f,
     kl_source_refs = [''decision-risk:'' @ uuid_str (kf_risk_id f), ''dce-requirement:'' @ uuid_str (kf_requirement_id f)],
     kl_actor_id = cc_actor_id ctx, kl_membership_id = mid, kl_command_id = em_command_id c,
     kl_idempotency_key = em_idempotency_key c, kl_correlation_id = cc_correlation_id ctx \<rparr>"

record link_wording =
  lw_title :: string
  lw_why_now :: string
  lw_impact :: string
  lw_recommended_action :: string

definition risk_link_action_key :: "uuid \<Rightarrow> string" where
  "risk_link_action_key lid = ''decision-risk-requirement:'' @ uuid_str lid"

definition link_action :: "link_wording \<Rightarrow> link_fields \<Rightarrow> 'c app_command \<Rightarrow> command_context \<Rightarrow> uuid \<Rightarrow> pa_row" where
  "link_action wording f c ctx mid = \<lparr> pa_id = kf_link_id f, pa_tenant_id = cc_tenant_id ctx, pa_case_id = Some (kf_case_id f),
     pa_functional_key = risk_link_action_key (kf_link_id f), pa_action_type = ''DECIDE_GO_NO_GO'', pa_severity = ''BLOCKING'',
     pa_state = ''OPEN'', pa_title = lw_title wording, pa_why_now = lw_why_now wording, pa_impact = lw_impact wording,
     pa_recommended_action = lw_recommended_action wording, pa_due_at = None,
     pa_source_refs = [''decision-risk:'' @ uuid_str (kf_risk_id f), ''dce-requirement:'' @ uuid_str (kf_requirement_id f),
       ''decision-risk-requirement-link:'' @ uuid_str (kf_link_id f)],
     pa_aggregate_revision = 1, pa_actor_id = cc_actor_id ctx, pa_membership_id = mid, pa_command_id = em_command_id c,
     pa_idempotency_key = em_idempotency_key c, pa_correlation_id = cc_correlation_id ctx \<rparr>"

text \<open>\<open>create_from_risk_requirement_link\<close>: nothing when an action of that key exists.\<close>

definition create_from_link :: "pa_row \<Rightarrow> pa_tables \<Rightarrow> exn + (pa_row option \<times> pa_tables)" where
  "create_from_link r b =
     (if find_action_key (pa_tenant_id r) (pa_functional_key r) (pa_actions b) \<noteq> None then Inr (None, b)
      else (case insert_row pa_check pa_clash r (pa_actions b) of Inl e \<Rightarrow> Inl e | Inr rows \<Rightarrow>
        Inr (Some r, b\<lparr> pa_actions := rows \<rparr>)))"

definition link_events :: "link_fields \<Rightarrow> pa_row option \<Rightarrow> pending_event list" where
  "link_events f action =
     risk_event ''DecisionRiskRequirementLink'' (kf_link_id f) 1 ''DecisionRiskRequirementLinked''
       [(''link_id'', JStr (uuid_str (kf_link_id f))), (''case_id'', JStr (uuid_str (kf_case_id f))),
        (''risk_id'', JStr (uuid_str (kf_risk_id f))), (''requirement_id'', JStr (uuid_str (kf_requirement_id f))),
        (''relationship'', JStr (kf_relationship f))]
     # (case action of None \<Rightarrow> [] | Some r \<Rightarrow>
       [action_event (pa_id r) (pa_aggregate_revision r) ''PatronActionCreated''
         [(''action_id'', JStr (uuid_str (pa_id r))), (''case_id'', JStr (uuid_str (kf_case_id f))),
          (''action_type'', JStr ''DECIDE_GO_NO_GO''), (''severity'', JStr ''BLOCKING''), (''state'', JStr ''OPEN'')]])"

definition link_risk ::
  "link_wording \<Rightarrow> link_fields \<Rightarrow> 'c app_command \<Rightarrow> command_context \<Rightarrow> decision_tables \<Rightarrow> exn + (handler_outcome \<times> decision_tables)" where
  "link_risk wording f c ctx t =
     (let tid = cc_tenant_id ctx in
      case patron_member ctx of Inl e \<Rightarrow> Inl e | Inr mid \<Rightarrow>
      if \<not> risk_case_exists tid (kf_case_id f) t then Inl (CommandExecutionError ''NOT_FOUND_OR_FORBIDDEN'')
      else if \<not> case_uses_dce_version tid (kf_case_id f) (kf_dce_version_id f) t then Inl (CommandExecutionError ''STALE_DCE_CONTEXT'')
      else if \<not> risk_matches_case_and_version tid (kf_risk_id f) (kf_case_id f) (kf_dce_version_id f) t
        then Inl (CommandExecutionError ''RISK_NOT_FOUND_OR_FORBIDDEN'')
      else if \<not> requirement_is_confirmed tid (kf_requirement_id f) (kf_dce_version_id f) t
        then Inl (CommandExecutionError ''DCE_REQUIREMENT_NOT_CONFIRMED'')
      else (case RiskRequirementLink_validate \<lparr> rl_risk_id = kf_risk_id f, rl_requirement_id = kf_requirement_id f,
                   rl_relationship = relation_of (kf_relationship f), rl_rationale = kf_rationale f \<rparr> of
         Some m \<Rightarrow> Inl (ValueError m)
       | None \<Rightarrow>
         if list_ex (\<lambda>l. kl_tenant_id l = tid \<and> kl_functional_key l = link_functional_key f) (dt_links t)
           then Inl (CommandExecutionError ''RISK_REQUIREMENT_LINK_ALREADY_EXISTS'')
         else (case insert_row kl_check kl_clash (new_link f c ctx mid) (dt_links t) of Inl e \<Rightarrow> Inl e | Inr rows \<Rightarrow>
           (case create_from_link (link_action wording f c ctx mid) (dt_patron t) of Inl e \<Rightarrow> Inl e | Inr (action, b) \<Rightarrow>
             Inr (\<lparr> ho_result_code = ''DECISION_RISK_REQUIREMENT_LINKED'',
                    ho_aggregate_refs = risk_ref ''DecisionRiskRequirementLink'' (kf_link_id f) 1
                      # (case action of None \<Rightarrow> [] | Some r \<Rightarrow> [action_ref (pa_id r) (pa_aggregate_revision r)]),
                    ho_events = link_events f action \<rparr>,
                  t\<lparr> dt_links := rows, dt_patron := b \<rparr>)))))"

section \<open>The handlers and the services\<close>

definition run_risk ::
  "link_wording \<Rightarrow> risk_command app_command \<Rightarrow> command_context \<Rightarrow> decision_tables \<Rightarrow> exn + (handler_outcome \<times> decision_tables)" where
  "run_risk wording c ctx t =
     (case em_body c of
        RegisterStructuredRisk f \<Rightarrow> register_risk f c ctx t
      | TransitionStructuredRiskTreatment f \<Rightarrow> transition_risk f c ctx t
      | LinkRiskToRequirement f \<Rightarrow> link_risk wording f c ctx t)"

fun risk_command_type :: "risk_command \<Rightarrow> string" where
  "risk_command_type (RegisterStructuredRisk f) = ''RegisterStructuredRisk''"
| "risk_command_type (TransitionStructuredRiskTreatment f) = ''TransitionStructuredRiskTreatment''"
| "risk_command_type (LinkRiskToRequirement f) = ''LinkRiskToRequirement''"

definition risk_handlers :: "link_wording \<Rightarrow> string \<Rightarrow> (risk_command, decision_tables) handler option" where
  "risk_handlers wording ctype =
     (if ctype \<in> {''RegisterStructuredRisk'', ''TransitionStructuredRiskTreatment'', ''LinkRiskToRequirement''}
      then Some (\<lambda>c ctx fresh t.
        if risk_command_type (em_body c) \<noteq> ctype \<or> \<not> risk_command_valid (em_body c) then Inl KeyError
        else run_risk wording c ctx t)
      else None)"

fun risk_target :: "risk_command \<Rightarrow> string \<times> string \<times> uuid \<times> uuid" where
  "risk_target (RegisterStructuredRisk f) = (''decision.risk.write'', ''CASE_RISK_REGISTER'', kr_case_id f, kr_case_id f)"
| "risk_target (TransitionStructuredRiskTreatment f) = (''decision.risk.write'', ''CASE_RISK_REGISTER'', kt_case_id f, kt_case_id f)"
| "risk_target (LinkRiskToRequirement f) =
     (''decision.risk.link.write'', ''CASE_RISK_REQUIREMENT_LINK'', kf_link_id f, kf_case_id f)"

text \<open>\<open>PatronDecisionRiskService\<close>, \<open>PatronDecisionRiskTreatmentService\<close> and \<open>PatronDecisionRiskRequirementService\<close>.\<close>

definition risk_execute ::
  "(actor_context \<Rightarrow> authorization_request \<Rightarrow> authorization_decision) \<Rightarrow> link_wording
   \<Rightarrow> (risk_command app_command \<Rightarrow> (string \<times> json) list) \<Rightarrow> service_call \<Rightarrow> actor_context \<Rightarrow> risk_command app_command
   \<Rightarrow> decision_tables platform_db \<Rightarrow> (exn + dispatch_result) \<times> decision_tables platform_db" where
  "risk_execute policy wording dump sc a c db =
     (let (action, rtype, rid, cid) = risk_target (em_body c) in
      if a_actor_kind a \<noteq> PATRON_ADMIN then (Inl (PermissionError ''PATRON_REQUIRED''), db)
      else
        (let d = policy a \<lparr> q_action = action,
             q_resource = \<lparr> z_resource_type = rtype, z_resource_id = rid, z_tenant_id = a_tenant_id a,
               z_classification = INTERNAL_OPERATIONAL, z_case_id = Some cid \<rparr>,
             q_mfa_required = False, q_evaluated_at = Some (sc_now sc) \<rparr> in
         if \<not> z_allowed d then (Inl (PermissionError (z_code d)), db)
         else dispatch dump (risk_handlers wording) (sc_seen sc)
           \<lparr> rq_command = c, rq_context = command_context_of a (actor_kind_value (a_actor_kind a)) (sc_now sc) (Some cid),
              rq_fresh = sc_fresh sc, rq_handler_fresh = sc_handler_fresh sc, rq_now = sc_now sc \<rparr> db))"

end
