(* ===== verification/RiskClaims.thy ===== *)
theory RiskClaims
  imports DecisionRisks
begin

text \<open>
  The risk register over histories of dispatched commands: every risk and every treatment is supported by
  bytes of the fragment it names, treatments form an unbroken chain of allowed moves, every link has its
  risk and its patron action; and the length of a risk code that the register can really hold.
\<close>

section \<open>The invariant\<close>

text \<open>From a treatment and a revision, the transitions lead to a treatment and a revision.\<close>

fun treatment_history :: "string \<Rightarrow> int \<Rightarrow> risk_transition_row list \<Rightarrow> string \<Rightarrow> int \<Rightarrow> bool" where
  "treatment_history s n [] s' n' = (s' = s \<and> n' = n)"
| "treatment_history s n (x # xs) s' n' =
     (kx_from_treatment x = s \<and> treatment_allowed s (kx_to_treatment x) \<and> kx_aggregate_revision x = n + 1
      \<and> treatment_history (kx_to_treatment x) (n + 1) xs s' n')"

definition risk_traced :: "decision_tables \<Rightarrow> risk_row \<Rightarrow> bool" where
  "risk_traced t r =
     (source_supports (ki_tenant_id r) (ki_dce_version_id r) (ki_source_fragment_id r) (ki_source_excerpt r)
        (ki_start_byte_offset r) (ki_end_byte_offset r) t
      \<and> (\<exists>s n. treatment_history ''OPEN'' 1 (treatments_of (ki_tenant_id r) (ki_id r) t) s n))"

definition treatment_traced :: "decision_tables \<Rightarrow> risk_transition_row \<Rightarrow> bool" where
  "treatment_traced t x =
     (\<exists>r \<in> set (dt_risks t). ki_tenant_id r = kx_tenant_id x \<and> ki_id r = kx_risk_id x
        \<and> source_supports (ki_tenant_id r) (ki_dce_version_id r) (ki_source_fragment_id r) (kx_evidence_excerpt x)
            (kx_evidence_start_byte_offset x) (kx_evidence_end_byte_offset x) t)"

definition link_traced :: "decision_tables \<Rightarrow> risk_link_row \<Rightarrow> bool" where
  "link_traced t l =
     ((\<exists>r \<in> set (dt_risks t). ki_tenant_id r = kl_tenant_id l \<and> ki_id r = kl_risk_id l \<and> ki_case_id r = kl_case_id l
         \<and> ki_dce_version_id r = kl_dce_version_id l)
      \<and> (\<exists>a \<in> set (pa_actions (dt_patron t)). pa_tenant_id a = kl_tenant_id l \<and> pa_functional_key a = risk_link_action_key (kl_id l)))"

definition risk_inv :: "decision_tables \<Rightarrow> bool" where
  "risk_inv t =
     (distinct (map ki_id (dt_risks t)) \<and> (\<forall>r \<in> set (dt_risks t). ki_treatment r = ''OPEN'' \<and> risk_traced t r)
      \<and> (\<forall>x \<in> set (dt_risk_transitions t). treatment_traced t x) \<and> (\<forall>l \<in> set (dt_links t). link_traced t l))"

section \<open>Treatment histories\<close>

lemma treatment_history_snoc:
  "treatment_history s n (xs @ [x]) s' n' \<longleftrightarrow>
     (\<exists>m k. treatment_history s n xs m k \<and> kx_from_treatment x = m \<and> treatment_allowed m (kx_to_treatment x)
        \<and> kx_aggregate_revision x = k + 1 \<and> s' = kx_to_treatment x \<and> n' = k + 1)"
  by (induction xs arbitrary: s n) auto

lemma treatment_history_bound: "treatment_history s n xs s' n' \<Longrightarrow> \<forall>x \<in> set xs. n < kx_aggregate_revision x"
proof (induction xs arbitrary: s n)
  case (Cons x xs)
  then have "\<forall>y \<in> set xs. n + 1 < kx_aggregate_revision y" by auto
  then show ?case using Cons.prems by auto
qed simp

lemma treatment_history_sorted:
  "treatment_history s n xs s' n' \<Longrightarrow> sorted_wrt (\<lambda>a b. kx_aggregate_revision a < kx_aggregate_revision b) xs"
  by (induction xs arbitrary: s n) (auto dest: treatment_history_bound)

lemma treatment_history_last:
  "treatment_history s n xs s' n' \<Longrightarrow> xs \<noteq> [] \<Longrightarrow> kx_to_treatment (last xs) = s' \<and> kx_aggregate_revision (last xs) = n'"
  by (induction xs rule: rev_induct) (auto simp: treatment_history_snoc)

text \<open>So the latest transition is the end of the history.\<close>

lemma current_is_end:
  assumes "treatment_history ''OPEN'' 1 (treatments_of (ki_tenant_id r) (ki_id r) t) s n" "ki_treatment r = ''OPEN''"
  shows "current_treatment r t = (s, n)"
proof (cases "treatments_of (ki_tenant_id r) (ki_id r) t = []")
  case True
  then show ?thesis using assms by (simp add: current_treatment_def latest_treatment_def)
next
  case False
  then show ?thesis using first_max_sorted [OF treatment_history_sorted [OF assms(1)]] treatment_history_last [OF assms(1)]
    by (simp add: current_treatment_def latest_treatment_def)
qed

section \<open>What the handlers write\<close>

lemma source_supports_cong:
  "dt_fragments t' = dt_fragments t \<Longrightarrow> dt_extractions t' = dt_extractions t \<Longrightarrow>
     source_supports tid vid fid quote s e t' = source_supports tid vid fid quote s e t"
  by (simp add: source_supports_def source_fragment_def)

lemma patron_member_Inr: "patron_member ctx = Inr mid \<longleftrightarrow> cc_membership_id ctx = Some mid \<and> cc_actor_kind ctx = ''PATRON_ADMIN''"
  by (auto simp: patron_member_def split: option.splits if_splits)

lemma register_risk_accepted:
  assumes "register_risk f c ctx t = Inr (ho, t')"
  obtains mid where "t' = t\<lparr> dt_risks := dt_risks t @ [new_risk f c ctx mid] \<rparr>"
    "source_supports (cc_tenant_id ctx) (kr_dce_version_id f) (kr_source_fragment_id f) (kr_source_excerpt f)
       (kr_start_byte_offset f) (kr_end_byte_offset f) t"
    "risk_fits (new_risk f c ctx mid)" "\<forall>r \<in> set (dt_risks t). ki_id r \<noteq> kr_risk_id f"
proof -
  obtain mid where m: "patron_member ctx = Inr mid" using assms by (auto simp: register_risk_def Let_def split: sum.splits)
  note run = assms [unfolded register_risk_def Let_def m sum.case]
  obtain rows where r: "source_supports (cc_tenant_id ctx) (kr_dce_version_id f) (kr_source_fragment_id f) (kr_source_excerpt f)
       (kr_start_byte_offset f) (kr_end_byte_offset f) t" "risk_fits (new_risk f c ctx mid)"
    "insert_row risk_check risk_clash (new_risk f c ctx mid) (dt_risks t) = Inr rows" "t' = t\<lparr> dt_risks := rows \<rparr>"
    using run by (auto split: if_splits option.splits sum.splits)
  show thesis
    by (rule that [OF _ r(1,2)]) (use r(3,4) in \<open>auto simp: insert_row_Inr risk_clash_def new_risk_def\<close>)
qed

lemma transition_risk_accepted:
  assumes "transition_risk f c ctx t = Inr (ho, t')"
  obtains r mid s n where "r \<in> set (dt_risks t)" "ki_tenant_id r = cc_tenant_id ctx" "ki_id r = kt_risk_id f"
    "current_treatment r t = (s, n)" "treatment_allowed s (kt_to_treatment f)"
    "source_supports (cc_tenant_id ctx) (ki_dce_version_id r) (ki_source_fragment_id r) (kt_evidence_excerpt f)
       (kt_evidence_start_byte_offset f) (kt_evidence_end_byte_offset f) t"
    "t' = t\<lparr> dt_risk_transitions := dt_risk_transitions t @ [new_treatment f c ctx mid s (n + 1)] \<rparr>"
proof -
  obtain mid where m: "patron_member ctx = Inr mid" using assms by (auto simp: transition_risk_def Let_def split: sum.splits)
  let ?find = "List.find (\<lambda>r. ki_tenant_id r = cc_tenant_id ctx \<and> ki_case_id r = kt_case_id f \<and> ki_id r = kt_risk_id f) (dt_risks t)"
  obtain r where r: "?find = Some r" using assms by (cases ?find) (auto simp: transition_risk_def Let_def m)
  obtain s n where sn: "current_treatment r t = (s, n)" by (rule prod.exhaust)
  note run = assms [unfolded transition_risk_def Let_def m sum.case r option.case sn prod.case]
  have rin: "r \<in> set (dt_risks t)" "ki_tenant_id r = cc_tenant_id ctx" "ki_id r = kt_risk_id f" using r by (auto simp: find_Some_iff)
  have a: "treatment_allowed s (kt_to_treatment f)"
    "source_supports (cc_tenant_id ctx) (ki_dce_version_id r) (ki_source_fragment_id r) (kt_evidence_excerpt f)
       (kt_evidence_start_byte_offset f) (kt_evidence_end_byte_offset f) t"
    "append_treatment (new_treatment f c ctx mid s (n + 1)) t = Inr t'"
    using run by (auto split: if_splits sum.splits)
  have "t' = t\<lparr> dt_risk_transitions := dt_risk_transitions t @ [new_treatment f c ctx mid s (n + 1)] \<rparr>"
    using a(3) by (auto simp: append_treatment_def insert_row_Inr split: option.splits if_splits sum.splits prod.splits)
  then show thesis by (rule that [OF rin sn a(1,2)])
qed

lemma link_risk_accepted:
  assumes "link_risk wording f c ctx t = Inr (ho, t')"
  obtains mid b where "t' = t\<lparr> dt_links := dt_links t @ [new_link f c ctx mid], dt_patron := b \<rparr>"
    "risk_matches_case_and_version (cc_tenant_id ctx) (kf_risk_id f) (kf_case_id f) (kf_dce_version_id f) t"
    "set (pa_actions (dt_patron t)) \<subseteq> set (pa_actions b)"
    "\<exists>a \<in> set (pa_actions b). pa_tenant_id a = cc_tenant_id ctx \<and> pa_functional_key a = risk_link_action_key (kf_link_id f)"
proof -
  obtain mid where m: "patron_member ctx = Inr mid" using assms by (auto simp: link_risk_def Let_def split: sum.splits)
  note run = assms [unfolded link_risk_def Let_def m sum.case]
  let ?a = "link_action wording f c ctx mid"
  obtain rows action b where r: "risk_matches_case_and_version (cc_tenant_id ctx) (kf_risk_id f) (kf_case_id f) (kf_dce_version_id f) t"
    "insert_row kl_check kl_clash (new_link f c ctx mid) (dt_links t) = Inr rows" "create_from_link ?a (dt_patron t) = Inr (action, b)"
    "t' = t\<lparr> dt_links := rows, dt_patron := b \<rparr>"
    using run by (auto split: if_splits option.splits sum.splits)
  have key: "pa_tenant_id ?a = cc_tenant_id ctx" "pa_functional_key ?a = risk_link_action_key (kf_link_id f)" by (simp_all add: link_action_def)
  have "set (pa_actions (dt_patron t)) \<subseteq> set (pa_actions b)
      \<and> (\<exists>a \<in> set (pa_actions b). pa_tenant_id a = cc_tenant_id ctx \<and> pa_functional_key a = risk_link_action_key (kf_link_id f))"
    using r(3) key by (auto simp: create_from_link_def find_action_key_def find_Some_iff insert_row_Inr split: if_splits sum.splits)
  then show thesis using that [OF _ r(1)] r(2,4) by (auto simp: insert_row_Inr)
qed

section \<open>Every accepted command keeps the invariant\<close>

lemma traced_extended:
  assumes "dt_fragments t' = dt_fragments t" "dt_extractions t' = dt_extractions t" "set (dt_risks t) \<subseteq> set (dt_risks t')"
    "set (pa_actions (dt_patron t)) \<subseteq> set (pa_actions (dt_patron t'))"
  shows "treatment_traced t x \<Longrightarrow> treatment_traced t' x" "link_traced t l \<Longrightarrow> link_traced t' l"
    "treatments_of (ki_tenant_id r) (ki_id r) t' = treatments_of (ki_tenant_id r) (ki_id r) t \<Longrightarrow> risk_traced t r \<Longrightarrow> risk_traced t' r"
proof -
  note same = source_supports_cong [OF assms(1,2)]
  show "treatment_traced t x \<Longrightarrow> treatment_traced t' x" using assms(3) unfolding treatment_traced_def same by blast
  show "link_traced t l \<Longrightarrow> link_traced t' l" using assms(3,4) unfolding link_traced_def by blast
  show "treatments_of (ki_tenant_id r) (ki_id r) t' = treatments_of (ki_tenant_id r) (ki_id r) t \<Longrightarrow> risk_traced t r \<Longrightarrow> risk_traced t' r"
    by (simp add: risk_traced_def same)
qed

lemma no_treatments:
  assumes "risk_inv t" "\<forall>r \<in> set (dt_risks t). ki_id r \<noteq> rid"
  shows "treatments_of tid rid t = []"
  using assms by (auto simp: risk_inv_def treatment_traced_def treatments_of_def filter_empty_conv)

lemma risk_registered_inv:
  assumes "register_risk f c ctx t = Inr (ho, t')" "risk_inv t"
  shows "risk_inv t'"
proof -
  obtain mid where r: "t' = t\<lparr> dt_risks := dt_risks t @ [new_risk f c ctx mid] \<rparr>"
    "source_supports (cc_tenant_id ctx) (kr_dce_version_id f) (kr_source_fragment_id f) (kr_source_excerpt f)
       (kr_start_byte_offset f) (kr_end_byte_offset f) t" "\<forall>r \<in> set (dt_risks t). ki_id r \<noteq> kr_risk_id f"
    by (rule register_risk_accepted [OF assms(1)])
  let ?r = "new_risk f c ctx mid"
  have grown: "dt_fragments t' = dt_fragments t" "dt_extractions t' = dt_extractions t" "set (dt_risks t) \<subseteq> set (dt_risks t')"
    "set (pa_actions (dt_patron t)) \<subseteq> set (pa_actions (dt_patron t'))" "treatments_of a q t' = treatments_of a q t" for a q
    by (auto simp: r(1) treatments_of_def)
  note ext = traced_extended(1,2) [OF grown(1-4)] traced_extended(3) [OF grown(1-4) grown(5)]
  have key: "ki_id ?r = kr_risk_id f" "ki_tenant_id ?r = cc_tenant_id ctx" "ki_dce_version_id ?r = kr_dce_version_id f"
    "ki_source_fragment_id ?r = kr_source_fragment_id f" "ki_source_excerpt ?r = kr_source_excerpt f"
    "ki_start_byte_offset ?r = kr_start_byte_offset f" "ki_end_byte_offset ?r = kr_end_byte_offset f" by (simp_all add: new_risk_def)
  have "treatments_of (cc_tenant_id ctx) (kr_risk_id f) t' = []" unfolding grown(5) using no_treatments [OF assms(2) r(3)] .
  then have "risk_traced t' ?r" using r(2) unfolding risk_traced_def source_supports_cong [OF grown(1,2)] key
    by (intro conjI exI [of _ "''OPEN''"] exI [of _ "1::int"]) simp_all
  then show ?thesis using assms(2) ext r(3) unfolding risk_inv_def by (auto simp: r(1) new_risk_def)
qed

lemma transitioned_inv:
  assumes "transition_risk f c ctx t = Inr (ho, t')" "risk_inv t"
  shows "risk_inv t'"
proof -
  obtain r mid s n where r: "r \<in> set (dt_risks t)" "ki_tenant_id r = cc_tenant_id ctx" "ki_id r = kt_risk_id f"
    "current_treatment r t = (s, n)" "treatment_allowed s (kt_to_treatment f)"
    "source_supports (cc_tenant_id ctx) (ki_dce_version_id r) (ki_source_fragment_id r) (kt_evidence_excerpt f)
       (kt_evidence_start_byte_offset f) (kt_evidence_end_byte_offset f) t"
    "t' = t\<lparr> dt_risk_transitions := dt_risk_transitions t @ [new_treatment f c ctx mid s (n + 1)] \<rparr>"
    by (rule transition_risk_accepted [OF assms(1)])
  let ?x = "new_treatment f c ctx mid s (n + 1)"
  have x: "kx_tenant_id ?x = ki_tenant_id r" "kx_risk_id ?x = ki_id r" "kx_from_treatment ?x = s" "kx_to_treatment ?x = kt_to_treatment f"
    "kx_aggregate_revision ?x = n + 1" using r(2,3) by (simp_all add: new_treatment_def)
  have grown: "dt_fragments t' = dt_fragments t" "dt_extractions t' = dt_extractions t" "set (dt_risks t) \<subseteq> set (dt_risks t')"
    "set (pa_actions (dt_patron t)) \<subseteq> set (pa_actions (dt_patron t'))" by (simp_all add: r(7))
  note ext = traced_extended(1,2) [OF grown] and same = source_supports_cong [OF grown(1,2)]
  have "r \<in> set (dt_risks t')" using r(1) by (simp add: r(7))
  moreover have "kx_evidence_excerpt ?x = kt_evidence_excerpt f" "kx_evidence_start_byte_offset ?x = kt_evidence_start_byte_offset f"
    "kx_evidence_end_byte_offset ?x = kt_evidence_end_byte_offset f" by (simp_all add: new_treatment_def)
  ultimately have new: "treatment_traced t' ?x" using r(2,6) x(1,2) unfolding treatment_traced_def same by metis
  have "risk_traced t' q" if q: "q \<in> set (dt_risks t)" for q
  proof -
    have tq: "risk_traced t q" "ki_treatment q = ''OPEN''" using assms(2) q by (simp_all add: risk_inv_def)
    then obtain s' n' where h: "treatment_history ''OPEN'' 1 (treatments_of (ki_tenant_id q) (ki_id q) t) s' n'" by (auto simp: risk_traced_def)
    show ?thesis
    proof (cases "q = r")
      case True
      then have "s' = s" "n' = n" using current_is_end [OF h tq(2)] r(4) by simp_all
      then have "treatment_history ''OPEN'' 1 (treatments_of (ki_tenant_id q) (ki_id q) t @ [?x]) (kt_to_treatment f) (n + 1)"
        using h r(5) x by (auto simp: treatment_history_snoc)
      moreover have "treatments_of (ki_tenant_id q) (ki_id q) t' = treatments_of (ki_tenant_id q) (ki_id q) t @ [?x]"
        using True x by (simp add: treatments_of_def r(7))
      ultimately show ?thesis using tq(1) unfolding risk_traced_def same by auto
    next
      case False
      then have "ki_id q \<noteq> ki_id r" using assms(2) q r(1) by (metis risk_inv_def distinct_map inj_onD)
      then have "treatments_of (ki_tenant_id q) (ki_id q) t' = treatments_of (ki_tenant_id q) (ki_id q) t" using x(2) by (simp add: treatments_of_def r(7))
      then show ?thesis using tq(1) by (rule traced_extended(3) [OF grown])
    qed
  qed
  then show ?thesis using assms(2) ext new unfolding risk_inv_def by (auto simp: r(7))
qed

lemma linked_inv:
  assumes "link_risk wording f c ctx t = Inr (ho, t')" "risk_inv t"
  shows "risk_inv t'"
proof -
  obtain mid b where r: "t' = t\<lparr> dt_links := dt_links t @ [new_link f c ctx mid], dt_patron := b \<rparr>"
    "risk_matches_case_and_version (cc_tenant_id ctx) (kf_risk_id f) (kf_case_id f) (kf_dce_version_id f) t"
    "set (pa_actions (dt_patron t)) \<subseteq> set (pa_actions b)"
    "\<exists>a \<in> set (pa_actions b). pa_tenant_id a = cc_tenant_id ctx \<and> pa_functional_key a = risk_link_action_key (kf_link_id f)"
    by (rule link_risk_accepted [OF assms(1)])
  have grown: "dt_fragments t' = dt_fragments t" "dt_extractions t' = dt_extractions t" "set (dt_risks t) \<subseteq> set (dt_risks t')"
    "set (pa_actions (dt_patron t)) \<subseteq> set (pa_actions (dt_patron t'))" "treatments_of a q t' = treatments_of a q t" for a q
    using r(3) by (simp_all add: r(1) treatments_of_def)
  note ext = traced_extended(1,2) [OF grown(1-4)] traced_extended(3) [OF grown(1-4) grown(5)]
  have "link_traced t' (new_link f c ctx mid)"
    using r(2,4) by (auto simp: link_traced_def r(1) new_link_def risk_matches_case_and_version_def list_ex_iff)
  then show ?thesis using assms(2) ext unfolding risk_inv_def by (auto simp: r(1))
qed

interpretation risks: command_handlers "risk_handlers wording" risk_inv for wording
proof
  fix ctype h t c ctx fresh ho t'
  assume h: "risk_handlers wording ctype = Some h" "risk_inv t" "h c ctx fresh t = Inr (ho, t')"
  then have "run_risk wording c ctx t = Inr (ho, t')" by (auto simp: risk_handlers_def split: if_splits)
  then show "risk_inv t'" using h(2) risk_registered_inv transitioned_inv linked_inv by (cases "em_body c") (simp_all add: run_risk_def, blast+)
qed

section \<open>The capacity of the key\<close>

lemma length_uuid_str [simp]: "length (uuid_str u) = 36"
  by (simp add: uuid_str_def Let_def)

lemma length_risk_functional_key: "length (risk_functional_key f) = 111 + length (kr_risk_code f)"
  by (simp add: risk_functional_key_def)

section \<open>A worked register\<close>

definition ex_risk_tables :: decision_tables where
  "ex_risk_tables = \<lparr>
     dt_cases = [\<lparr> ck_id = 40, ck_tenant_id = 1, ck_aggregate_revision = 0, ck_scope_fingerprint = ''ab'',
       ck_applicable_dce_version_id = Some 7, ck_lifecycle = ''ACTIVE'' \<rparr>],
     dt_versions = [], dt_requirements = [], dt_currents = [], dt_scenarios = [],
     dt_extractions = [\<lparr> er_id = 60, er_tenant_id = 1, er_dce_version_id = 7, er_dce_document_id = 61, er_input_sha256 = ''ab'',
       er_extractor_id = ''x'', er_extractor_version = ''1'', er_status = ''COMPLETED'', er_fragment_count = 1,
       er_extracted_char_count = 9, er_failure_code = None \<rparr>],
     dt_fragments = [\<lparr> fg_id = 62, fg_tenant_id = 1, fg_extraction_id = 60, fg_ordinal = 0, fg_locator = [],
       fg_text = ''penalties'', fg_text_sha256 = ''ab'' \<rparr>],
     dt_decisions = [], dt_contexts = [], dt_references = [], dt_conditions = [], dt_condition_transitions = [],
     dt_risks = [], dt_risk_transitions = [], dt_links = [], dt_patron = \<lparr> pa_actions = [], pa_transitions = [] \<rparr> \<rparr>"

definition ex_register :: "string \<Rightarrow> register_risk_fields" where
  "ex_register rcode = \<lparr> kr_risk_id = 70, kr_case_id = 40, kr_dce_version_id = 7, kr_source_fragment_id = 62, kr_category = ''CCAP'',
     kr_risk_code = rcode, kr_title = ''t'', kr_statement = ''s'', kr_severity = ''LOW'', kr_likelihood = ''RARE'',
     kr_source_excerpt = ''penal'', kr_source_locator = [(''page'', JInt 1)], kr_start_byte_offset = 0, kr_end_byte_offset = 5,
     kr_due_at = None \<rparr>"

definition ex_risk_context :: command_context where
  "ex_risk_context = command_context_of ex_patron ''PATRON_ADMIN'' 5 (Some 40)"

definition ex_risk_command :: "string \<Rightarrow> risk_command app_command" where
  "ex_risk_command rcode = \<lparr> em_command_type = ''RegisterStructuredRisk'', em_command_id = 3, em_idempotency_key = 3,
     em_correlation_id = None, em_body = RegisterStructuredRisk (ex_register rcode) \<rparr>"

definition ex_risk_request :: "risk_command dispatch_request" where
  "ex_risk_request = \<lparr> rq_command = ex_risk_command ''P1'', rq_context = ex_risk_context, rq_fresh = of_nat,
     rq_handler_fresh = of_nat, rq_now = 5 \<rparr>"

definition ex_wording :: link_wording where
  "ex_wording = \<lparr> lw_title = ''t'', lw_why_now = ''w'', lw_impact = ''i'', lw_recommended_action = ''r'' \<rparr>"

definition ex_risk_db :: "decision_tables platform_db" where
  "ex_risk_db = \<lparr> db_receipts = [], db_events = [], db_outbox = [], db_business = ex_risk_tables \<rparr>"

lemma ex_strips: "strip ''t'' = ''t''" "strip ''s'' = ''s''" "strip ''penal'' = ''penal''" "strip ''P1'' = ''P1''"
  by code_simp+

lemma ex_penal: "take 5 (utf8 ''penalties'') = utf8 ''penal''" "length (utf8 ''penalties'') = 9"
  by code_simp+

text \<open>Everything but the length of the key is in order, whatever the code.\<close>

lemma ex_register_guards:
  "register_risk (ex_register rcode) c ex_risk_context ex_risk_tables =
     (if strip rcode = [] \<or> length (strip rcode) > 100 then Inl (ValueError ''risk_code must be between 1 and 100 characters'')
      else if \<not> risk_fits (new_risk (ex_register rcode) c ex_risk_context 11) then Inl (RuntimeError ''value too long for type character varying'')
      else Inr (\<lparr> ho_result_code = ''DECISION_RISK_REGISTERED'', ho_aggregate_refs = [risk_ref ''DecisionRisk'' 70 1],
             ho_events = [risk_event ''DecisionRisk'' 70 1 ''DecisionRiskRegistered''
               [(''risk_id'', JStr (uuid_str 70)), (''case_id'', JStr (uuid_str 40)), (''category'', JStr ''CCAP''), (''severity'', JStr ''LOW'')]] \<rparr>,
           ex_risk_tables\<lparr> dt_risks := [new_risk (ex_register rcode) c ex_risk_context 11] \<rparr>))"
proof -
  let ?f = "ex_register rcode"
  have ctx: "cc_tenant_id ex_risk_context = 1" "patron_member ex_risk_context = Inr 11"
    by (simp_all add: ex_risk_context_def command_context_of_def ex_patron_def patron_member_def)
  have f: "kr_case_id ?f = 40" "kr_dce_version_id ?f = 7" "kr_source_fragment_id ?f = 62" "kr_source_excerpt ?f = ''penal''"
    "kr_start_byte_offset ?f = 0" "kr_end_byte_offset ?f = 5" "kr_risk_id ?f = 70" "kr_category ?f = ''CCAP''" "kr_severity ?f = ''LOW''"
    by (simp_all add: ex_register_def)
  have c: "risk_case_exists 1 40 ex_risk_tables" "case_uses_dce_version 1 40 7 ex_risk_tables"
    by (simp_all add: risk_case_exists_def case_uses_dce_version_def ex_risk_tables_def)
  have s: "source_fragment 1 7 62 ex_risk_tables \<noteq> None" "source_supports 1 7 62 ''penal'' 0 5 ex_risk_tables"
    by (simp_all add: source_supports_def source_fragment_def ex_risk_tables_def ex_penal)
  have v: "StructuredRisk_validate (structured_risk_of ?f)
      = (if strip rcode = [] \<or> length (strip rcode) > 100 then Some ''risk_code must be between 1 and 100 characters'' else None)"
    by (simp add: StructuredRisk_validate_def structured_risk_of_def ex_register_def ex_strips)
  have e: "dt_risks ex_risk_tables = []" by (simp add: ex_risk_tables_def)
  have k: "risk_check (new_risk ?f c ex_risk_context 11)" by (simp add: risk_check_def new_risk_def ex_register_def ex_strips)
  show ?thesis by (simp add: register_risk_def ctx f c s v e k insert_row_def add_row_def)
qed

lemma ex_risk_dispatched:
  obtains d db' where "dispatch_run (\<lambda>_. []) (risk_handlers ex_wording) [(0, ex_risk_request)] ex_risk_db = ([Inr d], db')"
    "map ki_risk_code (dt_risks (db_business db')) = [''P1'']"
proof -
  let ?c = "ex_risk_command ''P1''" and ?t = "ex_risk_tables\<lparr> dt_risks := [new_risk (ex_register ''P1'') (ex_risk_command ''P1'') ex_risk_context 11] \<rparr>"
  have fits: "risk_fits (new_risk (ex_register ''P1'') ?c ex_risk_context 11)"
    by (simp add: risk_fits_def new_risk_def length_risk_functional_key) (simp add: ex_register_def)
  obtain ho e where m: "register_risk (ex_register ''P1'') ?c ex_risk_context ex_risk_tables = Inr (ho, ?t)" "ho_events ho = [e]"
    using ex_register_guards [of "''P1''" ?c] fits by (simp add: ex_strips)
  have v: "risk_command_valid (RegisterStructuredRisk (ex_register ''P1''))" by (simp add: ex_register_def bounded_text_def ex_strips)
  have h: "\<exists>h. risk_handlers ex_wording ''RegisterStructuredRisk'' = Some h \<and> h ?c ex_risk_context of_nat ex_risk_tables = Inr (ho, ?t)"
    using m(1) v by (simp add: risk_handlers_def run_risk_def ex_risk_command_def)
  have c: "em_command_type ?c = ''RegisterStructuredRisk''" by (simp add: ex_risk_command_def)
  have "\<exists>d db'. dispatch (\<lambda>_. []) (risk_handlers ex_wording) [] ex_risk_request ex_risk_db = (Inr d, db') \<and> db_business db' = ?t"
    using h m(2) by (auto simp: dispatch_def transaction_def c find_receipt_def add_row_def ex_risk_db_def ex_risk_request_def Let_def)
  then show ?thesis using that by (auto simp: ex_risk_db_def new_risk_def ex_register_def)
qed

section \<open>Properties\<close>

text \<open>
  C14. Through any history of risk commands every registered risk and every change of its treatment quotes the
  exact UTF-8 bytes of the fragment it names, in a completed extraction of its version; the treatments of a
  risk are a gapless chain from OPEN of moves the domain allows; and every link to a requirement has its risk,
  of the same case and version, and a patron action.\<close>

theorem risk_register_traced:
  assumes "risk_inv (db_business db)" "dispatch_run dump (risk_handlers wording) steps db = (rs, db')"
  shows "risk_inv (db_business db')"
  using assms by (rule risks.run_preserves)

theorem risk_register_traced_witness:
  "\<exists>d db'. dispatch_run (\<lambda>_. []) (risk_handlers ex_wording) [(0, ex_risk_request)] ex_risk_db = ([Inr d], db')
     \<and> map ki_risk_code (dt_risks (db_business db')) = [''P1''] \<and> risk_inv (db_business db')"
proof -
  have "risk_inv (db_business ex_risk_db)" by (simp add: risk_inv_def ex_risk_db_def ex_risk_tables_def)
  then show ?thesis using ex_risk_dispatched risk_register_traced by metis
qed

text \<open>
  C15. The command accepts a risk code of up to 100 characters, but the functional key that contains it after
  three identifiers has 160: no registration with a code longer than 49 characters ever succeeds.\<close>

theorem long_risk_code_refused:
  assumes "49 < length (kr_risk_code f)"
  shows "\<exists>e. register_risk f c ctx t = Inl e"
proof (cases "register_risk f c ctx t")
  case (Inr p)
  then obtain ho t' where "register_risk f c ctx t = Inr (ho, t')" by (cases p) simp
  then obtain mid where "risk_fits (new_risk f c ctx mid)" by (rule register_risk_accepted)
  then show ?thesis using assms by (simp add: risk_fits_def new_risk_def length_risk_functional_key)
qed simp

theorem long_risk_code_refused_witness:
  "risk_command_valid (RegisterStructuredRisk (ex_register (replicate 50 (CHR ''A''))))
   \<and> (\<exists>e. register_risk (ex_register (replicate 50 (CHR ''A''))) (ex_risk_command ''P1'') ex_risk_context ex_risk_tables = Inl e)
   \<and> register_risk (ex_register (replicate 50 (CHR ''A''))) (ex_risk_command ''P1'') ex_risk_context ex_risk_tables
      = Inl (RuntimeError ''value too long for type character varying'')"
proof -
  let ?a = "replicate 50 (CHR ''A'')"
  have s: "strip ?a = ?a" by code_simp
  have c: "kr_risk_code (ex_register ?a) = ?a" by (simp add: ex_register_def)
  have "risk_command_valid (RegisterStructuredRisk (ex_register ?a))" by (simp add: ex_register_def bounded_text_def ex_strips s)
  moreover have "\<exists>e. register_risk (ex_register ?a) (ex_risk_command ''P1'') ex_risk_context ex_risk_tables = Inl e"
    by (rule long_risk_code_refused) (simp add: c)
  moreover have "\<not> risk_fits (new_risk (ex_register ?a) (ex_risk_command ''P1'') ex_risk_context 11)"
    by (simp add: risk_fits_def new_risk_def length_risk_functional_key c)
  then have "register_risk (ex_register ?a) (ex_risk_command ''P1'') ex_risk_context ex_risk_tables
      = Inl (RuntimeError ''value too long for type character varying'')" by (simp add: ex_register_guards s)
  ultimately show ?thesis by simp
qed

end
