(* ===== verification/PreparationTables.thy ===== *)
theory PreparationTables
  imports SubmissionTables DecisionRisks Assignments
begin

text \<open>
  The tables of the preparation of an answer (\<open>modules/preparation/infrastructure/models/preparation.py\<close>):
  the package of one assignment and one DCE version with its readiness evaluations, generated documents,
  reviews, corrections, drafts, snapshots and transmissions, and the columns of the other modules' tables
  an evaluation reads (those of the enterprise library are the rows of \<open>SubmissionTables\<close>). \<open>_check\<close> and \<open>_clash\<close> are the check and uniqueness constraints; foreign keys hold because
  the handlers insert rows of what they just looked up, except the assignment of a new package, which
  \<open>evaluate_readiness\<close> checks. \<open>created_at\<close> is filled by the database and left out.
\<close>

section \<open>Other modules' columns\<close>

record collaborator_task_row =
  tk_id :: uuid
  tk_tenant_id :: uuid
  tk_case_id :: uuid
  tk_assignment_id :: uuid
  tk_state :: string

record task_result_row =
  tz_tenant_id :: uuid
  tz_task_id :: uuid

record gap_row =
  gp_id :: uuid
  gp_tenant_id :: uuid
  gp_case_id :: uuid
  gp_assignment_id :: uuid
  gp_gap_kind :: string
  gp_severity :: string

section \<open>Packages and readiness\<close>

record prep_package_row =
  bp_id :: uuid
  bp_tenant_id :: uuid
  bp_case_id :: uuid
  bp_assignment_id :: uuid
  bp_dce_version_id :: uuid
  bp_state :: string
  bp_aggregate_revision :: int
  bp_created_by_actor_id :: uuid
  bp_membership_id :: uuid

definition bp_clash :: "prep_package_row \<Rightarrow> prep_package_row \<Rightarrow> bool" where
  "bp_clash r r' =
     (bp_id r = bp_id r'
      \<or> (bp_tenant_id r, bp_case_id r, bp_assignment_id r, bp_dce_version_id r)
        = (bp_tenant_id r', bp_case_id r', bp_assignment_id r', bp_dce_version_id r'))"

definition bp_check :: "prep_package_row \<Rightarrow> bool" where
  "bp_check r =
     (bp_state r \<in> {''IN_PREPARATION'', ''A_REVIEW'', ''READY'', ''BLOCKED'', ''GENERATED''} \<and> 0 \<le> bp_aggregate_revision r)"

record prep_readiness_row =
  ry_id :: uuid
  ry_tenant_id :: uuid
  ry_package_id :: uuid
  ry_revision :: int
  ry_state :: string
  ry_blocker_codes :: "string list"
  ry_warning_codes :: "string list"
  ry_checked_requirement_count :: int
  ry_checked_task_count :: int
  ry_input_manifest_sha256 :: string
  ry_evaluator_id :: string
  ry_evaluator_version :: string
  ry_actor_id :: uuid
  ry_membership_id :: uuid
  ry_command_id :: uuid
  ry_correlation_id :: "uuid option"

definition ry_clash :: "prep_readiness_row \<Rightarrow> prep_readiness_row \<Rightarrow> bool" where
  "ry_clash r r' =
     (ry_id r = ry_id r'
      \<or> (ry_tenant_id r, ry_package_id r, ry_revision r) = (ry_tenant_id r', ry_package_id r', ry_revision r'))"

definition ry_check :: "prep_readiness_row \<Rightarrow> bool" where
  "ry_check r =
     (0 < ry_revision r \<and> ry_state r \<in> {''READY'', ''READY_WITH_WARNINGS'', ''BLOCKED''}
      \<and> 0 \<le> ry_checked_requirement_count r \<and> 0 \<le> ry_checked_task_count r)"

section \<open>Documents and drafts\<close>

record generated_row =
  tg_id :: uuid
  tg_tenant_id :: uuid
  tg_package_id :: uuid
  tg_readiness_id :: uuid
  tg_version :: int
  tg_document_kind :: string
  tg_state :: string
  tg_content_sha256 :: string
  tg_storage_key :: string
  tg_actor_id :: uuid
  tg_membership_id :: uuid
  tg_command_id :: uuid
  tg_correlation_id :: "uuid option"

definition tg_clash :: "generated_row \<Rightarrow> generated_row \<Rightarrow> bool" where
  "tg_clash r r' =
     (tg_id r = tg_id r'
      \<or> (tg_tenant_id r, tg_package_id r, tg_version r) = (tg_tenant_id r', tg_package_id r', tg_version r'))"

definition tg_check :: "generated_row \<Rightarrow> bool" where
  "tg_check r =
     (0 < tg_version r \<and> tg_document_kind r \<in> {''TECHNICAL_RESPONSE'', ''DC1'', ''DC2'', ''DC4''}
      \<and> tg_state r \<in> {''GENERATED'', ''FAILED_SAFE''})"

record draft_row =
  td_id :: uuid
  td_tenant_id :: uuid
  td_draft_id :: uuid
  td_package_id :: uuid
  td_source_document_id :: uuid
  td_version :: int
  td_state :: string
  td_section_codes :: "string list"
  td_source_refs :: "string list"
  td_responsible_role :: string
  td_content_sha256 :: string
  td_storage_key :: string
  td_actor_id :: uuid
  td_membership_id :: uuid
  td_command_id :: uuid
  td_idempotency_key :: uuid
  td_correlation_id :: "uuid option"

definition td_clash :: "draft_row \<Rightarrow> draft_row \<Rightarrow> bool" where
  "td_clash r r' =
     (td_id r = td_id r'
      \<or> (td_tenant_id r, td_draft_id r, td_version r) = (td_tenant_id r', td_draft_id r', td_version r'))"

definition td_check :: "draft_row \<Rightarrow> bool" where
  "td_check r =
     (0 < td_version r \<and> td_state r \<in> {''DRAFT'', ''SUBMITTED_FOR_REVIEW'', ''RETURNED_WITH_CORRECTIONS'', ''ACCEPTED_CANDIDATE''}
      \<and> td_responsible_role r \<in> {''COLLABORATEUR'', ''PATRON_REVIEWER''})"

section \<open>Reviews\<close>

record review_row =
  rv_id :: uuid
  rv_tenant_id :: uuid
  rv_review_id :: uuid
  rv_package_id :: uuid
  rv_target_document_id :: uuid
  rv_target_version :: int
  rv_revision :: int
  rv_state :: string
  rv_decision_code :: "string option"
  rv_decision_note :: "string option"
  rv_actor_id :: uuid
  rv_membership_id :: uuid
  rv_command_id :: uuid
  rv_idempotency_key :: uuid
  rv_correlation_id :: "uuid option"

definition rv_clash :: "review_row \<Rightarrow> review_row \<Rightarrow> bool" where
  "rv_clash r r' =
     (rv_id r = rv_id r'
      \<or> (rv_tenant_id r, rv_review_id r, rv_revision r) = (rv_tenant_id r', rv_review_id r', rv_revision r'))"

definition rv_check :: "review_row \<Rightarrow> bool" where
  "rv_check r =
     (rv_state r \<in> {''REQUESTED'', ''ACCEPTED'', ''RETURNED_WITH_CORRECTIONS'', ''REJECTED''}
      \<and> 0 < rv_revision r \<and> 0 < rv_target_version r
      \<and> rv_decision_code r \<in> {None, Some ''ACCEPTED'', Some ''CORRECTIONS_REQUIRED'', Some ''REJECTED''})"

record correction_row =
  cn_id :: uuid
  cn_tenant_id :: uuid
  cn_review_id :: uuid
  cn_review_revision :: int
  cn_target_document_id :: uuid
  cn_revision :: int
  cn_correction_code :: string
  cn_instruction :: string
  cn_source_locator :: "string option"
  cn_actor_id :: uuid
  cn_membership_id :: uuid
  cn_command_id :: uuid
  cn_idempotency_key :: uuid
  cn_correlation_id :: "uuid option"

definition cn_clash :: "correction_row \<Rightarrow> correction_row \<Rightarrow> bool" where
  "cn_clash r r' =
     (cn_id r = cn_id r'
      \<or> (cn_tenant_id r, cn_review_id r, cn_revision r) = (cn_tenant_id r', cn_review_id r', cn_revision r'))"

definition cn_check :: "correction_row \<Rightarrow> bool" where
  "cn_check r =
     (0 < cn_revision r \<and> 0 < cn_review_revision r
      \<and> cn_correction_code r \<in> {''SOURCE_MISSING'', ''SOURCE_WRONG'', ''SECTION_INCOMPLETE'', ''WORDING_UNCLEAR''})"

section \<open>Snapshots and transmissions\<close>

record snapshot_row =
  sh_id :: uuid
  sh_tenant_id :: uuid
  sh_package_id :: uuid
  sh_case_id :: uuid
  sh_dce_version_id :: uuid
  sh_readiness_id :: uuid
  sh_technical_document_id :: uuid
  sh_technical_document_version :: int
  sh_version :: int
  sh_state :: string
  sh_manifest_sha256 :: string
  sh_manifest_json :: json
  sh_actor_id :: uuid
  sh_membership_id :: uuid
  sh_command_id :: uuid
  sh_idempotency_key :: uuid
  sh_correlation_id :: "uuid option"

definition sh_clash :: "snapshot_row \<Rightarrow> snapshot_row \<Rightarrow> bool" where
  "sh_clash r r' =
     (sh_id r = sh_id r'
      \<or> (sh_tenant_id r, sh_package_id r, sh_version r) = (sh_tenant_id r', sh_package_id r', sh_version r'))"

definition sh_check :: "snapshot_row \<Rightarrow> bool" where
  "sh_check r = (0 < sh_version r \<and> sh_state r = ''READY_FOR_PATRON_REVIEW'')"

record transmission_row =
  tm_id :: uuid
  tm_tenant_id :: uuid
  tm_package_id :: uuid
  tm_snapshot_id :: uuid
  tm_state :: string
  tm_actor_id :: uuid
  tm_membership_id :: uuid
  tm_command_id :: uuid
  tm_idempotency_key :: uuid
  tm_correlation_id :: "uuid option"

definition tm_clash :: "transmission_row \<Rightarrow> transmission_row \<Rightarrow> bool" where
  "tm_clash r r' =
     (tm_id r = tm_id r' \<or> (tm_tenant_id r, tm_snapshot_id r) = (tm_tenant_id r', tm_snapshot_id r'))"

definition tm_check :: "transmission_row \<Rightarrow> bool" where
  "tm_check r = (tm_state r = ''TRANSMITTED_TO_PATRON'')"

section \<open>The tables\<close>

record prep_tables =
  pq_versions :: "version_row list"
  pq_requirements :: "dce_requirement_row list"
  pq_currents :: "current_confirmation_row list"
  pq_assignments :: "case_assignment_row list"
  pq_tasks :: "collaborator_task_row list"
  pq_task_results :: "task_result_row list"
  pq_proposals :: "proposal_row list"
  pq_capabilities :: "capability_row list"
  pq_capability_versions :: "capability_version_row list"
  pq_proof_links :: "proof_link_row list"
  pq_enterprise_documents :: "enterprise_document_row list"
  pq_gaps :: "gap_row list"
  pq_packages :: "prep_package_row list"
  pq_readiness :: "prep_readiness_row list"
  pq_documents :: "generated_row list"
  pq_drafts :: "draft_row list"
  pq_reviews :: "review_row list"
  pq_corrections :: "correction_row list"
  pq_snapshots :: "snapshot_row list"
  pq_transmissions :: "transmission_row list"
  pq_patron :: pa_tables

end
