(* ===== verification/PreparationText.thy ===== *)
theory PreparationText
  imports PreparationTables
begin

text \<open>
  The Markdown text of generated documents (\<open>modules/preparation/application/document_content.py\<close>) and the
  check for financial terms (\<open>modules/membership/public/text_safety.py\<close>). Some lines contain characters outside
  Latin-1, so a text is here the list of its code points; \<open>latin\<close> is the text of a \<open>string\<close>.
  \<open>word_point\<close>, the \<open>\w\<close> of Python's \<open>re\<close>,
  knows the code points up to 255: above them the documents contain
  only the em dash, which is no word character.
\<close>

section \<open>Text as code points\<close>

type_synonym utext = "nat list"

definition latin :: "string \<Rightarrow> utext" where
  "latin s = map code s"

definition e_acute :: utext where "e_acute = [233]"
definition E_acute :: utext where "E_acute = [201]"
definition a_grave :: utext where "a_grave = [224]"
definition A_grave :: utext where "A_grave = [192]"
definition c_cedilla :: utext where "c_cedilla = [231]"
definition e_grave :: utext where "e_grave = [232]"
definition o_circ :: utext where "o_circ = [244]"
definition u_circ :: utext where "u_circ = [251]"
definition em_dash :: utext where "em_dash = [8212]"

fun ujoin :: "utext \<Rightarrow> utext list \<Rightarrow> utext" where
  "ujoin sep [] = []"
| "ujoin sep [x] = x"
| "ujoin sep (x # y # ys) = x @ sep @ ujoin sep (y # ys)"

definition utf8_point :: "nat \<Rightarrow> nat list" where
  "utf8_point n =
     (if n < 128 then [n]
      else if n < 2048 then [192 + n div 64, 128 + n mod 64]
      else if n < 65536 then [224 + n div 4096, 128 + n div 64 mod 64, 128 + n mod 64]
      else [240 + n div 262144, 128 + n div 4096 mod 64, 128 + n div 64 mod 64, 128 + n mod 64])"

definition utf8_text :: "utext \<Rightarrow> nat list" where
  "utf8_text t = concat (map utf8_point t)"

section \<open>Financial terms\<close>

definition FORBIDDEN_FINANCIAL_TERMS :: "utext list" where
  "FORBIDDEN_FINANCIAL_TERMS =
     [latin ''price'', latin ''prix'', latin ''cost'', latin ''co'' @ u_circ @ latin ''t'', latin ''cout'', latin ''margin'',
     latin ''marge'', latin ''treasury'', latin ''tr'' @ e_acute @ latin ''sorerie'', latin ''tresorerie'', latin ''financial'',
     latin ''financier'', latin ''finance'', latin ''go/no-go'', latin ''go_no_go'', latin ''deposit'',
     latin ''d'' @ e_acute @ latin ''p'' @ o_circ @ latin ''t'', latin ''depot'', latin ''submission'', latin ''soumission'', latin ''chiffrage'']"

text \<open>A character of the pattern matches its two cases and, under Unicode folding, the dotless and dotted
  \<open>i\<close> and the long \<open>s\<close>.\<close>

definition same_letter :: "nat \<Rightarrow> nat \<Rightarrow> bool" where
  "same_letter p c =
     (c = p \<or> (97 \<le> p \<and> p \<le> 122 \<or> p \<in> {233, 244, 251}) \<and> c + 32 = p
      \<or> p = 105 \<and> c \<in> {304, 305} \<or> p = 115 \<and> c = 383)"

definition word_point :: "nat \<Rightarrow> bool" where
  "word_point c =
     (48 \<le> c \<and> c \<le> 57 \<or> 65 \<le> c \<and> c \<le> 90 \<or> c = 95 \<or> 97 \<le> c \<and> c \<le> 122
      \<or> c \<in> {170, 178, 179, 181, 185, 186, 188, 189, 190} \<or> 192 \<le> c \<and> c \<le> 255 \<and> c \<noteq> 215 \<and> c \<noteq> 247
      \<or> c \<in> {304, 305, 383})"

text \<open>The rest of the text after the term, if it starts with it.\<close>

fun match_term :: "utext \<Rightarrow> utext \<Rightarrow> utext option" where
  "match_term [] s = Some s"
| "match_term (p # ps) [] = None"
| "match_term (p # ps) (c # cs) = (if same_letter p c then match_term ps cs else None)"

text \<open>\<open>\b\<close> between the character before and the text after.\<close>

definition boundary :: "nat option \<Rightarrow> utext \<Rightarrow> bool" where
  "boundary prev s =
     ((case prev of None \<Rightarrow> False | Some c \<Rightarrow> word_point c) \<noteq> (case s of [] \<Rightarrow> False | c # _ \<Rightarrow> word_point c))"

definition term_here :: "nat option \<Rightarrow> utext \<Rightarrow> utext \<Rightarrow> bool" where
  "term_here prev s w =
     (boundary prev s
      \<and> (case match_term w s of None \<Rightarrow> False
         | Some rest \<Rightarrow> boundary (if w = [] then prev else Some (s ! (length w - 1))) rest))"

fun search_terms :: "nat option \<Rightarrow> utext \<Rightarrow> bool" where
  "search_terms prev [] = list_ex (term_here prev []) FORBIDDEN_FINANCIAL_TERMS"
| "search_terms prev (c # cs) =
     (list_ex (term_here prev (c # cs)) FORBIDDEN_FINANCIAL_TERMS \<or> search_terms (Some c) cs)"

definition contains_forbidden_text :: "utext list \<Rightarrow> bool" where
  "contains_forbidden_text values = list_ex (search_terms None) values"

section \<open>The technical document\<close>

record prep_requirement =
  pd_requirement_id :: uuid
  pd_requirement_type :: string
  pd_directive_signal :: string
  pd_confirmation_outcome :: "string option"

record technical_facts =
  df_case_id :: uuid
  df_dce_version_id :: uuid
  df_readiness_state :: string
  df_readiness_revision :: int
  df_document_version :: int
  df_requirements :: "prep_requirement list"
  df_blocker_codes :: "string list"
  df_warning_codes :: "string list"

text \<open>\<open>", ".join(codes) or fallback\<close>.\<close>

definition codes_or :: "utext \<Rightarrow> string list \<Rightarrow> utext" where
  "codes_or fallback codes = (let t = ujoin (latin '', '') (map latin codes) in if t = [] then fallback else t)"

definition outcome_text :: "string option \<Rightarrow> string" where
  "outcome_text o1 = (if truthy o1 then or_empty o1 else ''PENDING_HUMAN_CONFIRMATION'')"

definition requirement_line :: "prep_requirement \<Rightarrow> utext" where
  "requirement_line r =
     latin ''- `'' @ latin (uuid_str (pd_requirement_id r)) @ latin ''` '' @ em_dash @ latin '' '' @ latin (pd_requirement_type r) @
       latin '' '' @ em_dash @ latin '' '' @ latin (pd_directive_signal r) @ latin '' '' @ em_dash @ latin '' '' @
         latin (outcome_text (pd_confirmation_outcome r))"

definition technical_lines :: "technical_facts \<Rightarrow> utext list" where
  "technical_lines f =
     [latin ''# R'' @ e_acute @ latin ''ponse technique '' @ em_dash @ latin '' pr'' @ e_acute @ latin ''paration contr'' @ o_circ @
       latin ''l'' @ e_acute @ latin ''e'',
      [],
      latin ''## Identification de la pr'' @ e_acute @ latin ''paration'',
      latin ''- Affaire : `'' @ latin (uuid_str (df_case_id f)) @ latin ''`'',
      latin ''- Version DCE : `'' @ latin (uuid_str (df_dce_version_id f)) @ latin ''`'',
      latin ''- '' @ E_acute @ latin ''tat de compl'' @ e_acute @ latin ''tude : `'' @ latin (df_readiness_state f) @ latin ''`'',
      latin ''- R'' @ e_acute @ latin ''vision de compl'' @ e_acute @ latin ''tude : `'' @ latin (int_str (df_readiness_revision f)) @
        latin ''`'',
      latin ''- Version du document : `'' @ latin (int_str (df_document_version f)) @ latin ''`'',
      [],
      latin ''## Exigences DCE confirm'' @ e_acute @ latin ''es'']
     @ (if df_requirements f \<noteq> [] then map requirement_line (df_requirements f)
        else [latin ''- Aucune exigence mat'' @ e_acute @ latin ''rialis'' @ e_acute @ latin ''e dans le p'' @ e_acute @
          latin ''rim'' @ e_grave @ latin ''tre courant.''])
     @ [[],
        latin ''## Contr'' @ o_circ @ latin ''le de compl'' @ e_acute @ latin ''tude'',
        latin ''- Blocages : '' @ codes_or (latin ''aucun'') (df_blocker_codes f),
        latin ''- Avertissements : '' @ codes_or (latin ''aucun'') (df_warning_codes f),
        [],
        latin ''Ce document est un brouillon technique versionn'' @ e_acute @ latin '' r'' @ e_acute @ latin ''serv'' @ e_acute @
          latin '' au contr'' @ o_circ @ latin ''le humain.'']"

definition build_technical_document :: "technical_facts \<Rightarrow> utext" where
  "build_technical_document f = ujoin [10] (technical_lines f) @ [10]"

section \<open>The controlled drafts\<close>

datatype controlled_kind = DC1 | DC2 | DC4

fun controlled_kind_value :: "controlled_kind \<Rightarrow> string" where
  "controlled_kind_value DC1 = ''DC1''"
| "controlled_kind_value DC2 = ''DC2''"
| "controlled_kind_value DC4 = ''DC4''"

text \<open>\<open>ControlledDocumentKind(value)\<close>: \<open>None\<close> stands for the \<open>ValueError\<close>.\<close>

definition controlled_kind_of :: "string \<Rightarrow> controlled_kind option" where
  "controlled_kind_of v = List.find (\<lambda>k. controlled_kind_value k = v) [DC1, DC2, DC4]"

record controlled_facts =
  xf_case_id :: uuid
  xf_dce_version_id :: uuid
  xf_readiness_state :: string
  xf_readiness_revision :: int
  xf_confirmed_requirement_ids :: "uuid list"
  xf_blocker_codes :: "string list"
  xf_warning_codes :: "string list"

definition joined_or_none :: "string list \<Rightarrow> string" where
  "joined_or_none codes = (let t = join '', '' codes in if t = [] then ''NONE'' else t)"

definition facts_for_kind :: "controlled_facts \<Rightarrow> controlled_kind \<Rightarrow> (string \<times> string) list" where
  "facts_for_kind f kind =
     [(''case_id'', uuid_str (xf_case_id f)), (''dce_version_id'', uuid_str (xf_dce_version_id f)),
      (''readiness_state'', xf_readiness_state f), (''readiness_revision'', int_str (xf_readiness_revision f)),
      (''blocker_codes'', joined_or_none (xf_blocker_codes f)), (''warning_codes'', joined_or_none (xf_warning_codes f))]
     @ (case kind of
          DC1 \<Rightarrow> [(''confirmed_requirement_count'', int_str (int (length (xf_confirmed_requirement_ids f))))]
        | DC2 \<Rightarrow> [(''confirmed_requirement_ids'', joined_or_none (sort (map uuid_str (xf_confirmed_requirement_ids f))))]
        | DC4 \<Rightarrow> [(''scope_policy'', ''DCE_REQUIREMENTS_ONLY'')])"

definition fact_line :: "string \<times> string \<Rightarrow> utext" where
  "fact_line kv =
     latin ''- '' @ latin (fst kv) @ latin '' : '' @ (if snd kv = [] then latin ''['' @ A_grave @ latin '' COMPL'' @ E_acute @
       latin ''TER]'' else latin (snd kv))"

definition controlled_lines ::
  "controlled_kind \<Rightarrow> uuid \<Rightarrow> uuid \<Rightarrow> int \<Rightarrow> (string \<times> string) list \<Rightarrow> string list \<Rightarrow> utext list" where
  "controlled_lines kind cid vid version facts blockers =
     [latin ''# '' @ latin (controlled_kind_value kind) @ latin '' '' @ em_dash @ latin '' brouillon contr'' @ o_circ @ latin ''l'' @
       e_acute,
      [],
      latin ''> Document de pr'' @ e_acute @ latin ''paration non contractuel. Validation humaine et signature externe obligatoires.'',
      [],
      latin ''## Tra'' @ c_cedilla @ latin ''abilit'' @ e_acute,
      latin ''- Affaire : `'' @ latin (uuid_str cid) @ latin ''`'',
      latin ''- Version DCE : `'' @ latin (uuid_str vid) @ latin ''`'',
      latin ''- Version du document : `'' @ latin (int_str version) @ latin ''`'',
      [],
      latin ''## Faits fournis par le serveur'']
     @ map fact_line (sort_key fst facts)
     @ [[],
        latin ''## Contr'' @ o_circ @ latin ''les '' @ a_grave @ latin '' effectuer'',
        latin ''- Blocages : '' @ codes_or (latin ''aucun d'' @ e_acute @ latin ''tect'' @ e_acute) blockers,
        latin ''- Les champs absents, les '' @ e_acute @ latin ''ch'' @ e_acute @ latin ''ances et la conformit'' @ e_acute @
          latin '' juridique restent '' @ a_grave @ latin '' confirmer par un op'' @ e_acute @ latin ''rateur habilit'' @ e_acute @
            latin ''.'']"

definition build_controlled_btp_document ::
  "controlled_kind \<Rightarrow> uuid \<Rightarrow> uuid \<Rightarrow> int \<Rightarrow> (string \<times> string) list \<Rightarrow> string list \<Rightarrow> utext" where
  "build_controlled_btp_document kind cid vid version facts blockers =
     ujoin [10] (controlled_lines kind cid vid version facts blockers) @ [10]"

section \<open>Enterprise documents\<close>

text \<open>A \<open>date\<close> is its day number.\<close>

record document_fact =
  fz_document_kind :: string
  fz_verification_status :: string
  fz_expires_at :: "int option"

definition cross_match_enterprise_documents :: "string list \<Rightarrow> document_fact list \<Rightarrow> int \<Rightarrow> string list" where
  "cross_match_enterprise_documents required_kinds documents as_of =
     map (\<lambda>kind. ''ENTERPRISE_DOCUMENT_'' @ kind @ ''_NOT_VALIDATED'')
       (filter (\<lambda>kind. \<not> list_ex (\<lambda>d. fz_document_kind d = kind \<and> fz_verification_status d = ''VALIDATED''
                \<and> (case fz_expires_at d of None \<Rightarrow> True | Some e \<Rightarrow> as_of \<le> e)) documents) required_kinds)"

end
