(* ===== verification/Preparation.thy ===== *)
theory Preparation
  imports PreparationText
begin

text \<open>
  The preparation of a technical answer (\<open>modules/preparation/application/service.py\<close> with
  \<open>infrastructure/dce_preparation_reader.py\<close> and \<open>infrastructure/document_storage.py\<close>): the deterministic
  evaluation of a package and the generation of its documents.

  The private directory is a map from the parts of a key to bytes. A handler returns it next to its result,
  because a file it wrote stays when its transaction is rolled back. \<open>FileExistsError\<close> is a \<open>RuntimeError\<close> here:
  the dispatcher treats both alike. The wall clock of \<open>_resolve_assignment\<close> is the parameter \<open>wall\<close>.
\<close>

section \<open>Private document storage\<close>

type_synonym files = "string list \<rightharpoonup> nat list"

fun split_slash :: "string \<Rightarrow> string list" where
  "split_slash [] = [[]]"
| "split_slash (c # cs) =
     (if c = CHR ''/'' then [] # split_slash cs
      else (case split_slash cs of [] \<Rightarrow> [[c]] | p # ps \<Rightarrow> (c # p) # ps))"

text \<open>The parts of a \<open>PurePosixPath\<close>, which drops empty parts and \<open>.\<close>.\<close>

definition path_parts :: "string \<Rightarrow> string list" where
  "path_parts k = filter (\<lambda>p. p \<noteq> [] \<and> p \<noteq> ''.'') (split_slash k)"

definition private_path :: "string \<Rightarrow> exn + string list" where
  "private_path k =
     (if (case k of [] \<Rightarrow> False | c # _ \<Rightarrow> c = CHR ''/'') \<or> ''..'' \<in> set (path_parts k)
        then Inl (ValueError ''invalid private generated document key'')
      else if path_parts k = [] then Inl (ValueError ''generated document key escapes private root'')
      else Inr (path_parts k))"

definition storage_write :: "string \<Rightarrow> nat list \<Rightarrow> files \<Rightarrow> (exn + string) \<times> files" where
  "storage_write k content fs =
     (case private_path k of Inl e \<Rightarrow> (Inl e, fs)
      | Inr parts \<Rightarrow>
         (if fs parts \<noteq> None then (Inl (RuntimeError ''private generated document already exists''), fs)
          else (Inr (sha256_bytes content), fs(parts \<mapsto> content))))"

definition storage_read :: "string \<Rightarrow> files \<Rightarrow> exn + nat list" where
  "storage_read k fs =
     (case private_path k of Inl e \<Rightarrow> Inl e
      | Inr parts \<Rightarrow> (case fs parts of None \<Rightarrow> Inl (RuntimeError ''FileNotFoundError'') | Some bytes \<Rightarrow> Inr bytes))"

text \<open>
  What the preparation relies on: a written document is read back as it was and hashes to the answer, and a
  write never changes what another key reads, whether it succeeds or not.
\<close>

locale document_storage =
  fixes put :: "string \<Rightarrow> nat list \<Rightarrow> 's \<Rightarrow> (exn + string) \<times> 's"
    and get :: "string \<Rightarrow> 's \<Rightarrow> exn + nat list"
  assumes written: "put k content s = (Inr h, s') \<Longrightarrow> get k s' = Inr content \<and> h = sha256_bytes content"
    and kept: "get k' s = Inr bytes \<Longrightarrow> put k content s = (r, s') \<Longrightarrow> get k' s' = Inr bytes"
begin

lemma write_verified: "put k content s = (Inr h, s') \<Longrightarrow> \<exists>bytes. get k s' = Inr bytes \<and> h = sha256_bytes bytes"
  using written by blast

lemma write_keeps:
  "\<exists>bytes. get k' s = Inr bytes \<and> h = sha256_bytes bytes \<Longrightarrow> put k content s = (r, s')
     \<Longrightarrow> \<exists>bytes. get k' s' = Inr bytes \<and> h = sha256_bytes bytes"
  using kept by blast

end

interpretation local_storage: document_storage storage_write storage_read
proof
  fix k content and s s' :: files and h
  assume "storage_write k content s = (Inr h, s')"
  then show "storage_read k s' = Inr content \<and> h = sha256_bytes content"
    by (auto simp: storage_write_def storage_read_def split: sum.splits if_splits)
next
  fix k k' content bytes r and s s' :: files
  assume "storage_read k' s = Inr bytes" "storage_write k content s = (r, s')"
  then show "storage_read k' s' = Inr bytes"
    by (auto simp: storage_write_def storage_read_def split: sum.splits if_splits option.splits)
qed

section \<open>Commands\<close>

record evaluate_fields =
  xr_package_id :: uuid
  xr_case_id :: uuid
  xr_assignment_id :: uuid
  xr_dce_version_id :: uuid
  xr_expected_revision :: int

record generate_fields =
  xg_package_id :: uuid
  xg_document_id :: uuid
  xg_expected_revision :: int
  xg_readiness_revision :: int
  xg_document_kind :: string

section \<open>Reading the tender\<close>

definition confirmation_of :: "uuid \<Rightarrow> uuid \<Rightarrow> prep_tables \<Rightarrow> string option" where
  "confirmation_of tid rid t =
     map_option cu_outcome (List.find (\<lambda>k. cu_tenant_id k = tid \<and> cu_requirement_id k = rid) (pq_currents t))"

definition requirement_inputs :: "uuid \<Rightarrow> uuid \<Rightarrow> prep_tables \<Rightarrow> prep_requirement list" where
  "requirement_inputs tid vid t =
     map (\<lambda>q. \<lparr> pd_requirement_id = dq_id q, pd_requirement_type = dq_requirement_type q,
                pd_directive_signal = dq_directive_signal q, pd_confirmation_outcome = confirmation_of tid (dq_id q) t \<rparr>)
       (sort_key dq_id (filter (\<lambda>q. dq_tenant_id q = tid \<and> dq_dce_version_id q = vid) (pq_requirements t)))"

text \<open>\<open>SqlAlchemyPreparationDceReader.read\<close>: the readiness of the version and its requirements.\<close>

definition read_dce :: "uuid \<Rightarrow> uuid \<Rightarrow> prep_tables \<Rightarrow> (string \<times> prep_requirement list) option" where
  "read_dce tid vid t =
     map_option (\<lambda>v. (vr_analysis_readiness v, requirement_inputs tid vid t))
       (List.find (\<lambda>v. vr_tenant_id v = tid \<and> vr_id v = vid) (pq_versions t))"

section \<open>The verdict\<close>

definition package_tasks :: "uuid \<Rightarrow> prep_package_row \<Rightarrow> prep_tables \<Rightarrow> collaborator_task_row list" where
  "package_tasks tid p t =
     filter (\<lambda>k. tk_tenant_id k = tid \<and> tk_case_id k = bp_case_id p \<and> tk_assignment_id k = bp_assignment_id p) (pq_tasks t)"

definition task_has_result :: "uuid \<Rightarrow> collaborator_task_row \<Rightarrow> prep_tables \<Rightarrow> bool" where
  "task_has_result tid k t = list_ex (\<lambda>z. tz_tenant_id z = tid \<and> tz_task_id z = tk_id k) (pq_task_results t)"

definition package_proposals :: "uuid \<Rightarrow> prep_package_row \<Rightarrow> prep_tables \<Rightarrow> proposal_row list" where
  "package_proposals tid p t =
     filter (\<lambda>k. ep_tenant_id k = tid \<and> ep_case_id k = bp_case_id p \<and> ep_assignment_id k = bp_assignment_id p) (pq_proposals t)"

definition package_gaps :: "uuid \<Rightarrow> prep_package_row \<Rightarrow> prep_tables \<Rightarrow> gap_row list" where
  "package_gaps tid p t =
     filter (\<lambda>g. gp_tenant_id g = tid \<and> gp_case_id g = bp_case_id p \<and> gp_assignment_id g = bp_assignment_id p) (pq_gaps t)"

definition proposal_capability :: "uuid \<Rightarrow> proposal_row \<Rightarrow> prep_tables \<Rightarrow> capability_row option" where
  "proposal_capability tid k t = List.find (\<lambda>c. ec_tenant_id c = tid \<and> ec_id c = ep_capability_id k) (pq_capabilities t)"

definition proposal_version :: "uuid \<Rightarrow> proposal_row \<Rightarrow> prep_tables \<Rightarrow> capability_version_row option" where
  "proposal_version tid k t =
     List.find (\<lambda>v. cv_tenant_id v = tid \<and> cv_id v = ep_capability_version_id k \<and> cv_capability_id v = ep_capability_id k)
       (pq_capability_versions t)"

definition proposal_links :: "uuid \<Rightarrow> proposal_row \<Rightarrow> prep_tables \<Rightarrow> proof_link_row list" where
  "proposal_links tid k t =
     filter (\<lambda>l. el_tenant_id l = tid \<and> el_capability_version_id l = ep_capability_version_id k) (pq_proof_links t)"

definition past :: "instant \<Rightarrow> instant option \<Rightarrow> bool" where
  "past now e = (case e of None \<Rightarrow> False | Some x \<Rightarrow> x \<le> now)"

text \<open>The state of one linked document.\<close>

definition proof_state :: "uuid \<Rightarrow> instant \<Rightarrow> capability_row option \<Rightarrow> prep_tables \<Rightarrow> proof_link_row \<Rightarrow> string" where
  "proof_state tid now capability t l =
     (case (List.find (\<lambda>d. ed_tenant_id d = tid \<and> ed_id d = el_document_id l) (pq_enterprise_documents t), capability) of
        (Some d, Some c) \<Rightarrow>
          (if ed_company_id d \<noteq> ec_company_id c \<or> ed_verification_status d \<noteq> ''VALIDATED'' then ''UNAUTHORIZED''
           else if past now (ed_expires_at d) then ''EXPIRED''
           else ''CURRENT'')
      | _ \<Rightarrow> ''UNAUTHORIZED'')"

definition proposal_proof_states :: "uuid \<Rightarrow> instant \<Rightarrow> prep_tables \<Rightarrow> proposal_row \<Rightarrow> string list" where
  "proposal_proof_states tid now t k = map (proof_state tid now (proposal_capability tid k t) t) (proposal_links tid k t)"

text \<open>The blocker a proposal gives; \<open>eligible_proof\<close> is set exactly when a state is CURRENT.\<close>

definition proposal_blocker :: "uuid \<Rightarrow> instant \<Rightarrow> prep_tables \<Rightarrow> proposal_row \<Rightarrow> string option" where
  "proposal_blocker tid now t k =
     (case (proposal_capability tid k t, proposal_version tid k t) of
        (Some c, Some v) \<Rightarrow>
          (let states = proposal_proof_states tid now t k in
           if ec_state c \<noteq> ''ACTIVE'' then Some ''CAPABILITY_PROOF_UNAUTHORIZED''
           else if cv_valid_from v > now \<or> past now (cv_valid_until v) \<or> ep_validity_state k = ''EXPIRED''
             then Some ''CAPABILITY_PROOF_EXPIRED''
           else if proposal_links tid k t = [] then Some ''CAPABILITY_PROOF_MISSING''
           else if ''CURRENT'' \<notin> set states
             then Some (if ''EXPIRED'' \<in> set states then ''CAPABILITY_PROOF_EXPIRED'' else ''CAPABILITY_PROOF_UNAUTHORIZED'')
           else None)
      | _ \<Rightarrow> Some ''CAPABILITY_PROOF_UNAUTHORIZED'')"

definition blocker_codes :: "uuid \<Rightarrow> instant \<Rightarrow> prep_package_row \<Rightarrow> string \<times> prep_requirement list \<Rightarrow> prep_tables \<Rightarrow> string list" where
  "blocker_codes tid now p dce t = sort (remdups (
     (if fst dce \<noteq> ''READY_FOR_ANALYSIS'' then [''DCE_NOT_READY''] else [])
     @ concat (map (\<lambda>r. if pd_confirmation_outcome r \<in> {None, Some ''REVIEW_REQUIRED''} then [''REQUIREMENT_UNCONFIRMED''] else [])
         (snd dce))
     @ concat (map (\<lambda>k. if tk_state k = ''BLOCKED'' then [''TASK_BLOCKED''] else []) (package_tasks tid p t))
     @ List.map_filter (proposal_blocker tid now t) (package_proposals tid p t)
     @ (if list_ex (\<lambda>g. gp_severity g = ''BLOCKING'') (package_gaps tid p t) then [''CAPABILITY_GAP_BLOCKING''] else [])))"

definition warning_codes :: "uuid \<Rightarrow> prep_package_row \<Rightarrow> prep_tables \<Rightarrow> string list" where
  "warning_codes tid p t = sort (remdups (
     concat (map (\<lambda>k. if tk_state k \<noteq> ''BLOCKED'' \<and> tk_state k \<in> {''READY'', ''IN_PROGRESS''} \<and> \<not> task_has_result tid k t
         then [''TASK_RESULT_MISSING''] else []) (package_tasks tid p t))
     @ (if \<not> list_ex (\<lambda>g. gp_severity g = ''BLOCKING'') (package_gaps tid p t)
          \<and> list_ex (\<lambda>g. gp_severity g = ''IMPORTANT'') (package_gaps tid p t) then [''CAPABILITY_GAP_IMPORTANT''] else [])))"

definition verdict_state :: "string list \<Rightarrow> string list \<Rightarrow> string" where
  "verdict_state blockers warnings =
     (if blockers \<noteq> [] then ''BLOCKED'' else if warnings \<noteq> [] then ''READY_WITH_WARNINGS'' else ''READY'')"

definition assessment_json :: "uuid \<Rightarrow> instant \<Rightarrow> prep_tables \<Rightarrow> proposal_row \<Rightarrow> json" where
  "assessment_json tid now t k = JObj
     [(''proposal_id'', JStr (uuid_str (ep_id k))), (''capability_version_id'', JStr (uuid_str (ep_capability_version_id k))),
      (''proof_states'', JList (map JStr (sort (proposal_proof_states tid now t k))))]"

definition gap_json :: "gap_row \<Rightarrow> json" where
  "gap_json g = JObj [(''gap_id'', JStr (uuid_str (gp_id g))), (''gap_kind'', JStr (gp_gap_kind g)), (''severity'', JStr (gp_severity g))]"

definition readiness_manifest ::
  "uuid \<Rightarrow> instant \<Rightarrow> prep_package_row \<Rightarrow> string \<times> prep_requirement list \<Rightarrow> prep_tables \<Rightarrow> json" where
  "readiness_manifest tid now p dce t = JObj
     [(''case_id'', JStr (uuid_str (bp_case_id p))), (''assignment_id'', JStr (uuid_str (bp_assignment_id p))),
      (''dce_version_id'', JStr (uuid_str (bp_dce_version_id p))),
      (''requirements'', JList (map JStr (sort (map (\<lambda>r. uuid_str (pd_requirement_id r)) (snd dce))))),
      (''tasks'', JList (map JStr (sort (map (\<lambda>k. uuid_str (tk_id k)) (package_tasks tid p t))))),
      (''capability_assessments'', JList (map (assessment_json tid now t) (package_proposals tid p t))),
      (''gaps'', JList (map gap_json (sort_key (\<lambda>g. uuid_str (gp_id g)) (package_gaps tid p t)))),
      (''blockers'', JList (map JStr (blocker_codes tid now p dce t))),
      (''warnings'', JList (map JStr (warning_codes tid p t)))]"

section \<open>Evaluation\<close>

definition work_scope :: string where
  "work_scope = ''work.task.write''"

definition find_prep_package :: "uuid \<Rightarrow> uuid \<Rightarrow> prep_tables \<Rightarrow> prep_package_row option" where
  "find_prep_package tid pid t = List.find (\<lambda>p. bp_tenant_id p = tid \<and> bp_id p = pid) (pq_packages t)"

definition package_assignment :: "uuid \<Rightarrow> uuid \<Rightarrow> uuid \<Rightarrow> uuid \<Rightarrow> prep_tables \<Rightarrow> case_assignment_row option" where
  "package_assignment tid aid cid mid t =
     List.find (\<lambda>a. ca_tenant_id a = tid \<and> ca_id a = aid \<and> ca_case_id a = cid \<and> ca_membership_id a = mid) (pq_assignments t)"

definition ensure_assignment :: "command_context \<Rightarrow> uuid \<Rightarrow> prep_package_row \<Rightarrow> prep_tables \<Rightarrow> exn option" where
  "ensure_assignment ctx mid p t =
     (case package_assignment (cc_tenant_id ctx) (bp_assignment_id p) (bp_case_id p) mid t of
        None \<Rightarrow> Some (CommandExecutionError ''NOT_FOUND_OR_FORBIDDEN'')
      | Some a \<Rightarrow>
         if ca_state a \<noteq> ''ACTIVE'' then Some (CommandExecutionError ''NOT_FOUND_OR_FORBIDDEN'')
         else if work_scope \<notin> set (ca_scope_actions a) then Some (CommandExecutionError ''ASSIGNMENT_SCOPE_FORBIDDEN'')
         else None)"

definition new_preparation :: "evaluate_fields \<Rightarrow> command_context \<Rightarrow> uuid \<Rightarrow> prep_package_row" where
  "new_preparation f ctx mid = \<lparr> bp_id = xr_package_id f, bp_tenant_id = cc_tenant_id ctx, bp_case_id = xr_case_id f,
     bp_assignment_id = xr_assignment_id f, bp_dce_version_id = xr_dce_version_id f, bp_state = ''IN_PREPARATION'',
     bp_aggregate_revision = 0, bp_created_by_actor_id = cc_actor_id ctx, bp_membership_id = mid \<rparr>"

text \<open>The package of the command, created on its first evaluation.\<close>

definition obtain_package ::
  "evaluate_fields \<Rightarrow> command_context \<Rightarrow> uuid \<Rightarrow> prep_tables \<Rightarrow> exn + (prep_package_row \<times> prep_tables)" where
  "obtain_package f ctx mid t =
     (case find_prep_package (cc_tenant_id ctx) (xr_package_id f) t of
        None \<Rightarrow>
          (if xr_expected_revision f \<noteq> 0 then Inl (CommandExecutionError ''VERSION_CONFLICT'')
           else if \<not> list_ex (\<lambda>a. ca_tenant_id a = cc_tenant_id ctx \<and> ca_id a = xr_assignment_id f) (pq_assignments t)
             then Inl IntegrityError
           else (case insert_row bp_check bp_clash (new_preparation f ctx mid) (pq_packages t) of Inl e \<Rightarrow> Inl e
             | Inr rows \<Rightarrow> Inr (new_preparation f ctx mid, t\<lparr> pq_packages := rows \<rparr>)))
      | Some p \<Rightarrow>
          (if bp_case_id p \<noteq> xr_case_id f \<or> bp_assignment_id p \<noteq> xr_assignment_id f \<or> bp_dce_version_id p \<noteq> xr_dce_version_id f
             then Inl (CommandExecutionError ''PREPARATION_CONTEXT_MISMATCH'')
           else (case ensure_assignment ctx mid p t of Some e \<Rightarrow> Inl e | None \<Rightarrow>
             if bp_aggregate_revision p \<noteq> xr_expected_revision f then Inl (CommandExecutionError ''VERSION_CONFLICT'')
             else Inr (p, t))))"

definition new_readiness ::
  "'c app_command \<Rightarrow> command_context \<Rightarrow> uuid \<Rightarrow> prep_package_row \<Rightarrow> string \<times> prep_requirement list \<Rightarrow> prep_tables
   \<Rightarrow> prep_readiness_row" where
  "new_readiness c ctx mid p dce t =
     (let tid = cc_tenant_id ctx; now = cc_received_at ctx;
          blockers = blocker_codes tid now p dce t; warnings = warning_codes tid p t in
      \<lparr> ry_id = em_command_id c, ry_tenant_id = tid, ry_package_id = bp_id p, ry_revision = bp_aggregate_revision p + 1,
        ry_state = verdict_state blockers warnings, ry_blocker_codes = blockers, ry_warning_codes = warnings,
        ry_checked_requirement_count = int (length (snd dce)), ry_checked_task_count = int (length (package_tasks tid p t)),
        ry_input_manifest_sha256 = sha256_hex (json_dumps (readiness_manifest tid now p dce t)),
        ry_evaluator_id = ''deterministic-preparation-readiness'', ry_evaluator_version = ''1'',
        ry_actor_id = cc_actor_id ctx, ry_membership_id = mid, ry_command_id = em_command_id c,
        ry_correlation_id = em_correlation_id c \<rparr>)"

definition update_package :: "prep_package_row \<Rightarrow> string \<Rightarrow> prep_tables \<Rightarrow> prep_tables" where
  "update_package p state t =
     t\<lparr> pq_packages := update_where (\<lambda>q. bp_id q = bp_id p)
          (\<lambda>q. q\<lparr> bp_aggregate_revision := bp_aggregate_revision p + 1, bp_state := state \<rparr>) (pq_packages t) \<rparr>"

definition prep_ref :: "string \<Rightarrow> uuid \<Rightarrow> int \<Rightarrow> json" where
  "prep_ref atype i revn = JObj [(''aggregate_type'', JStr atype), (''aggregate_id'', JStr (uuid_str i)), (''aggregate_revision'', JInt revn)]"

definition prep_outcome :: "string \<Rightarrow> uuid \<Rightarrow> int \<Rightarrow> string \<Rightarrow> (string \<times> json) list \<Rightarrow> string \<Rightarrow> handler_outcome" where
  "prep_outcome atype i revn etype payload result = \<lparr> ho_result_code = result, ho_aggregate_refs = [prep_ref atype i revn],
     ho_events = [\<lparr> pe_aggregate_type = atype, pe_aggregate_id = i, pe_aggregate_revision = revn, pe_event_type = etype,
       pe_payload = payload, pe_topic = ''cockpit_projection'', pe_payload_version = 1 \<rparr>] \<rparr>"

definition evaluate_readiness ::
  "evaluate_fields \<Rightarrow> 'c app_command \<Rightarrow> command_context \<Rightarrow> uuid \<Rightarrow> prep_tables \<Rightarrow> exn + (handler_outcome \<times> prep_tables)" where
  "evaluate_readiness f c ctx mid t =
     (case obtain_package f ctx mid t of Inl e \<Rightarrow> Inl e | Inr (p, t1) \<Rightarrow>
      (case read_dce (cc_tenant_id ctx) (bp_dce_version_id p) t1 of
         None \<Rightarrow> Inl (CommandExecutionError ''DCE_NOT_FOUND_OR_FORBIDDEN'')
       | Some dce \<Rightarrow>
          (let r = new_readiness c ctx mid p dce t1 in
           case insert_row ry_check ry_clash r (pq_readiness t1) of Inl e \<Rightarrow> Inl e | Inr rows \<Rightarrow>
             Inr (prep_outcome ''PreparationPackage'' (bp_id p) (ry_revision r) ''PreparationReadinessEvaluated''
                    [(''package_id'', JStr (uuid_str (bp_id p))), (''readiness_id'', JStr (uuid_str (ry_id r))),
                     (''state'', JStr (ry_state r)), (''blocker_codes'', JList (map JStr (ry_blocker_codes r))),
                     (''warning_codes'', JList (map JStr (ry_warning_codes r)))] ''PREPARATION_READINESS_EVALUATED'',
                  update_package p (if ry_state r = ''BLOCKED'' then ''BLOCKED'' else ''READY'') (t1\<lparr> pq_readiness := rows \<rparr>)))))"

end
