(* ===== verification/PreparationReview.thy ===== *)
theory PreparationReview
  imports Preparation
begin

text \<open>
  What happens to a prepared answer: generation of its documents (\<open>service.py\<close>), their reviews, corrections and
  drafts (\<open>review.py\<close>), and the snapshot transmitted to the patron (\<open>transmission.py\<close>), all of
  \<open>modules/preparation/application\<close>, with the patron action a transmission opens
  (\<open>modules/patron_action/application/service.py\<close>, whose French text is the parameter \<open>wording\<close>).
\<close>

section \<open>Generation\<close>

text \<open>\<open>coalesce(max(column), 0) + 1\<close>.\<close>

definition next_number :: "int list \<Rightarrow> int" where
  "next_number xs = (if xs = [] then 0 else Max (set xs)) + 1"

definition package_documents :: "uuid \<Rightarrow> uuid \<Rightarrow> prep_tables \<Rightarrow> generated_row list" where
  "package_documents tid pid t = filter (\<lambda>d. tg_tenant_id d = tid \<and> tg_package_id d = pid) (pq_documents t)"

definition package_readiness :: "uuid \<Rightarrow> uuid \<Rightarrow> prep_tables \<Rightarrow> prep_readiness_row list" where
  "package_readiness tid pid t = filter (\<lambda>r. ry_tenant_id r = tid \<and> ry_package_id r = pid) (pq_readiness t)"

definition technical_facts_of ::
  "prep_package_row \<Rightarrow> prep_readiness_row \<Rightarrow> int \<Rightarrow> prep_requirement list \<Rightarrow> technical_facts" where
  "technical_facts_of p r version reqs = \<lparr> df_case_id = bp_case_id p, df_dce_version_id = bp_dce_version_id p,
     df_readiness_state = ry_state r, df_readiness_revision = ry_revision r, df_document_version = version,
     df_requirements = reqs, df_blocker_codes = sort (ry_blocker_codes r), df_warning_codes = sort (ry_warning_codes r) \<rparr>"

definition controlled_facts_of :: "prep_package_row \<Rightarrow> prep_readiness_row \<Rightarrow> prep_requirement list \<Rightarrow> controlled_facts" where
  "controlled_facts_of p r reqs = \<lparr> xf_case_id = bp_case_id p, xf_dce_version_id = bp_dce_version_id p,
     xf_readiness_state = ry_state r, xf_readiness_revision = ry_revision r,
     xf_confirmed_requirement_ids = map pd_requirement_id (filter (\<lambda>q. pd_confirmation_outcome q = Some ''CONFIRMED'') reqs),
     xf_blocker_codes = sort (ry_blocker_codes r), xf_warning_codes = sort (ry_warning_codes r) \<rparr>"

text \<open>The text, the result code and the event type.\<close>

definition document_content ::
  "string \<Rightarrow> prep_package_row \<Rightarrow> prep_readiness_row \<Rightarrow> int \<Rightarrow> prep_requirement list \<Rightarrow> exn + (utext \<times> string \<times> string)" where
  "document_content kind p r version reqs =
     (if kind = ''TECHNICAL_RESPONSE''
        then Inr (build_technical_document (technical_facts_of p r version reqs), ''TECHNICAL_DOCUMENT_GENERATED'', ''TechnicalDocumentGenerated'')
      else (case controlled_kind_of kind of None \<Rightarrow> Inl (ValueError ''ControlledDocumentKind'')
        | Some k \<Rightarrow> Inr (build_controlled_btp_document k (bp_case_id p) (bp_dce_version_id p) version
                     (facts_for_kind (controlled_facts_of p r reqs) k) (sort (ry_blocker_codes r)),
                   ''CONTROLLED_DRAFT_GENERATED'', ''ControlledDraftGenerated'')))"

definition document_key :: "uuid \<Rightarrow> uuid \<Rightarrow> uuid \<Rightarrow> string" where
  "document_key tid pid did = ''generated-documents/'' @ uuid_str tid @ ''/'' @ uuid_str pid @ ''/'' @ uuid_str did @ ''.md''"

definition new_generated ::
  "generate_fields \<Rightarrow> 'c app_command \<Rightarrow> command_context \<Rightarrow> uuid \<Rightarrow> prep_package_row \<Rightarrow> prep_readiness_row \<Rightarrow> int \<Rightarrow> string
   \<Rightarrow> generated_row" where
  "new_generated f c ctx mid p r version sha = \<lparr> tg_id = xg_document_id f, tg_tenant_id = cc_tenant_id ctx, tg_package_id = bp_id p,
     tg_readiness_id = ry_id r, tg_version = version, tg_document_kind = xg_document_kind f, tg_state = ''GENERATED'',
     tg_content_sha256 = sha, tg_storage_key = document_key (cc_tenant_id ctx) (bp_id p) (xg_document_id f),
     tg_actor_id = cc_actor_id ctx, tg_membership_id = mid, tg_command_id = em_command_id c,
     tg_correlation_id = em_correlation_id c \<rparr>"

text \<open>The checks before anything is written: the package, the evaluation the command names and the requirements.\<close>

definition generation_basis ::
  "generate_fields \<Rightarrow> command_context \<Rightarrow> uuid \<Rightarrow> prep_tables
   \<Rightarrow> exn + (prep_package_row \<times> prep_readiness_row \<times> prep_requirement list)" where
  "generation_basis f ctx mid t =
     (let tid = cc_tenant_id ctx in
      case find_prep_package tid (xg_package_id f) t of None \<Rightarrow> Inl (CommandExecutionError ''NOT_FOUND_OR_FORBIDDEN'')
      | Some p \<Rightarrow>
        (case ensure_assignment ctx mid p t of Some e \<Rightarrow> Inl e | None \<Rightarrow>
         if bp_aggregate_revision p \<noteq> xg_expected_revision f then Inl (CommandExecutionError ''VERSION_CONFLICT'')
         else (case List.find (\<lambda>r. ry_revision r = xg_readiness_revision f) (package_readiness tid (bp_id p) t) of
             None \<Rightarrow> Inl (CommandExecutionError ''READINESS_NOT_FOUND'')
           | Some r \<Rightarrow>
             if ry_state r = ''BLOCKED'' then Inl (CommandExecutionError ''PREPARATION_BLOCKED'')
             else (case read_dce tid (bp_dce_version_id p) t of
                 None \<Rightarrow> Inl (CommandExecutionError ''DCE_NOT_FOUND_OR_FORBIDDEN'')
               | Some dce \<Rightarrow> Inr (p, r, snd dce)))))"

definition generate_document ::
  "generate_fields \<Rightarrow> 'c app_command \<Rightarrow> command_context \<Rightarrow> uuid \<Rightarrow> prep_tables \<Rightarrow> files
   \<Rightarrow> (exn + (handler_outcome \<times> prep_tables)) \<times> files" where
  "generate_document f c ctx mid t fs =
     (case generation_basis f ctx mid t of Inl e \<Rightarrow> (Inl e, fs) | Inr (p, r, reqs) \<Rightarrow>
      (let version = next_number (map tg_version (package_documents (cc_tenant_id ctx) (bp_id p) t)) in
       case document_content (xg_document_kind f) p r version reqs of Inl e \<Rightarrow> (Inl e, fs) | Inr (content, result, etype) \<Rightarrow>
       if contains_forbidden_text [content] then (Inl (CommandExecutionError ''FINANCIAL_DATA_FORBIDDEN''), fs)
       else (case storage_write (document_key (cc_tenant_id ctx) (bp_id p) (xg_document_id f)) (utf8_text content) fs of
           (Inl e, fs') \<Rightarrow> (Inl e, fs')
         | (Inr sha, fs') \<Rightarrow>
            (let d = new_generated f c ctx mid p r version sha in
             (case insert_row tg_check tg_clash d (pq_documents t) of Inl e \<Rightarrow> Inl e | Inr rows \<Rightarrow>
               Inr (prep_outcome ''GeneratedTechnicalDocument'' (tg_id d) version etype
                      [(''document_id'', JStr (uuid_str (tg_id d))), (''package_id'', JStr (uuid_str (bp_id p))), (''version'', JInt version),
                       (''document_kind'', JStr (tg_document_kind d)), (''state'', JStr (tg_state d))] result,
                    update_package p ''GENERATED'' (t\<lparr> pq_documents := rows \<rparr>)), fs')))))"

section \<open>Review commands\<close>

record request_review_fields =
  xv_review_id :: uuid
  xv_package_id :: uuid
  xv_target_document_id :: uuid
  xv_target_version :: int
  xv_expected_package_revision :: int

record decide_review_fields =
  xd_review_id :: uuid
  xd_package_id :: uuid
  xd_target_document_id :: uuid
  xd_expected_review_revision :: int
  xd_decision_code :: string
  xd_decision_note :: "string option"

record correction_fields =
  xc_review_id :: uuid
  xc_package_id :: uuid
  xc_target_document_id :: uuid
  xc_correction_code :: string
  xc_instruction :: string
  xc_source_locator :: "string option"

record draft_fields =
  xt_draft_id :: uuid
  xt_package_id :: uuid
  xt_source_document_id :: uuid
  xt_expected_package_revision :: int
  xt_section_codes :: "string list"
  xt_source_refs :: "uuid list"

record snapshot_fields =
  xs_package_id :: uuid
  xs_snapshot_id :: uuid
  xs_expected_package_revision :: int

record transmit_fields =
  xm_package_id :: uuid
  xm_snapshot_id :: uuid
  xm_transmission_id :: uuid
  xm_expected_package_revision :: int

datatype prep_command =
    EvaluatePreparationReadiness evaluate_fields
  | GenerateTechnicalDocument generate_fields
  | RequestPreparationReview request_review_fields
  | DecidePreparationReview decide_review_fields
  | AddPreparationCorrection correction_fields
  | CreateTechnicalResponseDraft draft_fields
  | CreatePreparationSnapshot snapshot_fields
  | TransmitPreparationSnapshot transmit_fields

definition REVIEW_FINANCIAL_TERMS :: "string list" where
  "REVIEW_FINANCIAL_TERMS = [''prix'', ''co'' @ [CHR 0xFB] @ ''t'', ''cout'', ''marge'', ''tr'' @ [CHR 0xE9] @ ''sorerie'', ''tresorerie'',
     ''chiffrage'', ''devis'']"

definition contains_string :: "string \<Rightarrow> string \<Rightarrow> bool" where
  "contains_string w s = list_ex (\<lambda>k. take (length w) (drop k s) = w) [0..<Suc (length s)]"

definition financial_text :: "string \<Rightarrow> bool" where
  "financial_text v = list_ex (\<lambda>w. contains_string w (casefold v)) REVIEW_FINANCIAL_TERMS"

definition opt_text :: "nat \<Rightarrow> string option \<Rightarrow> bool" where
  "opt_text hi v = (case v of None \<Rightarrow> True | Some s \<Rightarrow> strip s = s \<and> length s \<le> hi)"

fun prep_command_valid :: "prep_command \<Rightarrow> bool" where
  "prep_command_valid (EvaluatePreparationReadiness f) = (0 \<le> xr_expected_revision f)"
| "prep_command_valid (GenerateTechnicalDocument f) =
     (0 \<le> xg_expected_revision f \<and> 1 \<le> xg_readiness_revision f
      \<and> xg_document_kind f \<in> {''TECHNICAL_RESPONSE'', ''DC1'', ''DC2'', ''DC4''})"
| "prep_command_valid (RequestPreparationReview f) = (0 < xv_target_version f \<and> 0 \<le> xv_expected_package_revision f)"
| "prep_command_valid (DecidePreparationReview f) =
     (1 \<le> xd_expected_review_revision f \<and> xd_decision_code f \<in> {''ACCEPTED'', ''CORRECTIONS_REQUIRED'', ''REJECTED''}
      \<and> opt_text 2000 (xd_decision_note f) \<and> (case xd_decision_note f of None \<Rightarrow> True | Some s \<Rightarrow> \<not> financial_text s))"
| "prep_command_valid (AddPreparationCorrection f) =
     (xc_correction_code f \<in> {''SOURCE_MISSING'', ''SOURCE_WRONG'', ''SECTION_INCOMPLETE'', ''WORDING_UNCLEAR''}
      \<and> bounded_text 2000 (xc_instruction f) \<and> \<not> financial_text (xc_instruction f) \<and> opt_text 500 (xc_source_locator f))"
| "prep_command_valid (CreateTechnicalResponseDraft f) =
     (0 \<le> xt_expected_package_revision f \<and> 1 \<le> length (xt_section_codes f) \<and> length (xt_section_codes f) \<le> 32
      \<and> 1 \<le> length (xt_source_refs f) \<and> length (xt_source_refs f) \<le> 64)"
| "prep_command_valid (CreatePreparationSnapshot f) = (0 \<le> xs_expected_package_revision f)"
| "prep_command_valid (TransmitPreparationSnapshot f) = (0 \<le> xm_expected_package_revision f)"

section \<open>Reviews\<close>

text \<open>A row needs the membership of its author: a context without one fails when the row is flushed.\<close>

definition with_member :: "command_context \<Rightarrow> (uuid \<Rightarrow> exn + 'a) \<Rightarrow> exn + 'a" where
  "with_member ctx k = (case cc_membership_id ctx of None \<Rightarrow> Inl IntegrityError | Some mid \<Rightarrow> k mid)"

definition review_rows :: "uuid \<Rightarrow> uuid \<Rightarrow> prep_tables \<Rightarrow> review_row list" where
  "review_rows tid rid t = filter (\<lambda>r. rv_tenant_id r = tid \<and> rv_review_id r = rid) (pq_reviews t)"

definition latest_review :: "uuid \<Rightarrow> uuid \<Rightarrow> prep_tables \<Rightarrow> review_row option" where
  "latest_review tid rid t = first_max rv_revision (review_rows tid rid t)"

definition new_review ::
  "uuid \<Rightarrow> uuid \<Rightarrow> uuid \<Rightarrow> int \<Rightarrow> int \<Rightarrow> string \<Rightarrow> string option \<Rightarrow> string option \<Rightarrow> 'c app_command \<Rightarrow> command_context \<Rightarrow> uuid \<Rightarrow> review_row" where
  "new_review rid pid did version revn state decision decision_note c ctx mid = \<lparr> rv_id = em_command_id c, rv_tenant_id = cc_tenant_id ctx,
     rv_review_id = rid, rv_package_id = pid, rv_target_document_id = did, rv_target_version = version, rv_revision = revn,
     rv_state = state, rv_decision_code = decision, rv_decision_note = decision_note, rv_actor_id = cc_actor_id ctx, rv_membership_id = mid,
     rv_command_id = em_command_id c, rv_idempotency_key = em_idempotency_key c, rv_correlation_id = em_correlation_id c \<rparr>"

definition request_review ::
  "request_review_fields \<Rightarrow> 'c app_command \<Rightarrow> command_context \<Rightarrow> prep_tables \<Rightarrow> exn + (handler_outcome \<times> prep_tables)" where
  "request_review f c ctx t =
     (let tid = cc_tenant_id ctx in
      if cc_actor_kind ctx \<noteq> ''COLLABORATEUR'' then Inl (CommandExecutionError ''COLLABORATOR_REQUIRED'')
      else (case find_prep_package tid (xv_package_id f) t of None \<Rightarrow> Inl (CommandExecutionError ''NOT_FOUND_OR_FORBIDDEN'')
      | Some p \<Rightarrow>
        if bp_aggregate_revision p \<noteq> xv_expected_package_revision f then Inl (CommandExecutionError ''VERSION_CONFLICT'')
        else if \<not> list_ex (\<lambda>d. tg_id d = xv_target_document_id f \<and> tg_version d = xv_target_version f)
              (package_documents tid (bp_id p) t) then Inl (CommandExecutionError ''TARGET_VERSION_NOT_FOUND'')
        else if latest_review tid (xv_review_id f) t \<noteq> None then Inl (CommandExecutionError ''REVIEW_ALREADY_EXISTS'')
        else with_member ctx (\<lambda>mid.
          case insert_row rv_check rv_clash
              (new_review (xv_review_id f) (bp_id p) (xv_target_document_id f) (xv_target_version f) 1 ''REQUESTED'' None None c ctx mid)
              (pq_reviews t) of Inl e \<Rightarrow> Inl e | Inr rows \<Rightarrow>
            Inr (prep_outcome ''PreparationReview'' (xv_review_id f) 1 ''PreparationReviewRequested''
                   [(''review_id'', JStr (uuid_str (xv_review_id f))), (''target_document_id'', JStr (uuid_str (xv_target_document_id f))),
                    (''target_version'', JInt (xv_target_version f)), (''state'', JStr ''REQUESTED'')] ''PREPARATION_REVIEW_REQUESTED'',
                 update_package p ''A_REVIEW'' (t\<lparr> pq_reviews := rows \<rparr>)))))"

definition decided_state :: "string \<Rightarrow> string option" where
  "decided_state d = map_of [(''ACCEPTED'', ''ACCEPTED''), (''CORRECTIONS_REQUIRED'', ''RETURNED_WITH_CORRECTIONS''), (''REJECTED'', ''REJECTED'')] d"

definition decided_package_state :: "string \<Rightarrow> string" where
  "decided_package_state state =
     (if state = ''ACCEPTED'' then ''READY'' else if state = ''RETURNED_WITH_CORRECTIONS'' then ''A_REVIEW'' else ''BLOCKED'')"

text \<open>The review of the package and the document a patron names.\<close>

definition reviewed :: "command_context \<Rightarrow> uuid \<Rightarrow> uuid \<Rightarrow> uuid \<Rightarrow> prep_tables \<Rightarrow> exn + (prep_package_row \<times> review_row)" where
  "reviewed ctx pid rid did t =
     (let tid = cc_tenant_id ctx in
      if cc_actor_kind ctx \<noteq> ''PATRON_ADMIN'' then Inl (CommandExecutionError ''PATRON_REQUIRED'')
      else (case find_prep_package tid pid t of None \<Rightarrow> Inl (CommandExecutionError ''NOT_FOUND_OR_FORBIDDEN'')
      | Some p \<Rightarrow>
        (case latest_review tid rid t of None \<Rightarrow> Inl (CommandExecutionError ''REVIEW_NOT_FOUND'')
         | Some r \<Rightarrow>
            if rv_package_id r \<noteq> bp_id p \<or> rv_target_document_id r \<noteq> did then Inl (CommandExecutionError ''REVIEW_NOT_FOUND'')
            else Inr (p, r))))"

definition decide_review ::
  "decide_review_fields \<Rightarrow> 'c app_command \<Rightarrow> command_context \<Rightarrow> prep_tables \<Rightarrow> exn + (handler_outcome \<times> prep_tables)" where
  "decide_review f c ctx t =
     (case reviewed ctx (xd_package_id f) (xd_review_id f) (xd_target_document_id f) t of Inl e \<Rightarrow> Inl e | Inr (p, r) \<Rightarrow>
      if rv_revision r \<noteq> xd_expected_review_revision f then Inl (CommandExecutionError ''VERSION_CONFLICT'')
      else if rv_state r \<notin> {''REQUESTED'', ''RETURNED_WITH_CORRECTIONS''} then Inl (CommandExecutionError ''REVIEW_STATE_INVALID'')
      else (case decided_state (xd_decision_code f) of None \<Rightarrow> Inl KeyError
        | Some state \<Rightarrow>
          with_member ctx (\<lambda>mid.
            case insert_row rv_check rv_clash
              (new_review (rv_review_id r) (bp_id p) (rv_target_document_id r) (rv_target_version r) (rv_revision r + 1) state
                 (Some (xd_decision_code f)) (xd_decision_note f) c ctx mid) (pq_reviews t) of Inl e \<Rightarrow> Inl e | Inr rows \<Rightarrow>
            Inr (prep_outcome ''PreparationReview'' (rv_review_id r) (rv_revision r + 1) ''PreparationReviewDecided''
                   [(''review_id'', JStr (uuid_str (rv_review_id r))), (''revision'', JInt (rv_revision r + 1)),
                    (''decision_code'', JStr (xd_decision_code f)), (''state'', JStr state)] ''PREPARATION_REVIEW_DECIDED'',
                 update_package p (decided_package_state state) (t\<lparr> pq_reviews := rows \<rparr>)))))"

definition corrections_of :: "uuid \<Rightarrow> uuid \<Rightarrow> prep_tables \<Rightarrow> correction_row list" where
  "corrections_of tid rid t = filter (\<lambda>n. cn_tenant_id n = tid \<and> cn_review_id n = rid) (pq_corrections t)"

definition new_correction :: "correction_fields \<Rightarrow> 'c app_command \<Rightarrow> command_context \<Rightarrow> uuid \<Rightarrow> review_row \<Rightarrow> int \<Rightarrow> correction_row" where
  "new_correction f c ctx mid r revn = \<lparr> cn_id = em_command_id c, cn_tenant_id = cc_tenant_id ctx, cn_review_id = rv_review_id r,
     cn_review_revision = rv_revision r, cn_target_document_id = rv_target_document_id r, cn_revision = revn,
     cn_correction_code = xc_correction_code f, cn_instruction = xc_instruction f, cn_source_locator = xc_source_locator f,
     cn_actor_id = cc_actor_id ctx, cn_membership_id = mid, cn_command_id = em_command_id c,
     cn_idempotency_key = em_idempotency_key c, cn_correlation_id = em_correlation_id c \<rparr>"

definition add_correction ::
  "correction_fields \<Rightarrow> 'c app_command \<Rightarrow> command_context \<Rightarrow> prep_tables \<Rightarrow> exn + (handler_outcome \<times> prep_tables)" where
  "add_correction f c ctx t =
     (case reviewed ctx (xc_package_id f) (xc_review_id f) (xc_target_document_id f) t of Inl e \<Rightarrow> Inl e | Inr (p, r) \<Rightarrow>
      if rv_state r \<noteq> ''RETURNED_WITH_CORRECTIONS'' then Inl (CommandExecutionError ''CORRECTIONS_NOT_REQUESTED'')
      else
        (let revn = next_number (map cn_revision (corrections_of (cc_tenant_id ctx) (rv_review_id r) t)) in
         with_member ctx (\<lambda>mid.
           case insert_row cn_check cn_clash (new_correction f c ctx mid r revn) (pq_corrections t) of Inl e \<Rightarrow> Inl e | Inr rows \<Rightarrow>
           Inr (prep_outcome ''PreparationReview'' (rv_review_id r) revn ''PreparationCorrectionAdded''
                  [(''review_id'', JStr (uuid_str (rv_review_id r))), (''correction_revision'', JInt revn),
                   (''correction_code'', JStr (xc_correction_code f))] ''PREPARATION_CORRECTION_ADDED'',
                update_package p (bp_state p) (t\<lparr> pq_corrections := rows \<rparr>)))))"

section \<open>Drafts\<close>

definition ALLOWED_SECTION_CODES :: "string list" where
  "ALLOWED_SECTION_CODES = [''COVER'', ''UNDERSTANDING'', ''METHOD'', ''RESOURCES'', ''SCHEDULE'', ''RISKS'', ''SOURCES'']"

definition draft_versions :: "uuid \<Rightarrow> uuid \<Rightarrow> prep_tables \<Rightarrow> int list" where
  "draft_versions tid did t = map td_version (filter (\<lambda>d. td_tenant_id d = tid \<and> td_draft_id d = did) (pq_drafts t))"

definition sorted_set :: "string list \<Rightarrow> string list" where
  "sorted_set xs = sort (remdups xs)"

definition draft_content :: "string list \<Rightarrow> string list \<Rightarrow> utext" where
  "draft_content sections refs =
     latin ''# Brouillon de r'' @ e_acute @ latin ''ponse technique'' @ [10, 10]
     @ latin ''Ce brouillon est un candidat soumis '' @ a_grave @ latin '' revue humaine.'' @ [10]
     @ latin ''Sections: '' @ latin (join '', '' sections) @ [10]
     @ latin ''Sources internes: '' @ latin (join '', '' refs) @ [10]"

definition draft_key :: "uuid \<Rightarrow> uuid \<Rightarrow> uuid \<Rightarrow> int \<Rightarrow> string" where
  "draft_key tid pid did version =
     ''technical-response-drafts/'' @ uuid_str tid @ ''/'' @ uuid_str pid @ ''/'' @ uuid_str did @ ''/'' @ int_str version @ ''.md''"

definition new_draft ::
  "draft_fields \<Rightarrow> 'c app_command \<Rightarrow> command_context \<Rightarrow> uuid \<Rightarrow> uuid \<Rightarrow> int \<Rightarrow> string \<Rightarrow> draft_row" where
  "new_draft f c ctx mid pid version sha = \<lparr> td_id = em_command_id c, td_tenant_id = cc_tenant_id ctx, td_draft_id = xt_draft_id f,
     td_package_id = pid, td_source_document_id = xt_source_document_id f, td_version = version, td_state = ''DRAFT'',
     td_section_codes = sorted_set (xt_section_codes f), td_source_refs = sorted_set (map uuid_str (xt_source_refs f)),
     td_responsible_role = ''COLLABORATEUR'', td_content_sha256 = sha,
     td_storage_key = draft_key (cc_tenant_id ctx) pid (xt_draft_id f) version, td_actor_id = cc_actor_id ctx,
     td_membership_id = mid, td_command_id = em_command_id c, td_idempotency_key = em_idempotency_key c,
     td_correlation_id = em_correlation_id c \<rparr>"

definition create_draft ::
  "draft_fields \<Rightarrow> 'c app_command \<Rightarrow> command_context \<Rightarrow> prep_tables \<Rightarrow> files \<Rightarrow> (exn + (handler_outcome \<times> prep_tables)) \<times> files" where
  "create_draft f c ctx t fs =
     (let tid = cc_tenant_id ctx in
      if cc_actor_kind ctx \<noteq> ''COLLABORATEUR'' then (Inl (CommandExecutionError ''COLLABORATOR_REQUIRED''), fs)
      else (case find_prep_package tid (xt_package_id f) t of None \<Rightarrow> (Inl (CommandExecutionError ''NOT_FOUND_OR_FORBIDDEN''), fs)
      | Some p \<Rightarrow>
        if bp_aggregate_revision p \<noteq> xt_expected_package_revision f then (Inl (CommandExecutionError ''VERSION_CONFLICT''), fs)
        else if list_ex (\<lambda>s. s \<notin> set ALLOWED_SECTION_CODES) (xt_section_codes f)
          then (Inl (CommandExecutionError ''SECTION_CODE_INVALID''), fs)
        else if \<not> list_ex (\<lambda>d. tg_id d = xt_source_document_id f) (package_documents tid (bp_id p) t)
          then (Inl (CommandExecutionError ''SOURCE_DOCUMENT_NOT_FOUND''), fs)
        else
          (let version = next_number (draft_versions tid (xt_draft_id f) t);
               content = draft_content (sorted_set (xt_section_codes f)) (sorted_set (map uuid_str (xt_source_refs f))) in
           if contains_forbidden_text [content] then (Inl (CommandExecutionError ''FINANCIAL_DATA_FORBIDDEN''), fs)
           else (case storage_write (draft_key tid (bp_id p) (xt_draft_id f) version) (utf8_text content) fs of
               (Inl e, fs') \<Rightarrow> (Inl e, fs')
             | (Inr sha, fs') \<Rightarrow>
                (with_member ctx (\<lambda>mid.
                   case insert_row td_check td_clash (new_draft f c ctx mid (bp_id p) version sha) (pq_drafts t) of Inl e \<Rightarrow> Inl e | Inr rows \<Rightarrow>
                   Inr (prep_outcome ''TechnicalResponseDraft'' (xt_draft_id f) version ''TechnicalResponseDraftCreated''
                          [(''draft_id'', JStr (uuid_str (xt_draft_id f))), (''version'', JInt version),
                           (''package_id'', JStr (uuid_str (bp_id p))), (''state'', JStr ''DRAFT'')] ''TECHNICAL_RESPONSE_DRAFT_CREATED'',
                        update_package p ''IN_PREPARATION'' (t\<lparr> pq_drafts := rows \<rparr>))), fs')))))"

end
