(* ===== verification/PreparationTransmission.thy ===== *)
theory PreparationTransmission
  imports PreparationReview
begin

text \<open>
  The end of a preparation: the snapshot of a package and its transmission to the patron
  (\<open>modules/preparation/application/transmission.py\<close>), the handlers of the eight commands and the services
  in front of them (\<open>service.py\<close>, \<open>review.py\<close>, \<open>transmission.py\<close>) with their readings.
\<close>

section \<open>Snapshots\<close>

definition transmission_assignment :: "command_context \<Rightarrow> uuid \<Rightarrow> prep_package_row \<Rightarrow> prep_tables \<Rightarrow> exn option" where
  "transmission_assignment ctx mid p t =
     (case List.find (\<lambda>a. ca_tenant_id a = cc_tenant_id ctx \<and> ca_id a = bp_assignment_id p \<and> ca_case_id a = bp_case_id p
            \<and> ca_membership_id a = mid \<and> ca_state a = ''ACTIVE'') (pq_assignments t) of
        None \<Rightarrow> Some (CommandExecutionError ''NOT_FOUND_OR_FORBIDDEN'')
      | Some a \<Rightarrow>
         if work_scope \<notin> set (ca_scope_actions a) then Some (CommandExecutionError ''ASSIGNMENT_SCOPE_FORBIDDEN'') else None)"

definition latest_prep_readiness :: "uuid \<Rightarrow> uuid \<Rightarrow> prep_tables \<Rightarrow> prep_readiness_row option" where
  "latest_prep_readiness tid pid t = first_max ry_revision (package_readiness tid pid t)"

text \<open>\<open>ORDER BY version DESC, id DESC\<close>.\<close>

definition ordered_documents :: "uuid \<Rightarrow> uuid \<Rightarrow> prep_tables \<Rightarrow> generated_row list" where
  "ordered_documents tid pid t =
     rev (sort_key tg_version (sort_key tg_id (filter (\<lambda>d. tg_state d = ''GENERATED'') (package_documents tid pid t))))"

text \<open>Per draft the row of its latest version, in the order of the draft ids.\<close>

definition latest_drafts :: "uuid \<Rightarrow> uuid \<Rightarrow> prep_tables \<Rightarrow> draft_row list" where
  "latest_drafts tid pid t =
     (let rows = filter (\<lambda>d. td_tenant_id d = tid \<and> td_package_id d = pid) (pq_drafts t) in
      List.map_filter (\<lambda>i. first_max td_version (filter (\<lambda>d. td_draft_id d = i) rows)) (sort (remdups (map td_draft_id rows))))"

definition snapshot_versions :: "uuid \<Rightarrow> uuid \<Rightarrow> prep_tables \<Rightarrow> int list" where
  "snapshot_versions tid pid t = map sh_version (filter (\<lambda>h. sh_tenant_id h = tid \<and> sh_package_id h = pid) (pq_snapshots t))"

definition document_json :: "generated_row \<Rightarrow> json" where
  "document_json d = JObj [(''document_id'', JStr (uuid_str (tg_id d))), (''version'', JInt (tg_version d)),
     (''kind'', JStr (tg_document_kind d)), (''sha256'', JStr (tg_content_sha256 d))]"

definition draft_json :: "draft_row \<Rightarrow> json" where
  "draft_json d = JObj [(''draft_id'', JStr (uuid_str (td_draft_id d))), (''version'', JInt (td_version d)), (''state'', JStr (td_state d)),
     (''section_codes'', JList (map JStr (sort (td_section_codes d)))), (''source_refs'', JList (map JStr (sort (td_source_refs d))))]"

definition snapshot_manifest :: "prep_package_row \<Rightarrow> prep_readiness_row \<Rightarrow> generated_row list \<Rightarrow> draft_row list \<Rightarrow> json" where
  "snapshot_manifest p r ds drafts = JObj
     [(''schema_version'', JInt 1), (''case_id'', JStr (uuid_str (bp_case_id p))), (''package_id'', JStr (uuid_str (bp_id p))),
      (''dce_version_id'', JStr (uuid_str (bp_dce_version_id p))),
      (''readiness'', JObj [(''revision'', JInt (ry_revision r)), (''state'', JStr (ry_state r)),
         (''blocker_codes'', JList (map JStr (sort (ry_blocker_codes r)))), (''warning_codes'', JList (map JStr (sort (ry_warning_codes r))))]),
      (''documents'', JList (map document_json (take 1 ds))), (''response_drafts'', JList (map draft_json drafts))]"

definition new_snapshot ::
  "snapshot_fields \<Rightarrow> 'c app_command \<Rightarrow> command_context \<Rightarrow> uuid \<Rightarrow> prep_package_row \<Rightarrow> prep_readiness_row \<Rightarrow> generated_row \<Rightarrow> int
   \<Rightarrow> json \<Rightarrow> snapshot_row" where
  "new_snapshot f c ctx mid p r d version manifest = \<lparr> sh_id = xs_snapshot_id f, sh_tenant_id = cc_tenant_id ctx, sh_package_id = bp_id p,
     sh_case_id = bp_case_id p, sh_dce_version_id = bp_dce_version_id p, sh_readiness_id = ry_id r,
     sh_technical_document_id = tg_id d, sh_technical_document_version = tg_version d, sh_version = version,
     sh_state = ''READY_FOR_PATRON_REVIEW'', sh_manifest_sha256 = sha256_hex (json_dumps manifest), sh_manifest_json = manifest,
     sh_actor_id = cc_actor_id ctx, sh_membership_id = mid, sh_command_id = em_command_id c,
     sh_idempotency_key = em_idempotency_key c, sh_correlation_id = em_correlation_id c \<rparr>"

definition create_snapshot ::
  "snapshot_fields \<Rightarrow> 'c app_command \<Rightarrow> command_context \<Rightarrow> uuid \<Rightarrow> prep_package_row \<Rightarrow> prep_tables \<Rightarrow> exn + (handler_outcome \<times> prep_tables)" where
  "create_snapshot f c ctx mid p t =
     (let tid = cc_tenant_id ctx in
      if bp_state p \<notin> {''GENERATED'', ''A_REVIEW''} then Inl (CommandExecutionError ''PREPARATION_NOT_GENERATED'')
      else (case latest_prep_readiness tid (bp_id p) t of None \<Rightarrow> Inl (CommandExecutionError ''READINESS_NOT_FOUND'')
      | Some r \<Rightarrow>
        if ry_state r = ''BLOCKED'' then Inl (CommandExecutionError ''PREPARATION_BLOCKED'')
        else (case ordered_documents tid (bp_id p) t of [] \<Rightarrow> Inl (CommandExecutionError ''TECHNICAL_DOCUMENT_REQUIRED'')
        | d # ds \<Rightarrow>
          (let version = next_number (snapshot_versions tid (bp_id p) t);
               manifest = snapshot_manifest p r (d # ds) (latest_drafts tid (bp_id p) t);
               h = new_snapshot f c ctx mid p r d version manifest in
           case insert_row sh_check sh_clash h (pq_snapshots t) of Inl e \<Rightarrow> Inl e | Inr rows \<Rightarrow>
           Inr (prep_outcome ''PreparationSnapshot'' (sh_id h) version ''PreparationSnapshotCreated''
                  [(''snapshot_id'', JStr (uuid_str (sh_id h))), (''package_id'', JStr (uuid_str (bp_id p))), (''version'', JInt version),
                   (''state'', JStr (sh_state h)), (''manifest_sha256'', JStr (sh_manifest_sha256 h))] ''PREPARATION_SNAPSHOT_CREATED'',
                update_package p ''READY'' (t\<lparr> pq_snapshots := rows \<rparr>))))))"

section \<open>Transmission\<close>

definition transmission_action_key :: "uuid \<Rightarrow> string" where
  "transmission_action_key i = ''preparation-transmission:'' @ uuid_str i"

definition transmission_action ::
  "link_wording \<Rightarrow> transmit_fields \<Rightarrow> 'c app_command \<Rightarrow> command_context \<Rightarrow> uuid \<Rightarrow> prep_package_row \<Rightarrow> pa_row" where
  "transmission_action wording f c ctx mid p = \<lparr> pa_id = xm_transmission_id f, pa_tenant_id = cc_tenant_id ctx, pa_case_id = Some (bp_case_id p),
     pa_functional_key = transmission_action_key (xm_transmission_id f), pa_action_type = ''REVIEW_PREPARATION'', pa_severity = ''BLOCKING'',
     pa_state = ''OPEN'', pa_title = lw_title wording, pa_why_now = lw_why_now wording, pa_impact = lw_impact wording,
     pa_recommended_action = lw_recommended_action wording, pa_due_at = None,
     pa_source_refs = [''preparation-package:'' @ uuid_str (bp_id p), transmission_action_key (xm_transmission_id f)],
     pa_aggregate_revision = 1, pa_actor_id = cc_actor_id ctx, pa_membership_id = mid, pa_command_id = em_command_id c,
     pa_idempotency_key = em_idempotency_key c, pa_correlation_id = cc_correlation_id ctx \<rparr>"

definition create_from_transmission :: "pa_row \<Rightarrow> pa_tables \<Rightarrow> exn + (pa_row option \<times> pa_tables)" where
  "create_from_transmission r b =
     (if find_action_key (pa_tenant_id r) (pa_functional_key r) (pa_actions b) \<noteq> None then Inr (None, b)
      else (case insert_row pa_check pa_clash r (pa_actions b) of Inl e \<Rightarrow> Inl e | Inr rows \<Rightarrow>
        Inr (Some r, b\<lparr> pa_actions := rows \<rparr>)))"

definition new_transmission :: "transmit_fields \<Rightarrow> 'c app_command \<Rightarrow> command_context \<Rightarrow> uuid \<Rightarrow> prep_package_row \<Rightarrow> transmission_row" where
  "new_transmission f c ctx mid p = \<lparr> tm_id = xm_transmission_id f, tm_tenant_id = cc_tenant_id ctx, tm_package_id = bp_id p,
     tm_snapshot_id = xm_snapshot_id f, tm_state = ''TRANSMITTED_TO_PATRON'', tm_actor_id = cc_actor_id ctx, tm_membership_id = mid,
     tm_command_id = em_command_id c, tm_idempotency_key = em_idempotency_key c, tm_correlation_id = em_correlation_id c \<rparr>"

definition transmission_events :: "transmit_fields \<Rightarrow> prep_package_row \<Rightarrow> pa_row option \<Rightarrow> pending_event list" where
  "transmission_events f p action =
     \<lparr> pe_aggregate_type = ''PreparationTransmission'', pe_aggregate_id = xm_transmission_id f,
       pe_aggregate_revision = bp_aggregate_revision p + 1, pe_event_type = ''PreparationTransmittedToPatron'',
       pe_payload = [(''transmission_id'', JStr (uuid_str (xm_transmission_id f))), (''snapshot_id'', JStr (uuid_str (xm_snapshot_id f))),
         (''package_id'', JStr (uuid_str (bp_id p))), (''state'', JStr ''TRANSMITTED_TO_PATRON'')],
       pe_topic = ''cockpit_projection'', pe_payload_version = 1 \<rparr>
     # (case action of None \<Rightarrow> []
        | Some r \<Rightarrow> [\<lparr> pe_aggregate_type = ''PatronAction'', pe_aggregate_id = pa_id r, pe_aggregate_revision = pa_aggregate_revision r,
            pe_event_type = ''PatronActionCreated'',
            pe_payload = [(''action_id'', JStr (uuid_str (pa_id r))),
              (''case_id'', case pa_case_id r of None \<Rightarrow> JStr ''None'' | Some cid \<Rightarrow> JStr (uuid_str cid)),
              (''action_type'', JStr (pa_action_type r)), (''severity'', JStr (pa_severity r)), (''state'', JStr (pa_state r))],
            pe_topic = ''cockpit_projection'', pe_payload_version = 1 \<rparr>])"

definition transmit_snapshot ::
  "link_wording \<Rightarrow> transmit_fields \<Rightarrow> 'c app_command \<Rightarrow> command_context \<Rightarrow> uuid \<Rightarrow> prep_package_row \<Rightarrow> prep_tables
   \<Rightarrow> exn + (handler_outcome \<times> prep_tables)" where
  "transmit_snapshot wording f c ctx mid p t =
     (let tid = cc_tenant_id ctx in
      if \<not> list_ex (\<lambda>h. sh_tenant_id h = tid \<and> sh_id h = xm_snapshot_id f \<and> sh_package_id h = bp_id p
            \<and> sh_state h = ''READY_FOR_PATRON_REVIEW'') (pq_snapshots t)
        then Inl (CommandExecutionError ''SNAPSHOT_NOT_FOUND_OR_FORBIDDEN'')
      else if list_ex (\<lambda>m. tm_tenant_id m = tid \<and> tm_snapshot_id m = xm_snapshot_id f) (pq_transmissions t)
        then Inl (CommandExecutionError ''SNAPSHOT_ALREADY_TRANSMITTED'')
      else (case insert_row tm_check tm_clash (new_transmission f c ctx mid p) (pq_transmissions t) of Inl e \<Rightarrow> Inl e | Inr rows \<Rightarrow>
        (case create_from_transmission (transmission_action wording f c ctx mid p) (pq_patron t) of Inl e \<Rightarrow> Inl e | Inr (action, b) \<Rightarrow>
          Inr (\<lparr> ho_result_code = ''PREPARATION_TRANSMITTED_TO_PATRON'',
                 ho_aggregate_refs = [prep_ref ''PreparationTransmission'' (xm_transmission_id f) (bp_aggregate_revision p + 1)],
                 ho_events = transmission_events f p action \<rparr>,
               update_package p ''A_REVIEW'' (t\<lparr> pq_transmissions := rows, pq_patron := b \<rparr>)))))"

text \<open>\<open>PreparationTransmissionHandler.execute\<close> up to the choice of the command.\<close>

definition transmission_basis :: "command_context \<Rightarrow> uuid \<Rightarrow> int \<Rightarrow> prep_tables \<Rightarrow> exn + (uuid \<times> prep_package_row)" where
  "transmission_basis ctx pid expected t =
     (case (if cc_actor_kind ctx \<noteq> ''COLLABORATEUR'' then None else cc_membership_id ctx) of
        None \<Rightarrow> Inl (CommandExecutionError ''COLLABORATOR_REQUIRED'')
      | Some mid \<Rightarrow>
        (case find_prep_package (cc_tenant_id ctx) pid t of None \<Rightarrow> Inl (CommandExecutionError ''NOT_FOUND_OR_FORBIDDEN'')
         | Some p \<Rightarrow>
            if bp_aggregate_revision p \<noteq> expected then Inl (CommandExecutionError ''VERSION_CONFLICT'')
            else (case transmission_assignment ctx mid p t of Some e \<Rightarrow> Inl e | None \<Rightarrow> Inr (mid, p))))"

section \<open>The handlers\<close>

text \<open>\<open>PreparationHandler.execute\<close>: the membership of a collaborator.\<close>

definition preparation_member :: "command_context \<Rightarrow> exn + uuid" where
  "preparation_member ctx =
     (case (if cc_actor_kind ctx \<noteq> ''COLLABORATEUR'' then None else cc_membership_id ctx) of
        None \<Rightarrow> Inl (CommandExecutionError ''COLLABORATOR_REQUIRED'') | Some mid \<Rightarrow> Inr mid)"

definition run_prep ::
  "link_wording \<Rightarrow> prep_command app_command \<Rightarrow> command_context \<Rightarrow> prep_tables \<Rightarrow> files \<Rightarrow> (exn + (handler_outcome \<times> prep_tables)) \<times> files" where
  "run_prep wording c ctx t fs =
     (case em_body c of
        EvaluatePreparationReadiness f \<Rightarrow>
          ((case preparation_member ctx of Inl e \<Rightarrow> Inl e | Inr mid \<Rightarrow> evaluate_readiness f c ctx mid t), fs)
      | GenerateTechnicalDocument f \<Rightarrow>
          (case preparation_member ctx of Inl e \<Rightarrow> (Inl e, fs) | Inr mid \<Rightarrow> generate_document f c ctx mid t fs)
      | RequestPreparationReview f \<Rightarrow> (request_review f c ctx t, fs)
      | DecidePreparationReview f \<Rightarrow> (decide_review f c ctx t, fs)
      | AddPreparationCorrection f \<Rightarrow> (add_correction f c ctx t, fs)
      | CreateTechnicalResponseDraft f \<Rightarrow> create_draft f c ctx t fs
      | CreatePreparationSnapshot f \<Rightarrow>
          ((case transmission_basis ctx (xs_package_id f) (xs_expected_package_revision f) t of Inl e \<Rightarrow> Inl e
            | Inr (mid, p) \<Rightarrow> create_snapshot f c ctx mid p t), fs)
      | TransmitPreparationSnapshot f \<Rightarrow>
          ((case transmission_basis ctx (xm_package_id f) (xm_expected_package_revision f) t of Inl e \<Rightarrow> Inl e
            | Inr (mid, p) \<Rightarrow> transmit_snapshot wording f c ctx mid p t), fs))"

fun prep_command_type :: "prep_command \<Rightarrow> string" where
  "prep_command_type (EvaluatePreparationReadiness f) = ''EvaluatePreparationReadiness''"
| "prep_command_type (GenerateTechnicalDocument f) = ''GenerateTechnicalDocument''"
| "prep_command_type (RequestPreparationReview f) = ''RequestPreparationReview''"
| "prep_command_type (DecidePreparationReview f) = ''DecidePreparationReview''"
| "prep_command_type (AddPreparationCorrection f) = ''AddPreparationCorrection''"
| "prep_command_type (CreateTechnicalResponseDraft f) = ''CreateTechnicalResponseDraft''"
| "prep_command_type (CreatePreparationSnapshot f) = ''CreatePreparationSnapshot''"
| "prep_command_type (TransmitPreparationSnapshot f) = ''TransmitPreparationSnapshot''"

text \<open>The handlers as the dispatcher sees them, over the directory as it is when the command runs.\<close>

definition prep_handlers :: "link_wording \<Rightarrow> files \<Rightarrow> string \<Rightarrow> (prep_command, prep_tables) handler option" where
  "prep_handlers wording fs ctype =
     (if ctype \<in> {''EvaluatePreparationReadiness'', ''GenerateTechnicalDocument'', ''RequestPreparationReview'',
          ''DecidePreparationReview'', ''AddPreparationCorrection'', ''CreateTechnicalResponseDraft'', ''CreatePreparationSnapshot'',
          ''TransmitPreparationSnapshot''}
      then Some (\<lambda>c ctx fresh t.
        if prep_command_type (em_body c) \<noteq> ctype \<or> \<not> prep_command_valid (em_body c) then Inl KeyError
        else fst (run_prep wording c ctx t fs))
      else None)"

end
