(* ===== verification/PreparationService.thy ===== *)
theory PreparationService
  imports PreparationTransmission
begin

text \<open>
  The services in front of the preparation handlers: who may send which command, for which assignment
  (\<open>PreparationService\<close>, \<open>PreparationReviewService\<close>, \<open>PreparationTransmissionService\<close> of
  \<open>modules/preparation/application\<close>), and their readings. The policy is a parameter; \<open>fs\<close> is the private
  directory and \<open>wall\<close> the wall clock \<open>_resolve_assignment\<close> compares with.
\<close>

section \<open>Requests\<close>

definition prep_request :: "actor_context \<Rightarrow> string \<Rightarrow> uuid \<Rightarrow> uuid \<Rightarrow> instant \<Rightarrow> authorization_request" where
  "prep_request a action pid cid now = \<lparr> q_action = action,
     q_resource = \<lparr> z_resource_type = ''PREPARATION_PACKAGE'', z_resource_id = pid, z_tenant_id = a_tenant_id a,
       z_classification = INTERNAL_OPERATIONAL, z_case_id = Some cid \<rparr>,
     q_mfa_required = False, q_evaluated_at = Some now \<rparr>"

text \<open>The policy, then the dispatcher, in the same words for the three services.\<close>

definition prep_dispatch ::
  "(actor_context \<Rightarrow> authorization_request \<Rightarrow> authorization_decision) \<Rightarrow> link_wording
   \<Rightarrow> (prep_command app_command \<Rightarrow> (string \<times> json) list) \<Rightarrow> service_call \<Rightarrow> files \<Rightarrow> actor_context \<Rightarrow> string \<Rightarrow> uuid \<Rightarrow> uuid
   \<Rightarrow> prep_command app_command \<Rightarrow> prep_tables platform_db \<Rightarrow> (exn + dispatch_result) \<times> prep_tables platform_db" where
  "prep_dispatch policy wording dump sc fs a action pid cid c db =
     (let d = policy a (prep_request a action pid cid (sc_now sc)) in
      if \<not> z_allowed d then (Inl (PermissionError (z_code d)), db)
      else dispatch dump (prep_handlers wording fs) (sc_seen sc)
        \<lparr> rq_command = c, rq_context = command_context_of a (actor_kind_value (a_actor_kind a)) (sc_now sc) (Some cid),
           rq_fresh = sc_fresh sc, rq_handler_fresh = sc_handler_fresh sc, rq_now = sc_now sc \<rparr> db)"

section \<open>Preparation\<close>

text \<open>
  The package and the case and assignment a preparation command is about. A command of another service has no
  \<open>assignment_id\<close>, and reading it raises.
\<close>

definition prep_target :: "uuid \<Rightarrow> prep_command \<Rightarrow> prep_tables \<Rightarrow> exn + (uuid \<times> uuid \<times> uuid) option" where
  "prep_target tid body t =
     (case body of
        GenerateTechnicalDocument f \<Rightarrow>
          Inr (map_option (\<lambda>p. (xg_package_id f, bp_assignment_id p, bp_case_id p)) (find_prep_package tid (xg_package_id f) t))
      | EvaluatePreparationReadiness f \<Rightarrow> Inr (Some (xr_package_id f, xr_assignment_id f, xr_case_id f))
      | _ \<Rightarrow> Inl AttributeError)"

text \<open>The two commands that \<open>PreparationService\<close> is for.\<close>

definition preparation_command :: "prep_command \<Rightarrow> bool" where
  "preparation_command body =
     (case body of GenerateTechnicalDocument f \<Rightarrow> True | EvaluatePreparationReadiness f \<Rightarrow> True | _ \<Rightarrow> False)"

definition resolve_assignment :: "instant \<Rightarrow> actor_context \<Rightarrow> uuid \<Rightarrow> uuid \<Rightarrow> prep_tables \<Rightarrow> case_assignment_row option" where
  "resolve_assignment wall a aid cid t =
     (case List.find (\<lambda>r. ca_tenant_id r = a_tenant_id a \<and> ca_id r = aid \<and> ca_case_id r = cid
            \<and> ca_membership_id r = a_membership_id a \<and> ca_state r = ''ACTIVE'') (pq_assignments t) of
        None \<Rightarrow> None
      | Some r \<Rightarrow>
         if ca_starts_at r > wall then None
         else if (case ca_ends_at r of None \<Rightarrow> False | Some e \<Rightarrow> e \<le> wall) then None
         else if work_scope \<notin> set (ca_scope_actions r) then None
         else Some r)"

definition prep_capability :: "prep_command \<Rightarrow> string" where
  "prep_capability body =
     (case body of EvaluatePreparationReadiness f \<Rightarrow> ''preparation.readiness.write'' | _ \<Rightarrow> ''preparation.document.write'')"

definition preparation_execute ::
  "(actor_context \<Rightarrow> authorization_request \<Rightarrow> authorization_decision) \<Rightarrow> link_wording
   \<Rightarrow> (prep_command app_command \<Rightarrow> (string \<times> json) list) \<Rightarrow> service_call \<Rightarrow> instant \<Rightarrow> files \<Rightarrow> actor_context
   \<Rightarrow> prep_command app_command \<Rightarrow> prep_tables platform_db \<Rightarrow> (exn + dispatch_result) \<times> prep_tables platform_db" where
  "preparation_execute policy wording dump sc wall fs a c db =
     (if a_actor_kind a \<noteq> COLLABORATEUR then (Inl (PermissionError ''COLLABORATOR_REQUIRED''), db)
      else (case prep_target (a_tenant_id a) (em_body c) (db_business db) of
          Inl e \<Rightarrow> (Inl e, db)
        | Inr None \<Rightarrow> (Inl (PermissionError ''NOT_FOUND_OR_FORBIDDEN''), db)
        | Inr (Some (pid, aid, cid)) \<Rightarrow>
          (case resolve_assignment wall a aid cid (db_business db) of None \<Rightarrow> (Inl (PermissionError ''NOT_FOUND_OR_FORBIDDEN''), db)
           | Some r \<Rightarrow> prep_dispatch policy wording dump sc fs a (prep_capability (em_body c)) pid (ca_case_id r) c db)))"

section \<open>Reviews\<close>

definition review_package_id :: "prep_command \<Rightarrow> uuid option" where
  "review_package_id body =
     (case body of
        RequestPreparationReview f \<Rightarrow> Some (xv_package_id f)
      | CreateTechnicalResponseDraft f \<Rightarrow> Some (xt_package_id f)
      | DecidePreparationReview f \<Rightarrow> Some (xd_package_id f)
      | AddPreparationCorrection f \<Rightarrow> Some (xc_package_id f)
      | _ \<Rightarrow> None)"

definition resolve_package :: "actor_context \<Rightarrow> uuid \<Rightarrow> prep_tables \<Rightarrow> prep_package_row option" where
  "resolve_package a pid t =
     (case find_prep_package (a_tenant_id a) pid t of None \<Rightarrow> None
      | Some p \<Rightarrow>
        if a_actor_kind a = PATRON_ADMIN then Some p
        else (case List.find (\<lambda>r. ca_tenant_id r = a_tenant_id a \<and> ca_id r = bp_assignment_id p \<and> ca_case_id r = bp_case_id p
               \<and> ca_membership_id r = a_membership_id a \<and> ca_state r = ''ACTIVE'') (pq_assignments t) of
            None \<Rightarrow> None
          | Some r \<Rightarrow> if work_scope \<notin> set (ca_scope_actions r) then None else Some p))"

definition collaborator_review_write :: "prep_command \<Rightarrow> bool" where
  "collaborator_review_write body =
     (case body of RequestPreparationReview f \<Rightarrow> True | CreateTechnicalResponseDraft f \<Rightarrow> True | _ \<Rightarrow> False)"

definition patron_review :: "prep_command \<Rightarrow> bool" where
  "patron_review body =
     (case body of DecidePreparationReview f \<Rightarrow> True | AddPreparationCorrection f \<Rightarrow> True | _ \<Rightarrow> False)"

definition review_capability :: "prep_command \<Rightarrow> string" where
  "review_capability body =
     (case body of
        RequestPreparationReview f \<Rightarrow> ''preparation.review.request''
      | CreateTechnicalResponseDraft f \<Rightarrow> ''preparation.document.write''
      | _ \<Rightarrow> ''preparation.review.decide'')"

definition review_execute ::
  "(actor_context \<Rightarrow> authorization_request \<Rightarrow> authorization_decision) \<Rightarrow> link_wording
   \<Rightarrow> (prep_command app_command \<Rightarrow> (string \<times> json) list) \<Rightarrow> service_call \<Rightarrow> files \<Rightarrow> actor_context
   \<Rightarrow> prep_command app_command \<Rightarrow> prep_tables platform_db \<Rightarrow> (exn + dispatch_result) \<times> prep_tables platform_db" where
  "review_execute policy wording dump sc fs a c db =
     (if collaborator_review_write (em_body c) \<and> a_actor_kind a \<noteq> COLLABORATEUR
        then (Inl (PermissionError ''COLLABORATOR_REQUIRED''), db)
      else if patron_review (em_body c) \<and> a_actor_kind a \<noteq> PATRON_ADMIN then (Inl (PermissionError ''PATRON_REQUIRED''), db)
      else (case Option.bind (review_package_id (em_body c)) (\<lambda>pid. resolve_package a pid (db_business db)) of
          None \<Rightarrow> (Inl (PermissionError ''NOT_FOUND_OR_FORBIDDEN''), db)
        | Some p \<Rightarrow> prep_dispatch policy wording dump sc fs a (review_capability (em_body c)) (bp_id p) (bp_case_id p) c db))"

section \<open>Transmission\<close>

definition transmission_package_id :: "prep_command \<Rightarrow> uuid option" where
  "transmission_package_id body =
     (case body of
        CreatePreparationSnapshot f \<Rightarrow> Some (xs_package_id f)
      | TransmitPreparationSnapshot f \<Rightarrow> Some (xm_package_id f)
      | _ \<Rightarrow> None)"

definition transmission_execute ::
  "(actor_context \<Rightarrow> authorization_request \<Rightarrow> authorization_decision) \<Rightarrow> link_wording
   \<Rightarrow> (prep_command app_command \<Rightarrow> (string \<times> json) list) \<Rightarrow> service_call \<Rightarrow> files \<Rightarrow> actor_context
   \<Rightarrow> prep_command app_command \<Rightarrow> prep_tables platform_db \<Rightarrow> (exn + dispatch_result) \<times> prep_tables platform_db" where
  "transmission_execute policy wording dump sc fs a c db =
     (if a_actor_kind a \<noteq> COLLABORATEUR then (Inl (PermissionError ''COLLABORATOR_REQUIRED''), db)
      else (case Option.bind (transmission_package_id (em_body c)) (\<lambda>pid. find_prep_package (a_tenant_id a) pid (db_business db)) of
          None \<Rightarrow> (Inl (PermissionError ''NOT_FOUND_OR_FORBIDDEN''), db)
        | Some p \<Rightarrow> prep_dispatch policy wording dump sc fs a ''preparation.transmit'' (bp_id p) (bp_case_id p) c db))"

section \<open>Readings\<close>

text \<open>The package a collaborator may read: their active assignment to its case, then the policy.\<close>

definition readable_package ::
  "(actor_context \<Rightarrow> authorization_request \<Rightarrow> authorization_decision) \<Rightarrow> instant \<Rightarrow> actor_context \<Rightarrow> uuid \<Rightarrow> prep_tables
   \<Rightarrow> exn + prep_package_row" where
  "readable_package policy now a pid t =
     (if a_actor_kind a \<noteq> COLLABORATEUR then Inl (PermissionError ''COLLABORATOR_REQUIRED'')
      else (case find_prep_package (a_tenant_id a) pid t of None \<Rightarrow> Inl (PermissionError ''NOT_FOUND_OR_FORBIDDEN'')
      | Some p \<Rightarrow>
        if \<not> list_ex (\<lambda>r. ca_tenant_id r = a_tenant_id a \<and> ca_id r = bp_assignment_id p \<and> ca_case_id r = bp_case_id p
              \<and> ca_membership_id r = a_membership_id a \<and> ca_state r = ''ACTIVE'') (pq_assignments t)
          then Inl (PermissionError ''NOT_FOUND_OR_FORBIDDEN'')
        else
          (let d = policy a (prep_request a ''preparation.readiness.write'' (bp_id p) (bp_case_id p) now) in
           if \<not> z_allowed d then Inl (PermissionError (z_code d)) else Inr p)))"

definition read_package ::
  "(actor_context \<Rightarrow> authorization_request \<Rightarrow> authorization_decision) \<Rightarrow> instant \<Rightarrow> actor_context \<Rightarrow> uuid \<Rightarrow> prep_tables
   \<Rightarrow> exn + (prep_package_row \<times> prep_readiness_row option \<times> generated_row list)" where
  "read_package policy now a pid t =
     (case readable_package policy now a pid t of Inl e \<Rightarrow> Inl e
      | Inr p \<Rightarrow> Inr (p, latest_prep_readiness (a_tenant_id a) (bp_id p) t,
          sort_key tg_version (sort_key tg_id (package_documents (a_tenant_id a) (bp_id p) t))))"

definition read_generated_document ::
  "(actor_context \<Rightarrow> authorization_request \<Rightarrow> authorization_decision) \<Rightarrow> instant \<Rightarrow> actor_context \<Rightarrow> uuid \<Rightarrow> uuid \<Rightarrow> prep_tables \<Rightarrow> files
   \<Rightarrow> exn + (generated_row \<times> nat list)" where
  "read_generated_document policy now a pid did t fs =
     (case readable_package policy now a pid t of Inl e \<Rightarrow> Inl e
      | Inr p \<Rightarrow>
        (case List.find (\<lambda>d. tg_id d = did \<and> tg_state d = ''GENERATED'') (package_documents (a_tenant_id a) (bp_id p) t) of
           None \<Rightarrow> Inl (PermissionError ''NOT_FOUND_OR_FORBIDDEN'')
         | Some d \<Rightarrow>
            (case storage_read (tg_storage_key d) fs of Inl e \<Rightarrow>
                Inl (if e = RuntimeError ''FileNotFoundError'' then RuntimeError ''GENERATED_DOCUMENT_UNAVAILABLE'' else e)
             | Inr bytes \<Rightarrow> Inr (d, bytes))))"

definition read_reviews ::
  "(actor_context \<Rightarrow> authorization_request \<Rightarrow> authorization_decision) \<Rightarrow> instant \<Rightarrow> actor_context \<Rightarrow> uuid \<Rightarrow> prep_tables
   \<Rightarrow> exn + (review_row \<times> correction_row list) list" where
  "read_reviews policy now a pid t =
     (if a_actor_kind a \<notin> {PATRON_ADMIN, PATRON_DELEGATE} then Inl (PermissionError ''PATRON_REQUIRED'')
      else (case find_prep_package (a_tenant_id a) pid t of None \<Rightarrow> Inl (PermissionError ''NOT_FOUND_OR_FORBIDDEN'')
      | Some p \<Rightarrow>
        (let d = policy a (prep_request a ''preparation.review.decide'' (bp_id p) (bp_case_id p) now) in
         if \<not> z_allowed d then Inl (PermissionError (z_code d))
         else
           (let rows = filter (\<lambda>r. rv_tenant_id r = a_tenant_id a \<and> rv_package_id r = bp_id p) (pq_reviews t);
                latest = List.map_filter (\<lambda>i. first_max rv_revision (filter (\<lambda>r. rv_review_id r = i) rows))
                           (sort (remdups (map rv_review_id rows))) in
            Inr (map (\<lambda>r. (r, corrections_of (a_tenant_id a) (rv_review_id r) t)) latest)))))"

end
