(* ===== verification/PreparationTrace.thy ===== *)
theory PreparationTrace
  imports PreparationService
begin

text \<open>
  What the preparation handlers guarantee. \<open>prep_rows_inv\<close> traces every row: an evaluation to its package, a document
  to an unblocked evaluation of its package, a review to the document it is about and to the step before it, a
  correction to a review that asked for corrections, a snapshot to its manifest, a transmission to its snapshot and
  its patron action. \<open>files_inv\<close> says that the stored bytes of every document and draft have the recorded hash.
\<close>

section \<open>The invariants\<close>

definition BLOCKER_VALUES :: "string list" where
  "BLOCKER_VALUES = [''DCE_NOT_READY'', ''REQUIREMENT_UNCONFIRMED'', ''TASK_BLOCKED'', ''CAPABILITY_PROOF_UNAUTHORIZED'',
     ''CAPABILITY_PROOF_EXPIRED'', ''CAPABILITY_PROOF_MISSING'', ''CAPABILITY_GAP_BLOCKING'']"

definition WARNING_VALUES :: "string list" where
  "WARNING_VALUES = [''TASK_RESULT_MISSING'', ''CAPABILITY_GAP_IMPORTANT'']"

definition readiness_traced :: "prep_tables \<Rightarrow> prep_readiness_row \<Rightarrow> bool" where
  "readiness_traced t r =
     ((\<exists>p \<in> set (pq_packages t). bp_tenant_id p = ry_tenant_id r \<and> bp_id p = ry_package_id r
         \<and> ry_revision r \<le> bp_aggregate_revision p)
      \<and> ry_state r = verdict_state (ry_blocker_codes r) (ry_warning_codes r)
      \<and> set (ry_blocker_codes r) \<subseteq> set BLOCKER_VALUES \<and> set (ry_warning_codes r) \<subseteq> set WARNING_VALUES)"

definition open_readiness :: "prep_tables \<Rightarrow> uuid \<Rightarrow> uuid \<Rightarrow> uuid \<Rightarrow> bool" where
  "open_readiness t tid pid rid =
     (\<exists>r \<in> set (pq_readiness t). ry_tenant_id r = tid \<and> ry_package_id r = pid \<and> ry_id r = rid \<and> ry_blocker_codes r = [])"

definition document_version :: "prep_tables \<Rightarrow> uuid \<Rightarrow> uuid \<Rightarrow> uuid \<Rightarrow> int \<Rightarrow> bool" where
  "document_version t tid pid did version =
     (\<exists>d \<in> set (pq_documents t). tg_tenant_id d = tid \<and> tg_package_id d = pid \<and> tg_id d = did \<and> tg_version d = version)"

definition document_traced :: "prep_tables \<Rightarrow> generated_row \<Rightarrow> bool" where
  "document_traced t d =
     (open_readiness t (tg_tenant_id d) (tg_package_id d) (tg_readiness_id d) \<and> 1 \<le> tg_version d
      \<and> (1 < tg_version d \<longrightarrow> (\<exists>did. document_version t (tg_tenant_id d) (tg_package_id d) did (tg_version d - 1))))"

definition draft_traced :: "prep_tables \<Rightarrow> draft_row \<Rightarrow> bool" where
  "draft_traced t d =
     ((\<exists>version. document_version t (td_tenant_id d) (td_package_id d) (td_source_document_id d) version)
      \<and> set (td_section_codes d) \<subseteq> set ALLOWED_SECTION_CODES)"

text \<open>A review starts as requested; every other row of it decides the row before it, which was still open.\<close>

definition undecided :: "string \<Rightarrow> bool" where
  "undecided s = (s \<in> {''REQUESTED'', ''RETURNED_WITH_CORRECTIONS''})"

definition review_follows :: "review_row \<Rightarrow> review_row \<Rightarrow> bool" where
  "review_follows r q =
     (rv_tenant_id q = rv_tenant_id r \<and> rv_review_id q = rv_review_id r \<and> rv_package_id q = rv_package_id r
      \<and> rv_target_document_id q = rv_target_document_id r \<and> rv_target_version q = rv_target_version r
      \<and> rv_revision q + 1 = rv_revision r \<and> undecided (rv_state q))"

definition review_traced :: "prep_tables \<Rightarrow> review_row \<Rightarrow> bool" where
  "review_traced t r =
     (document_version t (rv_tenant_id r) (rv_package_id r) (rv_target_document_id r) (rv_target_version r) \<and> 1 \<le> rv_revision r
      \<and> (rv_revision r = 1 \<longrightarrow> rv_state r = ''REQUESTED'')
      \<and> (1 < rv_revision r \<longrightarrow> rv_state r \<noteq> ''REQUESTED'' \<and> (\<exists>q \<in> set (pq_reviews t). review_follows r q)))"

definition correction_traced :: "prep_tables \<Rightarrow> correction_row \<Rightarrow> bool" where
  "correction_traced t n =
     (\<exists>r \<in> set (pq_reviews t). rv_tenant_id r = cn_tenant_id n \<and> rv_review_id r = cn_review_id n \<and> rv_revision r = cn_review_revision n
        \<and> rv_target_document_id r = cn_target_document_id n \<and> rv_state r = ''RETURNED_WITH_CORRECTIONS'')"

definition snapshot_traced :: "prep_tables \<Rightarrow> snapshot_row \<Rightarrow> bool" where
  "snapshot_traced t h =
     (sh_manifest_sha256 h = sha256_hex (json_dumps (sh_manifest_json h))
      \<and> open_readiness t (sh_tenant_id h) (sh_package_id h) (sh_readiness_id h)
      \<and> document_version t (sh_tenant_id h) (sh_package_id h) (sh_technical_document_id h) (sh_technical_document_version h))"

definition transmission_traced :: "prep_tables \<Rightarrow> transmission_row \<Rightarrow> bool" where
  "transmission_traced t m =
     ((\<exists>h \<in> set (pq_snapshots t). sh_tenant_id h = tm_tenant_id m \<and> sh_id h = tm_snapshot_id m \<and> sh_package_id h = tm_package_id m)
      \<and> (\<exists>a \<in> set (pa_actions (pq_patron t)). pa_tenant_id a = tm_tenant_id m \<and> pa_functional_key a = transmission_action_key (tm_id m)))"

definition review_key :: "review_row \<Rightarrow> uuid \<times> uuid \<times> int" where
  "review_key r = (rv_tenant_id r, rv_review_id r, rv_revision r)"

definition transmission_key :: "transmission_row \<Rightarrow> uuid \<times> uuid" where
  "transmission_key m = (tm_tenant_id m, tm_snapshot_id m)"

definition prep_rows_inv :: "prep_tables \<Rightarrow> bool" where
  "prep_rows_inv t =
     (distinct (map bp_id (pq_packages t)) \<and> distinct (map tg_id (pq_documents t)) \<and> distinct (map review_key (pq_reviews t))
      \<and> distinct (map transmission_key (pq_transmissions t))
      \<and> (\<forall>r \<in> set (pq_readiness t). readiness_traced t r) \<and> (\<forall>d \<in> set (pq_documents t). document_traced t d)
      \<and> (\<forall>d \<in> set (pq_drafts t). draft_traced t d) \<and> (\<forall>r \<in> set (pq_reviews t). review_traced t r)
      \<and> (\<forall>n \<in> set (pq_corrections t). correction_traced t n) \<and> (\<forall>h \<in> set (pq_snapshots t). snapshot_traced t h)
      \<and> (\<forall>m \<in> set (pq_transmissions t). transmission_traced t m))"

definition verified :: "files \<Rightarrow> string \<Rightarrow> string \<Rightarrow> bool" where
  "verified fs k h = (\<exists>bytes. storage_read k fs = Inr bytes \<and> h = sha256_bytes bytes)"

definition files_inv :: "prep_tables \<Rightarrow> files \<Rightarrow> bool" where
  "files_inv t fs =
     ((\<forall>d \<in> set (pq_documents t). verified fs (tg_storage_key d) (tg_content_sha256 d))
      \<and> (\<forall>d \<in> set (pq_drafts t). verified fs (td_storage_key d) (td_content_sha256 d)))"

lemma verified_written: "storage_write k content fs = (Inr h, fs') \<Longrightarrow> verified fs' k h"
  unfolding verified_def by (rule local_storage.write_verified)

lemma verified_kept: "verified fs k h \<Longrightarrow> storage_write k' content fs = (r, fs') \<Longrightarrow> verified fs' k h"
  unfolding verified_def by (rule local_storage.write_keeps)

section \<open>Tables that grow\<close>

definition prep_grown :: "prep_tables \<Rightarrow> prep_tables \<Rightarrow> bool" where
  "prep_grown t t' =
     ((\<forall>p \<in> set (pq_packages t). \<exists>q \<in> set (pq_packages t'). bp_id q = bp_id p \<and> bp_tenant_id q = bp_tenant_id p
         \<and> bp_aggregate_revision p \<le> bp_aggregate_revision q)
      \<and> set (pq_readiness t) \<subseteq> set (pq_readiness t') \<and> set (pq_documents t) \<subseteq> set (pq_documents t')
      \<and> set (pq_reviews t) \<subseteq> set (pq_reviews t') \<and> set (pq_snapshots t) \<subseteq> set (pq_snapshots t')
      \<and> (\<forall>a \<in> set (pa_actions (pq_patron t)). \<exists>b \<in> set (pa_actions (pq_patron t')). pa_tenant_id b = pa_tenant_id a
            \<and> pa_functional_key b = pa_functional_key a))"

lemma grown_refs:
  assumes "prep_grown t t'"
  shows "open_readiness t tid pid rid \<Longrightarrow> open_readiness t' tid pid rid"
    "document_version t tid pid did version \<Longrightarrow> document_version t' tid pid did version"
  using assms unfolding prep_grown_def open_readiness_def document_version_def by blast+

lemma grown_traced:
  assumes "prep_grown t t'"
  shows "readiness_traced t r \<Longrightarrow> readiness_traced t' r" "document_traced t d \<Longrightarrow> document_traced t' d"
    "draft_traced t dr \<Longrightarrow> draft_traced t' dr" "review_traced t rv \<Longrightarrow> review_traced t' rv"
    "correction_traced t n \<Longrightarrow> correction_traced t' n" "snapshot_traced t h \<Longrightarrow> snapshot_traced t' h"
    "transmission_traced t m \<Longrightarrow> transmission_traced t' m"
proof -
  note refs = grown_refs [OF assms]
  show "readiness_traced t r \<Longrightarrow> readiness_traced t' r"
    using assms unfolding prep_grown_def readiness_traced_def by (metis order_trans)
  show "document_traced t d \<Longrightarrow> document_traced t' d" using refs unfolding document_traced_def by blast
  show "draft_traced t dr \<Longrightarrow> draft_traced t' dr" using refs unfolding draft_traced_def by blast
  show "review_traced t rv \<Longrightarrow> review_traced t' rv" using refs assms unfolding review_traced_def prep_grown_def by blast
  show "correction_traced t n \<Longrightarrow> correction_traced t' n" using assms unfolding correction_traced_def prep_grown_def by blast
  show "snapshot_traced t h \<Longrightarrow> snapshot_traced t' h" using refs unfolding snapshot_traced_def by blast
  show "transmission_traced t m \<Longrightarrow> transmission_traced t' m"
    using assms unfolding transmission_traced_def prep_grown_def by (metis subsetD)
qed

text \<open>An extension by traced rows with new keys keeps the invariant.\<close>

lemma rows_inv_extended:
  assumes "prep_rows_inv t" "prep_grown t t'" "distinct (map bp_id (pq_packages t'))"
    "pq_readiness t' = pq_readiness t @ rs" "pq_documents t' = pq_documents t @ ds" "pq_drafts t' = pq_drafts t @ drs"
    "pq_reviews t' = pq_reviews t @ rvs" "pq_corrections t' = pq_corrections t @ ns" "pq_snapshots t' = pq_snapshots t @ hs"
    "pq_transmissions t' = pq_transmissions t @ ms"
    and keys: "distinct (map tg_id (pq_documents t @ ds))" "distinct (map review_key (pq_reviews t @ rvs))"
      "distinct (map transmission_key (pq_transmissions t @ ms))"
    and fresh: "list_all (readiness_traced t') rs" "list_all (document_traced t') ds" "list_all (draft_traced t') drs"
      "list_all (review_traced t') rvs" "list_all (correction_traced t') ns" "list_all (snapshot_traced t') hs"
      "list_all (transmission_traced t') ms"
  shows "prep_rows_inv t'"
proof -
  note kept = grown_traced [OF assms(2)]
  note old = assms(1) [unfolded prep_rows_inv_def]
  have o1: "\<forall>x \<in> set (pq_readiness t). readiness_traced t x" using old by blast
  have o2: "\<forall>x \<in> set (pq_documents t). document_traced t x" using old by blast
  have o3: "\<forall>x \<in> set (pq_drafts t). draft_traced t x" using old by blast
  have o4: "\<forall>x \<in> set (pq_reviews t). review_traced t x" using old by blast
  have o5: "\<forall>x \<in> set (pq_corrections t). correction_traced t x" using old by blast
  have o6: "\<forall>x \<in> set (pq_snapshots t). snapshot_traced t x" using old by blast
  have o7: "\<forall>x \<in> set (pq_transmissions t). transmission_traced t x" using old by blast
  have "\<forall>x \<in> set (pq_readiness t @ rs). readiness_traced t' x" using o1 kept(1) fresh(1) by (auto simp: list_all_iff)
  moreover have "\<forall>x \<in> set (pq_documents t @ ds). document_traced t' x" using o2 kept(2) fresh(2) by (auto simp: list_all_iff)
  moreover have "\<forall>x \<in> set (pq_drafts t @ drs). draft_traced t' x" using o3 kept(3) fresh(3) by (auto simp: list_all_iff)
  moreover have "\<forall>x \<in> set (pq_reviews t @ rvs). review_traced t' x" using o4 kept(4) fresh(4) by (auto simp: list_all_iff)
  moreover have "\<forall>x \<in> set (pq_corrections t @ ns). correction_traced t' x" using o5 kept(5) fresh(5) by (auto simp: list_all_iff)
  moreover have "\<forall>x \<in> set (pq_snapshots t @ hs). snapshot_traced t' x" using o6 kept(6) fresh(6) by (auto simp: list_all_iff)
  moreover have "\<forall>x \<in> set (pq_transmissions t @ ms). transmission_traced t' x" using o7 kept(7) fresh(7) by (auto simp: list_all_iff)
  ultimately show ?thesis unfolding prep_rows_inv_def assms(4-10) using assms(3) keys by (intro conjI)
qed

section \<open>Updating the package\<close>

lemma update_package_rows [simp]:
  "pq_readiness (update_package p s t) = pq_readiness t" "pq_documents (update_package p s t) = pq_documents t"
  "pq_drafts (update_package p s t) = pq_drafts t" "pq_reviews (update_package p s t) = pq_reviews t"
  "pq_corrections (update_package p s t) = pq_corrections t" "pq_snapshots (update_package p s t) = pq_snapshots t"
  "pq_transmissions (update_package p s t) = pq_transmissions t" "pq_patron (update_package p s t) = pq_patron t"
  by (simp_all add: update_package_def)

lemma update_package_ids [simp]: "map bp_id (pq_packages (update_package p s t)) = map bp_id (pq_packages t)"
  by (simp add: update_package_def update_where_def)

lemma updated_package:
  "p \<in> set (pq_packages t) \<Longrightarrow>
     p\<lparr> bp_aggregate_revision := bp_aggregate_revision p + 1, bp_state := s \<rparr> \<in> set (pq_packages (update_package p s t))"
  by (force simp: update_package_def set_update_where)

lemma update_grown:
  assumes "p \<in> set (pq_packages t)" "distinct (map bp_id (pq_packages t))" "pq_packages u = pq_packages t"
    "set (pq_readiness t) \<subseteq> set (pq_readiness u)" "set (pq_documents t) \<subseteq> set (pq_documents u)"
    "set (pq_reviews t) \<subseteq> set (pq_reviews u)" "set (pq_snapshots t) \<subseteq> set (pq_snapshots u)"
    "set (pa_actions (pq_patron t)) \<subseteq> set (pa_actions (pq_patron u))"
  shows "prep_grown t (update_package p s u)"
proof -
  let ?up = "\<lambda>q. if bp_id q = bp_id p then q\<lparr> bp_aggregate_revision := bp_aggregate_revision p + 1, bp_state := s \<rparr> else q"
  have same: "q = p" if "q \<in> set (pq_packages t)" "bp_id q = bp_id p" for q
    using assms(1,2) that by (metis distinct_map inj_onD)
  have "\<exists>q \<in> set (pq_packages (update_package p s u)). bp_id q = bp_id r \<and> bp_tenant_id q = bp_tenant_id r
      \<and> bp_aggregate_revision r \<le> bp_aggregate_revision q" if r: "r \<in> set (pq_packages t)" for r
  proof
    show "?up r \<in> set (pq_packages (update_package p s u))"
      using r assms(3) by (force simp: update_package_def set_update_where)
    show "bp_id (?up r) = bp_id r \<and> bp_tenant_id (?up r) = bp_tenant_id r \<and> bp_aggregate_revision r \<le> bp_aggregate_revision (?up r)"
      using same [OF r] by auto
  qed
  then show ?thesis unfolding prep_grown_def using assms(4-8) by auto
qed

lemma find_prep_package_Some:
  "find_prep_package tid pid t = Some p \<Longrightarrow> p \<in> set (pq_packages t) \<and> bp_tenant_id p = tid \<and> bp_id p = pid"
  by (auto simp: find_prep_package_def find_Some_iff)

lemma next_number_bounds:
  assumes "\<forall>x \<in> set xs. 1 \<le> x"
  shows "1 \<le> next_number xs \<and> (1 < next_number xs \<longrightarrow> next_number xs - 1 \<in> set xs)"
proof (cases "xs = []")
  case False
  then have "Max (set xs) \<in> set xs" by (simp add: Max_in)
  moreover from this have "1 \<le> Max (set xs)" using assms by blast
  ultimately show ?thesis by (simp add: next_number_def)
qed (simp add: next_number_def)

lemma sum_bind_Inr: "(case x of Inl e \<Rightarrow> Inl e | Inr y \<Rightarrow> g y) = Inr z \<longleftrightarrow> (\<exists>y. x = Inr y \<and> g y = Inr z)"
  by (cases x) auto

section \<open>Evaluation\<close>

lemma obtain_package_accepted:
  assumes "obtain_package f ctx mid t = Inr (p, u)" "prep_rows_inv t"
  shows "prep_rows_inv u \<and> p \<in> set (pq_packages u) \<and> bp_tenant_id p = cc_tenant_id ctx \<and> bp_id p = xr_package_id f"
proof (cases "find_prep_package (cc_tenant_id ctx) (xr_package_id f) t")
  case None
  let ?p = "new_preparation f ctx mid"
  have u: "p = ?p" "u = t\<lparr> pq_packages := pq_packages t @ [?p] \<rparr>" "bp_id ?p \<notin> bp_id ` set (pq_packages t)"
    using assms(1) None by (auto simp: obtain_package_def insert_row_Inr bp_clash_def split: if_splits sum.splits)
  have "prep_grown t u" by (auto simp: u(2) prep_grown_def)
  then have "prep_rows_inv u"
    by (rule rows_inv_extended [OF assms(2), where rs = "[]" and ds = "[]" and drs = "[]" and rvs = "[]" and ns = "[]" and hs = "[]" and ms = "[]"])
      (use assms(2) u(3) in \<open>simp_all add: u(2) prep_rows_inv_def\<close>)
  then show ?thesis by (simp add: u(1,2) new_preparation_def)
next
  case (Some q)
  then have "p = q" "u = t" using assms(1) by (auto simp: obtain_package_def split: if_splits option.splits)
  then show ?thesis using find_prep_package_Some [OF Some] assms(2) by simp
qed

lemma evaluate_verdict:
  assumes "evaluate_readiness f c ctx mid t = Inr (ho, t')"
  obtains p u dce where "obtain_package f ctx mid t = Inr (p, u)" "read_dce (cc_tenant_id ctx) (bp_dce_version_id p) u = Some dce"
    "t' = update_package p (if ry_state (new_readiness c ctx mid p dce u) = ''BLOCKED'' then ''BLOCKED'' else ''READY'')
       (u\<lparr> pq_readiness := pq_readiness u @ [new_readiness c ctx mid p dce u] \<rparr>)"
proof -
  obtain p u where o: "obtain_package f ctx mid t = Inr (p, u)"
    using assms by (auto simp: evaluate_readiness_def split: sum.splits)
  obtain dce where d: "read_dce (cc_tenant_id ctx) (bp_dce_version_id p) u = Some dce"
    using assms o by (auto simp: evaluate_readiness_def split: option.splits)
  let ?r = "new_readiness c ctx mid p dce u"
  have "t' = update_package p (if ry_state ?r = ''BLOCKED'' then ''BLOCKED'' else ''READY'') (u\<lparr> pq_readiness := pq_readiness u @ [?r] \<rparr>)"
    using assms by (auto simp: evaluate_readiness_def o d Let_def insert_row_Inr split: sum.splits)
  then show thesis by (rule that [OF o d])
qed

lemma evaluate_accepted:
  assumes "evaluate_readiness f c ctx mid t = Inr (ho, t')"
  obtains p u dce s where "obtain_package f ctx mid t = Inr (p, u)"
    "read_dce (cc_tenant_id ctx) (bp_dce_version_id p) u = Some dce"
    "t' = update_package p s (u\<lparr> pq_readiness := pq_readiness u @ [new_readiness c ctx mid p dce u] \<rparr>)"
  by (rule evaluate_verdict [OF assms]) (rule that)

lemma obtained_fields:
  assumes "obtain_package f ctx mid t = Inr (p, u)"
  shows "bp_case_id p = xr_case_id f \<and> bp_assignment_id p = xr_assignment_id f \<and> bp_dce_version_id p = xr_dce_version_id f
    \<and> (\<exists>rows. u = t\<lparr> pq_packages := rows \<rparr>)"
proof (cases "find_prep_package (cc_tenant_id ctx) (xr_package_id f) t")
  case None
  then obtain rows where "p = new_preparation f ctx mid" "u = t\<lparr> pq_packages := rows \<rparr>"
    using assms by (auto simp: obtain_package_def split: if_splits sum.splits)
  then show ?thesis by (auto simp: new_preparation_def)
next
  case (Some q)
  then show ?thesis using assms by (auto simp: obtain_package_def split: if_splits option.splits intro: exI [of _ "pq_packages t"])
qed

lemma codes_known: "set (blocker_codes tid now p dce t) \<subseteq> set BLOCKER_VALUES" "set (warning_codes tid p t) \<subseteq> set WARNING_VALUES"
proof -
  have "proposal_blocker tid now t k = Some x \<Longrightarrow> x \<in> set BLOCKER_VALUES" for k x
    by (auto simp: proposal_blocker_def BLOCKER_VALUES_def Let_def split: option.splits if_splits)
  then have "set (List.map_filter (proposal_blocker tid now t) ks) \<subseteq> set BLOCKER_VALUES" for ks by (auto simp: List.map_filter_def)
  then show "set (blocker_codes tid now p dce t) \<subseteq> set BLOCKER_VALUES"
    by (auto simp: blocker_codes_def) (auto simp: BLOCKER_VALUES_def split: if_splits)
  show "set (warning_codes tid p t) \<subseteq> set WARNING_VALUES" by (auto simp: warning_codes_def WARNING_VALUES_def split: if_splits)
qed

lemma evaluated_inv:
  assumes "evaluate_readiness f c ctx mid t = Inr (ho, t')" "prep_rows_inv t"
  shows "prep_rows_inv t'"
proof -
  obtain p u dce s where o: "obtain_package f ctx mid t = Inr (p, u)"
    and t': "t' = update_package p s (u\<lparr> pq_readiness := pq_readiness u @ [new_readiness c ctx mid p dce u] \<rparr>)"
    by (rule evaluate_accepted [OF assms(1)])
  let ?r = "new_readiness c ctx mid p dce u"
  note u = obtain_package_accepted [OF o assms(2)]
  then have d: "p \<in> set (pq_packages u)" "distinct (map bp_id (pq_packages u))" by (auto simp: prep_rows_inv_def)
  have grown: "prep_grown u t'" unfolding t' by (rule update_grown [OF d]) auto
  have "p\<lparr> bp_aggregate_revision := bp_aggregate_revision p + 1, bp_state := s \<rparr> \<in> set (pq_packages t')"
    unfolding t' by (rule updated_package) (simp add: d(1))
  moreover have "ry_tenant_id ?r = bp_tenant_id p" "ry_package_id ?r = bp_id p" "ry_revision ?r = bp_aggregate_revision p + 1"
    "ry_state ?r = verdict_state (ry_blocker_codes ?r) (ry_warning_codes ?r)" "set (ry_blocker_codes ?r) \<subseteq> set BLOCKER_VALUES"
    "set (ry_warning_codes ?r) \<subseteq> set WARNING_VALUES" using u codes_known by (simp_all add: new_readiness_def Let_def)
  ultimately have "readiness_traced t' ?r" unfolding readiness_traced_def
    by (intro conjI bexI [of _ "p\<lparr> bp_aggregate_revision := bp_aggregate_revision p + 1, bp_state := s \<rparr>"]) simp_all
  then show ?thesis
    by (intro rows_inv_extended [OF conjunct1 [OF u] grown, where rs = "[?r]" and ds = "[]" and drs = "[]" and rvs = "[]" and ns = "[]"
          and hs = "[]" and ms = "[]"]) (use u in \<open>simp_all add: t' prep_rows_inv_def\<close>)
qed

section \<open>Generation and drafts\<close>

lemma generation_basis_accepted:
  assumes "generation_basis f ctx mid t = Inr (p, r, reqs)"
  shows "p \<in> set (pq_packages t) \<and> bp_tenant_id p = cc_tenant_id ctx \<and> bp_id p = xg_package_id f \<and> r \<in> set (pq_readiness t)
    \<and> ry_tenant_id r = cc_tenant_id ctx \<and> ry_package_id r = bp_id p \<and> ry_state r \<noteq> ''BLOCKED''"
proof -
  obtain q where q: "find_prep_package (cc_tenant_id ctx) (xg_package_id f) t = Some q"
    using assms by (auto simp: generation_basis_def Let_def split: option.splits)
  note run = assms [unfolded generation_basis_def Let_def q option.case]
  have "q = p" "List.find (\<lambda>r. ry_revision r = xg_readiness_revision f) (package_readiness (cc_tenant_id ctx) (bp_id p) t) = Some r"
    "ry_state r \<noteq> ''BLOCKED''" using run by (auto split: option.splits if_splits)
  then show ?thesis using find_prep_package_Some [OF q] by (auto dest!: find_Some_in simp: package_readiness_def)
qed

lemma generate_accepted:
  assumes "generate_document f c ctx mid t fs = (Inr (ho, t'), fs')"
  obtains p r reqs content sha s where "generation_basis f ctx mid t = Inr (p, r, reqs)"
    "storage_write (document_key (cc_tenant_id ctx) (bp_id p) (xg_document_id f)) (utf8_text content) fs = (Inr sha, fs')"
    "t' = update_package p s (t\<lparr> pq_documents := pq_documents t
       @ [new_generated f c ctx mid p r (next_number (map tg_version (package_documents (cc_tenant_id ctx) (bp_id p) t))) sha] \<rparr>)"
    "\<forall>d \<in> set (pq_documents t). tg_id d \<noteq> xg_document_id f"
proof -
  obtain p r reqs where b: "generation_basis f ctx mid t = Inr (p, r, reqs)"
    using assms by (cases "generation_basis f ctx mid t") (auto simp: generate_document_def)
  let ?v = "next_number (map tg_version (package_documents (cc_tenant_id ctx) (bp_id p) t))"
  obtain content result etype where dc: "document_content (xg_document_kind f) p r ?v reqs = Inr (content, result, etype)"
    using assms by (cases "document_content (xg_document_kind f) p r ?v reqs") (auto simp: generate_document_def b)
  let ?key = "document_key (cc_tenant_id ctx) (bp_id p) (xg_document_id f)"
  obtain a fs1 where w: "storage_write ?key (utf8_text content) fs = (a, fs1)" by (rule prod.exhaust)
  note run = assms [unfolded generate_document_def b dc Let_def sum.case prod.case w]
  obtain sha where a: "a = Inr sha" using run by (cases a) (auto split: if_splits)
  let ?d = "new_generated f c ctx mid p r ?v sha"
  have "fs1 = fs'" "t' = update_package p ''GENERATED'' (t\<lparr> pq_documents := pq_documents t @ [?d] \<rparr>)"
    "\<forall>x \<in> set (pq_documents t). \<not> tg_clash ?d x"
    using run by (auto simp: a insert_row_Inr split: if_splits sum.splits)
  then have eq: "storage_write ?key (utf8_text content) fs = (Inr sha, fs')" and t': "t' = update_package p ''GENERATED''
      (t\<lparr> pq_documents := pq_documents t @ [?d] \<rparr>)" and "\<forall>x \<in> set (pq_documents t). \<not> tg_clash ?d x" using w a by simp_all
  then have "\<forall>x \<in> set (pq_documents t). tg_id x \<noteq> xg_document_id f" by (auto simp: tg_clash_def new_generated_def)
  with eq t' show thesis by (rule that [OF b])
qed

lemma package_documents_Some:
  "d \<in> set (package_documents tid pid t) \<longleftrightarrow> d \<in> set (pq_documents t) \<and> tg_tenant_id d = tid \<and> tg_package_id d = pid"
  by (auto simp: package_documents_def)

lemma generated_inv:
  assumes "generate_document f c ctx mid t fs = (Inr (ho, t'), fs')" "prep_rows_inv t"
  shows "prep_rows_inv t'"
proof -
  let ?v = "\<lambda>p. next_number (map tg_version (package_documents (cc_tenant_id ctx) (bp_id p) t))"
  obtain p r reqs sha s where b: "generation_basis f ctx mid t = Inr (p, r, reqs)"
    and t': "t' = update_package p s (t\<lparr> pq_documents := pq_documents t @ [new_generated f c ctx mid p r (?v p) sha] \<rparr>)"
    and new: "\<forall>d \<in> set (pq_documents t). tg_id d \<noteq> xg_document_id f"
    by (rule generate_accepted [OF assms(1)])
  let ?d = "new_generated f c ctx mid p r (?v p) sha"
  note p = generation_basis_accepted [OF b]
  have d: "p \<in> set (pq_packages t)" "distinct (map bp_id (pq_packages t))" using p assms(2) by (auto simp: prep_rows_inv_def)
  have grown: "prep_grown t t'" unfolding t' by (rule update_grown [OF d]) auto
  have key: "tg_tenant_id ?d = cc_tenant_id ctx" "tg_package_id ?d = bp_id p" "tg_readiness_id ?d = ry_id r" "tg_version ?d = ?v p"
    "tg_id ?d = xg_document_id f" by (simp_all add: new_generated_def)
  have "ry_blocker_codes r = []" using p assms(2) by (auto simp: prep_rows_inv_def readiness_traced_def verdict_state_def split: if_splits)
  then have "open_readiness t (cc_tenant_id ctx) (bp_id p) (ry_id r)" using p unfolding open_readiness_def by blast
  moreover have "\<forall>x \<in> set (map tg_version (package_documents (cc_tenant_id ctx) (bp_id p) t)). 1 \<le> x"
    using assms(2) by (auto simp: package_documents_Some prep_rows_inv_def document_traced_def)
  note v = next_number_bounds [OF this]
  have "\<exists>did. document_version t (cc_tenant_id ctx) (bp_id p) did (?v p - 1)" if "1 < ?v p"
  proof -
    note big = that
    obtain x where "x \<in> set (package_documents (cc_tenant_id ctx) (bp_id p) t)" "tg_version x = ?v p - 1" using v big by auto
    then show ?thesis unfolding document_version_def package_documents_Some by blast
  qed
  ultimately have "document_traced t' ?d"
    using grown_refs [OF grown] v unfolding document_traced_def key by blast
  then show ?thesis
    by (intro rows_inv_extended [OF assms(2) grown, where rs = "[]" and ds = "[?d]" and drs = "[]" and rvs = "[]" and ns = "[]"
          and hs = "[]" and ms = "[]"]) (use assms(2) new key(5) in \<open>auto simp: t' prep_rows_inv_def\<close>)
qed

lemma with_member_Inr: "with_member ctx k = Inr x \<longleftrightarrow> (\<exists>mid. cc_membership_id ctx = Some mid \<and> k mid = Inr x)"
  by (auto simp: with_member_def split: option.splits)

lemma draft_accepted:
  assumes "create_draft f c ctx t fs = (Inr (ho, t'), fs')"
  obtains p d content sha mid v s where "p \<in> set (pq_packages t)" "d \<in> set (pq_documents t)" "tg_tenant_id d = cc_tenant_id ctx"
    "tg_package_id d = bp_id p" "tg_id d = xt_source_document_id f" "set (xt_section_codes f) \<subseteq> set ALLOWED_SECTION_CODES"
    "storage_write (draft_key (cc_tenant_id ctx) (bp_id p) (xt_draft_id f) v) (utf8_text content) fs = (Inr sha, fs')"
    "t' = update_package p s (t\<lparr> pq_drafts := pq_drafts t @ [new_draft f c ctx mid (bp_id p) v sha] \<rparr>)"
proof -
  obtain p where p: "find_prep_package (cc_tenant_id ctx) (xt_package_id f) t = Some p"
    using assms by (auto simp: create_draft_def Let_def split: option.splits if_splits)
  let ?v = "next_number (draft_versions (cc_tenant_id ctx) (xt_draft_id f) t)"
  let ?content = "draft_content (sorted_set (xt_section_codes f)) (sorted_set (map uuid_str (xt_source_refs f)))"
  let ?key = "draft_key (cc_tenant_id ctx) (bp_id p) (xt_draft_id f) ?v"
  obtain a fs1 where w: "storage_write ?key (utf8_text ?content) fs = (a, fs1)" by (rule prod.exhaust)
  note run = assms [unfolded create_draft_def Let_def p option.case w prod.case]
  have g: "\<not> list_ex (\<lambda>s. s \<notin> set ALLOWED_SECTION_CODES) (xt_section_codes f)"
    "list_ex (\<lambda>d. tg_id d = xt_source_document_id f) (package_documents (cc_tenant_id ctx) (bp_id p) t)"
    using run by (auto split: if_splits)
  obtain sha where a: "a = Inr sha" using run by (cases a) (auto split: if_splits)
  have "fs1 = fs'" "with_member ctx (\<lambda>mid. case insert_row td_check td_clash (new_draft f c ctx mid (bp_id p) ?v sha) (pq_drafts t) of
      Inl e \<Rightarrow> Inl e | Inr rows \<Rightarrow> Inr (prep_outcome ''TechnicalResponseDraft'' (xt_draft_id f) ?v ''TechnicalResponseDraftCreated''
        [(''draft_id'', JStr (uuid_str (xt_draft_id f))), (''version'', JInt ?v), (''package_id'', JStr (uuid_str (bp_id p))),
         (''state'', JStr ''DRAFT'')] ''TECHNICAL_RESPONSE_DRAFT_CREATED'',
      update_package p ''IN_PREPARATION'' (t\<lparr> pq_drafts := rows \<rparr>))) = Inr (ho, t')"
    using run by (auto simp: a split: if_splits)
  then obtain mid where "t' = update_package p ''IN_PREPARATION'' (t\<lparr> pq_drafts := pq_drafts t @ [new_draft f c ctx mid (bp_id p) ?v sha] \<rparr>)"
    "fs1 = fs'" by (auto simp: with_member_Inr insert_row_Inr sum_bind_Inr)
  moreover obtain d where "d \<in> set (package_documents (cc_tenant_id ctx) (bp_id p) t)" "tg_id d = xt_source_document_id f"
    using g(2) by (auto simp: list_ex_iff)
  ultimately show thesis
    using that [of p d ?v ?content sha "''IN_PREPARATION''" mid] find_prep_package_Some [OF p] g(1) w a
    by (simp add: package_documents_Some list_ex_iff subset_iff)
qed

lemma drafted_inv:
  assumes "create_draft f c ctx t fs = (Inr (ho, t'), fs')" "prep_rows_inv t"
  shows "prep_rows_inv t'"
proof -
  obtain p d sha mid v s where r: "p \<in> set (pq_packages t)" "d \<in> set (pq_documents t)" "tg_tenant_id d = cc_tenant_id ctx"
    "tg_package_id d = bp_id p" "tg_id d = xt_source_document_id f" "set (xt_section_codes f) \<subseteq> set ALLOWED_SECTION_CODES"
    and t': "t' = update_package p s (t\<lparr> pq_drafts := pq_drafts t @ [new_draft f c ctx mid (bp_id p) v sha] \<rparr>)"
    by (rule draft_accepted [OF assms(1)])
  let ?d = "new_draft f c ctx mid (bp_id p) v sha"
  have d: "distinct (map bp_id (pq_packages t))" using assms(2) by (auto simp: prep_rows_inv_def)
  have grown: "prep_grown t t'" unfolding t' by (rule update_grown [OF r(1) d]) auto
  have "draft_traced t' ?d"
    using r(2-6) by (auto simp: draft_traced_def document_version_def t' new_draft_def sorted_set_def)
  then show ?thesis
    by (intro rows_inv_extended [OF assms(2) grown, where rs = "[]" and ds = "[]" and drs = "[?d]" and rvs = "[]" and ns = "[]"
          and hs = "[]" and ms = "[]"]) (use assms(2) in \<open>auto simp: t' prep_rows_inv_def\<close>)
qed

section \<open>Reviews\<close>

lemma review_added:
  assumes "prep_rows_inv t" "p \<in> set (pq_packages t)" "\<forall>x \<in> set (pq_reviews t). review_key x \<noteq> review_key r"
    "review_traced (t\<lparr> pq_reviews := pq_reviews t @ [r] \<rparr>) r"
  shows "prep_rows_inv (update_package p s (t\<lparr> pq_reviews := pq_reviews t @ [r] \<rparr>))"
proof -
  let ?u = "t\<lparr> pq_reviews := pq_reviews t @ [r] \<rparr>"
  have d: "distinct (map bp_id (pq_packages t))" using assms(1) by (simp add: prep_rows_inv_def)
  have grown: "prep_grown t (update_package p s ?u)" by (rule update_grown [OF assms(2) d]) auto
  have "prep_grown ?u (update_package p s ?u)" by (rule update_grown) (use assms(2) d in auto)
  then have "review_traced (update_package p s ?u) r" using assms(4) by (rule grown_traced(4))
  then show ?thesis
    by (intro rows_inv_extended [OF assms(1) grown, where rs = "[]" and ds = "[]" and drs = "[]" and rvs = "[r]" and ns = "[]"
          and hs = "[]" and ms = "[]"]) (use assms(1,3) d in \<open>auto simp: prep_rows_inv_def\<close>)
qed

lemma rv_key_clash: "\<not> rv_clash r x \<Longrightarrow> review_key x \<noteq> review_key r"
  by (auto simp: rv_clash_def review_key_def)

lemma review_key_new [simp]: "review_key (new_review rid pid did v n s dc dn c ctx mid) = (cc_tenant_id ctx, rid, n)"
  by (simp add: review_key_def new_review_def)

lemma request_accepted:
  assumes "request_review f c ctx t = Inr (ho, t')"
  obtains p mid s where "p \<in> set (pq_packages t)"
    "document_version t (cc_tenant_id ctx) (bp_id p) (xv_target_document_id f) (xv_target_version f)"
    "t' = update_package p s (t\<lparr> pq_reviews := pq_reviews t @ [new_review (xv_review_id f) (bp_id p) (xv_target_document_id f)
       (xv_target_version f) 1 ''REQUESTED'' None None c ctx mid] \<rparr>)"
    "\<forall>x \<in> set (pq_reviews t). review_key x \<noteq> (cc_tenant_id ctx, xv_review_id f, 1)"
proof -
  obtain p where p: "find_prep_package (cc_tenant_id ctx) (xv_package_id f) t = Some p"
    using assms by (auto simp: request_review_def Let_def split: option.splits if_splits)
  note run = assms [unfolded request_review_def Let_def p option.case]
  have g: "list_ex (\<lambda>d. tg_id d = xv_target_document_id f \<and> tg_version d = xv_target_version f) (package_documents (cc_tenant_id ctx) (bp_id p) t)"
    using run by (auto split: if_splits)
  let ?r = "\<lambda>mid. new_review (xv_review_id f) (bp_id p) (xv_target_document_id f) (xv_target_version f) 1 ''REQUESTED'' None None c ctx mid"
  obtain mid rows where i: "insert_row rv_check rv_clash (?r mid) (pq_reviews t) = Inr rows"
    "t' = update_package p ''A_REVIEW'' (t\<lparr> pq_reviews := rows \<rparr>)"
    using run by (auto simp: with_member_Inr sum_bind_Inr split: if_splits)
  then have t': "t' = update_package p ''A_REVIEW'' (t\<lparr> pq_reviews := pq_reviews t @ [?r mid] \<rparr>)"
    and n: "\<forall>x \<in> set (pq_reviews t). \<not> rv_clash (?r mid) x" by (simp_all add: insert_row_Inr)
  have "document_version t (cc_tenant_id ctx) (bp_id p) (xv_target_document_id f) (xv_target_version f)"
    using g by (auto simp: document_version_def list_ex_iff package_documents_Some)
  moreover have "\<forall>x \<in> set (pq_reviews t). review_key x \<noteq> (cc_tenant_id ctx, xv_review_id f, 1)" using n rv_key_clash by fastforce
  ultimately show thesis using that [OF _ _ t'] find_prep_package_Some [OF p] by blast
qed

lemma requested_inv:
  assumes "request_review f c ctx t = Inr (ho, t')" "prep_rows_inv t" "0 < xv_target_version f"
  shows "prep_rows_inv t'"
proof -
  obtain p mid s where r: "p \<in> set (pq_packages t)"
    "document_version t (cc_tenant_id ctx) (bp_id p) (xv_target_document_id f) (xv_target_version f)"
    and t': "t' = update_package p s (t\<lparr> pq_reviews := pq_reviews t @ [new_review (xv_review_id f) (bp_id p) (xv_target_document_id f)
       (xv_target_version f) 1 ''REQUESTED'' None None c ctx mid] \<rparr>)"
    and n: "\<forall>x \<in> set (pq_reviews t). review_key x \<noteq> (cc_tenant_id ctx, xv_review_id f, 1)"
    by (rule request_accepted [OF assms(1)])
  let ?r = "new_review (xv_review_id f) (bp_id p) (xv_target_document_id f) (xv_target_version f) 1 ''REQUESTED'' None None c ctx mid"
  have "document_version (t\<lparr> pq_reviews := pq_reviews t @ [?r] \<rparr>) (rv_tenant_id ?r) (rv_package_id ?r) (rv_target_document_id ?r) (rv_target_version ?r)"
    using r(2) by (simp add: document_version_def new_review_def)
  moreover have "rv_revision ?r = 1" "rv_state ?r = ''REQUESTED''" by (simp_all add: new_review_def)
  ultimately have "review_traced (t\<lparr> pq_reviews := pq_reviews t @ [?r] \<rparr>) ?r" unfolding review_traced_def by simp
  then show ?thesis unfolding t' using n by (intro review_added [OF assms(2) r(1)]) simp_all
qed

lemma reviewed_accepted:
  assumes "reviewed ctx pid rid did t = Inr (p, r)"
  shows "p \<in> set (pq_packages t) \<and> bp_tenant_id p = cc_tenant_id ctx \<and> bp_id p = pid \<and> r \<in> set (pq_reviews t)
    \<and> rv_tenant_id r = cc_tenant_id ctx \<and> rv_review_id r = rid \<and> rv_package_id r = bp_id p \<and> rv_target_document_id r = did
    \<and> latest_review (cc_tenant_id ctx) rid t = Some r"
proof -
  obtain q where q: "find_prep_package (cc_tenant_id ctx) pid t = Some q"
    using assms by (auto simp: reviewed_def Let_def split: option.splits if_splits)
  note run = assms [unfolded reviewed_def Let_def q option.case]
  have l: "latest_review (cc_tenant_id ctx) rid t = Some r" "q = p" "rv_package_id r = bp_id p" "rv_target_document_id r = did"
    using run by (auto split: option.splits if_splits)
  have "r \<in> set (review_rows (cc_tenant_id ctx) rid t)" using first_max_Some [OF l(1) [unfolded latest_review_def]] by simp
  then show ?thesis using l find_prep_package_Some [OF q] by (auto simp: review_rows_def)
qed

lemma decide_accepted:
  assumes "decide_review f c ctx t = Inr (ho, t')"
  obtains p r state mid where "reviewed ctx (xd_package_id f) (xd_review_id f) (xd_target_document_id f) t = Inr (p, r)"
    "undecided (rv_state r)" "decided_state (xd_decision_code f) = Some state"
    "t' = update_package p (decided_package_state state) (t\<lparr> pq_reviews := pq_reviews t @ [new_review (rv_review_id r) (bp_id p)
       (rv_target_document_id r) (rv_target_version r) (rv_revision r + 1) state (Some (xd_decision_code f)) (xd_decision_note f) c ctx mid] \<rparr>)"
    "\<forall>x \<in> set (pq_reviews t). review_key x \<noteq> (cc_tenant_id ctx, rv_review_id r, rv_revision r + 1)"
proof -
  obtain p r where pr: "reviewed ctx (xd_package_id f) (xd_review_id f) (xd_target_document_id f) t = Inr (p, r)"
    using assms by (auto simp: decide_review_def split: sum.splits)
  note run = assms [unfolded decide_review_def pr sum.case prod.case]
  obtain state where s: "decided_state (xd_decision_code f) = Some state" using run by (auto split: if_splits option.splits)
  have u: "undecided (rv_state r)" using run by (auto simp: undecided_def split: if_splits)
  let ?r = "\<lambda>mid. new_review (rv_review_id r) (bp_id p) (rv_target_document_id r) (rv_target_version r) (rv_revision r + 1) state
       (Some (xd_decision_code f)) (xd_decision_note f) c ctx mid"
  obtain mid rows where i: "insert_row rv_check rv_clash (?r mid) (pq_reviews t) = Inr rows"
    "t' = update_package p (decided_package_state state) (t\<lparr> pq_reviews := rows \<rparr>)"
    using run by (auto simp: s with_member_Inr sum_bind_Inr split: if_splits)
  then have t': "t' = update_package p (decided_package_state state) (t\<lparr> pq_reviews := pq_reviews t @ [?r mid] \<rparr>)"
    and n: "\<forall>x \<in> set (pq_reviews t). \<not> rv_clash (?r mid) x" by (simp_all add: insert_row_Inr)
  have "\<forall>x \<in> set (pq_reviews t). review_key x \<noteq> (cc_tenant_id ctx, rv_review_id r, rv_revision r + 1)" using n rv_key_clash by fastforce
  then show thesis by (rule that [OF pr u s t'])
qed

lemma decided_state_open: "decided_state d = Some state \<Longrightarrow> state \<noteq> ''REQUESTED''"
  by (auto simp: decided_state_def split: if_splits)

lemma decided_inv:
  assumes "decide_review f c ctx t = Inr (ho, t')" "prep_rows_inv t"
  shows "prep_rows_inv t'"
proof -
  obtain p r state mid where pr: "reviewed ctx (xd_package_id f) (xd_review_id f) (xd_target_document_id f) t = Inr (p, r)"
    and u: "undecided (rv_state r)" and s: "decided_state (xd_decision_code f) = Some state"
    and t': "t' = update_package p (decided_package_state state) (t\<lparr> pq_reviews := pq_reviews t @ [new_review (rv_review_id r) (bp_id p)
       (rv_target_document_id r) (rv_target_version r) (rv_revision r + 1) state (Some (xd_decision_code f)) (xd_decision_note f) c ctx mid] \<rparr>)"
    and n: "\<forall>x \<in> set (pq_reviews t). review_key x \<noteq> (cc_tenant_id ctx, rv_review_id r, rv_revision r + 1)"
    by (rule decide_accepted [OF assms(1)])
  note r = reviewed_accepted [OF pr]
  let ?n = "new_review (rv_review_id r) (bp_id p) (rv_target_document_id r) (rv_target_version r) (rv_revision r + 1) state
       (Some (xd_decision_code f)) (xd_decision_note f) c ctx mid"
  let ?u = "t\<lparr> pq_reviews := pq_reviews t @ [?n] \<rparr>"
  have rt: "document_version t (rv_tenant_id r) (rv_package_id r) (rv_target_document_id r) (rv_target_version r)" "1 \<le> rv_revision r"
    using r assms(2) by (auto simp: prep_rows_inv_def review_traced_def)
  have "document_version ?u (rv_tenant_id ?n) (rv_package_id ?n) (rv_target_document_id ?n) (rv_target_version ?n)"
    using rt(1) r by (simp add: document_version_def new_review_def)
  moreover have "rv_revision ?n = rv_revision r + 1" "rv_state ?n = state" by (simp_all add: new_review_def)
  moreover have "review_follows ?n r" using r u by (simp add: review_follows_def new_review_def)
  ultimately have "review_traced ?u ?n" using rt(2) r decided_state_open [OF s] unfolding review_traced_def by auto
  then show ?thesis unfolding t' using n r by (intro review_added [OF assms(2)]) simp_all
qed

lemma correction_accepted:
  assumes "add_correction f c ctx t = Inr (ho, t')"
  obtains p r mid n where "reviewed ctx (xc_package_id f) (xc_review_id f) (xc_target_document_id f) t = Inr (p, r)"
    "rv_state r = ''RETURNED_WITH_CORRECTIONS''"
    "t' = update_package p (bp_state p) (t\<lparr> pq_corrections := pq_corrections t @ [new_correction f c ctx mid r n] \<rparr>)"
proof -
  obtain p r where pr: "reviewed ctx (xc_package_id f) (xc_review_id f) (xc_target_document_id f) t = Inr (p, r)"
    using assms by (auto simp: add_correction_def split: sum.splits)
  note run = assms [unfolded add_correction_def pr sum.case prod.case Let_def]
  have "rv_state r = ''RETURNED_WITH_CORRECTIONS''" using run by (auto split: if_splits)
  moreover obtain mid n where "t' = update_package p (bp_state p) (t\<lparr> pq_corrections := pq_corrections t @ [new_correction f c ctx mid r n] \<rparr>)"
    using run by (auto simp: with_member_Inr sum_bind_Inr insert_row_Inr split: if_splits)
  ultimately show thesis by (rule that [OF pr])
qed

lemma corrected_inv:
  assumes "add_correction f c ctx t = Inr (ho, t')" "prep_rows_inv t"
  shows "prep_rows_inv t'"
proof -
  obtain p r mid n where pr: "reviewed ctx (xc_package_id f) (xc_review_id f) (xc_target_document_id f) t = Inr (p, r)"
    and s: "rv_state r = ''RETURNED_WITH_CORRECTIONS''"
    and t': "t' = update_package p (bp_state p) (t\<lparr> pq_corrections := pq_corrections t @ [new_correction f c ctx mid r n] \<rparr>)"
    by (rule correction_accepted [OF assms(1)])
  let ?n = "new_correction f c ctx mid r n"
  note r = reviewed_accepted [OF pr]
  have d: "p \<in> set (pq_packages t)" "distinct (map bp_id (pq_packages t))" using r assms(2) by (auto simp: prep_rows_inv_def)
  have grown: "prep_grown t t'" unfolding t' by (rule update_grown [OF d]) auto
  have "r \<in> set (pq_reviews t')" using r by (simp add: t')
  moreover have "cn_tenant_id ?n = rv_tenant_id r" "cn_review_id ?n = rv_review_id r" "cn_review_revision ?n = rv_revision r"
    "cn_target_document_id ?n = rv_target_document_id r" using r by (simp_all add: new_correction_def)
  ultimately have "correction_traced t' ?n" using s unfolding correction_traced_def by (intro bexI [of _ r]) simp_all
  then show ?thesis
    by (intro rows_inv_extended [OF assms(2) grown, where rs = "[]" and ds = "[]" and drs = "[]" and rvs = "[]" and ns = "[?n]"
          and hs = "[]" and ms = "[]"]) (use assms(2) in \<open>auto simp: t' prep_rows_inv_def\<close>)
qed

section \<open>Snapshots and transmissions\<close>

lemma transmission_basis_accepted:
  "transmission_basis ctx pid expected t = Inr (mid, p) \<Longrightarrow>
     p \<in> set (pq_packages t) \<and> bp_tenant_id p = cc_tenant_id ctx \<and> bp_id p = pid \<and> bp_aggregate_revision p = expected"
  using find_prep_package_Some by (auto simp: transmission_basis_def split: option.splits if_splits)

lemma ordered_documents_in:
  "ordered_documents tid pid t = d # ds \<Longrightarrow> d \<in> set (pq_documents t) \<and> tg_tenant_id d = tid \<and> tg_package_id d = pid"
proof -
  assume "ordered_documents tid pid t = d # ds"
  then have "d \<in> set (ordered_documents tid pid t)" by simp
  then show ?thesis by (auto simp: ordered_documents_def package_documents_Some)
qed

lemma snapshot_accepted:
  assumes "create_snapshot f c ctx mid p t = Inr (ho, t')"
  obtains r d ds v where "latest_prep_readiness (cc_tenant_id ctx) (bp_id p) t = Some r" "ry_state r \<noteq> ''BLOCKED''"
    "ordered_documents (cc_tenant_id ctx) (bp_id p) t = d # ds" "bp_state p \<in> {''GENERATED'', ''A_REVIEW''}"
    "t' = update_package p ''READY'' (t\<lparr> pq_snapshots := pq_snapshots t @ [new_snapshot f c ctx mid p r d v
       (snapshot_manifest p r (d # ds) (latest_drafts (cc_tenant_id ctx) (bp_id p) t))] \<rparr>)"
proof -
  obtain r where r: "latest_prep_readiness (cc_tenant_id ctx) (bp_id p) t = Some r"
    using assms by (auto simp: create_snapshot_def Let_def split: option.splits if_splits)
  note run = assms [unfolded create_snapshot_def Let_def r option.case]
  obtain d ds where d: "ordered_documents (cc_tenant_id ctx) (bp_id p) t = d # ds" using run by (auto split: if_splits list.splits)
  have "bp_state p \<in> {''GENERATED'', ''A_REVIEW''}" "ry_state r \<noteq> ''BLOCKED''" using run by (auto split: if_splits)
  moreover obtain v where "t' = update_package p ''READY'' (t\<lparr> pq_snapshots := pq_snapshots t @ [new_snapshot f c ctx mid p r d v
       (snapshot_manifest p r (d # ds) (latest_drafts (cc_tenant_id ctx) (bp_id p) t))] \<rparr>)"
    using run by (auto simp: d sum_bind_Inr insert_row_Inr split: if_splits)
  ultimately show thesis using that [OF r _ d] by blast
qed

lemma snapshot_inv:
  assumes "create_snapshot f c ctx mid p t = Inr (ho, t')" "prep_rows_inv t" "p \<in> set (pq_packages t)"
  shows "prep_rows_inv t'"
proof -
  obtain r d ds v where r: "latest_prep_readiness (cc_tenant_id ctx) (bp_id p) t = Some r" "ry_state r \<noteq> ''BLOCKED''"
    "ordered_documents (cc_tenant_id ctx) (bp_id p) t = d # ds"
    and t': "t' = update_package p ''READY'' (t\<lparr> pq_snapshots := pq_snapshots t @ [new_snapshot f c ctx mid p r d v
       (snapshot_manifest p r (d # ds) (latest_drafts (cc_tenant_id ctx) (bp_id p) t))] \<rparr>)"
    by (rule snapshot_accepted [OF assms(1)])
  let ?h = "new_snapshot f c ctx mid p r d v (snapshot_manifest p r (d # ds) (latest_drafts (cc_tenant_id ctx) (bp_id p) t))"
  have "r \<in> set (package_readiness (cc_tenant_id ctx) (bp_id p) t)" using first_max_Some [OF r(1) [unfolded latest_prep_readiness_def]] by simp
  then have rin: "r \<in> set (pq_readiness t)" "ry_tenant_id r = cc_tenant_id ctx" "ry_package_id r = bp_id p" by (auto simp: package_readiness_def)
  then have "ry_blocker_codes r = []" using r(2) assms(2) by (auto simp: prep_rows_inv_def readiness_traced_def verdict_state_def split: if_splits)
  with rin have o: "open_readiness t (cc_tenant_id ctx) (bp_id p) (ry_id r)" unfolding open_readiness_def by blast
  have v: "document_version t (cc_tenant_id ctx) (bp_id p) (tg_id d) (tg_version d)"
    using ordered_documents_in [OF r(3)] unfolding document_version_def by blast
  have d: "distinct (map bp_id (pq_packages t))" using assms(2) by (simp add: prep_rows_inv_def)
  have grown: "prep_grown t t'" unfolding t' by (rule update_grown [OF assms(3) d]) auto
  have key: "sh_tenant_id ?h = cc_tenant_id ctx" "sh_package_id ?h = bp_id p" "sh_readiness_id ?h = ry_id r"
    "sh_technical_document_id ?h = tg_id d" "sh_technical_document_version ?h = tg_version d"
    "sh_manifest_sha256 ?h = sha256_hex (json_dumps (sh_manifest_json ?h))" by (simp_all add: new_snapshot_def)
  have "snapshot_traced t' ?h" using grown_refs(1) [OF grown o] grown_refs(2) [OF grown v] unfolding snapshot_traced_def key(1-5) by (simp add: key(6))
  then show ?thesis
    by (intro rows_inv_extended [OF assms(2) grown, where rs = "[]" and ds = "[]" and drs = "[]" and rvs = "[]" and ns = "[]"
          and hs = "[?h]" and ms = "[]"]) (use assms(2) in \<open>simp_all add: t' prep_rows_inv_def\<close>)
qed

lemma transmit_accepted:
  assumes "transmit_snapshot wording f c ctx mid p t = Inr (ho, t')"
  obtains h b where "h \<in> set (pq_snapshots t)" "sh_tenant_id h = cc_tenant_id ctx" "sh_id h = xm_snapshot_id f" "sh_package_id h = bp_id p"
    "\<forall>m \<in> set (pq_transmissions t). transmission_key m \<noteq> (cc_tenant_id ctx, xm_snapshot_id f)"
    "set (pa_actions (pq_patron t)) \<subseteq> set (pa_actions b)"
    "\<exists>a \<in> set (pa_actions b). pa_tenant_id a = cc_tenant_id ctx \<and> pa_functional_key a = transmission_action_key (xm_transmission_id f)"
    "t' = update_package p ''A_REVIEW'' (t\<lparr> pq_transmissions := pq_transmissions t @ [new_transmission f c ctx mid p], pq_patron := b \<rparr>)"
proof -
  let ?a = "transmission_action wording f c ctx mid p"
  note run = assms [unfolded transmit_snapshot_def Let_def]
  have g: "list_ex (\<lambda>h. sh_tenant_id h = cc_tenant_id ctx \<and> sh_id h = xm_snapshot_id f \<and> sh_package_id h = bp_id p
      \<and> sh_state h = ''READY_FOR_PATRON_REVIEW'') (pq_snapshots t)"
    "\<not> list_ex (\<lambda>m. tm_tenant_id m = cc_tenant_id ctx \<and> tm_snapshot_id m = xm_snapshot_id f) (pq_transmissions t)"
    using run by (auto split: if_splits)
  then obtain h where h: "h \<in> set (pq_snapshots t)" "sh_tenant_id h = cc_tenant_id ctx" "sh_id h = xm_snapshot_id f" "sh_package_id h = bp_id p"
    by (auto simp: list_ex_iff)
  have n: "\<forall>m \<in> set (pq_transmissions t). transmission_key m \<noteq> (cc_tenant_id ctx, xm_snapshot_id f)"
    using g(2) by (auto simp: list_ex_iff transmission_key_def)
  obtain action b where b: "create_from_transmission ?a (pq_patron t) = Inr (action, b)"
    and t': "t' = update_package p ''A_REVIEW'' (t\<lparr> pq_transmissions := pq_transmissions t @ [new_transmission f c ctx mid p], pq_patron := b \<rparr>)"
    using run g by (auto simp: sum_bind_Inr insert_row_Inr split: if_splits)
  have key: "pa_tenant_id ?a = cc_tenant_id ctx" "pa_functional_key ?a = transmission_action_key (xm_transmission_id f)"
    by (simp_all add: transmission_action_def)
  have "set (pa_actions (pq_patron t)) \<subseteq> set (pa_actions b)
      \<and> (\<exists>a \<in> set (pa_actions b). pa_tenant_id a = cc_tenant_id ctx \<and> pa_functional_key a = transmission_action_key (xm_transmission_id f))"
    using b key by (auto simp: create_from_transmission_def find_action_key_def find_Some_iff insert_row_Inr split: if_splits sum.splits)
  then show thesis using that [OF h n _ _ t'] by blast
qed

lemma transmitted_inv:
  assumes "transmit_snapshot wording f c ctx mid p t = Inr (ho, t')" "prep_rows_inv t" "p \<in> set (pq_packages t)"
  shows "prep_rows_inv t'"
proof -
  obtain h b where h: "h \<in> set (pq_snapshots t)" "sh_tenant_id h = cc_tenant_id ctx" "sh_id h = xm_snapshot_id f" "sh_package_id h = bp_id p"
    and n: "\<forall>m \<in> set (pq_transmissions t). transmission_key m \<noteq> (cc_tenant_id ctx, xm_snapshot_id f)"
    and b: "set (pa_actions (pq_patron t)) \<subseteq> set (pa_actions b)"
    "\<exists>a \<in> set (pa_actions b). pa_tenant_id a = cc_tenant_id ctx \<and> pa_functional_key a = transmission_action_key (xm_transmission_id f)"
    and t': "t' = update_package p ''A_REVIEW'' (t\<lparr> pq_transmissions := pq_transmissions t @ [new_transmission f c ctx mid p], pq_patron := b \<rparr>)"
    by (rule transmit_accepted [OF assms(1)])
  let ?m = "new_transmission f c ctx mid p"
  have d: "distinct (map bp_id (pq_packages t))" using assms(2) by (simp add: prep_rows_inv_def)
  have grown: "prep_grown t t'" unfolding t' by (rule update_grown [OF assms(3) d]) (use b(1) in auto)
  have key: "tm_tenant_id ?m = cc_tenant_id ctx" "tm_snapshot_id ?m = xm_snapshot_id f" "tm_package_id ?m = bp_id p" "tm_id ?m = xm_transmission_id f"
    "transmission_key ?m = (cc_tenant_id ctx, xm_snapshot_id f)" by (simp_all add: new_transmission_def transmission_key_def)
  have "transmission_traced t' ?m"
    unfolding transmission_traced_def key
  proof (intro conjI)
    show "\<exists>h \<in> set (pq_snapshots t'). sh_tenant_id h = cc_tenant_id ctx \<and> sh_id h = xm_snapshot_id f \<and> sh_package_id h = bp_id p"
      using h by (intro bexI [of _ h]) (simp_all add: t')
    show "\<exists>a \<in> set (pa_actions (pq_patron t')). pa_tenant_id a = cc_tenant_id ctx \<and> pa_functional_key a = transmission_action_key (xm_transmission_id f)"
      using b(2) by (simp add: t')
  qed
  then show ?thesis
    by (intro rows_inv_extended [OF assms(2) grown, where rs = "[]" and ds = "[]" and drs = "[]" and rvs = "[]" and ns = "[]"
          and hs = "[]" and ms = "[?m]"]) (use assms(2) n in \<open>auto simp: t' prep_rows_inv_def key(5)\<close>)
qed

section \<open>Every accepted command\<close>

lemma run_prep_rows_inv:
  assumes "run_prep wording c ctx t fs = (Inr (ho, t'), fs')" "prep_command_valid (em_body c)" "prep_rows_inv t"
  shows "prep_rows_inv t'"
proof (cases "em_body c")
  case (EvaluatePreparationReadiness f)
  then show ?thesis using assms evaluated_inv by (auto simp: run_prep_def sum_bind_Inr)
next
  case (GenerateTechnicalDocument f)
  then show ?thesis using assms generated_inv by (auto simp: run_prep_def split: sum.splits)
next
  case (RequestPreparationReview f)
  then show ?thesis using assms requested_inv by (auto simp: run_prep_def)
next
  case (DecidePreparationReview f)
  then show ?thesis using assms decided_inv by (auto simp: run_prep_def)
next
  case (AddPreparationCorrection f)
  then show ?thesis using assms corrected_inv by (auto simp: run_prep_def)
next
  case (CreateTechnicalResponseDraft f)
  then show ?thesis using assms drafted_inv by (auto simp: run_prep_def)
next
  case (CreatePreparationSnapshot f)
  then obtain mid p where b: "transmission_basis ctx (xs_package_id f) (xs_expected_package_revision f) t = Inr (mid, p)"
    and r: "create_snapshot f c ctx mid p t = Inr (ho, t')" using assms(1) by (auto simp: run_prep_def sum_bind_Inr)
  show ?thesis by (rule snapshot_inv [OF r assms(3)]) (use transmission_basis_accepted [OF b] in simp)
next
  case (TransmitPreparationSnapshot f)
  then obtain mid p where b: "transmission_basis ctx (xm_package_id f) (xm_expected_package_revision f) t = Inr (mid, p)"
    and r: "transmit_snapshot wording f c ctx mid p t = Inr (ho, t')" using assms(1) by (auto simp: run_prep_def sum_bind_Inr)
  show ?thesis by (rule transmitted_inv [OF r assms(3)]) (use transmission_basis_accepted [OF b] in simp)
qed

interpretation preparation: command_handlers "prep_handlers wording fs" prep_rows_inv for wording fs
proof
  fix ctype h t c ctx fresh ho t'
  assume h: "prep_handlers wording fs ctype = Some h" "prep_rows_inv t" "h c ctx fresh t = Inr (ho, t')"
  then have "fst (run_prep wording c ctx t fs) = Inr (ho, t')" "prep_command_valid (em_body c)"
    by (auto simp: prep_handlers_def split: if_splits)
  then show "prep_rows_inv t'" using run_prep_rows_inv h(2) by (metis prod.collapse)
qed

section \<open>The revision of a package\<close>

text \<open>A package row stays as it is or its revision grows.\<close>

definition packages_moved :: "prep_tables \<Rightarrow> prep_tables \<Rightarrow> bool" where
  "packages_moved t t' =
     (\<forall>p \<in> set (pq_packages t). \<exists>q \<in> set (pq_packages t').
        bp_id q = bp_id p \<and> (q = p \<or> bp_aggregate_revision p < bp_aggregate_revision q))"

lemma packages_moved_refl: "pq_packages t' = pq_packages t \<Longrightarrow> packages_moved t t'"
  unfolding packages_moved_def by auto

lemma packages_moved_trans: "packages_moved t t' \<Longrightarrow> packages_moved t' t'' \<Longrightarrow> packages_moved t t''"
  unfolding packages_moved_def by (metis order.strict_trans)

lemma update_moved:
  assumes "p \<in> set (pq_packages t)" "distinct (map bp_id (pq_packages t))" "pq_packages u = pq_packages t"
  shows "packages_moved t (update_package p s u)"
  unfolding packages_moved_def
proof
  fix r
  assume r: "r \<in> set (pq_packages t)"
  let ?up = "\<lambda>q. if bp_id q = bp_id p then q\<lparr> bp_aggregate_revision := bp_aggregate_revision p + 1, bp_state := s \<rparr> else q"
  have "bp_id r = bp_id p \<Longrightarrow> r = p" using assms(1,2) r by (metis distinct_map inj_onD)
  then show "\<exists>q \<in> set (pq_packages (update_package p s u)). bp_id q = bp_id r \<and> (q = r \<or> bp_aggregate_revision r < bp_aggregate_revision q)"
    by (intro bexI [of _ "?up r"]) (use r assms(3) in \<open>auto simp: update_package_def set_update_where\<close>)
qed

lemma run_prep_moved:
  assumes "run_prep wording c ctx t fs = (Inr (ho, t'), fs')" "prep_rows_inv t"
  shows "packages_moved t t'"
proof -
  have d: "distinct (map bp_id (pq_packages t))" using assms(2) by (simp add: prep_rows_inv_def)
  show ?thesis
  proof (cases "em_body c")
    case (EvaluatePreparationReadiness f)
    then obtain mid where "evaluate_readiness f c ctx mid t = Inr (ho, t')" using assms(1) by (auto simp: run_prep_def sum_bind_Inr)
    then obtain p u dce s where o: "obtain_package f ctx mid t = Inr (p, u)"
      "t' = update_package p s (u\<lparr> pq_readiness := pq_readiness u @ [new_readiness c ctx mid p dce u] \<rparr>)" by (rule evaluate_accepted)
    then have p: "prep_rows_inv u" "p \<in> set (pq_packages u)" using obtain_package_accepted assms(2) by blast+
    have "packages_moved u t'" unfolding o(2) by (rule update_moved) (use p in \<open>simp_all add: prep_rows_inv_def\<close>)
    moreover have "packages_moved t u"
      using o(1) by (auto simp: obtain_package_def packages_moved_def insert_row_Inr split: option.splits if_splits sum.splits)
    ultimately show ?thesis by (metis packages_moved_trans)
  next
    case (GenerateTechnicalDocument f)
    then obtain mid where "generate_document f c ctx mid t fs = (Inr (ho, t'), fs')" using assms(1) by (auto simp: run_prep_def split: sum.splits)
    then show ?thesis by (rule generate_accepted) (use generation_basis_accepted d in \<open>auto intro: update_moved\<close>)
  next
    case (RequestPreparationReview f)
    then have "request_review f c ctx t = Inr (ho, t')" using assms(1) by (simp add: run_prep_def)
    then show ?thesis by (rule request_accepted) (use d in \<open>auto intro: update_moved\<close>)
  next
    case (DecidePreparationReview f)
    then have "decide_review f c ctx t = Inr (ho, t')" using assms(1) by (simp add: run_prep_def)
    then show ?thesis by (rule decide_accepted) (use reviewed_accepted d in \<open>auto intro: update_moved\<close>)
  next
    case (AddPreparationCorrection f)
    then have "add_correction f c ctx t = Inr (ho, t')" using assms(1) by (simp add: run_prep_def)
    then show ?thesis by (rule correction_accepted) (use reviewed_accepted d in \<open>auto intro: update_moved\<close>)
  next
    case (CreateTechnicalResponseDraft f)
    then have "create_draft f c ctx t fs = (Inr (ho, t'), fs')" using assms(1) by (simp add: run_prep_def)
    then show ?thesis by (rule draft_accepted) (use d in \<open>auto intro: update_moved\<close>)
  next
    case (CreatePreparationSnapshot f)
    then obtain mid p where b: "transmission_basis ctx (xs_package_id f) (xs_expected_package_revision f) t = Inr (mid, p)"
      and "create_snapshot f c ctx mid p t = Inr (ho, t')" using assms(1) by (auto simp: run_prep_def sum_bind_Inr)
    from this(2) show ?thesis by (rule snapshot_accepted) (use transmission_basis_accepted [OF b] d in \<open>auto intro: update_moved\<close>)
  next
    case (TransmitPreparationSnapshot f)
    then obtain mid p where b: "transmission_basis ctx (xm_package_id f) (xm_expected_package_revision f) t = Inr (mid, p)"
      and "transmit_snapshot wording f c ctx mid p t = Inr (ho, t')" using assms(1) by (auto simp: run_prep_def sum_bind_Inr)
    from this(2) show ?thesis by (rule transmit_accepted) (use transmission_basis_accepted [OF b] d in \<open>auto intro: update_moved\<close>)
  qed
qed

section \<open>The private files\<close>

text \<open>No command, accepted or refused, changes a file that was there.\<close>

lemma generate_keeps: "generate_document f c ctx mid t fs = (r, fs') \<Longrightarrow> storage_read k fs = Inr bytes \<Longrightarrow> storage_read k fs' = Inr bytes"
  by (auto simp: generate_document_def Let_def split: sum.splits prod.splits if_splits intro: local_storage.kept)

lemma draft_keeps: "create_draft f c ctx t fs = (r, fs') \<Longrightarrow> storage_read k fs = Inr bytes \<Longrightarrow> storage_read k fs' = Inr bytes"
  by (auto simp: create_draft_def Let_def split: sum.splits prod.splits if_splits option.splits intro: local_storage.kept)

lemma run_prep_keeps_bytes:
  assumes "run_prep wording c ctx t fs = (r, fs')" "storage_read k fs = Inr bytes"
  shows "storage_read k fs' = Inr bytes"
  using assms generate_keeps draft_keeps by (cases "em_body c") (auto simp: run_prep_def split: sum.splits)

lemma run_prep_keeps_files: "run_prep wording c ctx t fs = (r, fs') \<Longrightarrow> verified fs k h \<Longrightarrow> verified fs' k h"
  using run_prep_keeps_bytes unfolding verified_def by blast

text \<open>The two commands that write a file are the only ones that add a document or a draft.\<close>

lemma run_prep_documents:
  assumes "run_prep wording c ctx t fs = (Inr (ho, t'), fs')"
  shows "set (pq_documents t) \<subseteq> set (pq_documents t') \<and> set (pq_reviews t) \<subseteq> set (pq_reviews t')
    \<and> ((\<forall>f. em_body c \<noteq> GenerateTechnicalDocument f) \<and> (\<forall>f. em_body c \<noteq> CreateTechnicalResponseDraft f)
        \<longrightarrow> pq_documents t' = pq_documents t \<and> pq_drafts t' = pq_drafts t)"
proof (cases "em_body c")
  case (EvaluatePreparationReadiness f)
  then obtain mid where "evaluate_readiness f c ctx mid t = Inr (ho, t')" using assms(1) by (auto simp: run_prep_def sum_bind_Inr)
  then obtain p u dce s where "obtain_package f ctx mid t = Inr (p, u)"
    "t' = update_package p s (u\<lparr> pq_readiness := pq_readiness u @ [new_readiness c ctx mid p dce u] \<rparr>)" by (rule evaluate_accepted)
  then show ?thesis by (auto simp: obtain_package_def split: option.splits if_splits sum.splits)
next
  case (GenerateTechnicalDocument f)
  then obtain mid where "generate_document f c ctx mid t fs = (Inr (ho, t'), fs')" using assms(1) by (auto simp: run_prep_def split: sum.splits)
  then show ?thesis by (rule generate_accepted) (use GenerateTechnicalDocument in auto)
next
  case (RequestPreparationReview f)
  then have "request_review f c ctx t = Inr (ho, t')" using assms(1) by (simp add: run_prep_def)
  then show ?thesis by (rule request_accepted) auto
next
  case (DecidePreparationReview f)
  then have "decide_review f c ctx t = Inr (ho, t')" using assms(1) by (simp add: run_prep_def)
  then show ?thesis by (rule decide_accepted) auto
next
  case (AddPreparationCorrection f)
  then have "add_correction f c ctx t = Inr (ho, t')" using assms(1) by (simp add: run_prep_def)
  then show ?thesis by (rule correction_accepted) simp
next
  case (CreateTechnicalResponseDraft f)
  then have "create_draft f c ctx t fs = (Inr (ho, t'), fs')" using assms(1) by (simp add: run_prep_def)
  then show ?thesis by (rule draft_accepted) (use CreateTechnicalResponseDraft in auto)
next
  case (CreatePreparationSnapshot f)
  then obtain mid p where "create_snapshot f c ctx mid p t = Inr (ho, t')" using assms(1) by (auto simp: run_prep_def sum_bind_Inr)
  then show ?thesis by (rule snapshot_accepted) simp
next
  case (TransmitPreparationSnapshot f)
  then obtain mid p where "transmit_snapshot wording f c ctx mid p t = Inr (ho, t')" using assms(1) by (auto simp: run_prep_def sum_bind_Inr)
  then show ?thesis by (rule transmit_accepted) simp
qed

lemma files_inv_kept: "files_inv t fs \<Longrightarrow> (\<And>k h. verified fs k h \<Longrightarrow> verified fs' k h) \<Longrightarrow> files_inv t fs'"
  by (simp add: files_inv_def)

lemma run_prep_files_inv:
  assumes "run_prep wording c ctx t fs = (Inr (ho, t'), fs')" "files_inv t fs"
  shows "files_inv t' fs'"
proof -
  have kept: "files_inv t fs'" using assms(2) run_prep_keeps_files [OF assms(1)] by (rule files_inv_kept)
  show ?thesis
  proof (cases "em_body c")
    case (GenerateTechnicalDocument f)
    then obtain mid where "generate_document f c ctx mid t fs = (Inr (ho, t'), fs')" using assms(1) by (auto simp: run_prep_def split: sum.splits)
    then show ?thesis
      by (rule generate_accepted) (use kept in \<open>auto simp: files_inv_def new_generated_def intro: verified_written\<close>)
  next
    case (CreateTechnicalResponseDraft f)
    then have "create_draft f c ctx t fs = (Inr (ho, t'), fs')" using assms(1) by (simp add: run_prep_def)
    then show ?thesis
      by (rule draft_accepted) (use kept in \<open>auto simp: files_inv_def new_draft_def intro: verified_written\<close>)
  qed (use kept run_prep_documents [OF assms(1)] in \<open>simp_all add: files_inv_def\<close>)
qed

end
