(* ===== verification/PreparationClaims.thy ===== *)
theory PreparationClaims
  imports PreparationTrace AssignmentHistory
begin

text \<open>
  The properties of the preparation over histories in which its commands, accepted or refused, interleave with
  arbitrary changes of the tables and files it does not write; the verdict of an evaluation against a reference
  reading of the tables; and what follows for snapshots, reviews and assignments.
\<close>

section \<open>Histories\<close>

text \<open>What the rest of the program may do: anything to the tables the preparation only reads, transitions of
  patron actions, and files of its own.\<close>

definition prep_foreign :: "prep_tables \<times> files \<Rightarrow> prep_tables \<times> files \<Rightarrow> bool" where
  "prep_foreign s s' =
     (let (t, fs) = s; (t', fs') = s' in
      pq_packages t' = pq_packages t \<and> pq_readiness t' = pq_readiness t \<and> pq_documents t' = pq_documents t
      \<and> pq_drafts t' = pq_drafts t \<and> pq_reviews t' = pq_reviews t \<and> pq_corrections t' = pq_corrections t
      \<and> pq_snapshots t' = pq_snapshots t \<and> pq_transmissions t' = pq_transmissions t
      \<and> (\<forall>a \<in> set (pa_actions (pq_patron t)). \<exists>b \<in> set (pa_actions (pq_patron t')). pa_tenant_id b = pa_tenant_id a
            \<and> pa_functional_key b = pa_functional_key a)
      \<and> (\<forall>k bytes. storage_read k fs = Inr bytes \<longrightarrow> storage_read k fs' = Inr bytes))"

inductive prep_history :: "link_wording \<Rightarrow> prep_tables \<times> files \<Rightarrow> prep_tables \<times> files \<Rightarrow> bool" for wording s where
  start: "prep_history wording s s"
| accepted: "prep_history wording s (t, fs) \<Longrightarrow> prep_command_valid (em_body c) \<Longrightarrow> run_prep wording c ctx t fs = (Inr (ho, t'), fs')
    \<Longrightarrow> prep_history wording s (t', fs')"
| refused: "prep_history wording s (t, fs) \<Longrightarrow> run_prep wording c ctx t fs = (Inl e, fs') \<Longrightarrow> prep_history wording s (t, fs')"
| other: "prep_history wording s s1 \<Longrightarrow> prep_foreign s1 s2 \<Longrightarrow> prep_history wording s s2"

lemma foreign_rows_inv:
  assumes "prep_foreign (t, fs) (t', fs')" "prep_rows_inv t"
  shows "prep_rows_inv t'"
proof -
  have same: "pq_packages t' = pq_packages t" "pq_readiness t' = pq_readiness t" "pq_documents t' = pq_documents t"
    "pq_drafts t' = pq_drafts t" "pq_reviews t' = pq_reviews t" "pq_corrections t' = pq_corrections t"
    "pq_snapshots t' = pq_snapshots t" "pq_transmissions t' = pq_transmissions t"
    using assms(1) by (simp_all add: prep_foreign_def)
  have grown: "prep_grown t t'" using assms(1) same by (auto simp: prep_foreign_def prep_grown_def)
  show ?thesis
    by (rule rows_inv_extended [OF assms(2) grown, where rs = "[]" and ds = "[]" and drs = "[]" and rvs = "[]" and ns = "[]"
          and hs = "[]" and ms = "[]"]) (use assms(2) same in \<open>simp_all add: prep_rows_inv_def\<close>)
qed

lemma foreign_files: "prep_foreign (t, fs) (t', fs') \<Longrightarrow> verified fs k h \<Longrightarrow> verified fs' k h"
  by (auto simp: prep_foreign_def verified_def)

lemma history_inv:
  "prep_history wording s s' \<Longrightarrow> prep_rows_inv (fst s) \<Longrightarrow> files_inv (fst s) (snd s) \<Longrightarrow> prep_rows_inv (fst s') \<and> files_inv (fst s') (snd s')"
proof (induction rule: prep_history.induct)
  case (accepted t fs c ctx ho t' fs')
  then show ?case using run_prep_rows_inv run_prep_files_inv by fastforce
next
  case (refused t fs c ctx e fs')
  then show ?case using files_inv_kept [of t fs fs'] run_prep_keeps_files by fastforce
next
  case (other s1 s2)
  obtain t fs t' fs' where e: "s1 = (t, fs)" "s2 = (t', fs')" by (metis prod.exhaust)
  have same: "pq_documents t' = pq_documents t" "pq_drafts t' = pq_drafts t" using other.hyps(2) by (simp_all add: e prep_foreign_def)
  have "files_inv t fs'" using other foreign_files files_inv_kept [of t fs fs'] unfolding e by fastforce
  then show ?case using other foreign_rows_inv unfolding e by (auto simp: files_inv_def same)
qed simp

text \<open>The packages along a history.\<close>

lemma history_packages:
  "prep_history wording s s' \<Longrightarrow> prep_rows_inv (fst s) \<Longrightarrow> prep_rows_inv (fst s') \<and> packages_moved (fst s) (fst s')"
proof (induction rule: prep_history.induct)
  case (accepted t fs c ctx ho t' fs')
  then have t: "prep_rows_inv t" "packages_moved (fst s) t" by simp_all
  have "prep_rows_inv t'" by (rule run_prep_rows_inv [OF accepted.hyps(3,2) t(1)])
  moreover have "packages_moved (fst s) t'" by (rule packages_moved_trans [OF t(2) run_prep_moved [OF accepted.hyps(3) t(1)]])
  ultimately show ?case by simp
next
  case (other s1 s2)
  obtain t fs t' fs' where e: "s1 = (t, fs)" "s2 = (t', fs')" by (metis prod.exhaust)
  have "pq_packages t' = pq_packages t" using other.hyps(2) by (simp add: e prep_foreign_def)
  then have "packages_moved t t'" by (rule packages_moved_refl)
  moreover have "prep_rows_inv t" "packages_moved (fst s) t" using other.IH other.prems by (simp_all add: e)
  moreover have "prep_rows_inv t'" by (rule foreign_rows_inv [OF other.hyps(2) [unfolded e] calculation(2)])
  ultimately show ?case by (auto simp: e intro: packages_moved_trans)
qed (simp_all add: packages_moved_refl)

text \<open>Nothing of a file, a document row or a review row is ever lost.\<close>

lemma history_keeps:
  "prep_history wording s s' \<Longrightarrow> set (pq_documents (fst s)) \<subseteq> set (pq_documents (fst s')) \<and> set (pq_reviews (fst s)) \<subseteq> set (pq_reviews (fst s'))
     \<and> (\<forall>k bytes. storage_read k (snd s) = Inr bytes \<longrightarrow> storage_read k (snd s') = Inr bytes)"
proof (induction rule: prep_history.induct)
  case (accepted t fs c ctx ho t' fs')
  have "storage_read k fs' = Inr bytes" if "storage_read k fs = Inr bytes" for k bytes
    using run_prep_keeps_bytes [OF accepted.hyps(3)] that by blast
  then show ?case using accepted.IH run_prep_documents [OF accepted.hyps(3)] by auto
next
  case (refused t fs c ctx e fs')
  then show ?case using run_prep_keeps_bytes [OF refused.hyps(2)] by auto
next
  case (other s1 s2)
  then show ?case by (cases s1; cases s2) (auto simp: prep_foreign_def)
qed simp

section \<open>An example\<close>

definition ex_prep_assignment :: case_assignment_row where
  "ex_prep_assignment = \<lparr> ca_id = 30, ca_tenant_id = 1, ca_membership_id = 11, ca_case_id = 40, ca_state = ''ACTIVE'', ca_aggregate_revision = 0,
     ca_scope_actions = [work_scope], ca_scope_classifications = internal_only, ca_granted_by_membership_id = 9, ca_granted_at = 0,
     ca_starts_at = 0, ca_ends_at = None, ca_ended_at = None \<rparr>"

definition ex_prep_package :: prep_package_row where
  "ex_prep_package = \<lparr> bp_id = 50, bp_tenant_id = 1, bp_case_id = 40, bp_assignment_id = 30, bp_dce_version_id = 7, bp_state = ''A_REVIEW'',
     bp_aggregate_revision = 3, bp_created_by_actor_id = 10, bp_membership_id = 11 \<rparr>"

definition ex_prep_readiness :: prep_readiness_row where
  "ex_prep_readiness = \<lparr> ry_id = 51, ry_tenant_id = 1, ry_package_id = 50, ry_revision = 1, ry_state = ''READY'', ry_blocker_codes = [],
     ry_warning_codes = [], ry_checked_requirement_count = 0, ry_checked_task_count = 0, ry_input_manifest_sha256 = ''m'',
     ry_evaluator_id = ''deterministic-preparation-readiness'', ry_evaluator_version = ''1'', ry_actor_id = 10, ry_membership_id = 11,
     ry_command_id = 51, ry_correlation_id = None \<rparr>"

definition ex_prep_document :: generated_row where
  "ex_prep_document = \<lparr> tg_id = 60, tg_tenant_id = 1, tg_package_id = 50, tg_readiness_id = 51, tg_version = 1,
     tg_document_kind = ''TECHNICAL_RESPONSE'', tg_state = ''GENERATED'', tg_content_sha256 = sha256_bytes [35], tg_storage_key = ''generated-documents/60.md'',
     tg_actor_id = 10, tg_membership_id = 11, tg_command_id = 61, tg_correlation_id = None \<rparr>"

definition ex_prep_review :: "int \<Rightarrow> string \<Rightarrow> string option \<Rightarrow> review_row" where
  "ex_prep_review n s d = \<lparr> rv_id = 70 + of_int n, rv_tenant_id = 1, rv_review_id = 70, rv_package_id = 50, rv_target_document_id = 60,
     rv_target_version = 1, rv_revision = n, rv_state = s, rv_decision_code = d, rv_decision_note = None, rv_actor_id = 10, rv_membership_id = 11,
     rv_command_id = 70 + of_int n, rv_idempotency_key = 70 + of_int n, rv_correlation_id = None \<rparr>"

text \<open>A package with one generated document and the reviews \<open>rs\<close> of it.\<close>

definition ex_prep_tables :: "review_row list \<Rightarrow> prep_tables" where
  "ex_prep_tables rs = \<lparr> pq_versions = [], pq_requirements = [], pq_currents = [], pq_assignments = [ex_prep_assignment], pq_tasks = [], pq_task_results = [],
     pq_proposals = [], pq_capabilities = [], pq_capability_versions = [], pq_proof_links = [], pq_enterprise_documents = [], pq_gaps = [],
     pq_packages = [ex_prep_package], pq_readiness = [ex_prep_readiness], pq_documents = [ex_prep_document], pq_drafts = [], pq_reviews = rs,
     pq_corrections = [], pq_snapshots = [], pq_transmissions = [], pq_patron = \<lparr> pa_actions = [], pa_transitions = [] \<rparr> \<rparr>"

definition ex_prep_files :: files where
  "ex_prep_files = [[''generated-documents'', ''60.md''] \<mapsto> [35]]"

definition ex_prep_decision :: "string \<Rightarrow> prep_command app_command" where
  "ex_prep_decision d = \<lparr> em_command_type = ''DecidePreparationReview'', em_command_id = 80, em_idempotency_key = 80, em_correlation_id = None,
     em_body = DecidePreparationReview \<lparr> xd_review_id = 70, xd_package_id = 50, xd_target_document_id = 60, xd_expected_review_revision = 1,
       xd_decision_code = d, xd_decision_note = None \<rparr> \<rparr>"

definition ex_prep_context :: "string \<Rightarrow> uuid \<Rightarrow> command_context" where
  "ex_prep_context kind mid = \<lparr> cc_tenant_id = 1, cc_actor_id = mid, cc_actor_kind = kind, cc_received_at = 5, cc_identity_id = None,
     cc_membership_id = Some mid, cc_session_id = None, cc_case_id = None, cc_correlation_id = None \<rparr>"

lemma ex_prep_read: "storage_read ''generated-documents/60.md'' ex_prep_files = Inr [35]"
  by (simp add: storage_read_def private_path_def path_parts_def ex_prep_files_def)

definition ex_prep_requested :: prep_tables where
  "ex_prep_requested = ex_prep_tables [ex_prep_review 1 ''REQUESTED'' None]"

definition ex_prep_accepted :: prep_tables where
  "ex_prep_accepted = ex_prep_tables [ex_prep_review 1 ''REQUESTED'' None, ex_prep_review 2 ''ACCEPTED'' (Some ''ACCEPTED'')]"

lemmas ex_prep_defs = ex_prep_tables_def ex_prep_package_def ex_prep_readiness_def ex_prep_document_def ex_prep_review_def

lemma ex_prep_inv:
  "prep_rows_inv ex_prep_requested" "files_inv ex_prep_requested ex_prep_files"
  "prep_rows_inv ex_prep_accepted" "files_inv ex_prep_accepted ex_prep_files"
  using ex_prep_read
  by (simp_all add: prep_rows_inv_def files_inv_def verified_def ex_prep_requested_def ex_prep_accepted_def ex_prep_defs readiness_traced_def
      document_traced_def open_readiness_def review_traced_def document_version_def review_follows_def undecided_def review_key_def
      verdict_state_def)

lemma ex_prep_reviewed: "reviewed (ex_prep_context ''PATRON_ADMIN'' 9) 50 70 60 ex_prep_requested = Inr (ex_prep_package, ex_prep_review 1 ''REQUESTED'' None)"
proof -
  have "find_prep_package 1 50 ex_prep_requested = Some ex_prep_package"
    by (simp add: find_prep_package_def ex_prep_requested_def ex_prep_tables_def ex_prep_package_def)
  moreover have "latest_review 1 70 ex_prep_requested = Some (ex_prep_review 1 ''REQUESTED'' None)"
    by (simp add: latest_review_def review_rows_def ex_prep_requested_def ex_prep_tables_def ex_prep_review_def)
  moreover have "rv_package_id (ex_prep_review 1 ''REQUESTED'' None) = bp_id ex_prep_package"
    "rv_target_document_id (ex_prep_review 1 ''REQUESTED'' None) = 60"
    "cc_actor_kind (ex_prep_context ''PATRON_ADMIN'' 9) = ''PATRON_ADMIN''" "cc_tenant_id (ex_prep_context ''PATRON_ADMIN'' 9) = 1"
    by (simp_all add: ex_prep_review_def ex_prep_package_def ex_prep_context_def)
  ultimately show ?thesis by (simp add: reviewed_def)
qed

lemma ex_prep_decided:
  assumes "decided_state d = Some s" "s \<in> {''ACCEPTED'', ''RETURNED_WITH_CORRECTIONS'', ''REJECTED''}" "d \<in> {''ACCEPTED'', ''CORRECTIONS_REQUIRED'', ''REJECTED''}"
  shows "prep_command_valid (em_body (ex_prep_decision d))"
    "\<exists>ho t'. run_prep w (ex_prep_decision d) (ex_prep_context ''PATRON_ADMIN'' 9) ex_prep_requested ex_prep_files = (Inr (ho, t'), ex_prep_files)"
proof -
  show "prep_command_valid (em_body (ex_prep_decision d))" using assms(3) by (simp add: ex_prep_decision_def opt_text_def)
  let ?f = "\<lparr> xd_review_id = 70, xd_package_id = 50, xd_target_document_id = 60, xd_expected_review_revision = 1, xd_decision_code = d,
      xd_decision_note = None \<rparr>"
  let ?r = "ex_prep_review 1 ''REQUESTED'' None"
  let ?c = "ex_prep_decision d" and ?ctx = "ex_prep_context ''PATRON_ADMIN'' 9"
  define n where "n = new_review (rv_review_id ?r) (bp_id ex_prep_package) (rv_target_document_id ?r) (rv_target_version ?r) 2 s
      (Some d) None ?c ?ctx 9"
  have m: "cc_membership_id ?ctx = Some 9" by (simp add: ex_prep_context_def)
  have key: "rv_id n = 80" "rv_revision n = 2" "rv_state n = s" "rv_target_version n = 1" "rv_decision_code n = Some d"
    by (simp_all add: n_def new_review_def ex_prep_decision_def ex_prep_review_def)
  have rkey: "rv_id ?r = 71" "rv_revision ?r = 1" "rv_state ?r = ''REQUESTED''" by (simp_all add: ex_prep_review_def)
  have rows: "pq_reviews ex_prep_requested = [?r]" by (simp add: ex_prep_requested_def ex_prep_tables_def)
  have "rv_check n" unfolding rv_check_def key using assms(2,3) by auto
  moreover have "\<not> rv_clash n ?r" unfolding rv_clash_def key rkey by simp
  ultimately have "insert_row rv_check rv_clash n [?r] = Inr [?r, n]" by (simp add: insert_row_Inr)
  then have "\<exists>ho t'. decide_review ?f ?c ?ctx ex_prep_requested = Inr (ho, t')"
    by (simp add: decide_review_def ex_prep_reviewed rkey assms(1) with_member_def m rows flip: n_def)
  then show "\<exists>ho t'. run_prep w ?c ?ctx ex_prep_requested ex_prep_files = (Inr (ho, t'), ex_prep_files)"
    by (simp add: run_prep_def ex_prep_decision_def)
qed

section \<open>Decided reviews\<close>

text \<open>No row of a review has a higher revision than a decided one.\<close>

lemma nothing_after_decided:
  assumes "prep_rows_inv t" "r \<in> set (pq_reviews t)" "\<not> undecided (rv_state r)"
  shows "q \<in> set (pq_reviews t) \<Longrightarrow> rv_tenant_id q = rv_tenant_id r \<Longrightarrow> rv_review_id q = rv_review_id r \<Longrightarrow> rv_revision q \<le> rv_revision r"
proof (induction "nat (rv_revision q)" arbitrary: q rule: less_induct)
  case less
  show ?case
  proof (rule ccontr)
    assume "\<not> rv_revision q \<le> rv_revision r"
    then have later: "rv_revision r < rv_revision q" by simp
    have tr: "review_traced t q" "review_traced t r" using assms(1,2) less.prems(1) by (auto simp: prep_rows_inv_def)
    then have "1 \<le> rv_revision r" by (simp add: review_traced_def)
    then obtain x where x: "x \<in> set (pq_reviews t)" "review_follows q x" using tr(1) later by (auto simp: review_traced_def)
    then have xs: "rv_tenant_id x = rv_tenant_id r" "rv_review_id x = rv_review_id r" "rv_revision x + 1 = rv_revision q" "undecided (rv_state x)"
      using less.prems by (simp_all add: review_follows_def)
    have "rv_revision x \<le> rv_revision r" by (rule less.hyps [OF _ x(1) xs(1,2)]) (use xs(3) later \<open>1 \<le> rv_revision r\<close> in simp)
    then have "review_key x = review_key r" using xs later by (simp add: review_key_def)
    then have "x = r" using assms(1,2) x(1) by (simp add: prep_rows_inv_def) (metis distinct_map inj_onD)
    then show False using xs(4) assms(3) by simp
  qed
qed

lemma decided_latest:
  assumes "prep_rows_inv t" "r \<in> set (pq_reviews t)" "\<not> undecided (rv_state r)"
  shows "latest_review (rv_tenant_id r) (rv_review_id r) t = Some r"
proof -
  have mem: "r \<in> set (review_rows (rv_tenant_id r) (rv_review_id r) t)" using assms(2) by (simp add: review_rows_def)
  then obtain m where m: "latest_review (rv_tenant_id r) (rv_review_id r) t = Some m"
    unfolding latest_review_def by (metis first_max_None length_pos_if_in_set list.size(3) less_irrefl option.exhaust)
  note top = first_max_Some [OF m [unfolded latest_review_def]]
  then have mr: "m \<in> set (pq_reviews t)" "rv_tenant_id m = rv_tenant_id r" "rv_review_id m = rv_review_id r" "rv_revision r \<le> rv_revision m"
    using mem by (auto simp: review_rows_def)
  then have "review_key m = review_key r" using nothing_after_decided [OF assms mr(1-3)] by (simp add: review_key_def)
  then have "m = r" using assms(1,2) mr(1) by (simp add: prep_rows_inv_def) (metis distinct_map inj_onD)
  then show ?thesis using m by simp
qed

lemma decided_refused:
  assumes "latest_review (cc_tenant_id ctx) rid t = Some r" "\<not> undecided (rv_state r)"
  shows "xd_review_id f = rid \<Longrightarrow> \<exists>e. decide_review f c ctx t = Inl e" "xc_review_id g = rid \<Longrightarrow> \<exists>e. add_correction g c ctx t = Inl e"
proof -
  have pr: "q = r" if "reviewed ctx pid rid did t = Inr (p, q)" for pid did p q
    using reviewed_accepted [OF that] assms(1) by simp
  show "\<exists>e. decide_review f c ctx t = Inl e" if f: "xd_review_id f = rid"
  proof (cases "reviewed ctx (xd_package_id f) rid (xd_target_document_id f) t")
    case (Inr pq)
    then obtain p where "reviewed ctx (xd_package_id f) rid (xd_target_document_id f) t = Inr (p, r)" using pr by (cases pq) auto
    then show ?thesis using assms(2) by (simp add: decide_review_def f undecided_def)
  qed (simp add: decide_review_def f)
  show "\<exists>e. add_correction g c ctx t = Inl e" if g: "xc_review_id g = rid"
  proof (cases "reviewed ctx (xc_package_id g) rid (xc_target_document_id g) t")
    case (Inr pq)
    then obtain p where "reviewed ctx (xc_package_id g) rid (xc_target_document_id g) t = Inr (p, r)" using pr by (cases pq) auto
    then show ?thesis using assms(2) by (auto simp: add_correction_def g undecided_def)
  qed (simp add: add_correction_def g)
qed

section \<open>The reference reading of an evaluation\<close>

definition ids_unique :: "prep_tables \<Rightarrow> bool" where
  "ids_unique t =
     (distinct (map vr_id (pq_versions t)) \<and> distinct (map ec_id (pq_capabilities t)) \<and> distinct (map cv_id (pq_capability_versions t))
      \<and> distinct (map ed_id (pq_enterprise_documents t)) \<and> distinct (map (\<lambda>k. (cu_tenant_id k, cu_requirement_id k)) (pq_currents t)))"

definition requirement_settled :: "uuid \<Rightarrow> prep_tables \<Rightarrow> dce_requirement_row \<Rightarrow> bool" where
  "requirement_settled tid t q =
     (\<exists>k \<in> set (pq_currents t). cu_tenant_id k = tid \<and> cu_requirement_id k = dq_id q \<and> cu_outcome k \<noteq> ''REVIEW_REQUIRED'')"

definition proof_usable :: "uuid \<Rightarrow> instant \<Rightarrow> prep_tables \<Rightarrow> capability_row \<Rightarrow> proof_link_row \<Rightarrow> bool" where
  "proof_usable tid now t c l =
     (\<exists>d \<in> set (pq_enterprise_documents t). ed_tenant_id d = tid \<and> ed_id d = el_document_id l \<and> ed_company_id d = ec_company_id c
        \<and> ed_verification_status d = ''VALIDATED'' \<and> \<not> past now (ed_expires_at d))"

definition proposal_usable :: "uuid \<Rightarrow> instant \<Rightarrow> prep_tables \<Rightarrow> proposal_row \<Rightarrow> bool" where
  "proposal_usable tid now t k =
     (ep_validity_state k \<noteq> ''EXPIRED''
      \<and> (\<exists>c \<in> set (pq_capabilities t). ec_tenant_id c = tid \<and> ec_id c = ep_capability_id k \<and> ec_state c = ''ACTIVE''
           \<and> (\<exists>v \<in> set (pq_capability_versions t). cv_tenant_id v = tid \<and> cv_id v = ep_capability_version_id k
                \<and> cv_capability_id v = ep_capability_id k \<and> cv_valid_from v \<le> now \<and> \<not> past now (cv_valid_until v))
           \<and> (\<exists>l \<in> set (pq_proof_links t). el_tenant_id l = tid \<and> el_capability_version_id l = ep_capability_version_id k
                \<and> proof_usable tid now t c l)))"

text \<open>Nothing stands against an answer, for a case, an assignment and a DCE version; and nothing is left to be done.\<close>

definition answer_unobstructed :: "uuid \<Rightarrow> instant \<Rightarrow> uuid \<Rightarrow> uuid \<Rightarrow> uuid \<Rightarrow> prep_tables \<Rightarrow> bool" where
  "answer_unobstructed tid now cid aid vid t =
     ((\<exists>v \<in> set (pq_versions t). vr_tenant_id v = tid \<and> vr_id v = vid \<and> vr_analysis_readiness v = ''READY_FOR_ANALYSIS'')
      \<and> (\<forall>q \<in> set (pq_requirements t). dq_tenant_id q = tid \<and> dq_dce_version_id q = vid \<longrightarrow> requirement_settled tid t q)
      \<and> (\<forall>k \<in> set (pq_tasks t). tk_tenant_id k = tid \<and> tk_case_id k = cid \<and> tk_assignment_id k = aid \<longrightarrow> tk_state k \<noteq> ''BLOCKED'')
      \<and> (\<forall>k \<in> set (pq_proposals t). ep_tenant_id k = tid \<and> ep_case_id k = cid \<and> ep_assignment_id k = aid \<longrightarrow> proposal_usable tid now t k)
      \<and> (\<forall>g \<in> set (pq_gaps t). gp_tenant_id g = tid \<and> gp_case_id g = cid \<and> gp_assignment_id g = aid \<longrightarrow> gp_severity g \<noteq> ''BLOCKING''))"

definition answer_complete :: "uuid \<Rightarrow> uuid \<Rightarrow> uuid \<Rightarrow> prep_tables \<Rightarrow> bool" where
  "answer_complete tid cid aid t =
     ((\<forall>k \<in> set (pq_tasks t). tk_tenant_id k = tid \<and> tk_case_id k = cid \<and> tk_assignment_id k = aid \<and> tk_state k \<in> {''READY'', ''IN_PROGRESS''}
         \<longrightarrow> (\<exists>z \<in> set (pq_task_results t). tz_tenant_id z = tid \<and> tz_task_id z = tk_id k))
      \<and> (\<forall>g \<in> set (pq_gaps t). gp_tenant_id g = tid \<and> gp_case_id g = cid \<and> gp_assignment_id g = aid \<longrightarrow> gp_severity g \<noteq> ''IMPORTANT''))"

lemma find_unique:
  assumes "distinct (map key xs)" "\<And>x. P x \<Longrightarrow> key x = k"
  shows "List.find P xs = Some x \<longleftrightarrow> x \<in> set xs \<and> P x"
proof
  assume x: "x \<in> set xs \<and> P x"
  then obtain y where y: "List.find P xs = Some y" by (metis find_None_iff option.exhaust)
  have "key y = key x" using assms(2) x find_Some_in [OF y] by metis
  then show "List.find P xs = Some x" using x y find_Some_in [OF y] assms(1) by (metis distinct_map inj_onD)
qed (rule find_Some_in)

lemma proof_current:
  assumes "ids_unique t"
  shows "proof_state tid now (Some c) t l = ''CURRENT'' \<longleftrightarrow> proof_usable tid now t c l"
proof -
  let ?f = "List.find (\<lambda>d. ed_tenant_id d = tid \<and> ed_id d = el_document_id l) (pq_enterprise_documents t)"
  have f: "?f = Some d \<longleftrightarrow> d \<in> set (pq_enterprise_documents t) \<and> ed_tenant_id d = tid \<and> ed_id d = el_document_id l" for d
    by (rule find_unique [where key = ed_id and k = "el_document_id l"]) (use assms in \<open>auto simp: ids_unique_def\<close>)
  show ?thesis
  proof (cases ?f)
    case None
    then have "\<not> proof_usable tid now t c l" unfolding proof_usable_def using f by fastforce
    then show ?thesis by (simp add: proof_state_def None)
  next
    case (Some d)
    then have "proof_usable tid now t c l \<longleftrightarrow> ed_company_id d = ec_company_id c \<and> ed_verification_status d = ''VALIDATED'' \<and> \<not> past now (ed_expires_at d)"
      unfolding proof_usable_def using f by fastforce
    then show ?thesis by (auto simp: proof_state_def Some)
  qed
qed

lemma sorted_codes_empty [simp]: "sort (remdups xs) = [] \<longleftrightarrow> xs = ([] :: string list)"
  by (metis length_0_conv length_sort remdups_eq_nil_iff)

lemma proposal_unblocked:
  assumes "ids_unique t"
  shows "proposal_blocker tid now t k = None \<longleftrightarrow> proposal_usable tid now t k"
proof -
  have c: "proposal_capability tid k t = Some c \<longleftrightarrow> c \<in> set (pq_capabilities t) \<and> ec_tenant_id c = tid \<and> ec_id c = ep_capability_id k" for c
    unfolding proposal_capability_def
    by (rule find_unique [where key = ec_id and k = "ep_capability_id k"]) (use assms in \<open>auto simp: ids_unique_def\<close>)
  have v: "proposal_version tid k t = Some v \<longleftrightarrow> v \<in> set (pq_capability_versions t) \<and> cv_tenant_id v = tid
      \<and> cv_id v = ep_capability_version_id k \<and> cv_capability_id v = ep_capability_id k" for v
    unfolding proposal_version_def
    by (rule find_unique [where key = cv_id and k = "ep_capability_version_id k"]) (use assms in \<open>auto simp: ids_unique_def\<close>)
  show ?thesis
  proof (cases "proposal_capability tid k t")
    case None
    then have "\<not> proposal_usable tid now t k" unfolding proposal_usable_def using c by fastforce
    then show ?thesis by (simp add: proposal_blocker_def None)
  next
    case (Some cap)
    note cap = this
    have one_c: "x \<in> set (pq_capabilities t) \<and> ec_tenant_id x = tid \<and> ec_id x = ep_capability_id k \<longleftrightarrow> x = cap" for x
      using c [of x] cap by auto
    show ?thesis
    proof (cases "proposal_version tid k t")
      case None
      then have "\<not> proposal_usable tid now t k" unfolding proposal_usable_def using v by fastforce
      then show ?thesis by (simp add: proposal_blocker_def None cap)
    next
      case (Some ver)
      have one_v: "x \<in> set (pq_capability_versions t) \<and> cv_tenant_id x = tid \<and> cv_id x = ep_capability_version_id k
          \<and> cv_capability_id x = ep_capability_id k \<longleftrightarrow> x = ver" for x using v [of x] Some by auto
      have cur: "''CURRENT'' \<in> set (proposal_proof_states tid now t k) \<longleftrightarrow>
          (\<exists>l \<in> set (pq_proof_links t). el_tenant_id l = tid \<and> el_capability_version_id l = ep_capability_version_id k
             \<and> proof_usable tid now t cap l)"
        by (auto simp: proposal_proof_states_def proposal_links_def cap proof_current [OF assms, symmetric] image_iff)
      have use: "proposal_usable tid now t k \<longleftrightarrow> ep_validity_state k \<noteq> ''EXPIRED'' \<and> ec_state cap = ''ACTIVE'' \<and> cv_valid_from ver \<le> now
          \<and> \<not> past now (cv_valid_until ver) \<and> ''CURRENT'' \<in> set (proposal_proof_states tid now t k)"
        unfolding proposal_usable_def cur using one_c one_v by (smt (verit) Bex_def)
      have none: "proposal_links tid k t = [] \<Longrightarrow> ''CURRENT'' \<notin> set (proposal_proof_states tid now t k)"
        by (simp add: proposal_proof_states_def)
      show ?thesis unfolding use by (auto simp: proposal_blocker_def cap Some Let_def not_less none)
    qed
  qed
qed

lemma code_lists_empty:
  "concat (map (\<lambda>x. if P x then [y :: string] else []) xs) = [] \<longleftrightarrow> (\<forall>x \<in> set xs. \<not> P x)"
  "(if b then [y] else []) = [] \<longleftrightarrow> \<not> b"
  by (induction xs) auto

lemma blocker_codes_empty:
  "blocker_codes tid now p dce t = [] \<longleftrightarrow> fst dce = ''READY_FOR_ANALYSIS''
      \<and> (\<forall>r \<in> set (snd dce). pd_confirmation_outcome r \<notin> {None, Some ''REVIEW_REQUIRED''})
      \<and> (\<forall>k \<in> set (package_tasks tid p t). tk_state k \<noteq> ''BLOCKED'')
      \<and> List.map_filter (proposal_blocker tid now t) (package_proposals tid p t) = []
      \<and> (\<forall>g \<in> set (package_gaps tid p t). gp_severity g \<noteq> ''BLOCKING'')"
  unfolding blocker_codes_def sorted_codes_empty append_is_Nil_conv code_lists_empty list_ex_iff by blast

lemma no_blockers:
  assumes "ids_unique t" "read_dce tid (bp_dce_version_id p) t = Some dce"
  shows "blocker_codes tid now p dce t = [] \<longleftrightarrow> answer_unobstructed tid now (bp_case_id p) (bp_assignment_id p) (bp_dce_version_id p) t"
proof -
  let ?vid = "bp_dce_version_id p"
  have f: "List.find (\<lambda>v. vr_tenant_id v = tid \<and> vr_id v = ?vid) (pq_versions t) = Some v
      \<longleftrightarrow> v \<in> set (pq_versions t) \<and> vr_tenant_id v = tid \<and> vr_id v = ?vid" for v
    by (rule find_unique [where key = vr_id and k = ?vid]) (use assms(1) in \<open>auto simp: ids_unique_def\<close>)
  obtain v where v: "List.find (\<lambda>v. vr_tenant_id v = tid \<and> vr_id v = ?vid) (pq_versions t) = Some v"
    "dce = (vr_analysis_readiness v, requirement_inputs tid ?vid t)" using assms(2) by (auto simp: read_dce_def)
  have ready: "fst dce = ''READY_FOR_ANALYSIS'' \<longleftrightarrow>
      (\<exists>v \<in> set (pq_versions t). vr_tenant_id v = tid \<and> vr_id v = ?vid \<and> vr_analysis_readiness v = ''READY_FOR_ANALYSIS'')"
    using f v by fastforce
  have conf: "confirmation_of tid rid t \<in> {None, Some ''REVIEW_REQUIRED''} \<longleftrightarrow>
      \<not> (\<exists>k \<in> set (pq_currents t). cu_tenant_id k = tid \<and> cu_requirement_id k = rid \<and> cu_outcome k \<noteq> ''REVIEW_REQUIRED'')" for rid
  proof -
    have g: "List.find (\<lambda>k. cu_tenant_id k = tid \<and> cu_requirement_id k = rid) (pq_currents t) = Some k
        \<longleftrightarrow> k \<in> set (pq_currents t) \<and> cu_tenant_id k = tid \<and> cu_requirement_id k = rid" for k
      by (rule find_unique [where key = "\<lambda>k. (cu_tenant_id k, cu_requirement_id k)" and k = "(tid, rid)"])
        (use assms(1) in \<open>auto simp: ids_unique_def\<close>)
    show ?thesis
    proof (cases "List.find (\<lambda>k. cu_tenant_id k = tid \<and> cu_requirement_id k = rid) (pq_currents t)")
      case None
      then have "\<not> (\<exists>k \<in> set (pq_currents t). cu_tenant_id k = tid \<and> cu_requirement_id k = rid)" using g by (metis option.distinct(1))
      then show ?thesis unfolding confirmation_of_def None by auto
    next
      case (Some x)
      then have "k \<in> set (pq_currents t) \<and> cu_tenant_id k = tid \<and> cu_requirement_id k = rid \<longleftrightarrow> k = x" for k using g [of k] by auto
      then have "(\<exists>k \<in> set (pq_currents t). cu_tenant_id k = tid \<and> cu_requirement_id k = rid \<and> cu_outcome k \<noteq> ''REVIEW_REQUIRED'')
          \<longleftrightarrow> cu_outcome x \<noteq> ''REVIEW_REQUIRED''" by metis
      then show ?thesis unfolding confirmation_of_def Some by simp
    qed
  qed
  have settled: "requirement_settled tid t q \<longleftrightarrow> confirmation_of tid (dq_id q) t \<notin> {None, Some ''REVIEW_REQUIRED''}" for q
    unfolding requirement_settled_def using conf by blast
  have "set (snd dce) = (\<lambda>q. \<lparr> pd_requirement_id = dq_id q, pd_requirement_type = dq_requirement_type q,
      pd_directive_signal = dq_directive_signal q, pd_confirmation_outcome = confirmation_of tid (dq_id q) t \<rparr>)
      ` {q \<in> set (pq_requirements t). dq_tenant_id q = tid \<and> dq_dce_version_id q = ?vid}" unfolding v(2) by (auto simp: requirement_inputs_def)
  then have reqs: "(\<forall>r \<in> set (snd dce). pd_confirmation_outcome r \<notin> {None, Some ''REVIEW_REQUIRED''}) \<longleftrightarrow>
      (\<forall>q \<in> set (pq_requirements t). dq_tenant_id q = tid \<and> dq_dce_version_id q = ?vid \<longrightarrow> requirement_settled tid t q)"
    unfolding settled by auto
  have props: "List.map_filter (proposal_blocker tid now t) (package_proposals tid p t) = [] \<longleftrightarrow>
      (\<forall>k \<in> set (package_proposals tid p t). proposal_usable tid now t k)"
    unfolding proposal_unblocked [OF assms(1), symmetric] by (auto simp: List.map_filter_def filter_empty_conv)
  show ?thesis unfolding blocker_codes_empty ready reqs props answer_unobstructed_def
    by (auto simp: package_tasks_def package_proposals_def package_gaps_def)
qed

lemma no_warnings:
  assumes "blocker_codes tid now p dce t = []"
  shows "warning_codes tid p t = [] \<longleftrightarrow> answer_complete tid (bp_case_id p) (bp_assignment_id p) t"
proof -
  note none = assms [unfolded blocker_codes_empty]
  have "warning_codes tid p t = [] \<longleftrightarrow>
      (\<forall>k \<in> set (package_tasks tid p t). tk_state k \<in> {''READY'', ''IN_PROGRESS''} \<longrightarrow> task_has_result tid k t)
      \<and> (\<forall>g \<in> set (package_gaps tid p t). gp_severity g \<noteq> ''IMPORTANT'')"
    unfolding warning_codes_def sorted_codes_empty append_is_Nil_conv code_lists_empty list_ex_iff using none by blast
  then show ?thesis by (auto simp: answer_complete_def package_tasks_def package_gaps_def task_has_result_def list_ex_iff)
qed

text \<open>A later state of the example: another module added a gap.\<close>

definition ex_prep_later :: "prep_tables \<Rightarrow> prep_tables" where
  "ex_prep_later t = t\<lparr> pq_gaps := [\<lparr> gp_id = 95, gp_tenant_id = 1, gp_case_id = 40, gp_assignment_id = 30, gp_gap_kind = ''PROOF'',
     gp_severity = ''IMPORTANT'' \<rparr>] \<rparr>"

lemma ex_prep_later_history: "prep_history w (t, fs) (ex_prep_later t, fs)"
  by (rule prep_history.other [OF prep_history.start]) (auto simp: prep_foreign_def ex_prep_later_def)

definition ex_prep_version :: version_row where
  "ex_prep_version = \<lparr> vr_id = 7, vr_tenant_id = 1, vr_aggregate_revision = 4, vr_consultation_id = 41, vr_corpus_hash = ''h'',
     vr_predecessor = None, vr_provenance_channel = ''PORTAL'', vr_provenance_reference = None, vr_provenance_url = None,
     vr_source_received_at = 0, vr_lifecycle = ''ACTIVE'', vr_integrity = ''VERIFIED'', vr_classification_readiness = ''CLASSIFIED'',
     vr_analysis_readiness = ''READY_FOR_ANALYSIS'', vr_withdrawal_source = None, vr_withdrawal_reason = None, vr_superseded_at = None,
     vr_withdrawn_at = None, vr_created_by_actor_id = 9, vr_updated_by_actor_id = 9 \<rparr>"

definition ex_prep_ready :: prep_tables where
  "ex_prep_ready = (ex_prep_later ex_prep_requested)\<lparr> pq_versions := [ex_prep_version] \<rparr>"

definition ex_prep_evaluate :: evaluate_fields where
  "ex_prep_evaluate = \<lparr> xr_package_id = 50, xr_case_id = 40, xr_assignment_id = 30, xr_dce_version_id = 7, xr_expected_revision = 3 \<rparr>"

lemma ex_prep_ready_inv: "prep_rows_inv ex_prep_ready" "ids_unique ex_prep_ready"
proof -
  have "prep_history w (ex_prep_requested, ex_prep_files) (ex_prep_ready, ex_prep_files)" for w
    by (rule prep_history.other [OF ex_prep_later_history]) (auto simp: prep_foreign_def ex_prep_ready_def)
  then show "prep_rows_inv ex_prep_ready" using history_inv ex_prep_inv(1,2) by (metis fst_conv snd_conv)
  show "ids_unique ex_prep_ready" by (simp add: ids_unique_def ex_prep_ready_def ex_prep_later_def ex_prep_requested_def ex_prep_tables_def)
qed

lemma ex_prep_evaluated:
  "\<exists>ho t'. evaluate_readiness ex_prep_evaluate (ex_prep_decision ''ACCEPTED'') (ex_prep_context ''COLLABORATEUR'' 11) 11 ex_prep_ready = Inr (ho, t')"
proof -
  let ?ctx = "ex_prep_context ''COLLABORATEUR'' 11"
  let ?r = "new_readiness (ex_prep_decision ''ACCEPTED'') ?ctx 11 ex_prep_package (''READY_FOR_ANALYSIS'', []) ex_prep_ready"
  have t: "cc_tenant_id ?ctx = 1" by (simp add: ex_prep_context_def)
  have "find_prep_package 1 50 ex_prep_ready = Some ex_prep_package"
    by (simp add: find_prep_package_def ex_prep_ready_def ex_prep_later_def ex_prep_requested_def ex_prep_tables_def ex_prep_package_def)
  moreover have "ensure_assignment ?ctx 11 ex_prep_package ex_prep_ready = None"
    by (simp add: ensure_assignment_def package_assignment_def t ex_prep_ready_def ex_prep_later_def ex_prep_requested_def ex_prep_tables_def
        ex_prep_package_def ex_prep_assignment_def)
  ultimately have o: "obtain_package ex_prep_evaluate ?ctx 11 ex_prep_ready = Inr (ex_prep_package, ex_prep_ready)"
    by (simp add: obtain_package_def t ex_prep_evaluate_def) (simp add: ex_prep_package_def)
  have d: "read_dce 1 (bp_dce_version_id ex_prep_package) ex_prep_ready = Some (''READY_FOR_ANALYSIS'', [])"
    by (simp add: read_dce_def requirement_inputs_def ex_prep_ready_def ex_prep_later_def ex_prep_requested_def ex_prep_tables_def
        ex_prep_package_def ex_prep_version_def)
  have key: "ry_id ?r = 80" "ry_revision ?r = 4" "ry_checked_requirement_count ?r = 0" "0 \<le> ry_checked_task_count ?r"
    "ry_state ?r \<in> {''READY'', ''READY_WITH_WARNINGS'', ''BLOCKED''}"
    by (simp_all add: new_readiness_def Let_def ex_prep_decision_def ex_prep_package_def verdict_state_def)
  have "pq_readiness ex_prep_ready = [ex_prep_readiness]"
    by (simp add: ex_prep_ready_def ex_prep_later_def ex_prep_requested_def ex_prep_tables_def)
  moreover have "ry_check ?r" unfolding ry_check_def using key by simp
  moreover have "\<not> ry_clash ?r ex_prep_readiness"
    unfolding ry_clash_def using key by (simp add: ex_prep_readiness_def)
  ultimately show ?thesis by (simp add: evaluate_readiness_def o t d Let_def sum_bind_Inr insert_row_Inr)
qed

definition ex_prep_decide :: "string \<Rightarrow> decide_review_fields" where
  "ex_prep_decide d = \<lparr> xd_review_id = 70, xd_package_id = 50, xd_target_document_id = 60, xd_expected_review_revision = 1,
     xd_decision_code = d, xd_decision_note = None \<rparr>"

text \<open>
  An ACTIVE assignment as its command creates it, the collaborator it was given to being the actor of the example;
  and the commands that they may wish to send about the package.
\<close>

definition ex_active_assignment :: case_assignment_row where
  "ex_active_assignment = ex_ended_assignment\<lparr> ca_state := ''ACTIVE'', ca_aggregate_revision := 0, ca_ended_at := None \<rparr>"

definition ex_active_db :: "asg_tables platform_db" where
  "ex_active_db = ex_asg_db\<lparr> db_business := ex_asg_tables\<lparr> at_assignments := [ex_active_assignment],
     at_changes := [creation_change (rq_command (ex_asg_request ''PATRON_ADMIN'' 9 1 (EndCaseAssignment 30 0 ''PATRON_ENDED''))) 9 70
       ex_active_assignment] \<rparr> \<rparr>"

lemma ex_active_inv: "asg_inv (db_business ex_active_db)"
proof -
  have "[0..0::int] = [0]" by (simp add: upto_rec1)
  moreover have "''assignment.acknowledge'' \<le> ''case.dce.read''" by code_simp
  ultimately show ?thesis
    by (simp add: asg_inv_def asg_row_inv_def asg_owned_def ex_active_db_def ex_asg_tables_def
        ex_active_assignment_def ex_ended_assignment_def ex_asg_request_def creation_change_def changes_of_def recorded_revisions_def
        acknowledgements_of_def unavailabilities_of_def change_ok_def row_scope_def scope_bounded_def
        scope_vocabulary_def internal_only_def Let_def)
qed

definition ex_prep_closed :: "prep_tables platform_db" where
  "ex_prep_closed = \<lparr> db_receipts = [], db_events = [], db_outbox = [],
     db_business = ex_prep_requested\<lparr> pq_assignments := at_assignments (db_business ex_active_db) \<rparr> \<rparr>"

definition ex_prep_evaluation :: "prep_command app_command" where
  "ex_prep_evaluation = \<lparr> em_command_type = ''EvaluatePreparationReadiness'', em_command_id = 96, em_idempotency_key = 96,
     em_correlation_id = None, em_body = EvaluatePreparationReadiness ex_prep_evaluate \<rparr>"

definition ex_prep_request :: "prep_command app_command" where
  "ex_prep_request = \<lparr> em_command_type = ''RequestPreparationReview'', em_command_id = 97, em_idempotency_key = 97, em_correlation_id = None,
     em_body = RequestPreparationReview \<lparr> xv_review_id = 98, xv_package_id = 50, xv_target_document_id = 60, xv_target_version = 1,
       xv_expected_package_revision = 3 \<rparr> \<rparr>"

definition ex_prep_snapshot :: "prep_command app_command" where
  "ex_prep_snapshot = \<lparr> em_command_type = ''CreatePreparationSnapshot'', em_command_id = 90, em_idempotency_key = 90, em_correlation_id = None,
     em_body = CreatePreparationSnapshot \<lparr> xs_package_id = 50, xs_snapshot_id = 91, xs_expected_package_revision = 4 \<rparr> \<rparr>"

lemma ex_prep_snapshot_body:
  "em_body ex_prep_snapshot = CreatePreparationSnapshot \<lparr> xs_package_id = 50, xs_snapshot_id = 91, xs_expected_package_revision = 4 \<rparr>"
  by (simp add: ex_prep_snapshot_def)

definition ex_prep_wording :: link_wording where
  "ex_prep_wording = \<lparr> lw_title = ''Revoir'', lw_why_now = ''Transmise'', lw_impact = ''Attente'', lw_recommended_action = ''Ouvrir'' \<rparr>"

definition ex_prep_call :: service_call where
  "ex_prep_call = \<lparr> sc_fresh = (\<lambda>n. of_nat n + 1000), sc_handler_fresh = (\<lambda>n. of_nat n + 2000), sc_now = 5, sc_seen = [] \<rparr>"

section \<open>Properties\<close>

text \<open>
  C4. Whatever the rest of the program does to the tables the preparation only reads, and through accepted and
  refused commands, the preparation keeps its trace: every evaluation has exactly the verdict of its codes and a
  package at least at its revision; every generated document comes from an unblocked evaluation of its package
  and the versions of a package have no holes; a review starts as requested and each later row decides the row
  before it while that one was open; corrections belong to reviews that asked for them; snapshots hash their
  manifest, rest on an unblocked evaluation and name an existing document version; transmissions have their
  snapshot, once, and their patron action; and the stored bytes of every document and draft have the recorded
  hash.
\<close>

theorem preparation_history_traced:
  assumes "prep_history wording (t, fs) (t', fs')" "prep_rows_inv t" "files_inv t fs"
  shows "prep_rows_inv t' \<and> files_inv t' fs'"
  using history_inv [OF assms(1)] assms(2,3) by simp

theorem preparation_history_traced_witness:
  "\<exists>ho t'. run_prep ex_prep_wording (ex_prep_decision ''CORRECTIONS_REQUIRED'') (ex_prep_context ''PATRON_ADMIN'' 9) ex_prep_requested ex_prep_files
     = (Inr (ho, t'), ex_prep_files) \<and> prep_rows_inv t' \<and> files_inv t' ex_prep_files"
proof -
  obtain ho t' where r: "run_prep ex_prep_wording (ex_prep_decision ''CORRECTIONS_REQUIRED'') (ex_prep_context ''PATRON_ADMIN'' 9) ex_prep_requested ex_prep_files
     = (Inr (ho, t'), ex_prep_files)" using ex_prep_decided(2) [of "''CORRECTIONS_REQUIRED''" "''RETURNED_WITH_CORRECTIONS''" ex_prep_wording] unfolding decided_state_def by (simp, blast)
  have "prep_history ex_prep_wording (ex_prep_requested, ex_prep_files) (t', ex_prep_files)"
    by (rule prep_history.accepted [OF prep_history.start ex_prep_decided(1) [of _ "''RETURNED_WITH_CORRECTIONS''"] r])
      (simp_all add: decided_state_def)
  then show ?thesis using preparation_history_traced [OF _ ex_prep_inv(1,2)] r by blast
qed

text \<open>
  C9. A generated document is never lost: whoever may read its package later finds the row and the bytes that
  were stored for it, and they have the hash recorded when it was generated.
\<close>

theorem generated_document_durable:
  assumes "prep_history wording (t, fs) (t', fs')" "prep_rows_inv t" "files_inv t fs" "d \<in> set (pq_documents t)" "tg_state d = ''GENERATED''"
    and "readable_package policy now a (tg_package_id d) t' = Inr p" "a_tenant_id a = tg_tenant_id d"
  shows "\<exists>bytes. read_generated_document policy now a (tg_package_id d) (tg_id d) t' fs' = Inr (d, bytes)
    \<and> storage_read (tg_storage_key d) fs = Inr bytes \<and> tg_content_sha256 d = sha256_bytes bytes"
proof -
  have p: "bp_id p = tg_package_id d"
    using assms(6) find_prep_package_Some by (fastforce simp: readable_package_def Let_def split: if_splits option.splits)
  have d: "d \<in> set (pq_documents t')" using history_keeps [OF assms(1)] assms(4) by auto
  have "distinct (map tg_id (pq_documents t'))"
    using history_inv [OF assms(1)] assms(2,3) by (simp add: prep_rows_inv_def)
  then have only: "x = d" if "x \<in> set (pq_documents t')" "tg_id x = tg_id d" for x
    using that d by (metis distinct_map inj_onD)
  let ?docs = "package_documents (a_tenant_id a) (bp_id p) t'"
  have "d \<in> set ?docs" "\<forall>x \<in> set ?docs. tg_id x = tg_id d \<longrightarrow> x = d"
    using d only assms(7) p by (auto simp: package_documents_Some)
  then have f: "List.find (\<lambda>x. tg_id x = tg_id d \<and> tg_state x = ''GENERATED'') ?docs = Some d"
    using assms(5) by (cases "List.find (\<lambda>x. tg_id x = tg_id d \<and> tg_state x = ''GENERATED'') ?docs")
      (auto simp: find_None_iff dest: find_Some_in)
  obtain bytes where "storage_read (tg_storage_key d) fs = Inr bytes" "tg_content_sha256 d = sha256_bytes bytes"
    using assms(3,4) by (auto simp: files_inv_def verified_def)
  moreover from this have "storage_read (tg_storage_key d) fs' = Inr bytes" using history_keeps [OF assms(1)] by simp
  ultimately show ?thesis by (simp add: read_generated_document_def assms(6) f)
qed

theorem generated_document_durable_witness:
  "\<exists>bytes. read_generated_document (\<lambda>_ _. decision_allow) 5 ex_collaborator 50 60 (ex_prep_later ex_prep_requested) ex_prep_files
     = Inr (ex_prep_document, bytes) \<and> sha256_bytes [35] = sha256_bytes bytes"
proof -
  have d: "ex_prep_document \<in> set (pq_documents ex_prep_requested)" by (simp add: ex_prep_requested_def ex_prep_tables_def)
  have key: "tg_state ex_prep_document = ''GENERATED''" "a_tenant_id ex_collaborator = tg_tenant_id ex_prep_document" "tg_package_id ex_prep_document = 50"
    "tg_id ex_prep_document = 60" "tg_content_sha256 ex_prep_document = sha256_bytes [35]"
    by (simp_all add: ex_prep_document_def ex_collaborator_def)
  have r: "readable_package (\<lambda>_ _. decision_allow) 5 ex_collaborator (tg_package_id ex_prep_document) (ex_prep_later ex_prep_requested) = Inr ex_prep_package"
    unfolding key by (simp add: readable_package_def ex_collaborator_def find_prep_package_def ex_prep_later_def ex_prep_requested_def ex_prep_tables_def
        ex_prep_package_def ex_prep_assignment_def decision_allow_def Let_def)
  show ?thesis using generated_document_durable [OF ex_prep_later_history ex_prep_inv(1,2) d key(1) r key(2)] unfolding key by blast
qed

text \<open>
  C6. A review decided as accepted or rejected stays so: through any history its last row is the decision, and no
  later decision or correction of it is accepted, in any state the history reaches.
\<close>

theorem review_decision_final:
  assumes "prep_history wording (t, fs) (t', fs')" "prep_rows_inv t" "files_inv t fs" "r \<in> set (pq_reviews t)" "\<not> undecided (rv_state r)"
    and "cc_tenant_id ctx = rv_tenant_id r" "xd_review_id f = rv_review_id r" "xc_review_id g = rv_review_id r"
  shows "latest_review (rv_tenant_id r) (rv_review_id r) t' = Some r
    \<and> (\<exists>e. decide_review f c ctx t' = Inl e) \<and> (\<exists>e. add_correction g c ctx t' = Inl e)"
proof -
  have "r \<in> set (pq_reviews t')" "prep_rows_inv t'" using history_keeps [OF assms(1)] history_inv [OF assms(1)] assms(2-4) by auto
  then have l: "latest_review (rv_tenant_id r) (rv_review_id r) t' = Some r" by (intro decided_latest assms(5))
  have "\<exists>e. decide_review f c ctx t' = Inl e" by (rule decided_refused(1)) (use l assms(5-7) in simp_all)
  moreover have "\<exists>e. add_correction g c ctx t' = Inl e" by (rule decided_refused(2)) (use l assms(5,6,8) in simp_all)
  ultimately show ?thesis using l by blast
qed

theorem review_decision_final_witness:
  "latest_review 1 70 (ex_prep_later ex_prep_accepted) = Some (ex_prep_review 2 ''ACCEPTED'' (Some ''ACCEPTED''))
   \<and> (\<exists>e. decide_review (ex_prep_decide ''REJECTED'') (ex_prep_decision ''REJECTED'') (ex_prep_context ''PATRON_ADMIN'' 9) (ex_prep_later ex_prep_accepted) = Inl e)"
proof -
  let ?r = "ex_prep_review 2 ''ACCEPTED'' (Some ''ACCEPTED'')"
  let ?g = "\<lparr> xc_review_id = 70, xc_package_id = 50, xc_target_document_id = 60, xc_correction_code = ''SOURCE_WRONG'', xc_instruction = ''voir'',
      xc_source_locator = None \<rparr>"
  have r: "?r \<in> set (pq_reviews ex_prep_accepted)" by (simp add: ex_prep_accepted_def ex_prep_tables_def)
  have key: "rv_tenant_id ?r = 1" "rv_review_id ?r = 70" "\<not> undecided (rv_state ?r)" by (simp_all add: ex_prep_review_def undecided_def)
  have c: "cc_tenant_id (ex_prep_context ''PATRON_ADMIN'' 9) = rv_tenant_id ?r" "xd_review_id (ex_prep_decide ''REJECTED'') = rv_review_id ?r"
    "xc_review_id ?g = rv_review_id ?r" by (simp_all add: key ex_prep_context_def ex_prep_decide_def)
  show ?thesis using review_decision_final [OF ex_prep_later_history ex_prep_inv(3,4) r key(3) c] unfolding key by blast
qed

text \<open>
  C5. The verdict of an evaluation is what the tables say: the new evaluation is BLOCKED exactly when something
  stands against the answer (the DCE version is not ready for analysis, a requirement is unsettled, a task is
  blocked, a proposed capability has no usable proof, a gap is blocking), READY when also nothing is left to be
  done, READY_WITH_WARNINGS otherwise; the state of the package says whether it is BLOCKED.
\<close>

theorem readiness_verdict_exact:
  assumes "evaluate_readiness f c ctx mid t = Inr (ho, t')" "ids_unique t" "prep_rows_inv t"
  shows "\<exists>r p. pq_readiness t' = pq_readiness t @ [r] \<and> ry_tenant_id r = cc_tenant_id ctx \<and> ry_package_id r = xr_package_id f
    \<and> ry_state r =
        (if \<not> answer_unobstructed (cc_tenant_id ctx) (cc_received_at ctx) (xr_case_id f) (xr_assignment_id f) (xr_dce_version_id f) t then ''BLOCKED''
         else if answer_complete (cc_tenant_id ctx) (xr_case_id f) (xr_assignment_id f) t then ''READY'' else ''READY_WITH_WARNINGS'')
    \<and> p \<in> set (pq_packages t') \<and> bp_id p = xr_package_id f \<and> bp_state p = (if ry_state r = ''BLOCKED'' then ''BLOCKED'' else ''READY'')"
proof -
  obtain p u dce where o: "obtain_package f ctx mid t = Inr (p, u)" and d: "read_dce (cc_tenant_id ctx) (bp_dce_version_id p) u = Some dce"
    and t': "t' = update_package p (if ry_state (new_readiness c ctx mid p dce u) = ''BLOCKED'' then ''BLOCKED'' else ''READY'')
        (u\<lparr> pq_readiness := pq_readiness u @ [new_readiness c ctx mid p dce u] \<rparr>)" by (rule evaluate_verdict [OF assms(1)])
  let ?r = "new_readiness c ctx mid p dce u"
  let ?s = "if ry_state ?r = ''BLOCKED'' then ''BLOCKED'' else ''READY''"
  note u = obtain_package_accepted [OF o assms(3)]
  have fields: "bp_case_id p = xr_case_id f" "bp_assignment_id p = xr_assignment_id f" "bp_dce_version_id p = xr_dce_version_id f"
    and same: "\<exists>rows. u = t\<lparr> pq_packages := rows \<rparr>" using obtained_fields [OF o] by simp_all
  then obtain rows where rows: "u = t\<lparr> pq_packages := rows \<rparr>" by blast
  have "ids_unique u" using assms(2) by (simp add: rows ids_unique_def)
  note nb = no_blockers [OF this d, of "cc_received_at ctx"]
  have un: "answer_unobstructed tid now cid aid vid u = answer_unobstructed tid now cid aid vid t"
    "answer_complete tid cid aid u = answer_complete tid cid aid t" for tid now cid aid vid
    by (simp_all add: rows answer_unobstructed_def answer_complete_def requirement_settled_def proposal_usable_def proof_usable_def)
  have "ry_state ?r = verdict_state (blocker_codes (cc_tenant_id ctx) (cc_received_at ctx) p dce u) (warning_codes (cc_tenant_id ctx) p u)"
    by (simp add: new_readiness_def Let_def)
  then have "ry_state ?r =
        (if \<not> answer_unobstructed (cc_tenant_id ctx) (cc_received_at ctx) (xr_case_id f) (xr_assignment_id f) (xr_dce_version_id f) t then ''BLOCKED''
         else if answer_complete (cc_tenant_id ctx) (xr_case_id f) (xr_assignment_id f) t then ''READY'' else ''READY_WITH_WARNINGS'')"
    using nb no_warnings [of "cc_tenant_id ctx" "cc_received_at ctx" p dce u] unfolding verdict_state_def fields un by (auto split: if_splits)
  moreover have "pq_readiness t' = pq_readiness t @ [?r]" by (simp add: t' rows)
  moreover have "ry_tenant_id ?r = cc_tenant_id ctx" "ry_package_id ?r = xr_package_id f" using u by (simp_all add: new_readiness_def Let_def)
  moreover have "p\<lparr> bp_aggregate_revision := bp_aggregate_revision p + 1, bp_state := ?s \<rparr> \<in> set (pq_packages t')"
    unfolding t' by (rule updated_package) (use u in simp)
  ultimately show ?thesis using u
    by (intro exI [of _ ?r] exI [of _ "p\<lparr> bp_aggregate_revision := bp_aggregate_revision p + 1, bp_state := ?s \<rparr>"]) simp
qed

theorem readiness_verdict_exact_witness:
  "\<exists>ho t' r. evaluate_readiness ex_prep_evaluate (ex_prep_decision ''ACCEPTED'') (ex_prep_context ''COLLABORATEUR'' 11) 11 ex_prep_ready = Inr (ho, t')
     \<and> pq_readiness t' = pq_readiness ex_prep_ready @ [r] \<and> ry_state r = ''READY_WITH_WARNINGS''"
proof -
  let ?ctx = "ex_prep_context ''COLLABORATEUR'' 11"
  obtain ho t' where e: "evaluate_readiness ex_prep_evaluate (ex_prep_decision ''ACCEPTED'') ?ctx 11 ex_prep_ready = Inr (ho, t')"
    using ex_prep_evaluated by blast
  have key: "cc_tenant_id ?ctx = 1" "cc_received_at ?ctx = 5" "xr_case_id ex_prep_evaluate = 40" "xr_assignment_id ex_prep_evaluate = 30"
    "xr_dce_version_id ex_prep_evaluate = 7" by (simp_all add: ex_prep_context_def ex_prep_evaluate_def)
  have "answer_unobstructed 1 5 40 30 7 ex_prep_ready" "\<not> answer_complete 1 40 30 ex_prep_ready"
    by (simp_all add: answer_unobstructed_def answer_complete_def ex_prep_ready_def ex_prep_later_def ex_prep_requested_def ex_prep_tables_def
        ex_prep_version_def)
  then show ?thesis using readiness_verdict_exact [OF e ex_prep_ready_inv(2,1)] e unfolding key by auto
qed

text \<open>
  C7. A decided review closes the package for snapshots. Once the patron has accepted or rejected a review, then after
  any history of preparation commands, accepted or refused, and of changes elsewhere (assignments, enterprise
  records, files), every attempt to create a snapshot of its package is refused, unless the package has meanwhile
  a higher revision, that is, unless another command has changed it: an acceptance leaves it READY, a rejection
  BLOCKED, and a snapshot wants it GENERATED or A_REVIEW.
\<close>

theorem decided_review_blocks_snapshot:
  assumes "decide_review f c ctx t = Inr (ho, t')" "xd_decision_code f \<noteq> ''CORRECTIONS_REQUIRED''" "prep_rows_inv t"
    and "prep_history wording (t', fs) (u, gs)"
    and "em_body c' = CreatePreparationSnapshot g" "xs_package_id g = xd_package_id f" "cc_tenant_id ctx' = cc_tenant_id ctx"
  shows "(\<exists>e. run_prep wording c' ctx' u gs = (Inl e, gs))
    \<or> (\<exists>p \<in> set (pq_packages t'). \<exists>q \<in> set (pq_packages u).
         bp_id p = xd_package_id f \<and> bp_id q = xd_package_id f \<and> bp_aggregate_revision p < bp_aggregate_revision q)"
proof -
  obtain p r state mid where pr: "reviewed ctx (xd_package_id f) (xd_review_id f) (xd_target_document_id f) t = Inr (p, r)"
    and s: "decided_state (xd_decision_code f) = Some state"
    and t': "t' = update_package p (decided_package_state state) (t\<lparr> pq_reviews := pq_reviews t @ [new_review (rv_review_id r) (bp_id p)
       (rv_target_document_id r) (rv_target_version r) (rv_revision r + 1) state (Some (xd_decision_code f)) (xd_decision_note f) c ctx mid] \<rparr>)"
    by (rule decide_accepted [OF assms(1)])
  note p = reviewed_accepted [OF pr]
  let ?p = "p\<lparr> bp_aggregate_revision := bp_aggregate_revision p + 1, bp_state := decided_package_state state \<rparr>"
  have p': "?p \<in> set (pq_packages t')" unfolding t' by (rule updated_package) (use p in simp)
  have closed: "bp_state ?p \<in> {''READY'', ''BLOCKED''}" "bp_id ?p = xd_package_id f" using s assms(2) p
    by (auto simp: decided_state_def decided_package_state_def split: if_splits)
  have "prep_rows_inv t'" using assms(1,3) decided_inv by blast
  then have u: "prep_rows_inv u" "packages_moved t' u" using history_packages [OF assms(4)] by simp_all
  obtain q where q: "q \<in> set (pq_packages u)" "bp_id q = xd_package_id f" "q = ?p \<or> bp_aggregate_revision ?p < bp_aggregate_revision q"
    using u(2) p' closed(2) unfolding packages_moved_def by metis
  show ?thesis
  proof (cases "q = ?p")
    case False
    then show ?thesis using p' closed(2) q by blast
  next
    case True
    have only: "x = q" if "find_prep_package (cc_tenant_id ctx) (xs_package_id g) u = Some x" for x
    proof (rule inj_onD)
      show "inj_on bp_id (set (pq_packages u))" using u(1) by (simp add: prep_rows_inv_def distinct_map)
    qed (use find_prep_package_Some [OF that] q(1,2) assms(6) in simp_all)
    have "\<exists>e. run_prep wording c' ctx' u gs = (Inl e, gs)"
    proof (cases "transmission_basis ctx' (xs_package_id g) (xs_expected_package_revision g) u")
      case (Inr mp)
      then obtain m x where mx: "mp = (m, x)" "find_prep_package (cc_tenant_id ctx) (xs_package_id g) u = Some x"
        by (cases mp) (auto simp: transmission_basis_def assms(7) split: option.splits if_splits)
      have "bp_state x \<in> {''READY'', ''BLOCKED''}" using only [OF mx(2)] True closed(1) by simp
      then have "create_snapshot g c' ctx' m x u = Inl (CommandExecutionError ''PREPARATION_NOT_GENERATED'')"
        by (auto simp: create_snapshot_def Let_def)
      then show ?thesis by (simp add: run_prep_def assms(5) Inr mx(1))
    qed (simp add: run_prep_def assms(5))
    then show ?thesis ..
  qed
qed

theorem decided_review_blocks_snapshot_witness:
  "\<exists>ho t' e. decide_review (ex_prep_decide ''ACCEPTED'') (ex_prep_decision ''ACCEPTED'') (ex_prep_context ''PATRON_ADMIN'' 9) ex_prep_requested = Inr (ho, t')
     \<and> run_prep ex_prep_wording ex_prep_snapshot (ex_prep_context ''COLLABORATEUR'' 11) (ex_prep_later t') ex_prep_files = (Inl e, ex_prep_files)"
proof -
  let ?f = "ex_prep_decide ''ACCEPTED''"
  have "\<exists>ho t'. run_prep ex_prep_wording (ex_prep_decision ''ACCEPTED'') (ex_prep_context ''PATRON_ADMIN'' 9) ex_prep_requested ex_prep_files
      = (Inr (ho, t'), ex_prep_files)"
    by (rule ex_prep_decided(2) [of "''ACCEPTED''" "''ACCEPTED''"]) (simp_all add: decided_state_def)
  then obtain ho t' where d: "decide_review ?f (ex_prep_decision ''ACCEPTED'') (ex_prep_context ''PATRON_ADMIN'' 9) ex_prep_requested = Inr (ho, t')"
    by (auto simp: run_prep_def ex_prep_decision_def ex_prep_decide_def)
  have "(\<exists>e. run_prep ex_prep_wording ex_prep_snapshot (ex_prep_context ''COLLABORATEUR'' 11) (ex_prep_later t') ex_prep_files = (Inl e, ex_prep_files))
      \<or> (\<exists>p \<in> set (pq_packages t'). \<exists>q \<in> set (pq_packages (ex_prep_later t')).
           bp_id p = xd_package_id ?f \<and> bp_id q = xd_package_id ?f \<and> bp_aggregate_revision p < bp_aggregate_revision q)"
    by (rule decided_review_blocks_snapshot [OF d _ ex_prep_inv(1) ex_prep_later_history ex_prep_snapshot_body])
      (simp_all add: ex_prep_decide_def ex_prep_context_def)
  moreover have "distinct (map bp_id (pq_packages t'))" using decided_inv [OF d ex_prep_inv(1)] by (simp add: prep_rows_inv_def)
  then have "p = q" if "p \<in> set (pq_packages t')" "q \<in> set (pq_packages (ex_prep_later t'))" "bp_id p = bp_id q" for p q
    using that by (simp add: ex_prep_later_def) (metis distinct_map inj_onD)
  ultimately obtain e where "run_prep ex_prep_wording ex_prep_snapshot (ex_prep_context ''COLLABORATEUR'' 11) (ex_prep_later t') ex_prep_files
      = (Inl e, ex_prep_files)" by (metis less_irrefl)
  with d show ?thesis by (intro exI conjI)
qed

text \<open>
  C8. The preparation is closed to assignments made by the assignment commands: their vocabulary has no
  \<open>work.task.write\<close>, which every collaborator command of the preparation demands. So while the assignment
  invariant holds, both commands of \<open>PreparationService\<close> (the evaluation of the readiness and the generation of a
  document) and both collaborator commands of the review service (a review request and a response draft) are
  answered with a permission error and change nothing, whoever sends them.
\<close>

theorem preparation_closed_to_assigned:
  assumes "asg_inv b" "pq_assignments (db_business db) = at_assignments b"
  shows "(preparation_command (em_body c) \<longrightarrow> (\<exists>m. preparation_execute policy wording dump sc wall fs a c db = (Inl (PermissionError m), db)))
    \<and> (collaborator_review_write (em_body c) \<longrightarrow> (\<exists>m. review_execute policy wording dump sc fs a c db = (Inl (PermissionError m), db)))"
proof -
  have out: "work_scope \<notin> set (ca_scope_actions r)" if "r \<in> set (pq_assignments (db_business db))" for r
  proof -
    have "set (ca_scope_actions r) \<subseteq> set scope_vocabulary" using assms that by (simp add: asg_inv_def asg_row_inv_def scope_bounded_def)
    moreover have "work_scope \<notin> set scope_vocabulary" by (simp add: work_scope_def scope_vocabulary_def)
    ultimately show ?thesis by blast
  qed
  then have none: "resolve_assignment wall a aid cid (db_business db) = None" for aid cid
    by (auto simp: resolve_assignment_def dest!: find_Some_in split: option.splits)
  have "preparation_command (em_body c) \<Longrightarrow> \<exists>m. preparation_execute policy wording dump sc wall fs a c db = (Inl (PermissionError m), db)"
    by (auto simp: preparation_execute_def prep_target_def preparation_command_def none split: option.splits prep_command.splits)
  moreover have "resolve_package a pid (db_business db) = None" if "a_actor_kind a \<noteq> PATRON_ADMIN" for pid
    using that out by (auto simp: resolve_package_def dest!: find_Some_in split: option.splits)
  then have "collaborator_review_write (em_body c) \<Longrightarrow> \<exists>m. review_execute policy wording dump sc fs a c db = (Inl (PermissionError m), db)"
    by (cases "a_actor_kind a = COLLABORATEUR") (auto simp: review_execute_def split: option.splits bind_splits)
  ultimately show ?thesis by blast
qed

theorem preparation_closed_to_assigned_witness:
  "(\<exists>m. preparation_execute (\<lambda>_ _. decision_allow) ex_prep_wording (\<lambda>_. []) ex_prep_call 5 ex_prep_files ex_collaborator ex_prep_evaluation ex_prep_closed
     = (Inl (PermissionError m), ex_prep_closed))
   \<and> (\<exists>m. review_execute (\<lambda>_ _. decision_allow) ex_prep_wording (\<lambda>_. []) ex_prep_call ex_prep_files ex_collaborator ex_prep_request ex_prep_closed
     = (Inl (PermissionError m), ex_prep_closed))"
proof -
  have a: "pq_assignments (db_business ex_prep_closed) = at_assignments (db_business ex_active_db)" by (simp add: ex_prep_closed_def)
  note both = preparation_closed_to_assigned [OF ex_active_inv a]
  show ?thesis
    by (intro conjI both [THEN conjunct1, rule_format] both [THEN conjunct2, rule_format])
      (simp_all add: preparation_command_def ex_prep_evaluation_def collaborator_review_write_def ex_prep_request_def)
qed

end
