(* ===== verification/Spec2Isabelle.thy ===== *)
theory Spec2Isabelle
  imports CaseAggregate ConsultationAggregate DceVersionAggregate DecisionAggregate DecisionRules
    PatronAction AssignmentHistory CockpitClaims SubmissionClaims RequirementClaims DecisionClaims RiskClaims PreparationClaims
begin

text \<open>
  A verification library for the SMART AO backend (\<open>src/backend/app\<close>): a multi-tenant service with which a building
  company receives the tender documents of a consultation (the DCE), reads their requirements, decides GO or NO-GO,
  prepares a technical answer and submits it. The paths below are relative to \<open>src/backend/app\<close>.

  \<^bold>\<open>The program and its parts.\<close> A request carries an access token. \<open>platform/security\<close> turns it into an actor context
  and decides by a policy (\<open>Sessions\<close>, \<open>Security\<close>, \<open>SecurityAudit\<close>). A service checks the policy and hands a command to
  the dispatcher (\<open>platform/events/dispatcher.py\<close>, theory \<open>Dispatcher\<close>), which runs one handler and stores its result,
  its domain events and its outbox messages in one transaction, once per idempotency key. Workers take the messages
  from the outbox (\<open>CockpitProjection\<close>). The business modules are handlers over tables:

  \<^item> \<open>CaseAggregate\<close>, \<open>ConsultationAggregate\<close>, \<open>DceVersionAggregate\<close>, \<open>DecisionAggregate\<close>: the four aggregate roots of
    \<open>modules/*/domain\<close>, on the contract of \<open>Aggregates\<close>; \<open>DecisionRules\<close>: the pure rules of \<open>modules/decision/domain\<close>
    and \<open>modules/pricing/domain\<close> that decisions use.
  \<^item> \<open>Assignments\<close>, \<open>AssignmentHistory\<close>: who may work on a case (\<open>modules/membership\<close>).
  \<^item> \<open>DceIntake\<close>, \<open>AdmittedCorpus\<close>, \<open>IntakeProperties\<close>: consultations, staged objects and DCE versions
    (\<open>modules/dce/application/handlers.py\<close>); \<open>RequirementTables\<close>, \<open>DceRequirements\<close>, \<open>RequirementTrace\<close>,
    \<open>RequirementClaims\<close>: materialised requirements, their confirmation and their impacts.
  \<^item> \<open>DecisionTables\<close>, \<open>DecisionLedger\<close>, \<open>DecisionTrace\<close>, \<open>DecisionClaims\<close>: the stored GO/NO-GO decisions
    (\<open>modules/decision/application/lifecycle.py\<close>, \<open>finalize.py\<close>); \<open>DecisionRisks\<close>, \<open>RiskClaims\<close>: the risk register.
  \<^item> \<open>PatronAction\<close>: the action queue of the patron (\<open>modules/patron_action\<close>).
  \<^item> \<open>PreparationTables\<close>, \<open>PreparationText\<close>, \<open>Preparation\<close>, \<open>PreparationReview\<close>, \<open>PreparationTransmission\<close>,
    \<open>PreparationService\<close>, \<open>PreparationTrace\<close>, \<open>PreparationClaims\<close>: readiness, generated documents, reviews, snapshots
    and their transmission (\<open>modules/preparation\<close>).
  \<^item> \<open>SubmissionTables\<close>, \<open>Submission\<close>, \<open>SubmissionProperties\<close>, \<open>SubmissionClaims\<close>: submission packages, evidence,
    signatures and exports (\<open>modules/submission\<close>).
  \<^item> \<open>CockpitProjection\<close>, \<open>CockpitDelivery\<close>, \<open>CockpitClaims\<close>: the delivery of the outbox to the cockpit
    (\<open>workers/cockpit_projection.py\<close>).
  Shared: \<open>Prelude\<close> (Python values, strings, exceptions, tables), \<open>Encoding\<close> (\<open>json.dumps\<close> and SHA-256, computed),
  \<open>NameUuid\<close> (\<open>uuid5\<close> and SHA-1), \<open>UuidText\<close> (\<open>uuid.UUID\<close>).

  \<^bold>\<open>How state and operations correspond to the code.\<close> A table is the list of its rows in insertion order, a row a record
  with the columns the code uses; \<open>insert_row\<close> is an insertion with the CHECK and UNIQUE constraints of the model class,
  \<open>update_where\<close> an update, \<open>find\<close> a query. Where the database refuses more than that and a command meets it, it is written
  out: the column width and the tenant key of the audit table (\<open>audit_record\<close>), the trigger of the signature table
  (\<open>flush_signature_update\<close>). An aggregate is a record, an operation a function to the error or the new
  aggregate. A handler is a function of the command, the context, the tables and its fresh UUIDs to an error or an outcome
  with the new tables: every raise is a value on the left of a sum and a refused command leaves the tables as they were,
  which is the rollback. A command that the command classes would refuse (pydantic) is excluded by its \<open>_valid\<close>
  predicate. Concurrency is modelled where the code meets it: the dispatcher is given the receipts its first read saw
  (\<open>seen\<close>), which may be older than the tables it commits to; histories interleave commands with steps of the rest of
  the program (\<open>prep_history\<close>, the histories of the Decision module, the worker's clock).

  \<^bold>\<open>What the lemmas show.\<close> Each component has an invariant that explains every row by the rows it came from, effect lemmas
  for each handler on its accepting and refusing branches, and the properties over histories, which are the numbered
  claims in the theories that end in \<open>Claims\<close>, \<open>Properties\<close> or in the component's own theory. Two refinements connect the
  levels: the stored decisions implement the Decision aggregate, the admitted corpora implement the DceVersion aggregate.
  Interfaces are locales, interpreted on the model: \<open>revisioned_aggregate\<close> (the contract of the aggregate roots),
  \<open>authorization_policy\<close> (what services rely on when they ask the policy), \<open>command_handlers\<close> (an invariant that every
  handler keeps is kept by every run of the dispatcher) and \<open>document_storage\<close>.

  \<^bold>\<open>Bounds and fuel.\<close> Integers of the program are Python's, unbounded, and are \<open>int\<close> here; SHA-1, SHA-256 and UUIDs are
  computed on words of 32 and 128 bits. No definition runs on fuel: recursions are structural or have a termination proof;
  the worker's loop is a function of the number of its polls, and the theorem on the draining queue says how many are
  enough. String columns hold Latin-1 text, except where \<open>PreparationText\<close> uses code points.

  \<^bold>\<open>Parameters.\<close> The clock, fresh UUIDs, random tokens and the wall clock of \<open>_resolve_assignment\<close>; the JWT library and the
  password hasher; the policy where a theorem holds for every policy; the ports of the worker; the canonical dump of a
  command, of which the dispatcher only needs a text to hash; the French wording of patron actions; the archive format of
  an export. Hypotheses on a parameter are premises of the theorem that needs them.

  \<^bold>\<open>Not modelled.\<close> HTTP routes, bootstrapping and settings (glue: they build the services and translate results to status
  codes); the other workers (mail, webhooks, retention, object storage, extraction of text from PDF, embeddings: they drive
  libraries and services that are not in the repository); market watch, knowledge, optimisation, pricing imports, enterprise
  library commands, collaborator tasks and read models (same shape as the handlers modelled here, over further tables);
  the classification and consultation-rule records of the intake; migrations (but for that
  trigger), the web frontend, tests and scripts.
\<close>

end
